(* ===== verification/Prelude.thy ===== *)
theory Prelude
  imports Main "HOL-Library.Word" "HOL-Library.AList" "HOL-Library.Sublist"
begin

text \<open>
  Shared notation and lemmas of the development.

  Fixed-width integers: a Go \<open>int32\<close> is a 32-bit word read as signed (\<open>sint\<close>), a
  conversion \<open>int32(n)\<close> is \<open>word_of_int n\<close> and wraps.  A Go \<open>int\<close> (64 bits) is an
  \<open>int\<close>; where the source parses one, the range check of \<open>strconv\<close> is written out.

  Go maps with string keys are association lists with \<open>map_of\<close> as lookup,
  \<open>AList.update\<close> as assignment and \<open>AList.delete\<close> as \<open>delete\<close>.  Indexing a
  missing key gives the zero value of the element type (\<open>gm_index\<close>).  The order in which
  \<open>range\<close> visits a map is not specified by Go: \<open>go_range\<close> asks an order oracle for a
  permutation of the keys, and every theorem holds for every oracle.
\<close>

type_synonym int32 = "32 word"
type_synonym 'a gomap = "(string \<times> 'a) list"

definition to_int32 :: "int \<Rightarrow> int32" where
  "to_int32 n = word_of_int n"

named_theorems trim_simps \<open>facts about trimming and case folding of strings\<close>
named_theorems emit_intros \<open>introduction rules for the calls a computation may make\<close>
named_theorems io_simps \<open>unfolding of the effect combinators\<close>

subsection \<open>Lists\<close>

lemma dropWhile_idem: "dropWhile P (dropWhile P xs) = dropWhile P xs"
  by (induction xs) auto

lemma dropWhile_id: "xs = [] \<or> \<not> P (hd xs) \<Longrightarrow> dropWhile P xs = xs"
  by (cases xs) auto

lemma map_dropWhile: "(\<And>x. P (f x) = P x) \<Longrightarrow> dropWhile P (map f xs) = map f (dropWhile P xs)"
  by (induction xs) auto

lemma filter_map_conv: "filter P (map f xs) = map f (filter (P \<circ> f) xs)"
  by (induction xs) auto

lemma distinct_index_inj:
  "distinct (map f xs) \<Longrightarrow> x \<in> set xs \<Longrightarrow> y \<in> set xs \<Longrightarrow> f x = f y \<Longrightarrow> x = y"
  by (induction xs) (auto simp: image_iff)

lemma find_Some_set: "find P xs = Some x \<Longrightarrow> x \<in> set xs \<and> P x"
  by (metis find_Some_iff nth_mem)

lemma map_filter_set: "set (List.map_filter f xs) = {y. \<exists>x \<in> set xs. f x = Some y}"
  by (induction xs) (auto simp: List.map_filter_def)

subsection \<open>Go maps\<close>

definition gm_index :: "'a \<Rightarrow> 'a gomap \<Rightarrow> string \<Rightarrow> 'a" where
  "gm_index z m k = (case map_of m k of None \<Rightarrow> z | Some v \<Rightarrow> v)"

definition gm_has :: "'a gomap \<Rightarrow> string \<Rightarrow> bool" where
  "gm_has m k = (map_of m k \<noteq> None)"

definition gm_keys :: "'a gomap \<Rightarrow> string list" where
  "gm_keys m = map fst m"

abbreviation gm_set :: "string \<Rightarrow> 'a \<Rightarrow> 'a gomap \<Rightarrow> 'a gomap" where
  "gm_set \<equiv> AList.update"

abbreviation gm_del :: "string \<Rightarrow> 'a gomap \<Rightarrow> 'a gomap" where
  "gm_del \<equiv> AList.delete"

text \<open>A well-formed map holds every key once; every operation keeps that.\<close>

definition gm_wf :: "'a gomap \<Rightarrow> bool" where
  "gm_wf m = distinct (map fst m)"

lemma gm_wf_empty [simp]: "gm_wf []"
  by (simp add: gm_wf_def)

lemma gm_wf_set [simp]: "gm_wf m \<Longrightarrow> gm_wf (gm_set k v m)"
  by (simp add: gm_wf_def distinct_update)

lemma gm_wf_del [simp]: "gm_wf m \<Longrightarrow> gm_wf (gm_del k m)"
  by (simp add: gm_wf_def distinct_delete)

lemma map_of_gm_set [simp]: "map_of (gm_set k v m) k' = (if k' = k then Some v else map_of m k')"
  by (simp add: update_conv)

lemma map_of_gm_del [simp]: "map_of (gm_del k m) k' = (if k' = k then None else map_of m k')"
  by (simp add: delete_conv)

lemma set_gm_del: "set (gm_del k m) = {p \<in> set m. fst p \<noteq> k}"
  by (induction m) auto

lemma ran_gm_set_subset: "snd ` set (gm_set k v m) \<subseteq> insert v (snd ` set m)"
  by (induction m) auto

lemma set_gm_set_subset: "set (gm_set k v m) \<subseteq> insert (k, v) (set m)"
  by (induction m) auto

text \<open>The order oracle is used only when it answers with a permutation of the keys.\<close>

definition go_range :: "(string list \<Rightarrow> string list) \<Rightarrow> 'a gomap \<Rightarrow> (string \<times> 'a) list" where
  "go_range ord m =
     (let ks = ord (gm_keys m);
          ks' = (if distinct ks \<and> set ks = set (gm_keys m) then ks else remdups (gm_keys m))
      in List.map_filter (\<lambda>k. map_option (Pair k) (map_of m k)) ks')"

lemma go_range_member: "(k, v) \<in> set (go_range ord m) \<longleftrightarrow> map_of m k = Some v"
proof -
  have "map_of m k = Some v \<Longrightarrow> k \<in> set (gm_keys m)"
    by (metis gm_keys_def domI dom_map_of_conv_image_fst list.set_map)
  then show ?thesis
    by (auto simp: go_range_def Let_def List.map_filter_def image_iff)
qed

lemma go_range_keys: "map fst (go_range ord m) =
    (if distinct (ord (gm_keys m)) \<and> set (ord (gm_keys m)) = set (gm_keys m)
     then ord (gm_keys m) else remdups (gm_keys m))"
proof -
  have aux: "set ks \<subseteq> set (gm_keys m) \<Longrightarrow>
      map fst (List.map_filter (\<lambda>k. map_option (Pair k) (map_of m k)) ks) = ks" for ks
  proof (induction ks)
    case Nil
    then show ?case by (simp add: List.map_filter_def)
  next
    case (Cons k ks)
    then obtain v where "map_of m k = Some v"
      by (auto simp: gm_keys_def) (metis map_of_eq_None_iff not_Some_eq image_eqI fst_conv)
    with Cons show ?case by (simp add: List.map_filter_def)
  qed
  show ?thesis by (simp add: go_range_def Let_def aux)
qed

lemma distinct_go_range: "distinct (map fst (go_range ord m))"
  by (simp add: go_range_keys)

lemma go_range_set_values: "snd ` set (go_range ord m) \<subseteq> snd ` set m"
proof
  fix v assume "v \<in> snd ` set (go_range ord m)"
  then obtain k where "(k, v) \<in> set (go_range ord m)" by auto
  then have "(k, v) \<in> set m" by (auto simp: go_range_member dest: map_of_SomeD)
  then show "v \<in> snd ` set m" by force
qed

lemma go_range_Nil [simp]: "go_range ord [] = []"
  by (simp add: go_range_def gm_keys_def List.map_filter_def)

end
