(* ===== verification/GoStrings.thy ===== *)
theory GoStrings
  imports Prelude "HOL-Library.Char_ord" "HOL-Library.List_Lexorder"
begin

text \<open>
  The part of Go's \<open>strings\<close>, \<open>strconv\<close> and \<open>fmt\<close> packages the program uses.  A Go
  string is a list of bytes (\<open>char\<close>).  Case mapping and white space are those of ASCII:
  on ASCII strings (Kubernetes names, CMP identifiers, enum spellings, host names) they agree
  with Go's, and bytes above 127 are left unchanged.
\<close>

definition is_space :: "char \<Rightarrow> bool" where
  "is_space c \<longleftrightarrow> c = CHR '' '' \<or> c = CHR 0x09 \<or> c = CHR 0x0A \<or> c = CHR 0x0B \<or> c = CHR 0x0C \<or> c = CHR 0x0D"

definition trim_by :: "(char \<Rightarrow> bool) \<Rightarrow> string \<Rightarrow> string" where
  "trim_by p s = rev (dropWhile p (rev (dropWhile p s)))"

definition trim_space :: "string \<Rightarrow> string" where
  "trim_space s = trim_by is_space s"

definition trim_char :: "char \<Rightarrow> string \<Rightarrow> string" where
  "trim_char c s = trim_by (\<lambda>x. x = c) s"

definition lower_char :: "char \<Rightarrow> char" where
  "lower_char c = (let n = (of_char c :: nat) in if 65 \<le> n \<and> n \<le> 90 then char_of (n + 32) else c)"

definition upper_char :: "char \<Rightarrow> char" where
  "upper_char c = (let n = (of_char c :: nat) in if 97 \<le> n \<and> n \<le> 122 then char_of (n - 32) else c)"

definition to_lower :: "string \<Rightarrow> string" where
  "to_lower s = map lower_char s"

definition to_upper :: "string \<Rightarrow> string" where
  "to_upper s = map upper_char s"

definition equal_fold :: "string \<Rightarrow> string \<Rightarrow> bool" where
  "equal_fold s t = (to_lower s = to_lower t)"

definition replace_char :: "char \<Rightarrow> char \<Rightarrow> string \<Rightarrow> string" where
  "replace_char a b s = map (\<lambda>c. if c = a then b else c) s"

fun split_on :: "char \<Rightarrow> string \<Rightarrow> string list" where
  "split_on c [] = [[]]"
| "split_on c (x # xs) =
     (if x = c then [] # split_on c xs
      else (case split_on c xs of [] \<Rightarrow> [[x]] | w # ws \<Rightarrow> (x # w) # ws))"

text \<open>\<open>strings.Fields\<close>: the maximal runs of non-space bytes.\<close>

definition str_fields :: "string \<Rightarrow> string list" where
  "str_fields s = filter (\<lambda>w. w \<noteq> []) (split_on (CHR '' '') (map (\<lambda>c. if is_space c then CHR '' '' else c) s))"

fun join :: "string \<Rightarrow> string list \<Rightarrow> string" where
  "join sep [] = []"
| "join sep [x] = x"
| "join sep (x # y # xs) = x @ sep @ join sep (y # xs)"

definition has_prefix :: "string \<Rightarrow> string \<Rightarrow> bool" where
  "has_prefix s p = (take (length p) s = p)"

definition trim_prefix :: "string \<Rightarrow> string \<Rightarrow> string" where
  "trim_prefix s p = (if has_prefix s p then drop (length p) s else s)"

text \<open>\<open>strings.Cut\<close> at one separator byte: before, after, found.\<close>

definition cut :: "char \<Rightarrow> string \<Rightarrow> string \<times> string \<times> bool" where
  "cut c s = (if c \<in> set s then (takeWhile (\<lambda>x. x \<noteq> c) s, drop 1 (dropWhile (\<lambda>x. x \<noteq> c) s), True)
              else (s, [], False))"

text \<open>\<open>strings.SplitN\<close> with a positive count: the last piece keeps its separators.\<close>

fun split_n :: "nat \<Rightarrow> char \<Rightarrow> string \<Rightarrow> string list" where
  "split_n 0 c s = []"
| "split_n (Suc 0) c s = [s]"
| "split_n (Suc (Suc n)) c s =
     (case cut c s of (a, b, found) \<Rightarrow> if found then a # split_n (Suc n) c b else [s])"

subsection \<open>Decimal integers\<close>

definition digit :: "nat \<Rightarrow> char" where
  "digit n = char_of (48 + n)"

fun show_nat :: "nat \<Rightarrow> string" where
  "show_nat n = (if n < 10 then [digit n] else show_nat (n div 10) @ [digit (n mod 10)])"

declare show_nat.simps [simp del]

definition show_int :: "int \<Rightarrow> string" where
  "show_int i = (if i < 0 then CHR ''-'' # show_nat (nat (- i)) else show_nat (nat i))"

definition show_i32 :: "int32 \<Rightarrow> string" where
  "show_i32 w = show_int (sint w)"

definition is_digit :: "char \<Rightarrow> bool" where
  "is_digit c \<longleftrightarrow> 48 \<le> (of_char c :: nat) \<and> (of_char c :: nat) \<le> 57"

definition digits_val :: "string \<Rightarrow> nat" where
  "digits_val s = foldl (\<lambda>a c. 10 * a + (of_char c - 48)) 0 s"

definition parse_digits :: "string \<Rightarrow> nat option" where
  "parse_digits s = (if s \<noteq> [] \<and> list_all is_digit s then Some (digits_val s) else None)"

text \<open>\<open>strconv.Atoi\<close> on a 64-bit platform: an optional sign, digits, a range check.\<close>

definition atoi :: "string \<Rightarrow> int option" where
  "atoi s =
     (let parsed =
        (case s of
           [] \<Rightarrow> None
         | c # cs \<Rightarrow>
             if c = CHR ''-'' then map_option (\<lambda>n. - int n) (parse_digits cs)
             else if c = CHR ''+'' then map_option int (parse_digits cs)
             else map_option int (parse_digits s))
      in case parsed of
           None \<Rightarrow> None
         | Some n \<Rightarrow> if - (2 ^ 63) \<le> n \<and> n < 2 ^ 63 then Some n else None)"

subsection \<open>Trimming\<close>

lemma trim_by_Nil [simp]: "trim_by p [] = []"
  by (simp add: trim_by_def)

lemma trim_space_Nil [simp, trim_simps]: "trim_space [] = []"
  by (simp add: trim_space_def)

lemma dropWhile_rev_hd:
  assumes "xs = [] \<or> \<not> p (hd xs)"
  shows "rev (dropWhile p (rev xs)) = [] \<or> \<not> p (hd (rev (dropWhile p (rev xs))))"
proof (cases "xs = [] \<or> (\<forall>x \<in> set xs. p x)")
  case True
  then show ?thesis by auto
next
  case False
  with assms have h: "xs \<noteq> []" "\<not> p (hd xs)" by auto
  then obtain y ys where xs: "xs = y # ys" "\<not> p y" by (cases xs) auto
  have "rev (dropWhile p (rev ys @ [y])) = y # rev (dropWhile p (rev ys))"
    if "\<exists>z \<in> set ys. \<not> p z"
    using that by (simp add: dropWhile_append)
  moreover have "rev (dropWhile p (rev ys @ [y])) = [y]" if "\<forall>z \<in> set ys. p z"
    using that xs by (simp add: dropWhile_append)
  ultimately show ?thesis using xs by (cases "\<forall>z \<in> set ys. p z") auto
qed

lemma trim_by_hd: "trim_by p s = [] \<or> \<not> p (hd (trim_by p s))"
  unfolding trim_by_def
  by (rule dropWhile_rev_hd) (metis hd_dropWhile)

lemma trim_by_last: "trim_by p s = [] \<or> \<not> p (last (trim_by p s))"
  unfolding trim_by_def by (metis hd_dropWhile hd_rev rev_is_Nil_conv rev_rev_ident)

lemma trim_by_id: "s = [] \<or> (\<not> p (hd s) \<and> \<not> p (last s)) \<Longrightarrow> trim_by p s = s"
  unfolding trim_by_def by (cases "s = []") (auto simp: dropWhile_id hd_rev)

lemma trim_by_idem: "trim_by p (trim_by p s) = trim_by p s"
  using trim_by_hd [of p s] trim_by_last [of p s] by (intro trim_by_id) auto

lemma trim_space_idem [simp, trim_simps]: "trim_space (trim_space s) = trim_space s"
  by (simp add: trim_space_def trim_by_idem)

lemma set_trim_by: "set (trim_by p s) \<subseteq> set s"
  unfolding trim_by_def by (auto dest!: set_dropWhileD)

lemma length_trim_by: "length (trim_by p s) \<le> length s"
  unfolding trim_by_def
  by (metis (no_types, lifting) length_dropWhile_le length_rev le_trans)

lemma trim_space_no_space: "\<forall>c \<in> set s. \<not> is_space c \<Longrightarrow> trim_space s = s"
  unfolding trim_space_def by (rule trim_by_id) auto

lemma trim_space_eq_Nil: "trim_space s = [] \<longleftrightarrow> (\<forall>c \<in> set s. is_space c)"
proof
  assume "trim_space s = []"
  then have "\<forall>c \<in> set (dropWhile is_space s). is_space c"
    by (simp add: trim_space_def trim_by_def dropWhile_eq_Nil_conv)
  then have "dropWhile is_space s = []"
    by (metis hd_dropWhile hd_in_set)
  then show "\<forall>c \<in> set s. is_space c" by (simp add: dropWhile_eq_Nil_conv)
next
  assume "\<forall>c \<in> set s. is_space c"
  then show "trim_space s = []"
    by (auto simp: trim_space_def trim_by_def dropWhile_eq_Nil_conv dest: set_dropWhileD)
qed

subsection \<open>Case folding\<close>

lemma char_eq_nat: "(of_char c :: nat) = of_char d \<Longrightarrow> c = d"
  by simp

lemma of_char_lower: "(of_char (lower_char c) :: nat) =
    (if 65 \<le> (of_char c :: nat) \<and> (of_char c :: nat) \<le> 90 then of_char c + 32 else of_char c)"
  by (simp add: lower_char_def Let_def of_char_of)

lemma of_char_upper: "(of_char (upper_char c) :: nat) =
    (if 97 \<le> (of_char c :: nat) \<and> (of_char c :: nat) \<le> 122 then of_char c - 32 else of_char c)"
proof -
  have "(of_char c :: nat) < 256" by (rule nat_of_char_less_256)
  then have "(of_char c - 32) mod 256 = (of_char c - 32 :: nat)"
    by (intro mod_less) linarith
  then show ?thesis by (simp add: upper_char_def Let_def of_char_of)
qed

lemma lower_char_idem [simp]: "lower_char (lower_char c) = lower_char c"
  by (rule char_eq_nat) (auto simp: of_char_lower)

lemma upper_char_idem [simp]: "upper_char (upper_char c) = upper_char c"
  by (rule char_eq_nat) (auto simp: of_char_upper)

lemma lower_upper_char [simp]: "lower_char (upper_char c) = lower_char c"
  by (rule char_eq_nat) (auto simp: of_char_lower of_char_upper)

lemma to_lower_idem [simp, trim_simps]: "to_lower (to_lower s) = to_lower s"
  by (simp add: to_lower_def)

lemma to_upper_idem [simp, trim_simps]: "to_upper (to_upper s) = to_upper s"
  by (simp add: to_upper_def)

lemma is_space_code: "is_space c \<longleftrightarrow> (of_char c :: nat) \<in> {32, 9, 10, 11, 12, 13}"
proof -
  have "c = d \<longleftrightarrow> (of_char c :: nat) = of_char d" for d
    using char_eq_nat by blast
  from this [of "CHR '' ''"] this [of "CHR 0x09"] this [of "CHR 0x0A"] this [of "CHR 0x0B"]
    this [of "CHR 0x0C"] this [of "CHR 0x0D"]
  show ?thesis by (simp add: is_space_def)
qed

lemma is_space_lower: "is_space (lower_char c) = is_space c"
  by (auto simp: is_space_code of_char_lower)

lemma trim_space_to_lower [simp, trim_simps]: "trim_space (to_lower s) = to_lower (trim_space s)"
proof -
  have lower: "dropWhile is_space (map lower_char t) = map lower_char (dropWhile is_space t)" for t
    by (rule map_dropWhile) (rule is_space_lower)
  show ?thesis by (simp only: trim_space_def trim_by_def to_lower_def rev_map lower)
qed

lemma equal_fold_refl [simp]: "equal_fold s s"
  by (simp add: equal_fold_def)

lemma equal_fold_sym: "equal_fold s t \<longleftrightarrow> equal_fold t s"
  by (auto simp: equal_fold_def)

lemma equal_fold_upper [simp]: "equal_fold (to_upper s) t \<longleftrightarrow> equal_fold s t"
  by (simp add: equal_fold_def to_lower_def to_upper_def comp_def)

subsection \<open>Decimal round trip\<close>

lemma of_char_digit: "n < 10 \<Longrightarrow> (of_char (digit n) :: nat) = 48 + n"
  by (simp add: digit_def of_char_of)

lemma is_digit_digit: "n < 10 \<Longrightarrow> is_digit (digit n)"
  by (simp add: is_digit_def of_char_digit)

lemma show_nat_not_Nil [simp]: "show_nat n \<noteq> []"
  by (subst show_nat.simps) simp

lemma show_nat_digits: "list_all is_digit (show_nat n)"
proof (induction n rule: show_nat.induct)
  case (1 n)
  then show ?case
    by (cases "n < 10") (simp_all add: show_nat.simps [of n] is_digit_digit)
qed

lemma digits_val_snoc: "digits_val (s @ [c]) = 10 * digits_val s + (of_char c - 48)"
  by (simp add: digits_val_def)

lemma digits_val_show_nat [simp]: "digits_val (show_nat n) = n"
proof (induction n rule: show_nat.induct)
  case (1 n)
  show ?case
  proof (cases "n < 10")
    case True
    then show ?thesis by (simp add: show_nat.simps [of n] digits_val_def of_char_digit)
  next
    case False
    with 1 show ?thesis
      by (simp add: show_nat.simps [of n] digits_val_snoc of_char_digit)
  qed
qed

lemma parse_digits_show_nat [simp]: "parse_digits (show_nat n) = Some n"
  by (simp add: parse_digits_def show_nat_digits)

lemma show_nat_inj: "show_nat m = show_nat n \<longleftrightarrow> m = n"
  by (metis digits_val_show_nat)

lemma digit_not_sign: "is_digit c \<Longrightarrow> c \<noteq> CHR ''-'' \<and> c \<noteq> CHR ''+''"
  by (auto simp: is_digit_def)

lemma digit_not_space: "is_digit c \<Longrightarrow> \<not> is_space c"
  by (auto simp: is_digit_def is_space_def)

lemma show_nat_hd: "show_nat n = c # cs \<Longrightarrow> is_digit c"
  using show_nat_digits [of n] by simp

lemma atoi_show_int:
  assumes "- (2 ^ 63) \<le> i" and "i < 2 ^ 63"
  shows "atoi (show_int i) = Some i"
proof (cases "i < 0")
  case True
  with assms show ?thesis by (simp add: atoi_def show_int_def)
next
  case False
  obtain c cs where c: "show_nat (nat i) = c # cs" by (cases "show_nat (nat i)") auto
  then have "is_digit c" by (rule show_nat_hd)
  then have "c \<noteq> CHR ''-''" "c \<noteq> CHR ''+''" using digit_not_sign by auto
  moreover have "parse_digits (c # cs) = Some (nat i)" by (metis c parse_digits_show_nat)
  ultimately show ?thesis using False assms by (simp add: atoi_def show_int_def c)
qed

lemma show_int_inj: "show_int i = show_int j \<longleftrightarrow> i = j"
proof
  assume eq: "show_int i = show_int j"
  have neg: "show_nat m \<noteq> CHR ''-'' # s" for m s
    using show_nat_hd [of m "CHR ''-''" s] digit_not_sign by blast
  show "i = j"
    using eq neg neg [symmetric] by (auto simp: show_int_def show_nat_inj split: if_splits)
qed simp

lemma show_i32_inj: "show_i32 v = show_i32 w \<longleftrightarrow> v = w"
  by (auto simp: show_i32_def show_int_inj dest: signed_word_eqI)

lemma show_int_chars: "c \<in> set (show_int i) \<Longrightarrow> is_digit c \<or> c = CHR ''-''"
  using show_nat_digits by (auto simp: show_int_def list_all_iff split: if_splits)

lemma show_int_not_Nil [simp]: "show_int i \<noteq> []"
  by (simp add: show_int_def)

lemma trim_space_show_int [simp, trim_simps]: "trim_space (show_int i) = show_int i"
proof (rule trim_space_no_space, rule ballI)
  fix c assume "c \<in> set (show_int i)"
  then have "is_digit c \<or> c = CHR ''-''" by (rule show_int_chars)
  then show "\<not> is_space c" by (auto dest: digit_not_space simp: is_space_def)
qed

subsection \<open>Splitting\<close>

lemma cut_append: "c \<notin> set a \<Longrightarrow> cut c (a @ c # b) = (a, b, True)"
proof -
  assume c: "c \<notin> set a"
  then have "takeWhile (\<lambda>x. x \<noteq> c) (a @ c # b) = a" by (induction a) auto
  moreover from c have "dropWhile (\<lambda>x. x \<noteq> c) (a @ c # b) = c # b" by (induction a) auto
  ultimately show ?thesis by (simp add: cut_def)
qed

lemma cut_none: "c \<notin> set a \<Longrightarrow> cut c a = (a, [], False)"
  by (simp add: cut_def)

lemma split_on_no: "c \<notin> set s \<Longrightarrow> split_on c s = [s]"
  by (induction s) auto

lemma split_on_nonempty [simp]: "split_on c s \<noteq> []"
  by (induction s) (auto split: list.splits)

lemma split_on_pieces: "w \<in> set (split_on c s) \<Longrightarrow> c \<notin> set w \<and> set w \<subseteq> set s"
proof (induction s arbitrary: w)
  case Nil
  then show ?case by simp
next
  case (Cons x xs)
  obtain v vs where v: "split_on c xs = v # vs" by (cases "split_on c xs") auto
  have "c \<notin> set v \<and> set v \<subseteq> set xs" using Cons.IH [of v] v by simp
  moreover have "w \<in> set vs \<Longrightarrow> c \<notin> set w \<and> set w \<subseteq> set xs" using Cons.IH [of w] v by simp
  moreover have "w \<in> set (v # vs) \<Longrightarrow> c \<notin> set w \<and> set w \<subseteq> set xs" using Cons.IH [of w] v by simp
  ultimately show ?case using Cons.prems v by (auto split: if_splits)
qed

lemma str_fields_pieces: "w \<in> set (str_fields s) \<Longrightarrow> w \<noteq> [] \<and> (\<forall>c \<in> set w. \<not> is_space c \<and> c \<in> set s)"
proof -
  assume w: "w \<in> set (str_fields s)"
  let ?f = "\<lambda>c. if is_space c then CHR '' '' else c"
  from w have "w \<noteq> []" and p: "w \<in> set (split_on (CHR '' '') (map ?f s))"
    by (auto simp: str_fields_def)
  from split_on_pieces [OF p] have a: "CHR '' '' \<notin> set w" and b: "set w \<subseteq> ?f ` set s"
    by auto
  have "\<forall>c \<in> set w. \<not> is_space c \<and> c \<in> set s"
  proof
    fix c assume c: "c \<in> set w"
    with b obtain d where d: "d \<in> set s" "c = ?f d" by auto
    show "\<not> is_space c \<and> c \<in> set s"
      using a c d by (cases "is_space d") auto
  qed
  with \<open>w \<noteq> []\<close> show ?thesis by simp
qed

lemma str_fields_no_space: "s \<noteq> [] \<Longrightarrow> \<forall>c \<in> set s. \<not> is_space c \<Longrightarrow> str_fields s = [s]"
proof -
  assume "s \<noteq> []" and ns: "\<forall>c \<in> set s. \<not> is_space c"
  have "map (\<lambda>c. if is_space c then CHR '' '' else c) s = s"
    using ns by (simp add: map_idI)
  moreover have "CHR '' '' \<notin> set s" using ns by (auto simp: is_space_def)
  ultimately show ?thesis using \<open>s \<noteq> []\<close> by (simp add: str_fields_def split_on_no)
qed

lemma set_join: "set (join sep xs) \<subseteq> set sep \<union> \<Union> (set ` set xs)"
  by (induction sep xs rule: join.induct) auto

end
