(* ===== verification/Annotations.thy ===== *)
theory Annotations
  imports GoStrings
begin

text \<open>
  \<open>pkg/annotations/lb.go\<close>: the load-balancer configuration read from the annotations and
  the native fields of a Service, or from the annotations of an Ingress.  A record field has the
  name of the Go field; \<open>corev1.Service\<close> is reduced to the fields the program reads.
\<close>

subsection \<open>Annotation keys\<close>

definition annProtocol :: string where "annProtocol = ''f5.extensions.gardener.cloud/protocol''"
definition annRoutingAlgorithm :: string where "annRoutingAlgorithm = ''f5.extensions.gardener.cloud/routing-algorithm''"
definition annHealthInterval :: string where "annHealthInterval = ''f5.extensions.gardener.cloud/health-check-interval''"
definition annHealthType :: string where "annHealthType = ''f5.extensions.gardener.cloud/health-check-type''"
definition annHealthPath :: string where "annHealthPath = ''f5.extensions.gardener.cloud/health-check-path''"
definition annHealthPort :: string where "annHealthPort = ''f5.extensions.gardener.cloud/health-check-port''"
definition annHealthTimeout :: string where "annHealthTimeout = ''f5.extensions.gardener.cloud/health-check-timeout''"
definition annSourceRanges :: string where "annSourceRanges = ''f5.extensions.gardener.cloud/source-ranges''"
definition annDrainingTimeout :: string where "annDrainingTimeout = ''f5.extensions.gardener.cloud/connection-draining-timeout''"
definition annVIPGroup :: string where "annVIPGroup = ''f5.extensions.gardener.cloud/vip-group''"
definition annVPCID :: string where "annVPCID = ''f5.extensions.gardener.cloud/vpc-id''"
definition annSubnetID :: string where "annSubnetID = ''f5.extensions.gardener.cloud/subnet-id''"
definition annNetworkID :: string where "annNetworkID = ''f5.extensions.gardener.cloud/network-id''"
definition annFlavorID :: string where "annFlavorID = ''f5.extensions.gardener.cloud/flavor-id''"
definition annCMPComputeID :: string where "annCMPComputeID = ''f5.extensions.gardener.cloud/cmp-compute-id''"
definition annBackendIP :: string where "annBackendIP = ''f5.extensions.gardener.cloud/backend-ip''"

lemmas ann_defs = annProtocol_def annRoutingAlgorithm_def annHealthInterval_def annHealthType_def
  annHealthPath_def annHealthPort_def annHealthTimeout_def annSourceRanges_def
  annDrainingTimeout_def annVIPGroup_def annVPCID_def annSubnetID_def annNetworkID_def
  annFlavorID_def annCMPComputeID_def annBackendIP_def

subsection \<open>Configuration\<close>

record LBConfig =
  RoutingAlgorithm :: string
  HealthInterval :: int32
  HealthType :: string
  HealthPath :: string
  HealthPort :: int32
  HealthTimeout :: int32
  ProtocolOverride :: string
  SourceRanges :: "string list"
  PersistenceType :: string
  DrainingTimeout :: int32
  VPCID :: string
  NetworkID :: string
  FlavorID :: int32

definition DefaultLBConfig :: LBConfig where
  "DefaultLBConfig =
     \<lparr>RoutingAlgorithm = ''ROUND_ROBIN'', HealthInterval = 30, HealthType = ''tcp'', HealthPath = [],
      HealthPort = 0, HealthTimeout = 16, ProtocolOverride = [], SourceRanges = [],
      PersistenceType = [], DrainingTimeout = 0, VPCID = [], NetworkID = [], FlavorID = 0\<rparr>"

definition NormalizeRoutingAlgorithm :: "string \<Rightarrow> string" where
  "NormalizeRoutingAlgorithm value =
     (let value = trim_space value;
          value = replace_char (CHR ''-'') (CHR ''_'') value;
          value = join ''_'' (str_fields value)
      in to_upper value)"

text \<open>An annotation lookup: \<open>strings.TrimSpace(ann[key])\<close>, the empty string when absent.\<close>

definition ann_get :: "string gomap \<Rightarrow> string \<Rightarrow> string" where
  "ann_get ann k = trim_space (gm_index [] ann k)"

text \<open>
  The blocks of \<open>parseAnnotations\<close>, one function per annotation, in the order of the source.
  \<open>strconv.Atoi\<close> yields a 64-bit integer; the conversion to \<open>int32\<close> wraps.
\<close>

definition parse_protocol :: "string gomap \<Rightarrow> LBConfig \<Rightarrow> LBConfig" where
  "parse_protocol ann cfg =
     (let v = ann_get ann annProtocol; upper = to_upper v in
      if v \<noteq> [] \<and> upper \<in> set [''TCP'', ''UDP'', ''HTTP'', ''HTTPS'']
      then cfg\<lparr>ProtocolOverride := upper\<rparr> else cfg)"

definition parse_routing :: "string gomap \<Rightarrow> LBConfig \<Rightarrow> LBConfig" where
  "parse_routing ann cfg =
     (let v = ann_get ann annRoutingAlgorithm in
      if v \<noteq> [] then cfg\<lparr>RoutingAlgorithm := NormalizeRoutingAlgorithm v\<rparr> else cfg)"

definition parse_health_interval :: "string gomap \<Rightarrow> LBConfig \<Rightarrow> LBConfig" where
  "parse_health_interval ann cfg =
     (let v = ann_get ann annHealthInterval in
      if v \<noteq> []
      then (case atoi v of
              Some n \<Rightarrow> if n > 0 then cfg\<lparr>HealthInterval := to_int32 n\<rparr> else cfg
            | None \<Rightarrow> cfg)
      else cfg)"

definition parse_health_type :: "string gomap \<Rightarrow> LBConfig \<Rightarrow> LBConfig" where
  "parse_health_type ann cfg =
     (let v = ann_get ann annHealthType; lower = to_lower v in
      if v \<noteq> [] \<and> lower \<in> set [''tcp'', ''http''] then cfg\<lparr>HealthType := lower\<rparr> else cfg)"

definition parse_health_path :: "string gomap \<Rightarrow> LBConfig \<Rightarrow> LBConfig" where
  "parse_health_path ann cfg =
     (let v = ann_get ann annHealthPath in
      if v \<noteq> []
      then (let cfg = cfg\<lparr>HealthPath := v\<rparr> in
            if HealthType cfg = ''tcp'' then cfg\<lparr>HealthType := ''http''\<rparr> else cfg)
      else cfg)"

definition parse_health_port :: "string gomap \<Rightarrow> LBConfig \<Rightarrow> LBConfig" where
  "parse_health_port ann cfg =
     (let v = ann_get ann annHealthPort in
      if v \<noteq> []
      then (case atoi v of
              Some n \<Rightarrow> if n > 0 \<and> n \<le> 65535 then cfg\<lparr>HealthPort := to_int32 n\<rparr> else cfg
            | None \<Rightarrow> cfg)
      else cfg)"

definition parse_health_timeout :: "string gomap \<Rightarrow> LBConfig \<Rightarrow> LBConfig" where
  "parse_health_timeout ann cfg =
     (let v = ann_get ann annHealthTimeout in
      if v \<noteq> []
      then (case atoi v of
              Some n \<Rightarrow> if n > 0 then cfg\<lparr>HealthTimeout := to_int32 n\<rparr> else cfg
            | None \<Rightarrow> cfg)
      else cfg)"

definition parse_draining :: "string gomap \<Rightarrow> LBConfig \<Rightarrow> LBConfig" where
  "parse_draining ann cfg =
     (let v = ann_get ann annDrainingTimeout in
      if v \<noteq> []
      then (case atoi v of
              Some n \<Rightarrow> if n \<ge> 0 then cfg\<lparr>DrainingTimeout := to_int32 n\<rparr> else cfg
            | None \<Rightarrow> cfg)
      else cfg)"

definition parse_source_ranges :: "string gomap \<Rightarrow> LBConfig \<Rightarrow> LBConfig" where
  "parse_source_ranges ann cfg =
     (let v = ann_get ann annSourceRanges in
      if SourceRanges cfg = [] \<and> v \<noteq> []
      then cfg\<lparr>SourceRanges := filter (\<lambda>c. c \<noteq> []) (map trim_space (split_on (CHR '','') v))\<rparr>
      else cfg)"

definition parse_placement :: "string gomap \<Rightarrow> LBConfig \<Rightarrow> LBConfig" where
  "parse_placement ann cfg =
     (let vpc = ann_get ann annVPCID;
          cfg = (if vpc \<noteq> [] then cfg\<lparr>VPCID := vpc\<rparr> else cfg);
          net = ann_get ann annNetworkID;
          cfg = (if net \<noteq> [] then cfg\<lparr>NetworkID := net\<rparr> else cfg);
          sub = ann_get ann annSubnetID;
          cfg = (if sub \<noteq> [] then cfg\<lparr>NetworkID := sub\<rparr> else cfg);
          fl = ann_get ann annFlavorID
      in if fl \<noteq> []
         then (case atoi fl of
                 Some n \<Rightarrow> if n > 0 then cfg\<lparr>FlavorID := to_int32 n\<rparr> else cfg
               | None \<Rightarrow> cfg)
         else cfg)"

definition parseAnnotations :: "string gomap \<Rightarrow> LBConfig \<Rightarrow> LBConfig" where
  "parseAnnotations ann cfg =
     (parse_placement ann \<circ> parse_source_ranges ann \<circ> parse_draining ann \<circ>
      parse_health_timeout ann \<circ> parse_health_port ann \<circ> parse_health_path ann \<circ>
      parse_health_type ann \<circ> parse_health_interval ann \<circ> parse_routing ann \<circ>
      parse_protocol ann) cfg"

text \<open>The fields of a Kubernetes Service and its ports that the program reads; \<open>svc_Deleting\<close> says that
  the deletion timestamp is set, \<open>svc_IngressIPs\<close> are the addresses of the load-balancer status.\<close>

record SvcPort =
  sp_Name :: string
  sp_Port :: int32
  sp_NodePort :: int32
  sp_Protocol :: string

record K8sService =
  svc_Namespace :: string
  svc_Name :: string
  svc_UID :: string
  svc_Annotations :: "string gomap"
  svc_Ports :: "SvcPort list"
  svc_SessionAffinity :: string
  svc_LoadBalancerSourceRanges :: "string list"
  svc_ExternalTrafficPolicy :: string
  svc_Selector :: "string gomap"
  svc_Type :: string
  svc_LoadBalancerClass :: "string option"
  svc_Deleting :: bool
  svc_Finalizers :: "string list"
  svc_Generation :: int
  svc_IngressIPs :: "string list"

text \<open>A nil object is \<open>None\<close>.\<close>

definition ParseService :: "K8sService option \<Rightarrow> LBConfig" where
  "ParseService svc =
     (case svc of
        None \<Rightarrow> DefaultLBConfig
      | Some s \<Rightarrow>
          (let cfg = DefaultLBConfig;
               cfg = (if svc_SessionAffinity s = ''ClientIP'' then cfg\<lparr>PersistenceType := ''source_ip''\<rparr> else cfg);
               cfg = parseAnnotations (svc_Annotations s) cfg
           in if svc_LoadBalancerSourceRanges s \<noteq> []
              then cfg\<lparr>SourceRanges := svc_LoadBalancerSourceRanges s\<rparr> else cfg))"

definition ParseObject :: "string gomap option \<Rightarrow> LBConfig" where
  "ParseObject ann = (case ann of None \<Rightarrow> DefaultLBConfig | Some a \<Rightarrow> parseAnnotations a DefaultLBConfig)"

lemmas parse_defs = parse_protocol_def parse_routing_def parse_health_interval_def
  parse_health_type_def parse_health_path_def parse_health_port_def parse_health_timeout_def
  parse_draining_def parse_source_ranges_def parse_placement_def

subsection \<open>Routing algorithm spelling\<close>

lemma upper_char_cases: "upper_char c = c \<or> (of_char (upper_char c) :: nat) \<in> {65..90}"
proof (cases "97 \<le> (of_char c :: nat) \<and> (of_char c :: nat) \<le> 122")
  case True
  then show ?thesis by (simp add: of_char_upper) linarith
next
  case False
  then have "upper_char c = c" unfolding upper_char_def Let_def by (simp only: if_False)
  then show ?thesis by simp
qed

lemma upper_char_space: "is_space (upper_char c) \<longleftrightarrow> is_space c"
proof -
  have "is_space d \<Longrightarrow> (of_char d :: nat) \<notin> {65..90} \<and> (of_char d :: nat) \<notin> {97..122}" for d
    by (auto simp: is_space_def)
  then show ?thesis
    using upper_char_cases [of c]
    by (metis atLeastAtMost_iff of_char_upper upper_char_idem char_eq_nat)
qed

lemma upper_char_dash: "upper_char c = CHR ''-'' \<longleftrightarrow> c = CHR ''-''"
  using upper_char_cases [of c] by (auto simp: upper_char_def Let_def)

lemma NormalizeRoutingAlgorithm_clean:
  assumes "c \<in> set (NormalizeRoutingAlgorithm v)"
  shows "\<not> is_space c \<and> c \<noteq> CHR ''-'' \<and> upper_char c = c"
proof -
  let ?r = "replace_char (CHR ''-'') (CHR ''_'') (trim_space v)"
  from assms obtain d where d: "c = upper_char d" "d \<in> set (join ''_'' (str_fields ?r))"
    by (auto simp: NormalizeRoutingAlgorithm_def Let_def to_upper_def)
  with set_join [of "''_''" "str_fields ?r"]
  have "d = CHR ''_'' \<or> (\<exists>w \<in> set (str_fields ?r). d \<in> set w)" by auto
  then have "\<not> is_space d \<and> d \<noteq> CHR ''-''"
  proof
    assume "d = CHR ''_''"
    then show ?thesis by (simp add: is_space_def)
  next
    assume "\<exists>w \<in> set (str_fields ?r). d \<in> set w"
    then have "\<not> is_space d \<and> d \<in> set ?r" using str_fields_pieces by blast
    then show ?thesis by (auto simp: replace_char_def)
  qed
  with d show ?thesis by (simp add: upper_char_space upper_char_dash)
qed

lemma NormalizeRoutingAlgorithm_fixed:
  assumes "\<And>c. c \<in> set v \<Longrightarrow> \<not> is_space c \<and> c \<noteq> CHR ''-'' \<and> upper_char c = c"
  shows "NormalizeRoutingAlgorithm v = v"
proof (cases "v = []")
  case True
  then show ?thesis
    by (simp add: NormalizeRoutingAlgorithm_def replace_char_def str_fields_def to_upper_def)
next
  case False
  have "replace_char (CHR ''-'') (CHR ''_'') v = v" "to_upper v = v"
    using assms by (auto simp: replace_char_def to_upper_def intro: map_idI)
  moreover have "trim_space v = v" using assms by (simp add: trim_space_no_space)
  moreover have "str_fields v = [v]" using assms False by (simp add: str_fields_no_space)
  ultimately show ?thesis by (simp add: NormalizeRoutingAlgorithm_def)
qed

lemma Normalize_idem:
  "NormalizeRoutingAlgorithm (NormalizeRoutingAlgorithm v) = NormalizeRoutingAlgorithm v"
  by (rule NormalizeRoutingAlgorithm_fixed) (rule NormalizeRoutingAlgorithm_clean)

subsection \<open>The parsed configuration is well-formed\<close>

definition config_base :: "LBConfig \<Rightarrow> bool" where
  "config_base cfg \<longleftrightarrow>
     ProtocolOverride cfg \<in> set [[], ''TCP'', ''UDP'', ''HTTP'', ''HTTPS''] \<and>
     HealthType cfg \<in> set [''tcp'', ''http''] \<and>
     0 \<le> sint (HealthPort cfg) \<and> sint (HealthPort cfg) \<le> 65535 \<and>
     PersistenceType cfg \<in> set [[], ''source_ip''] \<and>
     NormalizeRoutingAlgorithm (RoutingAlgorithm cfg) = RoutingAlgorithm cfg"

definition config_ok :: "LBConfig \<Rightarrow> bool" where
  "config_ok cfg \<longleftrightarrow> config_base cfg \<and> (HealthPath cfg \<noteq> [] \<longrightarrow> HealthType cfg = ''http'')"

lemma sint_to_int32: "- (2 ^ 31) \<le> n \<Longrightarrow> n < 2 ^ 31 \<Longrightarrow> sint (to_int32 n) = n"
  by (simp add: to_int32_def sint_sbintrunc' signed_take_bit_int_eq_self)

lemma sint_to_int32_wrap: "sint (to_int32 n) = (n + 2 ^ 31) mod 2 ^ 32 - 2 ^ 31"
  by (simp add: to_int32_def int_word_sint)

lemma Default_config_ok: "config_ok DefaultLBConfig"
proof -
  have "NormalizeRoutingAlgorithm ''ROUND_ROBIN'' = ''ROUND_ROBIN''"
    by (rule NormalizeRoutingAlgorithm_fixed) (auto simp: is_space_def upper_char_def)
  then show ?thesis by (simp add: config_ok_def config_base_def DefaultLBConfig_def)
qed

lemma parse_protocol_ok: "config_ok cfg \<Longrightarrow> config_ok (parse_protocol ann cfg)"
  by (auto simp: config_ok_def config_base_def parse_protocol_def Let_def)

lemma parse_routing_ok: "config_ok cfg \<Longrightarrow> config_ok (parse_routing ann cfg)"
  by (auto simp: config_ok_def config_base_def parse_routing_def Let_def Normalize_idem)

lemma parse_interval_ok: "config_ok cfg \<Longrightarrow> config_ok (parse_health_interval ann cfg)"
  by (auto simp: config_ok_def config_base_def parse_health_interval_def Let_def split: option.splits)

lemma parse_type_base: "config_base cfg \<Longrightarrow> config_base (parse_health_type ann cfg)"
  by (auto simp: config_base_def parse_health_type_def Let_def)

lemma parse_type_path: "HealthPath (parse_health_type ann cfg) = HealthPath cfg"
  by (simp add: parse_health_type_def Let_def)

lemma parse_path_ok: "config_base cfg \<Longrightarrow> HealthPath cfg = [] \<Longrightarrow> config_ok (parse_health_path ann cfg)"
  by (auto simp: config_ok_def config_base_def parse_health_path_def Let_def)

lemma parse_port_ok: "config_ok cfg \<Longrightarrow> config_ok (parse_health_port ann cfg)"
  by (auto simp: config_ok_def config_base_def parse_health_port_def Let_def sint_to_int32 split: option.splits)

lemma parse_timeout_ok: "config_ok cfg \<Longrightarrow> config_ok (parse_health_timeout ann cfg)"
  by (auto simp: config_ok_def config_base_def parse_health_timeout_def Let_def split: option.splits)

lemma parse_draining_ok: "config_ok cfg \<Longrightarrow> config_ok (parse_draining ann cfg)"
  by (auto simp: config_ok_def config_base_def parse_draining_def Let_def split: option.splits)

lemma parse_ranges_ok: "config_ok cfg \<Longrightarrow> config_ok (parse_source_ranges ann cfg)"
  by (auto simp: config_ok_def config_base_def parse_source_ranges_def Let_def)

lemma parse_placement_ok: "config_ok cfg \<Longrightarrow> config_ok (parse_placement ann cfg)"
  by (auto simp: config_ok_def config_base_def parse_placement_def Let_def split: option.splits)

lemma early_path:
  "HealthPath (parse_health_interval ann (parse_routing ann (parse_protocol ann cfg))) = HealthPath cfg"
  by (simp add: parse_protocol_def parse_routing_def parse_health_interval_def Let_def split: option.splits)

lemma parseAnnotations_ok:
  assumes "config_ok cfg" and "HealthPath cfg = []"
  shows "config_ok (parseAnnotations ann cfg)"
proof -
  let ?c = "parse_health_type ann (parse_health_interval ann (parse_routing ann (parse_protocol ann cfg)))"
  have "config_base ?c"
    using assms parse_protocol_ok parse_routing_ok parse_interval_ok parse_type_base config_ok_def
    by metis
  moreover have "HealthPath ?c = []" by (simp add: parse_type_path early_path assms)
  ultimately have "config_ok (parse_health_path ann ?c)" by (rule parse_path_ok)
  then show ?thesis
    by (simp add: parseAnnotations_def parse_port_ok parse_timeout_ok parse_draining_ok
        parse_ranges_ok parse_placement_ok)
qed

subsection \<open>Properties\<close>


lemma interval_placement: "HealthInterval (parse_placement ann cfg) = HealthInterval cfg"
  by (simp add: parse_placement_def Let_def split: option.splits)

lemma interval_ranges: "HealthInterval (parse_source_ranges ann cfg) = HealthInterval cfg"
  by (simp add: parse_source_ranges_def Let_def)

lemma interval_draining: "HealthInterval (parse_draining ann cfg) = HealthInterval cfg"
  by (simp add: parse_draining_def Let_def split: option.splits)

lemma interval_timeout: "HealthInterval (parse_health_timeout ann cfg) = HealthInterval cfg"
  by (simp add: parse_health_timeout_def Let_def split: option.splits)

lemma interval_port: "HealthInterval (parse_health_port ann cfg) = HealthInterval cfg"
  by (simp add: parse_health_port_def Let_def split: option.splits)

lemma interval_path: "HealthInterval (parse_health_path ann cfg) = HealthInterval cfg"
  by (simp add: parse_health_path_def Let_def)

lemma interval_type: "HealthInterval (parse_health_type ann cfg) = HealthInterval cfg"
  by (simp add: parse_health_type_def Let_def)

lemmas interval_late_steps = interval_placement interval_ranges interval_draining interval_timeout
  interval_port interval_path interval_type

lemma ann_get_show_int: "gm_index [] ann k = show_int n \<Longrightarrow> ann_get ann k = show_int n"
  by (simp add: ann_get_def)

text \<open>
  The health-check interval is taken modulo 32 bits: an annotation denoting any positive
  64-bit integer \<open>n\<close> is accepted, and the interval sent to CMP is \<open>n\<close> read as a signed 32-bit
  value.  It is \<open>n\<close> itself below \<open>2^31\<close>, and it can be zero or negative above, although the
  code checks that \<open>n\<close> is positive.
\<close>

theorem ParseService_interval_wraps:
  assumes "gm_index [] (svc_Annotations s) annHealthInterval = show_int n" and "0 < n" and "n < 2 ^ 63"
  shows "sint (HealthInterval (ParseService (Some s))) = (n + 2 ^ 31) mod 2 ^ 32 - 2 ^ 31"
proof -
  have "HealthInterval (parse_health_interval (svc_Annotations s) cfg) = to_int32 n" for cfg
    using assms by (simp add: parse_health_interval_def ann_get_show_int atoi_show_int Let_def)
  then have "HealthInterval (ParseService (Some s)) = to_int32 n"
    by (simp add: ParseService_def parseAnnotations_def interval_late_steps Let_def)
  then show ?thesis by (simp only: sint_to_int32_wrap)
qed

definition sample_service :: "string gomap \<Rightarrow> K8sService" where
  "sample_service ann = \<lparr>svc_Namespace = ''shop'', svc_Name = ''web'', svc_UID = ''u1'',
     svc_Annotations = ann, svc_Ports = [], svc_SessionAffinity = ''None'',
     svc_LoadBalancerSourceRanges = [], svc_ExternalTrafficPolicy = ''Cluster'', svc_Selector = [],
     svc_Type = ''LoadBalancer'', svc_LoadBalancerClass = Some ''f5.extensions.gardener.cloud/bigip'', svc_Deleting = False,
     svc_Finalizers = [], svc_Generation = 1, svc_IngressIPs = []\<rparr>"

theorem ParseService_interval_wraps_witness:
  "sint (HealthInterval (ParseService (Some (sample_service [(annHealthInterval, show_int (2 ^ 32))])))) = 0"
proof -
  let ?s = "sample_service [(annHealthInterval, show_int (2 ^ 32))]"
  have "gm_index [] (svc_Annotations ?s) annHealthInterval = show_int (2 ^ 32)"
    by (simp add: sample_service_def gm_index_def)
  from ParseService_interval_wraps [OF this] show ?thesis by simp
qed

end
