(* ===== verification/Model.thy ===== *)
theory Model
  imports Annotations
begin

text \<open>
  \<open>pkg/model\<close>: the desired state of one load-balancer stack and the observed provider graph.
  Field names are those of the Go structs with a prefix per struct, since record fields are
  global.  Optional pointers (\<open>*Monitor\<close>) are options.
\<close>

record Owner =
  ow_Kind :: string
  ow_Namespace :: string
  ow_Name :: string
  ow_UID :: string

record Ownership =
  os_ManagedBy :: string
  os_ClusterUID :: string
  os_SourceKind :: string
  os_SourceNamespace :: string
  os_SourceName :: string
  os_SourceUID :: string
  os_ResourceRole :: string
  os_SharedGroup :: string

definition ManagedByValue :: string where
  "ManagedByValue = ''gardener-extension-f5''"

definition OwnershipFor :: "Owner \<Rightarrow> string \<Rightarrow> string \<Rightarrow> string \<Rightarrow> Ownership" where
  "OwnershipFor owner clusterUID resourceRole sharedGroup =
     \<lparr>os_ManagedBy = ManagedByValue, os_ClusterUID = clusterUID, os_SourceKind = ow_Kind owner,
      os_SourceNamespace = ow_Namespace owner, os_SourceName = ow_Name owner,
      os_SourceUID = ow_UID owner, os_ResourceRole = resourceRole, os_SharedGroup = sharedGroup\<rparr>"

record Monitor =
  mon_Name :: string
  mon_Type :: string
  mon_Path :: string
  mon_Interval :: int32
  mon_Port :: int32
  mon_Timeout :: int32

record BackendMember =
  bm_NodeName :: string
  bm_ProviderID :: string
  bm_ComputeID :: string
  bm_IP :: string
  bm_Port :: int32
  bm_Weight :: int

record M_LBService =
  ml_Name :: string
  ml_Description :: string
  ml_FlavorID :: int32
  ml_NetworkID :: string
  ml_VPCID :: string
  ml_VPCName :: string
  ml_Region :: string
  ml_Ownership :: Ownership

record M_VIP =
  mv_Name :: string
  mv_Address :: string
  mv_Ownership :: Ownership

record M_VirtualServer =
  vs_Name :: string
  vs_FrontendPort :: int32
  vs_BackendNodePort :: int32
  vs_Protocol :: string
  vs_RoutingAlgorithm :: string
  vs_PersistenceType :: string
  vs_DrainingTimeout :: int32
  vs_SourceRanges :: "string list"
  vs_Monitor :: "Monitor option"
  vs_DefaultPoolName :: string
  vs_Ownership :: Ownership

record M_Pool =
  pool_Name :: string
  pool_Service :: string
  pool_PortName :: string
  pool_Port :: int32
  pool_Members :: "BackendMember list"
  pool_Monitor :: "Monitor option"
  pool_Ownership :: Ownership

record M_RoutingRule =
  rr_Name :: string
  rr_Host :: string
  rr_Path :: string
  rr_MatchType :: string
  rr_PoolName :: string
  rr_Priority :: int32
  rr_Ownership :: Ownership

record M_Certificate =
  cert_Name :: string
  cert_SecretName :: string
  cert_Hosts :: "string list"
  cert_Fingerprint :: string
  cert_Certificate :: string
  cert_PrivateKey :: string
  cert_CA :: string
  cert_Ownership :: Ownership

record ServicePort =
  svp_Name :: string
  svp_FrontendPort :: int32
  svp_NodePort :: int32
  svp_Protocol :: string
  svp_Backends :: "BackendMember list"

record LoadBalancerStack =
  st_Owner :: Owner
  st_Ownership :: Ownership
  st_Config :: LBConfig
  st_LBService :: M_LBService
  st_VIP :: M_VIP
  st_VirtualServers :: "M_VirtualServer list"
  st_Pools :: "M_Pool list"
  st_RoutingRules :: "M_RoutingRule list"
  st_Certificates :: "M_Certificate list"
  st_Ports :: "ServicePort list"

subsection \<open>The observed provider graph\<close>

record ObservedResource =
  LogicalID :: string
  ExternalID :: string
  or_Name :: string
  or_Address :: string
  DesiredHash :: string
  or_Ownership :: Ownership

definition zero_ownership :: Ownership where
  "zero_ownership = \<lparr>os_ManagedBy = [], os_ClusterUID = [], os_SourceKind = [], os_SourceNamespace = [],
     os_SourceName = [], os_SourceUID = [], os_ResourceRole = [], os_SharedGroup = []\<rparr>"

definition zero_observed :: ObservedResource where
  "zero_observed = \<lparr>LogicalID = [], ExternalID = [], or_Name = [], or_Address = [], DesiredHash = [],
     or_Ownership = zero_ownership\<rparr>"

definition zero_virtual_server :: M_VirtualServer where
  "zero_virtual_server = \<lparr>vs_Name = [], vs_FrontendPort = 0, vs_BackendNodePort = 0, vs_Protocol = [],
     vs_RoutingAlgorithm = [], vs_PersistenceType = [], vs_DrainingTimeout = 0, vs_SourceRanges = [],
     vs_Monitor = None, vs_DefaultPoolName = [], vs_Ownership = zero_ownership\<rparr>"

text \<open>A nil bucket and an empty bucket are both the empty map.\<close>

record ObservedGraph =
  g_LBServices :: "ObservedResource gomap"
  g_VIPs :: "ObservedResource gomap"
  g_VirtualServers :: "ObservedResource gomap"
  g_Pools :: "ObservedResource gomap"
  g_Members :: "ObservedResource gomap"
  g_Monitors :: "ObservedResource gomap"
  g_RoutingRules :: "ObservedResource gomap"
  g_Certificates :: "ObservedResource gomap"

definition NewObservedGraph :: ObservedGraph where
  "NewObservedGraph = \<lparr>g_LBServices = [], g_VIPs = [], g_VirtualServers = [], g_Pools = [],
     g_Members = [], g_Monitors = [], g_RoutingRules = [], g_Certificates = []\<rparr>"

record ObservedState =
  Graph :: ObservedGraph
  LBServiceID :: string
  VIPPortID :: string
  VIPAddress :: string
  VirtualServerID :: string
  VirtualServerName :: string

definition zero_state :: ObservedState where
  "zero_state = \<lparr>Graph = NewObservedGraph, LBServiceID = [], VIPPortID = [], VIPAddress = [],
     VirtualServerID = [], VirtualServerName = []\<rparr>"

text \<open>The external ID recorded under a graph key; the zero value when there is no entry.\<close>

definition ext_at :: "ObservedResource gomap \<Rightarrow> string \<Rightarrow> string" where
  "ext_at m k = ExternalID (gm_index zero_observed m k)"

subsection \<open>\<open>EnsureGraph\<close>\<close>

definition legacyLB :: string where "legacyLB = ''legacy/lb-service''"
definition legacyVIP :: string where "legacyVIP = ''legacy/vip''"
definition legacyVS :: string where "legacyVS = ''legacy/virtual-server''"

text \<open>Mirror one legacy scalar under its key unless the key is present.\<close>

definition mirror_legacy :: "string \<Rightarrow> string \<Rightarrow> ObservedResource \<Rightarrow> ObservedResource gomap \<Rightarrow> ObservedResource gomap" where
  "mirror_legacy scalar key res m = (if scalar \<noteq> [] \<and> \<not> gm_has m key then gm_set key res m else m)"

definition EnsureGraph :: "ObservedState \<Rightarrow> ObservedState" where
  "EnsureGraph s =
     (let g = Graph s;
          g = g\<lparr>g_LBServices := mirror_legacy (LBServiceID s) legacyLB
                 (zero_observed\<lparr>LogicalID := legacyLB, ExternalID := LBServiceID s\<rparr>) (g_LBServices g)\<rparr>;
          g = g\<lparr>g_VIPs := mirror_legacy (VIPPortID s) legacyVIP
                 (zero_observed\<lparr>LogicalID := legacyVIP, ExternalID := VIPPortID s, or_Address := VIPAddress s\<rparr>) (g_VIPs g)\<rparr>;
          g = g\<lparr>g_VirtualServers := mirror_legacy (VirtualServerID s) legacyVS
                 (zero_observed\<lparr>LogicalID := legacyVS, ExternalID := VirtualServerID s, or_Name := VirtualServerName s\<rparr>)
                 (g_VirtualServers g)\<rparr>
      in s\<lparr>Graph := g\<rparr>)"

text \<open>Every bucket holds every key once.\<close>

definition graph_wf :: "ObservedGraph \<Rightarrow> bool" where
  "graph_wf g \<longleftrightarrow> gm_wf (g_LBServices g) \<and> gm_wf (g_VIPs g) \<and> gm_wf (g_VirtualServers g) \<and>
     gm_wf (g_Pools g) \<and> gm_wf (g_Members g) \<and> gm_wf (g_Monitors g) \<and>
     gm_wf (g_RoutingRules g) \<and> gm_wf (g_Certificates g)"

lemma mirror_legacy_wf: "gm_wf m \<Longrightarrow> gm_wf (mirror_legacy s k r m)"
  by (simp add: mirror_legacy_def)

lemma mirror_legacy_idem:
  "mirror_legacy s k r (mirror_legacy s k r' m) = mirror_legacy s k r' m"
  by (auto simp: mirror_legacy_def gm_has_def)

lemma mirror_legacy_lookup:
  "map_of m k' = Some r' \<Longrightarrow> map_of (mirror_legacy s k r m) k' = Some r'"
  by (auto simp: mirror_legacy_def gm_has_def)

lemma EnsureGraph_graph_wf: "graph_wf (Graph s) \<Longrightarrow> graph_wf (Graph (EnsureGraph s))"
  by (simp add: EnsureGraph_def graph_wf_def mirror_legacy_wf Let_def)

lemma EnsureGraph_scalars [simp]:
  "LBServiceID (EnsureGraph s) = LBServiceID s"
  "VIPPortID (EnsureGraph s) = VIPPortID s"
  "VIPAddress (EnsureGraph s) = VIPAddress s"
  "VirtualServerID (EnsureGraph s) = VirtualServerID s"
  "VirtualServerName (EnsureGraph s) = VirtualServerName s"
  by (simp_all add: EnsureGraph_def Let_def)

lemma EnsureGraph_buckets [simp]:
  "g_Pools (Graph (EnsureGraph s)) = g_Pools (Graph s)"
  "g_Members (Graph (EnsureGraph s)) = g_Members (Graph s)"
  "g_Monitors (Graph (EnsureGraph s)) = g_Monitors (Graph s)"
  "g_RoutingRules (Graph (EnsureGraph s)) = g_RoutingRules (Graph s)"
  "g_Certificates (Graph (EnsureGraph s)) = g_Certificates (Graph s)"
  by (simp_all add: EnsureGraph_def Let_def)

lemma EnsureGraph_idem: "EnsureGraph (EnsureGraph s) = EnsureGraph s"
  by (simp add: EnsureGraph_def Let_def mirror_legacy_idem)

end
