(* ===== verification/Errors.thy ===== *)
theory Errors
  imports GoStrings
begin

text \<open>
  Go errors as values.  \<open>Errorf f args\<close> is \<open>fmt.Errorf\<close> without \<open>%w\<close>: the format and
  its rendered arguments; \<open>Wrapf f args e\<close> is one with \<open>%w\<close>, which \<open>errors.As\<close> sees
  through.  The typed errors are \<open>HTTPStatusError\<close> and \<open>RateLimitedError\<close> of
  \<open>pkg/f5/client.go\<close> and the two provisioning errors of \<open>pkg/deploy/lbaas/types.go\<close>
  (resource type, resource ID, status, detail).
  \<open>Permanent\<close> is the \<open>permanentError\<close> of \<open>pkg/controller/lifecycle/controller.go\<close>.  \<open>OtherErr\<close> is any error of another package.
\<close>

record HTTPStatusError =
  he_Method :: string
  he_URL :: string
  he_StatusCode :: int
  he_Status :: string
  he_RequestID :: string
  he_WWWAuthenticate :: string
  he_BodySnippet :: string

datatype err =
    Errorf string "string list"
  | Wrapf string "string list" err
  | HTTPErr HTTPStatusError
  | RateLimitedErr int string
  | ProvisioningPending string string string string
  | TerminalProvisioning string string string string
  | Permanent err
  | OtherErr string

fun AsStatusError :: "err \<Rightarrow> HTTPStatusError option" where
  "AsStatusError (HTTPErr h) = Some h"
| "AsStatusError (Wrapf _ _ e) = AsStatusError e"
| "AsStatusError (Permanent e) = AsStatusError e"
| "AsStatusError _ = None"

definition IsNotFound :: "err \<Rightarrow> bool" where
  "IsNotFound e = (case AsStatusError e of Some h \<Rightarrow> he_StatusCode h = 404 | None \<Rightarrow> False)"

definition IsAlreadyExists :: "err \<Rightarrow> bool" where
  "IsAlreadyExists e = (case AsStatusError e of Some h \<Rightarrow> he_StatusCode h = 409 | None \<Rightarrow> False)"

definition IsUnauthorized :: "err \<Rightarrow> bool" where
  "IsUnauthorized e =
     (case AsStatusError e of Some h \<Rightarrow> he_StatusCode h = 401 \<or> he_StatusCode h = 403 | None \<Rightarrow> False)"

fun IsRateLimited :: "err \<Rightarrow> int option" where
  "IsRateLimited (RateLimitedErr d _) = Some d"
| "IsRateLimited (Wrapf _ _ e) = IsRateLimited e"
| "IsRateLimited (Permanent e) = IsRateLimited e"
| "IsRateLimited _ = None"

text \<open>\<open>IsProvisioningPending\<close> and \<open>IsTerminalProvisioning\<close>: the error found in the chain.\<close>

fun IsProvisioningPending :: "err \<Rightarrow> (string \<times> string \<times> string \<times> string) option" where
  "IsProvisioningPending (ProvisioningPending ty rid st dt) = Some (ty, rid, st, dt)"
| "IsProvisioningPending (Wrapf _ _ e) = IsProvisioningPending e"
| "IsProvisioningPending (Permanent e) = IsProvisioningPending e"
| "IsProvisioningPending _ = None"

fun IsTerminalProvisioning :: "err \<Rightarrow> (string \<times> string \<times> string \<times> string) option" where
  "IsTerminalProvisioning (TerminalProvisioning ty rid st dt) = Some (ty, rid, st, dt)"
| "IsTerminalProvisioning (Wrapf _ _ e) = IsTerminalProvisioning e"
| "IsTerminalProvisioning (Permanent e) = IsTerminalProvisioning e"
| "IsTerminalProvisioning _ = None"

text \<open>The \<open>Error\<close> methods of the two provisioning errors.\<close>

fun provisioning_text :: "err \<Rightarrow> string" where
  "provisioning_text (ProvisioningPending ty rid st dt) =
     ''resource is still provisioning: '' @ ty @ '' '' @ rid @ '' status='' @ st @ '' detail='' @ dt"
| "provisioning_text (TerminalProvisioning ty rid st dt) =
     ''resource entered terminal state: '' @ ty @ '' '' @ rid @ '' status='' @ st @ '' detail='' @ dt"
| "provisioning_text _ = []"

text \<open>A sequence of checks that each return on their error: the first error, if any.\<close>

fun first_err :: "err option list \<Rightarrow> err option" where
  "first_err [] = None"
| "first_err (Some e # es) = Some e"
| "first_err (None # es) = first_err es"

lemma first_err_None_iff: "first_err es = None \<longleftrightarrow> (\<forall>e \<in> set es. e = None)"
  by (induction es rule: first_err.induct) auto

definition http_status :: "int \<Rightarrow> err" where
  "http_status code = HTTPErr \<lparr>he_Method = ''GET'', he_URL = [], he_StatusCode = code, he_Status = [],
     he_RequestID = [], he_WWWAuthenticate = [], he_BodySnippet = []\<rparr>"

lemma IsNotFound_simps [simp]:
  "\<not> IsNotFound (Errorf f a)" "IsNotFound (Wrapf f a e) = IsNotFound e"
  "\<not> IsNotFound (ProvisioningPending ty rid st dt)" "\<not> IsNotFound (TerminalProvisioning ty rid st dt)"
  "\<not> IsNotFound (OtherErr s)" "\<not> IsNotFound (RateLimitedErr d s)"
  "IsNotFound (http_status code) \<longleftrightarrow> code = 404"
  by (simp_all add: IsNotFound_def http_status_def)

lemma IsAlreadyExists_simps [simp]:
  "\<not> IsAlreadyExists (Errorf f a)" "IsAlreadyExists (Wrapf f a e) = IsAlreadyExists e"
  "\<not> IsAlreadyExists (OtherErr s)" "IsAlreadyExists (http_status code) \<longleftrightarrow> code = 409"
  by (simp_all add: IsAlreadyExists_def http_status_def)

end
