(* ===== verification/CmpClient.thy ===== *)
theory CmpClient
  imports Model Errors
begin

text \<open>
  The CMP LBaaS interface of \<open>pkg/deploy/lbaas\<close> (\<open>types.go\<close> and the client interfaces of
  the managers) and the effects of calling it.  The provider is outside the program: the record
  \<open>cmp\<close> holds one response function per operation, which may answer anything and may depend on
  every call made so far (its last argument is the history).  A computation of type \<open>'a io\<close>
  takes the history, returns an error or a value, and extends the history by the calls it makes.
  The values Go returns beside a non-nil error are dropped: no caller in the program reads them.
\<close>

subsection \<open>Resources and specifications\<close>

record LBService =
  lb_ID :: string
  lb_Name :: string
  lb_Status :: string
  lb_OperatingStatus :: string
  lb_VPCID :: string
  lb_VPCName :: string
  lb_NetworkID :: string
  lb_Region :: string

record VIP =
  vip_ID :: string
  vip_Address :: string
  vip_Status :: string
  vip_NetworkID :: string
  vip_IPVersion :: string
  vip_AttachedToLB :: bool

record VirtualServer =
  cv_ID :: string
  cv_Name :: string
  cv_VIPPortID :: string
  cv_VIPAddress :: string
  cv_Status :: string
  cv_Protocol :: string
  cv_Port :: int32

record NetworkPort =
  np_ID :: int
  np_ResourceID :: string
  np_ResourceType :: string
  np_IP :: string
  np_NetworkID :: string
  np_DeviceID :: string
  np_DeviceType :: string
  np_InstanceName :: string

record ComputePort =
  cp_ID :: int
  cp_FixedIPs :: "string list"
  cp_NetworkID :: string
  cp_DeviceID :: string
  cp_DeviceType :: string

record Compute =
  co_ID :: string
  co_Name :: string
  co_VPCID :: string
  co_NetworkID :: string
  co_Region :: string
  co_Status :: string
  co_Ports :: "ComputePort list"

record Network =
  nw_ID :: string
  nw_VPCID :: string
  nw_Status :: string

record LBServiceSpec =
  ls_Name :: string
  ls_Description :: string
  ls_FlavorID :: int32
  ls_NetworkID :: string
  ls_VPCID :: string
  ls_VPCName :: string

record BackendNodeSpec =
  bn_ResourceID :: string
  bn_ResourceType :: string
  bn_ResourceIP :: string
  bn_BackendPortID :: int
  bn_Port :: int32
  bn_Weight :: int
  bn_MaxConnections :: int
  bn_InstanceName :: string
  bn_SourceType :: string

record VirtualServerSpec =
  vsp_Name :: string
  vsp_VIPPortID :: string
  vsp_Protocol :: string
  vsp_RoutingAlgorithm :: string
  vsp_Port :: int32
  vsp_PoolName :: string
  vsp_MonitorName :: string
  vsp_MonitorProtocol :: string
  vsp_MonitorPath :: string
  vsp_MonitorInterval :: int32
  vsp_MonitorPort :: int32
  vsp_MonitorTimeout :: int32
  vsp_PersistenceType :: string
  vsp_PersistenceEnabled :: bool
  vsp_XForwardedFor :: bool
  vsp_DrainingTimeout :: int32
  vsp_VPCID :: string
  vsp_AllowedCIDRs :: "string list"
  vsp_Nodes :: "BackendNodeSpec list"

record PoolMemberResource =
  pm_ID :: string
  pm_ResourceID :: string
  pm_ResourceType :: string
  pm_ResourceIP :: string
  pm_BackendPortID :: int
  pm_Port :: int32
  pm_Weight :: int

record PoolResource =
  po_ID :: string
  po_Name :: string
  po_IsDefault :: bool
  po_Members :: "PoolMemberResource list"

record PoolMemberSpec =
  ps_ResourceID :: string
  ps_ResourceType :: string
  ps_ResourceIP :: string
  ps_BackendPortID :: int
  ps_Port :: int32
  ps_Weight :: int

record PoolSpec =
  pl_Name :: string
  pl_Protocol :: string
  pl_RoutingAlgorithm :: string
  pl_Monitor :: "Monitor option"
  pl_Members :: "PoolMemberSpec list"

record MonitorResource =
  mr_ID :: string
  mr_Name :: string
  mr_Protocol :: string
  mr_Path :: string
  mr_Interval :: int32

record MonitorSpec =
  ms_Name :: string
  ms_Protocol :: string
  ms_Path :: string
  ms_Interval :: int32

record RoutingRuleResource =
  ru_ID :: string
  ru_Host :: string
  ru_Path :: string
  ru_MatchType :: string
  ru_PoolID :: string

record RoutingRuleSpec =
  rs_Host :: string
  rs_Path :: string
  rs_MatchType :: string
  rs_PoolID :: string

record CertificateResource =
  ce_ID :: string
  ce_Name :: string
  ce_Fingerprint :: string
  ce_SecretName :: string
  ce_Certificate :: string
  ce_PrivateKey :: string
  ce_CA :: string
  ce_HostNames :: "string list"

record CertificateSpec =
  cs_Name :: string
  cs_Fingerprint :: string
  cs_SecretName :: string
  cs_Certificate :: string
  cs_PrivateKey :: string
  cs_CA :: string
  cs_HostNames :: "string list"

text \<open>\<open>ListLoadBalancersOptions\<close> of \<open>pkg/f5/client.go\<close>.\<close>

record ListOptions =
  lo_Limit :: "int32 option"
  lo_Offset :: "int32 option"
  lo_Field :: string
  lo_Order :: string
  lo_Search :: string

subsection \<open>Calls and the provider\<close>

text \<open>The first string of a call below an LB service is the LB service's ID, the second, if any,
  the virtual server's or the child's.  \<open>LBReady\<close> is the caller's \<open>LBReadyHook\<close>.\<close>

datatype call =
    ListLBServices ListOptions
  | CreateLBService LBServiceSpec
  | DeleteLBService string
  | GetLBService string
  | ListVIPs string string
  | CreateVIP string string
  | DeleteVIP string string
  | ListVirtualServers string
  | GetVirtualServer string string
  | CreateVirtualServer string VirtualServerSpec
  | DeleteVirtualServer string string
  | GetCompute string
  | GetNetwork string
  | ListPools string string
  | CreatePool string string PoolSpec
  | DeletePool string string string
  | SetDefaultPool string string string
  | CreatePoolMember string string string PoolMemberSpec
  | UpdatePoolMember string string string string PoolMemberSpec
  | DeletePoolMember string string string string
  | ListMonitors string string string
  | CreateMonitor string string string MonitorSpec
  | UpdateMonitor string string string string MonitorSpec
  | DeleteMonitor string string string string
  | ListRoutingRules string string
  | CreateRoutingRule string string RoutingRuleSpec
  | DeleteRoutingRule string string string
  | ListCertificates string
  | UploadCertificate string CertificateSpec
  | DeleteCertificate string string
  | BindCertificate string string string
  | UnbindCertificate string string string
  | LBReady ObservedState

type_synonym history = "call list"

record cmp =
  r_ListLBServices :: "ListOptions \<Rightarrow> history \<Rightarrow> err + LBService list"
  r_CreateLBService :: "LBServiceSpec \<Rightarrow> history \<Rightarrow> err + LBService"
  r_DeleteLBService :: "string \<Rightarrow> history \<Rightarrow> err + unit"
  r_GetLBService :: "string \<Rightarrow> history \<Rightarrow> err + LBService"
  r_ListVIPs :: "string \<Rightarrow> string \<Rightarrow> history \<Rightarrow> err + VIP list"
  r_CreateVIP :: "string \<Rightarrow> string \<Rightarrow> history \<Rightarrow> err + VIP"
  r_DeleteVIP :: "string \<Rightarrow> string \<Rightarrow> history \<Rightarrow> err + unit"
  r_ListVirtualServers :: "string \<Rightarrow> history \<Rightarrow> err + VirtualServer list"
  r_GetVirtualServer :: "string \<Rightarrow> string \<Rightarrow> history \<Rightarrow> err + VirtualServer"
  r_CreateVirtualServer :: "string \<Rightarrow> VirtualServerSpec \<Rightarrow> history \<Rightarrow> err + VirtualServer"
  r_DeleteVirtualServer :: "string \<Rightarrow> string \<Rightarrow> history \<Rightarrow> err + unit"
  r_GetCompute :: "string \<Rightarrow> history \<Rightarrow> err + Compute"
  r_GetNetwork :: "string \<Rightarrow> history \<Rightarrow> err + Network"
  r_ListPools :: "string \<Rightarrow> string \<Rightarrow> history \<Rightarrow> err + PoolResource list"
  r_CreatePool :: "string \<Rightarrow> string \<Rightarrow> PoolSpec \<Rightarrow> history \<Rightarrow> err + PoolResource"
  r_DeletePool :: "string \<Rightarrow> string \<Rightarrow> string \<Rightarrow> history \<Rightarrow> err + unit"
  r_SetDefaultPool :: "string \<Rightarrow> string \<Rightarrow> string \<Rightarrow> history \<Rightarrow> err + unit"
  r_CreatePoolMember :: "string \<Rightarrow> string \<Rightarrow> string \<Rightarrow> PoolMemberSpec \<Rightarrow> history \<Rightarrow> err + PoolMemberResource"
  r_UpdatePoolMember :: "string \<Rightarrow> string \<Rightarrow> string \<Rightarrow> string \<Rightarrow> PoolMemberSpec \<Rightarrow> history \<Rightarrow> err + PoolMemberResource"
  r_DeletePoolMember :: "string \<Rightarrow> string \<Rightarrow> string \<Rightarrow> string \<Rightarrow> history \<Rightarrow> err + unit"
  r_ListMonitors :: "string \<Rightarrow> string \<Rightarrow> string \<Rightarrow> history \<Rightarrow> err + MonitorResource list"
  r_CreateMonitor :: "string \<Rightarrow> string \<Rightarrow> string \<Rightarrow> MonitorSpec \<Rightarrow> history \<Rightarrow> err + MonitorResource"
  r_UpdateMonitor :: "string \<Rightarrow> string \<Rightarrow> string \<Rightarrow> string \<Rightarrow> MonitorSpec \<Rightarrow> history \<Rightarrow> err + MonitorResource"
  r_DeleteMonitor :: "string \<Rightarrow> string \<Rightarrow> string \<Rightarrow> string \<Rightarrow> history \<Rightarrow> err + unit"
  r_ListRoutingRules :: "string \<Rightarrow> string \<Rightarrow> history \<Rightarrow> err + RoutingRuleResource list"
  r_CreateRoutingRule :: "string \<Rightarrow> string \<Rightarrow> RoutingRuleSpec \<Rightarrow> history \<Rightarrow> err + RoutingRuleResource"
  r_DeleteRoutingRule :: "string \<Rightarrow> string \<Rightarrow> string \<Rightarrow> history \<Rightarrow> err + unit"
  r_ListCertificates :: "string \<Rightarrow> history \<Rightarrow> err + CertificateResource list"
  r_UploadCertificate :: "string \<Rightarrow> CertificateSpec \<Rightarrow> history \<Rightarrow> err + CertificateResource"
  r_DeleteCertificate :: "string \<Rightarrow> string \<Rightarrow> history \<Rightarrow> err + unit"
  r_BindCertificate :: "string \<Rightarrow> string \<Rightarrow> string \<Rightarrow> history \<Rightarrow> err + unit"
  r_UnbindCertificate :: "string \<Rightarrow> string \<Rightarrow> string \<Rightarrow> history \<Rightarrow> err + unit"
  r_LBReady :: "ObservedState \<Rightarrow> history \<Rightarrow> err + unit"
  r_range :: "history \<Rightarrow> string list \<Rightarrow> string list"

subsection \<open>Classification of calls\<close>

text \<open>The calls that change the provider; the hook is the caller's own code.\<close>

fun is_mutation :: "call \<Rightarrow> bool" where
  "is_mutation (ListLBServices o1) = False"
| "is_mutation (GetLBService i) = False"
| "is_mutation (ListVIPs lb sn) = False"
| "is_mutation (ListVirtualServers lb) = False"
| "is_mutation (GetVirtualServer lb i) = False"
| "is_mutation (GetCompute i) = False"
| "is_mutation (GetNetwork i) = False"
| "is_mutation (ListPools lb vs) = False"
| "is_mutation (ListMonitors lb vs p) = False"
| "is_mutation (ListRoutingRules lb vs) = False"
| "is_mutation (ListCertificates lb) = False"
| "is_mutation (LBReady s) = False"
| "is_mutation c = True"

fun is_delete :: "call \<Rightarrow> bool" where
  "is_delete (DeleteLBService i) = True"
| "is_delete (DeleteVIP lb i) = True"
| "is_delete (DeleteVirtualServer lb i) = True"
| "is_delete (DeletePool lb vs p) = True"
| "is_delete (DeletePoolMember lb vs p i) = True"
| "is_delete (DeleteMonitor lb vs p i) = True"
| "is_delete (DeleteRoutingRule lb vs i) = True"
| "is_delete (DeleteCertificate lb i) = True"
| "is_delete c = False"

text \<open>The LB service a call is addressed to, for the calls below an LB service.\<close>

fun call_lb :: "call \<Rightarrow> string option" where
  "call_lb (DeleteLBService i) = Some i"
| "call_lb (GetLBService i) = Some i"
| "call_lb (ListVIPs lb sn) = Some lb"
| "call_lb (CreateVIP lb sn) = Some lb"
| "call_lb (DeleteVIP lb i) = Some lb"
| "call_lb (ListVirtualServers lb) = Some lb"
| "call_lb (GetVirtualServer lb i) = Some lb"
| "call_lb (CreateVirtualServer lb s) = Some lb"
| "call_lb (DeleteVirtualServer lb i) = Some lb"
| "call_lb (ListPools lb vs) = Some lb"
| "call_lb (CreatePool lb vs s) = Some lb"
| "call_lb (DeletePool lb vs p) = Some lb"
| "call_lb (SetDefaultPool lb vs p) = Some lb"
| "call_lb (CreatePoolMember lb vs p s) = Some lb"
| "call_lb (UpdatePoolMember lb vs p i s) = Some lb"
| "call_lb (DeletePoolMember lb vs p i) = Some lb"
| "call_lb (ListMonitors lb vs p) = Some lb"
| "call_lb (CreateMonitor lb vs p s) = Some lb"
| "call_lb (UpdateMonitor lb vs p i s) = Some lb"
| "call_lb (DeleteMonitor lb vs p i) = Some lb"
| "call_lb (ListRoutingRules lb vs) = Some lb"
| "call_lb (CreateRoutingRule lb vs s) = Some lb"
| "call_lb (DeleteRoutingRule lb vs i) = Some lb"
| "call_lb (ListCertificates lb) = Some lb"
| "call_lb (UploadCertificate lb s) = Some lb"
| "call_lb (DeleteCertificate lb i) = Some lb"
| "call_lb (BindCertificate lb vs i) = Some lb"
| "call_lb (UnbindCertificate lb vs i) = Some lb"
| "call_lb c = None"

text \<open>The pool a call is addressed to, for the calls below a pool.\<close>

fun call_pool :: "call \<Rightarrow> string option" where
  "call_pool (DeletePool lb vs p) = Some p"
| "call_pool (SetDefaultPool lb vs p) = Some p"
| "call_pool (CreatePoolMember lb vs p s) = Some p"
| "call_pool (UpdatePoolMember lb vs p i s) = Some p"
| "call_pool (DeletePoolMember lb vs p i) = Some p"
| "call_pool (ListMonitors lb vs p) = Some p"
| "call_pool (CreateMonitor lb vs p s) = Some p"
| "call_pool (UpdateMonitor lb vs p i s) = Some p"
| "call_pool (DeleteMonitor lb vs p i) = Some p"
| "call_pool c = None"

definition mutations :: "history \<Rightarrow> call list" where
  "mutations cs = filter is_mutation cs"

lemma mutations_simps [simp]:
  "mutations [] = []"
  "mutations (c # cs) = (if is_mutation c then c # mutations cs else mutations cs)"
  "mutations (cs @ ds) = mutations cs @ mutations ds"
  by (simp_all add: mutations_def)

lemma mutations_empty_iff: "mutations cs = [] \<longleftrightarrow> list_all (\<lambda>c. \<not> is_mutation c) cs"
  by (simp add: mutations_def filter_empty_conv list_all_iff)

lemma set_mutations: "c \<in> set (mutations cs) \<longleftrightarrow> c \<in> set cs \<and> is_mutation c"
  by (auto simp: mutations_def)

end
