(* ===== verification/Effects.thy ===== *)
theory Effects
  imports CmpClient
begin

text \<open>
  The combinators of the effect type and the rules to reason about the calls a computation makes.  The
  type of the logged calls is a parameter: the provider calls of the deployer, or those of a controller.
  \<open>effect m Q\<close> says that \<open>m\<close> only extends the history, and that the calls it adds and its result
  satisfy \<open>Q\<close>, whatever the provider answers; \<open>emits P m\<close> that each of these calls satisfies
  \<open>P\<close>; \<open>returns m Q\<close> that a value \<open>m\<close> returns satisfies \<open>Q\<close>.
\<close>

type_synonym ('c, 'a) eff = "'c list \<Rightarrow> (err + 'a) \<times> 'c list"
type_synonym 'a io = "(call, 'a) eff"

definition io_return :: "'a \<Rightarrow> ('c, 'a) eff" where
  "io_return x = (\<lambda>h. (Inr x, h))"

definition io_fail :: "err \<Rightarrow> ('c, 'a) eff" where
  "io_fail e = (\<lambda>h. (Inl e, h))"

definition io_try :: "('c, 'a) eff \<Rightarrow> (err + 'a \<Rightarrow> ('c, 'b) eff) \<Rightarrow> ('c, 'b) eff" where
  "io_try m f = (\<lambda>h. case m h of (r, h') \<Rightarrow> f r h')"

definition io_bind :: "('c, 'a) eff \<Rightarrow> ('a \<Rightarrow> ('c, 'b) eff) \<Rightarrow> ('c, 'b) eff" where
  "io_bind m f = io_try m (\<lambda>r. case r of Inl e \<Rightarrow> io_fail e | Inr x \<Rightarrow> f x)"

text \<open>\<open>if err != nil { return fmt.Errorf(format, args..., err) }\<close>.\<close>

definition io_wrap :: "string \<Rightarrow> string list \<Rightarrow> ('c, 'a) eff \<Rightarrow> ('c, 'a) eff" where
  "io_wrap f args m = io_try m (\<lambda>r. case r of Inl e \<Rightarrow> io_fail (Wrapf f args e) | Inr x \<Rightarrow> io_return x)"

definition io_check :: "err option \<Rightarrow> ('c, 'a) eff \<Rightarrow> ('c, 'a) eff" where
  "io_check e m = (case e of None \<Rightarrow> m | Some x \<Rightarrow> io_fail x)"

definition io_of_result :: "err + 'a \<Rightarrow> ('c, 'a) eff" where
  "io_of_result r = (case r of Inl e \<Rightarrow> io_fail e | Inr x \<Rightarrow> io_return x)"

definition invoke :: "'c \<Rightarrow> ('c list \<Rightarrow> err + 'a) \<Rightarrow> ('c, 'a) eff" where
  "invoke c r = (\<lambda>h. (r h, h @ [c]))"

fun io_fold :: "('s \<Rightarrow> 'x \<Rightarrow> ('c, 's) eff) \<Rightarrow> 'x list \<Rightarrow> 's \<Rightarrow> ('c, 's) eff" where
  "io_fold f [] s = io_return s"
| "io_fold f (x # xs) s = io_bind (f s x) (io_fold f xs)"

text \<open>A loop that appends one result per element and stops at the first error.\<close>

fun io_map :: "('x \<Rightarrow> ('c, 'y) eff) \<Rightarrow> 'x list \<Rightarrow> ('c, 'y list) eff" where
  "io_map f [] = io_return []"
| "io_map f (x # xs) = io_bind (f x) (\<lambda>y. io_bind (io_map f xs) (\<lambda>ys. io_return (y # ys)))"

text \<open>\<open>for key, value := range m\<close>: the entries in the order the runtime chose.\<close>

definition io_range :: "cmp \<Rightarrow> 'a gomap \<Rightarrow> ((string \<times> 'a) list \<Rightarrow> 'b io) \<Rightarrow> 'b io" where
  "io_range A m f = (\<lambda>h. f (go_range (r_range A h) m) h)"

lemmas io_defs = io_return_def io_fail_def io_try_def io_bind_def io_wrap_def io_check_def io_of_result_def invoke_def
  io_range_def

subsection \<open>The calls\<close>

definition do_ListLBServices where "do_ListLBServices A o1 = invoke (ListLBServices o1) (r_ListLBServices A o1)"
definition do_CreateLBService where "do_CreateLBService A s = invoke (CreateLBService s) (r_CreateLBService A s)"
definition do_DeleteLBService where "do_DeleteLBService A i = invoke (DeleteLBService i) (r_DeleteLBService A i)"
definition do_GetLBService where "do_GetLBService A i = invoke (GetLBService i) (r_GetLBService A i)"
definition do_ListVIPs where "do_ListVIPs A lb sn = invoke (ListVIPs lb sn) (r_ListVIPs A lb sn)"
definition do_CreateVIP where "do_CreateVIP A lb sn = invoke (CreateVIP lb sn) (r_CreateVIP A lb sn)"
definition do_DeleteVIP where "do_DeleteVIP A lb i = invoke (DeleteVIP lb i) (r_DeleteVIP A lb i)"
definition do_ListVirtualServers where "do_ListVirtualServers A lb = invoke (ListVirtualServers lb) (r_ListVirtualServers A lb)"
definition do_GetVirtualServer where "do_GetVirtualServer A lb i = invoke (GetVirtualServer lb i) (r_GetVirtualServer A lb i)"
definition do_CreateVirtualServer where "do_CreateVirtualServer A lb s = invoke (CreateVirtualServer lb s) (r_CreateVirtualServer A lb s)"
definition do_DeleteVirtualServer where "do_DeleteVirtualServer A lb i = invoke (DeleteVirtualServer lb i) (r_DeleteVirtualServer A lb i)"
definition do_GetCompute where "do_GetCompute A i = invoke (GetCompute i) (r_GetCompute A i)"
definition do_GetNetwork where "do_GetNetwork A i = invoke (GetNetwork i) (r_GetNetwork A i)"
definition do_ListPools where "do_ListPools A lb vs = invoke (ListPools lb vs) (r_ListPools A lb vs)"
definition do_CreatePool where "do_CreatePool A lb vs s = invoke (CreatePool lb vs s) (r_CreatePool A lb vs s)"
definition do_DeletePool where "do_DeletePool A lb vs i = invoke (DeletePool lb vs i) (r_DeletePool A lb vs i)"
definition do_SetDefaultPool where "do_SetDefaultPool A lb vs i = invoke (SetDefaultPool lb vs i) (r_SetDefaultPool A lb vs i)"
definition do_CreatePoolMember where "do_CreatePoolMember A lb vs p s = invoke (CreatePoolMember lb vs p s) (r_CreatePoolMember A lb vs p s)"
definition do_UpdatePoolMember where "do_UpdatePoolMember A lb vs p i s = invoke (UpdatePoolMember lb vs p i s) (r_UpdatePoolMember A lb vs p i s)"
definition do_DeletePoolMember where "do_DeletePoolMember A lb vs p i = invoke (DeletePoolMember lb vs p i) (r_DeletePoolMember A lb vs p i)"
definition do_ListMonitors where "do_ListMonitors A lb vs p = invoke (ListMonitors lb vs p) (r_ListMonitors A lb vs p)"
definition do_CreateMonitor where "do_CreateMonitor A lb vs p s = invoke (CreateMonitor lb vs p s) (r_CreateMonitor A lb vs p s)"
definition do_UpdateMonitor where "do_UpdateMonitor A lb vs p i s = invoke (UpdateMonitor lb vs p i s) (r_UpdateMonitor A lb vs p i s)"
definition do_DeleteMonitor where "do_DeleteMonitor A lb vs p i = invoke (DeleteMonitor lb vs p i) (r_DeleteMonitor A lb vs p i)"
definition do_ListRoutingRules where "do_ListRoutingRules A lb vs = invoke (ListRoutingRules lb vs) (r_ListRoutingRules A lb vs)"
definition do_CreateRoutingRule where "do_CreateRoutingRule A lb vs s = invoke (CreateRoutingRule lb vs s) (r_CreateRoutingRule A lb vs s)"
definition do_DeleteRoutingRule where "do_DeleteRoutingRule A lb vs i = invoke (DeleteRoutingRule lb vs i) (r_DeleteRoutingRule A lb vs i)"
definition do_ListCertificates where "do_ListCertificates A lb = invoke (ListCertificates lb) (r_ListCertificates A lb)"
definition do_UploadCertificate where "do_UploadCertificate A lb s = invoke (UploadCertificate lb s) (r_UploadCertificate A lb s)"
definition do_DeleteCertificate where "do_DeleteCertificate A lb i = invoke (DeleteCertificate lb i) (r_DeleteCertificate A lb i)"
definition do_BindCertificate where "do_BindCertificate A lb vs i = invoke (BindCertificate lb vs i) (r_BindCertificate A lb vs i)"
definition do_UnbindCertificate where "do_UnbindCertificate A lb vs i = invoke (UnbindCertificate lb vs i) (r_UnbindCertificate A lb vs i)"
definition do_LBReady where "do_LBReady A s = invoke (LBReady s) (r_LBReady A s)"

lemmas do_defs = do_ListLBServices_def do_CreateLBService_def do_DeleteLBService_def do_GetLBService_def
  do_ListVIPs_def do_CreateVIP_def do_DeleteVIP_def do_ListVirtualServers_def do_GetVirtualServer_def
  do_CreateVirtualServer_def do_DeleteVirtualServer_def do_GetCompute_def do_GetNetwork_def
  do_ListPools_def do_CreatePool_def do_DeletePool_def do_SetDefaultPool_def do_CreatePoolMember_def
  do_UpdatePoolMember_def do_DeletePoolMember_def do_ListMonitors_def do_CreateMonitor_def
  do_UpdateMonitor_def do_DeleteMonitor_def do_ListRoutingRules_def do_CreateRoutingRule_def
  do_DeleteRoutingRule_def do_ListCertificates_def do_UploadCertificate_def do_DeleteCertificate_def
  do_BindCertificate_def do_UnbindCertificate_def do_LBReady_def

text \<open>A delete whose \<open>404\<close> counts as done: \<open>err != nil && !IsNotFound(err)\<close>.\<close>

definition tolerate_404 :: "string \<Rightarrow> string list \<Rightarrow> ('c, unit) eff \<Rightarrow> ('c, unit) eff" where
  "tolerate_404 f args m =
     io_try m (\<lambda>r. case r of
        Inl e \<Rightarrow> if IsNotFound e then io_return () else io_fail (Wrapf f args e)
      | Inr u \<Rightarrow> io_return ())"

subsection \<open>Reasoning about effects\<close>

definition effect :: "('c, 'a) eff \<Rightarrow> ('c list \<Rightarrow> err + 'a \<Rightarrow> bool) \<Rightarrow> bool" where
  "effect m Q \<longleftrightarrow> (\<forall>h. \<exists>cs. snd (m h) = h @ cs \<and> Q cs (fst (m h)))"

definition emits :: "('c \<Rightarrow> bool) \<Rightarrow> ('c, 'a) eff \<Rightarrow> bool" where
  "emits P m \<longleftrightarrow> (\<forall>h. \<exists>cs. snd (m h) = h @ cs \<and> list_all P cs)"

definition returns :: "('c, 'a) eff \<Rightarrow> ('a \<Rightarrow> bool) \<Rightarrow> bool" where
  "returns m Q \<longleftrightarrow> (\<forall>h x. fst (m h) = Inr x \<longrightarrow> Q x)"

lemma effect_return: "Q [] (Inr x) \<Longrightarrow> effect (io_return x) Q"
  by (simp add: effect_def io_return_def)

lemma effect_fail: "Q [] (Inl e) \<Longrightarrow> effect (io_fail e) Q"
  by (simp add: effect_def io_fail_def)

lemma effect_invoke: "(\<And>h. Q [c] (r h)) \<Longrightarrow> effect (invoke c r) Q"
  by (simp add: effect_def invoke_def)

lemma effect_conseq: "effect m P \<Longrightarrow> (\<And>cs r. P cs r \<Longrightarrow> Q cs r) \<Longrightarrow> effect m Q"
  unfolding effect_def by blast

lemma effect_try:
  assumes "effect m P" and "\<And>cs r. P cs r \<Longrightarrow> effect (f r) (\<lambda>ds. Q (cs @ ds))"
  shows "effect (io_try m f) Q"
  unfolding effect_def
proof
  fix h
  from assms(1) obtain cs where cs: "snd (m h) = h @ cs" "P cs (fst (m h))"
    unfolding effect_def by blast
  from assms(2) [OF cs(2)] obtain ds where
    "snd (f (fst (m h)) (h @ cs)) = (h @ cs) @ ds" "Q (cs @ ds) (fst (f (fst (m h)) (h @ cs)))"
    unfolding effect_def by blast
  then show "\<exists>cs. snd (io_try m f h) = h @ cs \<and> Q cs (fst (io_try m f h))"
    using cs(1) by (auto simp: io_try_def split: prod.splits)
qed

lemma effect_bind:
  assumes "effect m P" and "\<And>cs x. P cs (Inr x) \<Longrightarrow> effect (f x) (\<lambda>ds. Q (cs @ ds))"
    and "\<And>cs e. P cs (Inl e) \<Longrightarrow> Q cs (Inl e)"
  shows "effect (io_bind m f) Q"
  unfolding io_bind_def
  by (rule effect_try [OF assms(1)]) (auto split: sum.splits intro!: effect_fail assms(2,3))

lemma effect_conj: "effect m P \<Longrightarrow> effect m Q \<Longrightarrow> effect m (\<lambda>cs r. P cs r \<and> Q cs r)"
  unfolding effect_def by (metis same_append_eq)

lemma emits_effect: "emits P m = effect m (\<lambda>cs r. list_all P cs)"
  by (simp add: emits_def effect_def)

lemma effect_emits: "effect m Q \<Longrightarrow> (\<And>cs r. Q cs r \<Longrightarrow> list_all P cs) \<Longrightarrow> emits P m"
  unfolding emits_effect by (rule effect_conseq)

lemma effect_returns: "effect m Q \<Longrightarrow> (\<And>cs x. Q cs (Inr x) \<Longrightarrow> P x) \<Longrightarrow> returns m P"
  unfolding effect_def returns_def by metis

lemma emits_mono: "emits P m \<Longrightarrow> (\<And>c. P c \<Longrightarrow> Q c) \<Longrightarrow> emits Q m"
  unfolding emits_def by (meson list.pred_mono_strong)

lemma emits_run: "emits P m \<Longrightarrow> m h = (r, h') \<Longrightarrow> \<exists>cs. h' = h @ cs \<and> list_all P cs"
  unfolding emits_def by (metis snd_conv)

lemma effect_run: "effect m Q \<Longrightarrow> m h = (r, h') \<Longrightarrow> \<exists>cs. h' = h @ cs \<and> Q cs r"
  unfolding effect_def by (metis fst_conv snd_conv)

lemma returns_run: "returns m Q \<Longrightarrow> m h = (Inr x, h') \<Longrightarrow> Q x"
  unfolding returns_def by (metis fst_conv)

lemma emits_return [intro!, emit_intros]: "emits P (io_return x)"
  by (simp add: emits_def io_return_def)

lemma emits_fail [intro!, emit_intros]: "emits P (io_fail e)"
  by (simp add: emits_def io_fail_def)

lemma emits_invoke [intro!, emit_intros]: "P c \<Longrightarrow> emits P (invoke c r)"
  by (simp add: emits_def invoke_def)

lemma emits_try [intro!, emit_intros]: "emits P m \<Longrightarrow> (\<And>r. emits P (f r)) \<Longrightarrow> emits P (io_try m f)"
  unfolding emits_effect by (rule effect_try [where P = "\<lambda>cs r. list_all P cs"]) (auto simp: effect_def)

lemma emits_bind [intro!, emit_intros]: "emits P m \<Longrightarrow> (\<And>x. emits P (f x)) \<Longrightarrow> emits P (io_bind m f)"
  unfolding io_bind_def by (rule emits_try) (auto split: sum.splits)

lemma emits_wrap [intro!, emit_intros]: "emits P m \<Longrightarrow> emits P (io_wrap f args m)"
  unfolding io_wrap_def by (rule emits_try) (auto split: sum.splits)

lemma emits_check [intro!, emit_intros]: "(e = None \<Longrightarrow> emits P m) \<Longrightarrow> emits P (io_check e m)"
  by (auto simp: io_check_def split: option.splits)

lemma emits_of_result [intro!, emit_intros]: "emits P (io_of_result r)"
  by (auto simp: io_of_result_def split: sum.splits)

lemma emits_if [intro!, emit_intros]: "(b \<Longrightarrow> emits P m) \<Longrightarrow> (\<not> b \<Longrightarrow> emits P n) \<Longrightarrow> emits P (if b then m else n)"
  by simp

lemma emits_404 [intro!, emit_intros]: "emits P m \<Longrightarrow> emits P (tolerate_404 f args m)"
  unfolding tolerate_404_def by (rule emits_try) (auto split: sum.splits)

lemma emits_fold [emit_intros]:
  "(\<And>s x. x \<in> set xs \<Longrightarrow> emits P (f s x)) \<Longrightarrow> emits P (io_fold f xs s)"
  by (induction xs arbitrary: s) (auto intro!: emits_bind)

lemma emits_map [emit_intros]:
  "(\<And>x. x \<in> set xs \<Longrightarrow> emits P (f x)) \<Longrightarrow> emits P (io_map f xs)"
  by (induction xs) (auto intro!: emits_bind)

lemma emits_range [intro!, emit_intros]:
  "(\<And>es. (\<And>k v. (k, v) \<in> set es \<Longrightarrow> map_of m k = Some v) \<Longrightarrow> emits P (f es)) \<Longrightarrow> emits P (io_range A m f)"
  unfolding emits_def io_range_def by (metis go_range_member)

lemma emits_case_sum [intro!, emit_intros]:
  "(\<And>e. r = Inl e \<Longrightarrow> emits P (f e)) \<Longrightarrow> (\<And>x. r = Inr x \<Longrightarrow> emits P (g x)) \<Longrightarrow>
   emits P (case r of Inl e \<Rightarrow> f e | Inr x \<Rightarrow> g x)"
  by (cases r) auto

lemma emits_case_option [intro!, emit_intros]:
  "(r = None \<Longrightarrow> emits P f) \<Longrightarrow> (\<And>x. r = Some x \<Longrightarrow> emits P (g x)) \<Longrightarrow>
   emits P (case r of None \<Rightarrow> f | Some x \<Rightarrow> g x)"
  by (cases r) auto

lemma returns_return: "Q x \<Longrightarrow> returns (io_return x) Q"
  by (simp add: returns_def io_return_def)

lemma returns_fail [simp]: "returns (io_fail e) Q"
  by (simp add: returns_def io_fail_def)

lemma returns_bind:
  assumes "returns m P" and "\<And>x. P x \<Longrightarrow> returns (f x) Q"
  shows "returns (io_bind m f) Q"
  unfolding returns_def
proof (intro allI impI)
  fix h y
  assume y: "fst (io_bind m f h) = Inr y"
  show "Q y"
  proof (cases "fst (m h)")
    case (Inl e)
    with y show ?thesis by (simp add: io_bind_def io_try_def io_fail_def split: prod.splits)
  next
    case (Inr x)
    with y have "fst (f x (snd (m h))) = Inr y"
      by (simp add: io_bind_def io_try_def split: prod.splits)
    moreover have "P x" using assms(1) Inr unfolding returns_def by blast
    ultimately show ?thesis using assms(2) unfolding returns_def by blast
  qed
qed

lemma returns_fold:
  assumes "I s" and "\<And>s x. x \<in> set xs \<Longrightarrow> I s \<Longrightarrow> returns (f s x) I"
  shows "returns (io_fold f xs s) I"
  using assms
proof (induction xs arbitrary: s)
  case Nil
  then show ?case by (simp add: returns_return)
next
  case (Cons x xs)
  then show ?case by (auto intro!: returns_bind [where P = I])
qed

text \<open>Evaluating a computation on a given history.\<close>

lemma run_return [io_simps]: "io_return x h = (Inr x, h)"
  by (simp add: io_return_def)

lemma run_fail [io_simps]: "io_fail e h = (Inl e, h)"
  by (simp add: io_fail_def)

lemma run_invoke [io_simps]: "invoke c r h = (r h, h @ [c])"
  by (simp add: invoke_def)

lemma run_try [io_simps]: "io_try m f h = f (fst (m h)) (snd (m h))"
  by (simp add: io_try_def split: prod.splits)

lemma run_bind [io_simps]:
  "io_bind m f h = (case fst (m h) of Inl e \<Rightarrow> (Inl e, snd (m h)) | Inr x \<Rightarrow> f x (snd (m h)))"
  by (simp add: io_bind_def run_try io_fail_def split: sum.splits)

lemma run_wrap [io_simps]:
  "io_wrap f args m h = (case fst (m h) of Inl e \<Rightarrow> (Inl (Wrapf f args e), snd (m h)) | Inr x \<Rightarrow> (Inr x, snd (m h)))"
  by (simp add: io_wrap_def run_try io_fail_def io_return_def split: sum.splits)

lemma run_check [io_simps]: "io_check e m h = (case e of None \<Rightarrow> m h | Some x \<Rightarrow> (Inl x, h))"
  by (simp add: io_check_def io_fail_def split: option.splits)

lemma run_of_result [io_simps]: "io_of_result r h = (r, h)"
  by (simp add: io_of_result_def io_fail_def io_return_def split: sum.splits)

lemma run_404 [io_simps]:
  "tolerate_404 f args m h =
     (case fst (m h) of Inl e \<Rightarrow> (if IsNotFound e then Inr () else Inl (Wrapf f args e), snd (m h))
      | Inr u \<Rightarrow> (Inr (), snd (m h)))"
  by (simp add: tolerate_404_def run_try io_fail_def io_return_def split: sum.splits)

lemma run_range [io_simps]: "io_range A m f h = f (go_range (r_range A h) m) h"
  by (simp add: io_range_def)

text \<open>Taking a finished run apart.\<close>

lemma tryE:
  assumes "io_try m f h = (r, h')"
  obtains r1 h1 where "m h = (r1, h1)" "f r1 h1 = (r, h')"
  using assms by (auto simp: io_try_def split: prod.splits)

lemma bind_InrE:
  assumes "io_bind m f h = (Inr y, h')"
  obtains x h1 where "m h = (Inr x, h1)" "f x h1 = (Inr y, h')"
  using assms unfolding io_bind_def by (auto elim!: tryE simp: io_fail_def split: sum.splits)

lemma wrap_InrE:
  assumes "io_wrap g args m h = (Inr y, h')"
  obtains "m h = (Inr y, h')"
  using assms unfolding io_wrap_def by (auto elim!: tryE simp: io_fail_def io_return_def split: sum.splits)

lemma check_InrE:
  assumes "io_check e m h = (Inr y, h')"
  obtains "e = None" "m h = (Inr y, h')"
  using assms by (auto simp: io_check_def io_fail_def split: option.splits)

lemma fail_InrE: "io_fail e h = (Inr y, h') \<Longrightarrow> P"
  by (simp add: io_fail_def)

lemma return_InrE:
  assumes "io_return x h = (Inr y, h')"
  obtains "y = x" "h' = h"
  using assms by (auto simp: io_return_def)

lemma invokeE:
  assumes "invoke c r h = (y, h')"
  obtains "r h = y" "h' = h @ [c]"
  using assms by (auto simp: invoke_def)

lemma if_InrE:
  assumes "(if b then m else n) h = (Inr y, h')"
  obtains "b" "m h = (Inr y, h')" | "\<not> b" "n h = (Inr y, h')"
  using assms by (auto split: if_splits)

text \<open>Every element of a successful \<open>io_map\<close> was computed without error.\<close>

lemma io_map_InrE:
  assumes "io_map f xs h = (Inr ys, h')"
  shows "list_all2 (\<lambda>x y. \<exists>h0 h1. f x h0 = (Inr y, h1)) xs ys"
  using assms
proof (induction xs arbitrary: ys h h')
  case Nil
  then show ?case by (auto simp: io_return_def)
next
  case (Cons x xs)
  from Cons.prems obtain y h1 zs h2 where
    "f x h = (Inr y, h1)" "io_map f xs h1 = (Inr zs, h2)" "ys = y # zs"
    by (auto elim!: bind_InrE return_InrE)
  with Cons.IH show ?case by auto
qed

lemma io_fold_InrE:
  assumes "io_fold f xs s h = (Inr t, h')" "x \<in> set xs"
  shows "\<exists>s0 h0 s1 h1. f s0 x h0 = (Inr s1, h1)"
  using assms
proof (induction xs arbitrary: s h h')
  case (Cons y ys)
  from Cons.prems(1) obtain s1 h1 where
    "f s y h = (Inr s1, h1)" "io_fold f ys s1 h1 = (Inr t, h')"
    by (auto elim!: bind_InrE)
  with Cons show ?case by auto
qed simp

text \<open>The same with the history in between: every step runs inside the history of the loop.\<close>

lemma io_fold_runE:
  assumes "io_fold f xs s h = (Inr t, h')" "x \<in> set xs" "\<And>s x. emits P (f s x)"
  shows "\<exists>s0 h0 s1 h1. f s0 x h0 = (Inr s1, h1) \<and> prefix h h0 \<and> prefix h1 h'"
  using assms(1,2)
proof (induction xs arbitrary: s h)
  case (Cons y ys)
  from Cons.prems(1) obtain s1 h1 where step: "f s y h = (Inr s1, h1)" and rest: "io_fold f ys s1 h1 = (Inr t, h')"
    by (auto elim!: bind_InrE)
  have "prefix h h1" using emits_run [OF assms(3) step] by (auto simp: prefix_def)
  moreover have "prefix h1 h'" using emits_run [OF emits_fold [OF assms(3)] rest] by (auto simp: prefix_def)
  ultimately show ?case using Cons.IH [OF rest] Cons.prems(2) step
    by (metis prefix_order.refl prefix_order.trans set_ConsD)
qed simp

lemmas run_elims = tryE bind_InrE wrap_InrE check_InrE fail_InrE return_InrE invokeE if_InrE

subsection \<open>The calls of one run\<close>

text \<open>\<open>calls_of m h\<close> are the calls \<open>m\<close> makes when started after the calls \<open>h\<close>,
  \<open>result_of m h\<close> is what it returns.\<close>

definition calls_of :: "('c, 'a) eff \<Rightarrow> 'c list \<Rightarrow> 'c list" where
  "calls_of m h = drop (length h) (snd (m h))"

definition result_of :: "('c, 'a) eff \<Rightarrow> 'c list \<Rightarrow> err + 'a" where
  "result_of m h = fst (m h)"

lemma effect_at: "effect m Q \<Longrightarrow> Q (calls_of m h) (result_of m h)"
  unfolding effect_def calls_of_def result_of_def by (metis append_eq_conv_conj)

lemma emits_at: "emits P m \<Longrightarrow> c \<in> set (calls_of m h) \<Longrightarrow> P c"
  unfolding emits_effect by (drule effect_at [where h = h]) (simp add: list_all_iff)

lemma effect_snd: "effect m Q \<Longrightarrow> snd (m h) = h @ calls_of m h"
  unfolding effect_def calls_of_def by (metis append_eq_conv_conj)

lemma effect_of_runs:
  assumes "\<And>h. snd (m h) = h @ calls_of m h" "\<And>h. Q (calls_of m h) (result_of m h)"
  shows "effect m Q"
  using assms unfolding effect_def result_of_def by metis

lemma calls_of_first:
  assumes "m h = n (h @ [c])" "snd (n (h @ [c])) = (h @ [c]) @ calls_of n (h @ [c])"
  shows "calls_of m h = c # calls_of n (h @ [c])"
  unfolding calls_of_def [of m] assms(1) by (subst assms(2)) simp

lemma emits_reads: "effect m (\<lambda>cs r. mutations cs = []) = emits (\<lambda>c. \<not> is_mutation c) m"
  by (simp add: mutations_empty_iff emits_effect)

text \<open>The shapes in which the managers make one mutating call.\<close>

lemma mutation_invoke: "is_mutation c \<Longrightarrow> effect (invoke c r) (\<lambda>cs r. mutations cs = [c])"
  by (rule effect_invoke) simp

lemma mutation_404: "is_mutation c \<Longrightarrow> effect (tolerate_404 f args (invoke c r)) (\<lambda>cs r. mutations cs = [c])"
  unfolding tolerate_404_def
  by (rule effect_try [OF mutation_invoke]) (auto split: sum.splits intro!: effect_return effect_fail)

lemma mutation_wrap: "is_mutation c \<Longrightarrow> effect (io_wrap f args (invoke c r)) (\<lambda>cs r. mutations cs = [c])"
  unfolding io_wrap_def
  by (rule effect_try [OF mutation_invoke]) (auto split: sum.splits intro!: effect_return effect_fail)

lemma calls_of_invoke_try:
  assumes "effect (f (r h)) Q"
  shows "\<exists>ds. calls_of (io_try (invoke c r) f) h = c # ds \<and> Q ds (result_of (io_try (invoke c r) f) h)"
proof -
  obtain ds where "snd (f (r h) (h @ [c])) = (h @ [c]) @ ds" "Q ds (fst (f (r h) (h @ [c])))"
    using assms unfolding effect_def by blast
  then show ?thesis by (auto simp: calls_of_def result_of_def io_simps)
qed

lemma effect_bind_stuck:
  assumes "emits P m" "\<And>x h'. m h \<noteq> (Inr x, h')"
  shows "\<exists>e. result_of (io_bind m f) h = Inl e" "list_all P (calls_of (io_bind m f) h)"
proof -
  obtain e where e: "fst (m h) = Inl e" using assms(2) by (cases "m h"; cases "fst (m h)") auto
  then show "\<exists>e. result_of (io_bind m f) h = Inl e" by (simp add: result_of_def run_bind)
  from e have "calls_of (io_bind m f) h = calls_of m h" by (simp add: calls_of_def run_bind)
  then show "list_all P (calls_of (io_bind m f) h)"
    using emits_at [OF assms(1)] by (simp add: list_all_iff)
qed

text \<open>The calls of one run satisfy \<open>P\<close>, where \<open>P\<close> may depend on where it started.\<close>

definition emits_from :: "'c list \<Rightarrow> ('c \<Rightarrow> bool) \<Rightarrow> ('c, 'a) eff \<Rightarrow> bool" where
  "emits_from h P m \<longleftrightarrow> (\<exists>cs. snd (m h) = h @ cs \<and> list_all P cs)"

lemma emits_emits_from: "emits P m \<Longrightarrow> emits_from h P m"
  by (simp add: emits_def emits_from_def)

lemma emits_from_calls: "emits_from h P m \<Longrightarrow> list_all P (calls_of m h)"
  by (auto simp: emits_from_def calls_of_def)

lemma emits_from_return [simp, intro]: "emits_from h P (io_return x)"
  by (simp add: emits_from_def io_return_def)

lemma emits_from_fail [simp, intro]: "emits_from h P (io_fail e)"
  by (simp add: emits_from_def io_fail_def)

lemma emits_from_bind:
  assumes "emits_from h P m" "\<And>x h1. m h = (Inr x, h1) \<Longrightarrow> emits_from h1 P (f x)"
  shows "emits_from h P (io_bind m f)"
proof -
  obtain cs where cs: "snd (m h) = h @ cs" "list_all P cs" using assms(1) by (auto simp: emits_from_def)
  show ?thesis
  proof (cases "fst (m h)")
    case (Inl e)
    with cs show ?thesis by (auto simp: emits_from_def run_bind)
  next
    case (Inr x)
    with cs have "m h = (Inr x, h @ cs)" by (metis prod.collapse)
    from assms(2) [OF this] cs show ?thesis by (auto simp: emits_from_def run_bind Inr)
  qed
qed

lemma emits_from_check: "(e = None \<Longrightarrow> emits_from h P m) \<Longrightarrow> emits_from h P (io_check e m)"
  by (auto simp: io_check_def split: option.splits)

lemma emits_from_try:
  assumes "emits_from h P m" "\<And>r h1. m h = (r, h1) \<Longrightarrow> emits_from h1 P (f r)"
  shows "emits_from h P (io_try m f)"
proof -
  obtain cs where cs: "snd (m h) = h @ cs" "list_all P cs" using assms(1) by (auto simp: emits_from_def)
  then have "m h = (fst (m h), h @ cs)" by (metis prod.collapse)
  from assms(2) [OF this] cs show ?thesis by (auto simp: emits_from_def run_try)
qed

lemma io_bind_assoc: "io_bind m (\<lambda>x. io_bind (f x) g) = io_bind (io_bind m f) g"
  by (rule ext) (simp add: run_bind split: sum.splits)

text \<open>A run of two phases: the second starts only if the first returned a value.\<close>

lemma two_phases:
  assumes "emits P m" "\<And>x h1. m h = (Inr x, h1) \<Longrightarrow> emits_from h1 (Q x) (f x)"
  shows "\<exists>pre post. calls_of (io_bind m f) h = pre @ post \<and> list_all P pre \<and>
     (post = [] \<or> (\<exists>x. m h = (Inr x, h @ pre) \<and> list_all (Q x) post))"
proof -
  obtain cs where cs: "snd (m h) = h @ cs" "list_all P cs" using assms(1) by (auto simp: emits_def)
  show ?thesis
  proof (cases "fst (m h)")
    case (Inl e)
    with cs have "calls_of (io_bind m f) h = cs @ []" by (simp add: calls_of_def run_bind)
    with cs show ?thesis by blast
  next
    case (Inr x)
    with cs have m: "m h = (Inr x, h @ cs)" by (metis prod.collapse)
    from assms(2) [OF m] obtain ds where ds: "snd (f x (h @ cs)) = (h @ cs) @ ds" "list_all (Q x) ds"
      by (auto simp: emits_from_def)
    then have "calls_of (io_bind m f) h = cs @ ds" by (simp add: calls_of_def run_bind m)
    with cs ds m show ?thesis by blast
  qed
qed

subsection \<open>Plans\<close>

text \<open>\<open>follows_at h p Q m\<close>: started after \<open>h\<close>, \<open>m\<close> makes the calls \<open>p\<close> in this
  order; it may stop at an error on the way, and a value it returns satisfies \<open>Q\<close>.\<close>

definition follows_at :: "'c list \<Rightarrow> 'c list \<Rightarrow> ('a \<Rightarrow> bool) \<Rightarrow> ('c, 'a) eff \<Rightarrow> bool" where
  "follows_at h p Q m \<longleftrightarrow>
     (\<exists>cs. snd (m h) = h @ cs \<and> prefix cs p \<and> (\<forall>x. fst (m h) = Inr x \<longrightarrow> cs = p \<and> Q x))"

lemma follows_return: "Q x \<Longrightarrow> follows_at h [] Q (io_return x)"
  by (simp add: follows_at_def io_return_def)

lemma follows_fail: "follows_at h p Q (io_fail e)"
  by (simp add: follows_at_def io_fail_def)

lemma follows_invoke: "(\<And>x. r h = Inr x \<Longrightarrow> Q x) \<Longrightarrow> follows_at h [c] Q (invoke c r)"
  by (simp add: follows_at_def invoke_def)

lemma follows_wrap: "follows_at h p Q m \<Longrightarrow> follows_at h p Q (io_wrap f args m)"
  by (auto simp: follows_at_def run_wrap split: sum.splits)

lemma follows_bind:
  assumes "follows_at h p P m" and "\<And>x. P x \<Longrightarrow> follows_at (h @ p) q Q (f x)"
  shows "follows_at h (p @ q) Q (io_bind m f)"
proof (cases "fst (m h)")
  case (Inl e)
  with assms(1) show ?thesis by (auto simp: follows_at_def run_bind)
next
  case (Inr x)
  with assms(1) have m: "snd (m h) = h @ p" "P x" by (auto simp: follows_at_def)
  from assms(2) [OF m(2)] show ?thesis by (auto simp: follows_at_def run_bind Inr m)
qed

lemma follows_range:
  "follows_at h p Q (f (go_range (r_range A h) m)) \<Longrightarrow> follows_at h p Q (io_range A m f)"
  by (simp add: follows_at_def run_range)

lemma follows_conseq: "follows_at h p P m \<Longrightarrow> (\<And>x. P x \<Longrightarrow> Q x) \<Longrightarrow> follows_at h p Q m"
  by (auto simp: follows_at_def)

lemma follows_fold:
  assumes "\<And>h s x. x \<in> set xs \<Longrightarrow> follows_at h (p x) (J s (p x)) (f s x)"
    and "\<And>s. J s [] s" and "\<And>s a t b u. J s a t \<Longrightarrow> J t b u \<Longrightarrow> J s (a @ b) u"
  shows "follows_at h (concat (map p xs)) (J s (concat (map p xs))) (io_fold f xs s)"
  using assms(1)
proof (induction xs arbitrary: h s)
  case Nil
  then show ?case by (simp add: follows_return assms(2))
next
  case (Cons x xs)
  have "follows_at h (p x @ concat (map p xs)) (J s (p x @ concat (map p xs))) (io_bind (f s x) (io_fold f xs))"
  proof (rule follows_bind)
    show "follows_at h (p x) (J s (p x)) (f s x)" by (rule Cons.prems) simp
    fix t assume "J s (p x) t"
    then show "follows_at (h @ p x) (concat (map p xs)) (J s (p x @ concat (map p xs))) (io_fold f xs t)"
      by (intro follows_conseq [OF Cons.IH]) (auto intro: Cons.prems assms(3))
  qed
  then show ?case by simp
qed

lemma follows_calls:
  assumes "follows_at h p Q m"
  shows "prefix (calls_of m h) p" "result_of m h = Inr x \<Longrightarrow> calls_of m h = p \<and> Q x"
  using assms by (auto simp: follows_at_def calls_of_def result_of_def)

text \<open>A loop that deletes the entries of a map whose key is not wanted any more and that have an
  ID; the result says whether any was deleted.\<close>

definition delete_stale :: "(string \<Rightarrow> bool) \<Rightarrow> ('r \<Rightarrow> string) \<Rightarrow> ('r \<Rightarrow> unit io) \<Rightarrow> (string \<times> 'r) list \<Rightarrow> bool \<Rightarrow> bool io" where
  "delete_stale wanted ident del entries changed =
     io_fold (\<lambda>changed (key, r).
        if wanted key then io_return changed
        else if trim_space (ident r) = [] then io_return changed
        else io_bind (del r) (\<lambda>_. io_return True)) entries changed"

definition stale :: "(string \<Rightarrow> bool) \<Rightarrow> ('r \<Rightarrow> string) \<Rightarrow> (string \<times> 'r) list \<Rightarrow> 'r list" where
  "stale wanted ident entries = map snd (filter (\<lambda>(key, r). \<not> wanted key \<and> trim_space (ident r) \<noteq> []) entries)"

lemma delete_stale_follows:
  assumes "\<And>h r. follows_at h [d r] (\<lambda>_. True) (del r)"
  shows "follows_at h (map d (stale wanted ident es)) (\<lambda>b. b = (ch \<or> stale wanted ident es \<noteq> []))
     (delete_stale wanted ident del es ch)"
proof -
  let ?p = "\<lambda>(key, r). if wanted key \<or> trim_space (ident r) = [] then [] else [d r]"
  have plan: "concat (map ?p es) = map d (stale wanted ident es)"
    by (induction es) (auto simp: stale_def)
  have "follows_at h (concat (map ?p es)) ((\<lambda>s cs b. b = (s \<or> cs \<noteq> [])) ch (concat (map ?p es)))
      (delete_stale wanted ident del es ch)"
    unfolding delete_stale_def
  proof (rule follows_fold)
    fix h s and x :: "string \<times> 'a"
    obtain k r where [simp]: "x = (k, r)" by (cases x)
    have "follows_at h ([d r] @ []) (\<lambda>b. b) (io_bind (del r) (\<lambda>_. io_return True))"
      by (rule follows_bind [OF assms]) (rule follows_return, simp)
    then show "follows_at h (?p x) (\<lambda>b. b = (s \<or> ?p x \<noteq> []))
        (case x of (key, r) \<Rightarrow> if wanted key then io_return s
           else if trim_space (ident r) = [] then io_return s else io_bind (del r) (\<lambda>_. io_return True))"
      by (auto intro: follows_return)
  qed auto
  then show ?thesis by (simp add: plan)
qed

subsection \<open>An empty provider\<close>

text \<open>Lists are empty, reads answer \<open>404\<close>, creates fail and deletes succeed; the concrete
  providers of the examples override some of its answers.\<close>

definition empty_cmp :: cmp where
  "empty_cmp =
     \<lparr>r_ListLBServices = (\<lambda>o1 h. Inr []), r_CreateLBService = (\<lambda>s h. Inl (http_status 500)),
      r_DeleteLBService = (\<lambda>i h. Inr ()), r_GetLBService = (\<lambda>i h. Inl (http_status 404)),
      r_ListVIPs = (\<lambda>lb sn h. Inr []), r_CreateVIP = (\<lambda>lb sn h. Inl (http_status 500)),
      r_DeleteVIP = (\<lambda>lb i h. Inr ()), r_ListVirtualServers = (\<lambda>lb h. Inr []),
      r_GetVirtualServer = (\<lambda>lb i h. Inl (http_status 404)),
      r_CreateVirtualServer = (\<lambda>lb s h. Inl (http_status 500)),
      r_DeleteVirtualServer = (\<lambda>lb i h. Inr ()), r_GetCompute = (\<lambda>i h. Inl (http_status 404)),
      r_GetNetwork = (\<lambda>i h. Inl (http_status 404)), r_ListPools = (\<lambda>lb vs h. Inr []),
      r_CreatePool = (\<lambda>lb vs s h. Inl (http_status 500)), r_DeletePool = (\<lambda>lb vs i h. Inr ()),
      r_SetDefaultPool = (\<lambda>lb vs i h. Inr ()),
      r_CreatePoolMember = (\<lambda>lb vs p s h. Inl (http_status 500)),
      r_UpdatePoolMember = (\<lambda>lb vs p i s h. Inl (http_status 500)),
      r_DeletePoolMember = (\<lambda>lb vs p i h. Inr ()), r_ListMonitors = (\<lambda>lb vs p h. Inr []),
      r_CreateMonitor = (\<lambda>lb vs p s h. Inl (http_status 500)),
      r_UpdateMonitor = (\<lambda>lb vs p i s h. Inl (http_status 500)),
      r_DeleteMonitor = (\<lambda>lb vs p i h. Inr ()), r_ListRoutingRules = (\<lambda>lb vs h. Inr []),
      r_CreateRoutingRule = (\<lambda>lb vs s h. Inl (http_status 500)),
      r_DeleteRoutingRule = (\<lambda>lb vs i h. Inr ()), r_ListCertificates = (\<lambda>lb h. Inr []),
      r_UploadCertificate = (\<lambda>lb s h. Inl (http_status 500)),
      r_DeleteCertificate = (\<lambda>lb i h. Inr ()), r_BindCertificate = (\<lambda>lb vs i h. Inr ()),
      r_UnbindCertificate = (\<lambda>lb vs i h. Inr ()), r_LBReady = (\<lambda>s h. Inr ()),
      r_range = (\<lambda>h ks. ks)\<rparr>"

end
