(* ===== verification/LbServiceManager.thy ===== *)
theory LbServiceManager
  imports Effects
begin

text \<open>
  \<open>pkg/deploy/lbaas/lb_service_manager.go\<close>: the LB service of a stack is verified, adopted by
  its deterministic name or created.  A creation is never attempted while the existence of a
  recorded LB service is in doubt, and only a terminally failed managed one is deleted.
\<close>

text \<open>\<open>EnsureRequest\<close> of \<open>deployer.go\<close>.\<close>

record EnsureRequest =
  er_LBName :: string
  er_LBDescription :: string
  er_FlavorID :: int32
  er_NetworkID :: string
  er_VPCID :: string
  er_VPCName :: string
  er_Region :: string
  er_VirtualServer :: M_VirtualServer
  er_Backends :: "BackendMember list"
  er_Current :: ObservedState
  er_CurrentHash :: string
  er_RecreateWhenHashMissing :: bool
  er_StrictLBServiceID :: bool
  er_StrictVIPPortID :: bool
  er_RecoverVirtualServerByName :: bool

subsection \<open>Status and placement\<close>

definition isReadyLBStatus :: "string \<Rightarrow> bool" where
  "isReadyLBStatus status \<longleftrightarrow> to_lower (trim_space status) \<in>
     {''created'', ''active'', ''ready'', ''available'', ''online'', ''success'', ''ok''}"

definition isFailedLBStatus :: "string \<Rightarrow> bool" where
  "isFailedLBStatus status \<longleftrightarrow> to_lower (trim_space status) \<in>
     {''failed'', ''error'', ''errored'', ''degraded'', ''unavailable''}"

definition validateLBServiceReadiness :: "LBService \<Rightarrow> err option" where
  "validateLBServiceReadiness svc =
     (let ident = trim_space (lb_ID svc);
          status = to_lower (trim_space (lb_Status svc));
          opStatus = to_lower (trim_space (lb_OperatingStatus svc))
      in if ident = [] then Some (Errorf ''CMP returned LBService without an ID while validating readiness'' [])
         else if isFailedLBStatus status \<or> isFailedLBStatus opStatus
         then Some (TerminalProvisioning ''LBService'' ident (trim_space (lb_Status svc)) (trim_space (lb_OperatingStatus svc)))
         else if isReadyLBStatus status \<or> isReadyLBStatus opStatus then None
         else if status = [] \<and> opStatus = []
         then Some (ProvisioningPending ''LBService'' ident ''unknown''
                      ''CMP LBService response omitted status and operating_status'')
         else Some (ProvisioningPending ''LBService'' ident (trim_space (lb_Status svc)) (trim_space (lb_OperatingStatus svc))))"

text \<open>One placement attribute: no constraint, an unknown value, another value, or a match.\<close>

definition placement_field :: "(string \<Rightarrow> string \<Rightarrow> bool) \<Rightarrow> string \<Rightarrow> string \<Rightarrow> string \<Rightarrow> string \<Rightarrow> string \<Rightarrow> err option" where
  "placement_field same missing other ident actual expected =
     (if expected = [] then None
      else if trim_space actual = [] then Some (Errorf missing [ident])
      else if \<not> same (trim_space actual) expected then Some (Errorf other [ident, actual, expected])
      else None)"

definition validateLBServicePlacement :: "LBService \<Rightarrow> EnsureRequest \<Rightarrow> err option" where
  "validateLBServicePlacement svc req =
     first_err
       [placement_field (=) ''supplied LBService %q response has no VPC identity''
          ''supplied LBService %q belongs to VPC %q, expected %q'' (lb_ID svc) (lb_VPCID svc) (trim_space (er_VPCID req)),
        placement_field (=) ''supplied LBService %q response has no subnet identity''
          ''supplied LBService %q belongs to subnet %q, expected %q'' (lb_ID svc) (lb_NetworkID svc) (trim_space (er_NetworkID req)),
        placement_field equal_fold ''supplied LBService %q response has no region''
          ''supplied LBService %q belongs to region %q, expected %q'' (lb_ID svc) (lb_Region svc) (trim_space (er_Region req))]"

subsection \<open>Lookup by name and creation\<close>

fun find_unique_lb :: "string \<Rightarrow> string \<Rightarrow> LBService list \<Rightarrow> err + string" where
  "find_unique_lb name foundID [] = Inr foundID"
| "find_unique_lb name foundID (svc # items) =
     (let svcName = trim_space (lb_Name svc); svcID = trim_space (lb_ID svc)
      in if svcName \<noteq> name \<or> svcID = [] then find_unique_lb name foundID items
         else if foundID \<noteq> []
         then Inl (Errorf ''multiple LB services named %q found; refusing ambiguous adoption'' [name])
         else find_unique_lb name svcID items)"

definition findUniqueLBServiceByName :: "LBService list \<Rightarrow> string \<Rightarrow> err + string" where
  "findUniqueLBServiceByName items name = find_unique_lb (trim_space name) [] items"

definition lb_findByName :: "cmp \<Rightarrow> string \<Rightarrow> string io" where
  "lb_findByName A name =
     (let name = trim_space name
      in io_bind
           (do_ListLBServices A
              \<lparr>lo_Limit = Some 10, lo_Offset = Some 0, lo_Field = ''created'', lo_Order = ''desc'', lo_Search = name\<rparr>)
           (\<lambda>items. io_of_result (findUniqueLBServiceByName items name)))"

definition lb_spec :: "string \<Rightarrow> EnsureRequest \<Rightarrow> LBServiceSpec" where
  "lb_spec managerVPC req =
     (let vpc = trim_space (er_VPCID req)
      in \<lparr>ls_Name = trim_space (er_LBName req), ls_Description = er_LBDescription req,
          ls_FlavorID = er_FlavorID req, ls_NetworkID = er_NetworkID req,
          ls_VPCID = (if vpc = [] then managerVPC else vpc), ls_VPCName = er_VPCName req\<rparr>)"

definition lb_create :: "cmp \<Rightarrow> string \<Rightarrow> EnsureRequest \<Rightarrow> string io" where
  "lb_create A managerVPC req =
     (let lbName = trim_space (er_LBName req)
      in io_try (do_CreateLBService A (lb_spec managerVPC req))
           (\<lambda>r. case r of
              Inr created \<Rightarrow>
                if trim_space (lb_ID created) = []
                then io_fail (Errorf ''CMP created LBService %q but returned an empty ID'' [lbName])
                else io_return (trim_space (lb_ID created))
            | Inl e \<Rightarrow>
                if \<not> IsAlreadyExists e then io_fail (Wrapf ''creating LB service via CMP: %w'' [] e)
                else io_bind (io_wrap ''LBService %q returned 409 but lookup failed: %w'' [lbName] (lb_findByName A lbName))
                       (\<lambda>i. if trim_space i = []
                            then io_fail (Errorf ''LBService %q returned 409 but was not present in ListLBServices response'' [lbName])
                            else io_return (trim_space i))))"

subsection \<open>\<open>Ensure\<close>\<close>

definition ensureCreatedReady :: "cmp \<Rightarrow> string \<Rightarrow> EnsureRequest \<Rightarrow> (string \<times> bool) io" where
  "ensureCreatedReady A createdID req =
     io_try (do_GetLBService A createdID)
       (\<lambda>r. case r of
          Inl e \<Rightarrow>
            if IsNotFound e
            then io_fail (ProvisioningPending ''LBService'' createdID ''creating'' ''LBService accepted by CMP but not yet readable'')
            else io_fail (Wrapf ''checking LBService %q readiness via CMP: %w'' [createdID] e)
        | Inr created \<Rightarrow>
            io_check (validateLBServiceReadiness created)
              (io_check (validateLBServicePlacement created req) (io_return (createdID, True))))"

text \<open>The recorded LB service was read: validate it, and delete a failed managed one.\<close>

definition lb_existing :: "cmp \<Rightarrow> EnsureRequest \<Rightarrow> string \<Rightarrow> bool \<Rightarrow> LBService \<Rightarrow> (string \<times> bool) io" where
  "lb_existing A req currentID strict svc =
     io_check (validateLBServicePlacement svc req)
       (case validateLBServiceReadiness svc of
          None \<Rightarrow> io_return (currentID, False)
        | Some readyErr \<Rightarrow>
            (case IsTerminalProvisioning readyErr of
               None \<Rightarrow> io_fail readyErr
             | Some (ty, rid, st, dt) \<Rightarrow>
                 if strict then io_fail (TerminalProvisioning ty rid st dt)
                 else io_bind (tolerate_404 ''deleting failed LBService %q before recreate: %w'' [currentID]
                                 (do_DeleteLBService A currentID))
                        (\<lambda>_. io_fail (ProvisioningPending ''LBService'' currentID ''deleting''
                           ''failed managed LBService deleted; waiting for CMP deletion before replacement''))))"

definition lb_find_or_create :: "cmp \<Rightarrow> string \<Rightarrow> EnsureRequest \<Rightarrow> (string \<times> bool) io" where
  "lb_find_or_create A managerVPC req =
     io_bind (io_wrap ''looking up deterministic LBService %q before create: %w'' [er_LBName req]
                (lb_findByName A (er_LBName req)))
       (\<lambda>recoveredID. if recoveredID \<noteq> [] then ensureCreatedReady A recoveredID req
          else io_bind (lb_create A managerVPC req) (\<lambda>createdID. ensureCreatedReady A createdID req))"

text \<open>The switch on the answer to reading the recorded ID.\<close>

definition lb_checked :: "cmp \<Rightarrow> string \<Rightarrow> EnsureRequest \<Rightarrow> string \<Rightarrow> bool \<Rightarrow> err + LBService \<Rightarrow> (string \<times> bool) io" where
  "lb_checked A managerVPC req currentID strict r =
     (case r of
        Inr svc \<Rightarrow> lb_existing A req currentID strict svc
      | Inl e \<Rightarrow>
          if IsNotFound e
          then if strict then io_fail (Errorf ''supplied LBService %q was not found in CMP'' [currentID])
               else lb_find_or_create A managerVPC req
          else io_fail (Wrapf ''checking existing LBService %q via CMP: %w'' [currentID] e))"

definition LBServiceManager_Ensure :: "cmp \<Rightarrow> string \<Rightarrow> EnsureRequest \<Rightarrow> string \<Rightarrow> bool \<Rightarrow> (string \<times> bool) io" where
  "LBServiceManager_Ensure A managerVPC req currentID strict =
     (let currentID = trim_space currentID
      in if currentID = [] then lb_find_or_create A managerVPC req
         else io_try (do_GetLBService A currentID) (lb_checked A managerVPC req currentID strict))"

subsection \<open>What \<open>Ensure\<close> promises\<close>

text \<open>The contract of a usable LB service, stated without the order of the checks.\<close>

definition lb_usable :: "EnsureRequest \<Rightarrow> LBService \<Rightarrow> bool" where
  "lb_usable req svc \<longleftrightarrow>
     trim_space (lb_ID svc) \<noteq> [] \<and>
     (isReadyLBStatus (lb_Status svc) \<or> isReadyLBStatus (lb_OperatingStatus svc)) \<and>
     \<not> isFailedLBStatus (lb_Status svc) \<and> \<not> isFailedLBStatus (lb_OperatingStatus svc) \<and>
     (trim_space (er_VPCID req) \<noteq> [] \<longrightarrow> trim_space (lb_VPCID svc) = trim_space (er_VPCID req)) \<and>
     (trim_space (er_NetworkID req) \<noteq> [] \<longrightarrow> trim_space (lb_NetworkID svc) = trim_space (er_NetworkID req)) \<and>
     (trim_space (er_Region req) \<noteq> [] \<longrightarrow> equal_fold (trim_space (lb_Region svc)) (trim_space (er_Region req)))"

definition lb_failed :: "LBService \<Rightarrow> bool" where
  "lb_failed svc \<longleftrightarrow> isFailedLBStatus (lb_Status svc) \<or> isFailedLBStatus (lb_OperatingStatus svc)"

lemma status_of_lower_trim [simp]:
  "isReadyLBStatus (to_lower (trim_space s)) = isReadyLBStatus s"
  "isFailedLBStatus (to_lower (trim_space s)) = isFailedLBStatus s"
  by (simp_all add: isReadyLBStatus_def isFailedLBStatus_def trim_simps)

lemma readiness_None_iff:
  "validateLBServiceReadiness svc = None \<longleftrightarrow>
     trim_space (lb_ID svc) \<noteq> [] \<and> \<not> lb_failed svc \<and>
     (isReadyLBStatus (lb_Status svc) \<or> isReadyLBStatus (lb_OperatingStatus svc))"
  by (auto simp: validateLBServiceReadiness_def lb_failed_def Let_def)

lemma readiness_terminal:
  "validateLBServiceReadiness svc = Some e \<Longrightarrow> IsTerminalProvisioning e \<noteq> None \<longleftrightarrow>
     trim_space (lb_ID svc) \<noteq> [] \<and> lb_failed svc"
  by (auto simp: validateLBServiceReadiness_def lb_failed_def Let_def split: if_splits)

lemma placement_field_None_iff:
  "placement_field same m1 m2 i actual expected = None \<longleftrightarrow>
     expected = [] \<or> trim_space actual \<noteq> [] \<and> same (trim_space actual) expected"
  by (simp add: placement_field_def)

lemma validated_usable:
  assumes "validateLBServiceReadiness svc = None" "validateLBServicePlacement svc req = None"
  shows "lb_usable req svc"
  using assms
  by (auto simp: readiness_None_iff lb_usable_def lb_failed_def validateLBServicePlacement_def
      first_err_None_iff placement_field_None_iff)

lemma ensureCreatedReady_success:
  assumes "ensureCreatedReady A cid req h = (Inr (i, ch), h')"
  shows "i = cid \<and> h' = h @ [GetLBService cid] \<and> (\<exists>svc. r_GetLBService A cid h = Inr svc \<and> lb_usable req svc)"
  using assms unfolding ensureCreatedReady_def do_GetLBService_def
  by (auto elim!: run_elims split: sum.splits if_splits intro: validated_usable)

lemma lb_existing_success:
  assumes "lb_existing A req cid strict svc h = (Inr (i, ch), h')"
  shows "i = cid \<and> h' = h \<and> lb_usable req svc"
  using assms unfolding lb_existing_def
  by (auto elim!: run_elims split: option.splits if_splits prod.splits intro: validated_usable)

lemma lb_find_or_create_success:
  assumes "lb_find_or_create A v req h = (Inr (i, ch), h')"
  shows "\<exists>h0 svc. h' = h0 @ [GetLBService i] \<and> r_GetLBService A i h0 = Inr svc \<and> lb_usable req svc"
  using assms unfolding lb_find_or_create_def
  by (elim bind_InrE wrap_InrE if_InrE) (blast dest: ensureCreatedReady_success)+

lemma find_unique_lb_trimmed:
  "find_unique_lb name foundID items = Inr i \<Longrightarrow> trim_space foundID = foundID \<Longrightarrow> trim_space i = i"
  by (induction name foundID items rule: find_unique_lb.induct) (auto simp: Let_def split: if_splits)

lemma lb_findByName_trimmed: "lb_findByName A n h = (Inr i, h') \<Longrightarrow> trim_space i = i"
  unfolding lb_findByName_def do_ListLBServices_def Let_def findUniqueLBServiceByName_def
  by (auto elim!: bind_InrE invokeE simp: run_of_result intro: find_unique_lb_trimmed)

lemma lb_find_or_create_trimmed:
  assumes "lb_find_or_create A v req h = (Inr (i, ch), h')"
  shows "trim_space i = i"
proof -
  have create: "lb_create A v req h1 = (Inr j, h2) \<Longrightarrow> trim_space j = j" for h1 j h2
    unfolding lb_create_def do_CreateLBService_def Let_def
    by (elim tryE invokeE) (auto elim!: bind_InrE if_InrE fail_InrE return_InrE split: sum.splits if_splits)
  from assms show ?thesis
    unfolding lb_find_or_create_def
    by (elim bind_InrE wrap_InrE if_InrE)
      (auto dest!: ensureCreatedReady_success dest: lb_findByName_trimmed create)
qed

lemma lb_Ensure_confirmed:
  assumes "LBServiceManager_Ensure A v req cur strict h = (Inr (i, ch), h')"
  shows "trim_space i = i \<and>
    (\<exists>h0 svc. h' = h0 @ [GetLBService i] \<and> r_GetLBService A i h0 = Inr svc \<and> lb_usable req svc)"
  using assms unfolding LBServiceManager_Ensure_def lb_checked_def Let_def do_GetLBService_def
  by (auto elim!: run_elims split: sum.splits if_splits)
    (auto dest: lb_existing_success lb_find_or_create_success lb_find_or_create_trimmed)

text \<open>
  C5.  When \<open>Ensure\<close> succeeds, its last call read the LB service it returns, and the answer
  was one that is ready, not failed, and in the VPC, subnet and region the request demands.
\<close>

theorem lb_Ensure_success_usable:
  assumes "LBServiceManager_Ensure A v req cur strict h = (Inr (i, ch), h')"
  shows "\<exists>h0 svc. h' = h0 @ [GetLBService i] \<and> r_GetLBService A i h0 = Inr svc \<and> lb_usable req svc"
  using lb_Ensure_confirmed [OF assms] by blast

definition demo_lb :: LBService where
  "demo_lb = \<lparr>lb_ID = ''lb-1'', lb_Name = ''lb'', lb_Status = ''Active'', lb_OperatingStatus = [],
     lb_VPCID = ''vpc-1'', lb_VPCName = [], lb_NetworkID = ''net-1'', lb_Region = ''South''\<rparr>"

definition demo_lb_request :: EnsureRequest where
  "demo_lb_request = \<lparr>er_LBName = ''lb'', er_LBDescription = [], er_FlavorID = 1, er_NetworkID = ''net-1'',
     er_VPCID = '' vpc-1'', er_VPCName = [], er_Region = ''south'', er_VirtualServer = zero_virtual_server,
     er_Backends = [], er_Current = zero_state, er_CurrentHash = [], er_RecreateWhenHashMissing = False,
     er_StrictLBServiceID = False, er_StrictVIPPortID = False, er_RecoverVirtualServerByName = False\<rparr>"

definition demo_lb_cmp :: cmp where
  "demo_lb_cmp = empty_cmp\<lparr>r_GetLBService := (\<lambda>i h. if i = ''lb-1'' then Inr demo_lb else Inl (http_status 404)),
     r_CreateLBService := (\<lambda>s h. Inr demo_lb)\<rparr>"

lemma demo_lb_run:
  "LBServiceManager_Ensure demo_lb_cmp [] demo_lb_request [] False [] =
     (Inr (''lb-1'', True),
      [ListLBServices \<lparr>lo_Limit = Some 10, lo_Offset = Some 0, lo_Field = ''created'', lo_Order = ''desc'', lo_Search = ''lb''\<rparr>,
       CreateLBService (lb_spec [] demo_lb_request), GetLBService ''lb-1''])"
  by code_simp

theorem lb_Ensure_success_usable_witness:
  "\<exists>h0 svc. r_GetLBService demo_lb_cmp ''lb-1'' h0 = Inr svc \<and> lb_usable demo_lb_request svc"
  using lb_Ensure_success_usable [OF demo_lb_run] by blast

text \<open>
  A strictly supplied LB service is only ever read: whatever CMP answers, the one call
  \<open>Ensure\<close> makes is the read of that LB service.  It is neither replaced nor deleted.
\<close>

theorem lb_Ensure_strict_only_reads:
  assumes "strict" "trim_space cur \<noteq> []"
  shows "calls_of (LBServiceManager_Ensure A v req cur strict) h = [GetLBService (trim_space cur)]"
  using assms
  by (simp add: LBServiceManager_Ensure_def lb_checked_def Let_def calls_of_def do_GetLBService_def io_simps
      lb_existing_def split: sum.splits option.splits)

theorem lb_Ensure_strict_only_reads_witness:
  "calls_of (LBServiceManager_Ensure empty_cmp [] demo_lb_request ''lb-9'' True) [] = [GetLBService ''lb-9'']"
  using lb_Ensure_strict_only_reads [of True "''lb-9''" empty_cmp "[]" demo_lb_request "[]"]
  by (simp add: trim_space_no_space is_space_def)

subsection \<open>The mutations of one pass\<close>

lemma ensureCreatedReady_reads: "emits (\<lambda>c. \<not> is_mutation c) (ensureCreatedReady A cid req)"
  unfolding ensureCreatedReady_def do_GetLBService_def by (auto split: sum.splits)

lemma lb_findByName_reads: "emits (\<lambda>c. \<not> is_mutation c) (lb_findByName A n)"
  unfolding lb_findByName_def do_ListLBServices_def Let_def by auto

lemma lb_create_mutations: "effect (lb_create A v req) (\<lambda>cs r. mutations cs = [CreateLBService (lb_spec v req)])"
proof -
  have "effect (io_try (do_CreateLBService A (lb_spec v req)) f) (\<lambda>cs r. mutations cs = [CreateLBService (lb_spec v req)])"
    if "\<And>r. emits (\<lambda>c. \<not> is_mutation c) (f r)" for f :: "err + LBService \<Rightarrow> string io"
    unfolding do_CreateLBService_def
    by (rule effect_try [OF mutation_invoke]) (auto intro: effect_conseq [OF that [folded emits_reads]])
  then show ?thesis
    unfolding lb_create_def Let_def by (rule meta_mp) (auto split: sum.splits intro!: lb_findByName_reads)
qed

lemma lb_find_or_create_mutations:
  "effect (lb_find_or_create A v req) (\<lambda>cs r. mutations cs = [] \<or> mutations cs = [CreateLBService (lb_spec v req)])"
proof -
  have look: "effect (io_wrap f a (lb_findByName A n)) (\<lambda>cs r. mutations cs = [])" for f a n
    unfolding emits_reads by (intro emits_wrap lb_findByName_reads)
  have ready: "effect (ensureCreatedReady A i req) (\<lambda>ds r. mutations (cs @ ds) = mutations cs)" for i cs
    using ensureCreatedReady_reads [folded emits_reads] by (rule effect_conseq) simp
  show ?thesis
    unfolding lb_find_or_create_def
    apply (rule effect_bind [OF look])
     apply (auto intro!: effect_conseq [OF ready] effect_bind [OF lb_create_mutations] split: if_splits)
    done
qed

text \<open>The mutation a pass may make, by what CMP answered when the recorded ID was read.\<close>

definition lb_mutation_allowed :: "(err + LBService) \<Rightarrow> string \<Rightarrow> EnsureRequest \<Rightarrow> string \<Rightarrow> bool \<Rightarrow> call list \<Rightarrow> bool" where
  "lb_mutation_allowed answer v req cid strict ms \<longleftrightarrow>
     ms = [] \<or>
     (ms = [CreateLBService (lb_spec v req)] \<and>
       (cid = [] \<or> (strict = False \<and> (case answer of Inl e \<Rightarrow> IsNotFound e | Inr svc \<Rightarrow> False)))) \<or>
     (ms = [DeleteLBService cid] \<and> cid \<noteq> [] \<and> strict = False \<and>
       (case answer of Inl e \<Rightarrow> False | Inr svc \<Rightarrow> lb_failed svc))"

lemma lb_existing_mutations:
  "effect (lb_existing A req cid strict svc)
     (\<lambda>cs r. mutations cs = [] \<or> (mutations cs = [DeleteLBService cid] \<and> strict = False \<and> lb_failed svc))"
proof -
  have del: "effect (tolerate_404 f a (do_DeleteLBService A cid)) (\<lambda>cs r. mutations cs = [DeleteLBService cid])" for f a
    unfolding do_DeleteLBService_def by (rule mutation_404) simp
  show ?thesis
    unfolding lb_existing_def io_check_def
    by (auto split: option.splits intro!: effect_return effect_fail effect_bind [OF del]
        dest: readiness_terminal)
qed

text \<open>
  One pass of \<open>Ensure\<close> makes at most one change.  It creates an LB service only when
  none is recorded, or when CMP answered \<open>404\<close> for a recorded ID that is not strict (so a
  timeout, \<open>401\<close> or \<open>500\<close> never leads to a second LB service); it deletes only the
  recorded LB service, only when it is not strict and CMP reported it failed, and then does not
  create its replacement in the same pass.
\<close>

theorem lb_Ensure_one_mutation:
  "lb_mutation_allowed (r_GetLBService A (trim_space cur) h) v req (trim_space cur) strict
     (mutations (calls_of (LBServiceManager_Ensure A v req cur strict) h))"
proof (cases "trim_space cur = []")
  case True
  then have "LBServiceManager_Ensure A v req cur strict = lb_find_or_create A v req"
    by (simp add: LBServiceManager_Ensure_def)
  with effect_at [OF lb_find_or_create_mutations, of A v req h] True show ?thesis
    by (auto simp: lb_mutation_allowed_def)
next
  case False
  let ?c = "trim_space cur"
  have "effect (lb_checked A v req ?c strict (r_GetLBService A ?c h))
      (\<lambda>cs r. lb_mutation_allowed (r_GetLBService A ?c h) v req ?c strict (mutations cs))"
    using False unfolding lb_checked_def
    by (auto simp: lb_mutation_allowed_def split: sum.splits intro!: effect_fail
        intro: effect_conseq [OF lb_existing_mutations] effect_conseq [OF lb_find_or_create_mutations])
  from calls_of_invoke_try [where f = "lb_checked A v req ?c strict" and r = "r_GetLBService A ?c" and h = h, OF this, of "GetLBService ?c"] False show ?thesis
    by (auto simp: LBServiceManager_Ensure_def do_GetLBService_def Let_def)
qed

end
