(* ===== verification/Scope.thy ===== *)
theory Scope
  imports Effects
begin

text \<open>
  The contract of every manager below an LB service: whatever the provider answers, its calls
  stay inside the LB service it was given.  It never creates or deletes an LB service and never
  runs the caller's hook.
\<close>

fun is_hook :: "call \<Rightarrow> bool" where
  "is_hook (LBReady s) = True"
| "is_hook c = False"

fun is_lb_delete :: "call \<Rightarrow> bool" where
  "is_lb_delete (DeleteLBService i) = True"
| "is_lb_delete c = False"

definition in_lb :: "string \<Rightarrow> call \<Rightarrow> bool" where
  "in_lb lb c \<longleftrightarrow>
     (case call_lb c of Some x \<Rightarrow> x = lb \<and> \<not> is_lb_delete c | None \<Rightarrow> \<not> is_mutation c \<and> \<not> is_hook c)"

locale lb_scoped =
  fixes manager :: "cmp \<Rightarrow> string \<Rightarrow> 'q \<Rightarrow> 'a io"
  assumes scoped: "emits (in_lb lb) (manager A lb q)"
begin

lemma calls_in_lb: "list_all (in_lb lb) (calls_of (manager A lb q) h)"
  by (intro emits_from_calls emits_emits_from scoped)

lemma no_hook: "emits (\<lambda>c. \<not> is_hook c) (manager A lb q)"
proof (rule emits_mono [OF scoped])
  fix c show "in_lb lb c \<Longrightarrow> \<not> is_hook c"
    by (cases c) (auto simp: in_lb_def)
qed

lemma other_lb_untouched: "c \<in> set (calls_of (manager A lb q) h) \<Longrightarrow> call_lb c = Some x \<Longrightarrow> x = lb"
  using calls_in_lb [of lb A q h] by (fastforce simp: list_all_iff in_lb_def)

end

end
