(* ===== verification/Reconciler.thy ===== *)
theory Reconciler
  imports Scope
begin

text \<open>
  The contract shared by the managers that reconcile keyed resources (pool members, routing
  rules): the calls of a pass follow a plan that can be computed before the pass runs.  The
  managers provide it by interpreting the locale \<open>planned\<close> on their own definitions.
\<close>

lemma follows_wrapped_call:
  "follows_at h [c] (\<lambda>_. True) (io_wrap f args (invoke c r))"
  by (intro follows_wrap follows_invoke) simp

lemma follows_call_then:
  assumes "\<And>x. follows_at (h @ [c]) [] Q (f x)"
  shows "follows_at h [c] Q (io_bind (io_wrap g args (invoke c r)) f)"
  using follows_bind [OF follows_wrapped_call, where q = "[]"] assms by fastforce

lemma delete_stale_none:
  "stale wanted ident es = [] \<Longrightarrow> delete_stale wanted ident del es ch h = (Inr ch, h)"
  unfolding delete_stale_def
  by (induction es) (auto simp: stale_def io_return_def run_bind split: if_splits)

subsection \<open>The contract\<close>

text \<open>\<open>run q\<close> is a pass on request \<open>q\<close>, \<open>plan q h\<close> the calls it intends when started
  after \<open>h\<close>; the second component of its value is the \<open>changed\<close> flag.\<close>

locale planned =
  fixes run :: "'q \<Rightarrow> ('r \<times> bool) io" and plan :: "'q \<Rightarrow> history \<Rightarrow> call list"
  assumes planned: "follows_at h (plan q h) (\<lambda>(x, changed). changed = (mutations (plan q h) \<noteq> [])) (run q)"
begin

lemma calls_prefix: "prefix (calls_of (run q) h) (plan q h)"
  by (rule follows_calls(1) [OF planned])

lemma success_follows_plan:
  "result_of (run q) h = Inr (x, changed) \<Longrightarrow>
     calls_of (run q) h = plan q h \<and> changed = (mutations (calls_of (run q) h) \<noteq> [])"
  using follows_calls(2) [OF planned] by fastforce

lemma calls_in_plan: "c \<in> set (calls_of (run q) h) \<Longrightarrow> c \<in> set (plan q h)"
  using calls_prefix by (metis set_mono_prefix subsetD)

lemma idle_plan: "mutations (plan q h) = [] \<Longrightarrow> mutations (calls_of (run q) h) = []"
  using calls_in_plan by (metis mutations_empty_iff list_all_iff)

end

end
