(* ===== verification/MemberManager.thy ===== *)
theory MemberManager
  imports Reconciler
begin

text \<open>
  \<open>pkg/deploy/lbaas/backend_member_manager.go\<close>: the members of one pool.  The desired specs
  are compared by key with the observed members; what is missing is created, what differs is
  updated, and then what is stale is deleted.
\<close>

subsection \<open>Backend members\<close>

definition poolMemberKey :: "string \<Rightarrow> string \<Rightarrow> int \<Rightarrow> int32 \<Rightarrow> string" where
  "poolMemberKey resourceID resourceIP backendPortID port =
     trim_space resourceID @ ''|'' @ trim_space resourceIP @ ''|'' @ show_int backendPortID @ ''|'' @ show_i32 port"

definition poolMemberSpecKey :: "PoolMemberSpec \<Rightarrow> string" where
  "poolMemberSpecKey spec = poolMemberKey (ps_ResourceID spec) (ps_ResourceIP spec) (ps_BackendPortID spec) (ps_Port spec)"

definition member_key :: "PoolMemberResource \<Rightarrow> string" where
  "member_key m = poolMemberKey (pm_ResourceID m) (pm_ResourceIP m) (pm_BackendPortID m) (pm_Port m)"

definition defaultResourceType :: "string \<Rightarrow> string" where
  "defaultResourceType resourceType = (if trim_space resourceType = [] then ''compute'' else resourceType)"

definition memberNeedsUpdate :: "PoolMemberResource \<Rightarrow> PoolMemberSpec \<Rightarrow> bool" where
  "memberNeedsUpdate observed desired \<longleftrightarrow>
     trim_space (pm_ResourceType observed) \<noteq> trim_space (defaultResourceType (ps_ResourceType desired)) \<or>
     pm_Weight observed \<noteq> ps_Weight desired"

text \<open>\<open>byKey\<close>: a later member replaces an earlier one with the same key.\<close>

definition members_by_key :: "PoolMemberResource list \<Rightarrow> PoolMemberResource gomap" where
  "members_by_key observed =
     fold (\<lambda>m byKey. if trim_space (member_key m) \<noteq> [] then gm_set (member_key m) m byKey else byKey) observed []"

definition member_spec_ok :: "PoolMemberSpec \<Rightarrow> bool" where
  "member_spec_ok spec \<longleftrightarrow> \<not> (trim_space (ps_ResourceID spec) = [] \<or> ps_BackendPortID spec = 0 \<or>
     trim_space (ps_ResourceIP spec) = [] \<or> ps_Port spec = 0)"

text \<open>One desired member; the state is \<open>out\<close> and \<open>changed\<close>.\<close>

definition member_create :: "cmp \<Rightarrow> string \<Rightarrow> string \<Rightarrow> string \<Rightarrow> PoolMemberResource list \<Rightarrow>
    PoolMemberSpec \<Rightarrow> (PoolMemberResource list \<times> bool) io" where
  "member_create A lb vs pool out spec =
     io_bind (io_wrap ''creating backend member %s:%d in pool %s: %w''
                [ps_ResourceIP spec, show_i32 (ps_Port spec), pool] (do_CreatePoolMember A lb vs pool spec))
       (\<lambda>created. if trim_space (pm_ID created) = []
          then io_fail (Errorf ''CMP created backend member %s:%d without a provider id'' [ps_ResourceIP spec, show_i32 (ps_Port spec)])
          else io_return (out @ [created], True))"

definition member_step :: "cmp \<Rightarrow> string \<Rightarrow> string \<Rightarrow> string \<Rightarrow> PoolMemberResource gomap \<Rightarrow>
    PoolMemberResource list \<times> bool \<Rightarrow> PoolMemberSpec \<Rightarrow> (PoolMemberResource list \<times> bool) io" where
  "member_step A lb vs pool byKey st spec =
     (case st of (out, changed) \<Rightarrow>
        if \<not> member_spec_ok spec
        then io_fail (Errorf ''backend member requires resource_id, resource_ip, backend_port_id and port'' [])
        else (case map_of byKey (poolMemberSpecKey spec) of
            None \<Rightarrow> member_create A lb vs pool out spec
          | Some existing \<Rightarrow>
              if trim_space (pm_ID existing) = [] then member_create A lb vs pool out spec
              else if memberNeedsUpdate existing spec
              then io_bind (io_wrap ''updating backend member %s in pool %s: %w'' [pm_ID existing, pool]
                              (do_UpdatePoolMember A lb vs pool (pm_ID existing) spec))
                     (\<lambda>updated. io_return (out @ [updated], True))
              else io_return (out @ [existing], changed)))"

definition BackendMemberManager_Ensure :: "cmp \<Rightarrow> string \<Rightarrow> string \<Rightarrow> string \<Rightarrow> PoolMemberResource list \<Rightarrow>
    PoolMemberSpec list \<Rightarrow> (PoolMemberResource list \<times> bool) io" where
  "BackendMemberManager_Ensure A lb vs pool observed desired =
     (if trim_space lb = [] \<or> trim_space vs = [] \<or> trim_space pool = []
      then io_fail (Errorf ''lb service id, virtual server id and pool id are required for backend member reconciliation'' [])
      else
        let byKey = members_by_key observed; desiredKeys = map poolMemberSpecKey desired in
        io_bind (io_fold (member_step A lb vs pool byKey) desired ([], False))
          (\<lambda>(out, changed). io_range A byKey
             (\<lambda>entries. io_bind
                (delete_stale (\<lambda>key. key \<in> set desiredKeys) pm_ID
                   (\<lambda>m. io_wrap ''deleting obsolete backend member %s from pool %s: %w'' [pm_ID m, pool]
                      (do_DeletePoolMember A lb vs pool (pm_ID m))) entries changed)
                (\<lambda>changed. io_return (out, changed)))))"

subsection \<open>The plan of a member pass\<close>

definition member_plan1 :: "string \<Rightarrow> string \<Rightarrow> string \<Rightarrow> PoolMemberResource gomap \<Rightarrow> PoolMemberSpec \<Rightarrow> call list" where
  "member_plan1 lb vs pool byKey spec =
     (case map_of byKey (poolMemberSpecKey spec) of
        None \<Rightarrow> [CreatePoolMember lb vs pool spec]
      | Some ex \<Rightarrow> if trim_space (pm_ID ex) = [] then [CreatePoolMember lb vs pool spec]
          else if memberNeedsUpdate ex spec then [UpdatePoolMember lb vs pool (pm_ID ex) spec] else [])"

definition member_plan :: "cmp \<Rightarrow> string \<times> string \<times> string \<times> PoolMemberResource list \<times> PoolMemberSpec list \<Rightarrow>
    history \<Rightarrow> call list" where
  "member_plan A q h =
     (case q of (lb, vs, pool, observed, desired) \<Rightarrow>
        let byKey = members_by_key observed; upserts = concat (map (member_plan1 lb vs pool byKey) desired)
        in upserts @ map (\<lambda>m. DeletePoolMember lb vs pool (pm_ID m))
             (stale (\<lambda>key. key \<in> set (map poolMemberSpecKey desired)) pm_ID
                (go_range (r_range A (h @ upserts)) byKey)))"

lemma member_step_follows:
  "follows_at h (member_plan1 lb vs pool byKey spec)
     (\<lambda>t. snd t = (snd st \<or> member_plan1 lb vs pool byKey spec \<noteq> [])) (member_step A lb vs pool byKey st spec)"
proof -
  obtain out ch where [simp]: "st = (out, ch)" by (cases st)
  have "follows_at h [CreatePoolMember lb vs pool spec] snd (member_create A lb vs pool out spec)"
    unfolding member_create_def do_CreatePoolMember_def
    by (rule follows_call_then) (auto intro: follows_fail follows_return)
  moreover have "follows_at h [UpdatePoolMember lb vs pool i spec] snd
      (io_bind (io_wrap f a (do_UpdatePoolMember A lb vs pool i spec)) (\<lambda>updated. io_return (out @ [updated], True)))"
    for f a i
    unfolding do_UpdatePoolMember_def by (rule follows_call_then) (auto intro: follows_return)
  ultimately show ?thesis
    by (auto simp: member_step_def member_plan1_def split: option.splits
        intro: follows_fail follows_return elim: follows_conseq)
qed

lemma member_step_fold_follows:
  "follows_at h (concat (map (member_plan1 lb vs pool byKey) desired))
     (\<lambda>t. snd t = (concat (map (member_plan1 lb vs pool byKey) desired) \<noteq> []))
     (io_fold (member_step A lb vs pool byKey) desired ([], False))"
proof -
  have "follows_at h (concat (map (member_plan1 lb vs pool byKey) desired))
      ((\<lambda>(s :: PoolMemberResource list \<times> bool) cs t. snd t = (snd s \<or> cs \<noteq> [])) ([], False) (concat (map (member_plan1 lb vs pool byKey) desired)))
      (io_fold (member_step A lb vs pool byKey) desired ([], False))"
    by (rule follows_fold [where J = "\<lambda>(s :: PoolMemberResource list \<times> bool) cs t. snd t = (snd s \<or> cs \<noteq> [])"]) (rule member_step_follows, auto)
  then show ?thesis by (simp only: snd_conv simp_thms)
qed

lemma member_plan_mutations: "mutations (member_plan A q h) = member_plan A q h"
  by (auto simp: mutations_def member_plan_def Let_def filter_id_conv member_plan1_def
      split: prod.splits option.splits if_splits)

lemma BackendMemberManager_Ensure_follows:
  "follows_at h (member_plan A (lb, vs, pool, observed, desired) h)
     (\<lambda>(x, ch). ch = (mutations (member_plan A (lb, vs, pool, observed, desired) h) \<noteq> []))
     (BackendMemberManager_Ensure A lb vs pool observed desired)"
proof -
  let ?byKey = "members_by_key observed" and ?keys = "map poolMemberSpecKey desired"
  let ?ups = "concat (map (member_plan1 lb vs pool ?byKey) desired)"
  let ?st = "stale (\<lambda>key. key \<in> set ?keys) pm_ID (go_range (r_range A (h @ ?ups)) ?byKey)"
  let ?del = "\<lambda>m. io_wrap ''deleting obsolete backend member %s from pool %s: %w'' [pm_ID m, pool]
      (do_DeletePoolMember A lb vs pool (pm_ID m))"
  have del: "follows_at h' [DeletePoolMember lb vs pool (pm_ID m)] (\<lambda>_. True) (?del m)" for h' m
    unfolding do_DeletePoolMember_def by (rule follows_wrapped_call)
  have phase2: "follows_at (h @ ?ups) (map (\<lambda>m. DeletePoolMember lb vs pool (pm_ID m)) ?st @ [])
      (\<lambda>(x, c). c = (?ups @ map (\<lambda>m. DeletePoolMember lb vs pool (pm_ID m)) ?st \<noteq> []))
      (case t of (out, changed) \<Rightarrow> io_range A ?byKey
         (\<lambda>entries. io_bind (delete_stale (\<lambda>key. key \<in> set ?keys) pm_ID ?del entries changed)
            (\<lambda>changed. io_return (out, changed))))"
    if "snd t = (?ups \<noteq> [])" for t
  proof -
    obtain out c where t: "t = (out, c)" by (cases t)
    with that have c: "c = (?ups \<noteq> [])" by simp
    show ?thesis
      unfolding t prod.case
      by (rule follows_range, rule follows_bind [OF delete_stale_follows [OF del]], rule follows_return)
        (use c in auto)
  qed
  have plan: "member_plan A (lb, vs, pool, observed, desired) h
      = ?ups @ (map (\<lambda>m. DeletePoolMember lb vs pool (pm_ID m)) ?st @ [])"
    by (simp add: member_plan_def Let_def)
  show ?thesis
  proof (cases "trim_space lb = [] \<or> trim_space vs = [] \<or> trim_space pool = []")
    case True
    then show ?thesis by (simp only: BackendMemberManager_Ensure_def if_True follows_fail)
  next
    case False
    show ?thesis
      unfolding member_plan_mutations
      unfolding plan BackendMemberManager_Ensure_def Let_def if_not_P [OF False]
      by (rule follows_bind [OF member_step_fold_follows]) (rule follows_conseq [OF phase2], auto)
  qed
qed

definition member_run :: "cmp \<Rightarrow> string \<times> string \<times> string \<times> PoolMemberResource list \<times> PoolMemberSpec list \<Rightarrow>
    (PoolMemberResource list \<times> bool) io" where
  "member_run A q = (case q of (lb, vs, pool, observed, desired) \<Rightarrow> BackendMemberManager_Ensure A lb vs pool observed desired)"

interpretation members: planned "member_run A" "member_plan A" for A
  by unfold_locales (auto simp: member_run_def split: prod.splits intro!: BackendMemberManager_Ensure_follows)


lemma members_by_key_in:
  assumes "map_of (members_by_key observed) k = Some m"
  shows "m \<in> set observed \<and> member_key m = k"
proof -
  have "map_of (fold (\<lambda>m byKey. if trim_space (member_key m) \<noteq> [] then gm_set (member_key m) m byKey else byKey) ms b) k = Some m
      \<Longrightarrow> map_of b k = Some m \<or> m \<in> set ms \<and> member_key m = k" for ms b
    by (induction ms arbitrary: b) (fastforce split: if_splits)+
  with assms show ?thesis by (fastforce simp: members_by_key_def)
qed

text \<open>
  Nothing but a stale member is ever deleted: a deleted ID belongs to a member observed in
  this very pool whose key is not the key of any desired member.
\<close>

theorem member_delete_only_stale:
  assumes "DeletePoolMember lb' vs' pool' i \<in> set (calls_of (BackendMemberManager_Ensure A lb vs pool observed desired) h)"
  shows "lb' = lb \<and> vs' = vs \<and> pool' = pool \<and>
    (\<exists>m \<in> set observed. pm_ID m = i \<and> trim_space i \<noteq> [] \<and> member_key m \<notin> poolMemberSpecKey ` set desired)"
proof -
  have "DeletePoolMember lb' vs' pool' i \<in> set (member_plan A (lb, vs, pool, observed, desired) h)"
    using members.calls_in_plan [of _ A "(lb, vs, pool, observed, desired)" h] assms
    by (simp add: member_run_def)
  moreover have "DeletePoolMember lb' vs' pool' i \<notin> set (member_plan1 lb vs pool byKey spec)" for byKey spec
    by (simp add: member_plan1_def split: option.splits)
  ultimately show ?thesis
    by (auto simp: member_plan_def Let_def stale_def go_range_member dest!: members_by_key_in)
qed

subsection \<open>A second pass\<close>

definition member_settled :: "PoolMemberSpec \<Rightarrow> PoolMemberResource \<Rightarrow> bool" where
  "member_settled spec m \<longleftrightarrow>
     member_key m = poolMemberSpecKey spec \<and> trim_space (pm_ID m) \<noteq> [] \<and> \<not> memberNeedsUpdate m spec"

text \<open>The provider stores a member as requested and gives an updated one an ID.\<close>

definition stores_members :: "cmp \<Rightarrow> string \<Rightarrow> string \<Rightarrow> string \<Rightarrow> PoolMemberSpec list \<Rightarrow> bool" where
  "stores_members A lb vs pool desired \<longleftrightarrow>
     (\<forall>spec \<in> set desired.
        (\<forall>h m. r_CreatePoolMember A lb vs pool spec h = Inr m \<longrightarrow> trim_space (pm_ID m) \<noteq> [] \<longrightarrow> member_settled spec m) \<and>
        (\<forall>h m i. r_UpdatePoolMember A lb vs pool i spec h = Inr m \<longrightarrow> member_settled spec m))"

lemma member_step_success:
  assumes "member_step A lb vs pool byKey (out, ch) spec h = (Inr st, h')"
    and "\<And>k m. map_of byKey k = Some m \<Longrightarrow> member_key m = k"
    and "stores_members A lb vs pool [spec]"
  shows "member_spec_ok spec \<and> (\<exists>m. fst st = out @ [m] \<and> member_settled spec m)"
proof -
  from assms(3) have create: "\<And>h m. r_CreatePoolMember A lb vs pool spec h = Inr m \<Longrightarrow> trim_space (pm_ID m) \<noteq> [] \<Longrightarrow> member_settled spec m"
    and update: "\<And>i h m. r_UpdatePoolMember A lb vs pool i spec h = Inr m \<Longrightarrow> member_settled spec m"
    by (simp_all add: stores_members_def) blast
  show ?thesis
    using assms(1)
    unfolding member_step_def member_create_def do_CreatePoolMember_def do_UpdatePoolMember_def prod.case
    by (auto split: option.splits elim!: if_InrE fail_InrE bind_InrE wrap_InrE invokeE return_InrE
        intro: create update)
      (simp_all add: member_settled_def assms(2))
qed

lemma member_fold_success:
  assumes "io_fold (member_step A lb vs pool byKey) desired (out, ch) h = (Inr st, h')"
    and "\<And>k m. map_of byKey k = Some m \<Longrightarrow> member_key m = k"
    and "stores_members A lb vs pool desired"
  shows "\<forall>spec \<in> set desired. member_spec_ok spec"
    and "\<exists>new. fst st = out @ new \<and> list_all2 member_settled desired new"
proof -
  have "(\<forall>spec \<in> set desired. member_spec_ok spec) \<and> (\<exists>new. fst st = out @ new \<and> list_all2 member_settled desired new)"
    using assms(1,3)
  proof (induction desired arbitrary: out ch h)
    case Nil
    then show ?case by (auto simp: io_return_def)
  next
    case (Cons spec desired)
    from Cons.prems(1) obtain st1 h1 where
      step: "member_step A lb vs pool byKey (out, ch) spec h = (Inr st1, h1)" and
      rest: "io_fold (member_step A lb vs pool byKey) desired st1 h1 = (Inr st, h')"
      by (auto elim!: bind_InrE)
    from Cons.prems(2) have stores: "stores_members A lb vs pool [spec]" "stores_members A lb vs pool desired"
      by (simp_all add: stores_members_def)
    from member_step_success [OF step assms(2) stores(1)] obtain m where
      m: "member_spec_ok spec" "fst st1 = out @ [m]" "member_settled spec m"
      by blast
    obtain ch1 where st1: "st1 = (out @ [m], ch1)" using m(2) by (cases st1) auto
    have "(\<forall>spec \<in> set desired. member_spec_ok spec) \<and>
        (\<exists>new. fst st = (out @ [m]) @ new \<and> list_all2 member_settled desired new)"
      by (rule Cons.IH [OF rest [unfolded st1] stores(2)])
    with m(1,3) show ?case by force
  qed
  then show "\<forall>spec \<in> set desired. member_spec_ok spec"
    and "\<exists>new. fst st = out @ new \<and> list_all2 member_settled desired new" by blast+
qed

lemma member_key_not_blank [simp]: "trim_space (member_key m) \<noteq> []"
  unfolding trim_space_eq_Nil by (auto simp: member_key_def poolMemberKey_def is_space_def intro!: bexI [of _ "CHR ''|''"])

lemma members_by_key_lookup:
  assumes "distinct (map member_key ms)" "m \<in> set ms"
  shows "map_of (members_by_key ms) (member_key m) = Some m"
proof -
  have "distinct (map member_key ms) \<Longrightarrow>
      map_of (fold (\<lambda>m byKey. if trim_space (member_key m) \<noteq> [] then gm_set (member_key m) m byKey else byKey) ms b) k =
        (case find (\<lambda>m. member_key m = k) ms of Some m \<Rightarrow> Some m | None \<Rightarrow> map_of b k)" for b k
  proof (induction ms arbitrary: b)
    case (Cons a ms)
    have "member_key a = k \<Longrightarrow> find (\<lambda>m. member_key m = k) ms = None"
      using Cons.prems by (auto simp: find_None_iff) (metis imageI)
    with Cons show ?case by (auto split: option.splits)
  qed simp
  moreover have "find (\<lambda>x. member_key x = member_key m) ms = Some m"
    using assms
    by (induction ms) (auto simp: image_iff)
  ultimately show ?thesis using assms(1) by (simp add: members_by_key_def)
qed


text \<open>A settled pool: the desired members are what was observed, in the same order.\<close>

lemma settled_pool_idle:
  assumes "list_all2 member_settled desired observed" "distinct (map poolMemberSpecKey desired)"
    and "\<forall>spec \<in> set desired. member_spec_ok spec"
    and "trim_space lb \<noteq> []" "trim_space vs \<noteq> []" "trim_space pool \<noteq> []"
  shows "BackendMemberManager_Ensure A lb vs pool observed desired h = (Inr (observed, False), h)"
proof -
  let ?byKey = "members_by_key observed"
  have keys: "map member_key observed = map poolMemberSpecKey desired"
    using assms(1) by (induction rule: list_all2_induct) (auto simp: member_settled_def)
  have look: "map_of ?byKey (poolMemberSpecKey spec) = Some m \<and> member_settled spec m \<and> member_spec_ok spec"
    if "(spec, m) \<in> set (zip desired observed)" for spec m
  proof -
    from that have "spec \<in> set desired" "m \<in> set observed" by (auto dest: set_zip_leftD set_zip_rightD)
    moreover have "member_settled spec m" using that assms(1) by (auto simp: list_all2_iff)
    moreover from calculation have "map_of ?byKey (member_key m) = Some m"
      using members_by_key_lookup assms(2) keys by metis
    ultimately show ?thesis using assms(3) by (simp add: member_settled_def)
  qed
  have steps: "io_fold (member_step A lb vs pool ?byKey) ds (out, ch) h = (Inr (out @ ms, ch), h)"
    if "list_all2 (\<lambda>spec m. map_of ?byKey (poolMemberSpecKey spec) = Some m \<and> member_settled spec m \<and> member_spec_ok spec) ds ms"
    for ds ms out ch
    using that
    by (induction arbitrary: out rule: list_all2_induct)
      (auto simp: io_return_def run_bind member_step_def member_settled_def)
  have "list_all2 (\<lambda>spec m. map_of ?byKey (poolMemberSpecKey spec) = Some m \<and> member_settled spec m \<and> member_spec_ok spec)
      desired observed"
    using look list_all2_lengthD [OF assms(1)] unfolding list_all2_iff by blast
  from steps [OF this, of "[]" False]
  have fold: "io_fold (member_step A lb vs pool ?byKey) desired ([], False) h = (Inr (observed, False), h)"
    by simp
  have "stale (\<lambda>key. key \<in> set (map poolMemberSpecKey desired)) pm_ID (go_range ord ?byKey) = []" for ord
    by (auto simp: stale_def filter_empty_conv go_range_member keys [symmetric] dest!: members_by_key_in)
  with fold assms(4-6) show ?thesis
    by (simp add: BackendMemberManager_Ensure_def Let_def run_bind run_range io_return_def delete_stale_none)
qed


subsection \<open>Examples\<close>

definition demo_spec :: "string \<Rightarrow> int32 \<Rightarrow> PoolMemberSpec" where
  "demo_spec ip w = \<lparr>ps_ResourceID = ''c-1'', ps_ResourceType = ''compute'', ps_ResourceIP = ip, ps_BackendPortID = 7,
     ps_Port = w, ps_Weight = 1\<rparr>"

text \<open>A provider that stores members as requested.\<close>

definition stored_member :: "string \<Rightarrow> PoolMemberSpec \<Rightarrow> PoolMemberResource" where
  "stored_member i spec = \<lparr>pm_ID = i, pm_ResourceID = ps_ResourceID spec, pm_ResourceType = defaultResourceType (ps_ResourceType spec),
     pm_ResourceIP = ps_ResourceIP spec, pm_BackendPortID = ps_BackendPortID spec, pm_Port = ps_Port spec, pm_Weight = ps_Weight spec\<rparr>"

definition member_cmp :: cmp where
  "member_cmp = empty_cmp\<lparr>r_CreatePoolMember := (\<lambda>lb vs p spec h. Inr (stored_member ''new'' spec)),
     r_UpdatePoolMember := (\<lambda>lb vs p i spec h. Inr (stored_member (CHR ''m'' # i) spec))\<rparr>"

lemma stored_settled: "trim_space i \<noteq> [] \<Longrightarrow> member_settled spec (stored_member i spec)"
  by (simp add: member_settled_def member_key_def poolMemberSpecKey_def stored_member_def memberNeedsUpdate_def)

lemma demo_member_run:
  "BackendMemberManager_Ensure member_cmp ''lb'' ''vs'' ''p''
     [stored_member ''m1'' (demo_spec ''10.0.0.1'' 80), stored_member ''m2'' (demo_spec ''10.0.0.2'' 80)]
     [demo_spec ''10.0.0.1'' 80, demo_spec ''10.0.0.3'' 80] [] =
   (Inr ([stored_member ''m1'' (demo_spec ''10.0.0.1'' 80), stored_member ''new'' (demo_spec ''10.0.0.3'' 80)], True),
    [CreatePoolMember ''lb'' ''vs'' ''p'' (demo_spec ''10.0.0.3'' 80), DeletePoolMember ''lb'' ''vs'' ''p'' ''m2''])"
  by code_simp

theorem member_delete_only_stale_witness:
  "\<exists>m \<in> set [stored_member ''m1'' (demo_spec ''10.0.0.1'' 80), stored_member ''m2'' (demo_spec ''10.0.0.2'' 80)].
     pm_ID m = ''m2'' \<and> member_key m \<notin> poolMemberSpecKey ` set [demo_spec ''10.0.0.1'' 80, demo_spec ''10.0.0.3'' 80]"
  using member_delete_only_stale [of "''lb''" "''vs''" "''p''" "''m2''" member_cmp "''lb''" "''vs''" "''p''"
      "[stored_member ''m1'' (demo_spec ''10.0.0.1'' 80), stored_member ''m2'' (demo_spec ''10.0.0.2'' 80)]"
      "[demo_spec ''10.0.0.1'' 80, demo_spec ''10.0.0.3'' 80]" "[]"]
  unfolding calls_of_def demo_member_run by auto


subsection \<open>Scope\<close>

lemma member_calls_in_pool:
  "emits (\<lambda>c. call_pool c = Some pool \<and> in_lb lb c) (BackendMemberManager_Ensure A lb vs pool observed desired)"
proof -
  have "\<forall>c \<in> set (member_plan A (lb, vs, pool, observed, desired) h). call_pool c = Some pool \<and> in_lb lb c" for h
    by (auto simp: in_lb_def member_plan_def Let_def member_plan1_def split: option.splits if_splits)
  then show ?thesis
    using BackendMemberManager_Ensure_follows [of _ A lb vs pool observed desired]
    unfolding emits_def follows_at_def list_all_iff by (meson set_mono_prefix subsetD)
qed

definition member_manager :: "cmp \<Rightarrow> string \<Rightarrow> string \<times> string \<times> PoolMemberResource list \<times> PoolMemberSpec list \<Rightarrow>
    (PoolMemberResource list \<times> bool) io" where
  "member_manager A lb q = member_run A (lb, q)"

interpretation member_scope: lb_scoped member_manager
  by unfold_locales (auto simp: member_manager_def member_run_def split: prod.splits
      intro!: emits_mono [OF member_calls_in_pool])

end
