(* ===== verification/PoolManager.thy ===== *)
theory PoolManager
  imports MemberManager
begin

text \<open>
  \<open>pkg/deploy/lbaas/pool_manager.go\<close>: one pool of a virtual server.  CMP's list carries no
  owner: \<open>EnsureOwned\<close> works only on the recorded pool or on one it creates, and refuses a
  name that is taken; the older \<open>Ensure\<close> adopts by name.
\<close>

definition zero_pool :: PoolResource where
  "zero_pool = \<lparr>po_ID = [], po_Name = [], po_IsDefault = False, po_Members = []\<rparr>"

text \<open>The loop over the listed pools; the state is \<open>pool\<close> and \<open>nameCollision\<close>.\<close>

fun pool_scan :: "string \<Rightarrow> string \<Rightarrow> string \<Rightarrow> bool \<Rightarrow> PoolResource \<times> bool \<Rightarrow> PoolResource list \<Rightarrow>
    err + PoolResource \<times> bool" where
  "pool_scan vs name observedPoolID legacy st [] = Inr st"
| "pool_scan vs name observedPoolID legacy (pool, collision) (candidate # existing) =
     (if observedPoolID \<noteq> [] \<and> trim_space (po_ID candidate) = observedPoolID
      then pool_scan vs name observedPoolID legacy (candidate, collision) existing
      else if equal_fold (trim_space (po_Name candidate)) (trim_space name)
      then if \<not> legacy then pool_scan vs name observedPoolID legacy (pool, True) existing
           else if trim_space (po_ID pool) \<noteq> []
           then Inl (Errorf ''ambiguous CMP pools named %q on virtual server %s'' [name, vs])
           else pool_scan vs name observedPoolID legacy (candidate, True) existing
      else pool_scan vs name observedPoolID legacy (pool, collision) existing)"

text \<open>Members and the default flag of the pool that was found or created.\<close>

definition pool_settle :: "cmp \<Rightarrow> string \<Rightarrow> string \<Rightarrow> PoolResource \<Rightarrow> bool \<Rightarrow> PoolMemberSpec list \<Rightarrow> bool \<Rightarrow>
    (PoolResource \<times> bool) io" where
  "pool_settle A lb vs pool changed members setDefault =
     io_bind (BackendMemberManager_Ensure A lb vs (po_ID pool) (po_Members pool) members)
       (\<lambda>(convergedMembers, membersChanged).
          let pool = pool\<lparr>po_Members := convergedMembers\<rparr>
          in if setDefault \<and> \<not> po_IsDefault pool
             then io_bind (io_wrap ''setting pool %s as default on virtual server %s: %w'' [po_ID pool, vs]
                             (do_SetDefaultPool A lb vs (po_ID pool)))
                    (\<lambda>_. io_return (pool\<lparr>po_IsDefault := True\<rparr>, True))
             else io_return (pool, changed \<or> membersChanged))"

definition pool_spec :: "M_Pool \<Rightarrow> PoolMemberSpec list \<Rightarrow> PoolSpec" where
  "pool_spec desired members =
     \<lparr>pl_Name = pool_Name desired, pl_Protocol = [], pl_RoutingAlgorithm = [],
      pl_Monitor = pool_Monitor desired, pl_Members = members\<rparr>"

definition pool_create :: "cmp \<Rightarrow> string \<Rightarrow> string \<Rightarrow> M_Pool \<Rightarrow> PoolMemberSpec list \<Rightarrow> PoolResource io" where
  "pool_create A lb vs desired members =
     io_bind (io_wrap ''creating pool %s on virtual server %s: %w'' [pool_Name desired, vs]
                (do_CreatePool A lb vs (pool_spec desired members)))
       (\<lambda>pool. if trim_space (po_ID pool) = []
          then io_fail (Errorf ''CMP created pool %q without a provider id'' [pool_Name desired])
          else io_return pool)"

definition pool_listed :: "cmp \<Rightarrow> string \<Rightarrow> string \<Rightarrow> M_Pool \<Rightarrow> PoolMemberSpec list \<Rightarrow> bool \<Rightarrow> string \<Rightarrow> bool \<Rightarrow>
    PoolResource list \<Rightarrow> (PoolResource \<times> bool) io" where
  "pool_listed A lb vs desired members setDefault observedPoolID legacy existing =
     io_bind (io_of_result (pool_scan vs (pool_Name desired) observedPoolID legacy (zero_pool, False) existing))
       (\<lambda>(pool, nameCollision).
          if trim_space (po_ID pool) \<noteq> [] then pool_settle A lb vs pool False members setDefault
          else if nameCollision \<and> \<not> legacy
          then io_fail (Errorf ''pool %q on virtual server %s is owned by another stack'' [pool_Name desired, vs])
          else io_bind (pool_create A lb vs desired members)
                 (\<lambda>pool. pool_settle A lb vs pool True members setDefault))"

definition PoolManager_ensure :: "cmp \<Rightarrow> string \<Rightarrow> string \<Rightarrow> M_Pool \<Rightarrow> PoolMemberSpec list \<Rightarrow> bool \<Rightarrow> string \<Rightarrow> bool \<Rightarrow>
    (PoolResource \<times> bool) io" where
  "PoolManager_ensure A lb vs desired members setDefault observedPoolID legacy =
     (if trim_space lb = [] then io_fail (Errorf ''lb service id must not be empty'' [])
      else if trim_space vs = [] then io_fail (Errorf ''virtual server id must not be empty'' [])
      else if trim_space (pool_Name desired) = [] then io_fail (Errorf ''pool name must not be empty'' [])
      else io_bind (io_wrap ''listing pools on virtual server %s: %w'' [vs] (do_ListPools A lb vs))
             (pool_listed A lb vs desired members setDefault (trim_space observedPoolID) legacy))"

definition PoolManager_Ensure :: "cmp \<Rightarrow> string \<Rightarrow> string \<Rightarrow> M_Pool \<Rightarrow> PoolMemberSpec list \<Rightarrow> bool \<Rightarrow> (PoolResource \<times> bool) io" where
  "PoolManager_Ensure A lb vs desired members setDefault = PoolManager_ensure A lb vs desired members setDefault [] True"

definition PoolManager_EnsureOwned :: "cmp \<Rightarrow> string \<Rightarrow> string \<Rightarrow> M_Pool \<Rightarrow> PoolMemberSpec list \<Rightarrow> bool \<Rightarrow> string \<Rightarrow>
    (PoolResource \<times> bool) io" where
  "PoolManager_EnsureOwned A lb vs desired members setDefault observedPoolID =
     PoolManager_ensure A lb vs desired members setDefault observedPoolID False"

definition PoolManager_Cleanup :: "cmp \<Rightarrow> string \<Rightarrow> string \<Rightarrow> string \<Rightarrow> unit io" where
  "PoolManager_Cleanup A lb vs pool =
     (let lb = trim_space lb; vs = trim_space vs; pool = trim_space pool
      in if lb = [] \<or> vs = [] \<or> pool = [] then io_return () else do_DeletePool A lb vs pool)"

subsection \<open>Ownership\<close>

text \<open>The scan without adoption: only the recorded ID selects a pool.\<close>

lemma pool_scan_owned:
  assumes "pool_scan vs name oid False (p0, b0) existing = Inr (p, b)"
  shows "p = p0 \<or> p \<in> set existing \<and> oid \<noteq> [] \<and> trim_space (po_ID p) = oid"
  using assms
proof (induction existing arbitrary: p0 b0)
  case (Cons c existing)
  show ?case
  proof (cases "oid \<noteq> [] \<and> trim_space (po_ID c) = oid")
    case True
    with Cons.prems have "pool_scan vs name oid False (c, b0) existing = Inr (p, b)" by simp
    from Cons.IH [OF this] True show ?thesis by auto
  next
    case False
    with Cons.prems have "\<exists>b1. pool_scan vs name oid False (p0, b1) existing = Inr (p, b)"
      by (cases "equal_fold (trim_space (po_Name c)) (trim_space name)") auto
    with Cons.IH show ?thesis by auto
  qed
qed simp

lemma pool_scan_unowned:
  assumes "\<forall>c \<in> set existing. oid = [] \<or> trim_space (po_ID c) \<noteq> oid"
  shows "pool_scan vs name oid False (p0, b0) existing =
     Inr (p0, b0 \<or> (\<exists>c \<in> set existing. equal_fold (trim_space (po_Name c)) (trim_space name)))"
  using assms by (induction existing arbitrary: b0) auto

text \<open>The pools a pass started after \<open>h\<close> may work on: the recorded one, and the one CMP
  creates in answer to this pass.\<close>

definition pool_owned :: "cmp \<Rightarrow> string \<Rightarrow> string \<Rightarrow> M_Pool \<Rightarrow> PoolMemberSpec list \<Rightarrow> string \<Rightarrow> history \<Rightarrow> string \<Rightarrow> bool" where
  "pool_owned A lb vs desired members observedPoolID h p \<longleftrightarrow>
     (trim_space observedPoolID \<noteq> [] \<and> trim_space p = trim_space observedPoolID) \<or>
     (case r_CreatePool A lb vs (pool_spec desired members) (h @ [ListPools lb vs]) of
        Inl e \<Rightarrow> False | Inr r \<Rightarrow> po_ID r = p)"

lemma pool_settle_calls:
  "emits (\<lambda>c. call_pool c = Some (po_ID pool) \<and> in_lb lb c) (pool_settle A lb vs pool ch members sd)"
  unfolding pool_settle_def do_SetDefaultPool_def Let_def
  by (auto simp: in_lb_def [of lb "SetDefaultPool lb vs p" for p] split: prod.splits intro!: emits_bind member_calls_in_pool)

lemma pool_create_emits:
  "emits (\<lambda>c. call_pool c = None) (pool_create A lb vs desired members)"
  unfolding pool_create_def do_CreatePool_def by auto

lemma pool_create_success:
  "pool_create A lb vs desired members h = (Inr p, h') \<Longrightarrow> r_CreatePool A lb vs (pool_spec desired members) h = Inr p"
  unfolding pool_create_def do_CreatePool_def
  by (auto elim!: bind_InrE wrap_InrE invokeE if_InrE fail_InrE return_InrE)

text \<open>
  C7.  Pools of other stacks are never touched: every call \<open>EnsureOwned\<close> makes on a pool or on
  anything below it is addressed to the recorded pool or to the pool CMP created in this very
  pass; a pool that merely has the desired name is never adopted.
\<close>

theorem pool_EnsureOwned_only_owned:
  "list_all (\<lambda>c. case call_pool c of None \<Rightarrow> True | Some p \<Rightarrow> pool_owned A lb vs desired members oid h p)
     (calls_of (PoolManager_EnsureOwned A lb vs desired members sd oid) h)"
proof -
  let ?P = "\<lambda>c. case call_pool c of None \<Rightarrow> True | Some p \<Rightarrow> pool_owned A lb vs desired members oid h p"
  have settle: "emits_from h' ?P (pool_settle A lb vs p ch members sd)"
    if "pool_owned A lb vs desired members oid h (po_ID p)" for p ch h'
    using that by (intro emits_emits_from emits_mono [OF pool_settle_calls]) auto
  have listed: "emits_from (h @ [ListPools lb vs]) ?P
      (pool_listed A lb vs desired members sd (trim_space oid) False existing)" for existing
    unfolding pool_listed_def
  proof (rule emits_from_bind)
    show "emits_from (h @ [ListPools lb vs]) ?P
        (io_of_result (pool_scan vs (pool_Name desired) (trim_space oid) False (zero_pool, False) existing))"
      by (rule emits_emits_from) (rule emits_of_result)
    fix st h1
    assume scan: "io_of_result (pool_scan vs (pool_Name desired) (trim_space oid) False (zero_pool, False) existing)
        (h @ [ListPools lb vs]) = (Inr st, h1)"
    obtain p b where st: "st = (p, b)" by (cases st)
    from scan have h1: "h1 = h @ [ListPools lb vs]" by (simp add: run_of_result)
    have owned: "trim_space (po_ID p) \<noteq> [] \<Longrightarrow> pool_owned A lb vs desired members oid h (po_ID p)"
      using scan pool_scan_owned [of vs "pool_Name desired" "trim_space oid" zero_pool False existing p b]
      by (auto simp: st run_of_result pool_owned_def zero_pool_def)
    have created: "emits_from h1 ?P (io_bind (pool_create A lb vs desired members)
        (\<lambda>pool. pool_settle A lb vs pool True members sd))"
      by (rule emits_from_bind)
        (auto intro!: emits_emits_from [OF emits_mono [OF pool_create_emits]] settle
          simp: pool_owned_def h1 dest!: pool_create_success)
    show "emits_from h1 ?P (case st of (pool, nameCollision) \<Rightarrow>
        if trim_space (po_ID pool) \<noteq> [] then pool_settle A lb vs pool False members sd
        else if nameCollision \<and> \<not> False
        then io_fail (Errorf ''pool %q on virtual server %s is owned by another stack'' [pool_Name desired, vs])
        else io_bind (pool_create A lb vs desired members) (\<lambda>pool. pool_settle A lb vs pool True members sd))"
      using owned created by (auto simp: st intro: settle)
  qed
  have "emits_from h ?P (io_bind (io_wrap f args (do_ListPools A lb vs))
      (pool_listed A lb vs desired members sd (trim_space oid) False))" for f args
    unfolding do_ListPools_def
    by (rule emits_from_bind) (auto intro!: emits_emits_from listed elim!: wrap_InrE invokeE)
  then have "emits_from h ?P (PoolManager_EnsureOwned A lb vs desired members sd oid)"
    unfolding PoolManager_EnsureOwned_def PoolManager_ensure_def by auto
  then show ?thesis by (rule emits_from_calls)
qed

text \<open>
  A pool name another stack uses is refused: if no listed pool is the recorded one and one
  has the desired name, the pass changes nothing and ends in an error.
\<close>

theorem pool_name_taken_refused:
  assumes "r_ListPools A lb vs h = Inr existing" "c \<in> set existing"
    and "equal_fold (trim_space (po_Name c)) (trim_space (pool_Name desired))"
    and "\<forall>p \<in> set existing. trim_space oid = [] \<or> trim_space (po_ID p) \<noteq> trim_space oid"
  shows "mutations (calls_of (PoolManager_EnsureOwned A lb vs desired members sd oid) h) = [] \<and>
     (\<exists>e. result_of (PoolManager_EnsureOwned A lb vs desired members sd oid) h = Inl e)"
proof -
  have "pool_scan vs (pool_Name desired) (trim_space oid) False (zero_pool, False) existing = Inr (zero_pool, True)"
    using pool_scan_unowned [OF assms(4)] assms(2,3) by auto
  then have "pool_listed A lb vs desired members sd (trim_space oid) False existing h' =
      (Inl (Errorf ''pool %q on virtual server %s is owned by another stack'' [pool_Name desired, vs]), h')" for h'
    by (simp add: pool_listed_def run_bind run_of_result zero_pool_def io_fail_def)
  then show ?thesis
    using assms(1)
    by (simp add: PoolManager_EnsureOwned_def PoolManager_ensure_def do_ListPools_def run_bind run_wrap
        run_invoke result_of_def calls_of_def io_fail_def)
qed

definition demo_pool :: M_Pool where
  "demo_pool = \<lparr>pool_Name = ''web'', pool_Service = ''web'', pool_PortName = [], pool_Port = 80, pool_Members = [],
     pool_Monitor = None, pool_Ownership = zero_ownership\<rparr>"

definition pool_cmp :: cmp where
  "pool_cmp = empty_cmp\<lparr>r_ListPools := (\<lambda>lb vs h. Inr [zero_pool\<lparr>po_ID := ''4'', po_Name := ''Web''\<rparr>])\<rparr>"

theorem pool_name_taken_refused_witness:
  "mutations (calls_of (PoolManager_EnsureOwned pool_cmp ''lb'' ''vs'' demo_pool [] True ''5'') []) = []"
proof -
  have "equal_fold (trim_space ''Web'') (trim_space ''web'')" "trim_space ''4'' \<noteq> trim_space ''5''" by code_simp+
  then show ?thesis
    using pool_name_taken_refused [of pool_cmp "''lb''" "''vs''" "[]" "[zero_pool\<lparr>po_ID := ''4'', po_Name := ''Web''\<rparr>]"
        "zero_pool\<lparr>po_ID := ''4'', po_Name := ''Web''\<rparr>" demo_pool "''5''" "[]" True]
    by (simp add: pool_cmp_def demo_pool_def)
qed

subsection \<open>Scope\<close>

definition pool_manager :: "cmp \<Rightarrow> string \<Rightarrow> string \<times> M_Pool \<times> PoolMemberSpec list \<times> bool \<times> string \<Rightarrow> (PoolResource \<times> bool) io" where
  "pool_manager A lb q =
     (case q of (vs, desired, members, setDefault, oid) \<Rightarrow> PoolManager_EnsureOwned A lb vs desired members setDefault oid)"

lemma PoolManager_ensure_in_lb: "emits (in_lb lb) (PoolManager_ensure A lb vs desired members sd oid legacy)"
proof -
  have "emits (in_lb lb) (pool_settle A lb vs p ch members sd)" for p ch
    by (rule emits_mono [OF pool_settle_calls]) simp
  then show ?thesis
    unfolding PoolManager_ensure_def pool_listed_def pool_create_def do_ListPools_def do_CreatePool_def
    by (auto simp: in_lb_def split: prod.splits)
qed

interpretation pool_scope: lb_scoped pool_manager
  by unfold_locales (auto simp: pool_manager_def PoolManager_EnsureOwned_def split: prod.splits intro!: PoolManager_ensure_in_lb)

end
