(* ===== verification/MonitorManager.thy ===== *)
theory MonitorManager
  imports Scope
begin

text \<open>
  \<open>pkg/deploy/lbaas/monitor_manager.go\<close>: the health monitor of one pool.  At most one monitor
  is kept; every other one on the graph-owned pool is stale and deleted.
\<close>

definition monitorSpecEqual :: "MonitorResource \<Rightarrow> MonitorSpec \<Rightarrow> bool" where
  "monitorSpecEqual observed desired \<longleftrightarrow>
     equal_fold (trim_space (mr_Protocol observed)) (trim_space (ms_Protocol desired)) \<and>
     trim_space (mr_Path observed) = trim_space (ms_Path desired) \<and>
     mr_Interval observed = ms_Interval desired"

definition zero_monitor :: MonitorResource where
  "zero_monitor = \<lparr>mr_ID = [], mr_Name = [], mr_Protocol = [], mr_Path = [], mr_Interval = 0\<rparr>"

definition monitor_spec :: "Monitor \<Rightarrow> MonitorSpec" where
  "monitor_spec desired =
     \<lparr>ms_Name = (if trim_space (mon_Name desired) = [] then ''default-monitor'' else mon_Name desired),
      ms_Protocol = mon_Type desired, ms_Path = mon_Path desired, ms_Interval = mon_Interval desired\<rparr>"

definition monitor_delete :: "cmp \<Rightarrow> string \<Rightarrow> string \<Rightarrow> string \<Rightarrow> string \<Rightarrow> MonitorResource \<Rightarrow> unit io" where
  "monitor_delete A what lb vs pool m = io_wrap what [mr_ID m, pool] (do_DeleteMonitor A lb vs pool (mr_ID m))"

text \<open>No monitor is desired: delete all that have an ID.\<close>

definition monitors_clear :: "cmp \<Rightarrow> string \<Rightarrow> string \<Rightarrow> string \<Rightarrow> MonitorResource list \<Rightarrow> (MonitorResource \<times> bool) io" where
  "monitors_clear A lb vs pool monitors =
     io_bind (io_fold (\<lambda>changed m.
         if trim_space (mr_ID m) = [] then io_return changed
         else io_bind (monitor_delete A ''deleting undesired monitor %s from pool %s: %w'' lb vs pool m) (\<lambda>_. io_return True))
       monitors False)
       (\<lambda>changed. io_return (zero_monitor, changed))"

text \<open>One listed monitor; the state is \<open>kept\<close> and \<open>changed\<close>.\<close>

definition monitor_step :: "cmp \<Rightarrow> string \<Rightarrow> string \<Rightarrow> string \<Rightarrow> MonitorSpec \<Rightarrow> MonitorResource \<times> bool \<Rightarrow>
    MonitorResource \<Rightarrow> (MonitorResource \<times> bool) io" where
  "monitor_step A lb vs pool spec st m =
     (case st of (kept, changed) \<Rightarrow>
        if trim_space (mr_ID m) = [] then io_return (kept, changed)
        else if trim_space (mr_Name m) \<noteq> trim_space (ms_Name spec)
        then io_bind (monitor_delete A ''deleting obsolete monitor %s from pool %s: %w'' lb vs pool m) (\<lambda>_. io_return (kept, True))
        else if trim_space (mr_ID kept) \<noteq> []
        then io_bind (monitor_delete A ''deleting duplicate monitor %s from pool %s: %w'' lb vs pool m) (\<lambda>_. io_return (kept, True))
        else if monitorSpecEqual m spec then io_return (m, changed)
        else io_bind (io_wrap ''updating monitor %s on pool %s: %w'' [mr_ID m, pool] (do_UpdateMonitor A lb vs pool (mr_ID m) spec))
               (\<lambda>updated. io_return (updated, True)))"

definition monitors_converge :: "cmp \<Rightarrow> string \<Rightarrow> string \<Rightarrow> string \<Rightarrow> MonitorSpec \<Rightarrow> MonitorResource list \<Rightarrow> (MonitorResource \<times> bool) io" where
  "monitors_converge A lb vs pool spec monitors =
     io_bind (io_fold (monitor_step A lb vs pool spec) monitors (zero_monitor, False))
       (\<lambda>(kept, changed). if trim_space (mr_ID kept) \<noteq> [] then io_return (kept, changed)
          else io_bind (io_wrap ''creating monitor %s on pool %s: %w'' [ms_Name spec, pool] (do_CreateMonitor A lb vs pool spec))
                 (\<lambda>created. io_return (created, True)))"

definition MonitorManager_Ensure :: "cmp \<Rightarrow> string \<Rightarrow> string \<Rightarrow> string \<Rightarrow> Monitor option \<Rightarrow> (MonitorResource \<times> bool) io" where
  "MonitorManager_Ensure A lb vs pool desired =
     (if trim_space lb = [] \<or> trim_space vs = [] \<or> trim_space pool = []
      then io_fail (Errorf ''lb service id, virtual server id and pool id are required for monitor reconciliation'' [])
      else io_bind (io_wrap ''listing monitors for pool %s: %w'' [pool] (do_ListMonitors A lb vs pool))
             (\<lambda>monitors. case desired of
                None \<Rightarrow> monitors_clear A lb vs pool monitors
              | Some m \<Rightarrow> monitors_converge A lb vs pool (monitor_spec m) monitors))"

definition MonitorManager_Cleanup :: "cmp \<Rightarrow> string \<Rightarrow> string \<Rightarrow> string \<Rightarrow> string \<Rightarrow> unit io" where
  "MonitorManager_Cleanup A lb vs pool monitorID =
     (if trim_space lb = [] \<or> trim_space vs = [] \<or> trim_space pool = [] \<or> trim_space monitorID = [] then io_return ()
      else do_DeleteMonitor A lb vs pool monitorID)"

subsection \<open>One monitor remains\<close>

text \<open>The listed monitors that the calls \<open>cs\<close> do not delete.\<close>

definition monitor_survives :: "string \<Rightarrow> string \<Rightarrow> string \<Rightarrow> call list \<Rightarrow> MonitorResource \<Rightarrow> bool" where
  "monitor_survives lb vs pool cs m \<longleftrightarrow> trim_space (mr_ID m) \<noteq> [] \<and> DeleteMonitor lb vs pool (mr_ID m) \<notin> set cs"

text \<open>CMP answers an update with the ID of the monitor.\<close>

definition echoes_monitor_id :: "cmp \<Rightarrow> string \<Rightarrow> string \<Rightarrow> string \<Rightarrow> MonitorSpec \<Rightarrow> bool" where
  "echoes_monitor_id A lb vs pool spec \<longleftrightarrow>
     (\<forall>i h r. r_UpdateMonitor A lb vs pool i spec h = Inr r \<longrightarrow> trim_space (mr_ID r) \<noteq> [])"

lemma monitor_step_success:
  assumes "monitor_step A lb vs pool spec (kept, ch) m h = (Inr (kept', ch'), h')" "echoes_monitor_id A lb vs pool spec"
  shows "\<exists>cs. h' = h @ cs \<and>
     (monitor_survives lb vs pool cs m \<longrightarrow>
        trim_space (mr_ID kept) = [] \<and> trim_space (mr_Name m) = trim_space (ms_Name spec) \<and> trim_space (mr_ID kept') \<noteq> []) \<and>
     (trim_space (mr_ID kept) \<noteq> [] \<longrightarrow> kept' = kept)"
  using assms
  unfolding monitor_step_def monitor_delete_def do_DeleteMonitor_def do_UpdateMonitor_def prod.case echoes_monitor_id_def
  by (auto elim!: if_InrE bind_InrE wrap_InrE invokeE return_InrE simp: monitor_survives_def)

lemma monitor_survives_append:
  "monitor_survives lb vs pool (cs @ ds) m \<longleftrightarrow> monitor_survives lb vs pool cs m \<and> monitor_survives lb vs pool ds m"
  by (auto simp: monitor_survives_def)

lemma length_filter_le: "(\<And>x. P x \<Longrightarrow> Q x) \<Longrightarrow> length (filter P xs) \<le> length (filter Q xs)"
  by (induction xs) auto

lemma monitor_fold_success:
  assumes "io_fold (monitor_step A lb vs pool spec) ms (kept, ch) h = (Inr (kept', ch'), h')"
    and "echoes_monitor_id A lb vs pool spec"
  shows "\<exists>cs. h' = h @ cs \<and>
     length (filter (monitor_survives lb vs pool cs) ms) \<le> (if trim_space (mr_ID kept) = [] then 1 else 0) \<and>
     (\<forall>m \<in> set ms. monitor_survives lb vs pool cs m \<longrightarrow> trim_space (mr_Name m) = trim_space (ms_Name spec))"
  using assms(1)
proof (induction ms arbitrary: kept ch h)
  case Nil
  then show ?case by (auto simp: io_return_def)
next
  case (Cons m ms)
  from Cons.prems obtain k1 ch1 h1 where
    step: "monitor_step A lb vs pool spec (kept, ch) m h = (Inr (k1, ch1), h1)" and
    rest: "io_fold (monitor_step A lb vs pool spec) ms (k1, ch1) h1 = (Inr (kept', ch'), h')"
    by (auto elim!: bind_InrE)
  from monitor_step_success [OF step assms(2)] obtain cs where cs: "h1 = h @ cs"
    "monitor_survives lb vs pool cs m \<Longrightarrow> trim_space (mr_ID kept) = [] \<and>
       trim_space (mr_Name m) = trim_space (ms_Name spec) \<and> trim_space (mr_ID k1) \<noteq> []"
    "trim_space (mr_ID kept) \<noteq> [] \<Longrightarrow> k1 = kept" by blast
  from Cons.IH [OF rest] obtain ds where ds: "h' = h1 @ ds"
    "length (filter (monitor_survives lb vs pool ds) ms) \<le> (if trim_space (mr_ID k1) = [] then 1 else 0)"
    "\<forall>m \<in> set ms. monitor_survives lb vs pool ds m \<longrightarrow> trim_space (mr_Name m) = trim_space (ms_Name spec)" by blast
  let ?F = "length (filter (monitor_survives lb vs pool (cs @ ds)) ms)"
  have le: "?F \<le> length (filter (monitor_survives lb vs pool ds) ms)"
    by (rule length_filter_le) (simp add: monitor_survives_append)
  have "length (filter (monitor_survives lb vs pool (cs @ ds)) (m # ms)) \<le> (if trim_space (mr_ID kept) = [] then 1 else 0)"
  proof (cases "monitor_survives lb vs pool cs m")
    case True
    with cs(2) ds(2) le show ?thesis by simp
  next
    case False
    then have "length (filter (monitor_survives lb vs pool (cs @ ds)) (m # ms)) = ?F"
      by (simp add: monitor_survives_append)
    also have "\<dots> \<le> (if trim_space (mr_ID k1) = [] then 1 else 0)" using le ds(2) by linarith
    also have "\<dots> \<le> (if trim_space (mr_ID kept) = [] then 1 else 0)" using cs(3) by auto
    finally show ?thesis .
  qed
  moreover have "\<forall>x \<in> set (m # ms). monitor_survives lb vs pool (cs @ ds) x \<longrightarrow>
      trim_space (mr_Name x) = trim_space (ms_Name spec)"
    using cs(2) ds(3) by (auto simp: monitor_survives_append)
  ultimately show ?case using cs(1) ds(1) by (intro exI [of _ "cs @ ds"]) simp
qed

text \<open>
  One monitor per pool: after a successful pass for a desired monitor, of the monitors CMP
  listed on the pool at most one was not deleted by the pass, and it has the desired name.
\<close>

theorem monitor_Ensure_one_remains:
  assumes "MonitorManager_Ensure A lb vs pool (Some d) h = (Inr (kept, ch), h')"
    and "echoes_monitor_id A lb vs pool (monitor_spec d)" "r_ListMonitors A lb vs pool h = Inr listed"
  shows "length (filter (monitor_survives lb vs pool (calls_of (MonitorManager_Ensure A lb vs pool (Some d)) h)) listed) \<le> 1 \<and>
     (\<forall>m \<in> set listed. monitor_survives lb vs pool (calls_of (MonitorManager_Ensure A lb vs pool (Some d)) h) m \<longrightarrow>
        trim_space (mr_Name m) = trim_space (ms_Name (monitor_spec d)))"
proof -
  from assms(1,3) have "monitors_converge A lb vs pool (monitor_spec d) listed (h @ [ListMonitors lb vs pool]) = (Inr (kept, ch), h')"
    unfolding MonitorManager_Ensure_def do_ListMonitors_def
    by (elim if_InrE fail_InrE bind_InrE wrap_InrE invokeE) simp
  then obtain k c h1 where
    fold: "io_fold (monitor_step A lb vs pool (monitor_spec d)) listed (zero_monitor, False) (h @ [ListMonitors lb vs pool]) = (Inr (k, c), h1)"
    and fin: "(if trim_space (mr_ID k) \<noteq> [] then io_return (k, c)
        else io_bind (io_wrap ''creating monitor %s on pool %s: %w'' [ms_Name (monitor_spec d), pool]
               (do_CreateMonitor A lb vs pool (monitor_spec d))) (\<lambda>created. io_return (created, True))) h1 = (Inr (kept, ch), h')"
    unfolding monitors_converge_def by (elim bind_InrE) (auto split: prod.splits)
  from monitor_fold_success [OF fold assms(2)] obtain cs where cs:
    "h1 = (h @ [ListMonitors lb vs pool]) @ cs" "length (filter (monitor_survives lb vs pool cs) listed) \<le> 1"
    "\<forall>m \<in> set listed. monitor_survives lb vs pool cs m \<longrightarrow> trim_space (mr_Name m) = trim_space (ms_Name (monitor_spec d))"
    by (auto simp: zero_monitor_def)
  from fin obtain ds where "h' = h1 @ ds"
    unfolding do_CreateMonitor_def by (auto elim!: if_InrE bind_InrE wrap_InrE invokeE return_InrE)
  with cs(1) assms(1) have "calls_of (MonitorManager_Ensure A lb vs pool (Some d)) h = ListMonitors lb vs pool # cs @ ds"
    by (simp add: calls_of_def)
  then have "monitor_survives lb vs pool (calls_of (MonitorManager_Ensure A lb vs pool (Some d)) h) m \<Longrightarrow>
      monitor_survives lb vs pool cs m" for m
    by (simp add: monitor_survives_def)
  with cs(2,3) show ?thesis
    by (meson le_trans length_filter_le)
qed

definition demo_monitor :: Monitor where
  "demo_monitor = \<lparr>mon_Name = ''m'', mon_Type = ''HTTP'', mon_Path = ''/'', mon_Interval = 5, mon_Port = 80, mon_Timeout = 3\<rparr>"

definition listed_monitor :: "string \<Rightarrow> string \<Rightarrow> MonitorResource" where
  "listed_monitor i n = \<lparr>mr_ID = i, mr_Name = n, mr_Protocol = ''http'', mr_Path = ''/'', mr_Interval = 5\<rparr>"

definition monitor_cmp :: cmp where
  "monitor_cmp = empty_cmp\<lparr>r_ListMonitors := (\<lambda>lb vs p h. Inr [listed_monitor ''1'' ''old'', listed_monitor ''2'' ''m'', listed_monitor ''3'' ''m''])\<rparr>"

lemma demo_monitor_run:
  "MonitorManager_Ensure monitor_cmp ''lb'' ''vs'' ''p'' (Some demo_monitor) [] =
     (Inr (listed_monitor ''2'' ''m'', True),
      [ListMonitors ''lb'' ''vs'' ''p'', DeleteMonitor ''lb'' ''vs'' ''p'' ''1'', DeleteMonitor ''lb'' ''vs'' ''p'' ''3''])"
  by code_simp

theorem monitor_Ensure_one_remains_witness:
  "length (filter (monitor_survives ''lb'' ''vs'' ''p''
      [ListMonitors ''lb'' ''vs'' ''p'', DeleteMonitor ''lb'' ''vs'' ''p'' ''1'', DeleteMonitor ''lb'' ''vs'' ''p'' ''3''])
     [listed_monitor ''1'' ''old'', listed_monitor ''2'' ''m'', listed_monitor ''3'' ''m'']) \<le> 1"
proof -
  have "echoes_monitor_id monitor_cmp ''lb'' ''vs'' ''p'' (monitor_spec demo_monitor)"
    "r_ListMonitors monitor_cmp ''lb'' ''vs'' ''p'' [] = Inr [listed_monitor ''1'' ''old'', listed_monitor ''2'' ''m'', listed_monitor ''3'' ''m'']"
    by (simp_all add: echoes_monitor_id_def monitor_cmp_def empty_cmp_def)
  from monitor_Ensure_one_remains [OF demo_monitor_run this] show ?thesis
    unfolding calls_of_def demo_monitor_run by (simp only: list.size drop_0 snd_conv)
qed

subsection \<open>Scope\<close>

definition monitor_manager :: "cmp \<Rightarrow> string \<Rightarrow> string \<times> string \<times> Monitor option \<Rightarrow> (MonitorResource \<times> bool) io" where
  "monitor_manager A lb q = (case q of (vs, pool, desired) \<Rightarrow> MonitorManager_Ensure A lb vs pool desired)"

lemma MonitorManager_Ensure_in_lb: "emits (in_lb lb) (MonitorManager_Ensure A lb vs pool desired)"
  unfolding MonitorManager_Ensure_def monitors_clear_def monitors_converge_def monitor_step_def monitor_delete_def
    do_ListMonitors_def do_CreateMonitor_def do_UpdateMonitor_def do_DeleteMonitor_def
  by (auto simp: in_lb_def split: option.splits prod.splits intro!: emits_fold)

interpretation monitor_scope: lb_scoped monitor_manager
  by unfold_locales (auto simp: monitor_manager_def split: prod.splits intro!: MonitorManager_Ensure_in_lb)

end
