(* ===== verification/RoutingRules.thy ===== *)
theory RoutingRules
  imports Reconciler
begin

text \<open>
  \<open>pkg/deploy/lbaas/routing_rule_manager.go\<close>: the routing rules of one virtual server.  CMP's
  list carries no owner, so a pass is told the IDs it owns (\<open>EnsureOwned\<close>): it deletes only
  those, and refuses a rule another stack already has.
\<close>

definition routingRuleKey :: "string \<Rightarrow> string \<Rightarrow> string \<Rightarrow> string \<Rightarrow> string" where
  "routingRuleKey host path matchType poolID =
     (let mt = to_lower (trim_space matchType); mt = (if mt = [] then ''prefix'' else mt)
      in to_lower (trim_space host) @ ''|'' @ trim_space path @ ''|'' @ mt @ ''|'' @ trim_space poolID)"

definition rule_key :: "RoutingRuleResource \<Rightarrow> string" where
  "rule_key r = routingRuleKey (ru_Host r) (ru_Path r) (ru_MatchType r) (ru_PoolID r)"

definition rule_spec_key :: "RoutingRuleSpec \<Rightarrow> string" where
  "rule_spec_key s = routingRuleKey (rs_Host s) (rs_Path s) (rs_MatchType s) (rs_PoolID s)"

text \<open>The split of the listed rules: \<open>byKey\<close> holds the owned ones, \<open>foreignKeys\<close> the
  keys of the others.\<close>

definition rule_owned :: "string list \<Rightarrow> bool \<Rightarrow> RoutingRuleResource \<Rightarrow> bool" where
  "rule_owned ownedRuleIDs legacyAllOwned rule \<longleftrightarrow> legacyAllOwned \<or> trim_space (ru_ID rule) \<in> set ownedRuleIDs"

definition rules_by_key :: "string list \<Rightarrow> bool \<Rightarrow> RoutingRuleResource list \<Rightarrow> RoutingRuleResource gomap" where
  "rules_by_key owned legacy existing =
     fold (\<lambda>rule byKey. if rule_owned owned legacy rule then gm_set (rule_key rule) rule byKey else byKey) existing []"

definition foreign_keys :: "string list \<Rightarrow> bool \<Rightarrow> RoutingRuleResource list \<Rightarrow> string list" where
  "foreign_keys owned legacy existing = map rule_key (filter (\<lambda>rule. \<not> rule_owned owned legacy rule) existing)"

definition rule_step :: "cmp \<Rightarrow> string \<Rightarrow> string \<Rightarrow> RoutingRuleResource gomap \<Rightarrow> string list \<Rightarrow>
    RoutingRuleResource list \<times> bool \<Rightarrow> RoutingRuleSpec \<Rightarrow> (RoutingRuleResource list \<times> bool) io" where
  "rule_step A lb vs byKey foreign st spec =
     (case st of (out, changed) \<Rightarrow>
        if trim_space (rs_PoolID spec) = [] then io_fail (Errorf ''routing rule pool id must not be empty'' [])
        else if rule_spec_key spec \<in> set foreign
        then io_fail (Errorf ''routing rule host=%s path=%s pool=%s is owned by another stack''
               [rs_Host spec, rs_Path spec, rs_PoolID spec])
        else if (case map_of byKey (rule_spec_key spec) of None \<Rightarrow> False | Some ex \<Rightarrow> trim_space (ru_ID ex) \<noteq> [])
        then io_return (out @ [the (map_of byKey (rule_spec_key spec))], changed)
        else io_bind (io_wrap ''creating routing rule host=%s path=%s pool=%s: %w''
                        [rs_Host spec, rs_Path spec, rs_PoolID spec] (do_CreateRoutingRule A lb vs spec))
               (\<lambda>created. io_return (out @ [created], True)))"

definition rules_listed :: "cmp \<Rightarrow> string \<Rightarrow> string \<Rightarrow> RoutingRuleSpec list \<Rightarrow> string list \<Rightarrow> bool \<Rightarrow>
    RoutingRuleResource list \<Rightarrow> (RoutingRuleResource list \<times> bool) io" where
  "rules_listed A lb vs desired owned legacy existing =
     (let byKey = rules_by_key owned legacy existing; desiredKeys = map rule_spec_key desired in
      io_bind (io_fold (rule_step A lb vs byKey (foreign_keys owned legacy existing)) desired ([], False))
        (\<lambda>(out, changed). io_range A byKey
           (\<lambda>entries. io_bind
              (delete_stale (\<lambda>key. key \<in> set desiredKeys) ru_ID
                 (\<lambda>r. io_wrap ''deleting obsolete routing rule %s: %w'' [ru_ID r]
                    (do_DeleteRoutingRule A lb vs (ru_ID r))) entries changed)
              (\<lambda>changed. io_return (out, changed)))))"

definition RoutingRuleManager_ensure :: "cmp \<Rightarrow> string \<Rightarrow> string \<Rightarrow> RoutingRuleSpec list \<Rightarrow> string list \<Rightarrow> bool \<Rightarrow>
    (RoutingRuleResource list \<times> bool) io" where
  "RoutingRuleManager_ensure A lb vs desired owned legacy =
     (if trim_space lb = [] \<or> trim_space vs = []
      then io_fail (Errorf ''lb service id and virtual server id are required for routing rule reconciliation'' [])
      else io_bind (io_wrap ''listing routing rules for virtual server %s: %w'' [vs] (do_ListRoutingRules A lb vs))
             (rules_listed A lb vs desired owned legacy))"

definition RoutingRuleManager_Ensure :: "cmp \<Rightarrow> string \<Rightarrow> string \<Rightarrow> RoutingRuleSpec list \<Rightarrow> (RoutingRuleResource list \<times> bool) io" where
  "RoutingRuleManager_Ensure A lb vs desired = RoutingRuleManager_ensure A lb vs desired [] True"

definition RoutingRuleManager_EnsureOwned :: "cmp \<Rightarrow> string \<Rightarrow> string \<Rightarrow> RoutingRuleSpec list \<Rightarrow> string list \<Rightarrow>
    (RoutingRuleResource list \<times> bool) io" where
  "RoutingRuleManager_EnsureOwned A lb vs desired owned = RoutingRuleManager_ensure A lb vs desired owned False"

definition RoutingRuleManager_Cleanup :: "cmp \<Rightarrow> string \<Rightarrow> string \<Rightarrow> string \<Rightarrow> unit io" where
  "RoutingRuleManager_Cleanup A lb vs ruleID =
     (if trim_space lb = [] \<or> trim_space vs = [] \<or> trim_space ruleID = [] then io_return ()
      else do_DeleteRoutingRule A lb vs ruleID)"

subsection \<open>The plan of a rule pass\<close>

definition rule_plan1 :: "string \<Rightarrow> string \<Rightarrow> RoutingRuleResource gomap \<Rightarrow> RoutingRuleSpec \<Rightarrow> call list" where
  "rule_plan1 lb vs byKey spec =
     (if (case map_of byKey (rule_spec_key spec) of None \<Rightarrow> False | Some ex \<Rightarrow> trim_space (ru_ID ex) \<noteq> [])
      then [] else [CreateRoutingRule lb vs spec])"

definition rule_plan :: "cmp \<Rightarrow> string \<times> string \<times> RoutingRuleSpec list \<times> string list \<times> bool \<Rightarrow> history \<Rightarrow> call list" where
  "rule_plan A q h =
     (case q of (lb, vs, desired, owned, legacy) \<Rightarrow>
        ListRoutingRules lb vs #
        (case r_ListRoutingRules A lb vs h of
           Inl e \<Rightarrow> []
         | Inr existing \<Rightarrow>
             let byKey = rules_by_key owned legacy existing; ups = concat (map (rule_plan1 lb vs byKey) desired)
             in ups @ map (\<lambda>r. DeleteRoutingRule lb vs (ru_ID r))
                  (stale (\<lambda>key. key \<in> set (map rule_spec_key desired)) ru_ID
                     (go_range (r_range A (h @ ListRoutingRules lb vs # ups)) byKey))))"

lemma rule_step_follows:
  "follows_at h (rule_plan1 lb vs byKey spec) (\<lambda>t. snd t = (snd st \<or> rule_plan1 lb vs byKey spec \<noteq> []))
     (rule_step A lb vs byKey foreign st spec)"
proof -
  obtain out ch where [simp]: "st = (out, ch)" by (cases st)
  have "follows_at h [CreateRoutingRule lb vs spec] snd
      (io_bind (io_wrap f a (do_CreateRoutingRule A lb vs spec)) (\<lambda>created. io_return (out @ [created], True)))" for f a
    unfolding do_CreateRoutingRule_def by (rule follows_call_then) (auto intro: follows_return)
  then show ?thesis
    by (auto simp: rule_step_def rule_plan1_def intro: follows_fail follows_return elim: follows_conseq)
qed

lemma rules_listed_follows:
  fixes existing owned desired legacy lb vs h A
  defines "byKey \<equiv> rules_by_key owned legacy existing"
  defines "ups \<equiv> concat (map (rule_plan1 lb vs byKey) desired)"
  defines "dels \<equiv> map (\<lambda>r. DeleteRoutingRule lb vs (ru_ID r))
      (stale (\<lambda>key. key \<in> set (map rule_spec_key desired)) ru_ID (go_range (r_range A (h @ ups)) byKey))"
  shows "follows_at h (ups @ dels) (\<lambda>(x, ch). ch = (ups @ dels \<noteq> [])) (rules_listed A lb vs desired owned legacy existing)"
proof -
  let ?del = "\<lambda>r. io_wrap ''deleting obsolete routing rule %s: %w'' [ru_ID r] (do_DeleteRoutingRule A lb vs (ru_ID r))"
  have del: "follows_at h' [DeleteRoutingRule lb vs (ru_ID r)] (\<lambda>_. True) (?del r)" for h' r
    unfolding do_DeleteRoutingRule_def by (rule follows_wrapped_call)
  have "follows_at h ups ((\<lambda>(s :: RoutingRuleResource list \<times> bool) cs t. snd t = (snd s \<or> cs \<noteq> [])) ([], False) ups)
      (io_fold (rule_step A lb vs byKey (foreign_keys owned legacy existing)) desired ([], False))"
    unfolding ups_def
    by (rule follows_fold [where J = "\<lambda>(s :: RoutingRuleResource list \<times> bool) cs t. snd t = (snd s \<or> cs \<noteq> [])"])
      (rule rule_step_follows, auto)
  then have phase1: "follows_at h ups (\<lambda>t. snd t = (ups \<noteq> []))
      (io_fold (rule_step A lb vs byKey (foreign_keys owned legacy existing)) desired ([], False))"
    by (simp only: snd_conv simp_thms)
  have phase2: "follows_at (h @ ups) dels (\<lambda>(x, c). c = (ups @ dels \<noteq> []))
      (case t of (out, changed) \<Rightarrow> io_range A byKey
         (\<lambda>entries. io_bind (delete_stale (\<lambda>key. key \<in> set (map rule_spec_key desired)) ru_ID ?del entries changed)
            (\<lambda>changed. io_return (out, changed))))"
    if "snd t = (ups \<noteq> [])" for t
  proof -
    obtain out c where t: "t = (out, c)" by (cases t)
    with that have c: "c = (ups \<noteq> [])" by simp
    have "follows_at (h @ ups) (dels @ []) (\<lambda>(x, c). c = (ups @ dels \<noteq> []))
      (case t of (out, changed) \<Rightarrow> io_range A byKey
         (\<lambda>entries. io_bind (delete_stale (\<lambda>key. key \<in> set (map rule_spec_key desired)) ru_ID ?del entries changed)
            (\<lambda>changed. io_return (out, changed))))"
      unfolding t prod.case dels_def
      by (rule follows_range, rule follows_bind [OF delete_stale_follows [OF del]], rule follows_return)
        (use c in auto)
    then show ?thesis by simp
  qed
  show ?thesis
    unfolding rules_listed_def Let_def byKey_def [symmetric]
    by (rule follows_bind [OF phase1]) (rule phase2)
qed

lemma rule_plan_mutations:
  "mutations (rule_plan A (lb, vs, desired, owned, legacy) h) = tl (rule_plan A (lb, vs, desired, owned, legacy) h)"
  by (auto simp: mutations_def rule_plan_def Let_def filter_id_conv rule_plan1_def
      split: sum.splits option.splits if_splits)

definition rule_run :: "cmp \<Rightarrow> string \<times> string \<times> RoutingRuleSpec list \<times> string list \<times> bool \<Rightarrow>
    (RoutingRuleResource list \<times> bool) io" where
  "rule_run A q = (case q of (lb, vs, desired, owned, legacy) \<Rightarrow> RoutingRuleManager_ensure A lb vs desired owned legacy)"

lemma follows_invoke_try:
  assumes "\<And>e. r h = Inl e \<Longrightarrow> p = []" "\<And>x. r h = Inr x \<Longrightarrow> follows_at (h @ [c]) p Q (f x)"
  shows "follows_at h (c # p) Q (io_bind (io_wrap g args (invoke c r)) f)"
proof (cases "r h")
  case (Inl e)
  then show ?thesis by (simp add: follows_at_def run_bind run_wrap run_invoke)
next
  case (Inr x)
  from assms(2) [OF this] show ?thesis
    by (auto simp: follows_at_def run_bind run_wrap run_invoke Inr)
qed

lemma rule_run_follows:
  "follows_at h (rule_plan A q h) (\<lambda>(x, ch). ch = (mutations (rule_plan A q h) \<noteq> [])) (rule_run A q)"
proof -
  obtain lb vs desired owned legacy where q: "q = (lb, vs, desired, owned, legacy)" by (cases q) auto
  have "follows_at h (rule_plan A q h) (\<lambda>(x, ch). ch = (tl (rule_plan A q h) \<noteq> []))
      (io_bind (io_wrap f args (do_ListRoutingRules A lb vs)) (rules_listed A lb vs desired owned legacy))" for f args
    unfolding q do_ListRoutingRules_def rule_plan_def prod.case list.sel
    by (rule follows_invoke_try)
      (use rules_listed_follows [of "h @ [ListRoutingRules lb vs]" lb vs owned legacy _ desired A] in
        \<open>auto simp: Let_def\<close>)
  then show ?thesis
    unfolding q rule_plan_mutations rule_run_def prod.case RoutingRuleManager_ensure_def
    by (simp add: follows_fail)
qed

interpretation rules: planned "rule_run A" "rule_plan A" for A
  by unfold_locales (rule rule_run_follows)

lemma rules_by_key_in:
  assumes "map_of (rules_by_key owned legacy existing) k = Some r"
  shows "r \<in> set existing \<and> rule_key r = k \<and> rule_owned owned legacy r"
proof -
  have "map_of (fold (\<lambda>rule byKey. if rule_owned owned legacy rule then gm_set (rule_key rule) rule byKey else byKey) rs b) k = Some r
      \<Longrightarrow> map_of b k = Some r \<or> r \<in> set rs \<and> rule_key r = k \<and> rule_owned owned legacy r" for rs b
    by (induction rs arbitrary: b) (fastforce split: if_splits)+
  with assms show ?thesis by (fastforce simp: rules_by_key_def)
qed

text \<open>
  \<open>EnsureOwned\<close> never deletes a rule it does not own: a deleted ID is in the set of owned
  IDs, and belongs to a rule CMP listed on this virtual server whose key is not desired.
\<close>

theorem rules_delete_only_owned:
  assumes "DeleteRoutingRule lb' vs' i \<in> set (calls_of (RoutingRuleManager_EnsureOwned A lb vs desired owned) h)"
  shows "lb' = lb \<and> vs' = vs \<and> trim_space i \<in> set owned \<and>
    (\<exists>existing. r_ListRoutingRules A lb vs h = Inr existing \<and>
       (\<exists>r \<in> set existing. ru_ID r = i \<and> rule_key r \<notin> rule_spec_key ` set desired))"
proof -
  have "DeleteRoutingRule lb' vs' i \<in> set (rule_plan A (lb, vs, desired, owned, False) h)"
    using rules.calls_in_plan [of _ A "(lb, vs, desired, owned, False)" h] assms
    by (simp add: rule_run_def RoutingRuleManager_EnsureOwned_def)
  then show ?thesis
    by (cases "r_ListRoutingRules A lb vs h")
      (auto simp: rule_plan_def Let_def rule_plan1_def stale_def go_range_member rule_owned_def
        split: if_splits dest!: rules_by_key_in)
qed

lemma rules_fold_creates:
  "emits (\<lambda>c. \<not> is_delete c) (io_fold (rule_step A lb vs byKey foreign) desired st)"
  by (rule emits_fold) (auto simp: rule_step_def do_CreateRoutingRule_def split: prod.splits)

text \<open>
  A rule of another stack blocks the pass: if CMP lists a rule that is not owned and whose
  key is desired, the pass ends in an error and deletes nothing.
\<close>

theorem rules_foreign_conflict:
  assumes "r_ListRoutingRules A lb vs h = Inr existing" "r \<in> set existing" "trim_space (ru_ID r) \<notin> set owned"
    and "spec \<in> set desired" "rule_spec_key spec = rule_key r"
  shows "(\<exists>e. result_of (RoutingRuleManager_EnsureOwned A lb vs desired owned) h = Inl e) \<and>
     list_all (\<lambda>c. \<not> is_delete c)
       (calls_of (RoutingRuleManager_EnsureOwned A lb vs desired owned) h)"
proof (cases "trim_space lb = [] \<or> trim_space vs = []")
  case True
  then show ?thesis
    by (simp add: RoutingRuleManager_EnsureOwned_def RoutingRuleManager_ensure_def io_fail_def result_of_def calls_of_def)
next
  case False
  let ?h1 = "h @ [ListRoutingRules lb vs]" and ?foreign = "foreign_keys owned False existing"
  let ?m = "io_fold (rule_step A lb vs (rules_by_key owned False existing) ?foreign) desired ([], False)"
  have "rule_spec_key spec \<in> set ?foreign"
    using assms by (force simp: foreign_keys_def rule_owned_def)
  then have stuck: "?m ?h1 \<noteq> (Inr x, h')" for x h'
    using io_fold_InrE [where xs = desired, OF _ assms(4)]
    by (fastforce simp: rule_step_def split: prod.splits elim: if_InrE fail_InrE)
  have run: "RoutingRuleManager_EnsureOwned A lb vs desired owned h = rules_listed A lb vs desired owned False existing ?h1"
    using False assms(1)
    by (simp add: RoutingRuleManager_EnsureOwned_def RoutingRuleManager_ensure_def do_ListRoutingRules_def
        run_bind run_wrap run_invoke)
  have "\<exists>e. result_of (rules_listed A lb vs desired owned False existing) ?h1 = Inl e"
    "list_all (\<lambda>c. \<not> is_delete c)
       (calls_of (rules_listed A lb vs desired owned False existing) ?h1)"
    unfolding rules_listed_def Let_def by (rule effect_bind_stuck [OF rules_fold_creates stuck])+
  moreover have "snd (rules_listed A lb vs desired owned False existing ?h1) =
      ?h1 @ calls_of (rules_listed A lb vs desired owned False existing) ?h1"
    using rules_listed_follows [of ?h1 lb vs owned False existing desired A]
    by (auto simp: follows_at_def calls_of_def)
  then have "calls_of (RoutingRuleManager_EnsureOwned A lb vs desired owned) h =
      ListRoutingRules lb vs # calls_of (rules_listed A lb vs desired owned False existing) ?h1"
    by (intro calls_of_first run)
  ultimately show ?thesis by (simp add: result_of_def run)
qed

definition demo_rule :: RoutingRuleResource where
  "demo_rule = \<lparr>ru_ID = ''7'', ru_Host = ''a.example'', ru_Path = ''/'', ru_MatchType = [], ru_PoolID = ''p1''\<rparr>"

definition demo_rule_spec :: RoutingRuleSpec where
  "demo_rule_spec = \<lparr>rs_Host = ''A.example'', rs_Path = ''/'', rs_MatchType = ''Prefix'', rs_PoolID = ''p1''\<rparr>"

definition rule_cmp :: cmp where
  "rule_cmp = empty_cmp\<lparr>r_ListRoutingRules := (\<lambda>lb vs h. Inr [demo_rule])\<rparr>"

theorem rules_foreign_conflict_witness:
  "\<exists>e. result_of (RoutingRuleManager_EnsureOwned rule_cmp ''lb'' ''vs'' [demo_rule_spec] [''8'']) [] = Inl e"
proof -
  have "rule_spec_key demo_rule_spec = rule_key demo_rule" "trim_space (ru_ID demo_rule) = ''7''" by code_simp+
  then show ?thesis
    using rules_foreign_conflict [of rule_cmp "''lb''" "''vs''" "[]" "[demo_rule]" demo_rule "[''8'']" demo_rule_spec
        "[demo_rule_spec]"]
    by (simp add: rule_cmp_def)
qed

lemma demo_rule_run:
  "calls_of (RoutingRuleManager_EnsureOwned rule_cmp ''lb'' ''vs'' [] [''7'']) [] =
     [ListRoutingRules ''lb'' ''vs'', DeleteRoutingRule ''lb'' ''vs'' ''7'']"
  by code_simp

theorem rules_delete_only_owned_witness: "trim_space ''7'' \<in> set [''7'']"
  using rules_delete_only_owned [of "''lb''" "''vs''" "''7''" rule_cmp "''lb''" "''vs''" "[]" "[''7'']" "[]"]
  by (simp add: demo_rule_run)

subsection \<open>Scope\<close>

definition rule_manager :: "cmp \<Rightarrow> string \<Rightarrow> string \<times> RoutingRuleSpec list \<times> string list \<times> bool \<Rightarrow>
    (RoutingRuleResource list \<times> bool) io" where
  "rule_manager A lb q = rule_run A (lb, q)"

lemma rule_run_in_lb: "emits (in_lb lb) (rule_run A (lb, q))"
proof -
  obtain vs desired owned legacy where q: "q = (vs, desired, owned, legacy)" by (metis prod_cases4)
  have "\<forall>c \<in> set (rule_plan A (lb, q) h). in_lb lb c" for h
    by (auto simp: q in_lb_def rule_plan_def Let_def rule_plan1_def split: sum.splits option.splits if_splits)
  then show ?thesis
    using rule_run_follows [of _ A "(lb, q)"]
    unfolding emits_def follows_at_def list_all_iff by (meson set_mono_prefix subsetD)
qed

interpretation rule_scope: lb_scoped rule_manager
  by unfold_locales (auto simp: rule_manager_def intro!: rule_run_in_lb)

end
