(* ===== verification/Cleanup.thy ===== *)
theory Cleanup
  imports LbServiceManager PoolManager MonitorManager RoutingRules
begin

text \<open>
  \<open>pkg/deploy/lbaas/cleanup.go\<close>: deletion of what an observed graph records, children before
  parents.  Graph keys have the shape \<open>virtual-server/pool/child\<close>; the functions that take them
  apart are shared with the deployer.
\<close>

text \<open>\<open>Deployer\<close>: which of the optional clients it was built with.\<close>

record deployer =
  dp_vpcID :: string
  dp_networks :: bool
  dp_pools :: bool
  dp_monitors :: bool
  dp_routingRules :: bool
  dp_certificates :: bool

text \<open>The values of a map, in some order.\<close>

definition gm_values :: "'a gomap \<Rightarrow> 'a list" where
  "gm_values m = map snd (go_range (\<lambda>ks. ks) m)"

subsection \<open>Graph keys\<close>

definition graphVirtualServerName :: "string \<Rightarrow> string" where
  "graphVirtualServerName key = fst (cut (CHR ''/'') key)"

definition graphPoolKey :: "string \<Rightarrow> string" where
  "graphPoolKey key = (case split_n 3 (CHR ''/'') key of a # b # rest \<Rightarrow> a @ ''/'' @ b | _ \<Rightarrow> [])"

definition virtualServerIDForGraphKey :: "ObservedGraph \<Rightarrow> string \<Rightarrow> string" where
  "virtualServerIDForGraphKey graph key =
     (case cut (CHR ''/'') key of (name, rest, ok) \<Rightarrow> ext_at (g_VirtualServers graph) (if ok then name else key))"

definition poolParentIDsForGraphKey :: "ObservedGraph \<Rightarrow> string \<Rightarrow> string \<times> string" where
  "poolParentIDsForGraphKey graph key =
     (case split_n 3 (CHR ''/'') key of
        a # b # rest \<Rightarrow> (ext_at (g_VirtualServers graph) a, ext_at (g_Pools graph) (a @ ''/'' @ b))
      | _ \<Rightarrow> ([], []))"

subsection \<open>\<open>CleanupStack\<close>\<close>

record CleanupRequest =
  cu_Current :: ObservedState
  cu_DeleteVIP :: bool
  cu_DeleteLBService :: bool
  cu_AggregateVirtualServers :: bool

record CleanupResult =
  DeletedVirtualServer :: bool
  DeletedVIP :: bool
  DeletedLBService :: bool

definition no_cleanup :: CleanupResult where
  "no_cleanup = \<lparr>DeletedVirtualServer = False, DeletedVIP = False, DeletedLBService = False\<rparr>"

text \<open>The distinct LB service IDs a state records.\<close>

definition recorded_lb_ids :: "ObservedState \<Rightarrow> string list" where
  "recorded_lb_ids current =
     remdups (filter (\<lambda>i. i \<noteq> [])
       (map trim_space (LBServiceID current # map ExternalID (gm_values (g_LBServices (Graph current))))))"

definition cleanupLBServiceID :: "ObservedState \<Rightarrow> err + string" where
  "cleanupLBServiceID current =
     (case recorded_lb_ids current of
        [] \<Rightarrow> Inr []
      | [i] \<Rightarrow> Inr i
      | _ \<Rightarrow> Inl (Errorf ''observed graph contains multiple LB service IDs; refusing ambiguous cleanup'' []))"

definition sortedResources :: "ObservedResource gomap \<Rightarrow> ObservedResource list" where
  "sortedResources m =
     filter (\<lambda>r. ExternalID r \<noteq> []) (map (gm_index zero_observed m) (sort (remdups (gm_keys m))))"

definition for_each :: "('x \<Rightarrow> unit io) \<Rightarrow> 'x list \<Rightarrow> unit io" where
  "for_each f xs = io_fold (\<lambda>_ x. f x) xs ()"

definition cleanup_rule :: "cmp \<Rightarrow> deployer \<Rightarrow> ObservedGraph \<Rightarrow> string \<Rightarrow> ObservedResource \<Rightarrow> unit io" where
  "cleanup_rule A d graph lb rule =
     (if \<not> dp_routingRules d then io_fail (Errorf ''routing-rule cleanup requires a RoutingRuleManager'' [])
      else tolerate_404 ''deleting routing rule %s: %w'' [ExternalID rule]
             (RoutingRuleManager_Cleanup A lb (virtualServerIDForGraphKey graph (LogicalID rule)) (ExternalID rule)))"

definition cleanup_member :: "cmp \<Rightarrow> deployer \<Rightarrow> ObservedGraph \<Rightarrow> string \<Rightarrow> ObservedResource \<Rightarrow> unit io" where
  "cleanup_member A d graph lb member =
     (if \<not> dp_pools d then io_fail (Errorf ''member cleanup requires a PoolManager'' [])
      else case poolParentIDsForGraphKey graph (LogicalID member) of (vs, pool) \<Rightarrow>
        tolerate_404 ''deleting pool member %s: %w'' [ExternalID member]
          (do_DeletePoolMember A lb vs pool (ExternalID member)))"

definition cleanup_monitor :: "cmp \<Rightarrow> deployer \<Rightarrow> ObservedGraph \<Rightarrow> string \<Rightarrow> ObservedResource \<Rightarrow> unit io" where
  "cleanup_monitor A d graph lb monitor =
     (if \<not> dp_monitors d then io_fail (Errorf ''monitor cleanup requires a MonitorManager'' [])
      else case poolParentIDsForGraphKey graph (LogicalID monitor) of (vs, pool) \<Rightarrow>
        tolerate_404 ''deleting monitor %s: %w'' [ExternalID monitor]
          (MonitorManager_Cleanup A lb vs pool (ExternalID monitor)))"

definition cleanup_pool :: "cmp \<Rightarrow> deployer \<Rightarrow> ObservedGraph \<Rightarrow> string \<Rightarrow> ObservedResource \<Rightarrow> unit io" where
  "cleanup_pool A d graph lb pool =
     (if \<not> dp_pools d then io_fail (Errorf ''pool cleanup requires a PoolManager'' [])
      else tolerate_404 ''deleting pool %s: %w'' [ExternalID pool]
             (PoolManager_Cleanup A lb (virtualServerIDForGraphKey graph (LogicalID pool)) (ExternalID pool)))"

text \<open>A virtual server counts as deleted only when reading it answers \<open>404\<close>.\<close>

definition cleanup_vs :: "cmp \<Rightarrow> string \<Rightarrow> ObservedResource \<Rightarrow> unit io" where
  "cleanup_vs A lb vs =
     io_bind (tolerate_404 ''deleting virtual server %s: %w'' [ExternalID vs] (do_DeleteVirtualServer A lb (ExternalID vs)))
       (\<lambda>_. io_try (do_GetVirtualServer A lb (ExternalID vs))
          (\<lambda>r. case r of
             Inr x \<Rightarrow> io_fail (ProvisioningPending ''VirtualServer'' (ExternalID vs) ''deleting'' ''waiting for CMP deletion'')
           | Inl e \<Rightarrow> if IsNotFound e then io_return ()
               else io_fail (Wrapf ''checking deleted virtual server %s: %w'' [ExternalID vs] e)))"

definition cleanup_vip :: "cmp \<Rightarrow> string \<Rightarrow> ObservedResource \<Rightarrow> unit io" where
  "cleanup_vip A lb vip = tolerate_404 ''deleting VIP %s: %w'' [ExternalID vip] (do_DeleteVIP A lb (ExternalID vip))"

definition cleanup_lb :: "cmp \<Rightarrow> string \<Rightarrow> unit io" where
  "cleanup_lb A lb =
     io_bind (tolerate_404 ''deleting LB service %s: %w'' [lb] (do_DeleteLBService A lb))
       (\<lambda>_. io_try (do_GetLBService A lb)
          (\<lambda>r. case r of
             Inr x \<Rightarrow> io_fail (ProvisioningPending ''LBService'' lb ''deleting'' ''waiting for CMP deletion'')
           | Inl e \<Rightarrow> if IsNotFound e then io_return ()
               else io_fail (Wrapf ''checking deleted LB service %s: %w'' [lb] e)))"

definition cleanup_children :: "cmp \<Rightarrow> deployer \<Rightarrow> ObservedGraph \<Rightarrow> string \<Rightarrow> unit io" where
  "cleanup_children A d graph lb =
     io_bind (for_each (cleanup_rule A d graph lb) (sortedResources (g_RoutingRules graph)))
       (\<lambda>_. io_bind (for_each (cleanup_member A d graph lb) (sortedResources (g_Members graph)))
         (\<lambda>_. io_bind (for_each (cleanup_monitor A d graph lb) (sortedResources (g_Monitors graph)))
           (\<lambda>_. for_each (cleanup_pool A d graph lb) (sortedResources (g_Pools graph)))))"

definition cleanup_parents :: "cmp \<Rightarrow> CleanupRequest \<Rightarrow> ObservedGraph \<Rightarrow> string \<Rightarrow> CleanupResult io" where
  "cleanup_parents A req graph lb =
     io_bind (for_each (cleanup_vs A lb) (sortedResources (g_VirtualServers graph)))
       (\<lambda>_. io_bind (if cu_DeleteVIP req then for_each (cleanup_vip A lb) (sortedResources (g_VIPs graph)) else io_return ())
         (\<lambda>_. io_bind (if cu_DeleteLBService req then cleanup_lb A lb else io_return ())
           (\<lambda>_. io_return
              \<lparr>DeletedVirtualServer = (sortedResources (g_VirtualServers graph) \<noteq> []),
               DeletedVIP = (cu_DeleteVIP req \<and> sortedResources (g_VIPs graph) \<noteq> []),
               DeletedLBService = cu_DeleteLBService req\<rparr>)))"

definition CleanupStack :: "cmp \<Rightarrow> deployer \<Rightarrow> CleanupRequest \<Rightarrow> CleanupResult io" where
  "CleanupStack A d req =
     (let current = EnsureGraph (cu_Current req); graph = Graph current
      in case cleanupLBServiceID current of
           Inl e \<Rightarrow> io_fail e
         | Inr lb \<Rightarrow>
             if lb = [] then io_return no_cleanup
             else io_bind (if cu_AggregateVirtualServers req then io_return () else cleanup_children A d graph lb)
                    (\<lambda>_. cleanup_parents A req graph lb))"

subsection \<open>\<open>Cleanup\<close>\<close>

text \<open>The older cleanup of a single listener, by the legacy scalars.\<close>

definition Cleanup_scalars :: "cmp \<Rightarrow> CleanupRequest \<Rightarrow> CleanupResult io" where
  "Cleanup_scalars A req =
     (let current = cu_Current req; lb = LBServiceID current; vs = VirtualServerID current; vip = VIPPortID current
      in if lb = [] then io_return no_cleanup
         else io_bind (if vs \<noteq> [] then tolerate_404 ''deleting virtual server %s on LB %s: %w'' [vs, lb] (do_DeleteVirtualServer A lb vs)
                       else io_return ())
           (\<lambda>_. io_bind (if cu_DeleteVIP req \<and> vip \<noteq> []
                         then tolerate_404 ''deleting VIP %s on LB %s: %w'' [vip, lb] (do_DeleteVIP A lb vip) else io_return ())
             (\<lambda>_. io_bind (if cu_DeleteLBService req then tolerate_404 ''deleting LB service %s: %w'' [lb] (do_DeleteLBService A lb)
                           else io_return ())
               (\<lambda>_. io_return \<lparr>DeletedVirtualServer = (vs \<noteq> []), DeletedVIP = (cu_DeleteVIP req \<and> vip \<noteq> []),
                      DeletedLBService = cu_DeleteLBService req\<rparr>))))"

definition FindLBServiceIDByName :: "cmp \<Rightarrow> string \<Rightarrow> string io" where
  "FindLBServiceIDByName A name = lb_findByName A name"

subsection \<open>Only recorded resources, children first\<close>

definition recorded :: "ObservedResource gomap \<Rightarrow> string \<Rightarrow> bool" where
  "recorded m i \<longleftrightarrow> i \<noteq> [] \<and> i \<in> set (map ExternalID (gm_values m))"

fun cleanup_call_ok :: "CleanupRequest \<Rightarrow> ObservedGraph \<Rightarrow> string \<Rightarrow> call \<Rightarrow> bool" where
  "cleanup_call_ok req g lb (DeleteRoutingRule lb' vs i) = (lb' = lb \<and> \<not> cu_AggregateVirtualServers req \<and> recorded (g_RoutingRules g) i)"
| "cleanup_call_ok req g lb (DeletePoolMember lb' vs p i) = (lb' = lb \<and> \<not> cu_AggregateVirtualServers req \<and> recorded (g_Members g) i)"
| "cleanup_call_ok req g lb (DeleteMonitor lb' vs p i) = (lb' = lb \<and> \<not> cu_AggregateVirtualServers req \<and> recorded (g_Monitors g) i)"
| "cleanup_call_ok req g lb (DeletePool lb' vs i) =
     (lb' = trim_space lb \<and> \<not> cu_AggregateVirtualServers req \<and> i \<in> trim_space ` set (map ExternalID (gm_values (g_Pools g))))"
| "cleanup_call_ok req g lb (DeleteVirtualServer lb' i) = (lb' = lb \<and> recorded (g_VirtualServers g) i)"
| "cleanup_call_ok req g lb (GetVirtualServer lb' i) = (lb' = lb \<and> recorded (g_VirtualServers g) i)"
| "cleanup_call_ok req g lb (DeleteVIP lb' i) = (lb' = lb \<and> cu_DeleteVIP req \<and> recorded (g_VIPs g) i)"
| "cleanup_call_ok req g lb (DeleteLBService i) = (i = lb \<and> cu_DeleteLBService req)"
| "cleanup_call_ok req g lb (GetLBService i) = (i = lb \<and> cu_DeleteLBService req)"
| "cleanup_call_ok req g lb c = False"

text \<open>The provider's dependency order.\<close>

fun cleanup_rank :: "call \<Rightarrow> nat" where
  "cleanup_rank (DeleteRoutingRule lb vs i) = 0"
| "cleanup_rank (DeletePoolMember lb vs p i) = 1"
| "cleanup_rank (DeleteMonitor lb vs p i) = 2"
| "cleanup_rank (DeletePool lb vs i) = 3"
| "cleanup_rank (DeleteVirtualServer lb i) = 4"
| "cleanup_rank (GetVirtualServer lb i) = 4"
| "cleanup_rank (DeleteVIP lb i) = 5"
| "cleanup_rank c = 6"

lemma gm_index_value: "k \<in> set (gm_keys m) \<Longrightarrow> gm_index z m k \<in> set (gm_values m)"
proof -
  assume "k \<in> set (gm_keys m)"
  then obtain v where v: "map_of m k = Some v"
    by (metis gm_keys_def list.set_map map_of_eq_None_iff not_None_eq)
  then have "(k, v) \<in> set (go_range (\<lambda>ks. ks) m)" by (simp add: go_range_member)
  with v show ?thesis by (force simp: gm_values_def gm_index_def)
qed

lemma sortedResources_recorded: "r \<in> set (sortedResources m) \<Longrightarrow> recorded m (ExternalID r)"
  by (auto simp: sortedResources_def recorded_def gm_index_value)

lemma emits_for_each: "(\<And>x. x \<in> set xs \<Longrightarrow> emits P (f x)) \<Longrightarrow> emits P (for_each f xs)"
  unfolding for_each_def by (rule emits_fold)

definition cleanup_step_ok :: "CleanupRequest \<Rightarrow> ObservedGraph \<Rightarrow> string \<Rightarrow> nat \<Rightarrow> call \<Rightarrow> bool" where
  "cleanup_step_ok req g lb k c \<longleftrightarrow> cleanup_call_ok req g lb c \<and> cleanup_rank c = k"

lemma cleanup_rules_ok:
  "\<not> cu_AggregateVirtualServers req \<Longrightarrow> r \<in> set (sortedResources (g_RoutingRules g)) \<Longrightarrow>
     emits (cleanup_step_ok req g lb 0) (cleanup_rule A d g lb r)"
  by (auto simp: cleanup_rule_def RoutingRuleManager_Cleanup_def do_DeleteRoutingRule_def cleanup_step_ok_def
      dest: sortedResources_recorded)

lemma cleanup_members_ok:
  "\<not> cu_AggregateVirtualServers req \<Longrightarrow> r \<in> set (sortedResources (g_Members g)) \<Longrightarrow>
     emits (cleanup_step_ok req g lb 1) (cleanup_member A d g lb r)"
  by (auto simp: cleanup_member_def do_DeletePoolMember_def cleanup_step_ok_def
      split: prod.splits dest: sortedResources_recorded)

lemma cleanup_monitors_ok:
  "\<not> cu_AggregateVirtualServers req \<Longrightarrow> r \<in> set (sortedResources (g_Monitors g)) \<Longrightarrow>
     emits (cleanup_step_ok req g lb 2) (cleanup_monitor A d g lb r)"
  by (auto simp: cleanup_monitor_def MonitorManager_Cleanup_def do_DeleteMonitor_def cleanup_step_ok_def
      split: prod.splits dest: sortedResources_recorded)

lemma cleanup_pools_ok:
  "\<not> cu_AggregateVirtualServers req \<Longrightarrow> r \<in> set (sortedResources (g_Pools g)) \<Longrightarrow>
     emits (cleanup_step_ok req g lb 3) (cleanup_pool A d g lb r)"
  by (auto simp: cleanup_pool_def PoolManager_Cleanup_def Let_def do_DeletePool_def cleanup_step_ok_def recorded_def
      dest!: sortedResources_recorded)

lemma cleanup_vss_ok:
  "r \<in> set (sortedResources (g_VirtualServers g)) \<Longrightarrow> emits (cleanup_step_ok req g lb 4) (cleanup_vs A lb r)"
  by (auto simp: cleanup_vs_def do_DeleteVirtualServer_def do_GetVirtualServer_def cleanup_step_ok_def
      dest: sortedResources_recorded)

lemma cleanup_vips_ok:
  "cu_DeleteVIP req \<Longrightarrow> r \<in> set (sortedResources (g_VIPs g)) \<Longrightarrow> emits (cleanup_step_ok req g lb 5) (cleanup_vip A lb r)"
  by (auto simp: cleanup_vip_def do_DeleteVIP_def cleanup_step_ok_def dest: sortedResources_recorded)

lemma cleanup_lb_ok: "cu_DeleteLBService req \<Longrightarrow> emits (cleanup_step_ok req g lb 6) (cleanup_lb A lb)"
  by (auto simp: cleanup_lb_def do_DeleteLBService_def do_GetLBService_def cleanup_step_ok_def)

text \<open>A segment of calls whose ranks ascend between two bounds.\<close>

definition cleanup_segment :: "CleanupRequest \<Rightarrow> ObservedGraph \<Rightarrow> string \<Rightarrow> nat \<Rightarrow> nat \<Rightarrow> history \<Rightarrow> bool" where
  "cleanup_segment req g lb lo hi cs \<longleftrightarrow>
     sorted (map cleanup_rank cs) \<and> list_all (\<lambda>c. cleanup_call_ok req g lb c \<and> lo \<le> cleanup_rank c \<and> cleanup_rank c \<le> hi) cs"

lemma segment_single: "emits (cleanup_step_ok req g lb k) m \<Longrightarrow> effect m (\<lambda>cs r. cleanup_segment req g lb k k cs)"
proof -
  have "list_all (cleanup_step_ok req g lb k) cs \<Longrightarrow> cleanup_segment req g lb k k cs" for cs
    by (induction cs) (auto simp: cleanup_segment_def cleanup_step_ok_def list_all_iff)
  then show "emits (cleanup_step_ok req g lb k) m \<Longrightarrow> effect m (\<lambda>cs r. cleanup_segment req g lb k k cs)"
    unfolding emits_effect by (auto elim: effect_conseq)
qed

lemma segment_append:
  "cleanup_segment req g lb lo hi cs \<Longrightarrow> cleanup_segment req g lb lo' hi' ds \<Longrightarrow> hi \<le> lo' \<Longrightarrow> lo \<le> lo' \<Longrightarrow> hi \<le> hi' \<Longrightarrow>
     cleanup_segment req g lb lo hi' (cs @ ds)"
  by (fastforce simp: cleanup_segment_def sorted_append list_all_iff)

lemma segment_bind:
  assumes "effect m (\<lambda>cs r. cleanup_segment req g lb lo hi cs)"
    and "\<And>x. effect (f x) (\<lambda>cs r. cleanup_segment req g lb lo' hi' cs)" and "hi \<le> lo'" "lo \<le> lo'" "hi \<le> hi'"
  shows "effect (io_bind m f) (\<lambda>cs r. cleanup_segment req g lb lo hi' cs)"
proof (rule effect_bind [OF assms(1)])
  fix cs x assume "cleanup_segment req g lb lo hi cs"
  then show "effect (f x) (\<lambda>ds r. cleanup_segment req g lb lo hi' (cs @ ds))"
    using assms(3-5) by (intro effect_conseq [OF assms(2)] segment_append)
next
  fix cs e assume "cleanup_segment req g lb lo hi cs"
  then show "cleanup_segment req g lb lo hi' cs"
    using assms(5) by (fastforce simp: cleanup_segment_def list_all_iff)
qed

lemma segment_return: "effect (io_return x) (\<lambda>cs r. cleanup_segment req g lb lo hi cs)"
  by (rule effect_return) (simp add: cleanup_segment_def)

lemma cleanup_children_segment:
  assumes "\<not> cu_AggregateVirtualServers req"
  shows "effect (cleanup_children A d g lb) (\<lambda>cs r. cleanup_segment req g lb 0 3 cs)"
  unfolding cleanup_children_def
  by (rule segment_bind [where hi = 0 and lo' = 1], rule segment_single [OF emits_for_each [OF cleanup_rules_ok [OF assms]]],
      assumption, rule segment_bind [where hi = 1 and lo' = 2],
      rule segment_single [OF emits_for_each [OF cleanup_members_ok [OF assms]]], assumption,
      rule segment_bind [where hi = 2 and lo' = 3],
      rule segment_single [OF emits_for_each [OF cleanup_monitors_ok [OF assms]]], assumption,
      rule segment_single [OF emits_for_each [OF cleanup_pools_ok [OF assms]]], assumption) simp_all

lemma cleanup_parents_segment:
  "effect (cleanup_parents A req g lb) (\<lambda>cs r. cleanup_segment req g lb 4 6 cs)"
proof -
  have vips: "effect (if cu_DeleteVIP req then for_each (cleanup_vip A lb) (sortedResources (g_VIPs g)) else io_return ())
      (\<lambda>cs r. cleanup_segment req g lb 5 5 cs)"
    by (auto intro: segment_return intro!: segment_single emits_for_each cleanup_vips_ok)
  have lbs: "effect (if cu_DeleteLBService req then cleanup_lb A lb else io_return ())
      (\<lambda>cs r. cleanup_segment req g lb 6 6 cs)"
    by (auto intro: segment_return intro!: segment_single cleanup_lb_ok)
  have vss: "effect (for_each (cleanup_vs A lb) (sortedResources (g_VirtualServers g)))
      (\<lambda>cs r. cleanup_segment req g lb 4 4 cs)"
    by (intro segment_single emits_for_each cleanup_vss_ok)
  show ?thesis
    unfolding cleanup_parents_def
    by (rule segment_bind [OF vss], rule segment_bind [OF vips], rule segment_bind [OF lbs], rule segment_return [where lo = 6 and hi = 6]) simp_all
qed

lemma CleanupStack_segment:
  "case cleanupLBServiceID (EnsureGraph (cu_Current req)) of
     Inl e \<Rightarrow> calls_of (CleanupStack A d req) h = []
   | Inr lb \<Rightarrow> cleanup_segment req (Graph (EnsureGraph (cu_Current req))) lb 0 6 (calls_of (CleanupStack A d req) h)"
proof (cases "cleanupLBServiceID (EnsureGraph (cu_Current req))")
  case (Inl e)
  then show ?thesis by (simp add: CleanupStack_def Let_def calls_of_def io_fail_def)
next
  case (Inr lb)
  let ?g = "Graph (EnsureGraph (cu_Current req))"
  have children: "effect (if cu_AggregateVirtualServers req then io_return () else cleanup_children A d ?g lb)
      (\<lambda>cs r. cleanup_segment req ?g lb 0 3 cs)"
    by (auto intro: segment_return cleanup_children_segment)
  have "effect (io_bind (if cu_AggregateVirtualServers req then io_return () else cleanup_children A d ?g lb)
      (\<lambda>_. cleanup_parents A req ?g lb)) (\<lambda>cs r. cleanup_segment req ?g lb 0 6 cs)"
    by (rule segment_bind [OF children cleanup_parents_segment]) simp_all
  then have "effect (CleanupStack A d req) (\<lambda>cs r. cleanup_segment req ?g lb 0 6 cs)"
    unfolding CleanupStack_def Let_def Inr sum.case by (cases "lb = []") (simp_all add: segment_return)
  from effect_at [OF this] Inr show ?thesis by simp
qed


text \<open>\<open>seen_absent A c r h h'\<close>: between \<open>h\<close> and \<open>h'\<close> the deletion \<open>d\<close> was sent and the read \<open>c\<close> right after
  it was answered with \<open>404\<close>.\<close>

definition seen_absent :: "(history \<Rightarrow> err + 'a) \<Rightarrow> call \<Rightarrow> call \<Rightarrow> history \<Rightarrow> history \<Rightarrow> bool" where
  "seen_absent answer d c h h' \<longleftrightarrow>
     (\<exists>h0 e. prefix h h0 \<and> prefix (h0 @ [d, c]) h' \<and> answer (h0 @ [d]) = Inl e \<and> IsNotFound e)"

lemma seen_absent_mono: "seen_absent answer d c h1 h2 \<Longrightarrow> prefix h h1 \<Longrightarrow> prefix h2 h' \<Longrightarrow> seen_absent answer d c h h'"
  unfolding seen_absent_def by (blast intro: prefix_order.trans)

lemma cleanup_vs_success:
  "cleanup_vs A lb r h = (Inr (), h') \<Longrightarrow>
   seen_absent (r_GetVirtualServer A lb (ExternalID r)) (DeleteVirtualServer lb (ExternalID r)) (GetVirtualServer lb (ExternalID r)) h h'"
  by (auto simp: seen_absent_def cleanup_vs_def tolerate_404_def do_DeleteVirtualServer_def do_GetVirtualServer_def io_simps
      split: sum.splits if_splits elim!: bind_InrE)

lemma cleanup_lb_success:
  "cleanup_lb A lb h = (Inr (), h') \<Longrightarrow>
   seen_absent (r_GetLBService A lb) (DeleteLBService lb) (GetLBService lb) h h'"
  by (auto simp: seen_absent_def cleanup_lb_def tolerate_404_def do_DeleteLBService_def do_GetLBService_def io_simps
      split: sum.splits if_splits elim!: bind_InrE)

lemma cleanup_emits:
  "emits (\<lambda>_. True) (cleanup_rule A d g lb r)" "emits (\<lambda>_. True) (cleanup_member A d g lb r)"
  "emits (\<lambda>_. True) (cleanup_monitor A d g lb r)" "emits (\<lambda>_. True) (cleanup_pool A d g lb r)"
  "emits (\<lambda>_. True) (cleanup_vs A lb r)" "emits (\<lambda>_. True) (cleanup_vip A lb r)" "emits (\<lambda>_. True) (cleanup_lb A lb)"
  unfolding cleanup_rule_def cleanup_member_def cleanup_monitor_def cleanup_pool_def cleanup_vs_def cleanup_vip_def cleanup_lb_def
    RoutingRuleManager_Cleanup_def MonitorManager_Cleanup_def PoolManager_Cleanup_def do_defs Let_def
  by (auto split: prod.splits)

lemma cleanup_children_emits: "emits (\<lambda>_. True) (cleanup_children A d g lb)"
  unfolding cleanup_children_def by (auto intro!: emits_for_each cleanup_emits)

lemma CleanupStack_confirmed:
  assumes "CleanupStack A d req h = (Inr res, h')" "cleanupLBServiceID (EnsureGraph (cu_Current req)) = Inr lb" "lb \<noteq> []"
  shows "(\<forall>r \<in> set (sortedResources (g_VirtualServers (Graph (EnsureGraph (cu_Current req))))).
            seen_absent (r_GetVirtualServer A lb (ExternalID r)) (DeleteVirtualServer lb (ExternalID r)) (GetVirtualServer lb (ExternalID r)) h h') \<and>
         DeletedLBService res = cu_DeleteLBService req \<and>
         (cu_DeleteLBService req \<longrightarrow> seen_absent (r_GetLBService A lb) (DeleteLBService lb) (GetLBService lb) h h')"
proof -
  let ?g = "Graph (EnsureGraph (cu_Current req))"
  let ?vip = "if cu_DeleteVIP req then for_each (cleanup_vip A lb) (sortedResources (g_VIPs ?g)) else io_return ()"
  let ?lb = "if cu_DeleteLBService req then cleanup_lb A lb else io_return ()"
  from assms obtain h0 h1 h2 where children: "(if cu_AggregateVirtualServers req then io_return () else cleanup_children A d ?g lb) h = (Inr (), h0)"
    and vss: "for_each (cleanup_vs A lb) (sortedResources (g_VirtualServers ?g)) h0 = (Inr (), h1)"
    and vips: "?vip h1 = (Inr (), h2)" and last: "?lb h2 = (Inr (), h')"
    and res: "DeletedLBService res = cu_DeleteLBService req"
    by (fastforce simp: CleanupStack_def Let_def cleanup_parents_def elim!: bind_InrE return_InrE)
  have ext: "emits (\<lambda>_. True) m \<Longrightarrow> m x = (Inr y, x') \<Longrightarrow> prefix x x'" for m :: "unit io" and x y x'
    by (auto dest: emits_run simp: prefix_def)
  have p0: "prefix h h0" using children by (elim ext [rotated]) (auto intro!: cleanup_children_emits)
  have p1: "prefix h0 h1" using vss by (elim ext [rotated]) (auto intro!: emits_for_each cleanup_emits)
  have p2: "prefix h1 h2" using vips by (elim ext [rotated]) (auto intro!: emits_for_each cleanup_emits)
  have p3: "prefix h2 h'" using last by (elim ext [rotated]) (auto intro!: cleanup_emits)
  have "seen_absent (r_GetVirtualServer A lb (ExternalID r)) (DeleteVirtualServer lb (ExternalID r)) (GetVirtualServer lb (ExternalID r)) h h'"
    if r: "r \<in> set (sortedResources (g_VirtualServers ?g))" for r
  proof -
    from io_fold_runE [OF vss [unfolded for_each_def] r cleanup_emits(5)] obtain u0 u1 where
      run: "cleanup_vs A lb r u0 = (Inr (), u1)" "prefix h0 u0" "prefix u1 h1" by auto
    then show ?thesis using p0 p2 p3 cleanup_vs_success [OF run(1)]
      by (blast intro: seen_absent_mono prefix_order.trans)
  qed
  moreover have "seen_absent (r_GetLBService A lb) (DeleteLBService lb) (GetLBService lb) h h'" if "cu_DeleteLBService req"
  proof (rule seen_absent_mono)
    show "seen_absent (r_GetLBService A lb) (DeleteLBService lb) (GetLBService lb) h2 h'"
      using last that by (intro cleanup_lb_success) simp
    show "prefix h h2" using p0 p1 p2 by (blast intro: prefix_order.trans)
  qed simp
  ultimately show ?thesis using res by blast
qed

text \<open>
  Success of \<open>CleanupStack\<close> is confirmed by the provider: in this very pass every virtual server
  the graph records was deleted and CMP answered the read after that with \<open>404\<close>, and so it did for
  the LB service when that was to be deleted; the result flag says no more than that.
\<close>

theorem CleanupStack_success_confirmed:
  assumes "CleanupStack A d req h = (Inr res, h')" "cleanupLBServiceID (EnsureGraph (cu_Current req)) = Inr lb" "lb \<noteq> []"
  shows "(\<forall>r \<in> set (sortedResources (g_VirtualServers (Graph (EnsureGraph (cu_Current req))))).
            seen_absent (r_GetVirtualServer A lb (ExternalID r)) (DeleteVirtualServer lb (ExternalID r)) (GetVirtualServer lb (ExternalID r)) h h') \<and>
         DeletedLBService res = cu_DeleteLBService req \<and>
         (cu_DeleteLBService req \<longrightarrow> seen_absent (r_GetLBService A lb) (DeleteLBService lb) (GetLBService lb) h h')"
  using assms by (rule CleanupStack_confirmed)

definition demo_resource :: "string \<Rightarrow> string \<Rightarrow> ObservedResource" where
  "demo_resource k i = zero_observed\<lparr>LogicalID := k, ExternalID := i\<rparr>"

definition demo_cleanup :: CleanupRequest where
  "demo_cleanup = \<lparr>cu_Current = zero_state\<lparr>LBServiceID := ''lb'', Graph := NewObservedGraph
       \<lparr>g_VirtualServers := [(''vs'', demo_resource ''vs'' ''3'')], g_Pools := [(''vs/p'', demo_resource ''vs/p'' ''4'')],
        g_VIPs := [(''vip'', demo_resource ''vip'' ''2'')]\<rparr>\<rparr>,
     cu_DeleteVIP = True, cu_DeleteLBService = True, cu_AggregateVirtualServers = False\<rparr>"

definition full_deployer :: deployer where
  "full_deployer = \<lparr>dp_vpcID = ''vpc-1'', dp_networks = True, dp_pools = True, dp_monitors = True, dp_routingRules = True,
     dp_certificates = True\<rparr>"

lemma demo_cleanup_run:
  "CleanupStack empty_cmp full_deployer demo_cleanup [] =
     (Inr \<lparr>DeletedVirtualServer = True, DeletedVIP = True, DeletedLBService = True\<rparr>,
      [DeletePool ''lb'' ''3'' ''4'', DeleteVirtualServer ''lb'' ''3'', GetVirtualServer ''lb'' ''3'', DeleteVIP ''lb'' ''2'',
       DeleteLBService ''lb'', GetLBService ''lb''])"
  by code_simp

lemma demo_cleanup_lb: "cleanupLBServiceID (EnsureGraph (cu_Current demo_cleanup)) = Inr ''lb''"
  by code_simp

theorem CleanupStack_success_confirmed_witness:
  "seen_absent (r_GetLBService empty_cmp ''lb'') (DeleteLBService ''lb'') (GetLBService ''lb'') []
     [DeletePool ''lb'' ''3'' ''4'', DeleteVirtualServer ''lb'' ''3'', GetVirtualServer ''lb'' ''3'', DeleteVIP ''lb'' ''2'',
      DeleteLBService ''lb'', GetLBService ''lb'']"
  using CleanupStack_success_confirmed [OF demo_cleanup_run demo_cleanup_lb] by (simp add: demo_cleanup_def)

end
