(* ===== verification/Obsolete.thy ===== *)
theory Obsolete
  imports Cleanup
begin

text \<open>
  The part of \<open>pkg/deploy/lbaas/deployer.go\<close> that removes what a stack no longer wants: obsolete
  pools, obsolete virtual servers with their children, and the legacy aliases of migrated
  resources.  All of it works on the observed graph alone.
\<close>

definition poolsForVirtualServer :: "LoadBalancerStack \<Rightarrow> M_VirtualServer \<Rightarrow> M_Pool list" where
  "poolsForVirtualServer stack vs =
     (let needed = (if vs_DefaultPoolName vs \<noteq> [] then [vs_DefaultPoolName vs] else []) @ map rr_PoolName (st_RoutingRules stack)
      in filter (\<lambda>pool. pool_Name pool \<in> set needed) (st_Pools stack))"

definition stackBackends :: "LoadBalancerStack \<Rightarrow> M_VirtualServer \<Rightarrow> BackendMember list" where
  "stackBackends stack vs =
     (case find (\<lambda>pool. pool_Name pool = vs_DefaultPoolName vs) (st_Pools stack) of
        Some pool \<Rightarrow> pool_Members pool
      | None \<Rightarrow>
          (case find (\<lambda>port. svp_FrontendPort port = vs_FrontendPort vs) (st_Ports stack) of
             Some port \<Rightarrow> svp_Backends port
           | None \<Rightarrow> []))"

subsection \<open>Assignments to the observed graph\<close>

definition upd_VirtualServers :: "(ObservedResource gomap \<Rightarrow> ObservedResource gomap) \<Rightarrow> ObservedState \<Rightarrow> ObservedState" where
  "upd_VirtualServers f s = s\<lparr>Graph := (Graph s)\<lparr>g_VirtualServers := f (g_VirtualServers (Graph s))\<rparr>\<rparr>"

definition upd_Pools :: "(ObservedResource gomap \<Rightarrow> ObservedResource gomap) \<Rightarrow> ObservedState \<Rightarrow> ObservedState" where
  "upd_Pools f s = s\<lparr>Graph := (Graph s)\<lparr>g_Pools := f (g_Pools (Graph s))\<rparr>\<rparr>"

definition upd_Members :: "(ObservedResource gomap \<Rightarrow> ObservedResource gomap) \<Rightarrow> ObservedState \<Rightarrow> ObservedState" where
  "upd_Members f s = s\<lparr>Graph := (Graph s)\<lparr>g_Members := f (g_Members (Graph s))\<rparr>\<rparr>"

definition upd_Monitors :: "(ObservedResource gomap \<Rightarrow> ObservedResource gomap) \<Rightarrow> ObservedState \<Rightarrow> ObservedState" where
  "upd_Monitors f s = s\<lparr>Graph := (Graph s)\<lparr>g_Monitors := f (g_Monitors (Graph s))\<rparr>\<rparr>"

definition upd_RoutingRules :: "(ObservedResource gomap \<Rightarrow> ObservedResource gomap) \<Rightarrow> ObservedState \<Rightarrow> ObservedState" where
  "upd_RoutingRules f s = s\<lparr>Graph := (Graph s)\<lparr>g_RoutingRules := f (g_RoutingRules (Graph s))\<rparr>\<rparr>"

lemmas upd_defs = upd_VirtualServers_def upd_Pools_def upd_Members_def upd_Monitors_def upd_RoutingRules_def

subsection \<open>Obsolete pools\<close>

definition desired_pool_keys :: "LoadBalancerStack \<Rightarrow> string list" where
  "desired_pool_keys stack =
     concat (map (\<lambda>vs. map (\<lambda>pool. vs_Name vs @ ''/'' @ pool_Name pool) (poolsForVirtualServer stack vs)) (st_VirtualServers stack))"

definition obsolete_pool_member :: "cmp \<Rightarrow> string \<Rightarrow> string \<Rightarrow> string \<Rightarrow> string \<Rightarrow>
    ObservedState \<times> bool \<Rightarrow> string \<times> ObservedResource \<Rightarrow> (ObservedState \<times> bool) io" where
  "obsolete_pool_member A lb vsID poolID key st e =
     (case e of (memberKey, member) \<Rightarrow>
        if graphPoolKey memberKey \<noteq> key \<or> ExternalID member = [] then io_return st
        else io_bind (io_wrap ''deleting obsolete pool member %s: %w'' [ExternalID member]
                        (do_DeletePoolMember A lb vsID poolID (ExternalID member)))
               (\<lambda>_. io_return (upd_Members (gm_del memberKey) (fst st), True)))"

definition obsolete_pool_monitor :: "cmp \<Rightarrow> deployer \<Rightarrow> string \<Rightarrow> string \<Rightarrow> string \<Rightarrow> string \<Rightarrow>
    ObservedState \<times> bool \<Rightarrow> string \<times> ObservedResource \<Rightarrow> (ObservedState \<times> bool) io" where
  "obsolete_pool_monitor A d lb vsID poolID key st e =
     (case e of (monitorKey, monitor) \<Rightarrow>
        if monitorKey \<noteq> key \<or> ExternalID monitor = [] then io_return st
        else if \<not> dp_monitors d then io_fail (Errorf ''monitor cleanup requires a MonitorManager'' [])
        else io_bind (io_wrap ''deleting obsolete pool monitor %s: %w'' [ExternalID monitor]
                        (MonitorManager_Cleanup A lb vsID poolID (ExternalID monitor)))
               (\<lambda>_. io_return (upd_Monitors (gm_del monitorKey) (fst st), True)))"

definition obsolete_pool :: "cmp \<Rightarrow> deployer \<Rightarrow> string \<Rightarrow> string list \<Rightarrow> ObservedState \<times> bool \<Rightarrow>
    string \<times> ObservedResource \<Rightarrow> (ObservedState \<times> bool) io" where
  "obsolete_pool A d lb desired st e =
     (case e of (key, pool) \<Rightarrow>
        if key \<in> set desired \<or> ExternalID pool = [] then io_return st
        else let vsID = virtualServerIDForGraphKey (Graph (fst st)) key in
          if vsID = [] then io_fail (Errorf ''obsolete pool %q has no recorded virtual-server parent'' [key])
          else if \<not> dp_pools d then io_fail (Errorf ''pool cleanup requires a PoolManager'' [])
          else io_bind (io_range A (g_Members (Graph (fst st)))
                  (\<lambda>es. io_fold (obsolete_pool_member A lb vsID (ExternalID pool) key) es st))
            (\<lambda>st. io_bind (io_range A (g_Monitors (Graph (fst st)))
                  (\<lambda>es. io_fold (obsolete_pool_monitor A d lb vsID (ExternalID pool) key) es st))
              (\<lambda>st. io_bind (io_wrap ''deleting obsolete pool %s: %w'' [ExternalID pool]
                              (PoolManager_Cleanup A lb vsID (ExternalID pool)))
                (\<lambda>_. io_return (upd_Pools (gm_del key) (fst st), True)))))"

definition deleteObsoletePools :: "cmp \<Rightarrow> deployer \<Rightarrow> string \<Rightarrow> ObservedState \<Rightarrow> LoadBalancerStack \<Rightarrow> (ObservedState \<times> bool) io" where
  "deleteObsoletePools A d lb observed stack =
     io_range A (g_Pools (Graph observed))
       (\<lambda>es. io_fold (obsolete_pool A d lb (desired_pool_keys stack)) es (observed, False))"

subsection \<open>Legacy aliases\<close>

definition drop_alias :: "string \<Rightarrow> ObservedResource gomap \<Rightarrow> ObservedResource gomap" where
  "drop_alias legacy m =
     (case map_of m legacy of
        None \<Rightarrow> m
      | Some l \<Rightarrow>
          if ExternalID l = [] then m
          else if list_ex (\<lambda>(key, r). key \<noteq> legacy \<and> ExternalID r = ExternalID l) (go_range (\<lambda>ks. ks) m)
          then gm_del legacy m else m)"

definition dropMigratedLegacyAliases :: "ObservedState \<Rightarrow> ObservedState" where
  "dropMigratedLegacyAliases s =
     s\<lparr>Graph := (Graph s)\<lparr>g_LBServices := drop_alias legacyLB (g_LBServices (Graph s)),
                         g_VIPs := drop_alias legacyVIP (g_VIPs (Graph s)),
                         g_VirtualServers := drop_alias legacyVS (g_VirtualServers (Graph s))\<rparr>\<rparr>"

subsection \<open>Obsolete virtual servers\<close>

definition obsolete_vs_rule :: "cmp \<Rightarrow> deployer \<Rightarrow> string \<Rightarrow> string \<Rightarrow> string \<Rightarrow>
    ObservedState \<times> bool \<Rightarrow> string \<times> ObservedResource \<Rightarrow> (ObservedState \<times> bool) io" where
  "obsolete_vs_rule A d lb name vsID st e =
     (case e of (key, rule) \<Rightarrow>
        if graphVirtualServerName key \<noteq> name then io_return st
        else if \<not> dp_routingRules d then io_fail (Errorf ''routing-rule cleanup requires a RoutingRuleManager'' [])
        else io_bind (RoutingRuleManager_Cleanup A lb vsID (ExternalID rule))
               (\<lambda>_. io_return (upd_RoutingRules (gm_del key) (fst st), True)))"

definition obsolete_vs_member :: "cmp \<Rightarrow> string \<Rightarrow> string \<Rightarrow> string \<Rightarrow> string \<Rightarrow>
    ObservedState \<times> bool \<Rightarrow> string \<times> ObservedResource \<Rightarrow> (ObservedState \<times> bool) io" where
  "obsolete_vs_member A lb vsID poolID key st e =
     (case e of (memberKey, member) \<Rightarrow>
        if graphPoolKey memberKey \<noteq> key then io_return st
        else io_bind (do_DeletePoolMember A lb vsID poolID (ExternalID member))
               (\<lambda>_. io_return (upd_Members (gm_del memberKey) (fst st), True)))"

definition obsolete_vs_monitor :: "cmp \<Rightarrow> deployer \<Rightarrow> string \<Rightarrow> string \<Rightarrow> string \<Rightarrow> string \<Rightarrow>
    ObservedState \<times> bool \<Rightarrow> string \<times> ObservedResource \<Rightarrow> (ObservedState \<times> bool) io" where
  "obsolete_vs_monitor A d lb vsID poolID key st e =
     (case e of (monitorKey, monitor) \<Rightarrow>
        if monitorKey \<noteq> key then io_return st
        else if \<not> dp_monitors d then io_fail (Errorf ''monitor cleanup requires a MonitorManager'' [])
        else io_bind (MonitorManager_Cleanup A lb vsID poolID (ExternalID monitor))
               (\<lambda>_. io_return (upd_Monitors (gm_del monitorKey) (fst st), True)))"

definition obsolete_vs_pool :: "cmp \<Rightarrow> deployer \<Rightarrow> string \<Rightarrow> string \<Rightarrow> string \<Rightarrow>
    ObservedState \<times> bool \<Rightarrow> string \<times> ObservedResource \<Rightarrow> (ObservedState \<times> bool) io" where
  "obsolete_vs_pool A d lb name vsID st e =
     (case e of (key, pool) \<Rightarrow>
        if graphVirtualServerName key \<noteq> name then io_return st
        else if \<not> dp_pools d then io_fail (Errorf ''pool cleanup requires a PoolManager'' [])
        else io_bind (io_range A (g_Members (Graph (fst st)))
                (\<lambda>es. io_fold (obsolete_vs_member A lb vsID (ExternalID pool) key) es st))
          (\<lambda>st. io_bind (io_range A (g_Monitors (Graph (fst st)))
                (\<lambda>es. io_fold (obsolete_vs_monitor A d lb vsID (ExternalID pool) key) es st))
            (\<lambda>st. io_bind (PoolManager_Cleanup A lb vsID (ExternalID pool))
              (\<lambda>_. io_return (upd_Pools (gm_del key) (fst st), True)))))"

definition obsolete_vs :: "cmp \<Rightarrow> deployer \<Rightarrow> string \<Rightarrow> string list \<Rightarrow> ObservedState \<times> bool \<Rightarrow>
    string \<times> ObservedResource \<Rightarrow> (ObservedState \<times> bool) io" where
  "obsolete_vs A d lb desired st e =
     (case e of (name, resource) \<Rightarrow>
        if name \<in> set desired \<or> ExternalID resource = [] then io_return st
        else io_bind (io_range A (g_RoutingRules (Graph (fst st)))
                (\<lambda>es. io_fold (obsolete_vs_rule A d lb name (ExternalID resource)) es st))
          (\<lambda>st. io_bind (io_range A (g_Pools (Graph (fst st)))
                (\<lambda>es. io_fold (obsolete_vs_pool A d lb name (ExternalID resource)) es st))
            (\<lambda>st. io_bind (do_DeleteVirtualServer A lb (ExternalID resource))
              (\<lambda>_. io_return (upd_VirtualServers (gm_del name) (fst st), True)))))"

definition deleteObsoleteVirtualServers :: "cmp \<Rightarrow> deployer \<Rightarrow> string \<Rightarrow> ObservedState \<Rightarrow> LoadBalancerStack \<Rightarrow>
    (ObservedState \<times> bool) io" where
  "deleteObsoleteVirtualServers A d lb observed stack =
     io_range A (g_VirtualServers (Graph observed))
       (\<lambda>es. io_fold (obsolete_vs A d lb (map vs_Name (st_VirtualServers stack))) es (observed, False))"

subsection \<open>Scope\<close>

lemma obsolete_members_in_lb:
  "emits (in_lb lb) (obsolete_pool_member A lb vs p key st e)" "emits (in_lb lb) (obsolete_vs_member A lb vs p key st e)"
  unfolding obsolete_pool_member_def obsolete_vs_member_def do_DeletePoolMember_def
  by (auto simp: in_lb_def split: prod.splits)

lemma obsolete_monitors_in_lb:
  "emits (in_lb lb) (obsolete_pool_monitor A d lb vs p key st e)" "emits (in_lb lb) (obsolete_vs_monitor A d lb vs p key st e)"
  unfolding obsolete_pool_monitor_def obsolete_vs_monitor_def MonitorManager_Cleanup_def do_DeleteMonitor_def
  by (auto simp: in_lb_def split: prod.splits)

lemma pool_cleanup_in_lb: "trim_space lb = lb \<Longrightarrow> emits (in_lb lb) (PoolManager_Cleanup A lb vs p)"
  unfolding PoolManager_Cleanup_def do_DeletePool_def Let_def by (auto simp: in_lb_def)

lemma obsolete_pool_in_lb: "trim_space lb = lb \<Longrightarrow> emits (in_lb lb) (obsolete_pool A d lb desired st e)"
  unfolding obsolete_pool_def Let_def
  by (auto split: prod.splits intro!: emits_fold obsolete_members_in_lb obsolete_monitors_in_lb pool_cleanup_in_lb)

lemma deleteObsoletePools_in_lb: "trim_space lb = lb \<Longrightarrow> emits (in_lb lb) (deleteObsoletePools A d lb observed stack)"
  unfolding deleteObsoletePools_def by (auto intro!: emits_fold obsolete_pool_in_lb)

lemma obsolete_vs_rule_in_lb: "emits (in_lb lb) (obsolete_vs_rule A d lb name vs st e)"
  unfolding obsolete_vs_rule_def RoutingRuleManager_Cleanup_def do_DeleteRoutingRule_def
  by (auto simp: in_lb_def split: prod.splits)

lemma obsolete_vs_pool_in_lb: "trim_space lb = lb \<Longrightarrow> emits (in_lb lb) (obsolete_vs_pool A d lb name vs st e)"
  unfolding obsolete_vs_pool_def
  by (auto split: prod.splits intro!: emits_fold obsolete_members_in_lb obsolete_monitors_in_lb pool_cleanup_in_lb)

lemma obsolete_vs_in_lb: "trim_space lb = lb \<Longrightarrow> emits (in_lb lb) (obsolete_vs A d lb desired st e)"
  unfolding obsolete_vs_def do_DeleteVirtualServer_def
  by (auto simp: in_lb_def split: prod.splits intro!: emits_fold obsolete_vs_rule_in_lb obsolete_vs_pool_in_lb)

lemma deleteObsoleteVirtualServers_in_lb:
  "trim_space lb = lb \<Longrightarrow> emits (in_lb lb) (deleteObsoleteVirtualServers A d lb observed stack)"
  unfolding deleteObsoleteVirtualServers_def by (auto intro!: emits_fold obsolete_vs_in_lb)

end
