(* ===== verification/VipManager.thy ===== *)
theory VipManager
  imports Scope
begin

text \<open>
  \<open>pkg/deploy/lbaas/vip_manager.go\<close>: the VIP of a stack is the recorded one or a fresh one; a
  VIP found on the provider is never adopted without a recorded ID.
\<close>

definition validateVIP :: "VIP \<Rightarrow> string \<Rightarrow> bool \<Rightarrow> err option" where
  "validateVIP vip subnetID strict =
     (let version = trim_space (vip_IPVersion vip); status = to_lower (trim_space (vip_Status vip))
      in if trim_space (vip_NetworkID vip) \<noteq> [] \<and> trim_space subnetID \<noteq> [] \<and>
            trim_space (vip_NetworkID vip) \<noteq> trim_space subnetID
         then Some (Errorf ''VIP %q belongs to subnet %q, expected %q'' [vip_ID vip, vip_NetworkID vip, subnetID])
         else if version \<noteq> [] \<and> \<not> equal_fold version ''IPv4''
         then Some (Errorf ''VIP %q uses unsupported IP version %q'' [vip_ID vip, version])
         else if strict \<and> status = [] then Some (Errorf ''supplied VIP %q response has no status'' [vip_ID vip])
         else if status \<in> {[], ''active'', ''created'', ''ready'', ''available''} then None
         else if status \<in> {''failed'', ''error'', ''errored''}
         then Some (TerminalProvisioning ''VIP'' (vip_ID vip) (vip_Status vip) [])
         else Some (ProvisioningPending ''VIP'' (vip_ID vip) (vip_Status vip) ''waiting for CMP VIP readiness''))"

text \<open>The recorded VIP was listed.\<close>

definition vip_existing :: "cmp \<Rightarrow> string \<Rightarrow> string \<Rightarrow> string \<Rightarrow> string \<Rightarrow> bool \<Rightarrow> VIP \<Rightarrow> (string \<times> string \<times> bool) io" where
  "vip_existing A lbServiceID subnetID currentID currentAddress strict vip =
     (case validateVIP vip subnetID strict of
        Some e \<Rightarrow>
          if IsTerminalProvisioning e \<noteq> None \<and> \<not> strict
          then io_bind (tolerate_404 ''deleting failed managed VIP %q: %w'' [currentID] (do_DeleteVIP A lbServiceID currentID))
                 (\<lambda>_. io_fail (ProvisioningPending ''VIP'' currentID ''deleting''
                    ''failed managed VIP deleted; waiting before replacement''))
          else io_fail e
      | None \<Rightarrow>
          let address = (if trim_space (vip_Address vip) = [] then currentAddress else trim_space (vip_Address vip))
          in io_return (currentID, address, address \<noteq> currentAddress))"

text \<open>The address of a created VIP, listed again when the response to the creation had none; an
  error of that list is ignored.\<close>

definition vip_created_address :: "cmp \<Rightarrow> string \<Rightarrow> string \<Rightarrow> VIP \<Rightarrow> string io" where
  "vip_created_address A lbServiceID subnetID vip =
     (if trim_space (vip_Address vip) \<noteq> [] then io_return (trim_space (vip_Address vip))
      else io_try (do_ListVIPs A lbServiceID subnetID)
        (\<lambda>r. io_return (case r of
           Inl e \<Rightarrow> []
         | Inr vips \<Rightarrow>
             (case find (\<lambda>f. trim_space (vip_ID f) = trim_space (vip_ID vip) \<and> trim_space (vip_Address f) \<noteq> []) vips of
                None \<Rightarrow> []
              | Some f \<Rightarrow> trim_space (vip_Address f)))))"

definition vip_create :: "cmp \<Rightarrow> string \<Rightarrow> string \<Rightarrow> (string \<times> string \<times> bool) io" where
  "vip_create A lbServiceID subnetID =
     io_bind (io_wrap ''creating VIP via CMP on LB %s: %w'' [lbServiceID] (do_CreateVIP A lbServiceID subnetID))
       (\<lambda>vip. if trim_space (vip_ID vip) = [] then io_fail (Errorf ''VIP created but no ID returned'' [])
          else io_bind (vip_created_address A lbServiceID subnetID vip)
                 (\<lambda>address. io_return (trim_space (vip_ID vip), address, True)))"

definition vip_listed :: "cmp \<Rightarrow> string \<Rightarrow> string \<Rightarrow> string \<Rightarrow> string \<Rightarrow> bool \<Rightarrow> VIP list \<Rightarrow> (string \<times> string \<times> bool) io" where
  "vip_listed A lbServiceID subnetID currentID currentAddress strict vips =
     (case find (\<lambda>vip. trim_space (vip_ID vip) = currentID) vips of
        Some vip \<Rightarrow> vip_existing A lbServiceID subnetID currentID currentAddress strict vip
      | None \<Rightarrow>
          if strict then io_fail (Errorf ''supplied VIP %q was not found under LB service %s'' [currentID, lbServiceID])
          else vip_create A lbServiceID subnetID)"

definition VIPManager_Ensure :: "cmp \<Rightarrow> string \<Rightarrow> string \<Rightarrow> string \<Rightarrow> string \<Rightarrow> bool \<Rightarrow> (string \<times> string \<times> bool) io" where
  "VIPManager_Ensure A lbServiceID subnetID currentID currentAddress strict =
     (let currentID = trim_space currentID; currentAddress = trim_space currentAddress
      in if currentID \<noteq> []
         then io_bind (do_ListVIPs A lbServiceID subnetID)
                (vip_listed A lbServiceID subnetID currentID currentAddress strict)
         else if strict
         then io_fail (Errorf ''supplied VIP ID is required but missing for LB service %s'' [lbServiceID])
         else vip_create A lbServiceID subnetID)"

subsection \<open>What \<open>Ensure\<close> promises\<close>

definition vip_failed :: "VIP \<Rightarrow> bool" where
  "vip_failed vip \<longleftrightarrow> to_lower (trim_space (vip_Status vip)) \<in> {''failed'', ''error'', ''errored''}"

text \<open>A VIP the extension may keep: in the subnet if both are known, IPv4, and not in a
  non-ready state; a supplied one must state its status.\<close>

definition vip_usable :: "string \<Rightarrow> bool \<Rightarrow> VIP \<Rightarrow> bool" where
  "vip_usable subnetID strict vip \<longleftrightarrow>
     (trim_space (vip_NetworkID vip) \<in> {[], trim_space subnetID} \<or> trim_space subnetID = []) \<and>
     (trim_space (vip_IPVersion vip) = [] \<or> equal_fold (trim_space (vip_IPVersion vip)) ''IPv4'') \<and>
     to_lower (trim_space (vip_Status vip)) \<in>
       (if strict then {} else {[]}) \<union> {''active'', ''created'', ''ready'', ''available''}"

lemma validateVIP_None: "validateVIP vip subnetID strict = None \<Longrightarrow> vip_usable subnetID strict vip"
  by (auto simp: validateVIP_def vip_usable_def Let_def split: if_splits)

lemma validateVIP_terminal:
  "validateVIP vip subnetID strict = Some e \<Longrightarrow> IsTerminalProvisioning e \<noteq> None \<Longrightarrow> vip_failed vip"
  by (auto simp: validateVIP_def vip_failed_def Let_def split: if_splits)

lemma vip_existing_success:
  assumes "vip_existing A lb sn cid cad strict vip h = (Inr (i, a, ch), h')"
  shows "i = cid \<and> h' = h \<and> vip_usable sn strict vip"
  using assms unfolding vip_existing_def Let_def
  by (auto elim!: run_elims split: option.splits if_splits dest: validateVIP_None)

lemma vip_create_success:
  assumes "vip_create A lb sn h = (Inr (i, a, ch), h')"
  shows "prefix (h @ [CreateVIP lb sn]) h' \<and> (\<exists>v. r_CreateVIP A lb sn h = Inr v \<and> i = trim_space (vip_ID v) \<and> i \<noteq> [])"
proof -
  have "emits (\<lambda>_. True) (vip_created_address A lb sn v)" for v
    unfolding vip_created_address_def do_ListVIPs_def by (auto split: option.splits)
  then have later: "vip_created_address A lb sn v x = (Inr y, x') \<Longrightarrow> prefix x x'" for v x y x'
    by (fastforce dest: emits_run simp: prefix_def)
  from assms show ?thesis unfolding vip_create_def do_CreateVIP_def
    by (elim bind_InrE wrap_InrE if_InrE fail_InrE invokeE return_InrE) (auto dest: later)
qed

text \<open>
  A VIP is never adopted: when \<open>Ensure\<close> succeeds, the ID it returns is either the
  recorded one, which CMP listed under the LB service in a usable state, or the one CMP gave to
  a VIP created in this very pass, which happens only without strictness.
\<close>

theorem vip_Ensure_no_adoption:
  assumes "VIPManager_Ensure A lb sn cur addr strict h = (Inr (i, a, ch), h')"
  shows "(\<exists>vips v. r_ListVIPs A lb sn h = Inr vips \<and> v \<in> set vips \<and> i = trim_space cur \<and>
             trim_space (vip_ID v) = i \<and> vip_usable sn strict v) \<or>
         (strict = False \<and> (\<exists>h0 v. prefix (h0 @ [CreateVIP lb sn]) h' \<and> prefix h h0 \<and> r_CreateVIP A lb sn h0 = Inr v \<and> i = trim_space (vip_ID v) \<and> i \<noteq> []))"
  using assms unfolding VIPManager_Ensure_def vip_listed_def do_ListVIPs_def Let_def
  by (elim if_InrE bind_InrE invokeE fail_InrE)
    (auto elim!: fail_InrE if_InrE split: option.splits dest!: vip_existing_success vip_create_success find_Some_set)

definition demo_vip :: VIP where
  "demo_vip = \<lparr>vip_ID = ''vip-1'', vip_Address = ''10.0.0.9'', vip_Status = ''Active'', vip_NetworkID = ''net-1'',
     vip_IPVersion = ''ipv4'', vip_AttachedToLB = True\<rparr>"

definition demo_vip_cmp :: cmp where
  "demo_vip_cmp = empty_cmp\<lparr>r_ListVIPs := (\<lambda>lb sn h. Inr [demo_vip]), r_CreateVIP := (\<lambda>lb sn h. Inr (demo_vip\<lparr>vip_Address := []\<rparr>))\<rparr>"

lemma demo_vip_run:
  "VIPManager_Ensure demo_vip_cmp ''lb-1'' ''net-1'' ''vip-1'' ''10.0.0.8'' True [] =
     (Inr (''vip-1'', ''10.0.0.9'', True), [ListVIPs ''lb-1'' ''net-1''])"
  by code_simp

theorem vip_Ensure_no_adoption_witness: "vip_usable ''net-1'' True demo_vip"
  using vip_Ensure_no_adoption [OF demo_vip_run] by (auto simp: demo_vip_cmp_def)

subsection \<open>Mutations\<close>

lemma vip_created_address_reads: "emits (\<lambda>c. \<not> is_mutation c) (vip_created_address A lb sn v)"
  unfolding vip_created_address_def do_ListVIPs_def by auto

lemma vip_create_mutations: "effect (vip_create A lb sn) (\<lambda>cs r. mutations cs = [CreateVIP lb sn])"
proof -
  have create: "effect (io_wrap f a (do_CreateVIP A lb sn)) (\<lambda>cs r. mutations cs = [CreateVIP lb sn])" for f a
    unfolding do_CreateVIP_def by (rule mutation_wrap) simp
  have address: "effect (vip_created_address A lb sn v) (\<lambda>cs r. mutations cs = [])" for v
    using vip_created_address_reads by (simp add: mutations_empty_iff emits_effect)
  show ?thesis
    unfolding vip_create_def
    by (rule effect_bind [OF create]) (auto intro!: effect_fail effect_return effect_bind [OF address])
qed

lemma vip_existing_mutations:
  "effect (vip_existing A lb sn cid cad strict vip)
     (\<lambda>cs r. mutations cs = [] \<or> (mutations cs = [DeleteVIP lb cid] \<and> strict = False \<and> vip_failed vip))"
proof -
  have del: "effect (tolerate_404 f a (do_DeleteVIP A lb cid)) (\<lambda>cs r. mutations cs = [DeleteVIP lb cid])" for f a
    unfolding do_DeleteVIP_def by (rule mutation_404) simp
  show ?thesis
    unfolding vip_existing_def Let_def
    by (auto split: option.splits intro!: effect_return effect_fail effect_bind [OF del] dest: validateVIP_terminal)
qed

text \<open>The change a pass may make, by what CMP listed.\<close>

definition vip_mutation_allowed :: "(err + VIP list) \<Rightarrow> string \<Rightarrow> string \<Rightarrow> string \<Rightarrow> bool \<Rightarrow> call list \<Rightarrow> bool" where
  "vip_mutation_allowed answer lb sn cid strict ms \<longleftrightarrow>
     ms = [] \<or>
     (strict = False \<and> ms = [CreateVIP lb sn] \<and>
       (cid = [] \<or> (case answer of Inl e \<Rightarrow> False | Inr vips \<Rightarrow> list_all (\<lambda>v. trim_space (vip_ID v) \<noteq> cid) vips))) \<or>
     (strict = False \<and> ms = [DeleteVIP lb cid] \<and>
       (case answer of Inl e \<Rightarrow> False | Inr vips \<Rightarrow> list_ex (\<lambda>v. trim_space (vip_ID v) = cid \<and> vip_failed v) vips))"

lemma vip_listed_mutations:
  "effect (vip_listed A lb sn cid cad strict vips)
     (\<lambda>cs r. vip_mutation_allowed (Inr vips) lb sn cid strict (mutations cs))"
  unfolding vip_listed_def
  by (auto simp: vip_mutation_allowed_def list_all_iff list_ex_iff find_None_iff split: option.splits
      intro!: effect_fail effect_conseq [OF vip_create_mutations] effect_conseq [OF vip_existing_mutations]
      dest: find_Some_set)

text \<open>
  A strictly supplied VIP is never created, replaced or deleted.  Otherwise one pass makes
  at most one change: it creates a VIP only when none is recorded or CMP's list lacks the
  recorded one, and it deletes only the recorded VIP, only when CMP listed it as failed.
\<close>

theorem vip_Ensure_one_mutation:
  "vip_mutation_allowed (r_ListVIPs A lb sn h) lb sn (trim_space cur) strict
     (mutations (calls_of (VIPManager_Ensure A lb sn cur addr strict) h))"
proof -
  let ?c = "trim_space cur"
  let ?k = "\<lambda>r. case r of Inl e \<Rightarrow> io_fail e
      | Inr vips \<Rightarrow> vip_listed A lb sn ?c (trim_space addr) strict vips"
  have k: "effect (?k (r_ListVIPs A lb sn h))
      (\<lambda>cs r. vip_mutation_allowed (r_ListVIPs A lb sn h) lb sn ?c strict (mutations cs))"
    by (auto split: sum.splits intro!: effect_fail vip_listed_mutations) (simp add: vip_mutation_allowed_def)
  have listed: "vip_mutation_allowed (r_ListVIPs A lb sn h) lb sn ?c strict
      (mutations (calls_of (io_try (do_ListVIPs A lb sn) ?k) h))"
    using calls_of_invoke_try [where f = ?k and r = "r_ListVIPs A lb sn" and h = h and c = "ListVIPs lb sn", OF k]
    by (auto simp: do_ListVIPs_def)
  show ?thesis
  proof (cases "?c = []")
    case True
    then show ?thesis
      using effect_at [OF vip_create_mutations, of A lb sn h]
      by (auto simp: VIPManager_Ensure_def vip_mutation_allowed_def calls_of_def io_fail_def)
  next
    case False
    with listed show ?thesis by (simp add: VIPManager_Ensure_def io_bind_def)
  qed
qed

subsection \<open>Scope\<close>

definition vip_manager :: "cmp \<Rightarrow> string \<Rightarrow> string \<times> string \<times> string \<times> bool \<Rightarrow> (string \<times> string \<times> bool) io" where
  "vip_manager A lb q = (case q of (sn, cur, addr, strict) \<Rightarrow> VIPManager_Ensure A lb sn cur addr strict)"

lemma VIPManager_Ensure_in_lb: "emits (in_lb lb) (VIPManager_Ensure A lb sn cur addr strict)"
  unfolding VIPManager_Ensure_def vip_listed_def vip_existing_def vip_create_def vip_created_address_def
    do_ListVIPs_def do_CreateVIP_def do_DeleteVIP_def Let_def
  by (auto simp: in_lb_def split: option.splits)

interpretation vip_scope: lb_scoped vip_manager
  by unfold_locales (auto simp: vip_manager_def split: prod.splits intro!: VIPManager_Ensure_in_lb)

end
