(* ===== verification/VirtualServerManager.thy ===== *)
theory VirtualServerManager
  imports Scope
begin

text \<open>
  \<open>pkg/deploy/lbaas/virtual_server_manager.go\<close>: one listener.  CMP creates a virtual server
  with its pool and members in one request, so a change of the desired hash deletes it in one
  pass and creates it in a later one.
\<close>

record VirtualServerEnsureRequest =
  vr_LBServiceID :: string
  vr_VIPPortID :: string
  vr_NetworkID :: string
  vr_Region :: string
  vr_Desired :: M_VirtualServer
  vr_Backends :: "BackendMember list"
  vr_Pool :: "M_Pool option"
  vr_CurrentID :: string
  vr_CurrentHash :: string
  vr_DesiredHash :: string
  vr_RecreateWhenHashMissing :: bool
  vr_RecoverByName :: bool

subsection \<open>Backends to compute ports\<close>

definition containsString :: "string list \<Rightarrow> string \<Rightarrow> bool" where
  "containsString values1 wanted = list_ex (\<lambda>v. trim_space v = trim_space wanted) values1"

text \<open>The loop over the ports of a compute instance; \<open>found\<close> is the match so far.\<close>

fun match_ports :: "string \<Rightarrow> string \<Rightarrow> ComputePort option \<Rightarrow> ComputePort list \<Rightarrow> err + ComputePort option" where
  "match_ports computeID ip found [] = Inr found"
| "match_ports computeID ip found (port # ports) =
     (if \<not> containsString (cp_FixedIPs port) ip \<or> cp_ID port = 0 then match_ports computeID ip found ports
      else if trim_space (cp_DeviceID port) \<noteq> [] \<and> trim_space (cp_DeviceID port) \<noteq> computeID
      then Inl (Errorf ''CMP compute %s port %d has device_id %q'' [computeID, show_int (cp_ID port), cp_DeviceID port])
      else if trim_space (cp_DeviceType port) \<noteq> [] \<and> \<not> equal_fold (trim_space (cp_DeviceType port)) ''compute''
      then Inl (Errorf ''CMP compute %s port %d has device_type %q'' [computeID, show_int (cp_ID port), cp_DeviceType port])
      else if found \<noteq> None
      then Inl (Errorf ''multiple CMP compute ports match backend IP %s on compute %s'' [ip, computeID])
      else match_ports computeID ip (Some port) ports)"

definition compute_checks :: "string \<Rightarrow> string \<Rightarrow> string \<Rightarrow> Compute \<Rightarrow> err option" where
  "compute_checks managerVPC computeID region compute =
     (if trim_space managerVPC \<noteq> [] \<and> trim_space (co_VPCID compute) = []
      then Some (Errorf ''CMP compute %s response has no VPC identity'' [computeID])
      else if trim_space managerVPC \<noteq> [] \<and> trim_space (co_VPCID compute) \<noteq> trim_space managerVPC
      then Some (Errorf ''CMP compute %s belongs to VPC %q, expected %q'' [computeID, co_VPCID compute, managerVPC])
      else if trim_space region \<noteq> [] \<and> trim_space (co_Region compute) = []
      then Some (Errorf ''CMP compute %s response has no region'' [computeID])
      else if trim_space region \<noteq> [] \<and> \<not> equal_fold (trim_space (co_Region compute)) (trim_space region)
      then Some (Errorf ''CMP compute %s belongs to region %q, expected %q'' [computeID, co_Region compute, region])
      else None)"

definition resolveComputeBackendPort :: "cmp \<Rightarrow> string \<Rightarrow> string \<Rightarrow> string \<Rightarrow> string \<Rightarrow> NetworkPort io" where
  "resolveComputeBackendPort A managerVPC computeID ip region =
     io_bind (io_wrap ''fetching CMP compute %s: %w'' [computeID] (do_GetCompute A computeID))
       (\<lambda>compute. io_check (compute_checks managerVPC computeID region compute)
          (io_bind (io_of_result (match_ports computeID ip None (co_Ports compute)))
             (\<lambda>found. case found of
                None \<Rightarrow> io_fail (Errorf ''backend IP %s is absent from CMP compute %s ports'' [ip, computeID])
              | Some port \<Rightarrow> io_return
                  \<lparr>np_ID = cp_ID port, np_ResourceID = computeID, np_ResourceType = ''compute'', np_IP = ip,
                   np_NetworkID = cp_NetworkID port, np_DeviceID = cp_DeviceID port,
                   np_DeviceType = cp_DeviceType port, np_InstanceName = co_Name compute\<rparr>)))"

definition resolveBackendPort :: "cmp \<Rightarrow> string \<Rightarrow> BackendMember \<Rightarrow> string \<Rightarrow> NetworkPort io" where
  "resolveBackendPort A managerVPC backend region =
     (let ip = trim_space (bm_IP backend); computeID = trim_space (bm_ComputeID backend)
      in if computeID = []
         then io_fail (Errorf ''node %q has no CMP compute identity; expected spec.providerID=cmp://<uuid>'' [bm_NodeName backend])
         else resolveComputeBackendPort A managerVPC computeID ip region)"

definition poolMemberSpecs :: "cmp \<Rightarrow> string \<Rightarrow> BackendMember list \<Rightarrow> PoolMemberSpec list io" where
  "poolMemberSpecs A managerVPC backends =
     io_map (\<lambda>backend. io_bind (resolveBackendPort A managerVPC backend [])
       (\<lambda>port. io_return \<lparr>ps_ResourceID = np_ResourceID port, ps_ResourceType = np_ResourceType port,
          ps_ResourceIP = np_IP port, ps_BackendPortID = np_ID port, ps_Port = bm_Port backend,
          ps_Weight = bm_Weight backend\<rparr>)) backends"

subsection \<open>Creation\<close>

definition vs_node :: "BackendMember \<Rightarrow> NetworkPort \<Rightarrow> BackendNodeSpec" where
  "vs_node backend port =
     \<lparr>bn_ResourceID = np_ResourceID port, bn_ResourceType = np_ResourceType port, bn_ResourceIP = np_IP port,
      bn_BackendPortID = np_ID port, bn_Port = bm_Port backend, bn_Weight = bm_Weight backend,
      bn_MaxConnections = 100, bn_InstanceName = np_InstanceName port, bn_SourceType = ''vm''\<rparr>"

definition vs_spec :: "string \<Rightarrow> string \<Rightarrow> M_VirtualServer \<Rightarrow> BackendNodeSpec list \<Rightarrow> VirtualServerSpec" where
  "vs_spec managerVPC vipPortID vs nodes =
     \<lparr>vsp_Name = vs_Name vs, vsp_VIPPortID = vipPortID, vsp_Protocol = vs_Protocol vs,
      vsp_RoutingAlgorithm = vs_RoutingAlgorithm vs, vsp_Port = vs_FrontendPort vs,
      vsp_PoolName = vs_DefaultPoolName vs,
      vsp_MonitorName = (case vs_Monitor vs of None \<Rightarrow> [] | Some m \<Rightarrow> mon_Name m),
      vsp_MonitorProtocol = (case vs_Monitor vs of None \<Rightarrow> [] | Some m \<Rightarrow> mon_Type m),
      vsp_MonitorPath = (case vs_Monitor vs of None \<Rightarrow> [] | Some m \<Rightarrow> mon_Path m),
      vsp_MonitorInterval = (case vs_Monitor vs of None \<Rightarrow> 0 | Some m \<Rightarrow> mon_Interval m),
      vsp_MonitorPort = (case vs_Monitor vs of None \<Rightarrow> 0
         | Some m \<Rightarrow> if mon_Port m = 0 then vs_BackendNodePort vs else mon_Port m),
      vsp_MonitorTimeout = (case vs_Monitor vs of None \<Rightarrow> 0 | Some m \<Rightarrow> mon_Timeout m),
      vsp_PersistenceType = vs_PersistenceType vs,
      vsp_PersistenceEnabled = (trim_space (vs_PersistenceType vs) \<noteq> []),
      vsp_XForwardedFor = True, vsp_DrainingTimeout = vs_DrainingTimeout vs, vsp_VPCID = managerVPC,
      vsp_AllowedCIDRs = vs_SourceRanges vs, vsp_Nodes = nodes\<rparr>"

definition vs_create :: "cmp \<Rightarrow> string \<Rightarrow> VirtualServerEnsureRequest \<Rightarrow> string io" where
  "vs_create A managerVPC req =
     io_bind (io_map (\<lambda>backend. io_bind (resolveBackendPort A managerVPC backend (vr_Region req))
                (\<lambda>port. io_return (vs_node backend port))) (vr_Backends req))
       (\<lambda>nodes. io_bind (io_wrap ''creating virtual server via CMP: %w'' []
            (do_CreateVirtualServer A (vr_LBServiceID req)
               (vs_spec managerVPC (vr_VIPPortID req) (vr_Desired req) nodes)))
          (\<lambda>created. if trim_space (cv_ID created) \<noteq> [] then io_return (trim_space (cv_ID created))
             else io_fail (Errorf ''CMP created virtual server %q without a provider id'' [vs_Name (vr_Desired req)])))"

subsection \<open>Validation\<close>

definition validateVirtualServer :: "VirtualServer \<Rightarrow> string \<Rightarrow> M_VirtualServer \<Rightarrow> err option" where
  "validateVirtualServer vs vipPortID desired =
     (let status = to_lower (trim_space (cv_Status vs))
      in if trim_space (cv_VIPPortID vs) \<noteq> [] \<and> trim_space (cv_VIPPortID vs) \<noteq> trim_space vipPortID
         then Some (Errorf ''virtual server %s uses VIP %q, expected %q'' [cv_ID vs, cv_VIPPortID vs, vipPortID])
         else if cv_Port vs \<noteq> 0 \<and> cv_Port vs \<noteq> vs_FrontendPort desired
         then Some (Errorf ''virtual server %s uses frontend port %d, expected %d''
                      [cv_ID vs, show_i32 (cv_Port vs), show_i32 (vs_FrontendPort desired)])
         else if trim_space (cv_Protocol vs) \<noteq> [] \<and> \<not> equal_fold (cv_Protocol vs) (vs_Protocol desired)
         then Some (Errorf ''virtual server %s uses protocol %q, expected %q'' [cv_ID vs, cv_Protocol vs, vs_Protocol desired])
         else if status \<in> {''active'', ''created'', ''ready'', ''available'', ''online''} then None
         else if status \<in> {''failed'', ''error'', ''errored''}
         then Some (TerminalProvisioning ''VirtualServer'' (cv_ID vs) (cv_Status vs) [])
         else Some (ProvisioningPending ''VirtualServer'' (cv_ID vs) (cv_Status vs) ''waiting for CMP virtual server readiness''))"

fun find_unique_vs :: "string \<Rightarrow> string \<Rightarrow> VirtualServer list \<Rightarrow> err + string" where
  "find_unique_vs name foundID [] = Inr foundID"
| "find_unique_vs name foundID (vs # items) =
     (if trim_space (cv_Name vs) \<noteq> name \<or> trim_space (cv_ID vs) = [] then find_unique_vs name foundID items
      else if foundID \<noteq> []
      then Inl (Errorf ''multiple virtual servers named %q found; refusing ambiguous adoption'' [name])
      else find_unique_vs name (trim_space (cv_ID vs)) items)"

definition findUniqueVirtualServerByName :: "VirtualServer list \<Rightarrow> string \<Rightarrow> err + string" where
  "findUniqueVirtualServerByName items name =
     (if trim_space name = [] then Inr [] else find_unique_vs (trim_space name) [] items)"

text \<open>\<open>deleteFailed\<close> always ends in an error.\<close>

definition deleteFailed :: "cmp \<Rightarrow> string \<Rightarrow> VirtualServer \<Rightarrow> err \<Rightarrow> 'a io" where
  "deleteFailed A lbServiceID vs cause =
     io_bind (tolerate_404 ''deleting failed virtual server %s after %v: %w'' [cv_ID vs, provisioning_text cause]
                (do_DeleteVirtualServer A lbServiceID (cv_ID vs)))
       (\<lambda>_. io_fail (ProvisioningPending ''VirtualServer'' (cv_ID vs) ''deleting''
          ''failed managed virtual server deleted; waiting for CMP deletion before replacement''))"

text \<open>\<open>validateVirtualServer\<close> and what every caller does with its error.\<close>

definition vs_accept :: "cmp \<Rightarrow> VirtualServerEnsureRequest \<Rightarrow> VirtualServer \<Rightarrow> 'a \<Rightarrow> 'a io" where
  "vs_accept A req detail x =
     (case validateVirtualServer detail (vr_VIPPortID req) (vr_Desired req) of
        None \<Rightarrow> io_return x
      | Some e \<Rightarrow> if IsTerminalProvisioning e \<noteq> None then deleteFailed A (vr_LBServiceID req) detail e else io_fail e)"

subsection \<open>\<open>Ensure\<close>\<close>

text \<open>A listener that could occupy the desired frontend, judged by its list entry.\<close>

definition vs_rival :: "VirtualServerEnsureRequest \<Rightarrow> string \<Rightarrow> VirtualServer \<Rightarrow> bool" where
  "vs_rival req currentID l \<longleftrightarrow>
     \<not> (trim_space (cv_ID l) = currentID \<or> trim_space (cv_Name l) = trim_space (vs_Name (vr_Desired req))) \<and>
     \<not> (cv_Port l \<noteq> 0 \<and> cv_Port l \<noteq> vs_FrontendPort (vr_Desired req)) \<and>
     \<not> (trim_space (cv_Protocol l) \<noteq> [] \<and> \<not> equal_fold (cv_Protocol l) (vs_Protocol (vr_Desired req)))"

definition vs_same_frontend :: "VirtualServerEnsureRequest \<Rightarrow> VirtualServer \<Rightarrow> bool" where
  "vs_same_frontend req detail \<longleftrightarrow>
     trim_space (cv_VIPPortID detail) = trim_space (vr_VIPPortID req) \<and>
     cv_Port detail = vs_FrontendPort (vr_Desired req) \<and>
     equal_fold (cv_Protocol detail) (vs_Protocol (vr_Desired req))"

definition vs_check_conflicts :: "cmp \<Rightarrow> VirtualServerEnsureRequest \<Rightarrow> string \<Rightarrow> VirtualServer list \<Rightarrow> unit io" where
  "vs_check_conflicts A req currentID listeners =
     io_fold (\<lambda>_ l.
       if \<not> vs_rival req currentID l then io_return ()
       else io_bind (io_wrap ''checking virtual-server frontend conflict %s: %w'' [cv_ID l]
                       (do_GetVirtualServer A (vr_LBServiceID req) (cv_ID l)))
              (\<lambda>detail. if vs_same_frontend req detail
                 then io_fail (Errorf ''frontend tuple conflict: VIP %s %s/%d is already used by virtual server %s''
                        [vr_VIPPortID req, to_upper (vs_Protocol (vr_Desired req)),
                         show_i32 (vs_FrontendPort (vr_Desired req)), cv_ID detail])
                 else io_return ())) listeners ()"

text \<open>The recorded listener, validated; the empty ID when it is not listed any more.\<close>

definition vs_check_recorded :: "cmp \<Rightarrow> VirtualServerEnsureRequest \<Rightarrow> string \<Rightarrow> VirtualServer list \<Rightarrow> string io" where
  "vs_check_recorded A req currentID listeners =
     (if currentID = [] \<or> \<not> list_ex (\<lambda>l. trim_space (cv_ID l) = currentID) listeners then io_return []
      else io_bind (io_wrap ''checking recorded virtual server %s: %w'' [currentID]
                      (do_GetVirtualServer A (vr_LBServiceID req) currentID))
             (\<lambda>detail. vs_accept A req detail currentID))"

text \<open>Adoption by name; the flag is \<open>adoptedByName\<close>.\<close>

definition vs_recover :: "cmp \<Rightarrow> VirtualServerEnsureRequest \<Rightarrow> string \<Rightarrow> VirtualServer list \<Rightarrow> (string \<times> bool) io" where
  "vs_recover A req currentID listeners =
     (if currentID \<noteq> [] \<or> \<not> vr_RecoverByName req then io_return (currentID, False)
      else io_bind (io_of_result (findUniqueVirtualServerByName listeners (vs_Name (vr_Desired req))))
        (\<lambda>adoptedID. if adoptedID = [] then io_return ([], False)
           else io_bind (io_wrap ''checking recovered virtual server %s: %w'' [adoptedID]
                           (do_GetVirtualServer A (vr_LBServiceID req) adoptedID))
                  (\<lambda>candidate. vs_accept A req candidate (adoptedID, True))))"

text \<open>An existing listener is kept when its hash is the desired one, or when no hash is known
  and the caller does not insist; otherwise it is deleted and the pass ends.\<close>

definition vs_keep :: "VirtualServerEnsureRequest \<Rightarrow> bool \<Rightarrow> bool" where
  "vs_keep req adoptedByName \<longleftrightarrow>
     (if vr_CurrentHash req \<noteq> [] then vr_CurrentHash req = vr_DesiredHash req
      else \<not> vr_RecreateWhenHashMissing req \<or> adoptedByName)"

definition vs_settle :: "cmp \<Rightarrow> VirtualServerEnsureRequest \<Rightarrow> string \<Rightarrow> bool \<Rightarrow> (string \<times> string \<times> bool) io" where
  "vs_settle A req currentID adoptedByName =
     (if vs_keep req adoptedByName then io_return (currentID, vs_Name (vr_Desired req), False)
      else io_bind (tolerate_404 ''deleting virtual server %s on LB %s: %w'' [currentID, vr_LBServiceID req]
                      (do_DeleteVirtualServer A (vr_LBServiceID req) currentID))
             (\<lambda>_. io_fail (ProvisioningPending ''VirtualServer'' currentID ''deleting''
                ''waiting for CMP deletion before replacement'')))"

definition vs_create_checked :: "cmp \<Rightarrow> string \<Rightarrow> VirtualServerEnsureRequest \<Rightarrow> (string \<times> string \<times> bool) io" where
  "vs_create_checked A managerVPC req =
     io_bind (vs_create A managerVPC req)
       (\<lambda>createdID. io_try (do_GetVirtualServer A (vr_LBServiceID req) createdID)
          (\<lambda>r. case r of
             Inl e \<Rightarrow>
               if IsNotFound e
               then io_fail (ProvisioningPending ''VirtualServer'' createdID ''creating'' ''accepted by CMP but not yet readable'')
               else io_fail (Wrapf ''checking created virtual server %s: %w'' [createdID] e)
           | Inr created \<Rightarrow> vs_accept A req created (createdID, vs_Name (vr_Desired req), True)))"

definition vs_after_list :: "cmp \<Rightarrow> string \<Rightarrow> VirtualServerEnsureRequest \<Rightarrow> VirtualServer list \<Rightarrow> (string \<times> string \<times> bool) io" where
  "vs_after_list A managerVPC req listeners =
     io_bind (vs_check_conflicts A req (trim_space (vr_CurrentID req)) listeners)
       (\<lambda>_. io_bind (vs_check_recorded A req (trim_space (vr_CurrentID req)) listeners)
         (\<lambda>recorded. io_bind (vs_recover A req recorded listeners)
           (\<lambda>(currentID, adoptedByName).
              if currentID \<noteq> [] then vs_settle A req currentID adoptedByName
              else vs_create_checked A managerVPC req)))"

definition VirtualServerManager_Ensure :: "cmp \<Rightarrow> string \<Rightarrow> VirtualServerEnsureRequest \<Rightarrow> (string \<times> string \<times> bool) io" where
  "VirtualServerManager_Ensure A managerVPC req =
     io_bind (do_ListVirtualServers A (vr_LBServiceID req)) (vs_after_list A managerVPC req)"

subsection \<open>Resolution of backends\<close>

definition port_candidate :: "string \<Rightarrow> ComputePort \<Rightarrow> bool" where
  "port_candidate ip p \<longleftrightarrow> containsString (cp_FixedIPs p) ip \<and> cp_ID p \<noteq> 0"

definition port_of_compute :: "string \<Rightarrow> ComputePort \<Rightarrow> bool" where
  "port_of_compute computeID p \<longleftrightarrow>
     trim_space (cp_DeviceID p) \<in> {[], computeID} \<and>
     (trim_space (cp_DeviceType p) = [] \<or> equal_fold (trim_space (cp_DeviceType p)) ''compute'')"

lemma match_ports_Inr_iff:
  "match_ports cid ip found ps = Inr r \<longleftrightarrow>
     (\<forall>p \<in> set (filter (port_candidate ip) ps). port_of_compute cid p) \<and>
     (case found of
        None \<Rightarrow> filter (port_candidate ip) ps = (case r of None \<Rightarrow> [] | Some p \<Rightarrow> [p])
      | Some f \<Rightarrow> filter (port_candidate ip) ps = [] \<and> r = Some f)"
proof (induction cid ip found ps rule: match_ports.induct)
  case (1 cid ip found)
  then show ?case by (auto split: option.splits)
next
  case (2 cid ip found p ps)
  show ?case
  proof (cases "port_candidate ip p \<and> port_of_compute cid p \<and> found = None")
    case True
    with 2 show ?thesis by (auto simp: port_candidate_def port_of_compute_def split: option.splits)
  next
    case False
    with 2 show ?thesis by (auto simp: port_candidate_def port_of_compute_def split: option.splits)
  qed
qed

text \<open>The contract of a resolved backend: the one port of the node's own compute instance that
  has the backend's address, inside the VPC and region.\<close>

definition port_resolves :: "string \<Rightarrow> string \<Rightarrow> BackendMember \<Rightarrow> Compute \<Rightarrow> NetworkPort \<Rightarrow> bool" where
  "port_resolves managerVPC region b compute np \<longleftrightarrow>
     (trim_space managerVPC \<noteq> [] \<longrightarrow> trim_space (co_VPCID compute) = trim_space managerVPC) \<and>
     (trim_space region \<noteq> [] \<longrightarrow> equal_fold (trim_space (co_Region compute)) (trim_space region)) \<and>
     np_ResourceID np = trim_space (bm_ComputeID b) \<and> np_IP np = trim_space (bm_IP b) \<and> np_ID np \<noteq> 0 \<and>
     (case filter (port_candidate (trim_space (bm_IP b))) (co_Ports compute) of
        [p] \<Rightarrow> port_of_compute (trim_space (bm_ComputeID b)) p \<and> cp_ID p = np_ID np
      | _ \<Rightarrow> False)"

lemma compute_checks_None:
  "compute_checks v cid region c = None \<longleftrightarrow>
     (trim_space v \<noteq> [] \<longrightarrow> trim_space (co_VPCID c) = trim_space v) \<and>
     (trim_space region \<noteq> [] \<longrightarrow> trim_space (co_Region c) \<noteq> [] \<and> equal_fold (trim_space (co_Region c)) (trim_space region))"
  by (auto simp: compute_checks_def)

text \<open>
  A backend is attached through exactly one port: when \<open>resolveBackendPort\<close> succeeds,
  CMP returned the compute instance the node names, it lies in the VPC and the region, precisely
  one of its ports has the backend's address and a nonzero ID, that port is not another
  device's, and the result carries this port and this compute ID.
\<close>

theorem resolveBackendPort_sound:
  assumes "resolveBackendPort A v b region h = (Inr np, h')"
  shows "h' = h @ [GetCompute (trim_space (bm_ComputeID b))] \<and>
    (\<exists>c. r_GetCompute A (trim_space (bm_ComputeID b)) h = Inr c \<and> port_resolves v region b c np)"
proof -
  let ?cid = "trim_space (bm_ComputeID b)" and ?ip = "trim_space (bm_IP b)"
  from assms have run: "resolveComputeBackendPort A v ?cid ?ip region h = (Inr np, h')"
    by (auto simp: resolveBackendPort_def Let_def elim: if_InrE fail_InrE)
  obtain c p where c: "r_GetCompute A ?cid h = Inr c" "compute_checks v ?cid region c = None"
    and m: "match_ports ?cid ?ip None (co_Ports c) = Inr (Some p)"
    and np: "np_ID np = cp_ID p" "np_ResourceID np = ?cid" "np_IP np = ?ip"
    and h': "h' = h @ [GetCompute ?cid]"
    using run unfolding resolveComputeBackendPort_def do_GetCompute_def
    by (elim bind_InrE wrap_InrE check_InrE invokeE)
      (auto simp: io_of_result_def io_fail_def io_return_def split: sum.splits option.splits)
  from m have one: "filter (port_candidate ?ip) (co_Ports c) = [p]"
    by (simp add: match_ports_Inr_iff)
  have all: "\<forall>q \<in> set (filter (port_candidate ?ip) (co_Ports c)). port_of_compute ?cid q"
    using m unfolding match_ports_Inr_iff by (rule conjunct1)
  from all have ports: "filter (port_candidate ?ip) (co_Ports c) = [p]" "port_of_compute ?cid p"
    unfolding one by simp_all
  have "p \<in> set (filter (port_candidate ?ip) (co_Ports c))" unfolding one by simp
  then have "port_candidate ?ip p" by simp
  with c np h' ports show ?thesis
    by (auto simp: port_resolves_def compute_checks_None port_candidate_def)
qed

definition demo_compute :: Compute where
  "demo_compute = \<lparr>co_ID = ''c-1'', co_Name = ''node-1'', co_VPCID = ''vpc-1'', co_NetworkID = [], co_Region = ''South'',
     co_Status = [], co_Ports = [\<lparr>cp_ID = 6, cp_FixedIPs = [''10.1.0.6''], cp_NetworkID = [], cp_DeviceID = [], cp_DeviceType = []\<rparr>,
       \<lparr>cp_ID = 7, cp_FixedIPs = [''10.1.0.7''], cp_NetworkID = ''net-1'', cp_DeviceID = ''c-1'', cp_DeviceType = ''Compute''\<rparr>]\<rparr>"

definition demo_backend :: BackendMember where
  "demo_backend = \<lparr>bm_NodeName = ''node-1'', bm_ProviderID = ''cmp://c-1'', bm_ComputeID = ''c-1'', bm_IP = ''10.1.0.7'',
     bm_Port = 30080, bm_Weight = 1\<rparr>"

definition demo_compute_cmp :: cmp where
  "demo_compute_cmp = empty_cmp\<lparr>r_GetCompute := (\<lambda>i h. Inr demo_compute)\<rparr>"

lemma demo_resolve_run:
  "resolveBackendPort demo_compute_cmp ''vpc-1'' demo_backend ''south'' [] =
     (Inr \<lparr>np_ID = 7, np_ResourceID = ''c-1'', np_ResourceType = ''compute'', np_IP = ''10.1.0.7'',
        np_NetworkID = ''net-1'', np_DeviceID = ''c-1'', np_DeviceType = ''Compute'', np_InstanceName = ''node-1''\<rparr>,
      [GetCompute ''c-1''])"
  by code_simp

theorem resolveBackendPort_sound_witness:
  "\<exists>c np. port_resolves ''vpc-1'' ''south'' demo_backend c np"
  using resolveBackendPort_sound [OF demo_resolve_run] by blast

subsection \<open>What \<open>Ensure\<close> promises\<close>

definition vs_failed :: "VirtualServer \<Rightarrow> bool" where
  "vs_failed d \<longleftrightarrow> to_lower (trim_space (cv_Status d)) \<in> {''failed'', ''error'', ''errored''}"

text \<open>A virtual server that serves the desired frontend: what CMP states of it agrees with the
  request, and it is ready.\<close>

definition vs_usable :: "VirtualServerEnsureRequest \<Rightarrow> VirtualServer \<Rightarrow> bool" where
  "vs_usable req d \<longleftrightarrow>
     trim_space (cv_VIPPortID d) \<in> {[], trim_space (vr_VIPPortID req)} \<and>
     cv_Port d \<in> {0, vs_FrontendPort (vr_Desired req)} \<and>
     (trim_space (cv_Protocol d) = [] \<or> equal_fold (cv_Protocol d) (vs_Protocol (vr_Desired req))) \<and>
     to_lower (trim_space (cv_Status d)) \<in> {''active'', ''created'', ''ready'', ''available'', ''online''}"

lemma validateVirtualServer_None:
  "validateVirtualServer d (vr_VIPPortID req) (vr_Desired req) = None \<Longrightarrow> vs_usable req d"
  by (auto simp: validateVirtualServer_def vs_usable_def Let_def split: if_splits)

lemma validateVirtualServer_terminal:
  "validateVirtualServer d vip ds = Some e \<Longrightarrow> IsTerminalProvisioning e \<noteq> None \<Longrightarrow> vs_failed d"
  by (auto simp: validateVirtualServer_def vs_failed_def Let_def split: if_splits)

lemma deleteFailed_never: "deleteFailed A lb d c h = (Inr x, h') \<Longrightarrow> P"
  by (auto simp: deleteFailed_def elim!: bind_InrE fail_InrE)

lemma vs_accept_success:
  assumes "vs_accept A req d x h = (Inr y, h')"
  shows "y = x \<and> h' = h \<and> vs_usable req d"
  using assms unfolding vs_accept_def
  by (auto elim!: if_InrE fail_InrE return_InrE deleteFailed_never intro: validateVirtualServer_None
      split: option.splits)

text \<open>\<open>vs_confirmed A req i h\<close>: the last call read virtual server \<open>i\<close> and found it usable.\<close>

definition vs_confirmed :: "cmp \<Rightarrow> VirtualServerEnsureRequest \<Rightarrow> string \<Rightarrow> history \<Rightarrow> bool" where
  "vs_confirmed A req i h' \<longleftrightarrow>
     (\<exists>h0 d. h' = h0 @ [GetVirtualServer (vr_LBServiceID req) i] \<and>
        r_GetVirtualServer A (vr_LBServiceID req) i h0 = Inr d \<and> vs_usable req d)"

lemma vs_confirmedI:
  assumes "io_wrap f args (do_GetVirtualServer A (vr_LBServiceID req) i) h0 = (Inr d, h1)"
    and "vs_accept A req d x h1 = (Inr y, h')"
  shows "y = x \<and> vs_confirmed A req i h'"
  using assms unfolding do_GetVirtualServer_def vs_confirmed_def
  by (auto elim!: wrap_InrE invokeE dest!: vs_accept_success)

lemma vs_check_recorded_success:
  assumes "vs_check_recorded A req cid ls h = (Inr i, h')"
  shows "i = [] \<and> h' = h \<or> i = cid \<and> cid \<noteq> [] \<and> vs_confirmed A req i h'"
  using assms unfolding vs_check_recorded_def
  by (elim if_InrE bind_InrE return_InrE) (auto dest: vs_confirmedI)

lemma vs_recover_success:
  assumes "vs_recover A req cid ls h = (Inr (i, ad), h')"
  shows "i = cid \<and> h' = h \<and> \<not> ad \<or> cid = [] \<and> i \<noteq> [] \<and> ad \<and> vs_confirmed A req i h' \<and>
      findUniqueVirtualServerByName ls (vs_Name (vr_Desired req)) = Inr i"
  using assms unfolding vs_recover_def
  by (elim if_InrE bind_InrE return_InrE) (auto simp: run_of_result dest: vs_confirmedI elim: return_InrE)

lemma vs_create_checked_success:
  assumes "vs_create_checked A v req h = (Inr (i, n, ch), h')"
  shows "vs_confirmed A req i h' \<and> n = vs_Name (vr_Desired req) \<and> ch"
  using assms unfolding vs_create_checked_def do_GetVirtualServer_def vs_confirmed_def
  by (elim bind_InrE tryE invokeE)
    (auto elim!: if_InrE fail_InrE split: sum.splits if_splits dest!: vs_accept_success)

lemma vs_settle_success:
  assumes "vs_settle A req cid ad h = (Inr (i, n, ch), h')"
  shows "i = cid \<and> n = vs_Name (vr_Desired req) \<and> \<not> ch \<and> h' = h \<and> vs_keep req ad"
  using assms unfolding vs_settle_def by (auto elim!: if_InrE bind_InrE return_InrE fail_InrE)

text \<open>
  C4.  When \<open>Ensure\<close> succeeds, its last call read the virtual server it returns, and CMP's
  answer agrees with the desired VIP, port and protocol and is ready.  If it reports no change,
  the recorded or adopted listener is kept because its hash is the desired one or no hash is
  known.
\<close>

theorem vs_Ensure_success_confirmed:
  assumes "VirtualServerManager_Ensure A v req h = (Inr (i, n, ch), h')"
  shows "vs_confirmed A req i h' \<and> n = vs_Name (vr_Desired req) \<and>
     (ch \<or> vr_CurrentHash req = vr_DesiredHash req \<or> vr_CurrentHash req = [])"
proof -
  from assms obtain ls h1 u h2 rid h3 cid ad h4 where
    rec: "vs_check_recorded A req (trim_space (vr_CurrentID req)) ls h2 = (Inr rid, h3)"
    and recover: "vs_recover A req rid ls h3 = (Inr (cid, ad), h4)"
    and fin: "(if cid \<noteq> [] then vs_settle A req cid ad else vs_create_checked A v req) h4 = (Inr (i, n, ch), h')"
    unfolding VirtualServerManager_Ensure_def vs_after_list_def
    by (auto elim!: bind_InrE)
  show ?thesis
  proof (cases "cid = []")
    case True
    with fin show ?thesis by (auto dest: vs_create_checked_success)
  next
    case False
    with fin have s: "i = cid" "n = vs_Name (vr_Desired req)" "h' = h4" "vs_keep req ad"
      by (auto dest: vs_settle_success)
    from False recover rec have "vs_confirmed A req cid h4"
      by (auto dest!: vs_recover_success vs_check_recorded_success)
    with s show ?thesis by (auto simp: vs_keep_def split: if_splits)
  qed
qed

subsection \<open>Mutations\<close>

lemma resolveBackendPort_reads: "emits (\<lambda>c. \<not> is_mutation c) (resolveBackendPort A v b region)"
  unfolding resolveBackendPort_def resolveComputeBackendPort_def do_GetCompute_def Let_def by auto

lemma vs_check_conflicts_reads: "emits (\<lambda>c. \<not> is_mutation c) (vs_check_conflicts A req cid ls)"
  unfolding vs_check_conflicts_def do_GetVirtualServer_def by (auto intro!: emits_fold)

lemma deleteFailed_mutations:
  "effect (deleteFailed A lb d c) (\<lambda>cs r. mutations cs = [DeleteVirtualServer lb (cv_ID d)] \<and> (\<exists>e. r = Inl e))"
proof -
  have "effect (tolerate_404 f args (do_DeleteVirtualServer A lb (cv_ID d)))
      (\<lambda>cs r. mutations cs = [DeleteVirtualServer lb (cv_ID d)])" for f args
    unfolding do_DeleteVirtualServer_def by (rule mutation_404) simp
  then show ?thesis
    unfolding deleteFailed_def by (rule effect_bind) (auto intro!: effect_fail)
qed

text \<open>What a step without a creation may do: nothing, or one delete that ends the pass.\<close>

definition vs_delete_ends :: "string \<Rightarrow> call list \<Rightarrow> err + 'a \<Rightarrow> bool" where
  "vs_delete_ends lb ms r \<longleftrightarrow>
     ms = [] \<or> (\<exists>i. ms = [DeleteVirtualServer lb i]) \<and> (case r of Inl e \<Rightarrow> True | Inr x \<Rightarrow> False)"

lemma vs_accept_mutations:
  "effect (vs_accept A req d x) (\<lambda>cs r. vs_delete_ends (vr_LBServiceID req) (mutations cs) r)"
  unfolding vs_accept_def
  by (auto split: option.splits simp: vs_delete_ends_def intro!: effect_return effect_fail
      intro: effect_conseq [OF deleteFailed_mutations])

lemma vs_read_accept_mutations:
  "effect (io_bind (io_wrap f args (do_GetVirtualServer A lb i)) (\<lambda>d. vs_accept A req d (x i)))
     (\<lambda>cs r. vs_delete_ends (vr_LBServiceID req) (mutations cs) r)"
proof -
  have "effect (io_wrap f args (do_GetVirtualServer A lb i)) (\<lambda>cs r. mutations cs = [])"
    unfolding do_GetVirtualServer_def emits_reads by auto
  then show ?thesis
    by (rule effect_bind)
      (auto simp: vs_delete_ends_def intro: effect_conseq [OF vs_accept_mutations [unfolded vs_delete_ends_def]])
qed

lemma vs_check_recorded_mutations:
  "effect (vs_check_recorded A req cid ls) (\<lambda>cs r. vs_delete_ends (vr_LBServiceID req) (mutations cs) r)"
  unfolding vs_check_recorded_def
  by (auto intro!: effect_return vs_read_accept_mutations) (simp_all add: vs_delete_ends_def)

lemma vs_recover_mutations:
  "effect (vs_recover A req cid ls) (\<lambda>cs r. vs_delete_ends (vr_LBServiceID req) (mutations cs) r)"
proof -
  have look: "effect (io_of_result (findUniqueVirtualServerByName ls n)) (\<lambda>cs r. cs = [])" for n
    by (simp add: effect_def run_of_result)
  show ?thesis
    unfolding vs_recover_def
    by (auto simp: vs_delete_ends_def intro!: effect_return effect_bind [OF look]
        vs_read_accept_mutations [where x = "\<lambda>i. (i, True)", unfolded vs_delete_ends_def])
qed

lemma vs_settle_mutations:
  "effect (vs_settle A req cid ad)
     (\<lambda>cs r. vs_delete_ends (vr_LBServiceID req) (mutations cs) r \<and> (\<forall>i n ch. r = Inr (i, n, ch) \<longrightarrow> \<not> ch))"
proof -
  have del: "effect (tolerate_404 f args (do_DeleteVirtualServer A lb cid))
      (\<lambda>cs r. mutations cs = [DeleteVirtualServer lb cid])" for f args lb
    unfolding do_DeleteVirtualServer_def by (rule mutation_404) simp
  show ?thesis
    unfolding vs_settle_def
    by (auto simp: vs_delete_ends_def intro!: effect_return effect_bind [OF del] effect_fail)
qed

definition vs_create_call :: "string \<Rightarrow> VirtualServerEnsureRequest \<Rightarrow> call \<Rightarrow> bool" where
  "vs_create_call v req c \<longleftrightarrow>
     (\<exists>nodes. c = CreateVirtualServer (vr_LBServiceID req) (vs_spec v (vr_VIPPortID req) (vr_Desired req) nodes))"

lemma vs_create_mutations:
  "effect (vs_create A v req)
     (\<lambda>cs r. (\<exists>c. mutations cs = [c] \<and> vs_create_call v req c) \<or> mutations cs = [] \<and> (\<forall>x. r \<noteq> Inr x))"
proof -
  let ?spec = "vs_spec v (vr_VIPPortID req) (vr_Desired req)" and ?lb = "vr_LBServiceID req"
  have nodes: "effect (io_map (\<lambda>b. io_bind (resolveBackendPort A v b (vr_Region req)) (\<lambda>p. io_return (vs_node b p))) bs)
      (\<lambda>cs r. mutations cs = [])" for bs
    unfolding emits_reads by (auto intro!: emits_map resolveBackendPort_reads)
  have create: "effect (io_wrap f args (do_CreateVirtualServer A ?lb s)) (\<lambda>cs r. mutations cs = [CreateVirtualServer ?lb s])"
    for f args s
    unfolding do_CreateVirtualServer_def by (rule mutation_wrap) simp
  show ?thesis
    unfolding vs_create_def
    by (rule effect_bind [OF nodes])
      (auto simp: vs_create_call_def intro!: effect_bind [OF create] effect_return effect_fail)
qed

text \<open>The mutations of a whole pass, by its result.\<close>

definition vs_pass_ok :: "string \<Rightarrow> VirtualServerEnsureRequest \<Rightarrow> call list \<Rightarrow> err + string \<times> string \<times> bool \<Rightarrow> bool" where
  "vs_pass_ok v req ms r \<longleftrightarrow>
     (case r of
        Inr (i, n, ch) \<Rightarrow> if ch then \<exists>c. ms = [c] \<and> vs_create_call v req c else ms = []
      | Inl e \<Rightarrow> ms = [] \<or> (\<exists>i. ms = [DeleteVirtualServer (vr_LBServiceID req) i]) \<or>
          (\<exists>c. vs_create_call v req c \<and>
             (ms = [c] \<or> (\<exists>i. ms = [c, DeleteVirtualServer (vr_LBServiceID req) i]))))"

lemma vs_create_checked_mutations:
  "effect (vs_create_checked A v req) (\<lambda>cs r. vs_pass_ok v req (mutations cs) r)"
proof -
  let ?k = "\<lambda>i r. case r of
      Inl e \<Rightarrow> if IsNotFound e
         then io_fail (ProvisioningPending ''VirtualServer'' i ''creating'' ''accepted by CMP but not yet readable'')
         else io_fail (Wrapf ''checking created virtual server %s: %w'' [i] e)
    | Inr created \<Rightarrow> vs_accept A req created (i, vs_Name (vr_Desired req), True)"
  have accept: "effect (vs_accept A req d (i, n, True))
      (\<lambda>ds r. vs_delete_ends (vr_LBServiceID req) (mutations ds) r \<and> (\<forall>j m ch. r = Inr (j, m, ch) \<longrightarrow> ch))" for d i n
    by (rule effect_conj [OF vs_accept_mutations])
      (auto simp: vs_accept_def deleteFailed_def split: option.splits intro!: effect_return effect_fail
        effect_conseq [OF deleteFailed_mutations [unfolded deleteFailed_def]])
  have get: "effect (do_GetVirtualServer A lb i) (\<lambda>ds r. mutations ds = [])" for lb i
    unfolding do_GetVirtualServer_def by (rule effect_invoke) simp
  have k: "effect (io_try (do_GetVirtualServer A (vr_LBServiceID req) i) (?k i))
      (\<lambda>ds r. vs_pass_ok v req (mutations (cs @ ds)) r)"
    if "mutations cs = [c]" "vs_create_call v req c" for i cs c
    using that
    by (intro effect_try [OF get])
      (auto simp: vs_pass_ok_def vs_delete_ends_def split: sum.splits
        intro!: effect_fail effect_conseq [OF accept])
  show ?thesis
    unfolding vs_create_checked_def
  proof (rule effect_bind [OF vs_create_mutations], goal_cases)
    case (1 cs i)
    then obtain c where "mutations cs = [c]" "vs_create_call v req c" by blast
    then show ?case by (rule k)
  next
    case (2 cs e)
    then show ?case by (auto simp: vs_pass_ok_def)
  qed
qed

lemma vs_after_list_mutations:
  "effect (vs_after_list A v req ls) (\<lambda>cs r. vs_pass_ok v req (mutations cs) r)"
proof -
  have conflicts: "effect (vs_check_conflicts A req cid ls) (\<lambda>cs r. mutations cs = [])" for cid
    unfolding emits_reads by (rule vs_check_conflicts_reads)
  have settle: "effect (vs_settle A req cid ad) (\<lambda>cs r. vs_pass_ok v req (mutations cs) r)" for cid ad
    by (rule effect_conseq [OF vs_settle_mutations]) (auto simp: vs_pass_ok_def vs_delete_ends_def split: sum.splits)
  show ?thesis
    unfolding vs_after_list_def
    apply (rule effect_bind [OF conflicts])
     apply (rule effect_bind [OF vs_check_recorded_mutations])
      apply (rule effect_bind [OF vs_recover_mutations])
       apply (auto simp: vs_delete_ends_def intro: settle vs_create_checked_mutations)
     apply (auto simp: vs_pass_ok_def)
    done
qed

text \<open>
  C8.  One pass never replaces a listener: a pass that deletes a virtual server ends in an
  error, and creates none after the delete.  A pass that succeeds without change mutates
  nothing; one that succeeds with a change has made exactly one creation, of the desired
  listener.
\<close>

theorem vs_Ensure_mutations:
  "vs_pass_ok v req (mutations (calls_of (VirtualServerManager_Ensure A v req) h))
     (result_of (VirtualServerManager_Ensure A v req) h)"
proof -
  have "effect (VirtualServerManager_Ensure A v req) (\<lambda>cs r. vs_pass_ok v req (mutations cs) r)"
    unfolding VirtualServerManager_Ensure_def do_ListVirtualServers_def
    by (rule effect_bind [OF effect_invoke [where Q = "\<lambda>cs r. mutations cs = []"]])
      (auto intro: effect_conseq [OF vs_after_list_mutations], auto simp: vs_pass_ok_def)
  then show ?thesis by (rule effect_at)
qed

lemma vs_check_conflicts_success:
  assumes "vs_check_conflicts A req cid ls h = (Inr u, h')" "l \<in> set ls" "vs_rival req cid l"
  shows "\<exists>h0 d. r_GetVirtualServer A (vr_LBServiceID req) (cv_ID l) h0 = Inr d \<and> \<not> vs_same_frontend req d"
  using io_fold_InrE [OF assms(1) [unfolded vs_check_conflicts_def] assms(2)] assms(3)
  unfolding do_GetVirtualServer_def
  by (auto elim!: bind_InrE wrap_InrE invokeE if_InrE fail_InrE)

text \<open>
  A frontend in use is never taken: if CMP lists another listener (other name, other ID)
  that may sit on the desired port and protocol, and every successful read of it shows the
  desired VIP, port and protocol, then \<open>Ensure\<close> changes nothing and returns an error.
\<close>

theorem vs_frontend_conflict_refused:
  assumes "r_ListVirtualServers A (vr_LBServiceID req) h = Inr ls" "l \<in> set ls"
    and "vs_rival req (trim_space (vr_CurrentID req)) l"
    and "\<And>h0 d. r_GetVirtualServer A (vr_LBServiceID req) (cv_ID l) h0 = Inr d \<Longrightarrow> vs_same_frontend req d"
  shows "mutations (calls_of (VirtualServerManager_Ensure A v req) h) = [] \<and>
     (\<exists>e. result_of (VirtualServerManager_Ensure A v req) h = Inl e)"
proof -
  let ?h1 = "h @ [ListVirtualServers (vr_LBServiceID req)]"
  let ?m = "vs_check_conflicts A req (trim_space (vr_CurrentID req)) ls"
  have stuck: "?m ?h1 \<noteq> (Inr x, h')" for x h'
    using vs_check_conflicts_success [OF _ assms(2,3)] assms(4) by blast
  have run: "VirtualServerManager_Ensure A v req h = vs_after_list A v req ls ?h1"
    using assms(1) by (simp add: VirtualServerManager_Ensure_def do_ListVirtualServers_def run_bind run_invoke)
  have after: "mutations (calls_of (vs_after_list A v req ls) ?h1) = []"
    "\<exists>e. result_of (vs_after_list A v req ls) ?h1 = Inl e"
    unfolding vs_after_list_def mutations_empty_iff
    by (rule effect_bind_stuck [OF vs_check_conflicts_reads stuck])+
  have "calls_of (VirtualServerManager_Ensure A v req) h =
      ListVirtualServers (vr_LBServiceID req) # calls_of (vs_after_list A v req ls) ?h1"
    by (rule calls_of_first, rule run) (rule effect_snd [OF vs_after_list_mutations])
  with after show ?thesis by (simp add: result_of_def run)
qed

definition demo_vs :: M_VirtualServer where
  "demo_vs = zero_virtual_server\<lparr>vs_Name := ''vs-443'', vs_FrontendPort := 443, vs_BackendNodePort := 30080, vs_Protocol := ''TCP''\<rparr>"

definition demo_vs_request :: VirtualServerEnsureRequest where
  "demo_vs_request = \<lparr>vr_LBServiceID = ''lb-1'', vr_VIPPortID = ''vip-1'', vr_NetworkID = ''net-1'', vr_Region = ''south'',
     vr_Desired = demo_vs, vr_Backends = [demo_backend], vr_Pool = None, vr_CurrentID = [], vr_CurrentHash = [],
     vr_DesiredHash = ''h'', vr_RecreateWhenHashMissing = True, vr_RecoverByName = True\<rparr>"

definition other_listener :: VirtualServer where
  "other_listener = \<lparr>cv_ID = ''7'', cv_Name = ''other'', cv_VIPPortID = ''vip-1'', cv_VIPAddress = [], cv_Status = ''active'',
     cv_Protocol = ''tcp'', cv_Port = 443\<rparr>"

definition rival_cmp :: cmp where
  "rival_cmp = empty_cmp\<lparr>r_ListVirtualServers := (\<lambda>lb h. Inr [other_listener]), r_GetVirtualServer := (\<lambda>lb i h. Inr other_listener)\<rparr>"

theorem vs_frontend_conflict_refused_witness:
  "mutations (calls_of (VirtualServerManager_Ensure rival_cmp ''vpc-1'' demo_vs_request) []) = []"
proof -
  have "vs_rival demo_vs_request [] other_listener" "vs_same_frontend demo_vs_request other_listener"
    by code_simp+
  moreover have "trim_space (vr_CurrentID demo_vs_request) = []" by (simp add: demo_vs_request_def)
  ultimately show ?thesis
    using vs_frontend_conflict_refused [of rival_cmp demo_vs_request "[]" "[other_listener]" other_listener "''vpc-1''"]
    by (simp add: rival_cmp_def)
qed

text \<open>A provider that accepts the listener, for examples.\<close>

definition vs_cmp :: cmp where
  "vs_cmp = demo_compute_cmp\<lparr>r_CreateVirtualServer := (\<lambda>lb s h. Inr (other_listener\<lparr>cv_ID := ''8'', cv_Name := vsp_Name s\<rparr>)),
     r_GetVirtualServer := (\<lambda>lb i h. Inr (other_listener\<lparr>cv_ID := i\<rparr>))\<rparr>"

lemma demo_vs_run:
  "VirtualServerManager_Ensure vs_cmp ''vpc-1'' demo_vs_request [] =
     (Inr (''8'', ''vs-443'', True),
      [ListVirtualServers ''lb-1'', GetCompute ''c-1'',
       CreateVirtualServer ''lb-1'' (vs_spec ''vpc-1'' ''vip-1'' demo_vs
         [\<lparr>bn_ResourceID = ''c-1'', bn_ResourceType = ''compute'', bn_ResourceIP = ''10.1.0.7'', bn_BackendPortID = 7,
           bn_Port = 30080, bn_Weight = 1, bn_MaxConnections = 100, bn_InstanceName = ''node-1'', bn_SourceType = ''vm''\<rparr>]),
       GetVirtualServer ''lb-1'' ''8''])"
  by code_simp

theorem vs_Ensure_success_confirmed_witness:
  "\<exists>h. vs_confirmed vs_cmp demo_vs_request ''8'' h"
  using vs_Ensure_success_confirmed [OF demo_vs_run] by blast

subsection \<open>Scope\<close>

definition vs_manager :: "cmp \<Rightarrow> string \<Rightarrow> string \<times> VirtualServerEnsureRequest \<Rightarrow> (string \<times> string \<times> bool) io" where
  "vs_manager A lb q = (case q of (v, req) \<Rightarrow> VirtualServerManager_Ensure A v (req\<lparr>vr_LBServiceID := lb\<rparr>))"

lemma resolveBackendPort_in_lb: "emits (in_lb lb) (resolveBackendPort A v b region)"
  unfolding resolveBackendPort_def resolveComputeBackendPort_def do_GetCompute_def Let_def
  by (auto simp: in_lb_def)

lemma poolMemberSpecs_in_lb: "emits (in_lb lb) (poolMemberSpecs A v backends)"
  unfolding poolMemberSpecs_def by (auto intro!: emits_map resolveBackendPort_in_lb)

lemma vs_accept_in_lb: "emits (in_lb (vr_LBServiceID req)) (vs_accept A req d x)"
  unfolding vs_accept_def deleteFailed_def do_DeleteVirtualServer_def
  by (auto simp: in_lb_def split: option.splits)

lemma VirtualServerManager_Ensure_in_lb: "emits (in_lb (vr_LBServiceID req)) (VirtualServerManager_Ensure A v req)"
proof -
  have "emits (in_lb (vr_LBServiceID req)) (vs_check_conflicts A req cid ls)" for cid ls
    unfolding vs_check_conflicts_def do_GetVirtualServer_def by (auto simp: in_lb_def intro!: emits_fold)
  moreover have "emits (in_lb (vr_LBServiceID req)) (vs_check_recorded A req cid ls)" for cid ls
    unfolding vs_check_recorded_def do_GetVirtualServer_def by (auto simp: in_lb_def intro!: vs_accept_in_lb)
  moreover have "emits (in_lb (vr_LBServiceID req)) (vs_recover A req cid ls)" for cid ls
    unfolding vs_recover_def do_GetVirtualServer_def by (auto simp: in_lb_def intro!: vs_accept_in_lb)
  moreover have "emits (in_lb (vr_LBServiceID req)) (vs_settle A req cid ad)" for cid ad
    unfolding vs_settle_def do_DeleteVirtualServer_def by (auto simp: in_lb_def)
  moreover have "emits (in_lb (vr_LBServiceID req)) (vs_create_checked A v req)"
    unfolding vs_create_checked_def vs_create_def do_GetVirtualServer_def do_CreateVirtualServer_def
    by (auto simp: in_lb_def split: sum.splits intro!: emits_map resolveBackendPort_in_lb vs_accept_in_lb)
  ultimately have "emits (in_lb (vr_LBServiceID req)) (vs_after_list A v req ls)" for ls
    unfolding vs_after_list_def by (intro emits_bind) (auto split: prod.splits)
  then show ?thesis
    unfolding VirtualServerManager_Ensure_def do_ListVirtualServers_def by (auto simp: in_lb_def)
qed

interpretation vs_scope: lb_scoped vs_manager
proof
  fix lb A and q :: "string \<times> VirtualServerEnsureRequest"
  obtain v req where "q = (v, req)" by (cases q)
  then show "emits (in_lb lb) (vs_manager A lb q)"
    using VirtualServerManager_Ensure_in_lb [of "req\<lparr>vr_LBServiceID := lb\<rparr>" A v] by (simp add: vs_manager_def)
qed

end
