(* ===== verification/Certificates.thy ===== *)
theory Certificates
  imports Scope
begin

text \<open>
  \<open>pkg/deploy/lbaas/certificate_manager.go\<close>: upload of the desired certificates, their binding to
  an HTTPS virtual server, and removal of the recorded ones that are not desired any more.
\<close>

text \<open>The two indexes of the listed certificates; a later entry replaces an earlier one.\<close>

definition cert_fingerprint_key :: "string \<Rightarrow> string" where
  "cert_fingerprint_key s = to_lower (trim_space s)"

definition certs_index :: "(CertificateResource \<Rightarrow> string) \<Rightarrow> CertificateResource list \<Rightarrow> CertificateResource gomap" where
  "certs_index f resources =
     fold (\<lambda>r m. if trim_space (ce_ID r) = [] then m
                  else if cert_fingerprint_key (f r) \<noteq> [] then gm_set (cert_fingerprint_key (f r)) r m else m) resources []"

definition cert_spec :: "M_Certificate \<Rightarrow> CertificateSpec" where
  "cert_spec cert =
     \<lparr>cs_Name = (if trim_space (cert_Name cert) = [] then cert_SecretName cert else cert_Name cert),
      cs_Fingerprint = trim_space (cert_Fingerprint cert), cs_SecretName = cert_SecretName cert,
      cs_Certificate = cert_Certificate cert, cs_PrivateKey = cert_PrivateKey cert, cs_CA = cert_CA cert,
      cs_HostNames = cert_Hosts cert\<rparr>"

definition cert_observed :: "M_Certificate \<Rightarrow> CertificateResource \<Rightarrow> ObservedResource" where
  "cert_observed cert r = zero_observed\<lparr>LogicalID := cert_Name cert, ExternalID := ce_ID r, or_Name := ce_Name r,
     or_Ownership := cert_Ownership cert\<rparr>"

definition bindToVirtualServer :: "cmp \<Rightarrow> string \<Rightarrow> string \<Rightarrow> string \<Rightarrow> unit io" where
  "bindToVirtualServer A lb vs certificateID =
     (if trim_space lb = [] \<or> trim_space vs = [] \<or> trim_space certificateID = [] then io_return ()
      else do_BindCertificate A lb vs certificateID)"

definition unbindFromVirtualServer :: "cmp \<Rightarrow> string \<Rightarrow> string \<Rightarrow> string \<Rightarrow> unit io" where
  "unbindFromVirtualServer A lb vs certificateID =
     (if trim_space lb = [] \<or> trim_space vs = [] \<or> trim_space certificateID = [] then io_return ()
      else do_UnbindCertificate A lb vs certificateID)"

text \<open>The lookup of a desired certificate: by fingerprint when it has one, else by name.\<close>

definition cert_lookup :: "CertificateResource gomap \<Rightarrow> CertificateResource gomap \<Rightarrow> CertificateSpec \<Rightarrow> CertificateResource option" where
  "cert_lookup byFingerprint byName spec =
     (let fp = cert_fingerprint_key (cs_Fingerprint spec);
          byFp = (if fp \<noteq> [] then map_of byFingerprint fp else None)
      in case byFp of Some r \<Rightarrow> Some r | None \<Rightarrow> map_of byName (to_lower (trim_space (cs_Name spec))))"

record cert_state =
  cst_byFingerprint :: "CertificateResource gomap"
  cst_byName :: "CertificateResource gomap"
  cst_out :: "ObservedResource list"
  cst_changed :: bool

definition cert_upload :: "cmp \<Rightarrow> string \<Rightarrow> M_Certificate \<Rightarrow> CertificateSpec \<Rightarrow> CertificateResource io" where
  "cert_upload A lb cert spec =
     io_bind (io_wrap ''uploading certificate %s: %w'' [cert_Name cert] (do_UploadCertificate A lb spec))
       (\<lambda>created. if trim_space (ce_ID created) = []
          then io_fail (Errorf ''CMP created certificate %s without a provider id'' [cert_Name cert])
          else io_return created)"

definition cert_bind :: "cmp \<Rightarrow> string \<Rightarrow> string \<Rightarrow> M_Certificate \<Rightarrow> CertificateResource \<Rightarrow> unit io" where
  "cert_bind A lb vs cert r =
     io_wrap ''binding certificate %s to virtual server %s: %w'' [cert_Name cert, vs] (bindToVirtualServer A lb vs (ce_ID r))"

definition cert_step :: "cmp \<Rightarrow> string \<Rightarrow> string \<Rightarrow> cert_state \<Rightarrow> M_Certificate \<Rightarrow> cert_state io" where
  "cert_step A lb vs st cert =
     (let spec = cert_spec cert; nameKey = to_lower (trim_space (cs_Name spec));
          found = cert_lookup (cst_byFingerprint st) (cst_byName st) spec
      in if nameKey = [] then io_return st
         else if (case found of Some r \<Rightarrow> trim_space (ce_ID r) \<noteq> [] | None \<Rightarrow> False)
         then io_bind (cert_bind A lb vs cert (the found))
                (\<lambda>_. io_return (st\<lparr>cst_out := cst_out st @ [cert_observed cert (the found)]\<rparr>))
         else io_bind (cert_upload A lb cert spec)
                (\<lambda>created. io_bind (cert_bind A lb vs cert created)
                   (\<lambda>_. let fp = cert_fingerprint_key (ce_Fingerprint created)
                        in io_return (st\<lparr>cst_byFingerprint := (if fp \<noteq> [] then gm_set fp created (cst_byFingerprint st)
                                                              else cst_byFingerprint st),
                             cst_byName := gm_set nameKey created (cst_byName st),
                             cst_out := cst_out st @ [cert_observed cert created], cst_changed := True\<rparr>))))"

text \<open>One recorded certificate that is not desired by name any more.\<close>

definition cert_prune :: "cmp \<Rightarrow> string \<Rightarrow> string \<Rightarrow> M_Certificate list \<Rightarrow> bool \<Rightarrow> string \<times> ObservedResource \<Rightarrow> bool io" where
  "cert_prune A lb vs desired changed entry =
     (case entry of (key, resource) \<Rightarrow>
        if trim_space (ExternalID resource) = [] then io_return changed
        else if list_ex (\<lambda>cert. key = cert_Name cert) desired then io_return changed
        else io_bind (io_wrap ''unbinding certificate %s from virtual server %s: %w'' [ExternalID resource, vs]
                        (unbindFromVirtualServer A lb vs (ExternalID resource)))
               (\<lambda>_. io_bind (io_wrap ''deleting unreferenced certificate %s: %w'' [ExternalID resource]
                               (do_DeleteCertificate A lb (ExternalID resource)))
                  (\<lambda>_. io_return True)))"

definition CertificateManager_Ensure :: "cmp \<Rightarrow> string \<Rightarrow> string \<Rightarrow> M_Certificate list \<Rightarrow> ObservedResource gomap \<Rightarrow>
    (ObservedResource list \<times> bool) io" where
  "CertificateManager_Ensure A lb vs desired observed =
     (if trim_space lb = [] then io_fail (Errorf ''lb service id is required for certificate reconciliation'' [])
      else io_bind (io_wrap ''listing certificates for lb service %s: %w'' [lb] (do_ListCertificates A lb))
        (\<lambda>resources. io_bind
           (io_fold (cert_step A lb vs) desired
              \<lparr>cst_byFingerprint = certs_index ce_Fingerprint resources, cst_byName = certs_index ce_Name resources,
               cst_out = [], cst_changed = False\<rparr>)
           (\<lambda>st. io_range A observed
              (\<lambda>entries. io_bind (io_fold (cert_prune A lb vs desired) entries (cst_changed st))
                 (\<lambda>changed. io_return (cst_out st, changed))))))"

subsection \<open>Removal\<close>

text \<open>What a pass may remove; the entries are those of the observed graph.\<close>

definition cert_recorded_stale :: "M_Certificate list \<Rightarrow> ObservedResource gomap \<Rightarrow> string \<Rightarrow> bool" where
  "cert_recorded_stale desired observed i \<longleftrightarrow>
     trim_space i \<noteq> [] \<and> list_ex (\<lambda>(k, r). ExternalID r = i \<and> k \<notin> set (map cert_Name desired)) observed"

fun cert_removal_ok :: "string \<Rightarrow> M_Certificate list \<Rightarrow> ObservedResource gomap \<Rightarrow> call \<Rightarrow> bool" where
  "cert_removal_ok lb desired observed (DeleteCertificate lb' i) = (lb' = lb \<and> cert_recorded_stale desired observed i)"
| "cert_removal_ok lb desired observed (UnbindCertificate lb' vs' i) = (lb' = lb \<and> cert_recorded_stale desired observed i)"
| "cert_removal_ok lb desired observed c = True"

text \<open>
  Only recorded certificates are removed: a certificate the pass unbinds or deletes is the
  external ID of an entry of the observed graph whose key is not the name of a desired
  certificate.
\<close>

theorem cert_removes_only_recorded:
  "list_all (cert_removal_ok lb desired observed) (calls_of (CertificateManager_Ensure A lb vs desired observed) h)"
proof -
  let ?P = "cert_removal_ok lb desired observed"
  have step: "emits ?P (cert_step A lb vs st cert)" for st cert
    unfolding cert_step_def cert_upload_def cert_bind_def bindToVirtualServer_def do_UploadCertificate_def
      do_BindCertificate_def Let_def by auto
  have prune: "emits ?P (cert_prune A lb vs desired ch e)" if "map_of observed (fst e) = Some (snd e)" for ch e
  proof -
    obtain k r where e: "e = (k, r)" by (cases e)
    have "\<not> list_ex (\<lambda>cert. k = cert_Name cert) desired \<Longrightarrow> trim_space (ExternalID r) \<noteq> [] \<Longrightarrow>
        cert_recorded_stale desired observed (ExternalID r)"
      using that by (force simp: cert_recorded_stale_def list_ex_iff e dest: map_of_SomeD)
    then show ?thesis
      unfolding e cert_prune_def unbindFromVirtualServer_def do_UnbindCertificate_def do_DeleteCertificate_def
      by auto
  qed
  have "emits ?P (CertificateManager_Ensure A lb vs desired observed)"
    unfolding CertificateManager_Ensure_def do_ListCertificates_def
    by (auto intro!: emits_fold step prune)
  then show ?thesis by (intro emits_from_calls emits_emits_from)
qed

subsection \<open>Rotation\<close>

lemma certs_index_lookup:
  assumes "map_of (certs_index f rs) k = Some r"
  shows "r \<in> set rs \<and> trim_space (ce_ID r) \<noteq> [] \<and> cert_fingerprint_key (f r) = k"
proof -
  let ?step = "\<lambda>r m. if trim_space (ce_ID r) = [] then m
      else if cert_fingerprint_key (f r) \<noteq> [] then gm_set (cert_fingerprint_key (f r)) r m else m"
  have "map_of (fold ?step rs b) k = Some r
      \<Longrightarrow> map_of b k = Some r \<or> r \<in> set rs \<and> trim_space (ce_ID r) \<noteq> [] \<and> cert_fingerprint_key (f r) = k" for b
  proof (induction rs arbitrary: b)
    case (Cons a rs)
    from Cons.prems have "map_of (fold ?step rs (?step a b)) k = Some r" by simp
    from Cons.IH [OF this] show ?case
      by (cases "trim_space (ce_ID a) = [] \<or> cert_fingerprint_key (f a) = []") (auto split: if_splits)
  qed simp
  with assms show ?thesis by (fastforce simp: certs_index_def)
qed

text \<open>
  A rotated certificate is not uploaded while one of its name exists: the lookup falls back
  to the name when the desired fingerprint is unknown, so a listed certificate with the same
  name and another fingerprint is bound again and the new key pair stays unused.
\<close>

theorem cert_rotation_ignored:
  assumes "r_ListCertificates A lb h = Inr [old]" "trim_space lb \<noteq> []" "trim_space (ce_ID old) \<noteq> []"
    and "trim_space (cert_Name cert) \<noteq> []" "cert_fingerprint_key (ce_Name old) = cert_fingerprint_key (cert_Name cert)"
    and "cert_fingerprint_key (ce_Fingerprint old) \<noteq> cert_fingerprint_key (cert_Fingerprint cert)"
    and "trim_space vs \<noteq> []" "\<And>h. r_BindCertificate A lb vs (ce_ID old) h = Inr ()"
  shows "CertificateManager_Ensure A lb vs [cert] [] h =
     (Inr ([cert_observed cert old], False), h @ [ListCertificates lb, BindCertificate lb vs (ce_ID old)])"
proof -
  let ?st = "\<lparr>cst_byFingerprint = certs_index ce_Fingerprint [old], cst_byName = certs_index ce_Name [old],
      cst_out = [], cst_changed = False\<rparr>"
  have key: "to_lower (trim_space (cs_Name (cert_spec cert))) = cert_fingerprint_key (cert_Name cert)"
    using assms(4) by (simp add: cert_spec_def cert_fingerprint_key_def)
  have nonempty: "cert_fingerprint_key (cert_Name cert) \<noteq> []"
    using assms(4) by (simp add: cert_fingerprint_key_def to_lower_def)
  have "map_of (certs_index ce_Fingerprint [old]) (cert_fingerprint_key (cs_Fingerprint (cert_spec cert))) = None"
    using certs_index_lookup [of ce_Fingerprint "[old]"] assms(6)
    by (cases "map_of (certs_index ce_Fingerprint [old]) (cert_fingerprint_key (cs_Fingerprint (cert_spec cert)))")
      (auto simp: cert_spec_def cert_fingerprint_key_def)
  moreover have "map_of (certs_index ce_Name [old]) (cert_fingerprint_key (cert_Name cert)) = Some old"
    using assms(3,5) nonempty by (simp add: certs_index_def)
  ultimately have "cert_lookup (certs_index ce_Fingerprint [old]) (certs_index ce_Name [old]) (cert_spec cert) = Some old"
    by (simp add: cert_lookup_def Let_def key)
  then have "cert_step A lb vs ?st cert h' = (Inr (?st\<lparr>cst_out := [cert_observed cert old]\<rparr>), h' @ [BindCertificate lb vs (ce_ID old)])" for h'
    using assms(2,3,7,8) nonempty
    by (simp add: cert_step_def Let_def key cert_bind_def bindToVirtualServer_def do_BindCertificate_def
        run_bind run_wrap run_invoke run_return)
  then show ?thesis
    using assms(1,2)
    by (simp add: CertificateManager_Ensure_def do_ListCertificates_def run_bind run_wrap run_invoke run_return run_range)
qed

definition demo_cert :: M_Certificate where
  "demo_cert = \<lparr>cert_Name = ''tls'', cert_SecretName = ''tls'', cert_Hosts = [], cert_Fingerprint = ''new'',
     cert_Certificate = ''CERT2'', cert_PrivateKey = ''KEY2'', cert_CA = [], cert_Ownership = zero_ownership\<rparr>"

definition old_cert :: CertificateResource where
  "old_cert = \<lparr>ce_ID = ''9'', ce_Name = ''TLS'', ce_Fingerprint = ''old'', ce_SecretName = ''tls'', ce_Certificate = ''CERT1'',
     ce_PrivateKey = ''KEY1'', ce_CA = [], ce_HostNames = []\<rparr>"

definition cert_cmp :: cmp where
  "cert_cmp = empty_cmp\<lparr>r_ListCertificates := (\<lambda>lb h. Inr [old_cert])\<rparr>"

theorem cert_rotation_ignored_witness:
  "CertificateManager_Ensure cert_cmp ''lb'' ''vs'' [demo_cert] [] [] =
     (Inr ([cert_observed demo_cert old_cert], False), [ListCertificates ''lb'', BindCertificate ''lb'' ''vs'' ''9''])"
proof -
  have facts: "trim_space ''lb'' \<noteq> []" "trim_space (ce_ID old_cert) \<noteq> []" "trim_space (cert_Name demo_cert) \<noteq> []"
    "cert_fingerprint_key (ce_Name old_cert) = cert_fingerprint_key (cert_Name demo_cert)"
    "cert_fingerprint_key (ce_Fingerprint old_cert) \<noteq> cert_fingerprint_key (cert_Fingerprint demo_cert)"
    "trim_space ''vs'' \<noteq> []"
    by code_simp+
  have "r_ListCertificates cert_cmp ''lb'' [] = Inr [old_cert]" "ce_ID old_cert = ''9''"
    and bind: "\<And>h. r_BindCertificate cert_cmp ''lb'' ''vs'' (ce_ID old_cert) h = Inr ()"
    by (simp_all add: cert_cmp_def empty_cmp_def old_cert_def)
  then show ?thesis
    using cert_rotation_ignored [OF _ facts, of cert_cmp "[]"] by simp
qed

subsection \<open>Scope\<close>

definition cert_manager :: "cmp \<Rightarrow> string \<Rightarrow> string \<times> M_Certificate list \<times> ObservedResource gomap \<Rightarrow>
    (ObservedResource list \<times> bool) io" where
  "cert_manager A lb q = (case q of (vs, desired, observed) \<Rightarrow> CertificateManager_Ensure A lb vs desired observed)"

lemma CertificateManager_Ensure_in_lb: "emits (in_lb lb) (CertificateManager_Ensure A lb vs desired observed)"
proof -
  have "emits (in_lb lb) (cert_step A lb vs st cert)" for st cert
    unfolding cert_step_def cert_upload_def cert_bind_def bindToVirtualServer_def do_UploadCertificate_def
      do_BindCertificate_def Let_def
    by (auto simp: in_lb_def)
  moreover have "emits (in_lb lb) (cert_prune A lb vs desired ch e)" for ch e
    unfolding cert_prune_def unbindFromVirtualServer_def do_UnbindCertificate_def do_DeleteCertificate_def
    by (cases e) (auto simp: in_lb_def)
  ultimately show ?thesis
    unfolding CertificateManager_Ensure_def do_ListCertificates_def
    by (auto simp: in_lb_def intro!: emits_fold)
qed

interpretation cert_scope: lb_scoped cert_manager
  by unfold_locales (auto simp: cert_manager_def split: prod.splits intro!: CertificateManager_Ensure_in_lb)

end
