(* ===== verification/Hashes.thy ===== *)
theory Hashes
  imports Model Sha256 "HOL-Library.Product_Lexorder" "HOL-Library.Multiset"
begin

text \<open>
  \<open>DesiredBackendHash\<close> and \<open>DesiredVirtualServerHash\<close> of \<open>pkg/deploy/lbaas/deployer.go\<close>:
  the fingerprints that decide whether a virtual server is replaced.
\<close>

text \<open>The sort key of \<open>sort.Slice\<close>; strings compare bytewise, ports and weights as signed.\<close>

definition backend_sort_key :: "BackendMember \<Rightarrow> string \<times> int \<times> int" where
  "backend_sort_key b = (bm_IP b, sint (bm_Port b), bm_Weight b)"

definition backend_text :: "BackendMember \<Rightarrow> string" where
  "backend_text b = bm_IP b @ '':'' @ show_i32 (bm_Port b) @ '':'' @ show_int (bm_Weight b) @ '';''"

definition backends_text :: "int32 \<Rightarrow> int32 \<Rightarrow> BackendMember list \<Rightarrow> string" where
  "backends_text frontendPort nodePort backends =
     ''frontend='' @ show_i32 frontendPort @ '';nodeport='' @ show_i32 nodePort @ '';'' @
     concat (map backend_text (sort_key backend_sort_key backends))"

definition DesiredBackendHash :: "int32 \<Rightarrow> int32 \<Rightarrow> BackendMember list \<Rightarrow> string" where
  "DesiredBackendHash frontendPort nodePort backends = sha256_hex (backends_text frontendPort nodePort backends)"

definition monitor_text :: "Monitor \<Rightarrow> string" where
  "monitor_text m = ''monitor='' @ mon_Name m @ '':'' @ mon_Type m @ '':'' @ mon_Path m @ '':'' @ show_i32 (mon_Interval m) @
     '':'' @ show_i32 (mon_Port m) @ '':'' @ show_i32 (mon_Timeout m) @ '';''"

definition virtual_server_text :: "M_VirtualServer \<Rightarrow> BackendMember list \<Rightarrow> string" where
  "virtual_server_text vs backends =
     ''frontend='' @ show_i32 (vs_FrontendPort vs) @ '';nodeport='' @ show_i32 (vs_BackendNodePort vs) @
     '';name='' @ vs_Name vs @ '';protocol='' @ vs_Protocol vs @ '';algorithm='' @ vs_RoutingAlgorithm vs @
     '';persistence='' @ vs_PersistenceType vs @ '';draining='' @ show_i32 (vs_DrainingTimeout vs) @
     '';ranges='' @ join '','' (sort (vs_SourceRanges vs)) @ '';default-pool='' @ vs_DefaultPoolName vs @ '';'' @
     (case vs_Monitor vs of None \<Rightarrow> [] | Some m \<Rightarrow> monitor_text m) @
     ''backends='' @ DesiredBackendHash (vs_FrontendPort vs) (vs_BackendNodePort vs) backends"

definition DesiredVirtualServerHash :: "M_VirtualServer \<Rightarrow> BackendMember list \<Rightarrow> string" where
  "DesiredVirtualServerHash vs backends = sha256_hex (virtual_server_text vs backends)"

subsection \<open>What the hash depends on\<close>

text \<open>The rendering of a backend is a function of its sort key.\<close>

fun key_text :: "string \<times> int \<times> int \<Rightarrow> string" where
  "key_text (ip, port, weight) = ip @ '':'' @ show_int port @ '':'' @ show_int weight @ '';''"

lemma backend_text_key: "backend_text b = key_text (backend_sort_key b)"
  by (simp add: backend_text_def backend_sort_key_def show_i32_def)

lemma map_sort_key: "map f (sort_key f xs) = sort (map f xs)"
  by (rule properties_for_sort [symmetric]) (simp_all add: mset_map)

lemma backends_text_keys:
  "backends_text fp np bs =
     ''frontend='' @ show_i32 fp @ '';nodeport='' @ show_i32 np @ '';'' @ concat (map key_text (sort (map backend_sort_key bs)))"
proof -
  have "map backend_text (sort_key backend_sort_key bs) = map key_text (map backend_sort_key (sort_key backend_sort_key bs))"
    by (simp add: backend_text_key)
  then show ?thesis unfolding backends_text_def map_sort_key by simp
qed

lemma backends_text_mset:
  assumes "mset bs = mset bs'"
  shows "backends_text fp np bs = backends_text fp np bs'"
proof -
  have "sort (map backend_sort_key bs) = sort (map backend_sort_key bs')"
    using arg_cong [OF assms, of "image_mset backend_sort_key"]
    by (metis mset_map properties_for_sort sorted_sort mset_sort)
  then show ?thesis by (simp add: backends_text_keys)
qed

text \<open>
  The hash of a virtual server does not depend on the order in which the backends or the
  source ranges are listed: a change of the order alone never replaces the listener.
\<close>

theorem DesiredVirtualServerHash_order:
  assumes "mset backends = mset backends'" "mset ranges = mset (vs_SourceRanges vs)"
  shows "DesiredVirtualServerHash (vs\<lparr>vs_SourceRanges := ranges\<rparr>) backends' = DesiredVirtualServerHash vs backends"
proof -
  have "backends_text fp np backends = backends_text fp np backends'" for fp np
    using assms(1) by (rule backends_text_mset)
  moreover have "sort ranges = sort (vs_SourceRanges vs)"
    using assms(2) by (metis properties_for_sort sorted_sort mset_sort)
  ultimately show ?thesis
    by (simp add: DesiredVirtualServerHash_def virtual_server_text_def DesiredBackendHash_def)
qed

definition demo_ranges :: "string list" where
  "demo_ranges = [''10.0.0.0/8'', ''192.168.0.0/16'']"

definition demo_backends :: "BackendMember list" where
  "demo_backends = map (\<lambda>ip. \<lparr>bm_NodeName = ip, bm_ProviderID = [], bm_ComputeID = ip, bm_IP = ip, bm_Port = 30080, bm_Weight = 1\<rparr>)
     [''10.0.0.2'', ''10.0.0.1'']"

theorem DesiredVirtualServerHash_order_witness:
  "DesiredVirtualServerHash (zero_virtual_server\<lparr>vs_SourceRanges := rev demo_ranges\<rparr>) (rev demo_backends) =
   DesiredVirtualServerHash (zero_virtual_server\<lparr>vs_SourceRanges := demo_ranges\<rparr>) demo_backends"
  using DesiredVirtualServerHash_order [of demo_backends "rev demo_backends" "rev demo_ranges"
      "zero_virtual_server\<lparr>vs_SourceRanges := demo_ranges\<rparr>"]
  by simp

text \<open>
  The hash ignores which compute instance a backend runs on, although the creation request
  carries it: a node replaced by another instance with the same address, port and weight keeps
  the hash, and the listener keeps its old members.
\<close>

theorem DesiredVirtualServerHash_ignores_compute:
  "DesiredVirtualServerHash vs (map (\<lambda>b. b\<lparr>bm_ComputeID := compute b, bm_ProviderID := provider b, bm_NodeName := node b\<rparr>) bs) =
   DesiredVirtualServerHash vs bs"
proof -
  let ?f = "\<lambda>b. b\<lparr>bm_ComputeID := compute b, bm_ProviderID := provider b, bm_NodeName := node b\<rparr>"
  have "map backend_sort_key (map ?f bs) = map backend_sort_key bs"
    by (simp add: backend_sort_key_def)
  then have "backends_text fp np (map ?f bs) = backends_text fp np bs" for fp np
    unfolding backends_text_keys by (simp only:)
  then show ?thesis
    by (simp only: DesiredVirtualServerHash_def virtual_server_text_def DesiredBackendHash_def)
qed

subsection \<open>What the hash distinguishes\<close>

lemma separator_unique:
  assumes "a @ c # x = b @ c # y" "c \<notin> set a" "c \<notin> set b"
  shows "a = b \<and> x = y"
  using assms
proof (induction a arbitrary: b)
  case Nil
  then show ?case by (cases b) auto
next
  case (Cons d a)
  then show ?case by (cases b) auto
qed

lemma show_int_separator: "c \<in> {CHR '':'', CHR '';'', CHR '',''} \<Longrightarrow> c \<notin> set (show_int i)"
  using show_int_chars by (fastforce simp: is_digit_def)

definition plain_ip :: "string \<Rightarrow> bool" where
  "plain_ip ip \<longleftrightarrow> CHR '':'' \<notin> set ip \<and> CHR '';'' \<notin> set ip"

lemma key_text_prefix_unique:
  assumes "key_text k @ x = key_text k' @ y" "plain_ip (fst k)" "plain_ip (fst k')"
  shows "k = k' \<and> x = y"
proof -
  obtain ip p w ip' p' w' where k: "k = (ip, p, w)" "k' = (ip', p', w')" by (metis prod_cases3)
  from assms have e1: "ip @ CHR '':'' # show_int p @ CHR '':'' # show_int w @ CHR '';'' # x =
      ip' @ CHR '':'' # show_int p' @ CHR '':'' # show_int w' @ CHR '';'' # y"
    "CHR '':'' \<notin> set ip" "CHR '':'' \<notin> set ip'"
    by (simp_all add: k plain_ip_def)
  from separator_unique [OF e1] have ip: "ip = ip'"
    and e2: "show_int p @ CHR '':'' # show_int w @ CHR '';'' # x = show_int p' @ CHR '':'' # show_int w' @ CHR '';'' # y"
    by auto
  from separator_unique [OF e2] have p: "show_int p = show_int p'"
    and e3: "show_int w @ CHR '';'' # x = show_int w' @ CHR '';'' # y"
    by (auto simp: show_int_separator)
  from separator_unique [OF e3] have "show_int w = show_int w'" "x = y" by (auto simp: show_int_separator)
  with ip p show ?thesis by (simp add: k show_int_inj)
qed

lemma key_texts_unique:
  assumes "concat (map key_text ks) = concat (map key_text ks')"
    and "\<forall>k \<in> set ks. plain_ip (fst k)" "\<forall>k \<in> set ks'. plain_ip (fst k)"
  shows "ks = ks'"
  using assms
proof (induction ks arbitrary: ks')
  case Nil
  have "key_text k \<noteq> []" for k by (cases k) simp
  with Nil show ?case by (cases ks') auto
next
  case (Cons k ks)
  have "key_text k \<noteq> []" by (cases k) simp
  with Cons.prems(1) obtain k' ks'' where ks': "ks' = k' # ks''" by (cases ks') auto
  from Cons.prems have "k = k' \<and> concat (map key_text ks) = concat (map key_text ks'')"
    by (intro key_text_prefix_unique) (auto simp: ks')
  with Cons.IH [of ks''] Cons.prems show ?case by (simp add: ks')
qed

text \<open>
  Up to a collision of SHA-256 the backend hash tells different backend sets apart: the text
  it is computed from determines the frontend port, the node port and the multiset of address,
  port and weight of the backends, for addresses without \<open>:\<close> and \<open>;\<close> (IPv4).
\<close>

theorem backends_text_injective:
  assumes "backends_text fp np bs = backends_text fp' np' bs'"
    and "\<forall>b \<in> set bs. plain_ip (bm_IP b)" "\<forall>b \<in> set bs'. plain_ip (bm_IP b)"
  shows "fp = fp' \<and> np = np' \<and> mset (map backend_sort_key bs) = mset (map backend_sort_key bs')"
proof -
  let ?T = "\<lambda>bs. concat (map key_text (sort (map backend_sort_key bs)))"
  from assms(1) have e1: "show_i32 fp @ CHR '';'' # (''nodeport='' @ show_i32 np @ '';'' @ ?T bs) =
      show_i32 fp' @ CHR '';'' # (''nodeport='' @ show_i32 np' @ '';'' @ ?T bs')"
    by (simp add: backends_text_keys)
  have sep: "CHR '';'' \<notin> set (show_i32 w)" for w by (simp add: show_i32_def show_int_separator)
  from separator_unique [OF e1 sep sep] have fp: "show_i32 fp = show_i32 fp'"
    and e2: "show_i32 np @ CHR '';'' # ?T bs = show_i32 np' @ CHR '';'' # ?T bs'" by auto
  from separator_unique [OF e2 sep sep] have np: "show_i32 np = show_i32 np'" and t: "?T bs = ?T bs'" by auto
  have "sort (map backend_sort_key bs) = sort (map backend_sort_key bs')"
    by (rule key_texts_unique [OF t]) (use assms(2,3) in \<open>auto simp: backend_sort_key_def\<close>)
  then have "mset (map backend_sort_key bs) = mset (map backend_sort_key bs')" by (metis mset_sort)
  with fp np show ?thesis by (simp add: show_i32_inj)
qed

theorem backends_text_injective_witness:
  "mset (map backend_sort_key (rev demo_backends)) = mset (map backend_sort_key demo_backends)"
proof -
  have "backends_text 80 30080 (rev demo_backends) = backends_text 80 30080 demo_backends"
    by (rule backends_text_mset) simp
  moreover have "\<forall>b \<in> set demo_backends. plain_ip (bm_IP b)" by (simp add: demo_backends_def plain_ip_def)
  ultimately show ?thesis
    using backends_text_injective [of 80 30080 "rev demo_backends" 80 30080 demo_backends] by simp
qed

end
