(* ===== verification/Deployer.thy ===== *)
theory Deployer
  imports Obsolete VipManager VirtualServerManager Certificates Hashes
begin

text \<open>
  \<open>EnsureStack\<close> and \<open>Ensure\<close> of \<open>pkg/deploy/lbaas/deployer.go\<close>: one reconciliation of a stack, in
  dependency order.  On an error Go returns no result, so the observed state of a failed pass is
  lost except for what the hook saved.
\<close>

record StackEnsureRequest =
  sr_Stack :: "LoadBalancerStack option"
  sr_Current :: ObservedState
  sr_StrictLBServiceID :: bool
  sr_StrictVIPPortID :: bool
  sr_RecoverVirtualServersByName :: bool
  sr_LBReadyHook :: bool
  sr_NetworkIDExplicit :: bool
  sr_AggregateVirtualServer :: bool

subsection \<open>Preconditions and placement\<close>

definition es_preconditions :: "deployer \<Rightarrow> StackEnsureRequest \<Rightarrow> LoadBalancerStack \<Rightarrow> err option" where
  "es_preconditions d req stack =
     (if st_VirtualServers stack = [] then Some (Errorf ''load-balancer stack has no virtual servers'' [])
      else if st_Pools stack \<noteq> [] \<and> \<not> dp_pools d \<and> \<not> sr_AggregateVirtualServer req
      then Some (Errorf ''pool reconciliation requires a PoolManager'' [])
      else if st_RoutingRules stack \<noteq> [] \<and> \<not> dp_routingRules d
      then Some (Errorf ''routing-rule reconciliation requires a RoutingRuleManager'' [])
      else if st_Certificates stack \<noteq> [] \<and> \<not> dp_certificates d
      then Some (Errorf ''certificate reconciliation requires a CertificateManager'' [])
      else None)"

definition explicit_network_error :: "string \<Rightarrow> string \<Rightarrow> Network \<Rightarrow> err option" where
  "explicit_network_error netID vpcID network =
     (let status = to_lower (trim_space (nw_Status network))
      in if trim_space (nw_VPCID network) = [] then Some (Errorf ''explicit subnet %q response has no VPC identity'' [netID])
         else if trim_space (nw_VPCID network) \<noteq> trim_space vpcID
         then Some (Errorf ''explicit subnet %q belongs to VPC %q, expected %q'' [netID, nw_VPCID network, vpcID])
         else if status \<in> {''active'', ''allocated'', ''available'', ''created'', ''ready''} then None
         else if status = [] then Some (Errorf ''explicit subnet %q response has no status'' [netID])
         else Some (Errorf ''explicit subnet %q is not usable: status %q'' [netID, nw_Status network]))"

definition es_explicit_network :: "cmp \<Rightarrow> deployer \<Rightarrow> StackEnsureRequest \<Rightarrow> LoadBalancerStack \<Rightarrow> string \<Rightarrow> unit io" where
  "es_explicit_network A d req stack netID =
     (if \<not> sr_NetworkIDExplicit req then io_return ()
      else if \<not> dp_networks d
      then io_fail (Errorf ''validating explicit subnet %q: CMP network lookup capability is unavailable'' [netID])
      else io_bind (io_wrap ''validating explicit subnet %q: %w'' [netID] (do_GetNetwork A netID))
             (\<lambda>network. io_check (explicit_network_error netID (ml_VPCID (st_LBService stack)) network) (io_return ())))"

text \<open>The request for the LB service manager; only the placement fields are set in the adoption
  check, and the fields of the single-listener entry point stay zero.\<close>

definition lb_request :: "LoadBalancerStack \<Rightarrow> string \<Rightarrow> ObservedState \<Rightarrow> EnsureRequest" where
  "lb_request stack netID observed =
     \<lparr>er_LBName = ml_Name (st_LBService stack), er_LBDescription = ml_Description (st_LBService stack),
      er_FlavorID = ml_FlavorID (st_LBService stack), er_NetworkID = netID, er_VPCID = ml_VPCID (st_LBService stack),
      er_VPCName = ml_VPCName (st_LBService stack), er_Region = ml_Region (st_LBService stack),
      er_VirtualServer = hd (st_VirtualServers stack), er_Backends = [], er_Current = observed, er_CurrentHash = [],
      er_RecreateWhenHashMissing = False, er_StrictLBServiceID = False, er_StrictVIPPortID = False,
      er_RecoverVirtualServerByName = False\<rparr>"

definition placement_request :: "LoadBalancerStack \<Rightarrow> EnsureRequest" where
  "placement_request stack =
     \<lparr>er_LBName = [], er_LBDescription = [], er_FlavorID = 0, er_NetworkID = [], er_VPCID = ml_VPCID (st_LBService stack),
      er_VPCName = [], er_Region = ml_Region (st_LBService stack), er_VirtualServer = zero_virtual_server, er_Backends = [],
      er_Current = zero_state, er_CurrentHash = [], er_RecreateWhenHashMissing = False, er_StrictLBServiceID = False,
      er_StrictVIPPortID = False, er_RecoverVirtualServerByName = False\<rparr>"

text \<open>The effective subnet: that of a supplied LB service unless the customer chose one.\<close>

definition es_network :: "cmp \<Rightarrow> StackEnsureRequest \<Rightarrow> LoadBalancerStack \<Rightarrow> ObservedState \<Rightarrow> string \<Rightarrow> string io" where
  "es_network A req stack observed netID =
     (if sr_StrictLBServiceID req \<and> \<not> sr_NetworkIDExplicit req \<and> trim_space (LBServiceID observed) \<noteq> []
      then io_bind (io_wrap ''checking supplied LBService %q placement: %w'' [LBServiceID observed]
                      (do_GetLBService A (LBServiceID observed)))
             (\<lambda>supplied. io_check (validateLBServicePlacement supplied (placement_request stack))
                (if trim_space (lb_NetworkID supplied) = []
                 then io_fail (Errorf ''supplied LBService %q response has no subnet identity'' [lb_ID supplied])
                 else io_return (trim_space (lb_NetworkID supplied))))
      else io_return netID)"

subsection \<open>The LB service and its checkpoint\<close>

definition record_lb :: "LoadBalancerStack \<Rightarrow> string \<Rightarrow> ObservedState \<Rightarrow> ObservedState" where
  "record_lb stack lbID s =
     s\<lparr>LBServiceID := lbID,
       Graph := (Graph s)\<lparr>g_LBServices := gm_set (ml_Name (st_LBService stack))
         (zero_observed\<lparr>LogicalID := ml_Name (st_LBService stack), ExternalID := lbID, or_Name := ml_Name (st_LBService stack),
            or_Ownership := ml_Ownership (st_LBService stack)\<rparr>) (g_LBServices (Graph s))\<rparr>\<rparr>"

definition es_hook :: "cmp \<Rightarrow> StackEnsureRequest \<Rightarrow> ObservedState \<Rightarrow> unit io" where
  "es_hook A req observed = (if sr_LBReadyHook req then do_LBReady A observed else io_return ())"

text \<open>A pending or terminal LB service is checkpointed before the error is returned.\<close>

definition es_checkpoint :: "cmp \<Rightarrow> StackEnsureRequest \<Rightarrow> LoadBalancerStack \<Rightarrow> (string \<times> string \<times> string \<times> string) option \<Rightarrow>
    ObservedState \<Rightarrow> ObservedState io" where
  "es_checkpoint A req stack found observed =
     (case found of
        None \<Rightarrow> io_return observed
      | Some (ty, rid, st, dt) \<Rightarrow>
          if ty = ''LBService'' \<and> trim_space rid \<noteq> []
          then io_bind (es_hook A req (record_lb stack (trim_space rid) observed))
                 (\<lambda>_. io_return (record_lb stack (trim_space rid) observed))
          else io_return observed)"

definition es_lb :: "cmp \<Rightarrow> deployer \<Rightarrow> StackEnsureRequest \<Rightarrow> LoadBalancerStack \<Rightarrow> string \<Rightarrow> ObservedState \<Rightarrow>
    (string \<times> bool \<times> ObservedState) io" where
  "es_lb A d req stack netID observed =
     io_try (LBServiceManager_Ensure A (dp_vpcID d) (lb_request stack netID observed) (LBServiceID observed) (sr_StrictLBServiceID req))
       (\<lambda>r. case r of
          Inl e \<Rightarrow>
            io_bind (es_checkpoint A req stack (IsProvisioningPending e) observed)
              (\<lambda>observed. io_bind (es_checkpoint A req stack (IsTerminalProvisioning e) observed) (\<lambda>_. io_fail e))
        | Inr (lbID, changed) \<Rightarrow>
            let observed = record_lb stack lbID observed
            in io_bind (es_hook A req observed) (\<lambda>_. io_return (lbID, changed, observed)))"

subsection \<open>Recovery of listeners by name\<close>

definition recover_found :: "VirtualServer list \<Rightarrow> VirtualServer gomap \<Rightarrow> M_VirtualServer \<Rightarrow> VirtualServer gomap io" where
  "recover_found listeners found want =
     io_bind (io_of_result (findUniqueVirtualServerByName listeners (vs_Name want)))
       (\<lambda>i. if i = [] then io_return found
          else io_return (case find (\<lambda>c. trim_space (cv_ID c) = i) listeners of
             None \<Rightarrow> found | Some c \<Rightarrow> gm_set (vs_Name want) c found))"

text \<open>The VIP of the recovered listeners, by the ID a listener names.\<close>

definition recover_by_vip_id :: "cmp \<Rightarrow> string \<Rightarrow> string \<Rightarrow> VirtualServer \<Rightarrow> (string \<times> string) io" where
  "recover_by_vip_id A lb sn vs =
     io_bind (do_ListVIPs A lb sn)
       (\<lambda>vips. case find (\<lambda>vip. trim_space (vip_ID vip) = trim_space (cv_VIPPortID vs)) vips of
          Some vip \<Rightarrow> io_return (trim_space (cv_VIPPortID vs), trim_space (vip_Address vip))
        | None \<Rightarrow> io_fail (Errorf ''virtual server %q references VIP %q that does not exist under LB %s''
                           [cv_Name vs, trim_space (cv_VIPPortID vs), lb]))"

definition recover_single_vip :: "cmp \<Rightarrow> string \<Rightarrow> string \<Rightarrow> (string \<times> string) io" where
  "recover_single_vip A lb sn =
     io_bind (do_ListVIPs A lb sn)
       (\<lambda>vips. case vips of
          [vip] \<Rightarrow> io_return (trim_space (vip_ID vip), trim_space (vip_Address vip))
        | _ \<Rightarrow> io_fail (Errorf ''recovered virtual server(s) exist on LB %s but VIP could not be resolved safely; set vip-port-id annotation explicitly'' [lb]))"

definition recover_by_address :: "cmp \<Rightarrow> string \<Rightarrow> string \<Rightarrow> string list \<Rightarrow> (string \<times> string) io" where
  "recover_by_address A lb sn candidates =
     (case candidates of
        [] \<Rightarrow> recover_single_vip A lb sn
      | [candidate] \<Rightarrow>
          io_bind (do_ListVIPs A lb sn)
            (\<lambda>vips. case filter (\<lambda>vip. trim_space (vip_Address vip) = candidate) vips of
               [] \<Rightarrow> recover_single_vip A lb sn
             | [vip] \<Rightarrow> io_return (trim_space (vip_ID vip), trim_space (vip_Address vip))
             | _ \<Rightarrow> io_fail (Errorf ''recovered virtual server(s) on LB %s map to VIP address %q but multiple VIP IDs share that address; set vip-port-id annotation explicitly'' [lb, candidate]))
      | _ \<Rightarrow> io_fail (Errorf ''recovered virtual server(s) exist on LB %s but expose multiple VIP addresses; set vip-port-id annotation explicitly'' [lb]))"

definition recoverVirtualServersByName :: "cmp \<Rightarrow> string \<Rightarrow> string \<Rightarrow> M_VirtualServer list \<Rightarrow>
    (VirtualServer gomap \<times> string \<times> string) io" where
  "recoverVirtualServersByName A lb sn desired =
     io_bind (do_ListVirtualServers A lb)
       (\<lambda>listeners. io_bind (io_fold (recover_found listeners) desired [])
         (\<lambda>found. if found = [] then io_return (found, [], [])
            else io_bind (io_range A found
                   (\<lambda>es. case find (\<lambda>(name, vs). trim_space (cv_VIPPortID vs) \<noteq> []) es of
                      Some (name, vs) \<Rightarrow> recover_by_vip_id A lb sn vs
                    | None \<Rightarrow> recover_by_address A lb sn
                        (remdups (filter (\<lambda>a. a \<noteq> []) (map (\<lambda>(name, vs). trim_space (cv_VIPAddress vs)) es)))))
                   (\<lambda>(vipID, addr). io_return (found, vipID, addr))))"

definition record_vs :: "M_VirtualServer \<Rightarrow> string \<Rightarrow> string \<Rightarrow> string \<Rightarrow> ObservedState \<Rightarrow> ObservedState" where
  "record_vs vs i name hash =
     upd_VirtualServers (gm_set (vs_Name vs)
       (zero_observed\<lparr>LogicalID := vs_Name vs, ExternalID := i, or_Name := name, DesiredHash := hash, or_Ownership := vs_Ownership vs\<rparr>))"

definition es_recover :: "cmp \<Rightarrow> StackEnsureRequest \<Rightarrow> LoadBalancerStack \<Rightarrow> string \<Rightarrow> string \<Rightarrow> ObservedState \<Rightarrow> ObservedState io" where
  "es_recover A req stack lb netID observed =
     (if sr_RecoverVirtualServersByName req \<and> trim_space (VIPPortID observed) = []
      then io_bind (recoverVirtualServersByName A lb netID (st_VirtualServers stack))
        (\<lambda>(found, vipID, vipAddress).
           let observed = fold (\<lambda>vs s. case map_of found (vs_Name vs) of
                 None \<Rightarrow> s
               | Some recovered \<Rightarrow> record_vs vs (cv_ID recovered) (cv_Name recovered)
                   (DesiredVirtualServerHash vs (stackBackends stack vs)) s) (st_VirtualServers stack) observed
           in io_return (if vipID \<noteq> [] then observed\<lparr>VIPPortID := vipID, VIPAddress := vipAddress\<rparr> else observed))
      else io_return observed)"

subsection \<open>VIP, listeners and their children\<close>

definition record_vip :: "LoadBalancerStack \<Rightarrow> string \<Rightarrow> string \<Rightarrow> ObservedState \<Rightarrow> ObservedState" where
  "record_vip stack i addr s =
     s\<lparr>VIPPortID := i, VIPAddress := addr,
       Graph := (Graph s)\<lparr>g_VIPs := gm_set (mv_Name (st_VIP stack))
         (zero_observed\<lparr>LogicalID := mv_Name (st_VIP stack), ExternalID := i, or_Name := mv_Name (st_VIP stack), or_Address := addr,
            or_Ownership := mv_Ownership (st_VIP stack)\<rparr>) (g_VIPs (Graph s))\<rparr>\<rparr>"

text \<open>\<open>aggregatePool\<close>: the default pool a listener is created with; the outer option is the error.\<close>

definition es_aggregate_pool :: "StackEnsureRequest \<Rightarrow> LoadBalancerStack \<Rightarrow> M_VirtualServer \<Rightarrow> err + M_Pool option" where
  "es_aggregate_pool req stack vs =
     (if \<not> sr_AggregateVirtualServer req then Inr None
      else case find (\<lambda>pool. pool_Name pool = vs_DefaultPoolName vs) (st_Pools stack) of
        None \<Rightarrow> Inl (Errorf ''virtual server %q has no aggregate default pool %q'' [vs_Name vs, vs_DefaultPoolName vs])
      | Some pool \<Rightarrow> Inr (Some pool))"

definition es_vs_request :: "StackEnsureRequest \<Rightarrow> LoadBalancerStack \<Rightarrow> string \<Rightarrow> string \<Rightarrow> string \<Rightarrow> M_VirtualServer \<Rightarrow>
    M_Pool option \<Rightarrow> ObservedState \<Rightarrow> VirtualServerEnsureRequest" where
  "es_vs_request req stack lb vip netID vs pool observed =
     (let backends = stackBackends stack vs;
          recordedID = ext_at (g_VirtualServers (Graph observed)) (vs_Name vs)
      in \<lparr>vr_LBServiceID = lb, vr_VIPPortID = vip, vr_NetworkID = netID, vr_Region = ml_Region (st_LBService stack),
          vr_Desired = vs, vr_Backends = backends, vr_Pool = pool,
          vr_CurrentID = (if recordedID = [] \<and> length (st_VirtualServers stack) = 1 then VirtualServerID observed else recordedID),
          vr_CurrentHash = DesiredHash (gm_index zero_observed (g_VirtualServers (Graph observed)) (vs_Name vs)),
          vr_DesiredHash = DesiredVirtualServerHash vs backends,
          vr_RecreateWhenHashMissing = True, vr_RecoverByName = sr_RecoverVirtualServersByName req\<rparr>)"

definition es_record_vs :: "LoadBalancerStack \<Rightarrow> M_VirtualServer \<Rightarrow> string \<Rightarrow> string \<Rightarrow> ObservedState \<Rightarrow> ObservedState" where
  "es_record_vs stack vs i name s =
     (let s = record_vs vs i name (DesiredVirtualServerHash vs (stackBackends stack vs)) s
      in if length (st_VirtualServers stack) = 1 then s\<lparr>VirtualServerID := i, VirtualServerName := name\<rparr> else s)"

definition es_certificates :: "cmp \<Rightarrow> LoadBalancerStack \<Rightarrow> string \<Rightarrow> M_VirtualServer \<Rightarrow> string \<Rightarrow> ObservedState \<times> bool \<Rightarrow>
    (ObservedState \<times> bool) io" where
  "es_certificates A stack lb vs vsID st =
     (case st of (observed, changed) \<Rightarrow>
        if st_Certificates stack \<noteq> [] \<and> equal_fold (vs_Protocol vs) ''HTTPS''
        then io_bind (CertificateManager_Ensure A lb vsID (st_Certificates stack) (g_Certificates (Graph observed)))
               (\<lambda>(certObserved, certChanged). io_return
                  (observed\<lparr>Graph := (Graph observed)\<lparr>g_Certificates := fold (\<lambda>c. gm_set (LogicalID c) c) certObserved []\<rparr>\<rparr>,
                   changed \<or> certChanged))
        else io_return (observed, changed))"

text \<open>One pool of a listener; the third component of the state is \<open>poolIDs\<close>.\<close>

definition record_pool :: "M_VirtualServer \<Rightarrow> M_Pool \<Rightarrow> PoolResource \<Rightarrow> ObservedState \<Rightarrow> ObservedState" where
  "record_pool vs pool resource s =
     (let key = vs_Name vs @ ''/'' @ pool_Name pool;
          s = upd_Pools (gm_set key (zero_observed\<lparr>LogicalID := key, ExternalID := po_ID resource, or_Name := po_Name resource,
                or_Ownership := pool_Ownership pool\<rparr>)) s;
          s = upd_Members (filter (\<lambda>(k, r). graphPoolKey k \<noteq> key)) s
      in fold (\<lambda>m. let mkey = key @ ''/'' @ member_key m
               in upd_Members (gm_set mkey (zero_observed\<lparr>LogicalID := mkey, ExternalID := pm_ID m,
                    or_Name := pm_ResourceIP m @ '':'' @ show_i32 (pm_Port m), or_Ownership := pool_Ownership pool\<rparr>)))
           (po_Members resource) s)"

definition es_monitor :: "cmp \<Rightarrow> deployer \<Rightarrow> string \<Rightarrow> M_VirtualServer \<Rightarrow> string \<Rightarrow> M_Pool \<Rightarrow> PoolResource \<Rightarrow>
    ObservedState \<times> bool \<Rightarrow> (ObservedState \<times> bool) io" where
  "es_monitor A d lb vs vsID pool resource st =
     (case st of (observed, changed) \<Rightarrow>
        if \<not> dp_monitors d then io_return (observed, changed)
        else io_bind (MonitorManager_Ensure A lb vsID (po_ID resource) (pool_Monitor pool))
          (\<lambda>(monitor, monitorChanged).
             let key = vs_Name vs @ ''/'' @ pool_Name pool
             in io_return (if mr_ID monitor \<noteq> []
                  then upd_Monitors (gm_set key (zero_observed\<lparr>LogicalID := key, ExternalID := mr_ID monitor,
                         or_Name := mr_Name monitor, or_Ownership := pool_Ownership pool\<rparr>)) observed
                  else observed, changed \<or> monitorChanged)))"

definition es_pool :: "cmp \<Rightarrow> deployer \<Rightarrow> string \<Rightarrow> M_VirtualServer \<Rightarrow> string \<Rightarrow> ObservedState \<times> bool \<times> string gomap \<Rightarrow>
    M_Pool \<Rightarrow> (ObservedState \<times> bool \<times> string gomap) io" where
  "es_pool A d lb vs vsID st pool =
     (case st of (observed, changed, poolIDs) \<Rightarrow>
        io_bind (poolMemberSpecs A (dp_vpcID d) (pool_Members pool))
          (\<lambda>memberSpecs. io_bind (PoolManager_EnsureOwned A lb vsID pool memberSpecs (pool_Name pool = vs_DefaultPoolName vs)
                (ext_at (g_Pools (Graph observed)) (vs_Name vs @ ''/'' @ pool_Name pool)))
            (\<lambda>(resource, poolChanged).
               io_bind (es_monitor A d lb vs vsID pool resource (record_pool vs pool resource observed, changed \<or> poolChanged))
                 (\<lambda>(observed, changed). io_return (observed, changed, gm_set (pool_Name pool) (po_ID resource) poolIDs)))))"

text \<open>The desired rules of a listener, each with the ID of its pool.\<close>

fun es_rule_specs :: "M_VirtualServer \<Rightarrow> string gomap \<Rightarrow> M_RoutingRule list \<Rightarrow> err + RoutingRuleSpec list" where
  "es_rule_specs vs poolIDs [] = Inr []"
| "es_rule_specs vs poolIDs (rule # rules) =
     (case map_of poolIDs (rr_PoolName rule) of
        None \<Rightarrow> Inl (Errorf ''routing rule %q references pool %q that is not attached to virtual server %q''
                  [rr_Name rule, rr_PoolName rule, vs_Name vs])
      | Some poolID \<Rightarrow>
          (case es_rule_specs vs poolIDs rules of
             Inl e \<Rightarrow> Inl e
           | Inr specs \<Rightarrow> Inr (\<lparr>rs_Host = rr_Host rule, rs_Path = rr_Path rule, rs_MatchType = rr_MatchType rule,
               rs_PoolID = poolID\<rparr> # specs)))"

text \<open>The IDs this stack owns on a listener, from the observed graph.\<close>

definition owned_rule_ids :: "string \<Rightarrow> ObservedResource gomap \<Rightarrow> string list" where
  "owned_rule_ids vsName rules =
     map (\<lambda>(k, r). ExternalID r)
       (filter (\<lambda>(k, r). graphVirtualServerName k = vsName \<and> trim_space (ExternalID r) \<noteq> []) (go_range (\<lambda>ks. ks) rules))"

definition record_rules :: "M_VirtualServer \<Rightarrow> RoutingRuleResource list \<Rightarrow> ObservedState \<Rightarrow> ObservedState" where
  "record_rules vs rules s =
     fold (\<lambda>rule. let key = vs_Name vs @ ''/'' @ rule_key rule
           in upd_RoutingRules (gm_set key (zero_observed\<lparr>LogicalID := key, ExternalID := ru_ID rule, or_Ownership := vs_Ownership vs\<rparr>)))
       rules (upd_RoutingRules (filter (\<lambda>(k, r). graphVirtualServerName k \<noteq> vs_Name vs)) s)"

definition es_rules :: "cmp \<Rightarrow> deployer \<Rightarrow> LoadBalancerStack \<Rightarrow> string \<Rightarrow> M_VirtualServer \<Rightarrow> string \<Rightarrow>
    ObservedState \<times> bool \<times> string gomap \<Rightarrow> (ObservedState \<times> bool) io" where
  "es_rules A d stack lb vs vsID st =
     (case st of (observed, changed, poolIDs) \<Rightarrow>
        if \<not> dp_routingRules d then io_return (observed, changed)
        else io_bind (io_of_result (es_rule_specs vs poolIDs (st_RoutingRules stack)))
          (\<lambda>specs. io_bind (RoutingRuleManager_EnsureOwned A lb vsID specs
                (owned_rule_ids (vs_Name vs) (g_RoutingRules (Graph observed))))
            (\<lambda>(rules, rulesChanged). io_return (record_rules vs rules observed, changed \<or> rulesChanged))))"

definition es_virtual_server :: "cmp \<Rightarrow> deployer \<Rightarrow> StackEnsureRequest \<Rightarrow> LoadBalancerStack \<Rightarrow> string \<Rightarrow> string \<Rightarrow> string \<Rightarrow>
    ObservedState \<times> bool \<Rightarrow> M_VirtualServer \<Rightarrow> (ObservedState \<times> bool) io" where
  "es_virtual_server A d req stack lb vip netID st vs =
     (case st of (observed, changed) \<Rightarrow>
        io_bind (io_of_result (es_aggregate_pool req stack vs))
          (\<lambda>pool. io_bind (VirtualServerManager_Ensure A (dp_vpcID d) (es_vs_request req stack lb vip netID vs pool observed))
            (\<lambda>(vsID, vsName, vsChanged).
               io_bind (es_certificates A stack lb vs vsID (es_record_vs stack vs vsID vsName observed, changed \<or> vsChanged))
                 (\<lambda>(observed, changed).
                    if sr_AggregateVirtualServer req then io_return (observed, changed)
                    else io_bind (io_fold (es_pool A d lb vs vsID) (poolsForVirtualServer stack vs) (observed, changed, []))
                           (es_rules A d stack lb vs vsID)))))"

subsection \<open>The whole pass\<close>

definition es_obsolete :: "cmp \<Rightarrow> deployer \<Rightarrow> StackEnsureRequest \<Rightarrow> LoadBalancerStack \<Rightarrow> string \<Rightarrow> ObservedState \<times> bool \<Rightarrow>
    (ObservedState \<times> bool) io" where
  "es_obsolete A d req stack lb st =
     (case st of (observed, changed) \<Rightarrow>
        io_bind (if sr_AggregateVirtualServer req then io_return (dropMigratedLegacyAliases observed, False)
                 else deleteObsoletePools A d lb (dropMigratedLegacyAliases observed) stack)
          (\<lambda>(observed, poolsDeleted). io_bind (deleteObsoleteVirtualServers A d lb observed stack)
             (\<lambda>(observed, virtualServersDeleted). io_return (observed, changed \<or> poolsDeleted \<or> virtualServersDeleted))))"

text \<open>Everything after the LB service is known: all of it inside that LB service.\<close>

definition es_inside :: "cmp \<Rightarrow> deployer \<Rightarrow> StackEnsureRequest \<Rightarrow> LoadBalancerStack \<Rightarrow> string \<Rightarrow> string \<times> bool \<times> ObservedState \<Rightarrow>
    (ObservedState \<times> bool) io" where
  "es_inside A d req stack netID st =
     (case st of (lb, changed, observed) \<Rightarrow>
        io_bind (es_recover A req stack lb netID observed)
          (\<lambda>observed. io_bind (VIPManager_Ensure A lb netID (VIPPortID observed) (VIPAddress observed) (sr_StrictVIPPortID req))
            (\<lambda>(vipID, vipAddress, vipChanged).
               io_bind (io_fold (es_virtual_server A d req stack lb vipID netID) (st_VirtualServers stack)
                          (record_vip stack vipID vipAddress observed, changed \<or> vipChanged))
                 (es_obsolete A d req stack lb))))"

text \<open>What comes before the LB service.\<close>

definition es_placement :: "cmp \<Rightarrow> deployer \<Rightarrow> StackEnsureRequest \<Rightarrow> LoadBalancerStack \<Rightarrow> string io" where
  "es_placement A d req stack =
     (let netID = trim_space (ml_NetworkID (st_LBService stack))
      in io_bind (es_explicit_network A d req stack netID)
           (\<lambda>_. es_network A req stack (EnsureGraph (sr_Current req)) netID))"

definition EnsureStack :: "cmp \<Rightarrow> deployer \<Rightarrow> StackEnsureRequest \<Rightarrow> (ObservedState \<times> bool) io" where
  "EnsureStack A d req =
     (case sr_Stack req of
        None \<Rightarrow> io_fail (Errorf ''load-balancer stack must not be nil'' [])
      | Some stack \<Rightarrow>
          io_check (es_preconditions d req stack)
            (io_bind (es_placement A d req stack)
              (\<lambda>netID. io_bind (es_lb A d req stack netID (EnsureGraph (sr_Current req)))
                 (es_inside A d req stack netID))))"

subsection \<open>The single-listener entry point\<close>

definition Deployer_Ensure :: "cmp \<Rightarrow> deployer \<Rightarrow> EnsureRequest \<Rightarrow> (ObservedState \<times> string \<times> bool) io" where
  "Deployer_Ensure A d req =
     (let vs = er_VirtualServer req; observed = EnsureGraph (er_Current req);
          hash = DesiredBackendHash (vs_FrontendPort vs) (vs_BackendNodePort vs) (er_Backends req)
      in io_bind (LBServiceManager_Ensure A (dp_vpcID d) req (LBServiceID observed) (er_StrictLBServiceID req))
        (\<lambda>(lbID, lbChanged).
           let observed = observed\<lparr>LBServiceID := lbID, Graph := (Graph observed)\<lparr>g_LBServices := gm_set (er_LBName req)
                 (zero_observed\<lparr>LogicalID := er_LBName req, ExternalID := lbID, or_Name := er_LBName req,
                    or_Ownership := vs_Ownership vs\<rparr>) (g_LBServices (Graph observed))\<rparr>\<rparr>
           in io_bind (VIPManager_Ensure A lbID (er_NetworkID req) (VIPPortID observed) (VIPAddress observed) (er_StrictVIPPortID req))
             (\<lambda>(vipID, vipAddress, vipChanged).
                let observed = observed\<lparr>VIPPortID := vipID, VIPAddress := vipAddress, Graph := (Graph observed)\<lparr>g_VIPs :=
                      gm_set (''vip/'' @ vipID) (zero_observed\<lparr>LogicalID := ''vip/'' @ vipID, ExternalID := vipID,
                        or_Address := vipAddress, or_Ownership := vs_Ownership vs\<rparr>) (g_VIPs (Graph observed))\<rparr>\<rparr>
                in io_bind (VirtualServerManager_Ensure A (dp_vpcID d)
                      \<lparr>vr_LBServiceID = lbID, vr_VIPPortID = vipID, vr_NetworkID = er_NetworkID req, vr_Region = er_Region req,
                       vr_Desired = vs, vr_Backends = er_Backends req, vr_Pool = None, vr_CurrentID = VirtualServerID observed,
                       vr_CurrentHash = er_CurrentHash req, vr_DesiredHash = hash,
                       vr_RecreateWhenHashMissing = er_RecreateWhenHashMissing req,
                       vr_RecoverByName = er_RecoverVirtualServerByName req\<rparr>)
                  (\<lambda>(vsID, vsName, vsChanged).
                     io_return (record_vs vs vsID vsName []
                         (observed\<lparr>VirtualServerID := vsID, VirtualServerName := vsName\<rparr>),
                       hash, lbChanged \<or> vipChanged \<or> vsChanged)))))"

end
