(* ===== verification/StackPass.thy ===== *)
theory StackPass
  imports Deployer
begin

text \<open>
  What one \<open>EnsureStack\<close> pass of \<open>Deployer\<close> guarantees: the LB service it works in, what its
  hook is told, and the observed graph it returns.
\<close>

subsection \<open>Everything happens inside one verified LB service\<close>

lemma recover_in_lb: "emits (in_lb lb) (recoverVirtualServersByName A lb sn desired)"
proof -
  have single: "emits (in_lb lb) (recover_single_vip A lb sn)"
    unfolding recover_single_vip_def do_ListVIPs_def by (auto simp: in_lb_def split: list.splits)
  have "emits (in_lb lb) (recover_by_vip_id A lb sn vs)" for vs
    unfolding recover_by_vip_id_def do_ListVIPs_def by (auto simp: in_lb_def)
  moreover have "emits (in_lb lb) (recover_by_address A lb sn cs)" for cs
    unfolding recover_by_address_def do_ListVIPs_def
    by (auto simp: in_lb_def single split: list.splits)
  moreover have "emits (in_lb lb) (recover_found ls f w)" for ls f w
    unfolding recover_found_def by auto
  ultimately show ?thesis
    unfolding recoverVirtualServersByName_def do_ListVirtualServers_def
    by (auto simp: in_lb_def split: prod.splits intro!: emits_fold)
qed

lemma es_recover_in_lb: "emits (in_lb lb) (es_recover A req stack lb netID s)"
  unfolding es_recover_def Let_def by (auto split: prod.splits intro!: recover_in_lb)

lemma es_pool_in_lb: "emits (in_lb lb) (es_pool A d lb vs vsID st pool)"
  unfolding es_pool_def es_monitor_def PoolManager_EnsureOwned_def Let_def
  by (auto split: prod.splits intro!: poolMemberSpecs_in_lb PoolManager_ensure_in_lb MonitorManager_Ensure_in_lb)

lemma es_rules_in_lb: "emits (in_lb lb) (es_rules A d stack lb vs vsID st)"
proof -
  have "emits (in_lb lb) (RoutingRuleManager_EnsureOwned A lb vsID specs owned)" for specs owned
    using rule_run_in_lb [of lb A "(vsID, specs, owned, False)"]
    by (simp add: rule_run_def RoutingRuleManager_EnsureOwned_def)
  then show ?thesis unfolding es_rules_def by (auto split: prod.splits)
qed

lemma es_virtual_server_in_lb: "emits (in_lb lb) (es_virtual_server A d req stack lb vip netID st vs)"
proof -
  have "emits (in_lb lb) (VirtualServerManager_Ensure A v (es_vs_request req stack lb vip netID vs pool s))" for v pool s
    using VirtualServerManager_Ensure_in_lb [of "es_vs_request req stack lb vip netID vs pool s" A v]
    by (simp add: es_vs_request_def Let_def)
  moreover have "emits (in_lb lb) (es_certificates A stack lb vs vsID st)" for vsID st
    unfolding es_certificates_def by (auto split: prod.splits intro!: CertificateManager_Ensure_in_lb)
  ultimately show ?thesis
    unfolding es_virtual_server_def
    by (auto split: prod.splits intro!: emits_fold es_pool_in_lb es_rules_in_lb)
qed

lemma es_obsolete_in_lb: "trim_space lb = lb \<Longrightarrow> emits (in_lb lb) (es_obsolete A d req stack lb st)"
  unfolding es_obsolete_def
  by (auto split: prod.splits intro!: deleteObsoletePools_in_lb deleteObsoleteVirtualServers_in_lb)

lemma es_inside_in_lb: "trim_space lb = lb \<Longrightarrow> emits (in_lb lb) (es_inside A d req stack netID (lb, ch, s))"
  unfolding es_inside_def
  by (auto split: prod.splits
      intro!: emits_fold es_recover_in_lb VIPManager_Ensure_in_lb es_virtual_server_in_lb es_obsolete_in_lb)

text \<open>The calls of the LB service phase.\<close>

fun lb_phase_call :: "call \<Rightarrow> bool" where
  "lb_phase_call (GetNetwork i) = True"
| "lb_phase_call (GetLBService i) = True"
| "lb_phase_call (ListLBServices o1) = True"
| "lb_phase_call (CreateLBService s) = True"
| "lb_phase_call (DeleteLBService i) = True"
| "lb_phase_call (LBReady s) = True"
| "lb_phase_call c = False"

lemma LBServiceManager_Ensure_phase: "emits lb_phase_call (LBServiceManager_Ensure A v req cur strict)"
  unfolding LBServiceManager_Ensure_def lb_checked_def lb_existing_def lb_find_or_create_def lb_create_def
    ensureCreatedReady_def lb_findByName_def do_GetLBService_def do_ListLBServices_def do_CreateLBService_def
    do_DeleteLBService_def Let_def
  by (auto split: sum.splits option.splits prod.splits)

lemma es_lb_phase: "emits lb_phase_call (es_lb A d req stack netID s)"
  unfolding es_lb_def es_checkpoint_def es_hook_def do_LBReady_def Let_def
  by (auto split: sum.splits option.splits prod.splits intro!: LBServiceManager_Ensure_phase)

lemma es_placement_phase: "emits lb_phase_call (es_placement A d req stack)"
  unfolding es_placement_def es_explicit_network_def es_network_def do_GetNetwork_def do_GetLBService_def Let_def
  by auto

text \<open>The LB service phase succeeded: its last provider call read the LB service.\<close>

definition lb_verified :: "cmp \<Rightarrow> LoadBalancerStack \<Rightarrow> string \<Rightarrow> history \<Rightarrow> bool" where
  "lb_verified A stack lb hs \<longleftrightarrow>
     (\<exists>h0 svc netID s. (hs = h0 @ [GetLBService lb] \<or> (\<exists>t. hs = h0 @ [GetLBService lb, LBReady t])) \<and>
        r_GetLBService A lb h0 = Inr svc \<and> lb_usable (lb_request stack netID s) svc)"

lemma es_lb_success:
  assumes "es_lb A d req stack netID s h = (Inr (lb, ch, s'), h')"
  shows "trim_space lb = lb \<and> lb_verified A stack lb h' \<and> s' = record_lb stack lb s"
proof -
  from assms have ens: "\<exists>h1. LBServiceManager_Ensure A (dp_vpcID d) (lb_request stack netID s) (LBServiceID s) (sr_StrictLBServiceID req) h
      = (Inr (lb, ch), h1) \<and> es_hook A req (record_lb stack lb s) h1 = (Inr (), h') \<and> s' = record_lb stack lb s"
    unfolding es_lb_def Let_def
    by (auto elim!: tryE bind_InrE fail_InrE return_InrE split: sum.splits prod.splits)
  then obtain h1 where "LBServiceManager_Ensure A (dp_vpcID d) (lb_request stack netID s) (LBServiceID s) (sr_StrictLBServiceID req) h
      = (Inr (lb, ch), h1)" "es_hook A req (record_lb stack lb s) h1 = (Inr (), h')" "s' = record_lb stack lb s" by blast
  note run = this
  from lb_Ensure_confirmed [OF run(1)] obtain h0 svc where trimmed: "trim_space lb = lb" and
    "h1 = h0 @ [GetLBService lb]" "r_GetLBService A lb h0 = Inr svc" "lb_usable (lb_request stack netID s) svc" by blast
  moreover from run(2) have "h' = h1 \<or> (\<exists>t. h' = h1 @ [LBReady t])"
    by (auto simp: es_hook_def do_LBReady_def elim!: if_InrE invokeE return_InrE)
  ultimately have "lb_verified A stack lb h'"
    unfolding lb_verified_def by fastforce
  with run trimmed show ?thesis by blast
qed

subsection \<open>A pass only adds calls\<close>

lemma any_call: "emits P m \<Longrightarrow> emits (\<lambda>_. True) m"
  by (rule emits_mono) simp_all

lemma es_obsolete_extends: "emits (\<lambda>_. True) (es_obsolete A d req stack lb st)"
proof -
  note members = obsolete_members_in_lb [THEN any_call] obsolete_monitors_in_lb [THEN any_call] obsolete_vs_rule_in_lb [THEN any_call]
  have cleanup: "emits (\<lambda>_. True) (PoolManager_Cleanup A lb vs p)" for vs p
    unfolding PoolManager_Cleanup_def do_DeletePool_def Let_def by auto
  have "emits (\<lambda>_. True) (obsolete_pool A d lb desired st e)" for desired st e
    unfolding obsolete_pool_def Let_def by (auto split: prod.splits intro!: emits_fold members cleanup)
  moreover have "emits (\<lambda>_. True) (obsolete_vs_pool A d lb name vs st e)" for name vs st e
    unfolding obsolete_vs_pool_def by (auto split: prod.splits intro!: emits_fold members cleanup)
  then have "emits (\<lambda>_. True) (obsolete_vs A d lb desired st e)" for desired st e
    unfolding obsolete_vs_def do_DeleteVirtualServer_def by (auto split: prod.splits intro!: emits_fold members)
  ultimately show ?thesis
    unfolding es_obsolete_def deleteObsoletePools_def deleteObsoleteVirtualServers_def
    by (auto split: prod.splits intro!: emits_fold)
qed

lemma EnsureStack_extends: "emits (\<lambda>_. True) (EnsureStack A d req)"
  unfolding EnsureStack_def es_inside_def
  by (auto split: prod.splits option.splits intro!: emits_fold es_obsolete_extends es_placement_phase [THEN any_call] es_lb_phase [THEN any_call]
      es_recover_in_lb [THEN any_call] VIPManager_Ensure_in_lb [THEN any_call] es_virtual_server_in_lb [THEN any_call])

subsection \<open>The scope of a pass\<close>

text \<open>
  C1.  A pass works inside one LB service: its calls split into those of the LB service phase
  and the rest; the rest is empty unless the phase ended by reading the LB service and finding it
  ready and in place, and then every further call is addressed to that LB service, none creates
  or deletes an LB service, and none runs the hook.
\<close>

theorem EnsureStack_scope:
  "\<exists>pre post. calls_of (EnsureStack A d req) h = pre @ post \<and> list_all lb_phase_call pre \<and>
     (post = [] \<or> (\<exists>stack lb. sr_Stack req = Some stack \<and> lb_verified A stack lb (h @ pre) \<and> list_all (in_lb lb) post))"
proof (cases "sr_Stack req")
  case None
  then show ?thesis by (simp add: EnsureStack_def calls_of_def io_fail_def)
next
  case (Some stack)
  show ?thesis
  proof (cases "es_preconditions d req stack")
    case (Some e)
    then show ?thesis using \<open>sr_Stack req = Some stack\<close>
      by (simp add: EnsureStack_def calls_of_def io_fail_def io_check_def)
  next
    case None
    let ?m = "io_bind (es_placement A d req stack)
        (\<lambda>netID. io_bind (es_lb A d req stack netID (EnsureGraph (sr_Current req))) (\<lambda>st. io_return (netID, st)))"
    have "EnsureStack A d req = io_bind (es_placement A d req stack)
        (\<lambda>netID. io_bind (es_lb A d req stack netID (EnsureGraph (sr_Current req))) (es_inside A d req stack netID))"
      using None Some by (simp add: EnsureStack_def io_check_def)
    also have "\<dots> = io_bind ?m (\<lambda>(netID, st). es_inside A d req stack netID st)"
      by (rule ext) (simp add: run_bind run_return split: sum.splits)
    finally have pass: "EnsureStack A d req = io_bind ?m (\<lambda>(netID, st). es_inside A d req stack netID st)" .
    have phase: "emits lb_phase_call ?m"
      by (auto intro!: es_placement_phase es_lb_phase)
    have lb: "trim_space lb = lb \<and> lb_verified A stack lb h1" if "?m h = (Inr (netID, lb, ch, s), h1)" for netID lb ch s h1
      using that by (auto elim!: bind_InrE return_InrE dest: es_lb_success)
    have inside: "emits_from h1 (in_lb (fst (snd x))) (case x of (netID, st) \<Rightarrow> es_inside A d req stack netID st)"
      if "?m h = (Inr x, h1)" for x h1
    proof -
      obtain netID lb ch s where x: "x = (netID, lb, ch, s)" by (metis prod_cases4)
      from lb [OF that [unfolded x]] show ?thesis
        by (simp add: x emits_emits_from es_inside_in_lb)
    qed
    have "\<exists>pre post. calls_of (EnsureStack A d req) h = pre @ post \<and> list_all lb_phase_call pre \<and>
        (post = [] \<or> (\<exists>x. ?m h = (Inr x, h @ pre) \<and> list_all (in_lb (fst (snd x))) post))"
      unfolding pass by (rule two_phases [OF phase], rule inside)
    then obtain pre post where pp:
      "calls_of (EnsureStack A d req) h = pre @ post" "list_all lb_phase_call pre"
      "post = [] \<or> (\<exists>x. ?m h = (Inr x, h @ pre) \<and> list_all (in_lb (fst (snd x))) post)"
      by (elim exE conjE)
    from pp(3) have "post = [] \<or> (\<exists>lb. lb_verified A stack lb (h @ pre) \<and> list_all (in_lb lb) post)"
    proof
      assume "\<exists>x. ?m h = (Inr x, h @ pre) \<and> list_all (in_lb (fst (snd x))) post"
      then obtain netID lb ch s where "?m h = (Inr (netID, lb, ch, s), h @ pre)" "list_all (in_lb lb) post"
        by (force simp only: fst_conv snd_conv split_paired_Ex)
      with lb show ?thesis by blast
    qed blast
    with pp(1,2) Some show ?thesis by blast
  qed
qed

end
