(* ===== verification/Naming.thy ===== *)
theory Naming
  imports Sha256 Model
begin

text \<open>
  Resource names: \<open>safeName\<close> and \<open>limitedSafeName\<close> of \<open>pkg/service/builder.go\<close>,
  \<open>safeName\<close> of \<open>pkg/ingress/builder.go\<close>, and the names the two builders derive from
  them.  The two packages promise the same contract, stated by the locale \<open>name_scheme\<close>.
\<close>

definition name_char :: "char \<Rightarrow> bool" where
  "name_char c \<longleftrightarrow> (97 \<le> (of_char c :: nat) \<and> (of_char c :: nat) \<le> 122) \<or> is_digit c \<or> c = CHR ''-''"

definition sanitize_char :: "char \<Rightarrow> char" where
  "sanitize_char c = (if name_char c then c else CHR ''-'')"

definition svc_safeName :: "string \<Rightarrow> string" where
  "svc_safeName name =
     (let name = to_lower (trim_space name);
          name = map sanitize_char name
      in trim_char (CHR ''-'') name)"

definition limitedSafeName :: "string \<Rightarrow> nat \<Rightarrow> string" where
  "limitedSafeName name maxLength =
     (let name = svc_safeName name in
      if length name \<le> maxLength then name
      else (let hash = take 6 (sha256_hex name);
                prefixLength = maxLength - length hash - 1;
                prefix = trim_char (CHR ''-'') (take prefixLength name)
            in prefix @ ''-'' @ hash))"

definition maxCMPResourceNameLength :: nat where
  "maxCMPResourceNameLength = 20"

definition ing_safeName :: "string \<Rightarrow> string" where
  "ing_safeName s =
     (let s = trim_space (to_lower s) in
      if s = [] then ''x''
      else (let out = trim_char (CHR ''-'') (map sanitize_char s) in
            if out = [] then ''x'' else out))"

subsection \<open>Names of a Service's resources (\<open>pkg/service/builder.go\<close>)\<close>

definition VIPGroup :: "K8sService option \<Rightarrow> string" where
  "VIPGroup svc = (case svc of None \<Rightarrow> [] | Some s \<Rightarrow> ann_get (svc_Annotations s) annVIPGroup)"

definition svc_VIPName :: "K8sService option \<Rightarrow> string" where
  "svc_VIPName svc =
     (case svc of None \<Rightarrow> []
      | Some s \<Rightarrow>
          (if VIPGroup svc \<noteq> []
           then limitedSafeName (''app-vip-group-'' @ svc_Namespace s @ ''-'' @ VIPGroup svc) maxCMPResourceNameLength
           else limitedSafeName (''app-vip-'' @ svc_Namespace s @ ''-'' @ svc_Name s) maxCMPResourceNameLength))"

definition svc_VirtualServerName :: "K8sService option \<Rightarrow> int32 \<Rightarrow> string" where
  "svc_VirtualServerName svc frontendPort =
     (case svc of None \<Rightarrow> []
      | Some s \<Rightarrow> limitedSafeName
          (''app-vs-'' @ svc_Namespace s @ ''-'' @ svc_Name s @ ''-'' @ show_i32 frontendPort) maxCMPResourceNameLength)"

definition svc_PoolName :: "K8sService option \<Rightarrow> int32 \<Rightarrow> string" where
  "svc_PoolName svc frontendPort =
     (case svc of None \<Rightarrow> []
      | Some s \<Rightarrow> limitedSafeName
          (''app-pool-'' @ svc_Namespace s @ ''-'' @ svc_Name s @ ''-'' @ show_i32 frontendPort) maxCMPResourceNameLength)"

definition svc_MonitorName :: "K8sService option \<Rightarrow> int32 \<Rightarrow> string" where
  "svc_MonitorName svc frontendPort =
     (case svc of None \<Rightarrow> []
      | Some s \<Rightarrow> limitedSafeName
          (''mon-app-pool-'' @ svc_Namespace s @ ''-'' @ svc_Name s @ ''-'' @ show_i32 frontendPort) maxCMPResourceNameLength)"

definition svc_LBServiceName :: "K8sService option \<Rightarrow> string" where
  "svc_LBServiceName svc =
     (case svc of None \<Rightarrow> []
      | Some s \<Rightarrow> limitedSafeName
          (if VIPGroup svc \<noteq> [] then ''app-group-'' @ svc_Namespace s @ ''-'' @ VIPGroup svc
           else ''app-'' @ svc_Namespace s @ ''-'' @ svc_Name s) maxCMPResourceNameLength)"

subsection \<open>The naming contract\<close>

definition label_edges :: "string \<Rightarrow> bool" where
  "label_edges s \<longleftrightarrow> s = [] \<or> (hd s \<noteq> CHR ''-'' \<and> last s \<noteq> CHR ''-'')"

definition label_like :: "string \<Rightarrow> bool" where
  "label_like s \<longleftrightarrow> list_all name_char s \<and> label_edges s"

locale name_scheme =
  fixes safe :: "string \<Rightarrow> string" and admissible :: "string \<Rightarrow> bool"
  assumes safe_label: "label_like (safe s)"
    and safe_fixed: "label_like s \<Longrightarrow> s \<noteq> [] \<Longrightarrow> admissible s \<Longrightarrow> safe s = s"
    and safe_admissible: "safe s \<noteq> [] \<Longrightarrow> admissible (safe s)"
begin

lemma safe_safe: "safe s \<noteq> [] \<Longrightarrow> safe (safe s) = safe s"
  by (intro safe_fixed safe_label safe_admissible)

lemma safe_chars: "c \<in> set (safe s) \<Longrightarrow> name_char c"
  using safe_label [of s] by (auto simp: label_like_def list_all_iff)

lemma safe_no_slash: "CHR ''/'' \<notin> set (safe s)"
  using safe_chars [of "CHR ''/''" s] by (auto simp: name_char_def is_digit_def)

end

locale nonempty_name_scheme = name_scheme +
  assumes safe_nonempty: "safe s \<noteq> []"
begin

lemma safe_idem: "safe (safe s) = safe s"
  by (rule safe_safe) (rule safe_nonempty)

end

locale bounded_name_scheme = name_scheme +
  fixes limit :: nat
  assumes safe_bound: "length (safe s) \<le> limit"

subsection \<open>Both packages meet it\<close>

lemma name_char_dash [simp]: "name_char (CHR ''-'')"
  by (simp add: name_char_def)

lemma name_char_digit: "is_digit c \<Longrightarrow> name_char c"
  by (simp add: name_char_def)

lemma name_char_not_space: "name_char c \<Longrightarrow> \<not> is_space c"
  by (auto simp: name_char_def is_space_def is_digit_def)

lemma name_char_lower: "name_char c \<Longrightarrow> lower_char c = c"
  by (auto simp: name_char_def lower_char_def is_digit_def Let_def)

lemma name_char_hex: "is_hex c \<Longrightarrow> name_char c"
  by (auto simp: is_hex_def name_char_def)

lemma sanitize_char_name [simp]: "name_char (sanitize_char c)"
  by (simp add: sanitize_char_def)

lemma sanitize_char_id: "name_char c \<Longrightarrow> sanitize_char c = c"
  by (simp add: sanitize_char_def)

lemma trim_char_label:
  assumes "list_all name_char s"
  shows "label_like (trim_char (CHR ''-'') s)"
proof -
  have "list_all name_char (trim_char (CHR ''-'') s)"
    using assms set_trim_by unfolding trim_char_def list_all_iff by blast
  moreover have "label_edges (trim_char (CHR ''-'') s)"
    unfolding label_edges_def trim_char_def
    using trim_by_hd [of "\<lambda>x. x = CHR ''-''" s] trim_by_last [of "\<lambda>x. x = CHR ''-''" s] by blast
  ultimately show ?thesis by (simp add: label_like_def)
qed

lemma list_all_sanitize: "list_all name_char (map sanitize_char s)"
  by (simp add: list_all_iff)

lemma label_like_edges_id: "label_like s \<Longrightarrow> trim_char (CHR ''-'') s = s"
  unfolding label_like_def label_edges_def trim_char_def by (intro trim_by_id) auto

lemma label_like_fixed:
  assumes "label_like s"
  shows "trim_space s = s" "to_lower s = s" "map sanitize_char s = s"
  using assms
  by (auto simp: label_like_def list_all_iff to_lower_def name_char_not_space name_char_lower
      sanitize_char_id intro!: trim_space_no_space map_idI)

lemma svc_safeName_label: "label_like (svc_safeName s)"
  by (simp add: svc_safeName_def Let_def trim_char_label list_all_sanitize)

lemma svc_safeName_fixed: "label_like s \<Longrightarrow> svc_safeName s = s"
  by (simp add: svc_safeName_def label_like_fixed label_like_edges_id)

lemma ing_safeName_label: "label_like (ing_safeName s)"
proof -
  have "label_like ''x''" by (simp add: label_like_def label_edges_def name_char_def)
  then show ?thesis
    by (simp add: ing_safeName_def Let_def trim_char_label list_all_sanitize)
qed

lemma ing_safeName_fixed: "label_like s \<Longrightarrow> s \<noteq> [] \<Longrightarrow> ing_safeName s = s"
  by (simp add: ing_safeName_def label_like_fixed label_like_edges_id)

lemma label_like_append:
  assumes "label_like p" and "p \<noteq> []" and "list_all name_char h" and "h \<noteq> []" and "last h \<noteq> CHR ''-''"
  shows "label_like (p @ ''-'' @ h)"
  using assms by (auto simp: label_like_def label_edges_def)

lemma last_take_sha: "last (take 6 (sha256_hex m)) \<noteq> CHR ''-''"
proof -
  have "take 6 (sha256_hex m) \<noteq> []" by simp
  then have "last (take 6 (sha256_hex m)) \<in> set (sha256_hex m)"
    by (meson in_set_takeD last_in_set)
  then have "is_hex (last (take 6 (sha256_hex m)))" by (rule sha256_hex_chars)
  then show ?thesis by (auto simp: is_hex_def is_digit_def)
qed

lemma label_take_prefix:
  assumes "label_like n" and "n \<noteq> []" and "0 < k"
  shows "trim_char (CHR ''-'') (take k n) \<noteq> []"
proof -
  obtain x xs where n: "n = x # xs" "x \<noteq> CHR ''-''"
    using assms by (cases n) (auto simp: label_like_def label_edges_def)
  obtain k' where "k = Suc k'" using assms(3) by (cases k) auto
  then show ?thesis using n
    by (auto simp: trim_char_def trim_by_def dropWhile_append)
qed

lemma limitedSafeName_shape:
  assumes "7 < m"
  shows "label_like (limitedSafeName s m)" and "length (limitedSafeName s m) \<le> m"
    and "label_like t \<Longrightarrow> length t \<le> m \<Longrightarrow> limitedSafeName t m = t"
proof -
  let ?n = "svc_safeName s"
  let ?h = "take 6 (sha256_hex ?n)"
  let ?p = "trim_char (CHR ''-'') (take (m - 7) ?n)"
  have all: "list_all name_char (take k ?n)" for k
    using svc_safeName_label [of s] by (auto simp: label_like_def list_all_iff dest: in_set_takeD)
  have p: "label_like ?p" by (rule trim_char_label) (rule all)
  have lp: "length ?p \<le> m - 7"
    using length_trim_by [of "\<lambda>x. x = CHR ''-''" "take (m - 7) ?n"] unfolding trim_char_def by simp
  have h: "list_all name_char ?h"
    by (auto simp: list_all_iff dest!: in_set_takeD sha256_hex_chars name_char_hex)
  have eq: "limitedSafeName s m = (if length ?n \<le> m then ?n else ?p @ ''-'' @ ?h)"
    by (simp add: limitedSafeName_def Let_def)
  show "label_like (limitedSafeName s m)"
  proof (cases "length ?n \<le> m")
    case True
    then show ?thesis using svc_safeName_label by (simp add: eq)
  next
    case False
    then have "?n \<noteq> []" by auto
    then have "?p \<noteq> []" using assms svc_safeName_label by (intro label_take_prefix) auto
    moreover have "?h \<noteq> []" by simp
    ultimately have "label_like (?p @ ''-'' @ ?h)"
      using p h last_take_sha by (intro label_like_append)
    then show ?thesis using False by (simp add: eq)
  qed
  show "length (limitedSafeName s m) \<le> m"
  proof -
    have "length ?p + 7 \<le> m" using lp assms by linarith
    then show ?thesis by (simp add: eq)
  qed
  show "limitedSafeName t m = t" if "label_like t" "length t \<le> m"
    using that by (simp add: limitedSafeName_def svc_safeName_fixed)
qed

interpretation svc_names: name_scheme svc_safeName "\<lambda>_. True"
  by unfold_locales (simp_all add: svc_safeName_label svc_safeName_fixed)

interpretation ing_names: nonempty_name_scheme ing_safeName "\<lambda>_. True"
  by unfold_locales (simp_all add: ing_safeName_label ing_safeName_fixed, simp add: ing_safeName_def Let_def)

interpretation cmp_names: bounded_name_scheme
    "\<lambda>s. limitedSafeName s maxCMPResourceNameLength" "\<lambda>s. length s \<le> maxCMPResourceNameLength"
    maxCMPResourceNameLength
  by unfold_locales (auto simp: limitedSafeName_shape maxCMPResourceNameLength_def)

subsection \<open>Properties\<close>

text \<open>
  Every name the service builder gives to an LB service, a VIP, a virtual server, a pool or
  a monitor is acceptable to CMP, whatever the namespace, name and group annotation: at most 20
  bytes of lower-case letters, digits and dashes, with no dash at either end.
\<close>

theorem service_names_acceptable:
  "n \<in> {svc_LBServiceName svc, svc_VIPName svc, svc_VirtualServerName svc p, svc_PoolName svc p,
         svc_MonitorName svc p} \<Longrightarrow> label_like n \<and> length n \<le> 20"
proof -
  have lim: "label_like (limitedSafeName x maxCMPResourceNameLength) \<and>
      length (limitedSafeName x maxCMPResourceNameLength) \<le> 20" for x
    using cmp_names.safe_label cmp_names.safe_bound by (simp add: maxCMPResourceNameLength_def)
  have nil: "label_like []" by (simp add: label_like_def label_edges_def)
  show "n \<in> {svc_LBServiceName svc, svc_VIPName svc, svc_VirtualServerName svc p, svc_PoolName svc p,
         svc_MonitorName svc p} \<Longrightarrow> label_like n \<and> length n \<le> 20"
    using lim nil
    by (auto simp: svc_LBServiceName_def svc_VIPName_def svc_VirtualServerName_def svc_PoolName_def
        svc_MonitorName_def split: option.splits)
qed

theorem service_names_acceptable_witness:
  "label_like (svc_PoolName (Some (sample_service [])) 443) \<and>
   length (svc_PoolName (Some (sample_service [])) 443) \<le> 20"
  by (rule service_names_acceptable [where svc = "Some (sample_service [])" and p = 443]) simp

text \<open>The untruncated name of a listener, and what its last characters are.\<close>

definition port_name :: "string \<Rightarrow> int32 \<Rightarrow> string" where
  "port_name pre p = svc_safeName (pre @ ''-'' @ show_i32 p)"

definition valid_port :: "int32 \<Rightarrow> bool" where
  "valid_port p \<longleftrightarrow> 1 \<le> sint p \<and> sint p \<le> 65535"

lemma show_i32_valid:
  assumes "valid_port p"
  shows "list_all is_digit (show_i32 p)" "show_i32 p \<noteq> []" "length (show_i32 p) \<le> 5"
proof -
  from assms have eq: "show_i32 p = show_nat (nat (sint p))"
    by (simp add: show_i32_def show_int_def valid_port_def)
  show "list_all is_digit (show_i32 p)" by (simp add: eq show_nat_digits)
  show "show_i32 p \<noteq> []" by (simp add: eq)
  have "n < 100000 \<Longrightarrow> length (show_nat n) \<le> 5" for n
    by (simp add: show_nat.simps [of n] show_nat.simps [of "n div 10"] show_nat.simps [of "n div 10 div 10"]
        show_nat.simps [of "n div 10 div 10 div 10"] show_nat.simps [of "n div 10 div 10 div 10 div 10"])
  moreover have "nat (sint p) < 100000" using assms unfolding valid_port_def by linarith
  ultimately show "length (show_i32 p) \<le> 5" by (simp only: eq)
qed

lemma show_i32_valid_chars: "valid_port p \<Longrightarrow> c \<in> set (show_i32 p) \<Longrightarrow> is_digit c"
  using show_i32_valid(1) by (auto simp: list_all_iff)

lemma port_name_split:
  assumes "valid_port p" and "pre = c # cs" and "name_char c" and "c \<noteq> CHR ''-''"
  shows "port_name pre p = map sanitize_char (to_lower pre) @ ''-'' @ show_i32 p"
proof -
  let ?d = "show_i32 p"
  let ?x = "pre @ ''-'' @ ?d"
  have d: "?d \<noteq> []" using show_i32_valid(2) assms(1) by blast
  then have l: "is_digit (last ?d)" using show_i32_valid_chars assms(1) by simp
  have "trim_space ?x = ?x"
    unfolding trim_space_def using assms d l
    by (intro trim_by_id) (auto simp: name_char_not_space digit_not_space)
  moreover have "map lower_char ?d = ?d"
    using show_i32_valid_chars [OF assms(1)] by (intro map_idI) (simp add: name_char_lower name_char_digit)
  moreover have "map sanitize_char ?d = ?d"
    using show_i32_valid_chars [OF assms(1)] by (intro map_idI) (simp add: sanitize_char_id name_char_digit)
  moreover have "lower_char (CHR ''-'') = CHR ''-''" by (simp add: name_char_lower)
  moreover have "sanitize_char (CHR ''-'') = CHR ''-''" by (simp add: sanitize_char_id)
  ultimately have "port_name pre p = trim_char (CHR ''-'') (map sanitize_char (to_lower pre) @ ''-'' @ ?d)"
    by (simp add: port_name_def svc_safeName_def to_lower_def)
  also have "\<dots> = map sanitize_char (to_lower pre) @ ''-'' @ ?d"
    unfolding trim_char_def
  proof (rule trim_by_id, rule disjI2, rule conjI)
    show "hd (map sanitize_char (to_lower pre) @ ''-'' @ ?d) \<noteq> CHR ''-''"
      using assms by (simp add: to_lower_def name_char_lower sanitize_char_id)
    show "last (map sanitize_char (to_lower pre) @ ''-'' @ ?d) \<noteq> CHR ''-''"
      using d l digit_not_sign by simp
  qed
  finally show ?thesis .
qed

lemma dash_not_in_hash: "CHR ''-'' \<notin> set (take 6 (sha256_hex m))"
  by (auto simp: is_hex_def is_digit_def dest!: in_set_takeD sha256_hex_chars)

lemma dashed_not_hashed:
  assumes "length d \<le> 5" and "CHR ''-'' \<notin> set h" and "length h = 6"
  shows "a @ ''-'' @ d \<noteq> (b @ ''-'') @ h"
proof
  assume eq: "a @ ''-'' @ d = (b @ ''-'') @ h"
  then consider (1) us where "(b @ ''-'') @ us = a" "h = us @ ''-'' @ d"
    | (2) us where "a @ us = b @ ''-''" "us @ h = ''-'' @ d"
    using append_eq_append_conv2 [of a "''-'' @ d" "b @ ''-''" h] by metis
  then show False
  proof cases
    case 1
    then show False using assms(2) by simp
  next
    case 2
    then have "length us + 6 = 1 + length d" using assms(3) by (metis length_append One_nat_def list.size(3,4) plus_nat.add_0 add_Suc)
    with assms(1) have "us = []" by (cases us) auto
    with 2 assms(2) show False by simp
  qed
qed

lemma limited_port_name:
  assumes "valid_port p" and "pre = c # cs" and "name_char c" and "c \<noteq> CHR ''-''"
  obtains (short) "limitedSafeName (pre @ ''-'' @ show_i32 p) 20
                     = map sanitize_char (to_lower pre) @ ''-'' @ show_i32 p"
  | (long) b where "limitedSafeName (pre @ ''-'' @ show_i32 p) 20
                     = (b @ ''-'') @ take 6 (sha256_hex (port_name pre p))"
proof (cases "length (port_name pre p) \<le> 20")
  case True
  then show ?thesis
    using port_name_split [OF assms] by (intro short) (simp add: limitedSafeName_def port_name_def)
next
  case False
  then show ?thesis
    by (intro long) (simp add: limitedSafeName_def port_name_def Let_def)
qed

lemma limited_port_name_inj:
  assumes "valid_port p" and "valid_port q" and "pre = c # cs" and "name_char c" and "c \<noteq> CHR ''-''"
    and eq: "limitedSafeName (pre @ ''-'' @ show_i32 p) 20 = limitedSafeName (pre @ ''-'' @ show_i32 q) 20"
  shows "p = q \<or> take 6 (sha256_hex (port_name pre p)) = take 6 (sha256_hex (port_name pre q))"
proof -
  have no: "map sanitize_char (to_lower pre) @ ''-'' @ show_i32 r \<noteq> (b @ ''-'') @ take 6 (sha256_hex m)"
    if "valid_port r" for r b m
    using show_i32_valid(3) [OF that] by (intro dashed_not_hashed dash_not_in_hash) auto
  show ?thesis
  proof (cases rule: limited_port_name [OF assms(1,3-5), case_names short long])
    case short
    note sp = this
    show ?thesis
      using sp eq no [OF assms(1)]
      by (cases rule: limited_port_name [OF assms(2-5)]) (auto simp: show_i32_inj)
  next
    case (long b)
    note lp = this
    show ?thesis
      using lp eq no [OF assms(2), symmetric]
      by (cases rule: limited_port_name [OF assms(2-5)]) (auto simp: append_eq_append_conv)
  qed
qed

definition vs_prefix :: "K8sService \<Rightarrow> string" where
  "vs_prefix s = ''app-vs-'' @ svc_Namespace s @ ''-'' @ svc_Name s"

text \<open>
  Two frontend ports of one Service get the same virtual-server name only if the ports are
  equal or the first 24 bits of the SHA-256 digests of the untruncated names collide: shortening
  a name to 20 bytes never merges two listeners silently, neither two long names nor a long
  and a short one.
\<close>

theorem VirtualServerName_collision:
  assumes "valid_port p" and "valid_port q"
    and "svc_VirtualServerName (Some s) p = svc_VirtualServerName (Some s) q"
  shows "p = q \<or> take 6 (sha256_hex (port_name (vs_prefix s) p)) = take 6 (sha256_hex (port_name (vs_prefix s) q))"
proof (rule limited_port_name_inj [OF assms(1,2)])
  show "vs_prefix s = CHR ''a'' # ''pp-vs-'' @ svc_Namespace s @ ''-'' @ svc_Name s"
    by (simp add: vs_prefix_def)
  show "limitedSafeName (vs_prefix s @ ''-'' @ show_i32 p) 20 = limitedSafeName (vs_prefix s @ ''-'' @ show_i32 q) 20"
    using assms(3) by (simp add: svc_VirtualServerName_def vs_prefix_def maxCMPResourceNameLength_def)
qed (simp_all add: name_char_def)

theorem VirtualServerName_collision_witness:
  "valid_port 443 \<and>
   (443 = (443 :: int32) \<or>
    take 6 (sha256_hex (port_name (vs_prefix (sample_service [])) 443)) =
    take 6 (sha256_hex (port_name (vs_prefix (sample_service [])) 443)))"
proof -
  have v: "valid_port 443" by (simp add: valid_port_def)
  from VirtualServerName_collision [OF v v refl, of "sample_service []"] v show ?thesis by simp
qed

end
