(* ===== verification/Backend.thy ===== *)
theory Backend
  imports Model
begin

text \<open>
  \<open>pkg/backend/nodes.go\<close>: the nodes a load balancer may send traffic to.  Kubernetes
  objects are reduced to the fields the code reads.  The Kubernetes API is a parameter: the
  record \<open>kube\<close> holds what listing the EndpointSlices of a Service (\<open>None\<close> for an error) and
  listing the Nodes (\<open>Inl\<close> for an error) return from the informer cache.
\<close>

record Node =
  nd_NodeName :: string
  nd_ProviderID :: string
  nd_ComputeID :: string
  nd_IP :: string
  nd_Weight :: int

record K8sNode =
  kn_Name :: string
  kn_ProviderID :: string
  kn_Annotations :: "string gomap"
  kn_Conditions :: "(string \<times> string) list"
  kn_Addresses :: "(string \<times> string) list"

record Endpoint =
  ep_Ready :: "bool option"
  ep_NodeName :: "string option"

record EndpointSlice =
  es_Ports :: "(string option \<times> int32 option) list"
  es_Endpoints :: "Endpoint list"

record kube =
  list_slices :: "K8sService \<Rightarrow> EndpointSlice list option"
  list_nodes :: "string + K8sNode list"

subsection \<open>Single nodes\<close>

fun first_ready :: "(string \<times> string) list \<Rightarrow> bool" where
  "first_ready [] = False"
| "first_ready ((ty, status) # cs) = (if ty = ''Ready'' then status = ''True'' else first_ready cs)"

definition IsNodeReady :: "K8sNode \<Rightarrow> bool" where
  "IsNodeReady node = first_ready (kn_Conditions node)"

definition InternalIP :: "K8sNode \<Rightarrow> string" where
  "InternalIP node =
     (case find (\<lambda>a. fst a = ''InternalIP'' \<and> trim_space (snd a) \<noteq> []) (kn_Addresses node) of
        Some a \<Rightarrow> trim_space (snd a) | None \<Rightarrow> [])"

definition ComputeID :: "K8sNode option \<Rightarrow> string" where
  "ComputeID node =
     (case node of
        None \<Rightarrow> []
      | Some n \<Rightarrow>
          (let providerID = trim_space (kn_ProviderID n);
               parts = split_on (CHR ''/'') (trim_prefix providerID ''apc:///'');
               annotated = ann_get (kn_Annotations n) annCMPComputeID
           in if has_prefix providerID ''cmp://'' then trim_space (trim_prefix providerID ''cmp://'')
              else if has_prefix providerID ''apc:///'' \<and> length parts = 2 \<and>
                      trim_space (parts ! 0) \<noteq> [] \<and> trim_space (parts ! 1) \<noteq> []
                   then trim_space (parts ! 1)
              else annotated))"

definition backendIP :: "K8sNode option \<Rightarrow> string" where
  "backendIP node =
     (case node of
        None \<Rightarrow> []
      | Some n \<Rightarrow>
          (let annotated = ann_get (kn_Annotations n) annBackendIP
           in if annotated \<noteq> [] then annotated else InternalIP n))"

definition to_node :: "K8sNode \<Rightarrow> int \<Rightarrow> Node" where
  "to_node n weight = \<lparr>nd_NodeName = kn_Name n, nd_ProviderID = trim_space (kn_ProviderID n),
     nd_ComputeID = ComputeID (Some n), nd_IP = backendIP (Some n), nd_Weight = weight\<rparr>"

definition node_key :: "Node \<Rightarrow> string" where
  "node_key n = trim_space (nd_ComputeID n) @ ''|'' @ trim_space (nd_IP n)"

fun dedup_nodes :: "string list \<Rightarrow> Node list \<Rightarrow> Node list" where
  "dedup_nodes seen [] = []"
| "dedup_nodes seen (n # ns) =
     (if node_key n \<in> set seen then dedup_nodes seen ns
      else n # dedup_nodes (node_key n # seen) ns)"

definition deduplicateNodes :: "Node list \<Rightarrow> Node list" where
  "deduplicateNodes nodes = dedup_nodes [] nodes"

subsection \<open>Nodes with ready endpoints\<close>

definition count_endpoint :: "Endpoint \<Rightarrow> nat gomap \<Rightarrow> nat gomap" where
  "count_endpoint ep nodes =
     (if ep_Ready ep = Some False then nodes
      else (case ep_NodeName ep of
              None \<Rightarrow> nodes
            | Some n \<Rightarrow> if n = [] then nodes else gm_set n (Suc (gm_index 0 nodes n)) nodes))"

definition count_slice :: "EndpointSlice \<Rightarrow> nat gomap \<Rightarrow> nat gomap" where
  "count_slice es nodes = fold count_endpoint (es_Endpoints es) nodes"

definition nodesWithReadyEndpoints :: "kube \<Rightarrow> K8sService option \<Rightarrow> nat gomap" where
  "nodesWithReadyEndpoints k svc =
     (case svc of
        None \<Rightarrow> []
      | Some s \<Rightarrow> (case list_slices k s of
                   None \<Rightarrow> []
                 | Some slices \<Rightarrow> fold count_slice slices []))"

definition slice_port_matches :: "SvcPort \<Rightarrow> EndpointSlice \<Rightarrow> bool" where
  "slice_port_matches p es =
     list_ex (\<lambda>(name, port). (sp_Name p \<noteq> [] \<and> name = Some (sp_Name p)) \<or>
                             (sp_Name p = [] \<and> port = Some (sp_Port p))) (es_Ports es)"

definition nodesWithReadyEndpointsForPort :: "kube \<Rightarrow> K8sService option \<Rightarrow> SvcPort \<Rightarrow> nat gomap" where
  "nodesWithReadyEndpointsForPort k svc p =
     (case svc of
        None \<Rightarrow> []
      | Some s \<Rightarrow> (case list_slices k s of
                   None \<Rightarrow> []
                 | Some slices \<Rightarrow> fold count_slice (filter (slice_port_matches p) slices) []))"

subsection \<open>Listing backends\<close>

definition localPolicy :: "K8sService option \<Rightarrow> bool" where
  "localPolicy svc = (case svc of None \<Rightarrow> False | Some s \<Rightarrow> svc_ExternalTrafficPolicy s = ''Local'')"

definition ready_backend :: "nat gomap \<Rightarrow> bool \<Rightarrow> K8sNode \<Rightarrow> Node option" where
  "ready_backend targets localOnly n =
     (if \<not> IsNodeReady n then None
      else if targets \<noteq> [] \<and> map_of targets (kn_Name n) = None then None
      else if targets = [] \<and> localOnly then None
      else if backendIP (Some n) = [] then None
      else (let epCount = (if targets \<noteq> [] then gm_index 0 targets (kn_Name n) else 0);
                weight = (if epCount > 0 then int epCount * 50 else 50)
            in Some (to_node n weight)))"

definition ListReadyNodeBackends :: "kube \<Rightarrow> K8sService option \<Rightarrow> string + Node list" where
  "ListReadyNodeBackends k svc =
     (let targets = nodesWithReadyEndpoints k svc; localOnly = localPolicy svc in
      case list_nodes k of
        Inl e \<Rightarrow> Inl e
      | Inr nl \<Rightarrow> Inr (deduplicateNodes (List.map_filter (ready_backend targets localOnly) nl)))"

definition port_backend :: "nat gomap \<Rightarrow> K8sNode \<Rightarrow> Node option" where
  "port_backend targets n =
     (if \<not> IsNodeReady n then None
      else (case map_of targets (kn_Name n) of
              None \<Rightarrow> None
            | Some count \<Rightarrow>
                if backendIP (Some n) = [] then None else Some (to_node n (int count * 50))))"

definition ListReadyNodeBackendsForPort :: "kube \<Rightarrow> K8sService option \<Rightarrow> SvcPort \<Rightarrow> string + Node list" where
  "ListReadyNodeBackendsForPort k svc p =
     (let targets = nodesWithReadyEndpointsForPort k svc p in
      if localPolicy svc \<and> targets = [] then Inr []
      else if targets = [] then ListReadyNodeBackends k svc
      else (case list_nodes k of
              Inl e \<Rightarrow> Inl e
            | Inr nl \<Rightarrow> Inr (deduplicateNodes (List.map_filter (port_backend targets) nl))))"

definition ListNodeInternalIPs :: "kube \<Rightarrow> string + string list" where
  "ListNodeInternalIPs k =
     (case list_nodes k of
        Inl e \<Rightarrow> Inl e
      | Inr nl \<Rightarrow> Inr (filter (\<lambda>ip. ip \<noteq> []) (map InternalIP nl)))"

definition ListNodeBackends :: "kube \<Rightarrow> string + Node list" where
  "ListNodeBackends k =
     (case list_nodes k of
        Inl e \<Rightarrow> Inl e
      | Inr nl \<Rightarrow> Inr (deduplicateNodes
            (map (\<lambda>n. to_node n 1) (filter (\<lambda>n. backendIP (Some n) \<noteq> []) nl))))"

subsection \<open>Deduplication\<close>

lemma dedup_set: "n \<in> set (dedup_nodes seen ns) \<Longrightarrow> n \<in> set ns \<and> node_key n \<notin> set seen"
  by (induction seen ns rule: dedup_nodes.induct) (auto split: if_splits)

lemma dedup_keys:
  "node_key ` set (dedup_nodes seen ns) \<union> set seen = node_key ` set ns \<union> set seen"
  by (induction seen ns rule: dedup_nodes.induct) auto

lemma dedup_distinct: "distinct (map node_key (dedup_nodes seen ns))"
  by (induction seen ns rule: dedup_nodes.induct) (auto dest: dedup_set)

lemma dedup_subseq: "subseq (dedup_nodes seen ns) ns"
  by (induction seen ns rule: dedup_nodes.induct) auto

text \<open>
  Deduplication keeps exactly one node per pair of compute identity and address: the keys of
  the result are distinct, they are the keys of the input, and the result keeps the input's order.
\<close>

theorem deduplicateNodes_spec:
  "distinct (map node_key (deduplicateNodes ns)) \<and>
   node_key ` set (deduplicateNodes ns) = node_key ` set ns \<and>
   subseq (deduplicateNodes ns) ns"
  using dedup_distinct [of "[]" ns] dedup_keys [of "[]" ns] dedup_subseq [of "[]" ns]
  by (simp add: deduplicateNodes_def)

subsection \<open>Counting endpoints\<close>

definition serves :: "string \<Rightarrow> Endpoint \<Rightarrow> bool" where
  "serves name ep \<longleftrightarrow> ep_Ready ep \<noteq> Some False \<and> ep_NodeName ep = Some name \<and> name \<noteq> []"

definition ready_count :: "string \<Rightarrow> EndpointSlice list \<Rightarrow> nat" where
  "ready_count name slices = length (filter (serves name) (concat (map es_Endpoints slices)))"

lemma count_endpoint_index:
  "gm_index 0 (count_endpoint ep nodes) name = gm_index 0 nodes name + (if serves name ep then 1 else 0)"
  by (auto simp: count_endpoint_def serves_def gm_index_def split: option.splits)

lemma count_endpoint_pos:
  "\<forall>name. map_of nodes name \<noteq> Some 0 \<Longrightarrow> map_of (count_endpoint ep nodes) name \<noteq> Some 0"
  by (auto simp: count_endpoint_def split: option.splits)

lemma fold_count_endpoint:
  "gm_index 0 (fold count_endpoint eps nodes) name = gm_index 0 nodes name + length (filter (serves name) eps)"
  by (induction eps arbitrary: nodes) (auto simp: count_endpoint_index)

lemma fold_count_endpoint_pos:
  "\<forall>name. map_of nodes name \<noteq> Some 0 \<Longrightarrow> \<forall>name. map_of (fold count_endpoint eps nodes) name \<noteq> Some 0"
  by (induction eps arbitrary: nodes) (auto simp: count_endpoint_pos)

lemma fold_count_slice:
  "gm_index 0 (fold count_slice slices nodes) name = gm_index 0 nodes name + ready_count name slices"
  by (induction slices arbitrary: nodes)
     (auto simp: count_slice_def fold_count_endpoint ready_count_def)

lemma fold_count_slice_pos:
  "\<forall>name. map_of nodes name \<noteq> Some 0 \<Longrightarrow> \<forall>name. map_of (fold count_slice slices nodes) name \<noteq> Some 0"
  by (induction slices arbitrary: nodes) (simp_all add: count_slice_def fold_count_endpoint_pos)

lemma count_slices_Some:
  assumes "map_of (fold count_slice slices []) name = Some c"
  shows "c = ready_count name slices \<and> 0 < c"
  using fold_count_slice [of slices "[]" name] fold_count_slice_pos [of "[]" slices] assms
  by (auto simp: gm_index_def) (metis gr0I)

subsection \<open>External traffic policy\<close>

lemma port_backend_Some:
  assumes "port_backend targets n = Some b"
  obtains c where "IsNodeReady n" "map_of targets (kn_Name n) = Some c" "b = to_node n (int c * 50)"
    "nd_IP b \<noteq> []" "nd_NodeName b = kn_Name n"
  using assms by (auto simp: port_backend_def to_node_def split: if_splits option.splits)

text \<open>
  Under external traffic policy \<open>Local\<close> a listener is given only nodes that can deliver its
  traffic: every backend is a Ready node with an address, some matching EndpointSlice lists a ready
  endpoint on it, and its weight is 50 for each such endpoint.  There is no fallback to the other
  ready nodes.
\<close>

theorem local_policy_backends:
  assumes "ListReadyNodeBackendsForPort k (Some s) p = Inr out" and "localPolicy (Some s)"
    and "b \<in> set out"
  shows "\<exists>nl n slices. list_nodes k = Inr nl \<and> n \<in> set nl \<and> list_slices k s = Some slices \<and>
           IsNodeReady n \<and> nd_NodeName b = kn_Name n \<and> nd_IP b \<noteq> [] \<and>
           0 < ready_count (kn_Name n) (filter (slice_port_matches p) slices) \<and>
           nd_Weight b = int (ready_count (kn_Name n) (filter (slice_port_matches p) slices)) * 50"
proof -
  let ?t = "nodesWithReadyEndpointsForPort k (Some s) p"
  from assms obtain nl where nl: "list_nodes k = Inr nl"
    and out: "out = deduplicateNodes (List.map_filter (port_backend ?t) nl)" and ne: "?t \<noteq> []"
    by (auto simp: ListReadyNodeBackendsForPort_def Let_def split: if_splits sum.splits)
  from ne obtain slices where sl: "list_slices k s = Some slices"
    by (auto simp: nodesWithReadyEndpointsForPort_def split: option.splits)
  have t: "?t = fold count_slice (filter (slice_port_matches p) slices) []"
    by (simp add: nodesWithReadyEndpointsForPort_def sl)
  from assms(3) out have "b \<in> set (List.map_filter (port_backend ?t) nl)"
    by (auto simp: deduplicateNodes_def dest: dedup_set)
  then obtain n where n: "n \<in> set nl" "port_backend ?t n = Some b"
    by (auto simp: map_filter_set)
  from n(2) obtain c where c: "IsNodeReady n" "map_of ?t (kn_Name n) = Some c"
    "b = to_node n (int c * 50)" "nd_IP b \<noteq> []" "nd_NodeName b = kn_Name n"
    by (rule port_backend_Some)
  have "c = ready_count (kn_Name n) (filter (slice_port_matches p) slices) \<and> 0 < c"
    using c(2) unfolding t by (rule count_slices_Some)
  then show ?thesis using nl n sl c by (auto simp: to_node_def)
qed

definition demo_node :: "string \<Rightarrow> K8sNode" where
  "demo_node name = \<lparr>kn_Name = name, kn_ProviderID = ''cmp://'' @ name, kn_Annotations = [],
     kn_Conditions = [(''Ready'', ''True'')], kn_Addresses = [(''InternalIP'', ''10.0.0.7'')]\<rparr>"

definition demo_kube :: kube where
  "demo_kube = \<lparr>list_slices = (\<lambda>_. Some [\<lparr>es_Ports = [(Some ''web'', Some 8080)],
       es_Endpoints = [\<lparr>ep_Ready = Some True, ep_NodeName = Some ''n1''\<rparr>]\<rparr>]),
     list_nodes = Inr [demo_node ''n1'', demo_node ''n2'']\<rparr>"

definition demo_local :: K8sService where
  "demo_local = sample_service []\<lparr>svc_ExternalTrafficPolicy := ''Local''\<rparr>"

definition demo_port :: "string \<Rightarrow> SvcPort" where
  "demo_port name = \<lparr>sp_Name = name, sp_Port = 80, sp_NodePort = 30080, sp_Protocol = ''TCP''\<rparr>"

lemma demo_local_backends:
  "ListReadyNodeBackendsForPort demo_kube (Some demo_local) (demo_port ''web'') = Inr [to_node (demo_node ''n1'') 50]"
  by code_simp

theorem local_policy_backends_witness:
  "\<exists>nl n slices. list_nodes demo_kube = Inr nl \<and> n \<in> set nl \<and> list_slices demo_kube demo_local = Some slices \<and>
     IsNodeReady n \<and> nd_NodeName (to_node (demo_node ''n1'') 50) = kn_Name n \<and>
     nd_IP (to_node (demo_node ''n1'') 50) \<noteq> [] \<and>
     0 < ready_count (kn_Name n) (filter (slice_port_matches (demo_port ''web'')) slices) \<and>
     nd_Weight (to_node (demo_node ''n1'') 50)
       = int (ready_count (kn_Name n) (filter (slice_port_matches (demo_port ''web'')) slices)) * 50"
  by (rule local_policy_backends [OF demo_local_backends])
     (simp_all add: localPolicy_def demo_local_def)

text \<open>
  A Service port without a name is matched against EndpointSlice ports by its own number.  When
  no slice port has that number (an unnamed port whose target port differs), the listener of a
  \<open>Local\<close> Service gets no backend at all, although ready endpoints exist.
\<close>

theorem unnamed_port_needs_same_target:
  assumes "list_slices k s = Some slices" and "sp_Name p = []" and "localPolicy (Some s)"
    and "\<forall>es \<in> set slices. \<forall>pp \<in> set (es_Ports es). snd pp \<noteq> Some (sp_Port p)"
  shows "ListReadyNodeBackendsForPort k (Some s) p = Inr []"
proof -
  have "\<not> slice_port_matches p es" if "es \<in> set slices" for es
    using assms(2,4) that by (fastforce simp: slice_port_matches_def list_ex_iff)
  then have "filter (slice_port_matches p) slices = []" by (simp add: filter_empty_conv)
  then show ?thesis
    using assms by (simp add: ListReadyNodeBackendsForPort_def nodesWithReadyEndpointsForPort_def)
qed

theorem unnamed_port_needs_same_target_witness:
  "ListReadyNodeBackendsForPort demo_kube (Some demo_local) (demo_port []) = Inr []"
  by (rule unnamed_port_needs_same_target [where slices = "the (list_slices demo_kube demo_local)"])
     (simp_all add: demo_kube_def demo_port_def demo_local_def localPolicy_def)

end
