(* ===== verification/ServiceStack.thy ===== *)
theory ServiceStack
  imports Naming Backend Errors
begin

text \<open>
  \<open>pkg/service\<close>: the desired stack of a Kubernetes LoadBalancer Service.  A stack has one
  virtual server, one pool and one port entry per Service port.
\<close>

definition MapK8sProtocolToCMP :: "string \<Rightarrow> int32 \<Rightarrow> string" where
  "MapK8sProtocolToCMP p port =
     (if p = ''UDP'' then ''UDP'' else if p = ''TCP'' then ''TCP'' else ''TCP'')"

definition svc_owner :: "K8sService \<Rightarrow> Owner" where
  "svc_owner s = \<lparr>ow_Kind = ''Service'', ow_Namespace = svc_Namespace s, ow_Name = svc_Name s, ow_UID = svc_UID s\<rparr>"

text \<open>The stack before the ports are added.\<close>

definition svc_stack_init :: "K8sService \<Rightarrow> LBConfig \<Rightarrow> LoadBalancerStack" where
  "svc_stack_init s cfg =
     (let owner = svc_owner s; svc = Some s in
      \<lparr>st_Owner = owner, st_Ownership = OwnershipFor owner [] ''stack'' [], st_Config = cfg,
       st_LBService = \<lparr>ml_Name = svc_LBServiceName svc,
         ml_Description = ''App LB for '' @ svc_Namespace s @ ''/'' @ svc_Name s,
         ml_FlavorID = 0, ml_NetworkID = [], ml_VPCID = [], ml_VPCName = [], ml_Region = [],
         ml_Ownership = OwnershipFor owner [] ''lb-service'' (VIPGroup svc)\<rparr>,
       st_VIP = \<lparr>mv_Name = svc_VIPName svc, mv_Address = [], mv_Ownership = OwnershipFor owner [] ''vip'' (VIPGroup svc)\<rparr>,
       st_VirtualServers = [], st_Pools = [], st_RoutingRules = [], st_Certificates = [], st_Ports = []\<rparr>)"

definition svc_protocol :: "LBConfig \<Rightarrow> SvcPort \<Rightarrow> string" where
  "svc_protocol cfg p =
     (let proto = MapK8sProtocolToCMP (sp_Protocol p) (sp_Port p)
      in if ProtocolOverride cfg \<noteq> [] then ProtocolOverride cfg else proto)"

definition svc_monitor :: "K8sService \<Rightarrow> LBConfig \<Rightarrow> SvcPort \<Rightarrow> Monitor" where
  "svc_monitor s cfg p =
     \<lparr>mon_Name = svc_MonitorName (Some s) (sp_Port p), mon_Type = HealthType cfg, mon_Path = HealthPath cfg,
      mon_Interval = HealthInterval cfg, mon_Port = HealthPort cfg, mon_Timeout = HealthTimeout cfg\<rparr>"

definition svc_member :: "SvcPort \<Rightarrow> Node \<Rightarrow> BackendMember" where
  "svc_member p n =
     \<lparr>bm_NodeName = nd_NodeName n, bm_ProviderID = nd_ProviderID n, bm_ComputeID = nd_ComputeID n,
      bm_IP = nd_IP n, bm_Port = sp_NodePort p, bm_Weight = (if nd_Weight n \<le> 0 then 1 else nd_Weight n)\<rparr>"

definition svc_pool :: "K8sService \<Rightarrow> LBConfig \<Rightarrow> SvcPort \<Rightarrow> Node list \<Rightarrow> M_Pool" where
  "svc_pool s cfg p ns =
     \<lparr>pool_Name = svc_PoolName (Some s) (sp_Port p), pool_Service = [], pool_PortName = [], pool_Port = 0,
      pool_Members = map (svc_member p) ns, pool_Monitor = Some (svc_monitor s cfg p),
      pool_Ownership = OwnershipFor (svc_owner s) [] ''pool'' (VIPGroup (Some s))\<rparr>"

definition svc_virtual_server :: "K8sService \<Rightarrow> LBConfig \<Rightarrow> SvcPort \<Rightarrow> M_VirtualServer" where
  "svc_virtual_server s cfg p =
     \<lparr>vs_Name = svc_VirtualServerName (Some s) (sp_Port p), vs_FrontendPort = sp_Port p,
      vs_BackendNodePort = sp_NodePort p, vs_Protocol = svc_protocol cfg p,
      vs_RoutingAlgorithm = RoutingAlgorithm cfg, vs_PersistenceType = PersistenceType cfg,
      vs_DrainingTimeout = DrainingTimeout cfg, vs_SourceRanges = SourceRanges cfg,
      vs_Monitor = Some (svc_monitor s cfg p), vs_DefaultPoolName = svc_PoolName (Some s) (sp_Port p),
      vs_Ownership = OwnershipFor (svc_owner s) [] ''virtual-server'' []\<rparr>"

definition svc_port_entry :: "LBConfig \<Rightarrow> SvcPort \<Rightarrow> Node list \<Rightarrow> ServicePort" where
  "svc_port_entry cfg p ns =
     \<lparr>svp_Name = sp_Name p, svp_FrontendPort = sp_Port p, svp_NodePort = sp_NodePort p,
      svp_Protocol = svc_protocol cfg p, svp_Backends = map (svc_member p) ns\<rparr>"

fun svc_build_ports :: "K8sService \<Rightarrow> LBConfig \<Rightarrow> (SvcPort \<Rightarrow> Node list) \<Rightarrow> SvcPort list \<Rightarrow> LoadBalancerStack
    \<Rightarrow> err + LoadBalancerStack" where
  "svc_build_ports s cfg backends [] st = Inr st"
| "svc_build_ports s cfg backends (p # ps) st =
     (if sp_Port p = 0
      then Inl (Errorf ''InvalidServicePort: service port %q has no frontend port'' [sp_Name p])
      else if sp_NodePort p = 0
      then Inl (Errorf ''BackendNodePortRequired: service port %q (%d) requires a NodePort backend''
                  [sp_Name p, show_i32 (sp_Port p)])
      else svc_build_ports s cfg backends ps
             (st\<lparr>st_VirtualServers := st_VirtualServers st @ [svc_virtual_server s cfg p],
                 st_Pools := st_Pools st @ [svc_pool s cfg p (backends p)],
                 st_Ports := st_Ports st @ [svc_port_entry cfg p (backends p)]\<rparr>))"

definition BuildLoadBalancerStackWithPortBackends ::
    "K8sService option \<Rightarrow> LBConfig \<Rightarrow> (SvcPort \<Rightarrow> Node list) \<Rightarrow> err + LoadBalancerStack" where
  "BuildLoadBalancerStackWithPortBackends svc cfg backends =
     (case svc of
        None \<Rightarrow> Inl (Errorf ''service must not be nil'' [])
      | Some s \<Rightarrow>
          if svc_Ports s = [] then Inl (Errorf ''service has no ports'' [])
          else svc_build_ports s cfg backends (svc_Ports s) (svc_stack_init s cfg))"

definition BuildLoadBalancerStack :: "K8sService option \<Rightarrow> LBConfig \<Rightarrow> Node list \<Rightarrow> err + LoadBalancerStack" where
  "BuildLoadBalancerStack svc cfg nodes = BuildLoadBalancerStackWithPortBackends svc cfg (\<lambda>_. nodes)"

subsection \<open>What the loop computes\<close>

definition port_ok :: "SvcPort \<Rightarrow> bool" where
  "port_ok p \<longleftrightarrow> sp_Port p \<noteq> 0 \<and> sp_NodePort p \<noteq> 0"

lemma svc_build_ports_Inr:
  "list_all port_ok ps \<Longrightarrow>
   svc_build_ports s cfg backends ps st =
     Inr (st\<lparr>st_VirtualServers := st_VirtualServers st @ map (svc_virtual_server s cfg) ps,
             st_Pools := st_Pools st @ map (\<lambda>p. svc_pool s cfg p (backends p)) ps,
             st_Ports := st_Ports st @ map (\<lambda>p. svc_port_entry cfg p (backends p)) ps\<rparr>)"
  by (induction ps arbitrary: st) (simp_all add: port_ok_def)

lemma svc_build_ports_Inl:
  "\<not> list_all port_ok ps \<Longrightarrow> \<exists>e. svc_build_ports s cfg backends ps st = Inl e"
  by (induction ps arbitrary: st) (auto simp: port_ok_def)

lemma BuildLoadBalancerStack_succeeds_iff_ports:
  "(\<exists>st. BuildLoadBalancerStackWithPortBackends (Some s) cfg backends = Inr st) \<longleftrightarrow>
   svc_Ports s \<noteq> [] \<and> list_all port_ok (svc_Ports s)"
proof (cases "list_all port_ok (svc_Ports s)")
  case True
  then show ?thesis
    by (simp add: BuildLoadBalancerStackWithPortBackends_def svc_build_ports_Inr)
next
  case False
  then obtain e where "svc_build_ports s cfg backends (svc_Ports s) (svc_stack_init s cfg) = Inl e"
    using svc_build_ports_Inl by blast
  with False show ?thesis by (simp add: BuildLoadBalancerStackWithPortBackends_def)
qed

text \<open>The fields of a built stack, as maps over the Service ports.\<close>

lemma built_stack_fields:
  assumes "BuildLoadBalancerStackWithPortBackends (Some s) cfg backends = Inr st"
  shows "st_VirtualServers st = map (svc_virtual_server s cfg) (svc_Ports s)"
    and "st_Pools st = map (\<lambda>p. svc_pool s cfg p (backends p)) (svc_Ports s)"
    and "st_Ports st = map (\<lambda>p. svc_port_entry cfg p (backends p)) (svc_Ports s)"
    and "st_RoutingRules st = []" and "st_Certificates st = []"
    and "ml_Ownership (st_LBService st) = OwnershipFor (svc_owner s) [] ''lb-service'' (VIPGroup (Some s))"
proof -
  have "list_all port_ok (svc_Ports s)"
    using assms BuildLoadBalancerStack_succeeds_iff_ports by blast
  then have "st = (svc_stack_init s cfg)\<lparr>st_VirtualServers := map (svc_virtual_server s cfg) (svc_Ports s),
      st_Pools := map (\<lambda>p. svc_pool s cfg p (backends p)) (svc_Ports s),
      st_Ports := map (\<lambda>p. svc_port_entry cfg p (backends p)) (svc_Ports s)\<rparr>"
    using assms by (auto simp: BuildLoadBalancerStackWithPortBackends_def svc_build_ports_Inr
        svc_stack_init_def Let_def split: if_splits)
  then show "st_VirtualServers st = map (svc_virtual_server s cfg) (svc_Ports s)"
    and "st_Pools st = map (\<lambda>p. svc_pool s cfg p (backends p)) (svc_Ports s)"
    and "st_Ports st = map (\<lambda>p. svc_port_entry cfg p (backends p)) (svc_Ports s)"
    and "st_RoutingRules st = []" and "st_Certificates st = []"
    and "ml_Ownership (st_LBService st) = OwnershipFor (svc_owner s) [] ''lb-service'' (VIPGroup (Some s))"
    by (simp_all add: svc_stack_init_def Let_def)
qed

subsection \<open>Properties\<close>

text \<open>
  Building succeeds exactly for a Service with at least one port all of whose ports have a
  frontend port and a NodePort; there is no partial stack.
\<close>

theorem BuildLoadBalancerStack_succeeds_iff:
  "(\<exists>st. BuildLoadBalancerStackWithPortBackends (Some s) cfg backends = Inr st) =
   (svc_Ports s \<noteq> [] \<and> list_all port_ok (svc_Ports s))"
  by (rule BuildLoadBalancerStack_succeeds_iff_ports)

text \<open>
  A built stack is aligned with the Service: the i-th virtual server listens on the i-th
  Service port and its default pool is the i-th pool, whose members are exactly the backends
  supplied for that port, each on the port's NodePort with a positive weight; pool and listener
  share the monitor; and every resource carries the Service's identity as its owner.
\<close>

theorem built_stack_aligned:
  assumes "BuildLoadBalancerStackWithPortBackends (Some s) cfg backends = Inr st"
    and "i < length (svc_Ports s)"
  shows "length (st_VirtualServers st) = length (svc_Ports s) \<and> length (st_Pools st) = length (svc_Ports s) \<and>
    vs_FrontendPort (st_VirtualServers st ! i) = sp_Port (svc_Ports s ! i) \<and>
    vs_DefaultPoolName (st_VirtualServers st ! i) = pool_Name (st_Pools st ! i) \<and>
    map bm_IP (pool_Members (st_Pools st ! i)) = map nd_IP (backends (svc_Ports s ! i)) \<and>
    map bm_ComputeID (pool_Members (st_Pools st ! i)) = map nd_ComputeID (backends (svc_Ports s ! i)) \<and>
    list_all (\<lambda>m. bm_Port m = sp_NodePort (svc_Ports s ! i) \<and> 0 < bm_Weight m) (pool_Members (st_Pools st ! i)) \<and>
    svp_Backends (st_Ports st ! i) = pool_Members (st_Pools st ! i) \<and>
    pool_Monitor (st_Pools st ! i) = vs_Monitor (st_VirtualServers st ! i) \<and>
    os_SourceName (vs_Ownership (st_VirtualServers st ! i)) = svc_Name s \<and>
    os_SourceName (pool_Ownership (st_Pools st ! i)) = svc_Name s \<and>
    os_SourceUID (vs_Ownership (st_VirtualServers st ! i)) = svc_UID s \<and>
    os_ManagedBy (ml_Ownership (st_LBService st)) = ManagedByValue"
  using assms(2) unfolding built_stack_fields [OF assms(1)]
  by (simp add: svc_virtual_server_def svc_pool_def svc_port_entry_def svc_member_def OwnershipFor_def
      svc_owner_def list_all_iff comp_def)

definition demo_service :: K8sService where
  "demo_service = sample_service []\<lparr>svc_Ports := [demo_port ''web'']\<rparr>"

theorem built_stack_aligned_witness:
  "\<exists>st. BuildLoadBalancerStackWithPortBackends (Some demo_service) DefaultLBConfig (\<lambda>_. [to_node (demo_node ''n1'') 0]) = Inr st \<and>
     map bm_IP (pool_Members (st_Pools st ! 0)) = [''10.0.0.7''] \<and>
     list_all (\<lambda>m. bm_Port m = 30080 \<and> 0 < bm_Weight m) (pool_Members (st_Pools st ! 0))"
proof -
  let ?b = "\<lambda>_ :: SvcPort. [to_node (demo_node ''n1'') 0]"
  have ports: "svc_Ports demo_service = [demo_port ''web'']" by (simp add: demo_service_def)
  then have "list_all port_ok (svc_Ports demo_service)" by (simp add: port_ok_def demo_port_def)
  then obtain st where st: "BuildLoadBalancerStackWithPortBackends (Some demo_service) DefaultLBConfig ?b = Inr st"
    using ports BuildLoadBalancerStack_succeeds_iff_ports [of demo_service DefaultLBConfig ?b] by auto
  have ip: "nd_IP (to_node (demo_node ''n1'') 0) = ''10.0.0.7''" by code_simp
  have i: "0 < length (svc_Ports demo_service)" by (simp add: ports)
  from built_stack_aligned [OF st i]
  have "map bm_IP (pool_Members (st_Pools st ! 0)) = map nd_IP (?b (svc_Ports demo_service ! 0))"
    and "list_all (\<lambda>m. bm_Port m = sp_NodePort (svc_Ports demo_service ! 0) \<and> 0 < bm_Weight m)
           (pool_Members (st_Pools st ! 0))" by blast+
  moreover have "sp_NodePort (svc_Ports demo_service ! 0) = 30080" by (simp add: ports demo_port_def)
  ultimately show ?thesis using st ip by auto
qed

end
