(* ===== verification/Results.thy ===== *)
theory Results
  imports Errors
begin

text \<open>
  Fallible computations without effects: a value or a Go error.  \<open>res_fold\<close> is a loop that
  stops at the first error; the rules below reason about it by an invariant of its state.
\<close>

definition res_bind :: "err + 'a \<Rightarrow> ('a \<Rightarrow> err + 'b) \<Rightarrow> err + 'b" where
  "res_bind m f = (case m of Inl e \<Rightarrow> Inl e | Inr x \<Rightarrow> f x)"

fun res_fold :: "('s \<Rightarrow> 'x \<Rightarrow> err + 's) \<Rightarrow> 'x list \<Rightarrow> 's \<Rightarrow> err + 's" where
  "res_fold f [] s = Inr s"
| "res_fold f (x # xs) s = res_bind (f s x) (res_fold f xs)"

text \<open>\<open>if err := check; err != nil { return err }\<close>.\<close>

definition res_check :: "err option \<Rightarrow> err + 'a \<Rightarrow> err + 'a" where
  "res_check e m = (case e of None \<Rightarrow> m | Some x \<Rightarrow> Inl x)"

definition res_wrap :: "string \<Rightarrow> string list \<Rightarrow> err + 'a \<Rightarrow> err + 'a" where
  "res_wrap f args m = (case m of Inl e \<Rightarrow> Inl (Wrapf f args e) | Inr x \<Rightarrow> Inr x)"

definition is_ok :: "err + 'a \<Rightarrow> bool" where
  "is_ok m = (case m of Inl e \<Rightarrow> False | Inr x \<Rightarrow> True)"

lemma is_ok_simps [simp]: "\<not> is_ok (Inl e)" "is_ok (Inr x)"
  by (simp_all add: is_ok_def)

lemma is_ok_iff: "is_ok m \<longleftrightarrow> (\<exists>x. m = Inr x)"
  by (cases m) simp_all

lemma res_bind_simps [simp]: "res_bind (Inl e) f = Inl e" "res_bind (Inr x) f = f x"
  by (simp_all add: res_bind_def)

lemma res_bind_Inr_iff: "res_bind m f = Inr y \<longleftrightarrow> (\<exists>x. m = Inr x \<and> f x = Inr y)"
  by (cases m) simp_all

lemma res_bind_InrE:
  assumes "res_bind m f = Inr y"
  obtains x where "m = Inr x" "f x = Inr y"
  using assms by (auto simp: res_bind_Inr_iff)

lemma res_check_simps [simp]: "res_check None m = m" "res_check (Some e) m = Inl e"
  by (simp_all add: res_check_def)

lemma res_check_Inr_iff: "res_check e m = Inr y \<longleftrightarrow> e = None \<and> m = Inr y"
  by (cases e) simp_all

lemma res_wrap_Inr_iff [simp]: "res_wrap f args m = Inr y \<longleftrightarrow> m = Inr y"
  by (cases m) (simp_all add: res_wrap_def)

lemma res_fold_append: "res_fold f (xs @ ys) s = res_bind (res_fold f xs s) (res_fold f ys)"
proof (induction xs arbitrary: s)
  case (Cons x xs)
  then show ?case by (cases "f s x") simp_all
qed simp

lemma res_fold_invariant:
  assumes "res_fold f xs s = Inr s'" and "P s"
    and "\<And>x s s'. x \<in> set xs \<Longrightarrow> P s \<Longrightarrow> f s x = Inr s' \<Longrightarrow> P s'"
  shows "P s'"
  using assms
proof (induction xs arbitrary: s)
  case (Cons x xs)
  from Cons.prems(1) obtain t where t: "f s x = Inr t" "res_fold f xs t = Inr s'"
    by (auto elim: res_bind_InrE)
  have "P t" by (rule Cons.prems(3) [OF _ Cons.prems(2) t(1)]) simp
  from Cons.IH [OF t(2) this] Cons.prems(3) show ?case by (metis list.set_intros(2))
qed simp

text \<open>When a step succeeds or fails whatever the state, so does the loop.\<close>

lemma res_fold_ok_iff:
  assumes "\<And>x s. x \<in> set xs \<Longrightarrow> is_ok (f s x) \<longleftrightarrow> Q x"
  shows "is_ok (res_fold f xs s) \<longleftrightarrow> (\<forall>x \<in> set xs. Q x)"
  using assms
proof (induction xs arbitrary: s)
  case (Cons x xs)
  then have "is_ok (f s x) \<longleftrightarrow> Q x" by simp
  with Cons show ?case by (cases "f s x") simp_all
qed simp

end
