(* ===== verification/Ingress.thy ===== *)
theory Ingress
  imports Results Naming Backend
begin

text \<open>
  \<open>pkg/ingress/builder.go\<close>, \<open>validation.go\<close> and \<open>tls.go\<close>: the checks an Ingress must pass,
  the stack of a single Ingress, and the TLS material of a Secret.  A Kubernetes Ingress is a
  record of the fields the code reads; a nil pointer is \<open>None\<close>.
\<close>

record IngressServiceBackend =
  isb_Name :: string
  isb_PortName :: string
  isb_PortNumber :: int32

record IngressBackend =
  ib_Resource :: bool
  ib_Service :: "IngressServiceBackend option"

record IngressPath =
  ip_Path :: string
  ip_PathType :: "string option"
  ip_Backend :: IngressBackend

record IngressRule =
  ir_Host :: string
  ir_HTTP :: "IngressPath list option"

record IngressTLS =
  it_Hosts :: "string list"
  it_SecretName :: string

record K8sIngress =
  ing_Namespace :: string
  ing_Name :: string
  ing_UID :: string
  ing_Annotations :: "string gomap"
  ing_DefaultBackend :: "IngressBackend option"
  ing_Rules :: "IngressRule list"
  ing_TLS :: "IngressTLS list"
  ing_ClassName :: "string option"
  ing_Deleting :: bool
  ing_Finalizers :: "string list"
  ing_IngressIPs :: "string list"

subsection \<open>Validation\<close>

record backendRef =
  serviceName :: string
  portName :: string
  portNumber :: int32

definition backendRefFromService :: "IngressServiceBackend \<Rightarrow> backendRef" where
  "backendRefFromService svc = \<lparr>serviceName = isb_Name svc, portName = isb_PortName svc, portNumber = isb_PortNumber svc\<rparr>"

definition backendRef_String :: "backendRef \<Rightarrow> string" where
  "backendRef_String r =
     (if portName r \<noteq> [] then serviceName r @ '':'' @ portName r
      else serviceName r @ '':'' @ show_i32 (portNumber r))"

definition ing_routeKey :: "string \<Rightarrow> string \<Rightarrow> string \<Rightarrow> string" where
  "ing_routeKey host path pathType = to_lower (trim_space host) @ ''|'' @ pathType @ ''|'' @ path"

text \<open>The closure \<open>consume\<close>: its state is \<open>seenRules\<close> and \<open>backendCount\<close>.\<close>

definition consume_backend :: "IngressBackend \<Rightarrow> string \<Rightarrow> backendRef gomap \<times> nat \<Rightarrow> err + backendRef gomap \<times> nat" where
  "consume_backend be key st =
     (case st of (seenRules, backendCount) \<Rightarrow>
        if ib_Resource be then Inl (Errorf ''resource backends are not supported'' [])
        else case ib_Service be of
          None \<Rightarrow> Inl (Errorf ''backend service reference is required'' [])
        | Some svc \<Rightarrow>
            if trim_space (isb_Name svc) = [] then Inl (Errorf ''backend service reference is required'' [])
            else if isb_PortName svc = [] \<and> isb_PortNumber svc = 0
            then Inl (Errorf ''backend service port is required for %s'' [isb_Name svc])
            else let ref = backendRefFromService svc
                 in case map_of seenRules key of
                      Some previous \<Rightarrow>
                        if previous \<noteq> ref
                        then Inl (Errorf ''conflicting backends for duplicate host/path %q: first=%s current=%s''
                                    [key, backendRef_String previous, backendRef_String ref])
                        else Inr (gm_set key ref seenRules, Suc backendCount)
                    | None \<Rightarrow> Inr (gm_set key ref seenRules, Suc backendCount))"

definition path_error :: "IngressPath \<Rightarrow> err option" where
  "path_error p =
     (if ip_Path p = [] then Some (Errorf ''ingress path must not be empty'' [])
      else case ip_PathType p of
        None \<Rightarrow> Some (Errorf ''ingress pathType is required for %s'' [ip_Path p])
      | Some ty \<Rightarrow>
          if ty = ''Exact'' \<or> ty = ''Prefix'' then None
          else if ty = ''ImplementationSpecific''
          then Some (Errorf ''ImplementationSpecific pathType is not supported for %s'' [ip_Path p])
          else Some (Errorf ''unsupported pathType for %s'' [ip_Path p]))"

definition validate_path :: "string \<Rightarrow> backendRef gomap \<times> nat \<Rightarrow> IngressPath \<Rightarrow> err + backendRef gomap \<times> nat" where
  "validate_path host st p =
     res_check (path_error p)
       (consume_backend (ip_Backend p) (ing_routeKey host (ip_Path p) (the (ip_PathType p))) st)"

definition validate_rule :: "backendRef gomap \<times> nat \<Rightarrow> IngressRule \<Rightarrow> err + backendRef gomap \<times> nat" where
  "validate_rule st rule =
     (case ir_HTTP rule of
        None \<Rightarrow> Inl (Errorf ''non-HTTP ingress rules are not supported'' [])
      | Some paths \<Rightarrow> res_fold (validate_path (ir_Host rule)) paths st)"

definition validateIngressShape :: "K8sIngress option \<Rightarrow> err + unit" where
  "validateIngressShape ing =
     (case ing of
        None \<Rightarrow> Inl (Errorf ''ingress must not be nil'' [])
      | Some i \<Rightarrow>
          res_bind (res_fold validate_rule (ing_Rules i) ([], 0))
            (\<lambda>st. res_bind (case ing_DefaultBackend i of None \<Rightarrow> Inr st | Some be \<Rightarrow> consume_backend be ''<default>'' st)
              (\<lambda>(seenRules, backendCount).
                 if list_ex (\<lambda>t. trim_space (it_SecretName t) = []) (ing_TLS i)
                 then Inl (Errorf ''tls.secretName is required when TLS is configured'' [])
                 else if backendCount = 0 then Inl (Errorf ''at least one service backend is required'' [])
                 else Inr ())))"

text \<open>The backends of an Ingress in the order the code visits them, and \<open>ValidateSupported\<close>.\<close>

definition rule_paths :: "K8sIngress \<Rightarrow> (string \<times> IngressPath) list" where
  "rule_paths i = concat (map (\<lambda>r. map (Pair (ir_Host r)) (case ir_HTTP r of None \<Rightarrow> [] | Some ps \<Rightarrow> ps)) (ing_Rules i))"

definition ingress_backends :: "K8sIngress \<Rightarrow> IngressServiceBackend list" where
  "ingress_backends i =
     List.map_filter ib_Service
       (map (\<lambda>(host, p). ip_Backend p) (rule_paths i) @ (case ing_DefaultBackend i of None \<Rightarrow> [] | Some be \<Rightarrow> [be]))"

definition ValidateSupported :: "K8sIngress option \<Rightarrow> err + unit" where
  "ValidateSupported ing =
     res_bind (validateIngressShape ing)
       (\<lambda>_. if length (remdups (map (backendRef_String \<circ> backendRefFromService) (ingress_backends (the ing)))) > 1
          then Inl (Errorf ''multiple backend services or ports require routing-rule and pool deployment support that is not yet enabled'' [])
          else Inr ())"

subsection \<open>What validation accepts\<close>

definition backend_ok :: "IngressBackend \<Rightarrow> bool" where
  "backend_ok be \<longleftrightarrow> \<not> ib_Resource be \<and>
     (case ib_Service be of None \<Rightarrow> False
      | Some svc \<Rightarrow> trim_space (isb_Name svc) \<noteq> [] \<and> (isb_PortName svc \<noteq> [] \<or> isb_PortNumber svc \<noteq> 0))"

definition rules_paths :: "IngressRule list \<Rightarrow> (string \<times> IngressPath) list" where
  "rules_paths rules = concat (map (\<lambda>r. map (Pair (ir_Host r)) (case ir_HTTP r of None \<Rightarrow> [] | Some ps \<Rightarrow> ps)) rules)"

definition path_entry :: "string \<times> IngressPath \<Rightarrow> string \<times> IngressBackend" where
  "path_entry hp = (ing_routeKey (fst hp) (ip_Path (snd hp)) (the (ip_PathType (snd hp))), ip_Backend (snd hp))"

text \<open>The routes of an Ingress: the key of each path, and \<open><default>\<close>, with its backend.\<close>

definition route_entries :: "K8sIngress \<Rightarrow> (string \<times> IngressBackend) list" where
  "route_entries i = map path_entry (rules_paths (ing_Rules i)) @
     (case ing_DefaultBackend i of None \<Rightarrow> [] | Some be \<Rightarrow> [(''<default>'', be)])"

definition entries_ok :: "(string \<times> IngressBackend) list \<Rightarrow> bool" where
  "entries_ok es \<longleftrightarrow> (\<forall>e \<in> set es. backend_ok (snd e)) \<and>
     (\<forall>e \<in> set es. \<forall>f \<in> set es. fst e = fst f \<longrightarrow> ib_Service (snd e) = ib_Service (snd f))"

definition ingress_shape_ok :: "K8sIngress \<Rightarrow> bool" where
  "ingress_shape_ok i \<longleftrightarrow>
     list_all (\<lambda>r. ir_HTTP r \<noteq> None) (ing_Rules i) \<and>
     list_all (\<lambda>(host, p). ip_Path p \<noteq> [] \<and> ip_PathType p \<in> {Some ''Exact'', Some ''Prefix''}) (rules_paths (ing_Rules i)) \<and>
     entries_ok (route_entries i) \<and> route_entries i \<noteq> [] \<and>
     list_all (\<lambda>t. trim_space (it_SecretName t) \<noteq> []) (ing_TLS i)"

lemma rule_paths_rules: "rule_paths i = rules_paths (ing_Rules i)"
  by (simp add: rule_paths_def rules_paths_def)

lemma rules_paths_simps [simp]: "rules_paths [] = []"
  "rules_paths (r # rs) = map (Pair (ir_Host r)) (case ir_HTTP r of None \<Rightarrow> [] | Some ps \<Rightarrow> ps) @ rules_paths rs"
  by (simp_all add: rules_paths_def)

lemma path_error_None_iff: "path_error p = None \<longleftrightarrow> ip_Path p \<noteq> [] \<and> ip_PathType p \<in> {Some ''Exact'', Some ''Prefix''}"
  by (auto simp: path_error_def split: option.splits)

lemma backendRef_inj [simp]: "backendRefFromService s = backendRefFromService t \<longleftrightarrow> s = t"
  by (cases s; cases t) (simp add: backendRefFromService_def)

text \<open>The closure over a list of routes.\<close>

definition consume_entry :: "backendRef gomap \<times> nat \<Rightarrow> string \<times> IngressBackend \<Rightarrow> err + backendRef gomap \<times> nat" where
  "consume_entry st e = consume_backend (snd e) (fst e) st"

definition ref_of :: "IngressBackend \<Rightarrow> backendRef" where
  "ref_of be = backendRefFromService (the (ib_Service be))"

lemma consume_backend_Inr_iff:
  "consume_backend be k (seen, n) = Inr st \<longleftrightarrow>
   backend_ok be \<and> map_of seen k \<in> {None, Some (ref_of be)} \<and> st = (gm_set k (ref_of be) seen, Suc n)"
  by (auto simp: consume_backend_def backend_ok_def ref_of_def Let_def split: option.splits if_splits)

lemma ref_of_eq_iff: "backend_ok be \<Longrightarrow> backend_ok be' \<Longrightarrow> ref_of be = ref_of be' \<longleftrightarrow> ib_Service be = ib_Service be'"
  by (auto simp: ref_of_def backend_ok_def split: option.splits)

definition seen_for :: "(string \<times> IngressBackend) list \<Rightarrow> backendRef gomap \<Rightarrow> bool" where
  "seen_for es seen \<longleftrightarrow> (\<forall>k r. map_of seen k = Some r \<longleftrightarrow> (\<exists>f \<in> set es. fst f = k \<and> ref_of (snd f) = r))"

lemma entries_ok_snoc1:
  "entries_ok (es @ [e]) \<longleftrightarrow>
   entries_ok es \<and> backend_ok (snd e) \<and> (\<forall>f \<in> set es. fst f = fst e \<longrightarrow> ib_Service (snd f) = ib_Service (snd e))"
  unfolding entries_ok_def by (simp add: ball_Un ball_conj_distrib eq_commute [of "fst e"] eq_commute [of "ib_Service (snd e)"]) blast

lemma seen_for_at:
  assumes "seen_for es seen"
  shows "map_of seen k \<in> {None, Some r} \<longleftrightarrow> (\<forall>f \<in> set es. fst f = k \<longrightarrow> ref_of (snd f) = r)"
proof -
  have "map_of seen k \<in> {None, Some r} \<longleftrightarrow> (\<forall>r'. map_of seen k = Some r' \<longrightarrow> r' = r)"
    by (cases "map_of seen k") auto
  with assms show ?thesis unfolding seen_for_def by (simp, metis)
qed

lemma entries_ok_snoc:
  assumes "seen_for es seen"
  shows "entries_ok (es @ [e]) \<longleftrightarrow> entries_ok es \<and> backend_ok (snd e) \<and> map_of seen (fst e) \<in> {None, Some (ref_of (snd e))}"
proof -
  have "ref_of (snd f) = ref_of (snd e) \<longleftrightarrow> ib_Service (snd f) = ib_Service (snd e)"
    if "entries_ok es" "backend_ok (snd e)" "f \<in> set es" for f
    by (rule ref_of_eq_iff) (use that in \<open>simp_all add: entries_ok_def\<close>)
  then show ?thesis unfolding entries_ok_snoc1 seen_for_at [OF assms] by blast
qed

lemma seen_for_snoc:
  assumes "seen_for es seen" and "map_of seen (fst e) \<in> {None, Some (ref_of (snd e))}"
  shows "seen_for (es @ [e]) (gm_set (fst e) (ref_of (snd e)) seen)"
proof -
  from assms(2) have "\<And>f. f \<in> set es \<Longrightarrow> fst f = fst e \<Longrightarrow> ref_of (snd f) = ref_of (snd e)"
    unfolding seen_for_at [OF assms(1)] by blast
  with assms(1) show ?thesis unfolding seen_for_def by (simp, metis)
qed

lemma consume_entries:
  "(case res_fold consume_entry es ([], 0) of
      Inl e \<Rightarrow> \<not> entries_ok es
    | Inr (seen, n) \<Rightarrow> entries_ok es \<and> n = length es \<and> seen_for es seen)"
proof (induction es rule: rev_induct)
  case Nil
  then show ?case by (simp add: entries_ok_def seen_for_def)
next
  case (snoc e es)
  obtain k be where e: "e = (k, be)" by (cases e)
  show ?case
  proof (cases "res_fold consume_entry es ([], 0)")
    case (Inl err)
    with snoc have "\<not> entries_ok (es @ [e])" by (simp add: entries_ok_snoc1)
    with Inl show ?thesis by (simp add: res_fold_append)
  next
    case (Inr st)
    obtain seen n where st: "st = (seen, n)" by (cases st)
    with Inr snoc have es: "entries_ok es" "n = length es" "seen_for es seen" by auto
    show ?thesis
    proof (cases "consume_backend be k (seen, n)")
      case (Inl err)
      then have "\<not> (backend_ok be \<and> map_of seen k \<in> {None, Some (ref_of be)})"
        using consume_backend_Inr_iff [of be k seen n] by fastforce
      then have "\<not> entries_ok (es @ [e])" by (simp add: e entries_ok_snoc [OF es(3)])
      moreover have "consume_entry st e = Inl err" using Inl by (simp add: consume_entry_def st e)
      ultimately show ?thesis using Inr by (simp add: res_fold_append)
    next
      case (Inr st')
      then have ok: "backend_ok be" "map_of seen k \<in> {None, Some (ref_of be)}" "st' = (gm_set k (ref_of be) seen, Suc n)"
        by (simp_all only: consume_backend_Inr_iff)
      have "seen_for (es @ [e]) (gm_set k (ref_of be) seen)"
        unfolding e by (rule seen_for_snoc [OF es(3), of "(k, be)", unfolded fst_conv snd_conv, OF ok(2)])
      moreover have "entries_ok (es @ [e])" using es ok by (simp add: e entries_ok_snoc [OF es(3)])
      moreover have "consume_entry st e = Inr st'" using Inr by (simp add: consume_entry_def st e)
      ultimately show ?thesis
        using \<open>res_fold consume_entry es ([], 0) = Inr st\<close> ok(3) es(2) by (simp add: res_fold_append)
    qed
  qed
qed

lemma validate_paths_Inr_iff:
  "res_fold (validate_path host) ps st = Inr st' \<longleftrightarrow>
   (\<forall>p \<in> set ps. path_error p = None) \<and> res_fold consume_entry (map (path_entry \<circ> Pair host) ps) st = Inr st'"
proof (induction ps arbitrary: st)
  case (Cons p ps)
  have "validate_path host st p = res_check (path_error p) (consume_entry st (path_entry (host, p)))"
    by (simp add: validate_path_def consume_entry_def path_entry_def)
  with Cons show ?case by (auto simp: res_bind_Inr_iff res_check_Inr_iff)
qed simp

lemma validate_rules_Inr_iff:
  "res_fold validate_rule rules st = Inr st' \<longleftrightarrow>
   (\<forall>r \<in> set rules. ir_HTTP r \<noteq> None) \<and> (\<forall>hp \<in> set (rules_paths rules). path_error (snd hp) = None) \<and>
   res_fold consume_entry (map path_entry (rules_paths rules)) st = Inr st'"
proof (induction rules arbitrary: st)
  case (Cons r rules)
  show ?case
  proof (cases "ir_HTTP r")
    case None
    then show ?thesis by (simp add: validate_rule_def)
  next
    case (Some ps)
    then have "validate_rule st r = res_fold (validate_path (ir_Host r)) ps st" by (simp add: validate_rule_def)
    with Some Cons show ?thesis
      by (auto simp: res_bind_Inr_iff res_fold_append validate_paths_Inr_iff ball_Un)
  qed
qed simp

text \<open>
  Validation is exactly its specification: an Ingress passes if and only if every rule has
  HTTP paths, every path is non-empty with type Exact or Prefix, every backend names a Service
  and a port and is no resource, two routes with the same host, path type and path have the same
  backend, there is at least one backend, and every TLS entry names a Secret.
\<close>

theorem validateIngressShape_iff: "validateIngressShape (Some i) = Inr () \<longleftrightarrow> ingress_shape_ok i"
proof -
  define es where "es = map path_entry (rules_paths (ing_Rules i))"
  define ds where "ds = (case ing_DefaultBackend i of None \<Rightarrow> [] | Some be \<Rightarrow> [(''<default>'', be)])"
  have default: "(case ing_DefaultBackend i of None \<Rightarrow> Inr st | Some be \<Rightarrow> consume_backend be ''<default>'' st)
      = res_fold consume_entry ds st" for st
    by (cases "ing_DefaultBackend i"; cases "consume_backend (the (ing_DefaultBackend i)) ''<default>'' st")
      (simp_all add: ds_def consume_entry_def)
  have routes: "route_entries i = es @ ds" by (simp add: route_entries_def es_def ds_def)
  have "validateIngressShape (Some i) = Inr () \<longleftrightarrow>
      (\<exists>seen n. res_bind (res_fold validate_rule (ing_Rules i) ([], 0)) (res_fold consume_entry ds) = Inr (seen, n) \<and>
        \<not> list_ex (\<lambda>t. trim_space (it_SecretName t) = []) (ing_TLS i) \<and> n \<noteq> 0)"
    by (auto simp: validateIngressShape_def default res_bind_Inr_iff split: prod.splits if_splits)
  also have "\<dots> \<longleftrightarrow> (\<forall>r \<in> set (ing_Rules i). ir_HTTP r \<noteq> None) \<and>
      (\<forall>hp \<in> set (rules_paths (ing_Rules i)). path_error (snd hp) = None) \<and>
      (\<exists>seen n. res_fold consume_entry (es @ ds) ([], 0) = Inr (seen, n) \<and> n \<noteq> 0) \<and>
      list_all (\<lambda>t. trim_space (it_SecretName t) \<noteq> []) (ing_TLS i)"
    by (auto simp: res_bind_Inr_iff validate_rules_Inr_iff res_fold_append es_def list_ex_iff list_all_iff)
  also have "(\<exists>seen n. res_fold consume_entry (es @ ds) ([], 0) = Inr (seen, n) \<and> n \<noteq> 0) \<longleftrightarrow>
      entries_ok (es @ ds) \<and> es @ ds \<noteq> []"
    using consume_entries [of "es @ ds"] by (auto split: sum.splits prod.splits)
  finally show ?thesis
    by (auto simp: ingress_shape_ok_def routes list_all_iff path_error_None_iff split: prod.splits)
qed

subsection \<open>Names and the stack of one Ingress\<close>

definition GroupName :: "K8sIngress \<Rightarrow> string" where
  "GroupName i = ann_get (ing_Annotations i) annVIPGroup"

definition ProtocolForIngress :: "K8sIngress option \<Rightarrow> string" where
  "ProtocolForIngress ing = (case ing of None \<Rightarrow> ''HTTP'' | Some i \<Rightarrow> if ing_TLS i \<noteq> [] then ''HTTPS'' else ''HTTP'')"

definition FrontendPortForProtocol :: "string \<Rightarrow> int32" where
  "FrontendPortForProtocol protocol = (if equal_fold (trim_space protocol) ''HTTPS'' then 443 else 80)"

definition ing_LBServiceName :: "K8sIngress \<Rightarrow> string" where
  "ing_LBServiceName i =
     (if GroupName i \<noteq> [] then ing_safeName (''ing-group-'' @ ing_Namespace i @ ''-'' @ GroupName i)
      else ing_safeName (''ing-'' @ ing_Namespace i @ ''-'' @ ing_Name i))"

definition ing_VIPName :: "K8sIngress \<Rightarrow> string" where
  "ing_VIPName i = ing_safeName (''ing-vip-'' @ ing_Namespace i @ ''-'' @ ing_Name i)"

definition ing_VirtualServerName :: "K8sIngress \<Rightarrow> string" where
  "ing_VirtualServerName i = ing_safeName (''ing-vs-'' @ ing_Namespace i @ ''-'' @ ing_Name i)"

definition ing_PoolName :: "K8sIngress \<Rightarrow> string" where
  "ing_PoolName i = ing_safeName (''ing-pool-'' @ ing_Namespace i @ ''-'' @ ing_Name i)"

text \<open>The pool of a backend: its key, its name, and the record both builders start from.\<close>

definition backendKey :: "IngressServiceBackend \<Rightarrow> string" where
  "backendKey svc = isb_Name svc @ '':'' @ isb_PortName svc @ '':'' @ show_i32 (isb_PortNumber svc)"

definition backend_pool_name :: "string \<Rightarrow> IngressServiceBackend \<Rightarrow> string" where
  "backend_pool_name namespace svc =
     ing_safeName (''ing-pool-'' @ namespace @ ''-'' @ isb_Name svc @ ''-'' @ isb_PortName svc @ ''-'' @ show_i32 (isb_PortNumber svc))"

definition ing_monitor :: "string \<Rightarrow> LBConfig \<Rightarrow> Monitor" where
  "ing_monitor name cfg = \<lparr>mon_Name = name, mon_Type = HealthType cfg, mon_Path = HealthPath cfg,
     mon_Interval = HealthInterval cfg, mon_Port = 0, mon_Timeout = 0\<rparr>"

record BuildOptions =
  bo_FrontendPort :: int32
  bo_BackendPort :: int32
  bo_Protocol :: string
  bo_ClusterUID :: string

definition ing_owner :: "K8sIngress \<Rightarrow> Owner" where
  "ing_owner i = \<lparr>ow_Kind = ''Ingress'', ow_Namespace = ing_Namespace i, ow_Name = ing_Name i, ow_UID = ing_UID i\<rparr>"

text \<open>\<open>poolFor\<close>: the state is \<open>poolNames\<close> and the stack.\<close>

definition ing_pool_for :: "K8sIngress \<Rightarrow> string \<Rightarrow> string \<Rightarrow> IngressBackend \<Rightarrow> string gomap \<times> LoadBalancerStack \<Rightarrow>
    string \<times> string gomap \<times> LoadBalancerStack" where
  "ing_pool_for i clusterUID fallbackPool be st =
     (case st of (poolNames, stack) \<Rightarrow>
        case ib_Service be of
          None \<Rightarrow> (fallbackPool, poolNames, stack)
        | Some svc \<Rightarrow>
            (case map_of poolNames (backendKey svc) of
               Some name \<Rightarrow> (name, poolNames, stack)
             | None \<Rightarrow>
                 let name = backend_pool_name (ing_Namespace i) svc;
                     pool = \<lparr>pool_Name = name, pool_Service = isb_Name svc, pool_PortName = isb_PortName svc,
                        pool_Port = isb_PortNumber svc, pool_Members = [], pool_Monitor = Some (ing_monitor [] (st_Config stack)),
                        pool_Ownership = OwnershipFor (ing_owner i) clusterUID ''pool'' (GroupName i)\<rparr>
                 in (name, gm_set (backendKey svc) name poolNames, stack\<lparr>st_Pools := st_Pools stack @ [pool]\<rparr>)))"

definition ing_add_rule :: "K8sIngress \<Rightarrow> string \<Rightarrow> string \<Rightarrow> string \<times> string \<times> string \<times> string \<times> IngressBackend \<Rightarrow>
    int32 \<times> string gomap \<times> LoadBalancerStack \<Rightarrow> int32 \<times> string gomap \<times> LoadBalancerStack" where
  "ing_add_rule i clusterUID fallbackPool r st =
     (case r of (name, host, path, matchType, be) \<Rightarrow> case st of (priority, poolNames, stack) \<Rightarrow>
        case ing_pool_for i clusterUID fallbackPool be (poolNames, stack) of (pool, poolNames, stack) \<Rightarrow>
          (priority + 1, poolNames, stack\<lparr>st_RoutingRules := st_RoutingRules stack @
             [\<lparr>rr_Name = ing_safeName name, rr_Host = host, rr_Path = path, rr_MatchType = matchType, rr_PoolName = pool,
               rr_Priority = priority, rr_Ownership = OwnershipFor (ing_owner i) clusterUID ''routing-rule'' (GroupName i)\<rparr>]\<rparr>))"

definition ing_path_rule :: "K8sIngress \<Rightarrow> string \<Rightarrow> string \<Rightarrow> string \<times> IngressPath \<Rightarrow>
    int32 \<times> string gomap \<times> LoadBalancerStack \<Rightarrow> int32 \<times> string gomap \<times> LoadBalancerStack" where
  "ing_path_rule i clusterUID fallbackPool hp st =
     (let (host, p) = hp;
          matchType = (if ip_PathType p = Some ''Exact'' then ''exact'' else ''prefix'')
      in ing_add_rule i clusterUID fallbackPool
           (''ing-rule-'' @ ing_Namespace i @ ''-'' @ ing_Name i @ ''-'' @ show_i32 (fst st),
            to_lower (trim_space host), ip_Path p, matchType, ip_Backend p) st)"

definition annotateIngressBackends :: "K8sIngress \<Rightarrow> LoadBalancerStack \<Rightarrow> string \<Rightarrow> string \<Rightarrow> LoadBalancerStack" where
  "annotateIngressBackends i stack clusterUID fallbackPool =
     (let st = (1, [], stack);
          st = (case ing_DefaultBackend i of None \<Rightarrow> st
                | Some be \<Rightarrow> ing_add_rule i clusterUID fallbackPool
                    (''ing-rule-'' @ ing_Namespace i @ ''-'' @ ing_Name i @ ''-default'', [], ''/'', ''default'', be) st);
          (priority, poolNames, stack) = fold (ing_path_rule i clusterUID fallbackPool) (rule_paths i) st
      in stack\<lparr>st_Certificates := st_Certificates stack @
           map (\<lambda>t. \<lparr>cert_Name = ing_safeName (''ing-cert-'' @ ing_Namespace i @ ''-'' @ it_SecretName t),
             cert_SecretName = it_SecretName t, cert_Hosts = it_Hosts t, cert_Fingerprint = [], cert_Certificate = [],
             cert_PrivateKey = [], cert_CA = [],
             cert_Ownership = OwnershipFor (ing_owner i) clusterUID ''certificate'' (GroupName i)\<rparr>) (ing_TLS i)\<rparr>)"

definition ing_stack_init :: "K8sIngress \<Rightarrow> LBConfig \<Rightarrow> string \<Rightarrow> LoadBalancerStack" where
  "ing_stack_init i cfg clusterUID =
     (let owner = ing_owner i; group = GroupName i in
      \<lparr>st_Owner = owner, st_Ownership = OwnershipFor owner clusterUID ''stack'' group, st_Config = cfg,
       st_LBService = \<lparr>ml_Name = ing_LBServiceName i, ml_Description = ''Ingress LB for '' @ ing_Namespace i @ ''/'' @ ing_Name i,
         ml_FlavorID = 0, ml_NetworkID = [], ml_VPCID = [], ml_VPCName = [], ml_Region = [],
         ml_Ownership = OwnershipFor owner clusterUID ''lb-service'' group\<rparr>,
       st_VIP = \<lparr>mv_Name = ing_VIPName i, mv_Address = [], mv_Ownership = OwnershipFor owner clusterUID ''vip'' group\<rparr>,
       st_VirtualServers = [], st_Pools = [], st_RoutingRules = [], st_Certificates = [], st_Ports = []\<rparr>)"

definition ing_member :: "int32 \<Rightarrow> Node \<Rightarrow> BackendMember" where
  "ing_member port n = \<lparr>bm_NodeName = [], bm_ProviderID = [], bm_ComputeID = [], bm_IP = nd_IP n, bm_Port = port,
     bm_Weight = nd_Weight n\<rparr>"

definition ing_BuildLoadBalancerStack :: "K8sIngress option \<Rightarrow> LBConfig \<Rightarrow> Node list \<Rightarrow> BuildOptions \<Rightarrow> err + LoadBalancerStack" where
  "ing_BuildLoadBalancerStack ing cfg nodes opts =
     (case ing of
        None \<Rightarrow> Inl (Errorf ''ingress must not be nil'' [])
      | Some i \<Rightarrow>
          if bo_FrontendPort opts = 0 then Inl (Errorf ''ingress frontend port must not be zero'' [])
          else if bo_BackendPort opts = 0 then Inl (Errorf ''ingress backend NodePort must not be zero'' [])
          else
            let protocol = (if trim_space (bo_Protocol opts) = [] then ProtocolForIngress ing else trim_space (bo_Protocol opts));
                owner = ing_owner i; uid = bo_ClusterUID opts; group = GroupName i;
                monitor = ing_monitor (ing_safeName (''mon-'' @ ing_PoolName i)) cfg;
                members = map (ing_member (bo_BackendPort opts)) nodes;
                stack = annotateIngressBackends i (ing_stack_init i cfg uid) uid (ing_PoolName i)
            in Inr (stack
                 \<lparr>st_VirtualServers := st_VirtualServers stack @
                    [\<lparr>vs_Name = ing_VirtualServerName i, vs_FrontendPort = bo_FrontendPort opts,
                      vs_BackendNodePort = bo_BackendPort opts, vs_Protocol = protocol, vs_RoutingAlgorithm = RoutingAlgorithm cfg,
                      vs_PersistenceType = PersistenceType cfg, vs_DrainingTimeout = DrainingTimeout cfg,
                      vs_SourceRanges = SourceRanges cfg, vs_Monitor = Some monitor, vs_DefaultPoolName = ing_PoolName i,
                      vs_Ownership = OwnershipFor owner uid ''virtual-server'' group\<rparr>],
                  st_Pools := st_Pools stack @
                    [\<lparr>pool_Name = ing_PoolName i, pool_Service = [], pool_PortName = [], pool_Port = 0, pool_Members = members,
                      pool_Monitor = Some monitor, pool_Ownership = OwnershipFor owner uid ''pool'' group\<rparr>],
                  st_Ports := st_Ports stack @
                    [\<lparr>svp_Name = ''ingress'', svp_FrontendPort = bo_FrontendPort opts, svp_NodePort = bo_BackendPort opts,
                      svp_Protocol = protocol, svp_Backends = members\<rparr>]\<rparr>))"

subsection \<open>TLS material\<close>

text \<open>
  The X.509 library is a parameter: \<open>x_keypair\<close> is \<open>tls.X509KeyPair\<close> (the DER certificates of
  the chain), \<open>x_parse\<close> is \<open>x509.ParseCertificate\<close> (subject common name and DNS names).
\<close>

record x509 =
  x_keypair :: "string \<Rightarrow> string \<Rightarrow> err + string list"
  x_parse :: "string \<Rightarrow> err + string \<times> string list"

record K8sSecret =
  sec_Namespace :: string
  sec_Name :: string
  sec_Type :: string
  sec_Data :: "string gomap"

record TLSMaterial =
  tm_Certificate :: string
  tm_PrivateKey :: string
  tm_CA :: string
  tm_Fingerprint :: string

definition ReadTLSSecret :: "x509 \<Rightarrow> K8sSecret option \<Rightarrow> err + TLSMaterial" where
  "ReadTLSSecret x secret =
     (case secret of
        None \<Rightarrow> Inl (Errorf ''TLS secret is required'' [])
      | Some s \<Rightarrow>
          let at = [sec_Namespace s, sec_Name s]; cert = gm_index [] (sec_Data s) ''tls.crt''; key = gm_index [] (sec_Data s) ''tls.key''
          in if sec_Type s \<noteq> ''kubernetes.io/tls'' then Inl (Errorf ''secret %s/%s must have type kubernetes.io/tls'' at)
             else if cert = [] \<or> key = [] then Inl (Errorf ''TLS secret %s/%s requires tls.crt and tls.key'' at)
             else res_bind (res_wrap ''TLS secret %s/%s has an invalid certificate/key pair: %w'' at (x_keypair x cert key))
               (\<lambda>chain. case chain of
                  [] \<Rightarrow> Inl (Errorf ''TLS secret %s/%s contains no certificate'' at)
                | leaf_der # _ \<Rightarrow>
                    res_bind (res_wrap ''TLS secret %s/%s has an invalid leaf certificate: %w'' at (x_parse x leaf_der))
                      (\<lambda>(commonName, dnsNames).
                         if trim_space commonName = [] \<and> dnsNames = []
                         then Inl (Errorf ''TLS secret %s/%s certificate has no DNS identity'' at)
                         else Inr \<lparr>tm_Certificate = cert, tm_PrivateKey = key, tm_CA = gm_index [] (sec_Data s) ''ca.crt'',
                                tm_Fingerprint = sha256_hex (cert @ key)\<rparr>)))"

end
