(* ===== verification/IngressGroup.thy ===== *)
theory IngressGroup
  imports Ingress "HOL-Library.Multiset"
begin

text \<open>
  \<open>pkg/ingress/group.go\<close> and \<open>group_builder.go\<close>: the members of an IngressGroup and the one
  stack built for all of them.  \<open>sort.Slice\<close> is the stable \<open>sort_key\<close>: members of one
  namespace have distinct names, so the sort has only one result.
\<close>

definition ing_full_name :: "K8sIngress \<Rightarrow> string" where
  "ing_full_name i = ing_Namespace i @ ''/'' @ ing_Name i"

definition groupIdentity :: "string \<Rightarrow> string \<Rightarrow> string \<Rightarrow> string" where
  "groupIdentity namespace grp fallback =
     (if trim_space grp = [] then ''ingress/'' @ namespace @ ''/'' @ fallback
      else ''ingress-group/'' @ namespace @ ''/'' @ grp)"

definition GroupOwner :: "string \<Rightarrow> string \<Rightarrow> Owner" where
  "GroupOwner namespace identity = \<lparr>ow_Kind = ''IngressGroup'', ow_Namespace = namespace, ow_Name = identity, ow_UID = []\<rparr>"

definition in_group :: "K8sIngress \<Rightarrow> K8sIngress \<Rightarrow> bool" where
  "in_group anchor candidate \<longleftrightarrow>
     ing_Namespace candidate = ing_Namespace anchor \<and>
     (if GroupName anchor = [] then ing_Name candidate = ing_Name anchor else GroupName candidate = GroupName anchor)"

definition ResolveGroup :: "K8sIngress option \<Rightarrow> K8sIngress list \<Rightarrow> err + K8sIngress list \<times> string" where
  "ResolveGroup anchor candidates =
     (case anchor of
        None \<Rightarrow> Inl (Errorf ''ingress must not be nil'' [])
      | Some a \<Rightarrow>
          let members = filter (in_group a) candidates;
              members = (if members = [] then [a] else members)
          in Inr (sort_key ing_Name members, groupIdentity (ing_Namespace a) (GroupName a) (ing_Name a)))"

record BackendSet =
  bs_NodePort :: int32
  bs_Nodes :: "Node list"

text \<open>The resolver is a function the controller supplies; \<open>None\<close> when it is nil.\<close>

record GroupStackBuildOptions =
  go_ClusterUID :: string
  go_HTTPFrontendPort :: int32
  go_HTTPSFrontendPort :: int32
  go_BackendResolver :: "(string \<Rightarrow> IngressServiceBackend \<Rightarrow> err + BackendSet) option"

text \<open>What the closures \<open>poolFor\<close> and \<open>addRoute\<close> capture, and the variables they change.\<close>

record group_env =
  ge_owner :: Owner
  ge_clusterUID :: string
  ge_group :: string
  ge_identity :: string
  ge_namespace :: string
  ge_cfg :: LBConfig
  ge_resolver :: "string \<Rightarrow> IngressServiceBackend \<Rightarrow> err + BackendSet"

record group_state =
  gs_stack :: LoadBalancerStack
  gs_poolByBackend :: "string gomap"
  gs_routes :: "string gomap"
  gs_defaultPool :: string
  gs_priority :: int32
  gs_needsTLS :: bool

definition group_pool :: "group_env \<Rightarrow> IngressServiceBackend \<Rightarrow> BackendSet \<Rightarrow> M_Pool" where
  "group_pool E svc bset =
     (let name = backend_pool_name (ge_namespace E) svc
      in \<lparr>pool_Name = name, pool_Service = isb_Name svc, pool_PortName = isb_PortName svc, pool_Port = isb_PortNumber svc,
          pool_Members = map (ing_member (bs_NodePort bset)) (bs_Nodes bset),
          pool_Monitor = Some (ing_monitor (ing_safeName (''mon-'' @ name)) (ge_cfg E)),
          pool_Ownership = OwnershipFor (ge_owner E) (ge_clusterUID E) ''pool'' (ge_group E)\<rparr>)"

text \<open>A nil Service panics in Go; validation has excluded it before.\<close>

definition group_pool_for :: "group_env \<Rightarrow> string \<Rightarrow> IngressBackend \<Rightarrow> group_state \<Rightarrow> err + string \<times> group_state" where
  "group_pool_for E namespace be st =
     (case ib_Service be of
        None \<Rightarrow> Inl (OtherErr ''panic: nil pointer dereference'')
      | Some svc \<Rightarrow>
          let key = backendKey svc
          in if gm_index [] (gs_poolByBackend st) key \<noteq> [] then Inr (gm_index [] (gs_poolByBackend st) key, st)
             else res_bind (ge_resolver E namespace svc)
               (\<lambda>bset. if bs_NodePort bset = 0 then Inl (Errorf ''BackendNodePortRequired: backend %s'' [key])
                  else let pool = group_pool E svc bset
                       in Inr (pool_Name pool,
                            st\<lparr>gs_stack := (gs_stack st)\<lparr>st_Pools := st_Pools (gs_stack st) @ [pool]\<rparr>,
                               gs_poolByBackend := gm_set key (pool_Name pool) (gs_poolByBackend st)\<rparr>)))"

definition group_route_key :: "string \<Rightarrow> string \<Rightarrow> string \<Rightarrow> string" where
  "group_route_key host path match = to_lower (trim_space host) @ ''|'' @ match @ ''|'' @ path"

definition group_rule :: "group_env \<Rightarrow> string \<Rightarrow> string \<Rightarrow> string \<Rightarrow> string \<Rightarrow> int32 \<Rightarrow> M_RoutingRule" where
  "group_rule E host path match pool priority =
     \<lparr>rr_Name = ing_safeName (''ing-rule-'' @ replace_char (CHR ''/'') (CHR ''-'') (ge_identity E) @ ''-'' @ show_i32 priority),
      rr_Host = to_lower (trim_space host), rr_Path = path, rr_MatchType = match, rr_PoolName = pool, rr_Priority = priority,
      rr_Ownership = OwnershipFor (ge_owner E) (ge_clusterUID E) ''routing-rule'' (ge_group E)\<rparr>"

definition group_add_route :: "group_env \<Rightarrow> string \<Rightarrow> string \<times> string \<times> string \<times> IngressBackend \<times> bool \<Rightarrow> group_state \<Rightarrow>
    err + group_state" where
  "group_add_route E namespace r st =
     (case r of (host, path, match, be, isDefault) \<Rightarrow>
        res_bind (group_pool_for E namespace be st)
          (\<lambda>(pool, st). let key = group_route_key host path match
             in case map_of (gs_routes st) key of
                  Some previous \<Rightarrow>
                    if previous \<noteq> pool then Inl (Errorf ''RouteConflict: %s maps to both %s and %s'' [key, previous, pool])
                    else Inr st
                | None \<Rightarrow>
                    let st = st\<lparr>gs_routes := gm_set key pool (gs_routes st)\<rparr>
                    in if isDefault
                       then if gs_defaultPool st \<noteq> [] \<and> gs_defaultPool st \<noteq> pool
                            then Inl (Errorf ''DefaultBackendConflict: group has multiple default backends'' [])
                            else Inr (st\<lparr>gs_defaultPool := pool\<rparr>)
                       else Inr (st\<lparr>gs_stack := (gs_stack st)\<lparr>st_RoutingRules := st_RoutingRules (gs_stack st) @
                                     [group_rule E host path match pool (gs_priority st)]\<rparr>,
                                   gs_priority := gs_priority st + 1\<rparr>)))"

text \<open>The routes of a member in the order the builder adds them.\<close>

definition member_routes :: "K8sIngress \<Rightarrow> (string \<times> string \<times> string \<times> IngressBackend \<times> bool) list" where
  "member_routes i =
     (case ing_DefaultBackend i of None \<Rightarrow> [] | Some be \<Rightarrow> [([], ''/'', ''default'', be, True)]) @
     map (\<lambda>(host, p). (host, ip_Path p, if ip_PathType p = Some ''Exact'' then ''exact'' else ''prefix'', ip_Backend p, False))
       (rule_paths i)"

definition group_certificate :: "group_env \<Rightarrow> IngressTLS \<Rightarrow> M_Certificate" where
  "group_certificate E t =
     \<lparr>cert_Name = ing_safeName (''ing-cert-'' @ ge_namespace E @ ''-'' @ it_SecretName t), cert_SecretName = it_SecretName t,
      cert_Hosts = it_Hosts t, cert_Fingerprint = [], cert_Certificate = [], cert_PrivateKey = [], cert_CA = [],
      cert_Ownership = OwnershipFor (ge_owner E) (ge_clusterUID E) ''certificate'' (ge_group E)\<rparr>"

definition group_member :: "group_env \<Rightarrow> group_state \<Rightarrow> K8sIngress \<Rightarrow> err + group_state" where
  "group_member E st i =
     (let st = (if ing_TLS i \<noteq> [] then st\<lparr>gs_needsTLS := True\<rparr> else st)
      in res_bind (res_fold (\<lambda>st r. group_add_route E (ing_Namespace i) r st) (member_routes i) st)
           (\<lambda>st. Inr (st\<lparr>gs_stack := (gs_stack st)\<lparr>st_Certificates :=
              st_Certificates (gs_stack st) @ map (group_certificate E) (ing_TLS i)\<rparr>\<rparr>)))"

definition groupVirtualServer :: "group_env \<Rightarrow> string \<Rightarrow> int32 \<Rightarrow> M_VirtualServer" where
  "groupVirtualServer E protocol port =
     \<lparr>vs_Name = ing_safeName (''ing-vs-'' @ replace_char (CHR ''/'') (CHR ''-'') (ge_identity E) @ ''-'' @ to_lower protocol),
      vs_FrontendPort = port, vs_BackendNodePort = 0, vs_Protocol = protocol, vs_RoutingAlgorithm = RoutingAlgorithm (ge_cfg E),
      vs_PersistenceType = PersistenceType (ge_cfg E), vs_DrainingTimeout = DrainingTimeout (ge_cfg E),
      vs_SourceRanges = SourceRanges (ge_cfg E), vs_Monitor = None, vs_DefaultPoolName = [],
      vs_Ownership = OwnershipFor (ge_owner E) (ge_clusterUID E) ''virtual-server'' (ge_group E)\<rparr>"

definition group_check_member :: "K8sIngress \<Rightarrow> unit \<Rightarrow> K8sIngress \<Rightarrow> err + unit" where
  "group_check_member anchor u i =
     (if ing_Namespace i \<noteq> ing_Namespace anchor \<or> GroupName i \<noteq> GroupName anchor
      then Inl (Errorf ''ingress group members must share namespace and group identity'' [])
      else res_wrap ''invalid ingress %s/%s: %w'' [ing_Namespace i, ing_Name i] (validateIngressShape (Some i)))"

definition group_env_for :: "K8sIngress \<Rightarrow> LBConfig \<Rightarrow> string \<Rightarrow> (string \<Rightarrow> IngressServiceBackend \<Rightarrow> err + BackendSet) \<Rightarrow> group_env" where
  "group_env_for anchor cfg clusterUID resolver =
     (let identity = groupIdentity (ing_Namespace anchor) (GroupName anchor) (ing_Name anchor)
      in \<lparr>ge_owner = GroupOwner (ing_Namespace anchor) identity, ge_clusterUID = clusterUID, ge_group = GroupName anchor,
          ge_identity = identity, ge_namespace = ing_Namespace anchor, ge_cfg = cfg, ge_resolver = resolver\<rparr>)"

definition group_stack_init :: "group_env \<Rightarrow> K8sIngress \<Rightarrow> int32 \<Rightarrow> LoadBalancerStack" where
  "group_stack_init E anchor httpPort =
     \<lparr>st_Owner = ge_owner E, st_Ownership = OwnershipFor (ge_owner E) (ge_clusterUID E) ''stack'' (ge_group E), st_Config = ge_cfg E,
      st_LBService = \<lparr>ml_Name = ing_LBServiceName anchor, ml_Description = ''Ingress group LB for '' @ ge_identity E,
        ml_FlavorID = 0, ml_NetworkID = [], ml_VPCID = [], ml_VPCName = [], ml_Region = [],
        ml_Ownership = OwnershipFor (ge_owner E) (ge_clusterUID E) ''lb-service'' (ge_group E)\<rparr>,
      st_VIP = \<lparr>mv_Name = ing_safeName (''ing-vip-'' @ replace_char (CHR ''/'') (CHR ''-'') (ge_identity E)), mv_Address = [],
        mv_Ownership = OwnershipFor (ge_owner E) (ge_clusterUID E) ''vip'' (ge_group E)\<rparr>,
      st_VirtualServers = [groupVirtualServer E ''HTTP'' httpPort], st_Pools = [], st_RoutingRules = [],
      st_Certificates = [], st_Ports = []\<rparr>"

definition group_finish :: "group_env \<Rightarrow> int32 \<Rightarrow> group_state \<Rightarrow> LoadBalancerStack" where
  "group_finish E httpsPort st =
     (let stack = gs_stack st;
          servers = map (\<lambda>vs. vs\<lparr>vs_DefaultPoolName := gs_defaultPool st\<rparr>) (st_VirtualServers stack);
          https = (groupVirtualServer E ''HTTPS'' httpsPort)\<lparr>vs_DefaultPoolName := gs_defaultPool st\<rparr>
      in stack\<lparr>st_VirtualServers := servers @ (if gs_needsTLS st then [https] else [])\<rparr>)"

text \<open>The build over the sorted members, with the default ports filled in.\<close>

definition group_build :: "LBConfig \<Rightarrow> GroupStackBuildOptions \<Rightarrow> (string \<Rightarrow> IngressServiceBackend \<Rightarrow> err + BackendSet) \<Rightarrow>
    K8sIngress list \<Rightarrow> err + LoadBalancerStack" where
  "group_build cfg opts resolver ordered =
     (let httpPort = (if go_HTTPFrontendPort opts = 0 then 80 else go_HTTPFrontendPort opts);
          httpsPort = (if go_HTTPSFrontendPort opts = 0 then 443 else go_HTTPSFrontendPort opts);
          anchor = hd ordered;
          E = group_env_for anchor cfg (go_ClusterUID opts) resolver
      in res_bind (res_fold (group_check_member anchor) ordered ())
           (\<lambda>_. res_bind (res_fold (group_member E) ordered
                 \<lparr>gs_stack = group_stack_init E anchor httpPort, gs_poolByBackend = [], gs_routes = [], gs_defaultPool = [],
                  gs_priority = 1, gs_needsTLS = False\<rparr>)
              (\<lambda>st. Inr (group_finish E httpsPort st))))"

definition BuildGroupLoadBalancerStack :: "K8sIngress option list \<Rightarrow> LBConfig \<Rightarrow> GroupStackBuildOptions \<Rightarrow> err + LoadBalancerStack" where
  "BuildGroupLoadBalancerStack members cfg opts =
     (if members = [] then Inl (Errorf ''ingress group has no members'' [])
      else case go_BackendResolver opts of
        None \<Rightarrow> Inl (Errorf ''ingress group backend resolver is required'' [])
      | Some resolver \<Rightarrow>
          if None \<in> set members then Inl (Errorf ''ingress group contains a nil member'' [])
          else group_build cfg opts resolver (sort_key ing_full_name (map the members)))"

subsection \<open>The order of the members does not matter\<close>

lemma sort_key_mset_cong:
  assumes "mset xs = mset ys" and "inj_on f (set xs)"
  shows "sort_key f xs = sort_key f ys"
  by (rule sort_key_inj_key_eq) (simp_all add: assms)

text \<open>
  C32.  The stack of an IngressGroup does not depend on the order in which the members are listed:
  any two listings of the same members, whose full names are distinct, give the same result.
\<close>

theorem BuildGroup_order_irrelevant:
  assumes "mset is = mset js" and "distinct (map ing_full_name is)"
  shows "BuildGroupLoadBalancerStack (map Some is) cfg opts = BuildGroupLoadBalancerStack (map Some js) cfg opts"
proof -
  have inj: "inj_on ing_full_name (set is)" using assms(2) by (simp add: distinct_map)
  have "is = [] \<longleftrightarrow> js = []" using assms(1) by (metis mset_zero_iff)
  moreover have "None \<notin> set (map Some is)" "None \<notin> set (map Some js)" by auto
  ultimately show ?thesis
    by (simp add: BuildGroupLoadBalancerStack_def comp_def sort_key_mset_cong [OF assms(1) inj] split: option.splits)
qed

subsection \<open>Pool names\<close>

lemma trim_between: "\<not> is_space (hd s) \<Longrightarrow> \<not> is_space (last s) \<Longrightarrow> trim_space s = s"
  by (simp add: trim_space_def trim_by_id)

lemma backend_pool_name_key:
  assumes "backendKey s = backendKey t"
  shows "backend_pool_name ns s = backend_pool_name ns t"
proof -
  define f where "f x = map sanitize_char (to_lower x)" for x
  define body where "body x = isb_Name x @ ''-'' @ isb_PortName x @ ''-'' @ show_i32 (isb_PortNumber x)" for x :: IngressServiceBackend
  have colon: "f (body x) = f (backendKey x)" for x
    by (simp add: f_def body_def backendKey_def to_lower_def lower_char_def sanitize_char_def name_char_def is_digit_def)
  have trimmed: "trim_space (to_lower (''ing-pool-'' @ ns @ ''-'' @ body x)) = to_lower (''ing-pool-'' @ ns @ ''-'' @ body x)" for x
  proof (rule trim_between)
    have "last (show_i32 (isb_PortNumber x)) \<in> set (show_int (sint (isb_PortNumber x)))"
      unfolding show_i32_def by (rule last_in_set) simp
    then have "\<not> is_space (last (show_i32 (isb_PortNumber x)))"
      using show_int_chars digit_not_space by (fastforce simp: is_space_def)
    then show "\<not> is_space (last (to_lower (''ing-pool-'' @ ns @ ''-'' @ body x)))"
      by (simp add: to_lower_def last_map body_def is_space_lower show_i32_def last_append)
    show "\<not> is_space (hd (to_lower (''ing-pool-'' @ ns @ ''-'' @ body x)))"
      by (simp add: to_lower_def is_space_lower) (simp add: is_space_def)
  qed
  have "backend_pool_name ns x = (let out = trim_char (CHR ''-'') (f (''ing-pool-'' @ ns @ ''-'') @ f (body x)) in if out = [] then ''x'' else out)" for x
  proof -
    have "backend_pool_name ns x = ing_safeName (''ing-pool-'' @ ns @ ''-'' @ body x)"
      by (simp add: backend_pool_name_def body_def)
    also have "\<dots> = (let out = trim_char (CHR ''-'') (f (''ing-pool-'' @ ns @ ''-'' @ body x)) in if out = [] then ''x'' else out)"
      unfolding ing_safeName_def trimmed by (simp add: f_def Let_def to_lower_def)
    finally show ?thesis by (simp add: f_def to_lower_def)
  qed
  with colon [of s] colon [of t] assms show ?thesis by simp
qed

lemma backend_pool_name_not_Nil: "backend_pool_name ns s \<noteq> []"
  by (simp add: backend_pool_name_def ing_safeName_def Let_def)

subsection \<open>The state of the build\<close>

definition rule_route_key :: "M_RoutingRule \<Rightarrow> string" where
  "rule_route_key r = group_route_key (rr_Host r) (rr_Path r) (rr_MatchType r)"

definition default_key :: string where
  "default_key = group_route_key [] ''/'' ''default''"

definition pool_names :: "LoadBalancerStack \<Rightarrow> string set" where
  "pool_names stack = pool_Name ` set (st_Pools stack)"

text \<open>The recorded pools and routes exist, and each rule is the one route of its key.\<close>

definition group_pools_ok :: "group_env \<Rightarrow> group_state \<Rightarrow> bool" where
  "group_pools_ok E st \<longleftrightarrow> (\<forall>k v. map_of (gs_poolByBackend st) k = Some v \<longrightarrow>
     v \<in> pool_names (gs_stack st) \<and> (\<exists>svc. backendKey svc = k \<and> v = backend_pool_name (ge_namespace E) svc)) \<and>
     (\<forall>pool \<in> set (st_Pools (gs_stack st)). \<forall>m \<in> set (pool_Members pool). bm_ComputeID m = [])"

definition group_routes_ok :: "group_state \<Rightarrow> bool" where
  "group_routes_ok st \<longleftrightarrow>
     (\<forall>k p. map_of (gs_routes st) k = Some p \<longrightarrow> p \<in> pool_names (gs_stack st) \<and>
        (k = default_key \<and> gs_defaultPool st = p \<or>
         (\<exists>r \<in> set (st_RoutingRules (gs_stack st)). rule_route_key r = k \<and> rr_PoolName r = p))) \<and>
     (\<forall>r \<in> set (st_RoutingRules (gs_stack st)). rule_route_key r \<noteq> default_key \<and>
        map_of (gs_routes st) (rule_route_key r) = Some (rr_PoolName r)) \<and>
     distinct (map rule_route_key (st_RoutingRules (gs_stack st))) \<and>
     (gs_defaultPool st = [] \<or> map_of (gs_routes st) default_key = Some (gs_defaultPool st))"

definition group_inv :: "group_env \<Rightarrow> group_state \<Rightarrow> bool" where
  "group_inv E st \<longleftrightarrow> group_pools_ok E st \<and> group_routes_ok st"

lemma group_pool_for_Inr:
  assumes "group_pool_for E ns be st = Inr (pool, st')" and "group_inv E st"
  shows "group_inv E st' \<and> pool \<in> pool_names (gs_stack st') \<and> gs_routes st' = gs_routes st \<and>
    (\<exists>svc. ib_Service be = Some svc \<and> pool = backend_pool_name (ge_namespace E) svc)"
proof -
  from assms(1) obtain svc where svc: "ib_Service be = Some svc" by (auto simp: group_pool_for_def split: option.splits)
  show ?thesis
  proof (cases "gm_index [] (gs_poolByBackend st) (backendKey svc) = []")
    case False
    with assms(1) svc have "st' = st" "map_of (gs_poolByBackend st) (backendKey svc) = Some pool"
      by (auto simp: group_pool_for_def gm_index_def Let_def split: option.splits)
    with assms(2) svc show ?thesis
      by (auto simp: group_inv_def group_pools_ok_def dest: backend_pool_name_key)
  next
    case True
    with assms(1) svc obtain bset where st': "pool = backend_pool_name (ge_namespace E) svc"
      "st' = st\<lparr>gs_stack := (gs_stack st)\<lparr>st_Pools := st_Pools (gs_stack st) @ [group_pool E svc bset]\<rparr>,
               gs_poolByBackend := gm_set (backendKey svc) pool (gs_poolByBackend st)\<rparr>"
      by (auto simp: group_pool_for_def Let_def res_bind_Inr_iff group_pool_def split: if_splits)
    have names: "pool_names (gs_stack st') = insert pool (pool_names (gs_stack st))"
      by (auto simp: pool_names_def st' group_pool_def Let_def)
    have "group_pools_ok E st'"
      using assms(2) unfolding group_inv_def group_pools_ok_def names
      by (auto simp: st' group_pool_def ing_member_def Let_def)
    moreover have "group_routes_ok st'"
      using assms(2) unfolding group_inv_def group_routes_ok_def names by (simp add: st')
    ultimately show ?thesis using svc st'(1) names by (simp add: group_inv_def, simp add: st'(2))
  qed
qed

lemma not_default_text: "h @ ''|exact|'' @ p \<noteq> ''|default|/''" "h @ ''|prefix|'' @ p \<noteq> ''|default|/''"
  by (auto simp: append_eq_Cons_conv)

lemma default_key_text: "default_key = ''|default|/''"
  by (simp add: default_key_def group_route_key_def to_lower_def)

lemma route_key_not_default: "match \<in> {''exact'', ''prefix''} \<Longrightarrow> group_route_key host path match \<noteq> default_key"
  using not_default_text [of "to_lower (trim_space host)" path]
  by (auto simp: group_route_key_def default_key_text)

lemma group_route_key_norm: "group_route_key (to_lower (trim_space host)) path match = group_route_key host path match"
  by (simp add: group_route_key_def flip: trim_space_to_lower)

definition route_ok :: "string \<times> string \<times> string \<times> IngressBackend \<times> bool \<Rightarrow> bool" where
  "route_ok r = (case r of (host, path, match, be, isDefault) \<Rightarrow>
     if isDefault then group_route_key host path match = default_key else match \<in> {''exact'', ''prefix''})"

text \<open>A route is served when its key has the pool of its backend.\<close>

definition route_served :: "group_env \<Rightarrow> string gomap \<Rightarrow> string \<times> string \<times> string \<times> IngressBackend \<times> bool \<Rightarrow> bool" where
  "route_served E routes r = (case r of (host, path, match, be, isDefault) \<Rightarrow>
     (\<exists>svc. ib_Service be = Some svc \<and>
        map_of routes (group_route_key host path match) = Some (backend_pool_name (ge_namespace E) svc)))"

lemma group_routes_ok_default:
  assumes "group_routes_ok st" and "map_of (gs_routes st) default_key = None" and "pool \<in> pool_names (gs_stack st)"
  shows "group_routes_ok (st\<lparr>gs_routes := gm_set default_key pool (gs_routes st), gs_defaultPool := pool\<rparr>)"
proof -
  have fresh: "rule_route_key r \<noteq> default_key" if "r \<in> set (st_RoutingRules (gs_stack st))" for r
    using assms(1,2) that unfolding group_routes_ok_def by fastforce
  then have "\<forall>r \<in> set (st_RoutingRules (gs_stack st)). rule_route_key r \<noteq> default_key" by blast
  with assms show ?thesis
    unfolding group_routes_ok_def by (simp, intro conjI allI impI ballI) auto
qed

lemma group_routes_ok_rule:
  assumes "group_routes_ok st" and "map_of (gs_routes st) (rule_route_key r) = None"
    and "rule_route_key r \<noteq> default_key" and "rr_PoolName r \<in> pool_names (gs_stack st)"
  shows "group_routes_ok (st\<lparr>gs_routes := gm_set (rule_route_key r) (rr_PoolName r) (gs_routes st),
     gs_stack := (gs_stack st)\<lparr>st_RoutingRules := st_RoutingRules (gs_stack st) @ [r]\<rparr>, gs_priority := n\<rparr>)"
proof -
  have fresh: "rule_route_key q \<noteq> rule_route_key r" if "q \<in> set (st_RoutingRules (gs_stack st))" for q
    using assms(1,2) that unfolding group_routes_ok_def by fastforce
  have names: "pool_names ((gs_stack st)\<lparr>st_RoutingRules := rs\<rparr>) = pool_names (gs_stack st)" for rs
    by (simp add: pool_names_def)
  from fresh have "rule_route_key r \<notin> rule_route_key ` set (st_RoutingRules (gs_stack st))" by (metis imageE)
  with assms show ?thesis
    unfolding group_routes_ok_def by (simp add: names) (intro conjI allI impI ballI; auto)
qed

lemma group_add_route_Inr:
  assumes "group_add_route E ns r st = Inr st'" and "group_inv E st" and "route_ok r"
  shows "group_inv E st' \<and> map_of (gs_routes st) \<subseteq>\<^sub>m map_of (gs_routes st') \<and> route_served E (gs_routes st') r"
proof -
  obtain host path match be d where r: "r = (host, path, match, be, d)" by (metis prod_cases5)
  define key where "key = group_route_key host path match"
  from assms(1) obtain pool st1 where pf: "group_pool_for E ns be st = Inr (pool, st1)"
    and rest: "(case map_of (gs_routes st1) key of
                  Some previous \<Rightarrow>
                    if previous \<noteq> pool then Inl (Errorf ''RouteConflict: %s maps to both %s and %s'' [key, previous, pool])
                    else Inr st1
                | None \<Rightarrow>
                    let st = st1\<lparr>gs_routes := gm_set key pool (gs_routes st1)\<rparr>
                    in if d
                       then if gs_defaultPool st \<noteq> [] \<and> gs_defaultPool st \<noteq> pool
                            then Inl (Errorf ''DefaultBackendConflict: group has multiple default backends'' [])
                            else Inr (st\<lparr>gs_defaultPool := pool\<rparr>)
                       else Inr (st\<lparr>gs_stack := (gs_stack st)\<lparr>st_RoutingRules := st_RoutingRules (gs_stack st) @
                                     [group_rule E host path match pool (gs_priority st)]\<rparr>,
                                   gs_priority := gs_priority st + 1\<rparr>)) = Inr st'"
    unfolding group_add_route_def r key_def Let_def by (auto simp: res_bind_Inr_iff)
  from group_pool_for_Inr [OF pf assms(2)] obtain svc where p: "group_inv E st1" "pool \<in> pool_names (gs_stack st1)"
    "gs_routes st1 = gs_routes st" "ib_Service be = Some svc" "pool = backend_pool_name (ge_namespace E) svc" by blast
  have served: "route_served E (gs_routes st') r" if "map_of (gs_routes st') key = Some pool"
    using that p(4,5) by (simp add: route_served_def r key_def)
  show ?thesis
  proof (cases "map_of (gs_routes st1) key")
    case (Some previous)
    with rest have "st' = st1" "previous = pool" by (auto split: if_splits)
    with Some p served show ?thesis by simp
  next
    case None
    show ?thesis
    proof (cases d)
      case True
      with rest None have st': "st' = st1\<lparr>gs_routes := gm_set key pool (gs_routes st1), gs_defaultPool := pool\<rparr>"
        by (auto simp: Let_def split: if_splits)
      from True assms(3) have key: "key = default_key" by (simp add: route_ok_def r key_def)
      have "group_routes_ok st'"
        using group_routes_ok_default [of st1 pool] p None unfolding st' key group_inv_def by simp
      moreover have "group_pools_ok E st'" using p(1) by (simp add: st' group_inv_def group_pools_ok_def)
      ultimately show ?thesis
        using served None p(3) by (auto simp: group_inv_def st' map_le_def)
    next
      case False
      let ?rule = "group_rule E host path match pool (gs_priority st1)"
      from False rest None have st': "st' = st1\<lparr>gs_routes := gm_set key pool (gs_routes st1),
          gs_stack := (gs_stack st1)\<lparr>st_RoutingRules := st_RoutingRules (gs_stack st1) @ [?rule]\<rparr>,
          gs_priority := gs_priority st1 + 1\<rparr>"
        by (auto simp: Let_def)
      have rule: "rule_route_key ?rule = key" "rr_PoolName ?rule = pool"
        by (simp_all add: rule_route_key_def group_rule_def key_def group_route_key_norm)
      have "key \<noteq> default_key"
        using False assms(3) by (simp add: route_ok_def r key_def route_key_not_default)
      then have "group_routes_ok st'"
        using group_routes_ok_rule [of st1 ?rule "gs_priority st1 + 1"] p None unfolding st' rule group_inv_def by simp
      moreover have "group_pools_ok E st'"
        using p(1) by (simp add: st' group_inv_def group_pools_ok_def pool_names_def)
      ultimately show ?thesis
        using served None p(3) by (auto simp: group_inv_def st' map_le_def)
    qed
  qed
qed

lemma route_served_mono:
  "map_of rs \<subseteq>\<^sub>m map_of rs' \<Longrightarrow> route_served E rs r \<Longrightarrow> route_served E rs' r"
  unfolding route_served_def map_le_def by (fastforce simp: dom_def split: prod.splits)

lemma group_add_routes_Inr:
  assumes "res_fold (\<lambda>st r. group_add_route E ns r st) rs st = Inr st'" and "group_inv E st"
    and "\<forall>r \<in> set rs. route_ok r"
  shows "group_inv E st' \<and> map_of (gs_routes st) \<subseteq>\<^sub>m map_of (gs_routes st') \<and> (\<forall>r \<in> set rs. route_served E (gs_routes st') r)"
  using assms
proof (induction rs arbitrary: st)
  case (Cons r rs)
  then obtain st1 where s1: "group_add_route E ns r st = Inr st1" "res_fold (\<lambda>st r. group_add_route E ns r st) rs st1 = Inr st'"
    by (auto elim: res_bind_InrE)
  have a: "group_inv E st1 \<and> map_of (gs_routes st) \<subseteq>\<^sub>m map_of (gs_routes st1) \<and> route_served E (gs_routes st1) r"
    by (rule group_add_route_Inr [OF s1(1)]) (use Cons.prems in simp_all)
  have b: "group_inv E st' \<and> map_of (gs_routes st1) \<subseteq>\<^sub>m map_of (gs_routes st') \<and> (\<forall>r \<in> set rs. route_served E (gs_routes st') r)"
    by (rule Cons.IH [OF s1(2)]) (use a Cons.prems in simp_all)
  from a b have "map_of (gs_routes st) \<subseteq>\<^sub>m map_of (gs_routes st')" by (blast intro: map_le_trans)
  moreover from a b have "route_served E (gs_routes st') r" by (blast intro: route_served_mono)
  ultimately show ?case using b by simp
qed simp

lemma member_routes_ok: "\<forall>r \<in> set (member_routes i). route_ok r"
  by (auto simp: member_routes_def route_ok_def default_key_def split: option.splits if_splits)

lemma group_inv_simps [simp]:
  "group_inv E (st\<lparr>gs_needsTLS := b\<rparr>) = group_inv E st"
  "group_inv E (st\<lparr>gs_stack := (gs_stack st)\<lparr>st_Certificates := cs\<rparr>\<rparr>) = group_inv E st"
  by (simp_all add: group_inv_def group_pools_ok_def group_routes_ok_def pool_names_def)

lemma group_members_Inr:
  assumes "res_fold (group_member E) is st = Inr st'" and "group_inv E st"
  shows "group_inv E st' \<and> map_of (gs_routes st) \<subseteq>\<^sub>m map_of (gs_routes st') \<and>
     (\<forall>i \<in> set is. \<forall>r \<in> set (member_routes i). route_served E (gs_routes st') r)"
  using assms
proof (induction "is" arbitrary: st)
  case (Cons i "is")
  then obtain st1 where s1: "group_member E st i = Inr st1" "res_fold (group_member E) is st1 = Inr st'"
    by (auto elim: res_bind_InrE)
  define st0 where "st0 = (if ing_TLS i \<noteq> [] then st\<lparr>gs_needsTLS := True\<rparr> else st)"
  from s1(1) obtain st2 where s2: "res_fold (\<lambda>st r. group_add_route E (ing_Namespace i) r st) (member_routes i) st0 = Inr st2"
    "st1 = st2\<lparr>gs_stack := (gs_stack st2)\<lparr>st_Certificates := st_Certificates (gs_stack st2) @ map (group_certificate E) (ing_TLS i)\<rparr>\<rparr>"
    by (auto simp: group_member_def st0_def Let_def res_bind_Inr_iff)
  have st0: "group_inv E st0" "gs_routes st0 = gs_routes st" using Cons.prems by (simp_all add: st0_def)
  from group_add_routes_Inr [OF s2(1) st0(1) member_routes_ok] have
    i: "group_inv E st1" "map_of (gs_routes st) \<subseteq>\<^sub>m map_of (gs_routes st1)" "\<forall>r \<in> set (member_routes i). route_served E (gs_routes st1) r"
    using s2(2) st0(2) by simp_all
  note rest = Cons.IH [OF s1(2) i(1)]
  from rest i(2) have "map_of (gs_routes st) \<subseteq>\<^sub>m map_of (gs_routes st')" by (blast intro: map_le_trans)
  moreover from rest i(3) have "\<forall>r \<in> set (member_routes i). route_served E (gs_routes st') r"
    by (blast intro: route_served_mono)
  ultimately show ?case using rest by simp
qed simp

text \<open>What a successful build is made of.\<close>

lemma group_check_members_Inr:
  "res_fold (group_check_member anchor) is u = Inr v \<Longrightarrow> i \<in> set is \<Longrightarrow>
     ing_Namespace i = ing_Namespace anchor \<and> GroupName i = GroupName anchor \<and> validateIngressShape (Some i) = Inr ()"
  by (induction "is" arbitrary: u)
    (auto simp: group_check_member_def res_wrap_def elim!: res_bind_InrE split: if_splits sum.splits)

lemma BuildGroup_Inr:
  assumes "BuildGroupLoadBalancerStack (map Some is) cfg opts = Inr stack"
  obtains E st httpPort httpsPort where "group_inv E st" "stack = group_finish E httpsPort st"
    "\<forall>i \<in> set is. ing_Namespace i = ge_namespace E \<and> validateIngressShape (Some i) = Inr () \<and>
       (\<forall>r \<in> set (member_routes i). route_served E (gs_routes st) r)"
proof -
  let ?ordered = "sort_key ing_full_name is"
  from assms obtain resolver where "group_build cfg opts resolver ?ordered = Inr stack"
    by (auto simp: BuildGroupLoadBalancerStack_def comp_def split: if_splits option.splits)
  then obtain E st0 st httpPort httpsPort where run: "E = group_env_for (hd ?ordered) cfg (go_ClusterUID opts) resolver"
    "res_fold (group_check_member (hd ?ordered)) ?ordered () = Inr ()"
    "st0 = \<lparr>gs_stack = group_stack_init E (hd ?ordered) httpPort, gs_poolByBackend = [], gs_routes = [], gs_defaultPool = [],
       gs_priority = 1, gs_needsTLS = False\<rparr>"
    "res_fold (group_member E) ?ordered st0 = Inr st" "stack = group_finish E httpsPort st"
    unfolding group_build_def Let_def by (auto simp: res_bind_Inr_iff)
  have "group_inv E st0"
    by (simp add: run(3) group_inv_def group_pools_ok_def group_routes_ok_def group_stack_init_def)
  from group_members_Inr [OF run(4) this] have "group_inv E st"
    "\<forall>i \<in> set is. \<forall>r \<in> set (member_routes i). route_served E (gs_routes st) r" by simp_all
  moreover have "ge_namespace E = ing_Namespace (hd ?ordered)" by (simp add: run(1) group_env_for_def Let_def)
  ultimately show thesis
    using that [of E st httpsPort] run(5) group_check_members_Inr [OF run(2)] by simp
qed

lemma group_finish_simps [simp]:
  "st_RoutingRules (group_finish E p st) = st_RoutingRules (gs_stack st)"
  "pool_names (group_finish E p st) = pool_names (gs_stack st)"
  "st_Pools (group_finish E p st) = st_Pools (gs_stack st)"
  "vs \<in> set (st_VirtualServers (group_finish E p st)) \<Longrightarrow> vs_DefaultPoolName vs = gs_defaultPool st"
  by (auto simp: group_finish_def pool_names_def Let_def split: if_splits)

text \<open>The builder copies address and weight of a node, and not its compute identity.\<close>

lemma BuildGroup_members_no_compute:
  assumes "BuildGroupLoadBalancerStack (map Some is) cfg opts = Inr stack"
  shows "\<forall>pool \<in> set (st_Pools stack). \<forall>m \<in> set (pool_Members pool). bm_ComputeID m = []"
proof -
  from BuildGroup_Inr [OF assms] obtain E st httpsPort where "group_inv E st" "stack = group_finish E httpsPort st" by blast
  then show ?thesis by (simp add: group_inv_def group_pools_ok_def)
qed


subsection \<open>Concrete groups\<close>

definition demo_backend_ref :: "string \<Rightarrow> string \<Rightarrow> IngressBackend" where
  "demo_backend_ref name port = \<lparr>ib_Resource = False, ib_Service = Some \<lparr>isb_Name = name, isb_PortName = port, isb_PortNumber = 0\<rparr>\<rparr>"

definition demo_route :: "string \<Rightarrow> IngressBackend \<Rightarrow> IngressRule" where
  "demo_route host be = \<lparr>ir_Host = host, ir_HTTP = Some [\<lparr>ip_Path = ''/'', ip_PathType = Some ''Prefix'', ip_Backend = be\<rparr>]\<rparr>"

definition demo_ingress :: "string \<Rightarrow> IngressRule list \<Rightarrow> K8sIngress" where
  "demo_ingress name rules = \<lparr>ing_Namespace = ''ns'', ing_Name = name, ing_UID = [], ing_Annotations = [],
     ing_DefaultBackend = None, ing_Rules = rules, ing_TLS = [], ing_ClassName = Some ''f5'', ing_Deleting = False,
     ing_Finalizers = [], ing_IngressIPs = []\<rparr>"

definition demo_resolver :: "string \<Rightarrow> IngressServiceBackend \<Rightarrow> err + BackendSet" where
  "demo_resolver ns svc = Inr \<lparr>bs_NodePort = 30080, bs_Nodes = [\<lparr>nd_NodeName = ''n1'', nd_ProviderID = ''cmp://c1'',
     nd_ComputeID = ''c1'', nd_IP = ''10.0.0.1'', nd_Weight = 50\<rparr>]\<rparr>"

definition demo_group_opts :: GroupStackBuildOptions where
  "demo_group_opts = \<lparr>go_ClusterUID = [], go_HTTPFrontendPort = 0, go_HTTPSFrontendPort = 0, go_BackendResolver = Some demo_resolver\<rparr>"

definition demo_one :: K8sIngress where
  "demo_one = demo_ingress ''one'' [demo_route ''a.example'' (demo_backend_ref ''web'' ''http'')]"

definition demo_two :: K8sIngress where
  "demo_two = demo_ingress ''two'' [demo_route ''b.example'' (demo_backend_ref ''web'' ''http'')]"

theorem BuildGroup_order_irrelevant_witness:
  "BuildGroupLoadBalancerStack (map Some [demo_one, demo_two]) DefaultLBConfig demo_group_opts
   = BuildGroupLoadBalancerStack (map Some [demo_two, demo_one]) DefaultLBConfig demo_group_opts"
  by (rule BuildGroup_order_irrelevant)
    (simp_all add: demo_one_def demo_two_def demo_ingress_def ing_full_name_def)

lemma demo_one_builds: "is_ok (BuildGroupLoadBalancerStack (map Some [demo_one]) DefaultLBConfig demo_group_opts)"
  by code_simp


definition colliding_ingress :: K8sIngress where
  "colliding_ingress = demo_ingress ''one'' [demo_route ''a.example'' (demo_backend_ref ''a-b'' ''c''),
     demo_route ''b.example'' (demo_backend_ref ''a'' ''b-c'')]"

text \<open>
  Pool names are not injective: an Ingress whose two hosts lead to the Service \<open>a-b\<close>, port
  \<open>c\<close>, and to the Service \<open>a\<close>, port \<open>b-c\<close>, is built without an error into a stack with two
  pools of one name, so that both rules select by the same name.
\<close>

theorem BuildGroup_pool_name_collision:
  "case BuildGroupLoadBalancerStack [Some colliding_ingress] DefaultLBConfig demo_group_opts of
     Inl e \<Rightarrow> False
   | Inr stack \<Rightarrow> map pool_Name (st_Pools stack) = [''ing-pool-ns-a-b-c-0'', ''ing-pool-ns-a-b-c-0''] \<and>
       map pool_Service (st_Pools stack) = [''a-b'', ''a''] \<and>
       map rr_PoolName (st_RoutingRules stack) = [''ing-pool-ns-a-b-c-0'', ''ing-pool-ns-a-b-c-0'']"
  by code_simp

end
