(* ===== verification/Json.thy ===== *)
theory Json
  imports Results
begin

text \<open>
  JSON as \<open>encoding/json\<close> reads and writes it.  A document is a value of type \<open>json\<close>; an
  object keeps its entries in order, duplicates included.  Numbers are integer literals: every
  number the program reads is an identifier, a port, a weight or a number of seconds.  A
  \<open>json.RawMessage\<close> is a document that is not read yet; the empty message is \<open>None\<close>.

  A struct field is found under its key up to letter case, \<open>null\<close> leaves the field alone, a value
  of the wrong type makes \<open>json.Unmarshal\<close> return an error, and a repeated key is read again.  A
  \<open>map[string]any\<close> distinguishes letter case and keeps the last entry of a key; its numbers are
  \<open>float64\<close>.
\<close>

datatype json =
    JNull
  | JBool bool
  | JNum int
  | JStr string
  | JArr "json list"
  | JObj "(string \<times> json) list"

type_synonym raw = "json option"

subsection \<open>Reading structs\<close>

definition json_struct :: "raw \<Rightarrow> (string \<times> json) list option" where
  "json_struct r = (case r of Some (JObj es) \<Rightarrow> Some es | Some JNull \<Rightarrow> Some [] | _ \<Rightarrow> None)"

text \<open>\<open>read_field d z key es\<close>: the field of the key, from its zero value \<open>z\<close>, by the decoder of
  its type.\<close>

definition read_field :: "('a \<Rightarrow> json \<Rightarrow> 'a option) \<Rightarrow> 'a \<Rightarrow> string \<Rightarrow> (string \<times> json) list \<Rightarrow> 'a option" where
  "read_field d z key es =
     fold (\<lambda>(k, v) acc. if equal_fold k key then Option.bind acc (\<lambda>a. d a v) else acc) es (Some z)"

fun d_string :: "string \<Rightarrow> json \<Rightarrow> string option" where
  "d_string old JNull = Some old"
| "d_string old (JStr s) = Some s"
| "d_string old v = None"

fun d_bool :: "bool \<Rightarrow> json \<Rightarrow> bool option" where
  "d_bool old JNull = Some old"
| "d_bool old (JBool b) = Some b"
| "d_bool old v = None"

text \<open>\<open>int\<close> has 64 bits; a literal out of range is an error.\<close>

fun d_int :: "int \<Rightarrow> json \<Rightarrow> int option" where
  "d_int old JNull = Some old"
| "d_int old (JNum n) = (if - (2 ^ 63) \<le> n \<and> n < 2 ^ 63 then Some n else None)"
| "d_int old v = None"

fun d_int32 :: "int32 \<Rightarrow> json \<Rightarrow> int32 option" where
  "d_int32 old JNull = Some old"
| "d_int32 old (JNum n) = (if - (2 ^ 31) \<le> n \<and> n < 2 ^ 31 then Some (word_of_int n) else None)"
| "d_int32 old v = None"

fun d_raws :: "json list \<Rightarrow> json \<Rightarrow> json list option" where
  "d_raws old JNull = Some []"
| "d_raws old (JArr vs) = Some vs"
| "d_raws old v = None"

fun strings_of :: "json list \<Rightarrow> string list option" where
  "strings_of [] = Some []"
| "strings_of (v # vs) = Option.bind (d_string [] v) (\<lambda>s. map_option (\<lambda>ss. s # ss) (strings_of vs))"

fun d_strings :: "string list \<Rightarrow> json \<Rightarrow> string list option" where
  "d_strings old JNull = Some []"
| "d_strings old (JArr vs) = strings_of vs"
| "d_strings old v = None"

text \<open>The entries of a nested struct, those of later occurrences after those of earlier ones.\<close>

fun d_struct :: "(string \<times> json) list \<Rightarrow> json \<Rightarrow> (string \<times> json) list option" where
  "d_struct old JNull = Some old"
| "d_struct old (JObj es) = Some (old @ es)"
| "d_struct old v = None"

abbreviation f_string where "f_string \<equiv> read_field d_string []"
abbreviation f_bool where "f_bool \<equiv> read_field d_bool False"
abbreviation f_int where "f_int \<equiv> read_field d_int 0"
abbreviation f_int32 where "f_int32 \<equiv> read_field d_int32 0"
abbreviation f_raws where "f_raws \<equiv> read_field d_raws []"
abbreviation f_strings where "f_strings \<equiv> read_field d_strings []"
abbreviation f_struct where "f_struct \<equiv> read_field d_struct []"

subsection \<open>Reading maps\<close>

definition json_map :: "json \<Rightarrow> json gomap option" where
  "json_map v = (case v of JObj es \<Rightarrow> Some (fold (\<lambda>(k, x) m. gm_set k x m) es []) | JNull \<Rightarrow> Some [] | _ \<Rightarrow> None)"

text \<open>A type assertion to \<open>map[string]any\<close> fails on \<open>nil\<close>.\<close>

definition any_map :: "json \<Rightarrow> json gomap option" where
  "any_map v = (case v of JObj es \<Rightarrow> json_map v | _ \<Rightarrow> None)"

text \<open>The \<open>float64\<close> nearest to an integer (ties to even), which is an integer again.\<close>

definition float64_int :: "int \<Rightarrow> int" where
  "float64_int n =
     (let m = \<bar>n\<bar>; e = length (takeWhile (\<lambda>k. 2 ^ (53 + k) \<le> m) [0..<1024]); q = 2 ^ e; d = m div q; r = m mod q;
          d' = (if 2 * r < q then d else if q < 2 * r then d + 1 else if even d then d else d + 1)
      in sgn n * (d' * q))"

text \<open>\<open>int64(f)\<close> of a \<open>float64\<close> that is out of range gives the least value (amd64).\<close>

definition int_of_float :: "int \<Rightarrow> int" where
  "int_of_float f = (if - (2 ^ 63) \<le> f \<and> f < 2 ^ 63 then f else - (2 ^ 63))"

subsection \<open>Writing\<close>

text \<open>\<open>json.Marshal\<close> escapes the quote, the backslash, control characters and, for HTML, \<open><\<close>,
  \<open>>\<close> and \<open>&\<close>.\<close>

definition hex_char :: "nat \<Rightarrow> char" where
  "hex_char n = (if n < 10 then char_of (48 + n) else char_of (87 + n))"

definition json_char :: "char \<Rightarrow> string" where
  "json_char c =
     (let n = (of_char c :: nat) in
      if c = CHR 0x22 then [CHR 0x5C, CHR 0x22] else if c = CHR 0x5C then [CHR 0x5C, CHR 0x5C]
      else if n = 8 then [CHR 0x5C, CHR ''b''] else if n = 9 then [CHR 0x5C, CHR ''t'']
      else if n = 10 then [CHR 0x5C, CHR ''n''] else if n = 12 then [CHR 0x5C, CHR ''f'']
      else if n = 13 then [CHR 0x5C, CHR ''r'']
      else if n < 32 \<or> c \<in> {CHR ''<'', CHR ''>'', CHR ''&''}
      then [CHR 0x5C, CHR ''u'', CHR ''0'', CHR ''0'', hex_char (n div 16), hex_char (n mod 16)]
      else [c])"

definition json_string :: "string \<Rightarrow> string" where
  "json_string s = [CHR 0x22] @ concat (map json_char s) @ [CHR 0x22]"

fun json_text :: "json \<Rightarrow> string" where
  "json_text JNull = ''null''"
| "json_text (JBool b) = (if b then ''true'' else ''false'')"
| "json_text (JNum n) = show_int n"
| "json_text (JStr s) = json_string s"
| "json_text (JArr vs) = ''['' @ join '','' (map json_text vs) @ '']''"
| "json_text (JObj es) = ''{'' @ join '','' (map (\<lambda>e. json_string (fst e) @ '':'' @ json_text (snd e)) es) @ ''}''"

text \<open>\<open>json.Marshal\<close> of a map sorts its keys.\<close>

definition marshal_map :: "json gomap \<Rightarrow> string" where
  "marshal_map m = json_text (JObj (sort_key fst m))"

definition raw_text :: "raw \<Rightarrow> string" where
  "raw_text r = (case r of None \<Rightarrow> [] | Some v \<Rightarrow> json_text v)"

subsection \<open>URL values\<close>

type_synonym url_values = "string list gomap"

definition q_set :: "string \<Rightarrow> string \<Rightarrow> url_values \<Rightarrow> url_values" where
  "q_set k v q = gm_set k [v] q"

definition q_add :: "string \<Rightarrow> string \<Rightarrow> url_values \<Rightarrow> url_values" where
  "q_add k v q = gm_set k (gm_index [] q k @ [v]) q"

definition q_set_if :: "bool \<Rightarrow> string \<Rightarrow> string \<Rightarrow> url_values \<Rightarrow> url_values" where
  "q_set_if b k v q = (if b then q_set k v q else q)"

definition unreserved :: "char \<Rightarrow> bool" where
  "unreserved c \<longleftrightarrow> is_digit c \<or> (let n = (of_char c :: nat) in 65 \<le> n \<and> n \<le> 90 \<or> 97 \<le> n \<and> n \<le> 122) \<or>
     c \<in> {CHR ''-'', CHR ''_'', CHR ''.'', CHR ''~''}"

definition upper_hex :: "nat \<Rightarrow> char" where
  "upper_hex n = (if n < 10 then char_of (48 + n) else char_of (55 + n))"

definition percent :: "char \<Rightarrow> string" where
  "percent c = (let n = (of_char c :: nat) in [CHR ''%'', upper_hex (n div 16), upper_hex (n mod 16)])"

definition query_char :: "char \<Rightarrow> string" where
  "query_char c = (if unreserved c then [c] else if c = CHR '' '' then ''+'' else percent c)"

definition QueryEscape :: "string \<Rightarrow> string" where
  "QueryEscape s = concat (map query_char s)"

text \<open>\<open>url.PathEscape\<close> keeps more characters: those a path segment may hold.\<close>

definition path_char :: "char \<Rightarrow> string" where
  "path_char c = (if unreserved c \<or> c \<in> {CHR ''$'', CHR ''&'', CHR ''+'', CHR ''='', CHR '':'', CHR ''@''} then [c] else percent c)"

definition PathEscape :: "string \<Rightarrow> string" where
  "PathEscape s = concat (map path_char s)"

definition query_pairs :: "url_values \<Rightarrow> (string \<times> string) list" where
  "query_pairs q = concat (map (\<lambda>(k, vs). map (Pair k) vs) (sort_key fst q))"

definition q_encode :: "url_values \<Rightarrow> string" where
  "q_encode q = join ''&'' (map (\<lambda>(k, v). QueryEscape k @ ''='' @ QueryEscape v) (query_pairs q))"

text \<open>\<open>if enc := q.Encode(); enc != "" { path += "?" + enc }\<close>.\<close>

definition with_query :: "string \<Rightarrow> url_values \<Rightarrow> string" where
  "with_query path q = (if q_encode q = [] then path else path @ ''?'' @ q_encode q)"

subsection \<open>Reading a query back\<close>

text \<open>\<open>url.ParseQuery\<close>, as the receiving side applies it to well-formed input.\<close>

definition hex_value :: "char \<Rightarrow> nat" where
  "hex_value c = (let n = of_char c in if n \<le> 57 then n - 48 else if n \<le> 70 then n - 55 else n - 87)"

fun QueryUnescape :: "string \<Rightarrow> string" where
  "QueryUnescape [] = []"
| "QueryUnescape (c # cs) =
     (if c = CHR ''%'' then (case cs of a # b # r \<Rightarrow> char_of (16 * hex_value a + hex_value b) # QueryUnescape r | _ \<Rightarrow> [])
      else if c = CHR ''+'' then CHR '' '' # QueryUnescape cs else c # QueryUnescape cs)"

definition ParseQuery :: "string \<Rightarrow> (string \<times> string) list" where
  "ParseQuery s =
     map (\<lambda>p. case cut (CHR ''='') p of (k, v, found) \<Rightarrow> (QueryUnescape k, QueryUnescape v))
       (filter (\<lambda>p. p \<noteq> []) (split_on (CHR ''&'') s))"

lemma hex_value_upper: "n < 16 \<Longrightarrow> hex_value (upper_hex n) = n"
  by (auto simp: hex_value_def upper_hex_def of_char_of Let_def)

lemma unreserved_plain: "unreserved c \<Longrightarrow> c \<noteq> CHR ''%'' \<and> c \<noteq> CHR ''+'' \<and> c \<noteq> CHR ''&'' \<and> c \<noteq> CHR ''=''"
  by (auto simp: unreserved_def is_digit_def Let_def)

lemma unescape_query_char: "QueryUnescape (query_char c @ r) = c # QueryUnescape r"
proof -
  have "(of_char c :: nat) < 256" by simp
  then have "16 * hex_value (upper_hex (of_char c div 16)) + hex_value (upper_hex (of_char c mod 16)) = of_char c"
    by (simp add: hex_value_upper less_mult_imp_div_less)
  then have "QueryUnescape (percent c @ r) = c # QueryUnescape r"
    by (simp add: percent_def Let_def)
  then show ?thesis
    using unreserved_plain [of c] by (cases "unreserved c \<or> c = CHR '' ''") (auto simp: query_char_def)
qed

lemma QueryUnescape_QueryEscape [simp]: "QueryUnescape (QueryEscape s) = s"
proof (induction s)
  case (Cons c s)
  then show ?case by (simp add: QueryEscape_def unescape_query_char)
qed (simp add: QueryEscape_def)

lemma of_char_upper_hex: "n < 16 \<Longrightarrow> (of_char (upper_hex n) :: nat) = (if n < 10 then 48 + n else 55 + n)"
  by (simp add: upper_hex_def of_char_of)

lemma QueryEscape_chars: "c \<in> set (QueryEscape s) \<Longrightarrow> c \<noteq> CHR ''&'' \<and> c \<noteq> CHR ''=''"
proof -
  have hex: "n < 16 \<Longrightarrow> upper_hex n \<noteq> CHR ''&'' \<and> upper_hex n \<noteq> CHR ''=''" for n
    using of_char_upper_hex [of n] by (auto split: if_splits)
  assume "c \<in> set (QueryEscape s)"
  then obtain d where "c \<in> set (query_char d)" by (auto simp: QueryEscape_def)
  moreover have "(of_char d :: nat) div 16 < 16" by (simp add: less_mult_imp_div_less)
  ultimately show ?thesis
    using hex [of "of_char d div 16"] hex [of "of_char d mod 16"]
    using unreserved_plain [of d] by (auto simp: query_char_def percent_def Let_def split: if_splits)
qed

lemma split_on_join:
  assumes "\<And>p. p \<in> set ps \<Longrightarrow> c \<notin> set p" and "ps \<noteq> []"
  shows "split_on c (join [c] ps) = ps"
proof -
  have step: "c \<notin> set p \<Longrightarrow> split_on c (p @ c # r) = p # split_on c r" for p r
    by (induction p) auto
  show ?thesis using assms by (induction "[c]" ps rule: join.induct) (auto simp: step split_on_no)
qed

lemma ParseQuery_q_encode: "ParseQuery (q_encode q) = query_pairs q"
proof (cases "query_pairs q = []")
  case False
  let ?piece = "\<lambda>(k, v). QueryEscape k @ ''='' @ QueryEscape v"
  have "split_on (CHR ''&'') (q_encode q) = map ?piece (query_pairs q)"
    unfolding q_encode_def using False by (intro split_on_join) (auto dest: QueryEscape_chars)
  moreover have "filter (\<lambda>p. p \<noteq> []) (map ?piece (query_pairs q)) = map ?piece (query_pairs q)"
    by (auto simp: filter_id_conv)
  moreover have "cut (CHR ''='') (QueryEscape k @ CHR ''='' # QueryEscape v) = (QueryEscape k, QueryEscape v, True)" for k v
    by (rule cut_append) (auto dest: QueryEscape_chars)
  ultimately show ?thesis by (simp add: ParseQuery_def comp_def case_prod_unfold)
qed (simp add: ParseQuery_def q_encode_def)

subsection \<open>Reading what a document holds\<close>

lemma fold_id: "(\<And>x. x \<in> set xs \<Longrightarrow> f x = id) \<Longrightarrow> fold f xs = id"
  by (induction xs) auto

lemma read_field_absent: "\<forall>e \<in> set es. \<not> equal_fold (fst e) key \<Longrightarrow> read_field d z key es = Some z"
  unfolding read_field_def by (subst fold_id) (auto simp: fun_eq_iff)

end
