(* ===== verification/Http.thy ===== *)
theory Http
  imports Json Sha256
begin

text \<open>
  The request engine of \<open>pkg/f5/client.go\<close>: one CMP operation is one pass through
  \<open>doRequestWithBodyAndHeaders\<close>, which takes the request slot, waits for the rate limiter, sends
  the request, renews the Ce-Auth token and sends it once more after a 401, and turns the response
  into a value or an error.  What is outside the program is the record \<open>henv\<close>: the network, the
  clock, the cancellation of the context and \<open>net/url\<close>'s check of the URL, each free to depend on
  all requests sent so far; their errors are texts (errors of other packages).  \<open>hs_log\<close> is the list of these requests.
\<close>

named_theorems send_intros \<open>how many requests a computation sends\<close>

subsection \<open>Requests, responses and the environment\<close>

record request =
  rq_Method :: string
  rq_URL :: string
  rq_Header :: "string list gomap"
  rq_BasicAuth :: "(string \<times> string) option"
  rq_Body :: string

text \<open>A body reader: none, one that \<open>http.NewRequest\<close> can rewind (\<open>GetBody\<close>), another one.\<close>

datatype reader = NilReader | Buffered string | Streamed string

datatype http_body = EmptyBody | JsonBody json | BadBody string

record response =
  rp_StatusCode :: int
  rp_Status :: string
  rp_Header :: "string list gomap"
  rp_Text :: string
  rp_Body :: http_body

record hclient =
  hc_endpoint :: string
  hc_partition :: string
  hc_apiPrefix :: string
  hc_probePath :: string
  hc_probeMethod :: string
  hc_organisationName :: string
  hc_projectID :: string
  hc_region :: string
  hc_ceAuth :: string
  hc_ceAuthAPIKeyID :: string
  hc_ceAuthAPISecret :: string
  hc_ceAuthValidity :: int
  hc_extraHeaders :: "string list gomap"
  hc_cpFlavorID :: int32
  hc_cpNetworkID :: string
  hc_cpVPCID :: string
  hc_cpVPCName :: string
  hc_cpRoutingAlgorithm :: string
  hc_cpMonitorInterval :: int32
  hc_username :: string
  hc_password :: string

text \<open>Times and durations are nanoseconds.\<close>

record henv =
  e_slot :: "request list \<Rightarrow> string option"
  e_limiter :: "request list \<Rightarrow> string option"
  e_bad_url :: "string \<Rightarrow> string \<Rightarrow> string option"
  e_do :: "request list \<Rightarrow> request \<Rightarrow> string + response"
  e_now :: "request list \<Rightarrow> int"
  e_parseTime :: "string \<Rightarrow> int option"

record hstate =
  hs_client :: hclient
  hs_log :: "request list"

type_synonym 'a hio = "hstate \<Rightarrow> (err + 'a) \<times> hstate"

definition hio_return :: "'a \<Rightarrow> 'a hio" where
  "hio_return x = (\<lambda>s. (Inr x, s))"

definition hio_fail :: "err \<Rightarrow> 'a hio" where
  "hio_fail e = (\<lambda>s. (Inl e, s))"

definition hio_try :: "'a hio \<Rightarrow> (err + 'a \<Rightarrow> 'b hio) \<Rightarrow> 'b hio" where
  "hio_try m f = (\<lambda>s. case m s of (r, s') \<Rightarrow> f r s')"

definition hio_bind :: "'a hio \<Rightarrow> ('a \<Rightarrow> 'b hio) \<Rightarrow> 'b hio" where
  "hio_bind m f = hio_try m (\<lambda>r. case r of Inl e \<Rightarrow> hio_fail e | Inr x \<Rightarrow> f x)"

definition hio_wrap :: "string \<Rightarrow> string list \<Rightarrow> 'a hio \<Rightarrow> 'a hio" where
  "hio_wrap f args m = hio_try m (\<lambda>r. case r of Inl e \<Rightarrow> hio_fail (Wrapf f args e) | Inr x \<Rightarrow> hio_return x)"

definition hio_get :: "(hstate \<Rightarrow> 'a hio) \<Rightarrow> 'a hio" where
  "hio_get f = (\<lambda>s. f s s)"

definition hio_put :: "(hclient \<Rightarrow> hclient) \<Rightarrow> unit hio" where
  "hio_put f = (\<lambda>s. (Inr (), s\<lparr>hs_client := f (hs_client s)\<rparr>))"

definition hio_send :: "henv \<Rightarrow> request \<Rightarrow> response hio" where
  "hio_send E req = (\<lambda>s. (map_sum OtherErr id (e_do E (hs_log s) req), s\<lparr>hs_log := hs_log s @ [req]\<rparr>))"

lemma map_sum_eq [simp]:
  "map_sum f id x = Inr y \<longleftrightarrow> x = Inr y" "map_sum f id x = Inl z \<longleftrightarrow> (\<exists>w. x = Inl w \<and> z = f w)"
  by (cases x; auto)+

definition hio_result :: "err + 'a \<Rightarrow> 'a hio" where
  "hio_result r = (\<lambda>s. (r, s))"

text \<open>\<open>if bad { return fmt.Errorf(message) }\<close>.\<close>

definition hio_unless :: "bool \<Rightarrow> string \<Rightarrow> 'a hio \<Rightarrow> 'a hio" where
  "hio_unless bad message m = (if bad then hio_fail (Errorf message []) else m)"

definition hio_fail_with :: "string \<Rightarrow> string list \<Rightarrow> string option \<Rightarrow> 'a hio \<Rightarrow> 'a hio" where
  "hio_fail_with f args e m = (case e of None \<Rightarrow> m | Some x \<Rightarrow> hio_fail (Wrapf f args (OtherErr x)))"

subsection \<open>Headers\<close>

text \<open>\<open>textproto.CanonicalMIMEHeaderKey\<close> on a key of token characters.\<close>

fun canonical_from :: "bool \<Rightarrow> string \<Rightarrow> string" where
  "canonical_from upper [] = []"
| "canonical_from upper (c # cs) =
     (if upper then upper_char c else lower_char c) # canonical_from (c = CHR ''-'') cs"

definition canonical_key :: "string \<Rightarrow> string" where
  "canonical_key k = canonical_from True k"

definition hdr_get :: "string list gomap \<Rightarrow> string \<Rightarrow> string" where
  "hdr_get h k = (case gm_index [] h (canonical_key k) of [] \<Rightarrow> [] | v # _ \<Rightarrow> v)"

definition hdr_set :: "string \<Rightarrow> string \<Rightarrow> string list gomap \<Rightarrow> string list gomap" where
  "hdr_set k v h = gm_set (canonical_key k) [v] h"

definition hdr_add :: "string \<Rightarrow> string \<Rightarrow> string list gomap \<Rightarrow> string list gomap" where
  "hdr_add k v h = gm_set (canonical_key k) (gm_index [] h (canonical_key k) @ [v]) h"

definition hdr_set_if :: "bool \<Rightarrow> string \<Rightarrow> string \<Rightarrow> string list gomap \<Rightarrow> string list gomap" where
  "hdr_set_if b k v h = (if b then hdr_set k v h else h)"

definition hdr_copy :: "string list gomap \<Rightarrow> string list gomap \<Rightarrow> string list gomap" where
  "hdr_copy extra h =
     fold (\<lambda>(key, values). fold (\<lambda>v h. if trim_space key \<noteq> [] \<and> v \<noteq> [] then hdr_add key v h else h) values) extra h"

subsection \<open>The Ce-Auth token\<close>

definition hmac_key :: "string \<Rightarrow> nat list" where
  "hmac_key k = map of_char k @ replicate (64 - length k) 0"

text \<open>The hash of a text as 32 bytes, from its hexadecimal form.\<close>

definition nibble :: "char \<Rightarrow> nat" where
  "nibble c = (let n = of_char c in if n \<le> 57 then n - 48 else n - 87)"

fun unhex :: "string \<Rightarrow> string" where
  "unhex (a # b # r) = char_of (16 * nibble a + nibble b) # unhex r"
| "unhex _ = []"

definition xor_bytes :: "nat \<Rightarrow> nat list \<Rightarrow> string" where
  "xor_bytes m ks = map (\<lambda>k. char_of (xor m k)) ks"

definition hmac_sha256_hex :: "string \<Rightarrow> string \<Rightarrow> string" where
  "hmac_sha256_hex key msg =
     (let k = hmac_key (if length key > 64 then unhex (sha256_hex key) else key)
      in sha256_hex (xor_bytes 92 k @ unhex (sha256_hex (xor_bytes 54 k @ msg))))"

definition GenerateCeAuthToken :: "int \<Rightarrow> string \<Rightarrow> string \<Rightarrow> int \<Rightarrow> string" where
  "GenerateCeAuthToken now apiKeyID secretKey validity =
     (let validity = (if validity \<le> 0 then 299 * 10 ^ 9 else validity);
          expiry = now div 10 ^ 9 + validity div 10 ^ 9;
          input = apiKeyID @ ''.'' @ show_int expiry
      in input @ ''.'' @ hmac_sha256_hex secretKey input)"

definition currentCeAuthToken :: "hclient \<Rightarrow> string" where
  "currentCeAuthToken c = trim_space (hc_ceAuth c)"

definition refreshCeAuthToken :: "henv \<Rightarrow> string hio" where
  "refreshCeAuthToken E = hio_get (\<lambda>s.
     let c = hs_client s; apiKeyID = trim_space (hc_ceAuthAPIKeyID c); apiSecret = trim_space (hc_ceAuthAPISecret c) in
     if apiKeyID = [] \<or> apiSecret = []
     then hio_fail (Errorf ''cannot refresh Ce-Auth token: CMP API key ID or API secret is empty'' [])
     else let token = GenerateCeAuthToken (e_now E (hs_log s)) apiKeyID apiSecret (hc_ceAuthValidity c)
          in hio_bind (hio_put (\<lambda>c. c\<lparr>hc_ceAuth := token\<rparr>)) (\<lambda>_. hio_return token))"

subsection \<open>One request\<close>

definition http_headers :: "hclient \<Rightarrow> string list gomap \<Rightarrow> string \<Rightarrow> string list gomap" where
  "http_headers c extra contentType =
     (let token = currentCeAuthToken c; org = hc_organisationName c in
      hdr_set_if (trim_space contentType \<noteq> []) ''Content-Type'' contentType
       (hdr_set_if (hc_projectID c \<noteq> []) ''project-id'' (hc_projectID c)
         (hdr_set_if (org \<noteq> []) ''organization-name'' org
           (hdr_set_if (org \<noteq> []) ''organisation-name'' org
             (hdr_set_if (hc_region c \<noteq> []) ''ce-region'' (hc_region c)
               (hdr_set_if (token \<noteq> []) ''Ce-Auth'' token
                 (hdr_copy extra (hdr_copy (hc_extraHeaders c) (hdr_set ''Accept'' ''application/json'' [])))))))))"

definition basic_auth :: "hclient \<Rightarrow> (string \<times> string) option" where
  "basic_auth c = (if hc_username c \<noteq> [] \<and> hc_password c \<noteq> [] then Some (hc_username c, hc_password c) else None)"

fun reader_text :: "reader \<Rightarrow> string" where
  "reader_text NilReader = []" | "reader_text (Buffered b) = b" | "reader_text (Streamed b) = b"

definition request_url :: "hclient \<Rightarrow> string \<Rightarrow> string" where
  "request_url c path = hc_endpoint c @ ''/'' @ dropWhile (\<lambda>x. x = CHR ''/'') path"

definition make_request :: "hclient \<Rightarrow> string \<Rightarrow> string \<Rightarrow> reader \<Rightarrow> string \<Rightarrow> string list gomap \<Rightarrow> request" where
  "make_request c meth path body contentType extra =
     \<lparr>rq_Method = meth, rq_URL = request_url c path, rq_Header = http_headers c extra contentType,
      rq_BasicAuth = basic_auth c, rq_Body = reader_text body\<rparr>"

text \<open>Refresh and retry exactly once, and only for HTTP 401.\<close>

definition can_refresh :: "hclient \<Rightarrow> bool" where
  "can_refresh c \<longleftrightarrow> trim_space (hc_ceAuthAPIKeyID c) \<noteq> [] \<and> trim_space (hc_ceAuthAPISecret c) \<noteq> []"

definition authorized_retry :: "henv \<Rightarrow> request \<Rightarrow> reader \<Rightarrow> response hio" where
  "authorized_retry E req body =
     (case body of
        Streamed _ \<Rightarrow> hio_fail (Errorf ''cannot retry %s %s after HTTP 401: request body cannot be recreated'' [rq_Method req, rq_URL req])
      | _ \<Rightarrow>
        hio_bind (hio_wrap ''refreshing Ce-Auth token after HTTP 401: %w'' [] (refreshCeAuthToken E))
          (\<lambda>token. hio_wrap ''performing authorized retry %s %s: %w'' [rq_Method req, rq_URL req]
             (hio_send E (req\<lparr>rq_Header := hdr_set ''Ce-Auth'' token (rq_Header req)\<rparr>))))"

definition send_authorized :: "henv \<Rightarrow> request \<Rightarrow> reader \<Rightarrow> response hio" where
  "send_authorized E req body =
     hio_bind (hio_wrap ''performing %s %s: %w'' [rq_Method req, rq_URL req] (hio_send E req))
       (\<lambda>resp. hio_get (\<lambda>s.
          if rp_StatusCode resp = 401 \<and> can_refresh (hs_client s) then authorized_retry E req body else hio_return resp))"

subsection \<open>The response\<close>

text \<open>\<open>time.Duration(seconds) * time.Second\<close> is a 64-bit product.\<close>

definition seconds_duration :: "int \<Rightarrow> int" where
  "seconds_duration n = sint (word_of_int (n * 10 ^ 9) :: 64 word)"

definition retry_after :: "henv \<Rightarrow> int \<Rightarrow> string \<Rightarrow> int" where
  "retry_after E now value =
     (let default = 30 * 10 ^ 9 in
      if value = [] then default
      else if (case atoi value of None \<Rightarrow> False | Some n \<Rightarrow> n > 0) then seconds_duration (the (atoi value))
      else case e_parseTime E value of
             None \<Rightarrow> default
           | Some retryAt \<Rightarrow> let delay = min (2 ^ 63 - 1) (retryAt - now) in if delay > 0 then delay else default)"

definition response_id :: "response \<Rightarrow> string" where
  "response_id resp =
     (let i = hdr_get (rp_Header resp) ''X-Request-Id'' in if i = [] then hdr_get (rp_Header resp) ''X-Request-ID'' else i)"

definition response_error :: "henv \<Rightarrow> int \<Rightarrow> request \<Rightarrow> response \<Rightarrow> err" where
  "response_error E now req resp =
     (let text = take 4096 (rp_Text resp); i = response_id resp; auth = hdr_get (rp_Header resp) ''Www-Authenticate'' in
      if rp_StatusCode resp = 429
      then RateLimitedErr (retry_after E now (hdr_get (rp_Header resp) ''Retry-After''))
             (rq_Method req @ '' '' @ rq_URL req @ '': '' @ text @ '' (reqID='' @ i @ '')'')
      else HTTPErr \<lparr>he_Method = rq_Method req, he_URL = rq_URL req, he_StatusCode = rp_StatusCode resp,
             he_Status = rp_Status resp, he_RequestID = i,
             he_WWWAuthenticate = (if auth = [] then hdr_get (rp_Header resp) ''WWW-Authenticate'' else auth),
             he_BodySnippet = text\<rparr>)"

text \<open>\<open>json.NewDecoder(resp.Body).Decode(result)\<close> for the three kinds of result: none, a
  \<open>json.RawMessage\<close>, a list of them.  An empty body (\<open>io.EOF\<close>) leaves the result at its zero value.\<close>

definition no_result :: "http_body \<Rightarrow> string + unit" where
  "no_result b = Inr ()"

fun raw_result :: "http_body \<Rightarrow> string + raw" where
  "raw_result EmptyBody = Inr None"
| "raw_result (JsonBody v) = Inr (Some v)"
| "raw_result (BadBody e) = Inl e"

fun raws_result :: "http_body \<Rightarrow> string + json list" where
  "raws_result EmptyBody = Inr []"
| "raws_result (JsonBody v) =
     (case d_raws [] v of Some vs \<Rightarrow> Inr vs | None \<Rightarrow> Inl ''json: cannot unmarshal into []json.RawMessage'')"
| "raws_result (BadBody e) = Inl e"

definition read_response :: "henv \<Rightarrow> (http_body \<Rightarrow> string + 'a) \<Rightarrow> request \<Rightarrow> response \<Rightarrow> (string list gomap \<times> 'a) hio" where
  "read_response E result req resp = hio_get (\<lambda>s.
     if rp_StatusCode resp < 200 \<or> 300 \<le> rp_StatusCode resp
     then hio_fail (response_error E (e_now E (hs_log s)) req resp)
     else case result (rp_Body resp) of
            Inl e \<Rightarrow> hio_fail (Wrapf ''decoding response from %s %s: %w'' [rq_Method req, rq_URL req] (OtherErr e))
          | Inr x \<Rightarrow> hio_return (rp_Header resp, x))"

definition doRequestWithBodyAndHeaders :: "henv \<Rightarrow> string \<Rightarrow> string \<Rightarrow> reader \<Rightarrow> string \<Rightarrow> string list gomap \<Rightarrow>
    (http_body \<Rightarrow> string + 'a) \<Rightarrow> (string list gomap \<times> 'a) hio" where
  "doRequestWithBodyAndHeaders E meth path body contentType extra result = hio_get (\<lambda>s.
     let c = hs_client s; req = make_request c meth path body contentType extra in
     hio_fail_with ''waiting for CMP request slot: %w'' [] (e_slot E (hs_log s))
       (hio_fail_with ''rate limiter wait cancelled: %w'' [] (e_limiter E (hs_log s))
         (hio_fail_with ''creating %s %s request: %w'' [meth, rq_URL req] (e_bad_url E meth (rq_URL req))
           (hio_bind (send_authorized E req body) (read_response E result req)))))"

subsection \<open>Reasoning about requests\<close>

text \<open>\<open>heffect m Q\<close>: from every state, \<open>m\<close> only appends requests to the log, and these requests
  and its result satisfy \<open>Q\<close>.\<close>

definition heffect :: "'a hio \<Rightarrow> (hstate \<Rightarrow> request list \<Rightarrow> err + 'a \<Rightarrow> bool) \<Rightarrow> bool" where
  "heffect m Q \<longleftrightarrow> (\<forall>s. \<exists>qs. hs_log (snd (m s)) = hs_log s @ qs \<and> Q s qs (fst (m s)))"

definition sends :: "nat \<Rightarrow> 'a hio \<Rightarrow> bool" where
  "sends n m \<longleftrightarrow> heffect m (\<lambda>s qs r. length qs \<le> n)"

lemma heffect_conseq: "heffect m P \<Longrightarrow> (\<And>s qs r. P s qs r \<Longrightarrow> Q s qs r) \<Longrightarrow> heffect m Q"
  unfolding heffect_def by blast

lemma heffect_return: "(\<And>s. Q s [] (Inr x)) \<Longrightarrow> heffect (hio_return x) Q"
  by (simp add: heffect_def hio_return_def)

lemma heffect_fail: "(\<And>s. Q s [] (Inl e)) \<Longrightarrow> heffect (hio_fail e) Q"
  by (simp add: heffect_def hio_fail_def)

lemma heffect_try:
  assumes "heffect m (\<lambda>s. P)" and "\<And>qs r. P qs r \<Longrightarrow> heffect (f r) (\<lambda>s qs'. Q (qs @ qs'))"
  shows "heffect (hio_try m f) (\<lambda>s. Q)"
  unfolding heffect_def
proof
  fix s
  from assms(1) obtain qs where qs: "hs_log (snd (m s)) = hs_log s @ qs" "P qs (fst (m s))"
    unfolding heffect_def by blast
  from assms(2) [OF qs(2)] obtain qs' where
    "hs_log (snd (f (fst (m s)) (snd (m s)))) = hs_log (snd (m s)) @ qs'" "Q (qs @ qs') (fst (f (fst (m s)) (snd (m s))))"
    unfolding heffect_def by blast
  then show "\<exists>qs. hs_log (snd (hio_try m f s)) = hs_log s @ qs \<and> Q qs (fst (hio_try m f s))"
    using qs(1) by (auto simp: hio_try_def split: prod.splits)
qed

lemma heffect_bind:
  assumes "heffect m (\<lambda>s. P)" and "\<And>qs x. P qs (Inr x) \<Longrightarrow> heffect (f x) (\<lambda>s qs'. Q (qs @ qs'))"
    and "\<And>qs e. P qs (Inl e) \<Longrightarrow> Q qs (Inl e)"
  shows "heffect (hio_bind m f) (\<lambda>s. Q)"
  unfolding hio_bind_def
  by (rule heffect_try [OF assms(1)]) (auto split: sum.splits intro!: heffect_fail assms(2,3))

lemma heffect_get: "(\<And>s. heffect (f s) (\<lambda>s. Q)) \<Longrightarrow> heffect (hio_get f) (\<lambda>s. Q)"
  by (simp add: heffect_def hio_get_def)

lemma sends_mono: "sends n m \<Longrightarrow> n \<le> k \<Longrightarrow> sends k m"
  unfolding sends_def by (erule heffect_conseq) simp

lemma sends_return [send_intros]: "sends n (hio_return x)"
  by (simp add: sends_def heffect_return)

lemma sends_fail [send_intros]: "sends n (hio_fail e)"
  by (simp add: sends_def heffect_fail)

lemma sends_try: "sends a m \<Longrightarrow> (\<And>r. sends b (f r)) \<Longrightarrow> sends (a + b) (hio_try m f)"
  unfolding sends_def
proof (rule heffect_try [where P = "\<lambda>qs r. length qs \<le> a"])
  fix qs :: "request list" and r :: "err + 'a"
  assume f: "\<And>r. heffect (f r) (\<lambda>s qs r. length qs \<le> b)" and "length qs \<le> a"
  then show "heffect (f r) (\<lambda>s qs' r. length (qs @ qs') \<le> a + b)"
    by (intro heffect_conseq [OF f [of r]]) simp
qed

lemma sends_bind: "sends a m \<Longrightarrow> (\<And>x. sends b (f x)) \<Longrightarrow> sends (a + b) (hio_bind m f)"
  unfolding hio_bind_def by (rule sends_try) (auto split: sum.splits intro: sends_fail)

lemma sends_then: "sends n m \<Longrightarrow> (\<And>x. sends 0 (f x)) \<Longrightarrow> sends n (hio_bind m f)"
  using sends_bind [of n m 0 f] by simp

lemma sends_wrap [send_intros]: "sends n m \<Longrightarrow> sends n (hio_wrap f args m)"
  unfolding hio_wrap_def by (rule sends_try [of n m 0, simplified]) (auto split: sum.splits intro: send_intros)

lemma sends_get [send_intros]: "(\<And>s. sends n (f s)) \<Longrightarrow> sends n (hio_get f)"
  unfolding sends_def by (rule heffect_get)

lemma sends_put [send_intros]: "sends n (hio_put f)"
  by (simp add: sends_def heffect_def hio_put_def)

lemma sends_send: "sends 1 (hio_send E req)"
  by (simp add: sends_def heffect_def hio_send_def)

lemma sends_fail_with [send_intros]: "sends n m \<Longrightarrow> sends n (hio_fail_with f args e m)"
  by (auto simp: hio_fail_with_def split: option.splits intro: send_intros)

lemma sends_unless [send_intros]: "sends n m \<Longrightarrow> sends n (hio_unless b msg m)"
  by (auto simp: hio_unless_def intro: send_intros)

lemma sends_refresh: "sends 0 (refreshCeAuthToken E)"
  unfolding refreshCeAuthToken_def Let_def by (auto intro!: send_intros sends_then)

lemma sends_retry: "sends 1 (authorized_retry E req body)"
proof -
  have "sends (0 + 1) (hio_bind (hio_wrap ''refreshing Ce-Auth token after HTTP 401: %w'' [] (refreshCeAuthToken E))
          (\<lambda>token. hio_wrap ''performing authorized retry %s %s: %w'' [rq_Method req, rq_URL req]
             (hio_send E (req\<lparr>rq_Header := hdr_set ''Ce-Auth'' token (rq_Header req)\<rparr>))))"
    by (intro sends_bind send_intros sends_refresh sends_send)
  then show ?thesis by (auto simp: authorized_retry_def split: reader.splits intro: send_intros)
qed

lemma sends_request [send_intros]: "sends 2 (doRequestWithBodyAndHeaders E meth path body contentType extra result)"
proof -
  have "sends (1 + 1) (send_authorized E req body)" for req
    unfolding send_authorized_def
    by (intro sends_bind sends_get send_intros sends_send) (auto intro: sends_retry [simplified] send_intros)
  moreover have "sends 0 (read_response E result req resp)" for req resp
    unfolding read_response_def by (auto intro!: send_intros split: sum.splits)
  ultimately show ?thesis
    unfolding doRequestWithBodyAndHeaders_def Let_def
    by (intro send_intros sends_then) (simp_all add: numeral_2_eq_2)
qed

subsection \<open>What one request does\<close>

lemma send_authorized_run:
  obtains (once) r where "send_authorized E req body s = (r, s\<lparr>hs_log := hs_log s @ [req]\<rparr>)"
      "\<And>resp. r = Inr resp \<Longrightarrow> e_do E (hs_log s) req = Inr resp"
      "\<And>e. r = Inl e \<Longrightarrow> \<not> IsNotFound e \<and> (\<forall>resp. e_do E (hs_log s) req = Inr resp \<longrightarrow> rp_StatusCode resp = 401)"
  | (twice) r token resp c where "e_do E (hs_log s) req = Inr resp" "rp_StatusCode resp = 401" "can_refresh (hs_client s)"
      "send_authorized E req body s =
         (r, \<lparr>hs_client = c, hs_log = hs_log s @ [req, req\<lparr>rq_Header := hdr_set ''Ce-Auth'' token (rq_Header req)\<rparr>]\<rparr>)"
      "hc_ceAuth c = token"
      "\<And>resp. r = Inr resp \<Longrightarrow>
         e_do E (hs_log s @ [req]) (req\<lparr>rq_Header := hdr_set ''Ce-Auth'' token (rq_Header req)\<rparr>) = Inr resp"
      "\<And>e. r = Inl e \<Longrightarrow> \<not> IsNotFound e \<and>
         (\<forall>resp. e_do E (hs_log s @ [req]) (req\<lparr>rq_Header := hdr_set ''Ce-Auth'' token (rq_Header req)\<rparr>) \<noteq> Inr resp)"
proof (cases "\<exists>resp. e_do E (hs_log s) req = Inr resp \<and> rp_StatusCode resp = 401 \<and> can_refresh (hs_client s)")
  case False
  then show ?thesis
    by (intro once [of "fst (send_authorized E req body s)"]) (auto simp: send_authorized_def hio_bind_def hio_try_def hio_wrap_def hio_send_def hio_get_def
        hio_fail_def hio_return_def split: sum.splits)
next
  case True
  then obtain resp where resp: "e_do E (hs_log s) req = Inr resp" "rp_StatusCode resp = 401" "can_refresh (hs_client s)" by blast
  define c where "c = hs_client s"
  define token where "token = GenerateCeAuthToken (e_now E (hs_log s @ [req])) (trim_space (hc_ceAuthAPIKeyID c))
    (trim_space (hc_ceAuthAPISecret c)) (hc_ceAuthValidity c)"
  define req' where "req' = req\<lparr>rq_Header := hdr_set ''Ce-Auth'' token (rq_Header req)\<rparr>"
  have run: "send_authorized E req body s = authorized_retry E req body (s\<lparr>hs_log := hs_log s @ [req]\<rparr>)"
    using resp by (simp add: send_authorized_def hio_bind_def hio_try_def hio_wrap_def hio_send_def hio_get_def hio_return_def)
  show ?thesis
  proof (cases "\<exists>b. body = Streamed b")
    case True
    then show ?thesis by (intro once [of "fst (send_authorized E req body s)"]) (auto simp: run authorized_retry_def hio_fail_def resp)
  next
    case False
    then have "authorized_retry E req body (s\<lparr>hs_log := hs_log s @ [req]\<rparr>) =
      (case e_do E (hs_log s @ [req]) req' of
         Inl e \<Rightarrow> Inl (Wrapf ''performing authorized retry %s %s: %w'' [rq_Method req, rq_URL req] (OtherErr e)) | Inr x \<Rightarrow> Inr x,
       \<lparr>hs_client = c\<lparr>hc_ceAuth := token\<rparr>, hs_log = hs_log s @ [req, req']\<rparr>)"
      using resp(3) unfolding can_refresh_def
      by (cases body) (auto simp: authorized_retry_def refreshCeAuthToken_def hio_bind_def hio_try_def hio_wrap_def hio_send_def
          hio_get_def hio_return_def hio_put_def hio_fail_def Let_def token_def c_def req'_def split: sum.splits)
    then show ?thesis unfolding run [symmetric] req'_def
      by (intro twice [where r = "fst (send_authorized E req body s)", OF resp]) (auto split: sum.splits)
  qed
qed

lemma read_response_run:
  "read_response E result req resp s =
     (if rp_StatusCode resp < 200 \<or> 300 \<le> rp_StatusCode resp then Inl (response_error E (e_now E (hs_log s)) req resp)
      else case result (rp_Body resp) of
             Inl e \<Rightarrow> Inl (Wrapf ''decoding response from %s %s: %w'' [rq_Method req, rq_URL req] (OtherErr e))
           | Inr x \<Rightarrow> Inr (rp_Header resp, x), s)"
  by (simp add: read_response_def hio_get_def hio_fail_def hio_return_def split: sum.splits)

lemma IsNotFound_response: "IsNotFound (response_error E now req resp) \<longleftrightarrow> rp_StatusCode resp = 404"
  by (simp add: response_error_def IsNotFound_def Let_def)

lemma IsNotFound_rate_limited [simp]: "\<not> IsNotFound (RateLimitedErr d m)"
  by (simp add: IsNotFound_def)

text \<open>The answer to the last request of a pass from \<open>s\<close> to \<open>s'\<close>.\<close>

definition last_answer :: "henv \<Rightarrow> hstate \<Rightarrow> hstate \<Rightarrow> response option" where
  "last_answer E s s' =
     (if hs_log s' = hs_log s then None
      else case e_do E (butlast (hs_log s')) (last (hs_log s')) of Inl t \<Rightarrow> None | Inr resp \<Rightarrow> Some resp)"

lemma request_run:
  "let q = make_request (hs_client s) meth path body contentType extra;
       (r, s') = doRequestWithBodyAndHeaders E meth path body contentType extra result s in
   (hs_log s' = hs_log s \<or> hs_log s' = hs_log s @ [q] \<or>
    (\<exists>token resp. hs_log s' = hs_log s @ [q, q\<lparr>rq_Header := hdr_set ''Ce-Auth'' token (rq_Header q)\<rparr>] \<and>
       e_do E (hs_log s) q = Inr resp \<and> rp_StatusCode resp = 401 \<and> hc_ceAuth (hs_client s') = token)) \<and>
   (case r of
      Inl e \<Rightarrow> IsNotFound e = (\<exists>resp. last_answer E s s' = Some resp \<and> rp_StatusCode resp = 404)
    | Inr (h, x) \<Rightarrow> \<exists>resp. last_answer E s s' = Some resp \<and> 200 \<le> rp_StatusCode resp \<and> rp_StatusCode resp < 300 \<and>
        h = rp_Header resp \<and> result (rp_Body resp) = Inr x)"
proof -
  let ?run = "doRequestWithBodyAndHeaders E meth path body contentType extra result s"
  define q where "q = make_request (hs_client s) meth path body contentType extra"
  have early: "?run = (r, s) \<Longrightarrow> (\<And>y. r \<noteq> Inr y) \<Longrightarrow> (\<And>e. r = Inl e \<Longrightarrow> \<not> IsNotFound e) \<Longrightarrow> ?thesis" for r
    by (cases r) (auto simp: last_answer_def)
  show ?thesis
  proof (cases "e_slot E (hs_log s) = None \<and> e_limiter E (hs_log s) = None \<and> e_bad_url E meth (rq_URL q) = None")
    case False
    then show ?thesis
      by (intro early [of "fst ?run"])
        (auto simp: doRequestWithBodyAndHeaders_def hio_get_def hio_fail_with_def hio_fail_def Let_def q_def split: option.splits)
  next
    case True
    then have run: "?run = hio_bind (send_authorized E q body) (read_response E result q) s"
      by (simp add: doRequestWithBodyAndHeaders_def hio_get_def hio_fail_with_def q_def Let_def)
    show ?thesis
    proof (cases rule: send_authorized_run [of E q body s])
      case (once r)
      then show ?thesis
        by (cases r) (auto simp: run q_def [symmetric] hio_bind_def hio_try_def hio_fail_def read_response_run Let_def
            last_answer_def IsNotFound_response split: sum.splits)
    next
      case (twice r token resp c)
      then show ?thesis
        by (cases r) (auto simp: run q_def [symmetric] hio_bind_def hio_try_def hio_fail_def read_response_run Let_def
            butlast_append last_answer_def IsNotFound_response split: sum.splits)
    qed
  qed
qed

text \<open>
  C29.  One operation sends its request at most twice, and the second time only after CMP answered 401
  to the first: that request differs in its Ce-Auth header alone, which is the client's new token.
  A success is a 2xx answer to the last request sent, and its value is read from that answer.
\<close>

theorem request_discipline:
  "let q = make_request (hs_client s) meth path body contentType extra;
       (r, s') = doRequestWithBodyAndHeaders E meth path body contentType extra result s in
   (hs_log s' = hs_log s \<or> hs_log s' = hs_log s @ [q] \<or>
    (\<exists>token resp. hs_log s' = hs_log s @ [q, q\<lparr>rq_Header := hdr_set ''Ce-Auth'' token (rq_Header q)\<rparr>] \<and>
       e_do E (hs_log s) q = Inr resp \<and> rp_StatusCode resp = 401 \<and> hc_ceAuth (hs_client s') = token)) \<and>
   (case r of Inl e \<Rightarrow> True
    | Inr (h, x) \<Rightarrow> \<exists>resp. last_answer E s s' = Some resp \<and> 200 \<le> rp_StatusCode resp \<and> rp_StatusCode resp < 300 \<and>
        h = rp_Header resp \<and> result (rp_Body resp) = Inr x)"
  unfolding Let_def prod.case_eq_if
  by (rule conj_forward [OF request_run [of s meth path body contentType extra E result, unfolded Let_def prod.case_eq_if]])
    (assumption, auto split: sum.splits)

lemma seconds_duration_mod: "seconds_duration n = (n * 10 ^ 9 + 2 ^ 63) mod 2 ^ 64 - 2 ^ 63"
  unfolding seconds_duration_def int_word_sint by simp

lemma seconds_duration_exact: "0 \<le> n \<Longrightarrow> n \<le> 9223372036 \<Longrightarrow> seconds_duration n = n * 10 ^ 9"
  unfolding seconds_duration_mod by (subst mod_pos_pos_trivial) simp_all

lemma read_429: "rp_StatusCode resp = 429 \<Longrightarrow>
    response_error E now req resp = RateLimitedErr (retry_after E now (hdr_get (rp_Header resp) ''Retry-After''))
      (rq_Method req @ '' '' @ rq_URL req @ '': '' @ take 4096 (rp_Text resp) @ '' (reqID='' @ response_id resp @ '')'')"
  by (simp add: response_error_def Let_def)

text \<open>
  The delay of a rate-limit error is positive, unless Retry-After names more than 9223372036
  seconds: that product wraps around, and 9223372037 seconds become a negative delay.
\<close>

theorem retry_after_bounds:
  "(0 < retry_after E now value \<or> (\<exists>n. atoi value = Some n \<and> 9223372036 < n)) \<and>
   retry_after E now (show_int 9223372037) < 0"
proof
  have "0 < seconds_duration n" if "0 < n" "n \<le> 9223372036" for n
    using that seconds_duration_exact [of n] by simp
  then show "0 < retry_after E now value \<or> (\<exists>n. atoi value = Some n \<and> 9223372036 < n)"
    by (auto simp: retry_after_def Let_def not_less split: option.splits)
  have "seconds_duration 9223372037 < 0" by (simp add: seconds_duration_mod)
  then show "retry_after E now (show_int 9223372037) < 0" by (simp add: retry_after_def Let_def atoi_show_int)
qed

end
