(* ===== verification/HttpClient.thy ===== *)
theory HttpClient
  imports Http CmpClient
begin

text \<open>
  The operations of \<open>pkg/f5/client.go\<close>: the paths of CMP's LBaaS API below the project of the
  client, and one definition per operation.  Identifiers are trimmed and checked before anything is
  sent; a delete whose object is already gone (404) succeeds.
\<close>

subsection \<open>Construction\<close>

definition normalizePrefix :: "string \<Rightarrow> string" where
  "normalizePrefix pre = (let p = trim_char (CHR ''/'') (trim_space pre) in if p = [] then [] else CHR ''/'' # p)"

definition parseEnvString :: "(string \<Rightarrow> string) \<Rightarrow> string \<Rightarrow> string \<Rightarrow> string" where
  "parseEnvString getenv key defaultVal = (let v = trim_space (getenv key) in if v = [] then defaultVal else v)"

definition parseEnvBool :: "(string \<Rightarrow> string) \<Rightarrow> string \<Rightarrow> bool" where
  "parseEnvBool getenv key \<longleftrightarrow> trim_space (to_lower (getenv key)) \<in> {''1'', ''true'', ''yes'', ''y'', ''on''}"

definition initPathConfigFromEnv :: "(string \<Rightarrow> string) \<Rightarrow> hclient \<Rightarrow> hclient" where
  "initPathConfigFromEnv getenv c =
     (let m = to_upper (trim_space (parseEnvString getenv ''F5_HTTP_PROBE_METHOD'' ''GET'')) in
      c\<lparr>hc_apiPrefix := normalizePrefix (parseEnvString getenv ''F5_HTTP_API_PREFIX'' []),
        hc_probePath := parseEnvString getenv ''F5_HTTP_PROBE_PATH'' ''/'',
        hc_probeMethod := (if m = [] then ''GET'' else m)\<rparr>)"

definition trim_right_slash :: "string \<Rightarrow> string" where
  "trim_right_slash s = rev (dropWhile (\<lambda>x. x = CHR ''/'') (rev s))"

definition empty_client :: hclient where
  "empty_client = \<lparr>hc_endpoint = [], hc_partition = [], hc_apiPrefix = [], hc_probePath = [], hc_probeMethod = [],
     hc_organisationName = [], hc_projectID = [], hc_region = [], hc_ceAuth = [], hc_ceAuthAPIKeyID = [],
     hc_ceAuthAPISecret = [], hc_ceAuthValidity = 0, hc_extraHeaders = [], hc_cpFlavorID = 0, hc_cpNetworkID = [],
     hc_cpVPCID = [], hc_cpVPCName = [], hc_cpRoutingAlgorithm = [], hc_cpMonitorInterval = 0, hc_username = [],
     hc_password = []\<rparr>"

text \<open>The first of the named values that is empty decides the error.\<close>

definition require :: "(string \<times> string) list \<Rightarrow> 'a \<Rightarrow> err + 'a" where
  "require checks x =
     (case find (\<lambda>(v, message). v = []) checks of None \<Rightarrow> Inr x | Some (v, message) \<Rightarrow> Inl (Errorf message []))"

definition NewClientWithBasicAuth :: "(string \<Rightarrow> string) \<Rightarrow> string \<Rightarrow> string \<Rightarrow> string \<Rightarrow> string \<Rightarrow> err + hclient" where
  "NewClientWithBasicAuth getenv endpoint part username password =
     require [(endpoint, ''f5 endpoint must not be empty''), (part, ''f5 partition must not be empty'')]
       (initPathConfigFromEnv getenv (empty_client\<lparr>hc_endpoint := trim_right_slash endpoint, hc_partition := part,
          hc_username := username, hc_password := password\<rparr>))"

definition NewClient :: "(string \<Rightarrow> string) \<Rightarrow> string \<Rightarrow> string \<Rightarrow> err + hclient" where
  "NewClient getenv endpoint part =
     require [(endpoint, ''f5 endpoint must not be empty''), (part, ''f5 partition must not be empty'')]
       (initPathConfigFromEnv getenv (empty_client\<lparr>hc_endpoint := trim_right_slash endpoint, hc_partition := part,
          hc_username := getenv ''F5_USERNAME'', hc_password := getenv ''F5_PASSWORD''\<rparr>))"

definition NewClientWithCeAuth :: "(string \<Rightarrow> string) \<Rightarrow> string \<Rightarrow> string \<Rightarrow> string \<Rightarrow> string \<Rightarrow> string \<Rightarrow> err + hclient" where
  "NewClientWithCeAuth getenv endpoint org projectID region ceAuth =
     require [(endpoint, ''f5 endpoint must not be empty''), (org, ''organisation name must not be empty''),
              (projectID, ''project id must not be empty''), (trim_space region, ''CMP region must not be empty''),
              (ceAuth, ''Ce-Auth token must not be empty'')]
       (initPathConfigFromEnv getenv (empty_client\<lparr>hc_endpoint := trim_right_slash endpoint, hc_partition := org,
          hc_organisationName := org, hc_projectID := projectID, hc_region := trim_space region, hc_ceAuth := ceAuth\<rparr>))"

definition NewClientWithCeAuthCredentials :: "(string \<Rightarrow> string) \<Rightarrow> string \<Rightarrow> string \<Rightarrow> string \<Rightarrow> string \<Rightarrow> string \<Rightarrow>
    string \<Rightarrow> string \<Rightarrow> err + hclient" where
  "NewClientWithCeAuthCredentials getenv endpoint org projectID region ceAuth apiKeyID apiSecret =
     (let endpoint = trim_right_slash (trim_space endpoint); org = trim_space org; projectID = trim_space projectID;
          region = trim_space region; ceAuth = trim_space ceAuth; apiKeyID = trim_space apiKeyID;
          apiSecret = trim_space apiSecret in
      require [(endpoint, ''f5 endpoint must not be empty''), (org, ''organisation name must not be empty''),
               (projectID, ''project id must not be empty''), (region, ''CMP region must not be empty''),
               (ceAuth, ''initial Ce-Auth token must not be empty''), (apiKeyID, ''CMP API key ID must not be empty''),
               (apiSecret, ''CMP API secret must not be empty'')]
        (initPathConfigFromEnv getenv (empty_client\<lparr>hc_endpoint := endpoint, hc_partition := org,
           hc_organisationName := org, hc_projectID := projectID, hc_region := region, hc_ceAuth := ceAuth,
           hc_ceAuthAPIKeyID := apiKeyID, hc_ceAuthAPISecret := apiSecret, hc_ceAuthValidity := 299 * 10 ^ 9\<rparr>)))"

definition canonicalRoutingAlgorithm :: "string \<Rightarrow> string" where
  "canonicalRoutingAlgorithm v =
     to_upper (join ''_'' (str_fields (replace_char (CHR ''-'') (CHR ''_'') (trim_space v))))"

record CMPLBaaSConfig =
  cc_FlavorID :: int32
  cc_NetworkID :: string
  cc_VPCID :: string
  cc_VPCName :: string
  cc_RoutingAlgorithm :: string
  cc_MonitorInterval :: int32

definition SetCMPLBaaSConfig :: "CMPLBaaSConfig \<Rightarrow> unit hio" where
  "SetCMPLBaaSConfig cfg = hio_put (\<lambda>c.
     let alg = canonicalRoutingAlgorithm (cc_RoutingAlgorithm cfg) in
     c\<lparr>hc_cpFlavorID := cc_FlavorID cfg, hc_cpNetworkID := cc_NetworkID cfg, hc_cpVPCID := cc_VPCID cfg,
       hc_cpVPCName := cc_VPCName cfg, hc_cpRoutingAlgorithm := (if alg = [] then ''ROUND_ROBIN'' else alg),
       hc_cpMonitorInterval := (if sint (cc_MonitorInterval cfg) \<le> 0 then 30 else cc_MonitorInterval cfg)\<rparr>)"

subsection \<open>Paths\<close>

definition withPrefix :: "hclient \<Rightarrow> string \<Rightarrow> string" where
  "withPrefix c path =
     (let p = CHR ''/'' # dropWhile (\<lambda>x. x = CHR ''/'') path in if hc_apiPrefix c = [] then p else hc_apiPrefix c @ p)"

definition api_path :: "string \<Rightarrow> hclient \<Rightarrow> string \<Rightarrow> string" where
  "api_path family c subPath =
     (if hc_organisationName c \<noteq> [] \<and> hc_projectID c \<noteq> []
      then ''/api/v2.1/'' @ family @ ''/domain/'' @ PathEscape (hc_organisationName c) @ ''/project/'' @
           PathEscape (hc_projectID c) @ ''/'' @ family @ subPath
      else withPrefix c (''/'' @ family @ subPath))"

definition lbPath :: "hclient \<Rightarrow> string \<Rightarrow> string" where
  "lbPath = api_path ''load-balancers''"

definition computePath :: "hclient \<Rightarrow> string \<Rightarrow> string" where
  "computePath = api_path ''computes''"

definition networkPath :: "hclient \<Rightarrow> string \<Rightarrow> string" where
  "networkPath = api_path ''networks''"

text \<open>The checks of the identifiers of an operation, in the order of the code: the first that is
  blank decides the error.\<close>

definition no_lb :: string where "no_lb = ''lb service id must not be empty''"
definition no_vs :: string where "no_vs = ''virtual server id must not be empty''"

definition virtualServerPath :: "string \<Rightarrow> string \<Rightarrow> err + string" where
  "virtualServerPath lb vs =
     require [(trim_space lb, no_lb), (trim_space vs, no_vs)]
       (''/'' @ trim_space lb @ ''/virtual-servers/'' @ trim_space vs)"

definition virtualServerPoolPath :: "string \<Rightarrow> string \<Rightarrow> string \<Rightarrow> err + string" where
  "virtualServerPoolPath lb vs pool =
     require [(trim_space lb, no_lb), (trim_space vs, no_vs)]
       (''/'' @ trim_space lb @ ''/virtual-servers/'' @ trim_space vs @ ''/pools'' @
        (if trim_space pool = [] then [] else CHR ''/'' # trim_space pool))"

definition virtualServerPoolMemberPath :: "string \<Rightarrow> string \<Rightarrow> string \<Rightarrow> string \<Rightarrow> err + string" where
  "virtualServerPoolMemberPath lb vs pool member =
     res_bind (virtualServerPoolPath lb vs pool)
       (\<lambda>path. require [(trim_space member, ''pool member id must not be empty'')] (path @ ''/members/'' @ trim_space member))"

definition virtualServerRoutingRulePath :: "string \<Rightarrow> string \<Rightarrow> err + string" where
  "virtualServerRoutingRulePath lb vs =
     require [(trim_space lb, no_lb), (trim_space vs, no_vs)]
       (''/lb_service/'' @ trim_space lb @ ''/virtual-servers/'' @ trim_space vs @ ''/routing-rules'')"

definition lb_sub_path :: "string \<Rightarrow> string \<Rightarrow> string \<Rightarrow> err + string" where
  "lb_sub_path before lb after = require [(trim_space lb, no_lb)] (before @ trim_space lb @ after)"

subsection \<open>The four shapes of an operation\<close>

definition doRequest :: "henv \<Rightarrow> string \<Rightarrow> (hclient \<Rightarrow> string) \<Rightarrow> (http_body \<Rightarrow> string + 'a) \<Rightarrow> 'a hio" where
  "doRequest E meth path result = hio_get (\<lambda>s.
     hio_bind (doRequestWithBodyAndHeaders E meth (path (hs_client s)) NilReader [] [] result) (\<lambda>(h, x). hio_return x))"

definition doFormRequest :: "henv \<Rightarrow> string \<Rightarrow> (hclient \<Rightarrow> string) \<Rightarrow> url_values \<Rightarrow> (http_body \<Rightarrow> string + 'a) \<Rightarrow> 'a hio" where
  "doFormRequest E meth path form result = hio_get (\<lambda>s.
     hio_bind (doRequestWithBodyAndHeaders E meth (path (hs_client s)) (Buffered (q_encode form))
        ''application/x-www-form-urlencoded'' [] result) (\<lambda>(h, x). hio_return x))"

text \<open>An operation below a checked path.\<close>

definition at_path :: "err + string \<Rightarrow> (string \<Rightarrow> 'a hio) \<Rightarrow> 'a hio" where
  "at_path p f = (case p of Inl e \<Rightarrow> hio_fail e | Inr path \<Rightarrow> f path)"

definition lbaas_request :: "henv \<Rightarrow> string \<Rightarrow> string \<Rightarrow> (http_body \<Rightarrow> string + 'a) \<Rightarrow> 'a hio" where
  "lbaas_request E meth path result = doRequest E meth (\<lambda>c. lbPath c path) result"

definition lb_form :: "henv \<Rightarrow> string \<Rightarrow> string \<Rightarrow> url_values \<Rightarrow> raw hio" where
  "lb_form E meth path form = doFormRequest E meth (\<lambda>c. lbPath c path) form raw_result"

definition swallow_404 :: "unit hio \<Rightarrow> unit hio" where
  "swallow_404 m = hio_try m (\<lambda>r. case r of
     Inl e \<Rightarrow> if IsNotFound e then hio_return () else hio_fail e | Inr u \<Rightarrow> hio_return ())"

definition lb_delete :: "henv \<Rightarrow> string \<Rightarrow> string \<Rightarrow> unit hio" where
  "lb_delete E meth path = swallow_404 (lbaas_request E meth path no_result)"

subsection \<open>Probe and options\<close>

record ProbeResult =
  pr_Method :: string
  pr_URL :: string
  pr_StatusCode :: int
  pr_Status :: string
  pr_RequestID :: string
  pr_BodySnippet :: string

definition Probe :: "henv \<Rightarrow> ProbeResult hio" where
  "Probe E = hio_get (\<lambda>s.
     let c = hs_client s; meth = hc_probeMethod c; url = request_url c (withPrefix c (hc_probePath c));
         req = \<lparr>rq_Method = meth, rq_URL = url, rq_Header = http_headers (c\<lparr>hc_extraHeaders := []\<rparr>) [] [],
                rq_BasicAuth = basic_auth c, rq_Body = []\<rparr> in
     hio_fail_with ''creating probe request %s %s: %w'' [meth, url] (e_bad_url E meth url)
       (hio_bind (hio_wrap ''performing probe %s %s: %w'' [meth, url] (hio_send E req))
          (\<lambda>resp. hio_return \<lparr>pr_Method = meth, pr_URL = url, pr_StatusCode = rp_StatusCode resp,
             pr_Status = rp_Status resp, pr_RequestID = response_id resp, pr_BodySnippet = take 4096 (rp_Text resp)\<rparr>)))"

definition OptionsLoadBalancers :: "henv \<Rightarrow> string list hio" where
  "OptionsLoadBalancers E = hio_get (\<lambda>s.
     hio_bind (doRequestWithBodyAndHeaders E ''OPTIONS'' (lbPath (hs_client s) ''/'') NilReader [] [] no_result)
       (\<lambda>(h, u). hio_return (filter (\<lambda>m. m \<noteq> []) (map trim_space (split_on (CHR '','') (hdr_get h ''Allow''))))))"

definition list_query :: "ListOptions option \<Rightarrow> url_values" where
  "list_query opts =
     (case opts of
        None \<Rightarrow> []
      | Some p \<Rightarrow>
          q_set_if (trim_space (lo_Search p) \<noteq> []) ''search'' (trim_space (lo_Search p))
           (q_set_if (trim_space (lo_Order p) \<noteq> []) ''order'' (trim_space (lo_Order p))
             (q_set_if (trim_space (lo_Field p) \<noteq> []) ''field'' (trim_space (lo_Field p))
               (q_set_if (lo_Offset p \<noteq> None) ''offset'' (show_i32 (the (lo_Offset p)))
                 (q_set_if (lo_Limit p \<noteq> None) ''limit'' (show_i32 (the (lo_Limit p))) [])))))"

subsection \<open>Load balancers and LB services\<close>

definition http_ListLoadBalancers :: "henv \<Rightarrow> ListOptions option \<Rightarrow> json list hio" where
  "http_ListLoadBalancers E opts = lbaas_request E ''GET'' (with_query ''/'' (list_query opts)) raws_result"

definition http_CreateLoadBalancer :: "henv \<Rightarrow> url_values \<Rightarrow> raw hio" where
  "http_CreateLoadBalancer E form = lb_form E ''POST'' ''/'' form"

definition load_balancer_path :: "string \<Rightarrow> err + string" where
  "load_balancer_path i = require [(trim_space i, ''load balancer id must not be empty'')] (''/'' @ trim_space i @ ''/'')"

definition http_GetLoadBalancer :: "henv \<Rightarrow> string \<Rightarrow> raw hio" where
  "http_GetLoadBalancer E i = at_path (load_balancer_path i) (\<lambda>p. lbaas_request E ''GET'' p raw_result)"

definition http_UpdateLoadBalancer :: "henv \<Rightarrow> string \<Rightarrow> url_values \<Rightarrow> raw hio" where
  "http_UpdateLoadBalancer E i form = at_path (load_balancer_path i) (\<lambda>p. lb_form E ''PATCH'' p form)"

definition http_DeleteLoadBalancer :: "henv \<Rightarrow> string \<Rightarrow> unit hio" where
  "http_DeleteLoadBalancer E i = at_path (load_balancer_path i) (lb_delete E ''DELETE'')"

definition http_ListLBServices :: "henv \<Rightarrow> ListOptions option \<Rightarrow> json list hio" where
  "http_ListLBServices E opts = lbaas_request E ''GET'' (with_query ''/lb_service/'' (list_query opts)) raws_result"

definition http_CreateLBService :: "henv \<Rightarrow> url_values \<Rightarrow> raw hio" where
  "http_CreateLBService E form = lb_form E ''POST'' ''/lb_service/'' form"

definition http_GetLBService :: "henv \<Rightarrow> string \<Rightarrow> raw hio" where
  "http_GetLBService E i = at_path (lb_sub_path ''/lb_service/'' i []) (\<lambda>p. lbaas_request E ''GET'' p raw_result)"

definition http_DeleteLBService :: "henv \<Rightarrow> string \<Rightarrow> unit hio" where
  "http_DeleteLBService E i = at_path (lb_sub_path ''/lb_service/'' i []) (lb_delete E ''DELETE'')"

definition http_ListLBFlavors :: "henv \<Rightarrow> json list hio" where
  "http_ListLBFlavors E = lbaas_request E ''GET'' ''/lb-flavor/'' raws_result"

subsection \<open>Virtual servers and certificates\<close>

definition http_ListLBVirtualServers :: "henv \<Rightarrow> string \<Rightarrow> json list hio" where
  "http_ListLBVirtualServers E lb = at_path (lb_sub_path ''/'' lb ''/virtual-servers'') (\<lambda>p. lbaas_request E ''GET'' p raws_result)"

definition http_CreateLBVirtualServer :: "henv \<Rightarrow> string \<Rightarrow> url_values \<Rightarrow> raw hio" where
  "http_CreateLBVirtualServer E lb form = at_path (lb_sub_path ''/'' lb ''/virtual-servers'') (\<lambda>p. lb_form E ''POST'' p form)"

definition http_GetLBVirtualServer :: "henv \<Rightarrow> string \<Rightarrow> string \<Rightarrow> raw hio" where
  "http_GetLBVirtualServer E lb vs = at_path (virtualServerPath lb vs) (\<lambda>p. lbaas_request E ''GET'' p raw_result)"

definition http_DeleteLBVirtualServer :: "henv \<Rightarrow> string \<Rightarrow> string \<Rightarrow> unit hio" where
  "http_DeleteLBVirtualServer E lb vs = at_path (virtualServerPath lb vs) (lb_delete E ''DELETE'')"

definition http_ListLBServiceCertificates :: "henv \<Rightarrow> string \<Rightarrow> json list hio" where
  "http_ListLBServiceCertificates E lb = at_path (lb_sub_path ''/'' lb ''/certificates'') (\<lambda>p. lbaas_request E ''GET'' p raws_result)"

definition http_CreateLBServiceCertificate :: "henv \<Rightarrow> string \<Rightarrow> url_values \<Rightarrow> raw hio" where
  "http_CreateLBServiceCertificate E lb q =
     at_path (lb_sub_path ''/'' lb ''/certificates'') (\<lambda>p. lbaas_request E ''POST'' (with_query p q) raw_result)"

definition http_DeleteLBServiceCertificate :: "henv \<Rightarrow> string \<Rightarrow> string \<Rightarrow> unit hio" where
  "http_DeleteLBServiceCertificate E lb cert =
     at_path (require [(trim_space lb, no_lb), (trim_space cert, ''certificate id must not be empty'')]
        (''/'' @ trim_space lb @ ''/certificates/'' @ trim_space cert))
       (lb_delete E ''DELETE'')"

text \<open>Attaching and detaching are one PUT; detaching with a blank certificate leaves \<open>?\<close> alone.\<close>

definition http_AttachLBVirtualServerCertificate :: "henv \<Rightarrow> string \<Rightarrow> string \<Rightarrow> string \<Rightarrow> unit hio" where
  "http_AttachLBVirtualServerCertificate E lb vs cert =
     at_path (require [(trim_space lb, no_lb), (trim_space vs, no_vs), (trim_space cert, ''certificate id must not be empty'')]
        (''/'' @ trim_space lb @ ''/virtual-servers/'' @ trim_space vs @ ''/certificates/?'' @
         q_encode (q_set ''certificate_id'' (trim_space cert) [])))
       (lb_delete E ''PUT'')"

definition http_DetachLBVirtualServerCertificate :: "henv \<Rightarrow> string \<Rightarrow> string \<Rightarrow> string \<Rightarrow> unit hio" where
  "http_DetachLBVirtualServerCertificate E lb vs cert =
     at_path (require [(trim_space lb, no_lb), (trim_space vs, no_vs)]
        (''/'' @ trim_space lb @ ''/virtual-servers/'' @ trim_space vs @ ''/certificates/?'' @
         q_encode (q_set_if (trim_space cert \<noteq> []) ''certificate_id'' cert [])))
       (lb_delete E ''PUT'')"

subsection \<open>Pools, members, monitors and routing rules\<close>

definition http_ListLBVirtualServerPools :: "henv \<Rightarrow> string \<Rightarrow> string \<Rightarrow> json list hio" where
  "http_ListLBVirtualServerPools E lb vs =
     at_path (virtualServerPoolPath lb vs []) (\<lambda>p. lbaas_request E ''GET'' p raws_result)"

definition http_CreateLBVirtualServerPool :: "henv \<Rightarrow> string \<Rightarrow> string \<Rightarrow> url_values \<Rightarrow> raw hio" where
  "http_CreateLBVirtualServerPool E lb vs q =
     at_path (virtualServerPoolPath lb vs []) (\<lambda>p. lbaas_request E ''POST'' (with_query p q) raw_result)"

definition http_GetLBVirtualServerPool :: "henv \<Rightarrow> string \<Rightarrow> string \<Rightarrow> string \<Rightarrow> raw hio" where
  "http_GetLBVirtualServerPool E lb vs pool =
     at_path (virtualServerPoolPath lb vs pool) (\<lambda>p. lbaas_request E ''GET'' p raw_result)"

definition http_DeleteLBVirtualServerPool :: "henv \<Rightarrow> string \<Rightarrow> string \<Rightarrow> string \<Rightarrow> unit hio" where
  "http_DeleteLBVirtualServerPool E lb vs pool = at_path (virtualServerPoolPath lb vs pool) (lb_delete E ''DELETE'')"

definition http_SetDefaultLBVirtualServerPool :: "henv \<Rightarrow> string \<Rightarrow> string \<Rightarrow> string \<Rightarrow> unit hio" where
  "http_SetDefaultLBVirtualServerPool E lb vs pool =
     at_path (virtualServerPoolPath lb vs pool) (\<lambda>p. lbaas_request E ''PUT'' (p @ ''/set-default'') no_result)"

definition http_CreateLBVirtualServerPoolMember :: "henv \<Rightarrow> string \<Rightarrow> string \<Rightarrow> string \<Rightarrow> url_values \<Rightarrow> raw hio" where
  "http_CreateLBVirtualServerPoolMember E lb vs pool q =
     at_path (virtualServerPoolPath lb vs pool) (\<lambda>p. lbaas_request E ''POST'' (with_query (p @ ''/members'') q) raw_result)"

definition http_UpdateLBVirtualServerPoolMember :: "henv \<Rightarrow> string \<Rightarrow> string \<Rightarrow> string \<Rightarrow> string \<Rightarrow> url_values \<Rightarrow> raw hio" where
  "http_UpdateLBVirtualServerPoolMember E lb vs pool member q =
     at_path (virtualServerPoolMemberPath lb vs pool member) (\<lambda>p. lbaas_request E ''PUT'' (with_query p q) raw_result)"

definition http_DeleteLBVirtualServerPoolMember :: "henv \<Rightarrow> string \<Rightarrow> string \<Rightarrow> string \<Rightarrow> string \<Rightarrow> unit hio" where
  "http_DeleteLBVirtualServerPoolMember E lb vs pool member =
     at_path (virtualServerPoolMemberPath lb vs pool member) (lb_delete E ''DELETE'')"

definition http_ListLBVirtualServerPoolMonitors :: "henv \<Rightarrow> string \<Rightarrow> string \<Rightarrow> string \<Rightarrow> json list hio" where
  "http_ListLBVirtualServerPoolMonitors E lb vs pool =
     at_path (virtualServerPoolPath lb vs pool) (\<lambda>p. lbaas_request E ''GET'' (p @ ''/monitors'') raws_result)"

definition http_CreateLBVirtualServerPoolMonitor :: "henv \<Rightarrow> string \<Rightarrow> string \<Rightarrow> string \<Rightarrow> url_values \<Rightarrow> raw hio" where
  "http_CreateLBVirtualServerPoolMonitor E lb vs pool q =
     at_path (virtualServerPoolPath lb vs pool) (\<lambda>p. lbaas_request E ''POST'' (with_query (p @ ''/monitors'') q) raw_result)"

definition pool_monitor_path :: "string \<Rightarrow> string \<Rightarrow> string \<Rightarrow> string \<Rightarrow> err + string" where
  "pool_monitor_path lb vs pool monitor =
     res_bind (virtualServerPoolPath lb vs pool)
       (\<lambda>p. require [(trim_space monitor, ''monitor id must not be empty'')] (p @ ''/monitors/'' @ trim_space monitor))"

definition http_UpdateLBVirtualServerPoolMonitor :: "henv \<Rightarrow> string \<Rightarrow> string \<Rightarrow> string \<Rightarrow> string \<Rightarrow> url_values \<Rightarrow> raw hio" where
  "http_UpdateLBVirtualServerPoolMonitor E lb vs pool monitor q =
     at_path (pool_monitor_path lb vs pool monitor) (\<lambda>p. lbaas_request E ''PATCH'' (with_query p q) raw_result)"

definition http_DeleteLBVirtualServerPoolMonitor :: "henv \<Rightarrow> string \<Rightarrow> string \<Rightarrow> string \<Rightarrow> string \<Rightarrow> unit hio" where
  "http_DeleteLBVirtualServerPoolMonitor E lb vs pool monitor =
     at_path (pool_monitor_path lb vs pool monitor) (lb_delete E ''DELETE'')"

definition http_ListLBVirtualServerRoutingRules :: "henv \<Rightarrow> string \<Rightarrow> string \<Rightarrow> json list hio" where
  "http_ListLBVirtualServerRoutingRules E lb vs =
     at_path (virtualServerRoutingRulePath lb vs) (\<lambda>p. lbaas_request E ''GET'' p raws_result)"

definition http_CreateLBVirtualServerRoutingRule :: "henv \<Rightarrow> string \<Rightarrow> string \<Rightarrow> url_values \<Rightarrow> raw hio" where
  "http_CreateLBVirtualServerRoutingRule E lb vs q =
     at_path (virtualServerRoutingRulePath lb vs) (\<lambda>p. lbaas_request E ''POST'' (with_query p q) raw_result)"

definition http_DeleteLBVirtualServerRoutingRule :: "henv \<Rightarrow> string \<Rightarrow> string \<Rightarrow> string \<Rightarrow> unit hio" where
  "http_DeleteLBVirtualServerRoutingRule E lb vs rule =
     at_path (res_bind (virtualServerRoutingRulePath lb vs)
        (\<lambda>p. require [(trim_space rule, ''routing rule id must not be empty'')] (p @ ''/'' @ trim_space rule)))
       (lb_delete E ''DELETE'')"

definition http_GetCompute :: "henv \<Rightarrow> string \<Rightarrow> raw hio" where
  "http_GetCompute E i =
     at_path (require [(trim_space i, ''compute id must not be empty'')] (''/'' @ PathEscape (trim_space i) @ ''/''))
       (\<lambda>p. doRequest E ''GET'' (\<lambda>c. computePath c p) raw_result)"

definition http_GetNetwork :: "henv \<Rightarrow> string \<Rightarrow> raw hio" where
  "http_GetNetwork E i =
     at_path (require [(trim_space i, ''network id must not be empty'')] (''/'' @ PathEscape (trim_space i) @ ''/''))
       (\<lambda>p. doRequest E ''GET'' (\<lambda>c. networkPath c p) raw_result)"

subsection \<open>VIPs\<close>

definition effectiveSubnetID :: "hclient \<Rightarrow> string \<Rightarrow> string" where
  "effectiveSubnetID c subnet = (if trim_space subnet \<noteq> [] then trim_space subnet else trim_space (hc_cpNetworkID c))"

definition subnetHeader :: "string \<Rightarrow> string list gomap" where
  "subnetHeader subnet = (if trim_space subnet = [] then [] else hdr_set ''subnet-id'' (trim_space subnet) [])"

text \<open>\<open>stringValue\<close> of a decoded \<open>any\<close>: numbers are \<open>float64\<close>.\<close>

fun stringValue :: "json \<Rightarrow> string" where
  "stringValue (JStr s) = trim_space s"
| "stringValue (JNum n) = show_int (int_of_float (float64_int n))"
| "stringValue v = []"

definition extractLBSubnetID :: "raw \<Rightarrow> string" where
  "extractLBSubnetID r =
     (case Option.bind r json_map of
        None \<Rightarrow> []
      | Some obj \<Rightarrow>
          let get = (\<lambda>k. gm_index JNull obj k);
              nested = (\<lambda>k. case any_map (get k) of None \<Rightarrow> [] | Some m \<Rightarrow> stringValue (gm_index JNull m ''id'')) in
          hd (filter (\<lambda>v. v \<noteq> []) [stringValue (get ''network_id''), stringValue (get ''subnet_id''),
                nested ''network'', nested ''subnet''] @ [[]]))"

definition resolveLBServiceSubnetID :: "henv \<Rightarrow> string \<Rightarrow> string hio" where
  "resolveLBServiceSubnetID E lb = hio_bind (http_GetLBService E lb) (\<lambda>r. hio_return (extractLBSubnetID r))"

definition vip_page_path :: "string \<Rightarrow> nat \<Rightarrow> nat \<Rightarrow> string" where
  "vip_page_path lb limit offset =
     ''/lb_service/'' @ lb @ ''/vip?'' @
     q_encode (q_set ''order'' ''desc'' (q_set ''field'' ''created'' (q_set ''offset'' (show_nat offset) (q_set ''limit'' (show_nat limit) []))))"

definition getLBServiceVIPPage :: "henv \<Rightarrow> string \<Rightarrow> nat \<Rightarrow> nat \<Rightarrow> string \<Rightarrow> json list hio" where
  "getLBServiceVIPPage E lb limit offset subnet = hio_get (\<lambda>s.
     hio_bind (doRequestWithBodyAndHeaders E ''GET'' (lbPath (hs_client s) (vip_page_path lb limit offset)) NilReader []
        (subnetHeader subnet) raws_result) (\<lambda>(h, x). hio_return x))"

text \<open>One page; when it fails and no subnet is known, the LB service's subnet is looked up and the
  page asked for again.  The answer is the page and the subnet to go on with.\<close>

definition vip_page :: "henv \<Rightarrow> string \<Rightarrow> nat \<Rightarrow> nat \<Rightarrow> string \<Rightarrow> (json list \<times> string) hio" where
  "vip_page E lb limit offset subnet =
     hio_try (getLBServiceVIPPage E lb limit offset subnet) (\<lambda>r. case r of
        Inr items \<Rightarrow> hio_return (items, subnet)
      | Inl e \<Rightarrow>
          if subnet \<noteq> [] then hio_fail e
          else hio_try (resolveLBServiceSubnetID E lb) (\<lambda>resolved. case resolved of
                 Inl e' \<Rightarrow> hio_fail e
               | Inr subnet' \<Rightarrow>
                   if subnet' = [] then hio_fail e
                   else hio_bind (getLBServiceVIPPage E lb limit offset subnet') (\<lambda>items. hio_return (items, subnet'))))"

text \<open>\<open>for page := 0; page < maxPageFetches; page++\<close>: \<open>fetches\<close> counts the pages left.\<close>

fun vip_pages :: "henv \<Rightarrow> string \<Rightarrow> nat \<Rightarrow> nat \<Rightarrow> nat \<Rightarrow> string \<Rightarrow> json list \<Rightarrow> json list option hio" where
  "vip_pages E lb limit 0 page subnet acc = hio_return None"
| "vip_pages E lb limit (Suc fetches) page subnet acc =
     hio_bind (vip_page E lb limit (page * limit) subnet) (\<lambda>(items, subnet').
       if length items < limit then hio_return (Some (acc @ items))
       else vip_pages E lb limit fetches (Suc page) subnet' (acc @ items))"

definition pageLimit :: nat where "pageLimit = 100"
definition maxPageFetches :: nat where "maxPageFetches = 1000"

definition http_GetLBServiceVIPs :: "henv \<Rightarrow> string \<Rightarrow> string \<Rightarrow> json list hio" where
  "http_GetLBServiceVIPs E lbServiceID subnetID =
     (let lb = trim_space lbServiceID in
      hio_unless (lb = []) no_lb (hio_get (\<lambda>s.
        hio_bind (vip_pages E lb pageLimit maxPageFetches 0 (effectiveSubnetID (hs_client s) subnetID) [])
          (\<lambda>all. case all of
             Some items \<Rightarrow> hio_return items
           | None \<Rightarrow> hio_fail (Errorf ''listing VIPs for LB service %q exceeded %d pages'' [lb, show_nat maxPageFetches])))))"

definition http_CreateLBServiceVIP :: "henv \<Rightarrow> string \<Rightarrow> string \<Rightarrow> raw hio" where
  "http_CreateLBServiceVIP E lbServiceID subnetID =
     at_path (lb_sub_path ''/lb_service/'' lbServiceID ''/vip'') (\<lambda>p. hio_get (\<lambda>s.
       hio_bind (doRequestWithBodyAndHeaders E ''POST'' (lbPath (hs_client s) p) NilReader []
          (subnetHeader (effectiveSubnetID (hs_client s) subnetID)) raw_result) (\<lambda>(h, x). hio_return x)))"

definition http_DeleteLBServiceVIP :: "henv \<Rightarrow> string \<Rightarrow> string \<Rightarrow> unit hio" where
  "http_DeleteLBServiceVIP E lb vip =
     at_path (require [(trim_space lb, no_lb), (trim_space vip, ''vip id must not be empty'')]
        (''/lb_service/'' @ trim_space lb @ ''/vip/'' @ trim_space vip @ ''/''))
       (lb_delete E ''DELETE'')"

subsection \<open>How many requests an operation sends\<close>

lemma sends_doRequest [send_intros]: "sends 2 (doRequest E meth path result)"
  unfolding doRequest_def by (intro send_intros sends_then) (auto intro: send_intros)

lemma sends_doFormRequest [send_intros]: "sends 2 (doFormRequest E meth path form result)"
  unfolding doFormRequest_def by (intro send_intros sends_then) (auto intro: send_intros)

lemma sends_at_path [send_intros]: "(\<And>p. sends n (f p)) \<Longrightarrow> sends n (at_path path f)"
  by (auto simp: at_path_def split: sum.splits intro: send_intros)

lemma sends_page: "sends 2 (getLBServiceVIPPage E lb limit offset subnet)"
  unfolding getLBServiceVIPPage_def by (intro send_intros sends_then) (auto intro: send_intros)

lemma sends_resolve: "sends 2 (resolveLBServiceSubnetID E lb)"
  unfolding resolveLBServiceSubnetID_def http_GetLBService_def lbaas_request_def
  by (intro send_intros sends_then)

text \<open>The lookup of the subnet happens at most once: it costs four requests and leaves a subnet.\<close>

definition page_cost :: "string \<Rightarrow> request list \<Rightarrow> err + json list \<times> string \<Rightarrow> bool" where
  "page_cost subnet qs r \<longleftrightarrow>
     (case r of Inl e \<Rightarrow> length qs \<le> (if subnet = [] then 6 else 2)
      | Inr (items, subnet') \<Rightarrow> length qs \<le> (if subnet = [] \<and> subnet' \<noteq> [] then 6 else 2) \<and> (subnet \<noteq> [] \<longrightarrow> subnet' \<noteq> []))"

lemma vip_page_cost: "heffect (vip_page E lb limit offset subnet) (\<lambda>s. page_cost subnet)"
proof -
  have page: "heffect (getLBServiceVIPPage E lb limit offset sn) (\<lambda>s qs r. length qs \<le> 2)" for sn
    using sends_page unfolding sends_def .
  have resolve: "heffect (resolveLBServiceSubnetID E lb) (\<lambda>s qs r. length qs \<le> 2)"
    using sends_resolve unfolding sends_def .
  have found: "heffect (hio_bind (getLBServiceVIPPage E lb limit offset sn) (\<lambda>items. hio_return (items, sn)))
      (\<lambda>s qs'. page_cost [] (qs @ qs' ))" if "sn \<noteq> []" "length qs \<le> 4" for sn qs
    using that by (intro heffect_bind [OF page] heffect_return) (auto simp: page_cost_def)
  have again: "heffect (case resolved of Inl e' \<Rightarrow> hio_fail e | Inr sn \<Rightarrow>
        if sn = [] then hio_fail e else hio_bind (getLBServiceVIPPage E lb limit offset sn) (\<lambda>items. hio_return (items, sn)))
      (\<lambda>s qs'. page_cost [] ((qs @ qs'') @ qs'))" if "length qs \<le> 2" "length qs'' \<le> 2" for resolved e qs qs''
    using that by (auto split: sum.splits intro!: heffect_fail found [of _ "qs @ qs''", simplified] simp: page_cost_def)
  show ?thesis unfolding vip_page_def
  proof (rule heffect_try [OF page])
    fix qs :: "request list" and r :: "err + json list"
    assume "length qs \<le> 2"
    then show "heffect (case r of Inl e \<Rightarrow> if subnet \<noteq> [] then hio_fail e
          else hio_try (resolveLBServiceSubnetID E lb) (\<lambda>resolved. case resolved of Inl e' \<Rightarrow> hio_fail e | Inr sn \<Rightarrow>
            if sn = [] then hio_fail e else hio_bind (getLBServiceVIPPage E lb limit offset sn) (\<lambda>items. hio_return (items, sn)))
        | Inr items \<Rightarrow> hio_return (items, subnet)) (\<lambda>s qs'. page_cost subnet (qs @ qs'))"
      by (auto split: sum.splits intro!: heffect_fail heffect_return heffect_try [OF resolve] again [simplified]
          simp: page_cost_def)
  qed
qed

lemma vip_pages_sends: "sends (2 * fetches + (if subnet = [] then 4 else 0)) (vip_pages E lb limit fetches page subnet acc)"
proof (induction fetches arbitrary: page subnet acc)
  case 0
  show ?case by (simp add: send_intros)
next
  case (Suc fetches)
  show ?case unfolding sends_def vip_pages.simps
  proof (rule heffect_bind [OF vip_page_cost])
    fix qs and x :: "json list \<times> string"
    assume cost: "page_cost subnet qs (Inr x)"
    obtain items subnet' where x: "x = (items, subnet')" by (cases x)
    have "heffect (vip_pages E lb limit fetches (Suc page) subnet' (acc @ items))
        (\<lambda>s qs r. length qs \<le> 2 * fetches + (if subnet' = [] then 4 else 0))"
      using Suc.IH unfolding sends_def .
    then have "heffect (vip_pages E lb limit fetches (Suc page) subnet' (acc @ items))
        (\<lambda>s qs' r. length (qs @ qs') \<le> 2 * Suc fetches + (if subnet = [] then 4 else 0))"
      using cost by (elim heffect_conseq) (auto simp: page_cost_def x split: if_splits)
    then show "heffect (case x of (items, subnet') \<Rightarrow> if length items < limit then hio_return (Some (acc @ items))
          else vip_pages E lb limit fetches (Suc page) subnet' (acc @ items))
        (\<lambda>s qs' r. length (qs @ qs') \<le> 2 * Suc fetches + (if subnet = [] then 4 else 0))"
      using cost by (auto simp: x page_cost_def intro!: heffect_return split: if_splits)
  qed (auto simp: page_cost_def split: if_splits)
qed

text \<open>
  C37.  Listing the VIPs of an LB service always ends, whatever CMP answers: it sends at most 2004
  requests, two for each of at most 1000 pages and four for the one lookup of the subnet.
\<close>

theorem GetLBServiceVIPs_ends:
  "\<exists>qs. hs_log (snd (http_GetLBServiceVIPs E lb subnet s)) = hs_log s @ qs \<and> length qs \<le> 2004"
proof -
  have pages: "sends 2004 (vip_pages E lb' pageLimit maxPageFetches 0 sn [])" for lb' sn
    by (rule sends_mono [OF vip_pages_sends]) (simp add: maxPageFetches_def)
  have "sends 2004 (http_GetLBServiceVIPs E lb subnet)"
    unfolding http_GetLBServiceVIPs_def Let_def
    by (intro send_intros sends_then pages) (auto split: option.splits intro: send_intros)
  then show ?thesis unfolding sends_def heffect_def by blast
qed

subsection \<open>Paging is complete\<close>

text \<open>A CMP that honours \<open>limit\<close> and \<open>offset\<close> of the request's query over a list of VIPs.\<close>

definition query_number :: "(string \<times> string) list \<Rightarrow> string \<Rightarrow> nat" where
  "query_number q k = (case map_of q k of None \<Rightarrow> 0 | Some v \<Rightarrow> (case atoi v of None \<Rightarrow> 0 | Some n \<Rightarrow> nat n))"

definition page_response :: "json list \<Rightarrow> request \<Rightarrow> response" where
  "page_response vips req =
     (let q = ParseQuery (fst (snd (cut (CHR ''?'') (rq_URL req)))) in
      \<lparr>rp_StatusCode = 200, rp_Status = ''200 OK'', rp_Header = [], rp_Text = [],
       rp_Body = JsonBody (JArr (take (query_number q ''limit'') (drop (query_number q ''offset'') vips)))\<rparr>)"

definition serves_vips :: "henv \<Rightarrow> json list \<Rightarrow> bool" where
  "serves_vips E vips \<longleftrightarrow> (\<forall>l. e_slot E l = None \<and> e_limiter E l = None) \<and> (\<forall>m u. e_bad_url E m u = None) \<and>
     (\<forall>l req. e_do E l req = Inr (page_response vips req))"

definition plain_prefix :: "hclient \<Rightarrow> bool" where
  "plain_prefix c \<longleftrightarrow> CHR ''?'' \<notin> set (hc_endpoint c) \<and> CHR ''?'' \<notin> set (hc_apiPrefix c)"

lemma PathEscape_chars: "c \<in> set (PathEscape s) \<Longrightarrow> c \<noteq> CHR ''?'' \<and> c \<noteq> CHR ''/''"
proof -
  have hex: "n < 16 \<Longrightarrow> upper_hex n \<noteq> CHR ''?'' \<and> upper_hex n \<noteq> CHR ''/''" for n
    using of_char_upper_hex [of n] by (auto split: if_splits)
  assume "c \<in> set (PathEscape s)"
  then obtain d where "c \<in> set (path_char d)" by (auto simp: PathEscape_def)
  moreover have "(of_char d :: nat) div 16 < 16" by (simp add: less_mult_imp_div_less)
  ultimately show ?thesis
    using hex [of "of_char d div 16"] hex [of "of_char d mod 16"]
    by (auto simp: path_char_def percent_def unreserved_def is_digit_def Let_def split: if_splits)
qed

lemma page_query:
  assumes "plain_prefix c" and "CHR ''?'' \<notin> set lb"
  shows "ParseQuery (fst (snd (cut (CHR ''?'') (request_url c (lbPath c (vip_page_path lb limit offset)))))) =
    [(''field'', ''created''), (''limit'', show_nat limit), (''offset'', show_nat offset), (''order'', ''desc'')]"
proof -
  let ?q = "q_set ''order'' ''desc'' (q_set ''field'' ''created'' (q_set ''offset'' (show_nat offset) (q_set ''limit'' (show_nat limit) [])))"
  obtain before where "lbPath c (vip_page_path lb limit offset) = before @ CHR ''?'' # q_encode ?q" "CHR ''?'' \<notin> set before"
  proof (cases "hc_organisationName c \<noteq> [] \<and> hc_projectID c \<noteq> []")
    case True
    then show ?thesis
      using assms(2) by (intro that [of "''/api/v2.1/load-balancers/domain/'' @ PathEscape (hc_organisationName c) @
          ''/project/'' @ PathEscape (hc_projectID c) @ ''/load-balancers/lb_service/'' @ lb @ ''/vip''"])
        (auto simp: lbPath_def api_path_def vip_page_path_def dest: PathEscape_chars)
  next
    case False
    then show ?thesis
      using assms by (intro that [of "hc_apiPrefix c @ ''/load-balancers/lb_service/'' @ lb @ ''/vip''"])
        (auto simp: lbPath_def api_path_def vip_page_path_def withPrefix_def plain_prefix_def Let_def)
  qed
  then have "request_url c (lbPath c (vip_page_path lb limit offset)) =
      (hc_endpoint c @ ''/'' @ dropWhile (\<lambda>x. x = CHR ''/'') before) @ CHR ''?'' # q_encode ?q"
    and "CHR ''?'' \<notin> set (hc_endpoint c @ ''/'' @ dropWhile (\<lambda>x. x = CHR ''/'') before)"
    using assms(1) by (auto simp: request_url_def plain_prefix_def dropWhile_append3 dest: set_dropWhileD)
  then have "fst (snd (cut (CHR ''?'') (request_url c (lbPath c (vip_page_path lb limit offset))))) = q_encode ?q"
    by (simp add: cut_append del: append_assoc)
  moreover have "query_pairs ?q = [(''field'', ''created''), (''limit'', show_nat limit), (''offset'', show_nat offset), (''order'', ''desc'')]"
    by (simp add: query_pairs_def q_set_def)
  ultimately show ?thesis by (simp add: ParseQuery_q_encode)
qed

lemma atoi_show_nat: "n < 2 ^ 63 \<Longrightarrow> atoi (show_nat n) = Some (int n)"
  using atoi_show_int [of "int n"] by (simp add: show_int_def)

lemma vip_page_served:
  assumes "serves_vips E vips" and "plain_prefix (hs_client s)" and "CHR ''?'' \<notin> set lb" and "limit < 2 ^ 63" and "offset < 2 ^ 63"
  obtains s' where "vip_page E lb limit offset sn s = (Inr (take limit (drop offset vips), sn), s')" "hs_client s' = hs_client s"
proof -
  let ?req = "make_request (hs_client s) ''GET'' (lbPath (hs_client s) (vip_page_path lb limit offset)) NilReader [] (subnetHeader sn)"
  have "rp_Body (page_response vips ?req) = JsonBody (JArr (take limit (drop offset vips)))"
    using assms(4,5) by (simp add: page_response_def Let_def make_request_def page_query [OF assms(2,3)] query_number_def atoi_show_nat)
  moreover have "rp_StatusCode (page_response vips ?req) = 200" by (simp add: page_response_def Let_def)
  ultimately have "getLBServiceVIPPage E lb limit offset sn s = (Inr (take limit (drop offset vips)), s\<lparr>hs_log := hs_log s @ [?req]\<rparr>)"
    using assms(1) by (simp add: getLBServiceVIPPage_def doRequestWithBodyAndHeaders_def hio_get_def hio_fail_with_def hio_bind_def
        hio_try_def send_authorized_def hio_wrap_def hio_send_def hio_return_def read_response_def serves_vips_def Let_def)
  then show ?thesis
    by (intro that [of "s\<lparr>hs_log := hs_log s @ [?req]\<rparr>"]) (simp_all add: vip_page_def hio_try_def hio_return_def)
qed

lemma vip_pages_served:
  assumes "serves_vips E vips" and "CHR ''?'' \<notin> set lb" and "(page + fetches) * pageLimit < 2 ^ 63"
  shows "plain_prefix (hs_client s) \<Longrightarrow> page * pageLimit \<le> length vips \<Longrightarrow>
    fst (vip_pages E lb pageLimit fetches page sn (take (page * pageLimit) vips) s) =
      Inr (if length vips < (page + fetches) * pageLimit then Some vips else None)"
  using assms(3)
proof (induction fetches arbitrary: page s)
  case 0
  then show ?case by (simp add: hio_return_def)
next
  case (Suc fetches)
  have "page * pageLimit < 2 ^ 63" using Suc.prems(3) by (simp add: pageLimit_def)
  then obtain s' where s': "vip_page E lb pageLimit (page * pageLimit) sn s = (Inr (take pageLimit (drop (page * pageLimit) vips), sn), s')"
    "hs_client s' = hs_client s"
    using vip_page_served [OF assms(1) Suc.prems(1) assms(2), of pageLimit "page * pageLimit" sn] by (auto simp: pageLimit_def)
  have acc: "take (page * pageLimit) vips @ take pageLimit (drop (page * pageLimit) vips) = take (Suc page * pageLimit) vips"
    by (simp add: take_add [symmetric] add.commute)
  show ?case
  proof (cases "length (take pageLimit (drop (page * pageLimit) vips)) < pageLimit")
    case True
    then have "length vips < Suc page * pageLimit" by auto
    moreover from this have "length vips < (page + Suc fetches) * pageLimit"
      by (rule order.strict_trans2) simp
    ultimately show ?thesis using True s' acc by (simp add: hio_bind_def hio_try_def hio_return_def)
  next
    case False
    then have "Suc page * pageLimit \<le> length vips" by (auto simp: pageLimit_def)
    then have "fst (vip_pages E lb pageLimit fetches (Suc page) sn (take (Suc page * pageLimit) vips) s') =
        Inr (if length vips < (Suc page + fetches) * pageLimit then Some vips else None)"
      using Suc.prems s'(2) by (intro Suc.IH) simp_all
    then show ?thesis using False s' acc by (simp add: hio_bind_def hio_try_def)
  qed
qed

text \<open>
  C36.  Against a CMP that honours limit and offset, listing the VIPs returns all of them in order, as
  long as there are fewer than 100000; with more it is an error, never a truncated list.
\<close>

theorem GetLBServiceVIPs_complete:
  assumes "serves_vips E vips" and "plain_prefix (hs_client s)" and "trim_space lb \<noteq> []" and "CHR ''?'' \<notin> set lb"
  shows "fst (http_GetLBServiceVIPs E lb subnet s) =
    (if length vips < 100000 then Inr vips
     else Inl (Errorf ''listing VIPs for LB service %q exceeded %d pages'' [trim_space lb, show_nat 1000]))"
proof -
  have "CHR ''?'' \<notin> set (trim_space lb)" using assms(4) set_trim_by [of is_space lb] by (auto simp: trim_space_def)
  then have "fst (vip_pages E (trim_space lb) pageLimit maxPageFetches 0 sn (take (0 * pageLimit) vips) s) =
      Inr (if length vips < (0 + maxPageFetches) * pageLimit then Some vips else None)" for sn
    using assms(1,2) by (intro vip_pages_served) (simp_all add: maxPageFetches_def pageLimit_def)
  then have run: "fst (vip_pages E (trim_space lb) pageLimit maxPageFetches 0 sn [] s) =
      Inr (if length vips < 100000 then Some vips else None)" for sn
    by (simp add: maxPageFetches_def pageLimit_def)
  show ?thesis using assms(3) run [of "effectiveSubnetID (hs_client s) subnet"]
    by (auto simp: http_GetLBServiceVIPs_def hio_unless_def hio_get_def hio_bind_def hio_try_def hio_return_def hio_fail_def
        maxPageFetches_def Let_def split: prod.splits)
qed

definition demo_env :: "json list \<Rightarrow> henv" where
  "demo_env vips = \<lparr>e_slot = (\<lambda>_. None), e_limiter = (\<lambda>_. None), e_bad_url = (\<lambda>_ _. None),
     e_do = (\<lambda>_ req. Inr (page_response vips req)), e_now = (\<lambda>_. 0), e_parseTime = (\<lambda>_. None)\<rparr>"

definition demo_hstate :: hstate where
  "demo_hstate = \<lparr>hs_client = empty_client\<lparr>hc_endpoint := ''https://cmp'', hc_organisationName := ''org'', hc_projectID := ''p''\<rparr>, hs_log = []\<rparr>"

theorem GetLBServiceVIPs_complete_witness:
  "fst (http_GetLBServiceVIPs (demo_env [JObj [(''id'', JNum 7)], JObj [(''id'', JNum 8)]]) ''lb-1'' [] demo_hstate) =
    Inr [JObj [(''id'', JNum 7)], JObj [(''id'', JNum 8)]]"
proof -
  have "trim_space ''lb-1'' = ''lb-1''" by (rule trim_space_no_space) (simp add: is_space_def)
  then show ?thesis
    by (subst GetLBServiceVIPs_complete [where vips = "[JObj [(''id'', JNum 7)], JObj [(''id'', JNum 8)]]"])
      (simp_all add: serves_vips_def demo_env_def demo_hstate_def plain_prefix_def empty_client_def)
qed

subsection \<open>Deletes, bindings and blank identifiers\<close>

lemma lb_delete_run:
  "lb_delete E meth path s =
     (case doRequestWithBodyAndHeaders E meth (lbPath (hs_client s) path) NilReader [] [] no_result s of
        (Inl e, s') \<Rightarrow> (if IsNotFound e then Inr () else Inl e, s') | (Inr x, s') \<Rightarrow> (Inr (), s'))"
  by (auto simp: lb_delete_def swallow_404_def lbaas_request_def doRequest_def hio_try_def hio_bind_def hio_get_def
      hio_fail_def hio_return_def split: prod.splits sum.splits)

text \<open>
  A delete succeeds exactly when CMP's last answer is a 2xx or says that the object does not exist
  (404); any other answer, and every failure to get one, is an error that is not a not-found.
\<close>

theorem lb_delete_outcome:
  "let (r, s') = lb_delete E meth path s in
   (case r of
      Inr u \<Rightarrow> \<exists>resp. last_answer E s s' = Some resp \<and>
        (rp_StatusCode resp = 404 \<or> 200 \<le> rp_StatusCode resp \<and> rp_StatusCode resp < 300)
    | Inl e \<Rightarrow> \<not> IsNotFound e \<and> (\<nexists>resp. last_answer E s s' = Some resp \<and> rp_StatusCode resp = 404))"
proof -
  obtain r s' where run: "doRequestWithBodyAndHeaders E meth (lbPath (hs_client s) path) NilReader [] [] no_result s = (r, s')"
    by fastforce
  note outcome = request_run [of s meth "lbPath (hs_client s) path" NilReader "[]" "[]" E no_result, unfolded run Let_def prod.case,
      THEN conjunct2]
  show ?thesis
  proof (cases r)
    case (Inl e)
    with outcome show ?thesis by (auto simp: lb_delete_run run)
  next
    case (Inr y)
    with outcome show ?thesis by (cases y) (auto simp: lb_delete_run run)
  qed
qed

text \<open>
  Detaching a certificate from a virtual server sends the very request that attaches it: for an
  identifier without white space around it the two operations are the same computation.
\<close>

theorem detach_is_attach:
  assumes "trim_space cert = cert" and "cert \<noteq> []"
  shows "http_DetachLBVirtualServerCertificate E lb vs cert = http_AttachLBVirtualServerCertificate E lb vs cert"
  using assms
  by (auto simp: http_DetachLBVirtualServerCertificate_def http_AttachLBVirtualServerCertificate_def q_set_if_def require_def)

theorem detach_is_attach_witness:
  "http_DetachLBVirtualServerCertificate (demo_env []) ''lb-1'' ''vs-1'' ''cert-1'' =
   http_AttachLBVirtualServerCertificate (demo_env []) ''lb-1'' ''vs-1'' ''cert-1''"
proof -
  have "trim_space ''cert-1'' = ''cert-1''" by (rule trim_space_no_space) (simp add: is_space_def)
  then show ?thesis by (rule detach_is_attach) simp
qed

lemma split_on_Cons: "c \<notin> set p \<Longrightarrow> split_on c (p @ c # r) = p # split_on c r"
  by (induction p) auto

text \<open>
  The path of a pool member names its parents: for identifiers without a slash, splitting it gives
  back the LB service, the virtual server, the pool and the member.  A blank pool is not refused but
  leaves its segment out, so that deleting the pool with a blank identifier addresses the collection.
\<close>

theorem member_path_segments:
  assumes "virtualServerPoolMemberPath lb vs pool member = Inr path" and "CHR ''/'' \<notin> set (lb @ vs @ pool @ member)"
  shows "split_on (CHR ''/'') path =
      [[], trim_space lb, ''virtual-servers'', trim_space vs, ''pools''] @
      (if trim_space pool = [] then [] else [trim_space pool]) @ [''members'', trim_space member] \<and>
    trim_space lb \<noteq> [] \<and> trim_space vs \<noteq> [] \<and> trim_space member \<noteq> []"
proof -
  have no: "CHR ''/'' \<notin> set (trim_space x)" if "x \<in> {lb, vs, pool, member}" for x
    using assms(2) that set_trim_by [of is_space x] by (auto simp: trim_space_def)
  have path: "path = ''/'' @ trim_space lb @ ''/virtual-servers/'' @ trim_space vs @ ''/pools'' @
        (if trim_space pool = [] then [] else CHR ''/'' # trim_space pool) @ ''/members/'' @ trim_space member"
    and ids: "trim_space lb \<noteq> [] \<and> trim_space vs \<noteq> [] \<and> trim_space member \<noteq> []"
    using assms(1) by (auto simp: virtualServerPoolMemberPath_def virtualServerPoolPath_def require_def split: if_splits)
  have join: "path = join ''/'' ([[], trim_space lb, ''virtual-servers'', trim_space vs, ''pools''] @
      (if trim_space pool = [] then [] else [trim_space pool]) @ [''members'', trim_space member])"
    by (simp add: path)
  have "split_on (CHR ''/'') path =
      [[], trim_space lb, ''virtual-servers'', trim_space vs, ''pools''] @
      (if trim_space pool = [] then [] else [trim_space pool]) @ [''members'', trim_space member]"
    unfolding join by (rule split_on_join) (auto simp: no split: if_splits)
  with ids show ?thesis by simp
qed

theorem member_path_segments_witness:
  "split_on (CHR ''/'') ''/lb1/virtual-servers/vs1/pools/members/m1'' =
     [[], ''lb1'', ''virtual-servers'', ''vs1'', ''pools'', ''members'', ''m1'']"
proof -
  have t: "trim_space ''lb1'' = ''lb1''" "trim_space ''vs1'' = ''vs1''" "trim_space ''m1'' = ''m1''"
    by (simp_all add: trim_space_no_space is_space_def)
  have "virtualServerPoolMemberPath ''lb1'' ''vs1'' [] ''m1'' = Inr ''/lb1/virtual-servers/vs1/pools/members/m1''"
    by (simp add: virtualServerPoolMemberPath_def virtualServerPoolPath_def require_def t)
  from member_path_segments [OF this] show ?thesis by (simp add: t)
qed

end
