(* ===== verification/RawAdapter.thy ===== *)
theory RawAdapter
  imports HttpClient Effects
begin

text \<open>
  \<open>pkg/deploy/lbaas/raw_adapter.go\<close>: the typed CMP interface of the deployer on top of the HTTP
  client, which answers in raw JSON.  Each operation encodes its specification as form or query
  values, and decodes CMP's document leniently: what it cannot read becomes a zero value or is left
  out of a list.  A \<open>codec\<close> is the JSON scanner for documents nested in strings and the order in
  which \<open>range\<close> visits a decoded object.
\<close>

record codec =
  dc_text :: "string \<Rightarrow> json option"
  dc_order :: "string list \<Rightarrow> string list"

subsection \<open>Reading values of any type\<close>

fun stringFromAny :: "json \<Rightarrow> string" where
  "stringFromAny (JStr s) = trim_space s"
| "stringFromAny (JNum n) = show_int (float64_int n)"
| "stringFromAny v = []"

text \<open>\<open>fmt.Sscanf(s, "%d", &out)\<close>: an optional sign and the digits that follow, in 64 bits.\<close>

definition scan_int :: "string \<Rightarrow> int" where
  "scan_int s =
     (let sign = (s \<noteq> [] \<and> (hd s = CHR ''-'' \<or> hd s = CHR ''+'')); digits = takeWhile is_digit (if sign then tl s else s) in
      case atoi (if sign then hd s # digits else digits) of Some n \<Rightarrow> n | None \<Rightarrow> 0)"

fun intFromAny :: "json \<Rightarrow> int" where
  "intFromAny (JNum n) = int_of_float (float64_int n)"
| "intFromAny (JStr s) = scan_int (trim_space s)"
| "intFromAny v = 0"

definition firstString :: "json gomap \<Rightarrow> string list \<Rightarrow> string" where
  "firstString obj keys =
     (case find (\<lambda>v. v \<noteq> []) (map (\<lambda>k. stringFromAny (gm_index JNull obj k)) keys) of None \<Rightarrow> [] | Some v \<Rightarrow> v)"

definition firstAny :: "json gomap \<Rightarrow> string list \<Rightarrow> json" where
  "firstAny obj keys = (case List.map_filter (map_of obj) keys of [] \<Rightarrow> JNull | v # _ \<Rightarrow> v)"

definition firstNonEmpty :: "string list \<Rightarrow> string" where
  "firstNonEmpty vs = (case filter (\<lambda>v. v \<noteq> []) (map trim_space vs) of [] \<Rightarrow> [] | v # _ \<Rightarrow> v)"

definition str_contains :: "string \<Rightarrow> string \<Rightarrow> bool" where
  "str_contains s p = list_ex (\<lambda>i. take (length p) (drop i s) = p) [0..<Suc (length s)]"

definition inferResourceType :: "string \<Rightarrow> string" where
  "inferResourceType owner = (if str_contains (to_lower (trim_space owner)) ''baremetal'' then ''baremetal'' else ''compute'')"

text \<open>\<open>fixed_ips\<close> may be a document in a string; \<open>n\<close> bounds how often one is unpacked, and a document
  of \<open>k\<close> characters unpacks to less than \<open>k\<close>.\<close>

fun fixed_ip_of :: "json \<Rightarrow> string" where
  "fixed_ip_of (JStr s) = trim_space s"
| "fixed_ip_of (JObj es) = (case json_map (JObj es) of None \<Rightarrow> [] | Some m \<Rightarrow> firstString m [''ip_address'', ''ip'', ''fixed_ip''])"
| "fixed_ip_of v = []"

fun fixed_ips_of :: "codec \<Rightarrow> nat \<Rightarrow> json \<Rightarrow> string list" where
  "fixed_ips_of C n (JArr items) = filter (\<lambda>ip. ip \<noteq> []) (map fixed_ip_of items)"
| "fixed_ips_of C 0 (JStr s) = (if trim_space s = [] then [] else [trim_space s])"
| "fixed_ips_of C (Suc n) (JStr s) =
     (case dc_text C s of
        Some v \<Rightarrow> fixed_ips_of C n v
      | None \<Rightarrow> if trim_space s = [] then [] else [trim_space s])"
| "fixed_ips_of C n v = []"

fun text_length :: "json \<Rightarrow> nat" where
  "text_length (JStr s) = length s" | "text_length v = 0"

definition portIPs :: "codec \<Rightarrow> json gomap \<Rightarrow> string list" where
  "portIPs C obj =
     (let ip = firstString obj [''fixed_ip'', ''ip_address'', ''ip'']; fixed = gm_index JNull obj ''fixed_ips'' in
      if ip \<noteq> [] then [ip] else fixed_ips_of C (Suc (text_length fixed)) fixed)"

subsection \<open>VIPs, virtual servers, computes\<close>

definition zero_vip :: VIP where
  "zero_vip = \<lparr>vip_ID = [], vip_Address = [], vip_Status = [], vip_NetworkID = [], vip_IPVersion = [], vip_AttachedToLB = False\<rparr>"

definition parseVIP :: "codec \<Rightarrow> raw \<Rightarrow> VIP" where
  "parseVIP C r =
     (case Option.bind r json_map of
        None \<Rightarrow> zero_vip
      | Some obj \<Rightarrow>
          let i = firstString obj [''id'', ''id_str'']; address = firstString obj [''ip_address'', ''address'', ''fixed_ip''] in
          if i = [] then zero_vip
          else \<lparr>vip_ID = i,
                vip_Address = (if address = [] then (case portIPs C obj of [] \<Rightarrow> [] | a # _ \<Rightarrow> a) else address),
                vip_Status = firstString obj [''status''],
                vip_NetworkID = firstString obj [''network_id'', ''network''],
                vip_IPVersion = firstString obj [''ip_version''],
                vip_AttachedToLB = (gm_index JNull obj ''attached_to_lb'' = JBool True)\<rparr>)"

definition zero_vs :: VirtualServer where
  "zero_vs = \<lparr>cv_ID = [], cv_Name = [], cv_VIPPortID = [], cv_VIPAddress = [], cv_Status = [], cv_Protocol = [], cv_Port = 0\<rparr>"

text \<open>All fields must decode; the identifier of the nested \<open>vip_port\<close> replaces a missing one.\<close>

definition named_vs :: "(string \<times> json) list \<Rightarrow> VirtualServer option" where
  "named_vs es =
     (case (f_string ''id'' es, f_string ''name'' es, f_string ''vip_port_id'' es, f_string ''vip'' es,
            f_string ''status'' es, f_string ''protocol'' es, f_int32 ''port'' es,
            Option.bind (f_struct ''vip_port'' es) (f_int ''id'')) of
        (Some i, Some n, Some vp, Some addr, Some st, Some pr, Some po, Some k) \<Rightarrow>
          if trim_space i = [] then None
          else Some \<lparr>cv_ID = trim_space i, cv_Name = trim_space n,
                  cv_VIPPortID = (if trim_space vp = [] \<and> k \<noteq> 0 then show_int k else trim_space vp),
                  cv_VIPAddress = trim_space addr, cv_Status = trim_space st,
                  cv_Protocol = to_upper (trim_space pr), cv_Port = po\<rparr>
      | _ \<Rightarrow> None)"

definition numeric_vs :: "(string \<times> json) list \<Rightarrow> VirtualServer option" where
  "numeric_vs es =
     (case (f_int ''id'' es, f_int ''vip_port_id'' es, f_string ''name'' es) of
        (Some i, Some vp, Some n) \<Rightarrow>
          if i = 0 then None
          else Some (zero_vs\<lparr>cv_ID := show_int i, cv_Name := trim_space n, cv_VIPPortID := (if vp = 0 then [] else show_int vp)\<rparr>)
      | _ \<Rightarrow> None)"

definition parseVirtualServer :: "raw \<Rightarrow> VirtualServer" where
  "parseVirtualServer r =
     (case Option.bind (json_struct r) named_vs of
        Some vs \<Rightarrow> vs
      | None \<Rightarrow> (case Option.bind (json_struct r) numeric_vs of Some vs \<Rightarrow> vs | None \<Rightarrow> zero_vs))"

definition parseComputePort :: "codec \<Rightarrow> json \<Rightarrow> ComputePort" where
  "parseComputePort C v =
     (case any_map v of
        None \<Rightarrow> \<lparr>cp_ID = 0, cp_FixedIPs = [], cp_NetworkID = [], cp_DeviceID = [], cp_DeviceType = []\<rparr>
      | Some obj \<Rightarrow>
          \<lparr>cp_ID = intFromAny (firstAny obj [''id'', ''id_str'', ''port_id'', ''provider_port_id'']),
           cp_FixedIPs = portIPs C obj,
           cp_NetworkID = firstString obj [''network_id'', ''subnet_id''],
           cp_DeviceID = firstString obj [''device_id'', ''resource_id'', ''compute_id''],
           cp_DeviceType = inferResourceType (firstString obj [''device_type'', ''device_owner'', ''resource_type''])\<rparr>)"

definition known_ports :: "codec \<Rightarrow> json list \<Rightarrow> ComputePort list" where
  "known_ports C items = filter (\<lambda>p. cp_ID p \<noteq> 0 \<or> cp_FixedIPs p \<noteq> []) (map (parseComputePort C) items)"

fun parseComputePorts :: "codec \<Rightarrow> nat \<Rightarrow> json \<Rightarrow> ComputePort list" where
  "parseComputePorts C n (JArr items) = known_ports C items"
| "parseComputePorts C n (JObj es) =
     (case json_map (JObj es) of None \<Rightarrow> [] | Some m \<Rightarrow> known_ports C (map snd (go_range (dc_order C) m)))"
| "parseComputePorts C (Suc n) (JStr s) = (case dc_text C s of Some v \<Rightarrow> parseComputePorts C n v | None \<Rightarrow> [])"
| "parseComputePorts C n v = []"

definition zero_compute :: Compute where
  "zero_compute = \<lparr>co_ID = [], co_Name = [], co_VPCID = [], co_NetworkID = [], co_Region = [], co_Status = [], co_Ports = []\<rparr>"

definition parseCompute :: "codec \<Rightarrow> raw \<Rightarrow> Compute" where
  "parseCompute C r =
     (case Option.bind r json_map of
        None \<Rightarrow> zero_compute
      | Some obj \<Rightarrow>
          \<lparr>co_ID = firstString obj [''id'', ''uuid'', ''compute_id''],
           co_Name = firstString obj [''instance_name'', ''name''],
           co_VPCID = firstString obj [''vpc_id'', ''vpc''],
           co_NetworkID = firstString obj [''network_id'', ''subnet_id''],
           co_Region = firstString obj [''region''],
           co_Status = firstString obj [''status'', ''operating_status''],
           co_Ports = (let ports = gm_index JNull obj ''ports'' in parseComputePorts C (Suc (text_length ports)) ports)\<rparr>)"

subsection \<open>LB services, networks, certificates\<close>

definition nested_region :: "(string \<times> json) list \<Rightarrow> string option" where
  "nested_region es = Option.bind (f_struct ''vpc'' es) (f_string ''region'')"

definition parse_lb :: "raw \<Rightarrow> LBService option" where
  "parse_lb r = Option.bind (json_struct r) (\<lambda>es.
     case (f_string ''id'' es, f_string ''name'' es, f_string ''status'' es, f_string ''operating_status'' es,
           f_string ''vpc_id'' es, f_string ''vpc_name'' es, f_string ''network_id'' es, f_string ''region'' es,
           nested_region es) of
       (Some i, Some n, Some st, Some os, Some vpc, Some vn, Some nw, Some rg, Some vrg) \<Rightarrow>
         Some \<lparr>lb_ID = trim_space i, lb_Name = trim_space n, lb_Status = trim_space st, lb_OperatingStatus = trim_space os,
               lb_VPCID = trim_space vpc, lb_VPCName = trim_space vn, lb_NetworkID = trim_space nw,
               lb_Region = (if trim_space rg = [] then trim_space vrg else trim_space rg)\<rparr>
     | _ \<Rightarrow> None)"

definition parse_network :: "string \<Rightarrow> raw \<Rightarrow> Network option" where
  "parse_network i r = Option.bind (json_struct r) (\<lambda>es.
     case (f_string ''id'' es, f_string ''vpc_id'' es, f_string ''status'' es) of
       (Some n, Some vpc, Some st) \<Rightarrow>
         Some \<lparr>nw_ID = (if trim_space n = [] then trim_space i else trim_space n), nw_VPCID = trim_space vpc, nw_Status = trim_space st\<rparr>
     | _ \<Rightarrow> None)"

definition zero_cert :: CertificateResource where
  "zero_cert = \<lparr>ce_ID = [], ce_Name = [], ce_Fingerprint = [], ce_SecretName = [], ce_Certificate = [], ce_PrivateKey = [],
     ce_CA = [], ce_HostNames = []\<rparr>"

definition parseCertificate :: "raw \<Rightarrow> CertificateResource" where
  "parseCertificate r =
     (case Option.bind (json_struct r) (\<lambda>es.
        case (f_string ''id'' es, f_string ''name'' es, f_string ''fingerprint'' es, f_string ''secret_name'' es,
              f_string ''ssl_cert'' es, f_string ''ssl_pvt_key'' es, f_string ''ca_cert'' es, f_strings ''host_names'' es,
              f_string ''certificate_name'' es, f_string ''certificate_id'' es) of
          (Some i, Some n, Some fp, Some sn, Some ct, Some pk, Some ca, Some hosts, Some an, Some ai) \<Rightarrow>
            Some \<lparr>ce_ID = firstNonEmpty [i, ai], ce_Name = firstNonEmpty [n, an], ce_Fingerprint = trim_space fp,
                  ce_SecretName = trim_space sn, ce_Certificate = trim_space ct, ce_PrivateKey = trim_space pk,
                  ce_CA = trim_space ca, ce_HostNames = hosts\<rparr>
        | _ \<Rightarrow> None) of
        Some c \<Rightarrow> c | None \<Rightarrow> zero_cert)"

subsection \<open>Pools, members, monitors, routing rules\<close>

definition zero_member :: PoolMemberResource where
  "zero_member = \<lparr>pm_ID = [], pm_ResourceID = [], pm_ResourceType = [], pm_ResourceIP = [], pm_BackendPortID = 0, pm_Port = 0, pm_Weight = 0\<rparr>"

definition parsePoolMember :: "raw \<Rightarrow> PoolMemberResource" where
  "parsePoolMember r =
     (case Option.bind (json_struct r) (\<lambda>es.
        case (f_string ''id'' es, f_string ''resource_id'' es, f_string ''resource_type'' es, f_string ''resource_ip'' es,
              f_int ''backend_port_id'' es, f_int32 ''port'' es, f_int ''weight'' es) of
          (Some i, Some ri, Some rt, Some ip, Some bp, Some po, Some we) \<Rightarrow>
            Some \<lparr>pm_ID = trim_space i, pm_ResourceID = trim_space ri, pm_ResourceType = trim_space rt,
                  pm_ResourceIP = trim_space ip, pm_BackendPortID = bp, pm_Port = po, pm_Weight = we\<rparr>
        | _ \<Rightarrow> None) of
        Some m \<Rightarrow> m | None \<Rightarrow> zero_member)"

definition parsePool :: "raw \<Rightarrow> PoolResource" where
  "parsePool r =
     (case Option.bind (json_struct r) (\<lambda>es.
        case (f_string ''id'' es, f_string ''pool_name'' es, f_string ''name'' es, f_bool ''is_default'' es, f_raws ''members'' es) of
          (Some i, Some pn, Some n, Some d, Some ms) \<Rightarrow>
            Some \<lparr>po_ID = trim_space i, po_Name = firstNonEmpty [pn, n], po_IsDefault = d,
                  po_Members = map (\<lambda>m. parsePoolMember (Some m)) ms\<rparr>
        | _ \<Rightarrow> None) of
        Some p \<Rightarrow> p | None \<Rightarrow> \<lparr>po_ID = [], po_Name = [], po_IsDefault = False, po_Members = []\<rparr>)"

definition parseMonitor :: "raw \<Rightarrow> MonitorResource" where
  "parseMonitor r =
     (case Option.bind (json_struct r) (\<lambda>es.
        case (f_string ''id'' es, f_string ''monitor_name'' es, f_string ''name'' es, f_string ''monitor_protocol'' es,
              f_string ''monitor_path'' es, f_int32 ''interval'' es) of
          (Some i, Some mn, Some n, Some pr, Some pa, Some iv) \<Rightarrow>
            Some \<lparr>mr_ID = trim_space i, mr_Name = firstNonEmpty [mn, n], mr_Protocol = pr, mr_Path = pa, mr_Interval = iv\<rparr>
        | _ \<Rightarrow> None) of
        Some m \<Rightarrow> m | None \<Rightarrow> \<lparr>mr_ID = [], mr_Name = [], mr_Protocol = [], mr_Path = [], mr_Interval = 0\<rparr>)"

text \<open>The routing rule is decoded into the resource itself, whose fields have no JSON tags.\<close>

definition parseRoutingRule :: "raw \<Rightarrow> RoutingRuleResource" where
  "parseRoutingRule r =
     (case Option.bind (json_struct r) (\<lambda>es.
        case (f_string ''ID'' es, f_string ''Host'' es, f_string ''Path'' es, f_string ''MatchType'' es, f_string ''PoolID'' es) of
          (Some i, Some h, Some p, Some m, Some po) \<Rightarrow>
            Some \<lparr>ru_ID = i, ru_Host = h, ru_Path = p, ru_MatchType = m, ru_PoolID = po\<rparr>
        | _ \<Rightarrow> None) of
        Some x \<Rightarrow> x | None \<Rightarrow> \<lparr>ru_ID = [], ru_Host = [], ru_Path = [], ru_MatchType = [], ru_PoolID = []\<rparr>)"

subsection \<open>Specifications as form and query values\<close>

definition lb_spec_form :: "LBServiceSpec \<Rightarrow> url_values" where
  "lb_spec_form spec =
     q_set_if (ls_VPCName spec \<noteq> []) ''vpc_name'' (ls_VPCName spec)
      (q_set_if (ls_VPCID spec \<noteq> []) ''vpc_id'' (ls_VPCID spec)
        (q_set_if (ls_NetworkID spec \<noteq> []) ''network_id'' (ls_NetworkID spec)
          (q_set_if (ls_FlavorID spec \<noteq> 0) ''flavor_id'' (show_i32 (ls_FlavorID spec))
            (q_set ''description'' (ls_Description spec) (q_set ''name'' (ls_Name spec) [])))))"

definition resource_type :: "string \<Rightarrow> string" where
  "resource_type t = (if trim_space t = [] then ''compute'' else trim_space t)"

definition vs_node_text :: "BackendNodeSpec \<Rightarrow> string" where
  "vs_node_text n = marshal_map
     [(''resource_id'', JStr (bn_ResourceID n)), (''resource_type'', JStr (resource_type (bn_ResourceType n))),
      (''resource_ip'', JStr (bn_ResourceIP n)), (''backend_port_id'', JNum (bn_BackendPortID n)),
      (''port'', JNum (sint (bn_Port n))), (''weight'', JNum (bn_Weight n)), (''max_conn'', JNum (bn_MaxConnections n)),
      (''instance_name'', JStr (bn_InstanceName n)), (''source_type'', JStr (bn_SourceType n))]"

definition show_bool :: "bool \<Rightarrow> string" where
  "show_bool b = (if b then ''true'' else ''false'')"

definition vs_spec_form :: "VirtualServerSpec \<Rightarrow> url_values" where
  "vs_spec_form s =
     (let q = q_set ''routing_algorithm'' (canonicalRoutingAlgorithm (vsp_RoutingAlgorithm s))
            (q_set ''port'' (show_i32 (vsp_Port s)) (q_set ''protocol'' (vsp_Protocol s)
              (q_set ''vip_port_id'' (vsp_VIPPortID s) (q_set ''name'' (vsp_Name s) []))));
          q = q_set_if (vsp_MonitorInterval s \<noteq> 0) ''interval'' (show_i32 (vsp_MonitorInterval s))
            (q_set_if (vsp_MonitorName s \<noteq> []) ''monitor_name'' (vsp_MonitorName s)
              (q_set_if (vsp_PoolName s \<noteq> []) ''pool_name'' (vsp_PoolName s) q));
          q = q_set_if (vsp_MonitorTimeout s \<noteq> 0) ''timeout'' (show_i32 (vsp_MonitorTimeout s))
            (q_set_if (vsp_MonitorPort s \<noteq> 0) ''monitor_port'' (show_i32 (vsp_MonitorPort s))
              (q_set_if (vsp_MonitorPath s \<noteq> []) ''monitor_path'' (vsp_MonitorPath s)
                (q_set_if (vsp_MonitorProtocol s \<noteq> []) ''monitor_protocol'' (to_upper (vsp_MonitorProtocol s)) q)));
          q = q_set_if (0 < sint (vsp_DrainingTimeout s)) ''connection_draining_timeout'' (show_i32 (vsp_DrainingTimeout s))
            (q_set ''x_forwarded_for'' (show_bool (vsp_XForwardedFor s))
              (q_set ''persistence_enabled'' (show_bool (vsp_PersistenceEnabled s))
                (q_set_if (vsp_PersistenceType s \<noteq> []) ''persistence_type'' (vsp_PersistenceType s) q)));
          q = q_set_if (vsp_AllowedCIDRs s \<noteq> []) ''allowed_cidrs'' (join '','' (vsp_AllowedCIDRs s))
            (q_set_if (vsp_VPCID s \<noteq> []) ''vpc_id'' (vsp_VPCID s) q)
      in fold (q_add ''nodes'') (map vs_node_text (vsp_Nodes s)) q)"

definition poolMemberPayload :: "PoolMemberSpec \<Rightarrow> json gomap" where
  "poolMemberPayload s =
     [(''resource_id'', JStr (ps_ResourceID s)), (''resource_type'', JStr (resource_type (ps_ResourceType s))),
      (''resource_ip'', JStr (ps_ResourceIP s)), (''backend_port_id'', JNum (ps_BackendPortID s)),
      (''port'', JNum (sint (ps_Port s))), (''weight'', JNum (ps_Weight s))]"

definition poolMemberSpecQuery :: "PoolMemberSpec \<Rightarrow> url_values" where
  "poolMemberSpecQuery s = q_set ''node'' (marshal_map (poolMemberPayload s)) []"

definition poolSpecQuery :: "PoolSpec \<Rightarrow> url_values" where
  "poolSpecQuery s =
     (let q = q_set_if (pl_RoutingAlgorithm s \<noteq> []) ''routing_algorithm'' (canonicalRoutingAlgorithm (pl_RoutingAlgorithm s))
            (q_set_if (pl_Protocol s \<noteq> []) ''pool_members_protocol'' (pl_Protocol s) (q_set ''pool_name'' (pl_Name s) []));
          q = (case pl_Monitor s of
                 None \<Rightarrow> q
               | Some m \<Rightarrow>
                   q_set_if (0 < sint (mon_Interval m)) ''interval'' (show_i32 (mon_Interval m))
                     (q_set_if (mon_Path m \<noteq> []) ''monitor_path'' (mon_Path m)
                       (q_set_if (mon_Type m \<noteq> []) ''monitor_protocol'' (mon_Type m)
                         (q_set_if (mon_Name m \<noteq> []) ''monitor_name'' (mon_Name m) q))))
      in fold (q_add ''nodes'') (map (\<lambda>m. marshal_map (poolMemberPayload m)) (pl_Members s)) q)"

definition monitorSpecQuery :: "MonitorSpec \<Rightarrow> url_values" where
  "monitorSpecQuery s =
     q_set_if (0 < sint (ms_Interval s)) ''interval'' (show_i32 (ms_Interval s))
       (q_set ''path'' (ms_Path s) (q_set ''monitor_protocol'' (ms_Protocol s) (q_set ''name'' (ms_Name s) [])))"

definition rule_spec_query :: "RoutingRuleSpec \<Rightarrow> url_values" where
  "rule_spec_query s =
     q_set ''virtual_server_pool_id'' (rs_PoolID s)
       (q_set ''match_type'' (rs_MatchType s) (q_set ''path'' (rs_Path s) (q_set ''host'' (rs_Host s) [])))"

definition cert_spec_query :: "CertificateSpec \<Rightarrow> url_values" where
  "cert_spec_query s =
     q_set_if (cs_CA s \<noteq> []) ''caCert'' (cs_CA s)
       (q_set_if (cs_PrivateKey s \<noteq> []) ''sslPvtKey'' (cs_PrivateKey s)
         (q_set_if (cs_Certificate s \<noteq> []) ''sslCert'' (cs_Certificate s) (q_set ''name'' (cs_Name s) [])))"

subsection \<open>The operations of the adapter\<close>

text \<open>Lists leave out what has no identifier; only LB services are kept without one.\<close>

definition then_return :: "'a hio \<Rightarrow> ('a \<Rightarrow> 'b) \<Rightarrow> 'b hio" where
  "then_return m f = hio_bind m (\<lambda>x. hio_return (f x))"

definition ra_ListLBServices :: "henv \<Rightarrow> ListOptions \<Rightarrow> LBService list hio" where
  "ra_ListLBServices E opts = then_return (http_ListLBServices E (Some opts)) (List.map_filter (\<lambda>v. parse_lb (Some v)))"

definition ra_CreateLBService :: "henv \<Rightarrow> LBServiceSpec \<Rightarrow> LBService hio" where
  "ra_CreateLBService E spec =
     hio_bind (http_CreateLBService E (lb_spec_form spec)) (\<lambda>r.
       case Option.bind (json_struct r) (\<lambda>es. case (f_string ''ID'' es, f_string ''Name'' es) of
              (Some i, Some n) \<Rightarrow> Some (trim_space i, trim_space n) | _ \<Rightarrow> None) of
         Some (i, n) \<Rightarrow>
           if i = [] then hio_fail (Errorf ''parsing LB Service response: %s'' [raw_text r])
           else hio_return \<lparr>lb_ID = i, lb_Name = n, lb_Status = [], lb_OperatingStatus = [], lb_VPCID = [], lb_VPCName = [],
                  lb_NetworkID = [], lb_Region = []\<rparr>
       | None \<Rightarrow> hio_fail (Errorf ''parsing LB Service response: %s'' [raw_text r]))"

definition ra_DeleteLBService :: "henv \<Rightarrow> string \<Rightarrow> unit hio" where
  "ra_DeleteLBService E i = http_DeleteLBService E i"

definition ra_GetLBService :: "henv \<Rightarrow> string \<Rightarrow> LBService hio" where
  "ra_GetLBService E i0 =
     (let i = trim_space i0 in
      hio_unless (i = []) ''LBService ID must not be empty''
        (hio_bind (http_GetLBService E i) (\<lambda>r.
           case parse_lb r of
             None \<Rightarrow> hio_fail (Wrapf ''parsing LBService %q response: %w'' [i] (OtherErr ''json''))
           | Some s \<Rightarrow> if lb_ID s = [] then hio_fail (Errorf ''CMP returned LBService %q without an ID'' [i]) else hio_return s)))"

definition ra_ListVIPs :: "henv \<Rightarrow> codec \<Rightarrow> string \<Rightarrow> string \<Rightarrow> VIP list hio" where
  "ra_ListVIPs E C lb subnet =
     then_return (http_GetLBServiceVIPs E lb subnet) (\<lambda>items. filter (\<lambda>v. vip_ID v \<noteq> []) (map (\<lambda>v. parseVIP C (Some v)) items))"

definition ra_CreateVIP :: "henv \<Rightarrow> codec \<Rightarrow> string \<Rightarrow> string \<Rightarrow> VIP hio" where
  "ra_CreateVIP E C lb subnet =
     hio_bind (http_CreateLBServiceVIP E lb subnet) (\<lambda>r.
       let vip = parseVIP C r in
       if vip_ID vip = [] then hio_fail (Errorf ''VIP created but no ID returned: %s'' [raw_text r]) else hio_return vip)"

definition ra_DeleteVIP :: "henv \<Rightarrow> string \<Rightarrow> string \<Rightarrow> unit hio" where
  "ra_DeleteVIP E lb vip = http_DeleteLBServiceVIP E lb vip"

definition ra_ListVirtualServers :: "henv \<Rightarrow> string \<Rightarrow> VirtualServer list hio" where
  "ra_ListVirtualServers E lb =
     then_return (http_ListLBVirtualServers E lb) (\<lambda>items. filter (\<lambda>v. cv_ID v \<noteq> []) (map (\<lambda>v. parseVirtualServer (Some v)) items))"

definition ra_GetVirtualServer :: "henv \<Rightarrow> string \<Rightarrow> string \<Rightarrow> VirtualServer hio" where
  "ra_GetVirtualServer E lb vsID =
     hio_bind (http_GetLBVirtualServer E lb vsID) (\<lambda>r.
       let vs = parseVirtualServer r in
       if cv_ID vs = [] then hio_fail (Errorf ''CMP returned virtual server %q without an ID'' [vsID]) else hio_return vs)"

definition ra_CreateVirtualServer :: "henv \<Rightarrow> string \<Rightarrow> VirtualServerSpec \<Rightarrow> VirtualServer hio" where
  "ra_CreateVirtualServer E lb spec =
     then_return (http_CreateLBVirtualServer E lb (vs_spec_form spec)) (\<lambda>r.
       case Option.bind (json_struct r) (\<lambda>es. case (f_string ''ID'' es, f_string ''Name'' es) of
              (Some i, Some n) \<Rightarrow> Some (trim_space i, trim_space n) | _ \<Rightarrow> None) of
         Some (i, n) \<Rightarrow> zero_vs\<lparr>cv_ID := i, cv_Name := n\<rparr>
       | None \<Rightarrow> zero_vs\<lparr>cv_Name := vsp_Name spec\<rparr>)"

definition ra_DeleteVirtualServer :: "henv \<Rightarrow> string \<Rightarrow> string \<Rightarrow> unit hio" where
  "ra_DeleteVirtualServer E lb vs = http_DeleteLBVirtualServer E lb vs"

definition ra_GetCompute :: "henv \<Rightarrow> codec \<Rightarrow> string \<Rightarrow> Compute hio" where
  "ra_GetCompute E C i =
     hio_bind (http_GetCompute E i) (\<lambda>r.
       let co = parseCompute C r; co = (if co_ID co = [] then co\<lparr>co_ID := trim_space i\<rparr> else co) in
       if co_ID co = [] then hio_fail (Errorf ''CMP returned compute %q without an ID'' [i]) else hio_return co)"

definition ra_GetNetwork :: "henv \<Rightarrow> string \<Rightarrow> Network hio" where
  "ra_GetNetwork E i =
     hio_bind (http_GetNetwork E i) (\<lambda>r.
       case parse_network i r of
         None \<Rightarrow> hio_fail (Wrapf ''parsing CMP network %q: %w'' [i] (OtherErr ''json''))
       | Some n \<Rightarrow> hio_return n)"

definition ra_ListCertificates :: "henv \<Rightarrow> string \<Rightarrow> CertificateResource list hio" where
  "ra_ListCertificates E lb =
     then_return (http_ListLBServiceCertificates E lb) (\<lambda>items. filter (\<lambda>c. ce_ID c \<noteq> []) (map (\<lambda>v. parseCertificate (Some v)) items))"

definition ra_UploadCertificate :: "henv \<Rightarrow> string \<Rightarrow> CertificateSpec \<Rightarrow> CertificateResource hio" where
  "ra_UploadCertificate E lb spec = then_return (http_CreateLBServiceCertificate E lb (cert_spec_query spec)) parseCertificate"

definition ra_DeleteCertificate :: "henv \<Rightarrow> string \<Rightarrow> string \<Rightarrow> unit hio" where
  "ra_DeleteCertificate E lb cert = http_DeleteLBServiceCertificate E lb cert"

definition ra_BindCertificate :: "henv \<Rightarrow> string \<Rightarrow> string \<Rightarrow> string \<Rightarrow> unit hio" where
  "ra_BindCertificate E lb vs cert = http_AttachLBVirtualServerCertificate E lb vs cert"

definition ra_UnbindCertificate :: "henv \<Rightarrow> string \<Rightarrow> string \<Rightarrow> string \<Rightarrow> unit hio" where
  "ra_UnbindCertificate E lb vs cert = http_DetachLBVirtualServerCertificate E lb vs cert"

definition ra_ListPools :: "henv \<Rightarrow> string \<Rightarrow> string \<Rightarrow> PoolResource list hio" where
  "ra_ListPools E lb vs =
     then_return (http_ListLBVirtualServerPools E lb vs) (\<lambda>items. filter (\<lambda>p. trim_space (po_ID p) \<noteq> []) (map (\<lambda>v. parsePool (Some v)) items))"

definition ra_CreatePool :: "henv \<Rightarrow> string \<Rightarrow> string \<Rightarrow> PoolSpec \<Rightarrow> PoolResource hio" where
  "ra_CreatePool E lb vs spec = then_return (http_CreateLBVirtualServerPool E lb vs (poolSpecQuery spec)) parsePool"

definition ra_GetPool :: "henv \<Rightarrow> string \<Rightarrow> string \<Rightarrow> string \<Rightarrow> PoolResource hio" where
  "ra_GetPool E lb vs pool = then_return (http_GetLBVirtualServerPool E lb vs pool) parsePool"

definition ra_DeletePool :: "henv \<Rightarrow> string \<Rightarrow> string \<Rightarrow> string \<Rightarrow> unit hio" where
  "ra_DeletePool E lb vs pool = http_DeleteLBVirtualServerPool E lb vs pool"

definition ra_SetDefaultPool :: "henv \<Rightarrow> string \<Rightarrow> string \<Rightarrow> string \<Rightarrow> unit hio" where
  "ra_SetDefaultPool E lb vs pool = http_SetDefaultLBVirtualServerPool E lb vs pool"

definition ra_CreatePoolMember :: "henv \<Rightarrow> string \<Rightarrow> string \<Rightarrow> string \<Rightarrow> PoolMemberSpec \<Rightarrow> PoolMemberResource hio" where
  "ra_CreatePoolMember E lb vs pool spec =
     then_return (http_CreateLBVirtualServerPoolMember E lb vs pool (poolMemberSpecQuery spec)) parsePoolMember"

definition ra_UpdatePoolMember :: "henv \<Rightarrow> string \<Rightarrow> string \<Rightarrow> string \<Rightarrow> string \<Rightarrow> PoolMemberSpec \<Rightarrow> PoolMemberResource hio" where
  "ra_UpdatePoolMember E lb vs pool member spec =
     then_return (http_UpdateLBVirtualServerPoolMember E lb vs pool member (poolMemberSpecQuery spec)) parsePoolMember"

definition ra_DeletePoolMember :: "henv \<Rightarrow> string \<Rightarrow> string \<Rightarrow> string \<Rightarrow> string \<Rightarrow> unit hio" where
  "ra_DeletePoolMember E lb vs pool member = http_DeleteLBVirtualServerPoolMember E lb vs pool member"

definition ra_ListMonitors :: "henv \<Rightarrow> string \<Rightarrow> string \<Rightarrow> string \<Rightarrow> MonitorResource list hio" where
  "ra_ListMonitors E lb vs pool =
     then_return (http_ListLBVirtualServerPoolMonitors E lb vs pool) (\<lambda>items. filter (\<lambda>m. mr_ID m \<noteq> []) (map (\<lambda>v. parseMonitor (Some v)) items))"

definition ra_CreateMonitor :: "henv \<Rightarrow> string \<Rightarrow> string \<Rightarrow> string \<Rightarrow> MonitorSpec \<Rightarrow> MonitorResource hio" where
  "ra_CreateMonitor E lb vs pool spec =
     then_return (http_CreateLBVirtualServerPoolMonitor E lb vs pool (monitorSpecQuery spec)) parseMonitor"

definition ra_UpdateMonitor :: "henv \<Rightarrow> string \<Rightarrow> string \<Rightarrow> string \<Rightarrow> string \<Rightarrow> MonitorSpec \<Rightarrow> MonitorResource hio" where
  "ra_UpdateMonitor E lb vs pool i spec =
     then_return (http_UpdateLBVirtualServerPoolMonitor E lb vs pool i (monitorSpecQuery spec)) parseMonitor"

definition ra_DeleteMonitor :: "henv \<Rightarrow> string \<Rightarrow> string \<Rightarrow> string \<Rightarrow> string \<Rightarrow> unit hio" where
  "ra_DeleteMonitor E lb vs pool i = http_DeleteLBVirtualServerPoolMonitor E lb vs pool i"

definition ra_ListRoutingRules :: "henv \<Rightarrow> string \<Rightarrow> string \<Rightarrow> RoutingRuleResource list hio" where
  "ra_ListRoutingRules E lb vs =
     then_return (http_ListLBVirtualServerRoutingRules E lb vs) (\<lambda>items. filter (\<lambda>r. ru_ID r \<noteq> []) (map (\<lambda>v. parseRoutingRule (Some v)) items))"

definition ra_CreateRoutingRule :: "henv \<Rightarrow> string \<Rightarrow> string \<Rightarrow> RoutingRuleSpec \<Rightarrow> RoutingRuleResource hio" where
  "ra_CreateRoutingRule E lb vs spec = then_return (http_CreateLBVirtualServerRoutingRule E lb vs (rule_spec_query spec)) parseRoutingRule"

definition ra_DeleteRoutingRule :: "henv \<Rightarrow> string \<Rightarrow> string \<Rightarrow> string \<Rightarrow> unit hio" where
  "ra_DeleteRoutingRule E lb vs i = http_DeleteLBVirtualServerRoutingRule E lb vs i"

subsection \<open>What CMP reads from a form\<close>

text \<open>The values of one parameter, in order.\<close>

definition param :: "(string \<times> string) list \<Rightarrow> string \<Rightarrow> string list" where
  "param q k = map snd (filter (\<lambda>p. fst p = k) q)"

lemma gm_wf_q [simp]: "gm_wf q \<Longrightarrow> gm_wf (q_set k v q)" "gm_wf q \<Longrightarrow> gm_wf (q_add k v q)" "gm_wf q \<Longrightarrow> gm_wf (q_set_if b k v q)"
  by (simp_all add: q_set_def q_add_def q_set_if_def)

lemma q_index [simp]:
  "gm_index [] (q_set k v q) k' = (if k' = k then [v] else gm_index [] q k')"
  "gm_index [] (q_add k v q) k' = (if k' = k then gm_index [] q k @ [v] else gm_index [] q k')"
  "gm_index [] (q_set_if b k v q) k' = (if b \<and> k' = k then [v] else gm_index [] q k')"
  by (auto simp: q_set_def q_add_def q_set_if_def gm_index_def)

lemma fold_q_add [simp]:
  "gm_wf q \<Longrightarrow> gm_wf (fold (q_add k) vs q)"
  "gm_index [] (fold (q_add k) vs q) k' = (if k' = k then gm_index [] q k @ vs else gm_index [] q k')"
  by (induction vs arbitrary: q) simp_all

lemma param_query_pairs: "gm_wf q \<Longrightarrow> param (query_pairs q) k = gm_index [] q k"
proof -
  assume wf: "gm_wf q"
  have pairs: "distinct (map fst xs) \<Longrightarrow>
      param (concat (map (\<lambda>(k, vs). map (Pair k) vs) xs)) k = gm_index [] xs k" for xs :: url_values
  proof (induction xs)
    case (Cons x xs)
    obtain j vs where x: "x = (j, vs)" by (cases x)
    have "j \<notin> fst ` set xs" using Cons.prems x by simp
    then have "map_of xs j = None" by (simp add: map_of_eq_None_iff)
    moreover have "param (concat (map (\<lambda>(k, vs). map (Pair k) vs) xs)) k = gm_index [] xs k" using Cons by simp
    ultimately show ?case by (auto simp: x param_def gm_index_def filter_map_conv comp_def)
  qed (simp add: param_def gm_index_def)
  have distinct: "distinct (map fst (sort_key fst q))" using wf by (simp add: gm_wf_def distinct_map)
  have "map_of (sort_key fst q) = map_of q"
    using wf distinct by (intro map_of_eqI) (auto simp: gm_wf_def map_of_eq_Some_iff)
  then show ?thesis using pairs [OF distinct] by (simp add: query_pairs_def gm_index_def)
qed

text \<open>
  From the body of a virtual-server creation CMP reads back what was asked for: the name, VIP,
  protocol and port, and one node document per backend in the order of the specification; values may
  contain any characters.
\<close>

theorem vs_form_roundtrip:
  "let q = ParseQuery (q_encode (vs_spec_form s)) in
   param q ''name'' = [vsp_Name s] \<and> param q ''vip_port_id'' = [vsp_VIPPortID s] \<and>
   param q ''protocol'' = [vsp_Protocol s] \<and> param q ''port'' = [show_i32 (vsp_Port s)] \<and>
   param q ''nodes'' = map vs_node_text (vsp_Nodes s) \<and>
   param q ''pool_name'' = (if vsp_PoolName s = [] then [] else [vsp_PoolName s])"
proof -
  have "gm_wf (vs_spec_form s)" by (simp add: vs_spec_form_def Let_def)
  note pairs = param_query_pairs [OF this]
  show ?thesis
    unfolding Let_def ParseQuery_q_encode pairs
    by (simp add: vs_spec_form_def Let_def gm_index_def [of _ "[]"])
qed

end
