(* ===== verification/Production.thy ===== *)
theory Production
  imports RawAdapter RoutingRules MemberManager Certificates
begin

text \<open>
  The deployer as \<open>NewFromRaw\<close> builds it (\<open>pkg/deploy/lbaas/raw_adapter.go\<close>): every capability of
  the CMP interface is the adapter's operation on the one HTTP client.  \<open>http_cmp\<close> is the provider
  record of the managers in production: its answer to a call after a history of calls is the answer of
  the HTTP client in the state those calls have left it in.  All properties of the managers, which
  hold for every provider record, hold for this one; below are the ones that need it.
\<close>

fun perform :: "henv \<Rightarrow> codec \<Rightarrow> call \<Rightarrow> hstate \<Rightarrow> hstate" where
  "perform E C (ListLBServices o1) s = snd (ra_ListLBServices E o1 s)"
| "perform E C (CreateLBService sp) s = snd (ra_CreateLBService E sp s)"
| "perform E C (DeleteLBService i) s = snd (ra_DeleteLBService E i s)"
| "perform E C (GetLBService i) s = snd (ra_GetLBService E i s)"
| "perform E C (ListVIPs lb sn) s = snd (ra_ListVIPs E C lb sn s)"
| "perform E C (CreateVIP lb sn) s = snd (ra_CreateVIP E C lb sn s)"
| "perform E C (DeleteVIP lb i) s = snd (ra_DeleteVIP E lb i s)"
| "perform E C (ListVirtualServers lb) s = snd (ra_ListVirtualServers E lb s)"
| "perform E C (GetVirtualServer lb i) s = snd (ra_GetVirtualServer E lb i s)"
| "perform E C (CreateVirtualServer lb sp) s = snd (ra_CreateVirtualServer E lb sp s)"
| "perform E C (DeleteVirtualServer lb i) s = snd (ra_DeleteVirtualServer E lb i s)"
| "perform E C (GetCompute i) s = snd (ra_GetCompute E C i s)"
| "perform E C (GetNetwork i) s = snd (ra_GetNetwork E i s)"
| "perform E C (ListPools lb vs) s = snd (ra_ListPools E lb vs s)"
| "perform E C (CreatePool lb vs sp) s = snd (ra_CreatePool E lb vs sp s)"
| "perform E C (DeletePool lb vs i) s = snd (ra_DeletePool E lb vs i s)"
| "perform E C (SetDefaultPool lb vs i) s = snd (ra_SetDefaultPool E lb vs i s)"
| "perform E C (CreatePoolMember lb vs p sp) s = snd (ra_CreatePoolMember E lb vs p sp s)"
| "perform E C (UpdatePoolMember lb vs p i sp) s = snd (ra_UpdatePoolMember E lb vs p i sp s)"
| "perform E C (DeletePoolMember lb vs p i) s = snd (ra_DeletePoolMember E lb vs p i s)"
| "perform E C (ListMonitors lb vs p) s = snd (ra_ListMonitors E lb vs p s)"
| "perform E C (CreateMonitor lb vs p sp) s = snd (ra_CreateMonitor E lb vs p sp s)"
| "perform E C (UpdateMonitor lb vs p i sp) s = snd (ra_UpdateMonitor E lb vs p i sp s)"
| "perform E C (DeleteMonitor lb vs p i) s = snd (ra_DeleteMonitor E lb vs p i s)"
| "perform E C (ListRoutingRules lb vs) s = snd (ra_ListRoutingRules E lb vs s)"
| "perform E C (CreateRoutingRule lb vs sp) s = snd (ra_CreateRoutingRule E lb vs sp s)"
| "perform E C (DeleteRoutingRule lb vs i) s = snd (ra_DeleteRoutingRule E lb vs i s)"
| "perform E C (ListCertificates lb) s = snd (ra_ListCertificates E lb s)"
| "perform E C (UploadCertificate lb sp) s = snd (ra_UploadCertificate E lb sp s)"
| "perform E C (DeleteCertificate lb i) s = snd (ra_DeleteCertificate E lb i s)"
| "perform E C (BindCertificate lb vs i) s = snd (ra_BindCertificate E lb vs i s)"
| "perform E C (UnbindCertificate lb vs i) s = snd (ra_UnbindCertificate E lb vs i s)"
| "perform E C (LBReady st) s = s"

definition replay :: "henv \<Rightarrow> codec \<Rightarrow> hclient \<Rightarrow> history \<Rightarrow> hstate" where
  "replay E C c h = fold (perform E C) h \<lparr>hs_client = c, hs_log = []\<rparr>"

definition http_cmp :: "henv \<Rightarrow> codec \<Rightarrow> hclient \<Rightarrow> (ObservedState \<Rightarrow> history \<Rightarrow> err + unit) \<Rightarrow>
    (history \<Rightarrow> string list \<Rightarrow> string list) \<Rightarrow> cmp" where
  "http_cmp E C c hook ord =
    \<lparr>r_ListLBServices = (\<lambda>o1 h. fst (ra_ListLBServices E o1 (replay E C c h))),
     r_CreateLBService = (\<lambda>sp h. fst (ra_CreateLBService E sp (replay E C c h))),
     r_DeleteLBService = (\<lambda>i h. fst (ra_DeleteLBService E i (replay E C c h))),
     r_GetLBService = (\<lambda>i h. fst (ra_GetLBService E i (replay E C c h))),
     r_ListVIPs = (\<lambda>lb sn h. fst (ra_ListVIPs E C lb sn (replay E C c h))),
     r_CreateVIP = (\<lambda>lb sn h. fst (ra_CreateVIP E C lb sn (replay E C c h))),
     r_DeleteVIP = (\<lambda>lb i h. fst (ra_DeleteVIP E lb i (replay E C c h))),
     r_ListVirtualServers = (\<lambda>lb h. fst (ra_ListVirtualServers E lb (replay E C c h))),
     r_GetVirtualServer = (\<lambda>lb i h. fst (ra_GetVirtualServer E lb i (replay E C c h))),
     r_CreateVirtualServer = (\<lambda>lb sp h. fst (ra_CreateVirtualServer E lb sp (replay E C c h))),
     r_DeleteVirtualServer = (\<lambda>lb i h. fst (ra_DeleteVirtualServer E lb i (replay E C c h))),
     r_GetCompute = (\<lambda>i h. fst (ra_GetCompute E C i (replay E C c h))),
     r_GetNetwork = (\<lambda>i h. fst (ra_GetNetwork E i (replay E C c h))),
     r_ListPools = (\<lambda>lb vs h. fst (ra_ListPools E lb vs (replay E C c h))),
     r_CreatePool = (\<lambda>lb vs sp h. fst (ra_CreatePool E lb vs sp (replay E C c h))),
     r_DeletePool = (\<lambda>lb vs i h. fst (ra_DeletePool E lb vs i (replay E C c h))),
     r_SetDefaultPool = (\<lambda>lb vs i h. fst (ra_SetDefaultPool E lb vs i (replay E C c h))),
     r_CreatePoolMember = (\<lambda>lb vs p sp h. fst (ra_CreatePoolMember E lb vs p sp (replay E C c h))),
     r_UpdatePoolMember = (\<lambda>lb vs p i sp h. fst (ra_UpdatePoolMember E lb vs p i sp (replay E C c h))),
     r_DeletePoolMember = (\<lambda>lb vs p i h. fst (ra_DeletePoolMember E lb vs p i (replay E C c h))),
     r_ListMonitors = (\<lambda>lb vs p h. fst (ra_ListMonitors E lb vs p (replay E C c h))),
     r_CreateMonitor = (\<lambda>lb vs p sp h. fst (ra_CreateMonitor E lb vs p sp (replay E C c h))),
     r_UpdateMonitor = (\<lambda>lb vs p i sp h. fst (ra_UpdateMonitor E lb vs p i sp (replay E C c h))),
     r_DeleteMonitor = (\<lambda>lb vs p i h. fst (ra_DeleteMonitor E lb vs p i (replay E C c h))),
     r_ListRoutingRules = (\<lambda>lb vs h. fst (ra_ListRoutingRules E lb vs (replay E C c h))),
     r_CreateRoutingRule = (\<lambda>lb vs sp h. fst (ra_CreateRoutingRule E lb vs sp (replay E C c h))),
     r_DeleteRoutingRule = (\<lambda>lb vs i h. fst (ra_DeleteRoutingRule E lb vs i (replay E C c h))),
     r_ListCertificates = (\<lambda>lb h. fst (ra_ListCertificates E lb (replay E C c h))),
     r_UploadCertificate = (\<lambda>lb sp h. fst (ra_UploadCertificate E lb sp (replay E C c h))),
     r_DeleteCertificate = (\<lambda>lb i h. fst (ra_DeleteCertificate E lb i (replay E C c h))),
     r_BindCertificate = (\<lambda>lb vs i h. fst (ra_BindCertificate E lb vs i (replay E C c h))),
     r_UnbindCertificate = (\<lambda>lb vs i h. fst (ra_UnbindCertificate E lb vs i (replay E C c h))),
     r_LBReady = hook, r_range = ord\<rparr>"

subsection \<open>Documents of the published schema\<close>

text \<open>The keys of CMP's resources in \<open>swagger/compute-swagger.json\<close>
  (\<open>DetailedRoutingRuleSchemaV21\<close>, \<open>BaseVirtualServerPoolMemberSchemaV21\<close>); a certificate's
  \<open>id\<close> is an integer there (\<open>DetailedCertificateSchemaV21\<close>).\<close>

definition has_schema :: "string list \<Rightarrow> json \<Rightarrow> bool" where
  "has_schema ks d = (case d of JObj es \<Rightarrow> list_all (\<lambda>e. fst e \<in> set ks) es | _ \<Rightarrow> False)"

definition rule_schema :: "string list" where
  "rule_schema = [''match_type'', ''path'', ''updated'', ''id'', ''virtual_server_id'', ''is_default'', ''host'', ''created'',
     ''pool_id'', ''virtual_server'', ''pool'']"

definition member_schema :: "string list" where
  "member_schema = [''ip_port'', ''id'', ''operating_status'', ''resource_id'', ''ip'', ''weight'', ''resource_name'',
     ''created'', ''monitor_name'', ''resource_type'', ''max_conn'', ''name'', ''status'', ''port'']"

fun is_number :: "json \<Rightarrow> bool" where
  "is_number (JNum n) = True" | "is_number v = False"

definition certificate_schema :: "json \<Rightarrow> bool" where
  "certificate_schema d = (case d of JObj es \<Rightarrow> list_ex (\<lambda>e. fst e = ''id'' \<and> is_number (snd e)) es | _ \<Rightarrow> False)"

lemma schema_absent:
  assumes "has_schema ks (JObj es)" and "list_all (\<lambda>k. \<not> equal_fold k key) ks"
  shows "read_field d z key es = Some z"
  using assms by (intro read_field_absent) (auto simp: has_schema_def list_all_iff)

lemma rule_schema_no_pool: "has_schema rule_schema d \<Longrightarrow> ru_PoolID (parseRoutingRule (Some d)) = []"
proof -
  assume d: "has_schema rule_schema d"
  then obtain es where es: "d = JObj es" by (cases d) (auto simp: has_schema_def)
  have "list_all (\<lambda>k. \<not> equal_fold k ''PoolID'') rule_schema" by code_simp
  from schema_absent [OF d [unfolded es] this] have "f_string ''PoolID'' es = Some []" .
  then show ?thesis by (simp add: parseRoutingRule_def json_struct_def es split: option.splits)
qed

lemma member_schema_no_port:
  assumes "has_schema member_schema d"
  shows "pm_BackendPortID (parsePoolMember (Some d)) = 0"
proof -
  from assms obtain es where es: "d = JObj es" by (cases d) (auto simp: has_schema_def)
  have "list_all (\<lambda>k. \<not> equal_fold k ''backend_port_id'') member_schema" by code_simp
  from schema_absent [OF assms [unfolded es] this] have "f_int ''backend_port_id'' es = Some 0" .
  then show ?thesis by (simp add: parsePoolMember_def json_struct_def zero_member_def es split: option.splits)
qed

lemma certificate_schema_unread: "certificate_schema d \<Longrightarrow> parseCertificate (Some d) = zero_cert"
proof -
  assume d: "certificate_schema d"
  then obtain es where es: "d = JObj es" by (cases d) (auto simp: certificate_schema_def)
  have keep: "fold (\<lambda>(k, v) acc. if equal_fold k key then Option.bind acc (\<lambda>a. d_string a v) else acc) xs None = None"
    for key and xs :: "(string \<times> json) list" by (induction xs) auto
  have number: "is_number v \<Longrightarrow> d_string a v = None" for v a by (cases v) auto
  have "list_ex (\<lambda>e. fst e = ''id'' \<and> is_number (snd e)) xs \<Longrightarrow>
      fold (\<lambda>(k, v) acc. if equal_fold k ''id'' then Option.bind acc (\<lambda>a. d_string a v) else acc) xs acc = None" for xs acc
    by (induction xs arbitrary: acc) (auto simp: keep number)
  then have "f_string ''id'' es = None" using d by (simp add: es certificate_schema_def read_field_def)
  then show ?thesis by (simp add: parseCertificate_def json_struct_def es)
qed

subsection \<open>What no pass can settle\<close>

lemma fst_then_return: "fst (then_return m f s) = (case fst (m s) of Inl e \<Rightarrow> Inl e | Inr x \<Rightarrow> Inr (f x))"
  by (simp add: then_return_def hio_bind_def hio_try_def hio_fail_def hio_return_def split: prod.splits sum.splits)

lemma key_pool_clash:
  assumes "routingRuleKey h p m [] = routingRuleKey h' p' m' pool" and "trim_space pool \<noteq> []" and "CHR ''|'' \<notin> set pool"
  shows False
proof -
  have "last (routingRuleKey h p m []) = CHR ''|''" by (simp add: routingRuleKey_def Let_def)
  moreover have "last (routingRuleKey h' p' m' pool) = last (trim_space pool)"
    using assms(2) by (simp add: routingRuleKey_def Let_def)
  ultimately have "CHR ''|'' \<in> set (trim_space pool)" using assms(1,2) by (metis last_in_set)
  with assms(3) set_trim_by [of is_space pool] show False by (auto simp: trim_space_def)
qed

text \<open>
  With the production adapter and a CMP that answers by its published schema, no routing-rule pass
  is ever settled: the decoded rules have no pool, so every successful pass creates every desired rule
  again.
\<close>

theorem rules_created_every_pass:
  assumes "fst (http_ListLBVirtualServerRoutingRules E lb vs (replay E C c h)) = Inr docs"
    and "list_all (has_schema rule_schema) docs"
    and "result_of (RoutingRuleManager_EnsureOwned (http_cmp E C c hook ord) lb vs desired owned) h = Inr (out, changed)"
    and "spec \<in> set desired" and "trim_space (rs_PoolID spec) \<noteq> []" and "CHR ''|'' \<notin> set (rs_PoolID spec)"
  shows "CreateRoutingRule lb vs spec \<in>
    set (calls_of (RoutingRuleManager_EnsureOwned (http_cmp E C c hook ord) lb vs desired owned) h) \<and> changed"
proof -
  let ?A = "http_cmp E C c hook ord" and ?q = "(lb, vs, desired, owned, False)"
  let ?rules = "filter (\<lambda>r. ru_ID r \<noteq> []) (map (\<lambda>v. parseRoutingRule (Some v)) docs)"
  have listed: "r_ListRoutingRules ?A lb vs h = Inr ?rules"
    using assms(1) by (simp add: http_cmp_def ra_ListRoutingRules_def fst_then_return)
  have "map_of (rules_by_key owned False ?rules) (rule_spec_key spec) = None"
  proof (rule ccontr)
    assume "map_of (rules_by_key owned False ?rules) (rule_spec_key spec) \<noteq> None"
    then obtain r where "map_of (rules_by_key owned False ?rules) (rule_spec_key spec) = Some r" by blast
    from rules_by_key_in [OF this] obtain d where "d \<in> set docs" "rule_key (parseRoutingRule (Some d)) = rule_spec_key spec" by auto
    moreover from this(1) assms(2) have "ru_PoolID (parseRoutingRule (Some d)) = []"
      by (intro rule_schema_no_pool) (simp add: list_all_iff)
    ultimately show False
      using assms(5,6) key_pool_clash by (metis rule_key_def rule_spec_key_def)
  qed
  then have "CreateRoutingRule lb vs spec \<in> set (rule_plan ?A ?q h)"
    using assms(4) by (auto simp: rule_plan_def listed Let_def rule_plan1_def)
  moreover have run: "calls_of (rule_run ?A ?q) h = rule_plan ?A ?q h \<and> changed = (mutations (calls_of (rule_run ?A ?q) h) \<noteq> [])"
    using assms(3) by (intro rules.success_follows_plan) (simp add: rule_run_def RoutingRuleManager_EnsureOwned_def)
  ultimately have "CreateRoutingRule lb vs spec \<in> set (mutations (calls_of (rule_run ?A ?q) h))"
    by (simp add: set_mutations)
  moreover from this have "mutations (calls_of (rule_run ?A ?q) h) \<noteq> []" by (metis empty_iff empty_set)
  ultimately show ?thesis
    using run by (simp add: rule_run_def RoutingRuleManager_EnsureOwned_def set_mutations)
qed

lemma member_key_clash:
  assumes "poolMemberKey r ip 0 po = poolMemberKey r' ip' bp po'"
  shows "bp = 0"
proof -
  have no: "CHR ''|'' \<notin> set (show_int i)" for i by (auto dest: show_int_chars simp: is_digit_def)
  have split_last: "a @ CHR ''|'' # b = a' @ CHR ''|'' # b' \<Longrightarrow> CHR ''|'' \<notin> set b \<Longrightarrow> CHR ''|'' \<notin> set b' \<Longrightarrow> a = a' \<and> b = b'"
    for a b a' b' :: string
  proof (induction b arbitrary: b' rule: rev_induct)
    case Nil
    then show ?case by (cases b' rule: rev_cases) auto
  next
    case (snoc x xs)
    then show ?case by (cases b' rule: rev_cases) auto
  qed
  from assms have "(trim_space r @ ''|'' @ trim_space ip @ ''|'' @ show_int 0) @ CHR ''|'' # show_int (sint po) =
      (trim_space r' @ ''|'' @ trim_space ip' @ ''|'' @ show_int bp) @ CHR ''|'' # show_int (sint po')"
    by (simp add: poolMemberKey_def show_i32_def)
  from split_last [OF this no no]
  have "(trim_space r @ ''|'' @ trim_space ip) @ CHR ''|'' # show_int 0 =
      (trim_space r' @ ''|'' @ trim_space ip') @ CHR ''|'' # show_int bp" by simp
  from split_last [OF this no no] have "show_int 0 = show_int bp" by simp
  then show ?thesis unfolding show_int_inj by simp
qed

text \<open>
  The same holds of the members of a pool: a member of the published schema has no backend port,
  so no desired member is found among those CMP lists, and every successful pass creates each of them
  again and deletes every listed one that has an identifier.
\<close>

theorem members_replaced_every_pass:
  assumes "list_all (has_schema member_schema) docs"
    and "result_of (BackendMemberManager_Ensure A lb vs pool (map (\<lambda>d. parsePoolMember (Some d)) docs) desired) h = Inr (out, changed)"
    and "list_all member_spec_ok desired"
  shows "calls_of (BackendMemberManager_Ensure A lb vs pool (map (\<lambda>d. parsePoolMember (Some d)) docs) desired) h =
    map (CreatePoolMember lb vs pool) desired @
    map (\<lambda>m. DeletePoolMember lb vs pool (pm_ID m))
      (filter (\<lambda>m. trim_space (pm_ID m) \<noteq> []) (map snd (go_range (r_range A (h @ map (CreatePoolMember lb vs pool) desired))
        (members_by_key (map (\<lambda>d. parsePoolMember (Some d)) docs)))))"
proof -
  let ?observed = "map (\<lambda>d. parsePoolMember (Some d)) docs" and ?q = "(lb, vs, pool, map (\<lambda>d. parsePoolMember (Some d)) docs, desired)"
  have fresh: "poolMemberSpecKey spec \<noteq> k" if "map_of (members_by_key ?observed) k = Some m" "spec \<in> set desired" for spec k m
  proof
    assume "poolMemberSpecKey spec = k"
    with members_by_key_in [OF that(1)] obtain d where d: "d \<in> set docs" "member_key (parsePoolMember (Some d)) = poolMemberSpecKey spec" by auto
    from d(1) assms(1) have "pm_BackendPortID (parsePoolMember (Some d)) = 0" by (intro member_schema_no_port) (simp add: list_all_iff)
    with d(2) have "ps_BackendPortID spec = 0" unfolding member_key_def poolMemberSpecKey_def by (metis member_key_clash)
    moreover have "ps_BackendPortID spec \<noteq> 0" using assms(3) that(2) by (auto simp: list_all_iff member_spec_ok_def)
    ultimately show False by simp
  qed
  have none: "map_of (members_by_key ?observed) (poolMemberSpecKey spec) = None" if "spec \<in> set desired" for spec
    using fresh that by (cases "map_of (members_by_key ?observed) (poolMemberSpecKey spec)") auto
  then have creates: "concat (map (member_plan1 lb vs pool (members_by_key ?observed)) desired) = map (CreatePoolMember lb vs pool) desired"
    by (simp add: member_plan1_def concat_map_singleton cong: map_cong)
  have stale: "stale (\<lambda>key. key \<in> poolMemberSpecKey ` set desired) pm_ID (go_range ord (members_by_key ?observed)) =
      filter (\<lambda>m. trim_space (pm_ID m) \<noteq> []) (map snd (go_range ord (members_by_key ?observed)))" for ord
    by (auto simp: stale_def go_range_member none filter_map_conv comp_def intro!: arg_cong [where f = "map snd"] filter_cong)
  have "calls_of (member_run A ?q) h = member_plan A ?q h \<and> changed = (mutations (calls_of (member_run A ?q) h) \<noteq> [])"
    using assms(2) by (intro members.success_follows_plan) (simp add: member_run_def)
  then show ?thesis by (simp add: member_run_def member_plan_def Let_def creates stale)
qed

text \<open>
  Certificates of the published schema are invisible to the production adapter, whose identifiers
  are strings: it lists none of them and reads a created one without an identifier, so that uploading
  a certificate always ends in an error, after CMP has stored it.
\<close>

theorem certificates_unreadable:
  assumes "fst (http_ListLBServiceCertificates E lb (replay E C c h)) = Inr docs" and "list_all certificate_schema docs"
    and "fst (http_CreateLBServiceCertificate E lb (cert_spec_query (cert_spec cert)) (replay E C c h')) = Inr (Some doc)"
    and "certificate_schema doc"
  shows "r_ListCertificates (http_cmp E C c hook ord) lb h = Inr [] \<and>
    fst (cert_upload (http_cmp E C c hook ord) lb cert (cert_spec cert) h') =
      Inl (Errorf ''CMP created certificate %s without a provider id'' [cert_Name cert])"
proof
  show "r_ListCertificates (http_cmp E C c hook ord) lb h = Inr []"
    using assms(1,2) by (auto simp: http_cmp_def ra_ListCertificates_def fst_then_return list_all_iff
        certificate_schema_unread zero_cert_def filter_empty_conv)
  have "r_UploadCertificate (http_cmp E C c hook ord) lb (cert_spec cert) h' = Inr zero_cert"
    using assms(3,4) by (simp add: http_cmp_def ra_UploadCertificate_def fst_then_return certificate_schema_unread)
  then show "fst (cert_upload (http_cmp E C c hook ord) lb cert (cert_spec cert) h') =
      Inl (Errorf ''CMP created certificate %s without a provider id'' [cert_Name cert])"
    by (simp add: cert_upload_def do_UploadCertificate_def io_defs zero_cert_def)
qed

subsection \<open>Examples\<close>

text \<open>A CMP that answers every GET with the same list and every other request with the same document.\<close>

definition schema_env :: "json list \<Rightarrow> json \<Rightarrow> henv" where
  "schema_env docs doc = (demo_env [])\<lparr>e_do := (\<lambda>l req. Inr \<lparr>rp_StatusCode = 200, rp_Status = [], rp_Header = [],
     rp_Text = [], rp_Body = JsonBody (if rq_Method req = ''GET'' then JArr docs else doc)\<rparr>)\<rparr>"

lemma schema_env_request:
  "fst (lbaas_request (schema_env docs doc) ''GET'' p raws_result s) = Inr docs"
  "fst (lbaas_request (schema_env docs doc) ''POST'' p raw_result s) = Inr (Some doc)"
  by (simp_all add: lbaas_request_def doRequest_def doRequestWithBodyAndHeaders_def hio_get_def hio_fail_with_def hio_bind_def
      hio_try_def send_authorized_def hio_wrap_def hio_send_def hio_return_def read_response_def schema_env_def demo_env_def
      Let_def make_request_def)

definition cert_doc :: json where "cert_doc = JObj [(''id'', JNum 5), (''name'', JStr ''web'')]"

definition demo_codec :: codec where "demo_codec = \<lparr>dc_text = (\<lambda>s. None), dc_order = id\<rparr>"

abbreviation demo_cmp :: "json list \<Rightarrow> json \<Rightarrow> cmp" where
  "demo_cmp docs doc \<equiv> http_cmp (schema_env docs doc) demo_codec empty_client (\<lambda>st h. Inr ()) (\<lambda>h ks. ks)"

lemma demo_trims: "trim_space ''lb1'' = ''lb1''" "trim_space ''vs1'' = ''vs1''" "trim_space ''p1'' = ''p1''"
  by (simp_all add: trim_space_no_space is_space_def)

theorem certificates_unreadable_witness:
  "r_ListCertificates (demo_cmp [cert_doc] cert_doc) ''lb1'' [] = Inr [] \<and>
   fst (cert_upload (demo_cmp [cert_doc] cert_doc) ''lb1'' demo_cert (cert_spec demo_cert) []) =
     Inl (Errorf ''CMP created certificate %s without a provider id'' [cert_Name demo_cert])"
  by (rule certificates_unreadable [where docs = "[cert_doc]" and doc = cert_doc])
    (simp_all add: http_ListLBServiceCertificates_def http_CreateLBServiceCertificate_def at_path_def lb_sub_path_def require_def
      demo_trims schema_env_request certificate_schema_def cert_doc_def)

definition rule_doc :: json where
  "rule_doc = JObj [(''id'', JStr ''r1''), (''host'', JStr ''shop''), (''path'', JStr ''/''), (''match_type'', JStr ''prefix''), (''pool_id'', JStr ''p1'')]"

definition shop_rule :: RoutingRuleSpec where
  "shop_rule = \<lparr>rs_Host = ''shop'', rs_Path = ''/'', rs_MatchType = ''prefix'', rs_PoolID = ''p1''\<rparr>"

lemma parsed_rule_doc: "parseRoutingRule (Some rule_doc) =
    \<lparr>ru_ID = ''r1'', ru_Host = ''shop'', ru_Path = ''/'', ru_MatchType = [], ru_PoolID = []\<rparr>"
  by code_simp

lemma shop_keys: "rule_spec_key shop_rule \<noteq> rule_key \<lparr>ru_ID = ''r1'', ru_Host = ''shop'', ru_Path = ''/'', ru_MatchType = [], ru_PoolID = []\<rparr>"
  by code_simp

lemma demo_rules_listed: "http_ListLBVirtualServerRoutingRules E ''lb1'' ''vs1'' = lbaas_request E ''GET'' ''/lb_service/lb1/virtual-servers/vs1/routing-rules'' raws_result"
  by (simp add: http_ListLBVirtualServerRoutingRules_def virtualServerRoutingRulePath_def require_def at_path_def demo_trims)

lemma demo_rule_pass:
  "result_of (RoutingRuleManager_EnsureOwned (demo_cmp [rule_doc] rule_doc) ''lb1'' ''vs1'' [shop_rule] []) [] =
     Inr ([\<lparr>ru_ID = ''r1'', ru_Host = ''shop'', ru_Path = ''/'', ru_MatchType = [], ru_PoolID = []\<rparr>], True)"
proof -
  have list: "r_ListRoutingRules (demo_cmp [rule_doc] rule_doc) ''lb1'' ''vs1'' h =
      Inr [\<lparr>ru_ID = ''r1'', ru_Host = ''shop'', ru_Path = ''/'', ru_MatchType = [], ru_PoolID = []\<rparr>]" for h
    by (simp add: http_cmp_def ra_ListRoutingRules_def fst_then_return demo_rules_listed schema_env_request parsed_rule_doc)
  have create: "r_CreateRoutingRule (demo_cmp [rule_doc] rule_doc) ''lb1'' ''vs1'' shop_rule h =
      Inr \<lparr>ru_ID = ''r1'', ru_Host = ''shop'', ru_Path = ''/'', ru_MatchType = [], ru_PoolID = []\<rparr>" for h
    by (simp add: http_cmp_def ra_CreateRoutingRule_def fst_then_return http_CreateLBVirtualServerRoutingRule_def
        virtualServerRoutingRulePath_def require_def at_path_def demo_trims schema_env_request parsed_rule_doc)
  have pool: "trim_space (rs_PoolID shop_rule) \<noteq> []" by (simp add: shop_rule_def demo_trims)
  show ?thesis
    by (simp add: result_of_def RoutingRuleManager_EnsureOwned_def RoutingRuleManager_ensure_def rules_listed_def Let_def
        demo_trims do_ListRoutingRules_def do_CreateRoutingRule_def io_defs list create rule_step_def pool foreign_keys_def
        rule_owned_def rules_by_key_def shop_keys delete_stale_def)
qed

theorem rules_created_every_pass_witness:
  "CreateRoutingRule ''lb1'' ''vs1'' shop_rule \<in>
     set (calls_of (RoutingRuleManager_EnsureOwned (demo_cmp [rule_doc] rule_doc) ''lb1'' ''vs1'' [shop_rule] []) [])"
proof -
  have "fst (http_ListLBVirtualServerRoutingRules (schema_env [rule_doc] rule_doc) ''lb1'' ''vs1''
      (replay (schema_env [rule_doc] rule_doc) demo_codec empty_client [])) = Inr [rule_doc]"
    by (simp add: demo_rules_listed schema_env_request)
  from rules_created_every_pass [OF this _ demo_rule_pass, of shop_rule] show ?thesis
    by (simp add: has_schema_def rule_schema_def rule_doc_def shop_rule_def demo_trims)
qed

definition member_doc :: json where
  "member_doc = JObj [(''id'', JStr ''m1''), (''resource_id'', JStr ''c-1''), (''ip'', JStr ''10.0.0.1''), (''port'', JNum 80), (''weight'', JNum 1)]"

lemma demo_documented_run:
  "BackendMemberManager_Ensure member_cmp ''lb'' ''vs'' ''p'' (map (\<lambda>d. parsePoolMember (Some d)) [member_doc]) [demo_spec ''10.0.0.1'' 80] [] =
   (Inr ([stored_member ''new'' (demo_spec ''10.0.0.1'' 80)], True),
    [CreatePoolMember ''lb'' ''vs'' ''p'' (demo_spec ''10.0.0.1'' 80), DeletePoolMember ''lb'' ''vs'' ''p'' ''m1''])"
  by code_simp

theorem members_replaced_every_pass_witness:
  "CreatePoolMember ''lb'' ''vs'' ''p'' (demo_spec ''10.0.0.1'' 80) \<in>
     set (calls_of (BackendMemberManager_Ensure member_cmp ''lb'' ''vs'' ''p'' (map (\<lambda>d. parsePoolMember (Some d)) [member_doc]) [demo_spec ''10.0.0.1'' 80]) [])"
proof -
  have "list_all (has_schema member_schema) [member_doc]" by (simp add: has_schema_def member_schema_def member_doc_def)
  moreover have "result_of (BackendMemberManager_Ensure member_cmp ''lb'' ''vs'' ''p'' (map (\<lambda>d. parsePoolMember (Some d)) [member_doc])
      [demo_spec ''10.0.0.1'' 80]) [] = Inr ([stored_member ''new'' (demo_spec ''10.0.0.1'' 80)], True)"
    unfolding result_of_def demo_documented_run by simp
  moreover have "list_all member_spec_ok [demo_spec ''10.0.0.1'' 80]" by code_simp
  ultimately show ?thesis by (subst members_replaced_every_pass) simp_all
qed

end
