(* ===== verification/ControlPlane.thy ===== *)
theory ControlPlane
  imports HttpClient
begin

text \<open>
  The control-plane flow of \<open>pkg/f5/client.go\<close>: \<open>EnsureControlPlaneVirtualServer\<close> finds or
  creates the LB service of the partition, its VIP and the API server's virtual server, in this
  order, and \<open>DeleteControlPlaneVirtualServer\<close> removes them in reverse.  The identifiers a failing
  pass returns beside its error are dropped: its caller does not read them.
\<close>

subsection \<open>Finding a resource by name\<close>

text \<open>The ID and the name of a listed resource, trimmed; \<open>extra\<close> are further string fields that
  must decode.\<close>

definition id_name :: "string list \<Rightarrow> raw \<Rightarrow> (string \<times> string) option" where
  "id_name extra r =
     Option.bind (json_struct r) (\<lambda>es.
       if \<exists>k \<in> set extra. f_string k es = None then None
       else case (f_string ''id'' es, f_string ''name'' es) of
              (Some i, Some n) \<Rightarrow> Some (trim_space i, trim_space n) | _ \<Rightarrow> None)"

definition candidates :: "string list \<Rightarrow> json list \<Rightarrow> (string \<times> string) list" where
  "candidates extra items = filter (\<lambda>p. fst p \<noteq> []) (List.map_filter (\<lambda>v. id_name extra (Some v)) items)"

text \<open>The first candidate of the expected name, or else the only candidate.\<close>

definition reuse :: "string \<Rightarrow> (string \<times> string) list \<Rightarrow> string option" where
  "reuse expectedName cands =
     (case find (\<lambda>p. snd p = expectedName) cands of
        Some p \<Rightarrow> Some (fst p)
      | None \<Rightarrow> if length cands = 1 then Some (fst (hd cands)) else None)"

definition lb_form_values :: "hclient \<Rightarrow> url_values" where
  "lb_form_values c =
     q_set_if (hc_cpVPCName c \<noteq> []) ''vpc_name'' (hc_cpVPCName c)
      (q_set_if (hc_cpVPCID c \<noteq> []) ''vpc_id'' (hc_cpVPCID c)
        (q_set_if (hc_cpNetworkID c \<noteq> []) ''network_id'' (hc_cpNetworkID c)
          (q_set_if (hc_cpFlavorID c \<noteq> 0) ''flavor_id'' (show_i32 (hc_cpFlavorID c))
            (q_set ''description'' (''Control-plane LB for '' @ hc_partition c)
              (q_set ''name'' (''cp-lb-'' @ hc_partition c) [])))))"

definition created_lb :: "raw \<Rightarrow> err + string" where
  "created_lb r =
     (case Option.bind (json_struct r) (f_string ''id'') of
        None \<Rightarrow> Inl (Wrapf ''parsing LB Service create response: %w'' [] (OtherErr ''json''))
      | Some i \<Rightarrow> if trim_space i = [] then Inl (Errorf ''LB Service created but no ID returned: %s'' [raw_text r])
                  else Inr (trim_space i))"

definition ensureOrFindLBService :: "henv \<Rightarrow> string hio" where
  "ensureOrFindLBService E = hio_get (\<lambda>s.
     hio_bind (http_ListLBServices E None) (\<lambda>items.
       case reuse (''cp-lb-'' @ hc_partition (hs_client s)) (candidates [''status''] items) of
         Some i \<Rightarrow> hio_return i
       | None \<Rightarrow> hio_bind (http_CreateLBService E (lb_form_values (hs_client s))) (\<lambda>r. hio_result (created_lb r))))"

subsection \<open>The VIP\<close>

definition vip_item_id :: "json \<Rightarrow> string option" where
  "vip_item_id v =
     (let es = json_struct (Some v) in
      case Option.bind es (f_string ''id'') of
        Some i \<Rightarrow> if trim_space i \<noteq> [] then Some (trim_space i)
                  else (case Option.bind es (f_int ''id'') of Some n \<Rightarrow> if n \<noteq> 0 then Some (show_int n) else None | None \<Rightarrow> None)
      | None \<Rightarrow> (case Option.bind es (f_int ''id'') of Some n \<Rightarrow> if n \<noteq> 0 then Some (show_int n) else None | None \<Rightarrow> None))"

definition created_vip :: "raw \<Rightarrow> err + string" where
  "created_vip r =
     (case Option.bind (json_struct r) (f_int ''id'') of
        None \<Rightarrow> Inl (Wrapf ''parsing VIP create response: %w'' [] (OtherErr ''json''))
      | Some n \<Rightarrow>
          if n \<noteq> 0 then Inr (show_int n)
          else (case Option.bind (json_struct r) (f_string ''id'') of
                  Some i \<Rightarrow> if trim_space i \<noteq> [] then Inr (trim_space i)
                            else Inl (Errorf ''VIP created but no ID returned: %s'' [raw_text r])
                | None \<Rightarrow> Inl (Errorf ''VIP created but no ID returned: %s'' [raw_text r])))"

definition ensureOrFindVIP :: "henv \<Rightarrow> string \<Rightarrow> string hio" where
  "ensureOrFindVIP E lb =
     hio_bind (http_GetLBServiceVIPs E lb []) (\<lambda>vips.
       case List.map_filter vip_item_id vips of
         i # _ \<Rightarrow> hio_return i
       | [] \<Rightarrow> hio_bind (http_CreateLBServiceVIP E lb []) (\<lambda>r. hio_result (created_vip r)))"

subsection \<open>The virtual server\<close>

record Backend =
  be_IP :: string
  be_Port :: int32

definition cp_vs_name :: string where "cp_vs_name = ''cp-apiserver-vs''"

definition cp_node :: "nat \<Rightarrow> Backend \<Rightarrow> string" where
  "cp_node i b = marshal_map
     [(''compute_id'', JStr (''cp-'' @ show_nat i)), (''compute_ip'', JStr (be_IP b)),
      (''backend_port_id'', JNum (int i + 1)), (''port'', JNum (sint (be_Port b))), (''weight'', JNum 50)]"

definition cp_vs_form :: "hclient \<Rightarrow> string \<Rightarrow> int32 \<Rightarrow> Backend list \<Rightarrow> url_values" where
  "cp_vs_form c vipPortID port backends =
     fold (q_add ''nodes'') (map (\<lambda>(i, b). cp_node i b) (enumerate 0 backends))
       (q_set_if (hc_cpVPCID c \<noteq> []) ''vpc_id'' (hc_cpVPCID c)
         (q_set ''interval'' (show_i32 (hc_cpMonitorInterval c))
           (q_set ''routing_algorithm'' (hc_cpRoutingAlgorithm c)
             (q_set ''port'' (show_i32 port)
               (q_set ''protocol'' ''TCP'' (q_set ''vip_port_id'' vipPortID (q_set ''name'' cp_vs_name [])))))))"

definition created_vs :: "raw \<Rightarrow> err + string" where
  "created_vs r =
     (case id_name [] r of
        None \<Rightarrow> Inl (Wrapf ''parsing virtual server create response: %w'' [] (OtherErr ''json''))
      | Some (i, n) \<Rightarrow> Inr (if i \<noteq> [] then i else if n \<noteq> [] then n else cp_vs_name))"

definition ensureOrFindVirtualServer :: "henv \<Rightarrow> string \<Rightarrow> string \<Rightarrow> int32 \<Rightarrow> Backend list \<Rightarrow> string hio" where
  "ensureOrFindVirtualServer E lb vipPortID port backends = hio_get (\<lambda>s.
     hio_bind (http_ListLBVirtualServers E lb) (\<lambda>items.
       case reuse cp_vs_name (candidates [] items) of
         Some i \<Rightarrow> hio_return i
       | None \<Rightarrow> hio_bind (http_CreateLBVirtualServer E lb (cp_vs_form (hs_client s) vipPortID port backends))
                   (\<lambda>r. hio_result (created_vs r))))"

subsection \<open>Ensure and delete\<close>

record CMPResourceIDs =
  ci_LBServiceID :: string
  ci_VIPPortID :: string
  ci_VirtualServerID :: string
  ci_VirtualServerName :: string

definition ensureControlPlaneViaCMPLBaaS :: "henv \<Rightarrow> int32 \<Rightarrow> Backend list \<Rightarrow> CMPResourceIDs hio" where
  "ensureControlPlaneViaCMPLBaaS E port backends =
     hio_bind (hio_wrap ''ensuring LB service: %w'' [] (ensureOrFindLBService E)) (\<lambda>lb.
       hio_bind (hio_wrap ''ensuring VIP on LB service %s: %w'' [lb] (ensureOrFindVIP E lb)) (\<lambda>vip.
         hio_bind (hio_wrap ''ensuring virtual server on LB service %s: %w'' [lb]
                     (ensureOrFindVirtualServer E lb vip port backends)) (\<lambda>vs.
           hio_return \<lparr>ci_LBServiceID = lb, ci_VIPPortID = vip, ci_VirtualServerID = vs, ci_VirtualServerName = cp_vs_name\<rparr>)))"

definition EnsureControlPlaneVirtualServer :: "henv \<Rightarrow> string \<Rightarrow> int32 \<Rightarrow> Backend list \<Rightarrow> CMPResourceIDs hio" where
  "EnsureControlPlaneVirtualServer E vip port backends =
     hio_unless (vip = []) ''vip must not be empty''
       (hio_unless (sint port \<le> 0 \<or> 65535 < sint port) ''port must be between 1 and 65535''
         (ensureControlPlaneViaCMPLBaaS E port backends))"

text \<open>Best effort: an error is logged and the next step taken.\<close>

definition best_effort :: "bool \<Rightarrow> unit hio \<Rightarrow> unit hio \<Rightarrow> unit hio" where
  "best_effort wanted m rest = (if wanted then hio_try m (\<lambda>r. rest) else rest)"

definition DeleteControlPlaneVirtualServer :: "henv \<Rightarrow> CMPResourceIDs option \<Rightarrow> unit hio" where
  "DeleteControlPlaneVirtualServer E ids =
     (case ids of
        None \<Rightarrow> hio_return ()
      | Some i \<Rightarrow>
          let lb = ci_LBServiceID i in
          best_effort (ci_VirtualServerID i \<noteq> [] \<and> lb \<noteq> []) (http_DeleteLBVirtualServer E lb (ci_VirtualServerID i))
            (best_effort (ci_VIPPortID i \<noteq> [] \<and> lb \<noteq> []) (http_DeleteLBServiceVIP E lb (ci_VIPPortID i))
              (best_effort (lb \<noteq> []) (http_DeleteLBService E lb) (hio_return ()))))"

subsection \<open>Adoption and best effort\<close>

lemma ensureOrFindLBService_lists:
  assumes "http_ListLBServices E None s = (Inr items, s')"
  shows "ensureOrFindLBService E s =
    (case reuse (''cp-lb-'' @ hc_partition (hs_client s)) (candidates [''status''] items) of
       Some i \<Rightarrow> (Inr i, s')
     | None \<Rightarrow> hio_bind (http_CreateLBService E (lb_form_values (hs_client s))) (\<lambda>r. hio_result (created_lb r)) s')"
  using assms by (simp add: ensureOrFindLBService_def hio_get_def hio_bind_def [of "http_ListLBServices E None"] hio_try_def
      hio_return_def split: option.splits)

text \<open>
  When the project has exactly one LB service with an identifier, the control plane takes it,
  whatever its name is and without creating anything; with two or more, none of the expected name, it
  creates its own.
\<close>

theorem control_plane_adopts:
  assumes "http_ListLBServices E None s = (Inr items, s')"
    and "\<forall>p \<in> set (candidates [''status''] items). snd p \<noteq> ''cp-lb-'' @ hc_partition (hs_client s)"
  shows "ensureOrFindLBService E s =
    (case candidates [''status''] items of
       [p] \<Rightarrow> (Inr (fst p), s')
     | _ \<Rightarrow> hio_bind (http_CreateLBService E (lb_form_values (hs_client s))) (\<lambda>r. hio_result (created_lb r)) s')"
proof -
  have "find (\<lambda>p. snd p = ''cp-lb-'' @ hc_partition (hs_client s)) (candidates [''status''] items) = None"
    using assms(2) by (auto simp: find_None_iff)
  then show ?thesis
    by (auto simp: ensureOrFindLBService_lists [OF assms(1)] reuse_def split: list.splits)
qed

definition demo_list_env :: "json list \<Rightarrow> henv" where
  "demo_list_env items = (demo_env [])\<lparr>e_do := (\<lambda>l req. Inr \<lparr>rp_StatusCode = 200, rp_Status = [], rp_Header = [],
     rp_Text = [], rp_Body = JsonBody (JArr items)\<rparr>)\<rparr>"

lemma demo_list_env_lists:
  obtains s' where "http_ListLBServices (demo_list_env items) None demo_hstate = (Inr items, s')"
  by (simp add: http_ListLBServices_def lbaas_request_def doRequest_def doRequestWithBodyAndHeaders_def hio_get_def
      hio_fail_with_def hio_bind_def hio_try_def send_authorized_def hio_wrap_def hio_send_def hio_return_def
      read_response_def demo_list_env_def demo_env_def Let_def)

theorem control_plane_adopts_witness:
  "fst (ensureOrFindLBService (demo_list_env [JObj [(''id'', JStr ''lb7''), (''name'', JStr ''shop'')]]) demo_hstate) = Inr ''lb7''"
proof -
  let ?items = "[JObj [(''id'', JStr ''lb7''), (''name'', JStr ''shop'')]]"
  have t: "trim_space ''lb7'' = ''lb7''" "trim_space ''shop'' = ''shop''" by (simp_all add: trim_space_no_space is_space_def)
  have fold: "equal_fold ''id'' ''id''" "equal_fold ''name'' ''name''" "\<not> equal_fold ''id'' ''name''" "\<not> equal_fold ''name'' ''id''"
     "\<not> equal_fold ''id'' ''status''" "\<not> equal_fold ''name'' ''status''" by code_simp+
  have c: "candidates [''status''] ?items = [(''lb7'', ''shop'')]"
    by (simp add: candidates_def List.map_filter_def id_name_def json_struct_def read_field_def fold t)
  obtain s' where "http_ListLBServices (demo_list_env ?items) None demo_hstate = (Inr ?items, s')"
    by (rule demo_list_env_lists)
  from control_plane_adopts [OF this] show ?thesis by (simp add: c)
qed

text \<open>
  Deleting the control plane's resources never reports an error, whatever CMP answers, and asks
  for the recorded virtual server, VIP and LB service in this order, each at most twice.
\<close>

theorem control_plane_delete_best_effort:
  "\<exists>qs. fst (DeleteControlPlaneVirtualServer E ids s) = Inr () \<and>
     hs_log (snd (DeleteControlPlaneVirtualServer E ids s)) = hs_log s @ qs \<and> length qs \<le> 6"
proof -
  have step: "heffect (best_effort b m rest) (\<lambda>s qs r. r = Inr () \<and> length qs \<le> n + 2)"
    if "sends 2 m" "heffect rest (\<lambda>s qs r. r = Inr () \<and> length qs \<le> n)" for b m rest n
  proof -
    have "heffect (hio_try m (\<lambda>r. rest)) (\<lambda>s qs r. r = Inr () \<and> length qs \<le> n + 2)"
      by (rule heffect_try [OF that(1) [unfolded sends_def]]) (rule heffect_conseq [OF that(2)], simp)
    moreover have "heffect rest (\<lambda>s qs r. r = Inr () \<and> length qs \<le> n + 2)"
      by (rule heffect_conseq [OF that(2)]) simp
    ultimately show ?thesis by (simp add: best_effort_def)
  qed
  have del: "sends 2 (lb_delete E meth path)" for meth path
    unfolding lb_delete_def swallow_404_def lbaas_request_def
    by (rule sends_try [of 2 _ 0, simplified]) (auto intro: send_intros split: sum.splits)
  have "heffect (DeleteControlPlaneVirtualServer E ids) (\<lambda>s qs r. r = Inr () \<and> length qs \<le> 6)"
  proof (cases ids)
    case None
    then show ?thesis by (simp add: DeleteControlPlaneVirtualServer_def heffect_return)
  next
    case (Some i)
    have "heffect (DeleteControlPlaneVirtualServer E ids) (\<lambda>s qs r. r = Inr () \<and> length qs \<le> 0 + 2 + 2 + 2)"
      unfolding Some DeleteControlPlaneVirtualServer_def option.case Let_def
      by (intro step heffect_return)
        (auto simp: http_DeleteLBVirtualServer_def http_DeleteLBServiceVIP_def http_DeleteLBService_def intro: send_intros del)
    then show ?thesis by (rule heffect_conseq) simp
  qed
  then show ?thesis unfolding heffect_def by blast
qed

text \<open>The requested address plays no part in what is provisioned.\<close>

lemma control_plane_vip_ignored:
  "vip \<noteq> [] \<Longrightarrow> vip' \<noteq> [] \<Longrightarrow>
     EnsureControlPlaneVirtualServer E vip port backends = EnsureControlPlaneVirtualServer E vip' port backends"
  by (simp add: EnsureControlPlaneVirtualServer_def hio_unless_def)

end
