(* ===== verification/RequestSlots.thy ===== *)
theory RequestSlots
  imports Main
begin

text \<open>
  The request slot of \<open>pkg/f5/client.go\<close>.  The reconcilers of a process share one client and its
  channel \<open>requestSlots\<close>, which holds at most one element: \<open>acquireRequestSlot\<close> puts an element
  or gives up when the context ends, and the deferred \<open>releaseRequestSlot\<close> takes one.  A state
  is where each goroutine is in its pass through \<open>doRequestWithBodyAndHeaders\<close> and the number of
  elements in the channel; a step is one goroutine moving.
\<close>

datatype position = Outside | Waiting | Holding | Sending

record slots =
  sl_at :: "nat \<Rightarrow> position"
  sl_filled :: nat

text \<open>\<open>make(chan struct{}, 1)\<close>.\<close>

definition slot_capacity :: nat where "slot_capacity = 1"

definition newCMPRequestSlots :: slots where
  "newCMPRequestSlots = \<lparr>sl_at = (\<lambda>_. Outside), sl_filled = 0\<rparr>"

text \<open>The limiter may refuse (a release without a send) and a request may be sent a second time.\<close>

inductive slot_step :: "slots \<Rightarrow> slots \<Rightarrow> bool" where
  call: "sl_at s i = Outside \<Longrightarrow> slot_step s (s\<lparr>sl_at := (sl_at s)(i := Waiting)\<rparr>)"
| acquire: "sl_at s i = Waiting \<Longrightarrow> sl_filled s < slot_capacity \<Longrightarrow>
    slot_step s (s\<lparr>sl_at := (sl_at s)(i := Holding), sl_filled := Suc (sl_filled s)\<rparr>)"
| cancel: "sl_at s i = Waiting \<Longrightarrow> slot_step s (s\<lparr>sl_at := (sl_at s)(i := Outside)\<rparr>)"
| send: "sl_at s i = Holding \<Longrightarrow> slot_step s (s\<lparr>sl_at := (sl_at s)(i := Sending)\<rparr>)"
| answer: "sl_at s i = Sending \<Longrightarrow> slot_step s (s\<lparr>sl_at := (sl_at s)(i := Holding)\<rparr>)"
| release: "sl_at s i = Holding \<Longrightarrow> 0 < sl_filled s \<Longrightarrow>
    slot_step s (s\<lparr>sl_at := (sl_at s)(i := Outside), sl_filled := sl_filled s - 1\<rparr>)"

inductive slots_reachable :: "slots \<Rightarrow> bool" where
  start: "slots_reachable newCMPRequestSlots"
| step: "slots_reachable s \<Longrightarrow> slot_step s t \<Longrightarrow> slots_reachable t"

definition inside :: "slots \<Rightarrow> nat \<Rightarrow> bool" where
  "inside s i \<longleftrightarrow> sl_at s i = Holding \<or> sl_at s i = Sending"

text \<open>The channel and the positions agree: it is filled exactly while one goroutine is inside.\<close>

definition slots_ok :: "slots \<Rightarrow> bool" where
  "slots_ok s \<longleftrightarrow> (sl_filled s = 0 \<and> (\<forall>i. \<not> inside s i)) \<or> (sl_filled s = 1 \<and> (\<exists>i. inside s i \<and> (\<forall>j. inside s j \<longrightarrow> j = i)))"

lemma inside_upd: "inside (s\<lparr>sl_at := (sl_at s)(i := p)\<rparr>) j = (if j = i then p = Holding \<or> p = Sending else inside s j)"
  "inside (s\<lparr>sl_at := (sl_at s)(i := p), sl_filled := n\<rparr>) j = (if j = i then p = Holding \<or> p = Sending else inside s j)"
  by (auto simp: inside_def)

lemma slots_ok_inside:
  assumes "slots_ok s" and "inside s i"
  shows "sl_filled s = 1" "inside s j \<longleftrightarrow> j = i"
proof -
  from assms obtain k where k: "sl_filled s = 1" "\<And>j. inside s j \<Longrightarrow> j = k" unfolding slots_ok_def by blast
  from k(1) show "sl_filled s = 1" .
  from k(2) [OF assms(2)] have "i = k" .
  then show "inside s j \<longleftrightarrow> j = i" using k(2) [of j] assms(2) by auto
qed

lemma slots_ok_same: "(\<And>j. inside t j = inside s j) \<Longrightarrow> sl_filled t = sl_filled s \<Longrightarrow> slots_ok s \<Longrightarrow> slots_ok t"
  by (simp add: slots_ok_def)

lemma slot_step_ok: "slot_step s t \<Longrightarrow> slots_ok s \<Longrightarrow> slots_ok t"
proof (induction rule: slot_step.induct)
  case (acquire s i)
  then have none: "sl_filled s = 0" "\<And>j. \<not> inside s j" by (auto simp: slots_ok_def slot_capacity_def)
  show ?case unfolding slots_ok_def inside_upd by (rule disjI2) (simp add: none)
next
  case (release s i)
  then have "inside s i" by (simp add: inside_def)
  note one = slots_ok_inside [OF release.prems this]
  show ?case unfolding slots_ok_def inside_upd by (rule disjI1) (simp add: one)
next
  case (call s i)
  then show ?case by (elim slots_ok_same [rotated 2]) (auto simp: inside_def)
next
  case (cancel s i)
  then show ?case by (elim slots_ok_same [rotated 2]) (auto simp: inside_def)
next
  case (send s i)
  then show ?case by (elim slots_ok_same [rotated 2]) (auto simp: inside_def)
next
  case (answer s i)
  then show ?case by (elim slots_ok_same [rotated 2]) (auto simp: inside_def)
qed

lemma slots_reachable_ok: "slots_reachable s \<Longrightarrow> slots_ok s"
proof (induction rule: slots_reachable.induct)
  case start
  show ?case by (simp add: slots_ok_def newCMPRequestSlots_def inside_def)
next
  case (step s t)
  then show ?case by (blast intro: slot_step_ok)
qed


definition one_waits :: slots where
  "one_waits = newCMPRequestSlots\<lparr>sl_at := (sl_at newCMPRequestSlots)(0 := Waiting)\<rparr>"

lemma one_waits_reachable: "slots_reachable one_waits"
  unfolding one_waits_def by (rule step [OF start call]) (simp add: newCMPRequestSlots_def)


lemma release_possible:
  assumes "slots_ok s" and "inside s i"
  obtains t where "slot_step\<^sup>*\<^sup>* s t" "sl_filled t = 0" "\<And>j. j \<noteq> i \<Longrightarrow> sl_at t j = sl_at s j"
proof -
  note filled = slots_ok_inside(1) [OF assms]
  have out: "slot_step\<^sup>*\<^sup>* u (u\<lparr>sl_at := (sl_at u)(i := Outside), sl_filled := sl_filled u - 1\<rparr>)"
    if "sl_at u i = Holding" "sl_filled u = 1" for u
    using that by (intro r_into_rtranclp release) simp_all
  show ?thesis
  proof (cases "sl_at s i = Holding")
    case True
    then show ?thesis using out [of s] filled
      by (intro that [of "s\<lparr>sl_at := (sl_at s)(i := Outside), sl_filled := 0\<rparr>"]) auto
  next
    case False
    then have "sl_at s i = Sending" using assms(2) by (simp add: inside_def)
    then have "slot_step s (s\<lparr>sl_at := (sl_at s)(i := Holding)\<rparr>)" by (rule answer)
    then show ?thesis using out [of "s\<lparr>sl_at := (sl_at s)(i := Holding)\<rparr>"] filled
      by (intro that [of "s\<lparr>sl_at := (sl_at s)(i := Outside), sl_filled := 0\<rparr>"]) (auto intro: converse_rtranclp_into_rtranclp)
  qed
qed

text \<open>
  A goroutine that waits for the slot can always get it: from every reachable state the one that
  is inside, if any, can finish, and the waiting one then takes the slot.
\<close>

theorem slot_can_be_taken:
  assumes "slots_reachable s" and "sl_at s i = Waiting"
  shows "\<exists>t. slot_step\<^sup>*\<^sup>* s t \<and> sl_at t i = Holding"
proof -
  note ok = slots_reachable_ok [OF assms(1)]
  have take_slot: "\<exists>t. slot_step\<^sup>*\<^sup>* u t \<and> sl_at t i = Holding" if "sl_at u i = Waiting" "sl_filled u = 0" for u
    using acquire [OF that(1)] that(2) by (auto simp: slot_capacity_def)
  show ?thesis
  proof (cases "\<exists>k. inside s k")
    case True
    then obtain k where k: "inside s k" by blast
    then have "k \<noteq> i" using assms(2) by (auto simp: inside_def)
    then obtain t where t: "slot_step\<^sup>*\<^sup>* s t" "sl_filled t = 0" "sl_at t i = Waiting"
      using release_possible [OF ok k] assms(2) by metis
    then obtain u where "slot_step\<^sup>*\<^sup>* t u" "sl_at u i = Holding" using take_slot by blast
    with t(1) show ?thesis by (blast intro: rtranclp_trans)
  next
    case False
    then have "sl_filled s = 0" using ok unfolding slots_ok_def by blast
    with assms(2) show ?thesis by (rule take_slot)
  qed
qed

theorem slot_can_be_taken_witness: "\<exists>t. slot_step\<^sup>*\<^sup>* one_waits t \<and> sl_at t 0 = Holding"
  by (rule slot_can_be_taken [OF one_waits_reachable]) (simp add: one_waits_def)

end
