(* ===== verification/Kube.thy ===== *)
theory Kube
  imports Ingress Effects
begin

text \<open>
  The Kubernetes API the controllers use, and their helpers: \<open>pkg/finalizers\<close>, \<open>pkg/status\<close> and
  \<open>pkg/networkpolicy\<close>.  A controller is a computation that logs what it does: calls of the API
  server, events, and provider calls.  The API server is outside the program: the record \<open>kapi\<close>
  holds, per operation, its answer after what was logged so far, so that a theorem holds whatever
  other clients do to the objects in between.  A patch is the pair of the object before and after the
  change (\<open>client.MergeFrom(base)\<close>); the answer to it is the object as the server stores it then.
\<close>

subsection \<open>Operations and answers\<close>

text \<open>An API error, with \<open>apierrors.IsNotFound\<close> told apart.\<close>

datatype kerr = KNotFound string | KError string

definition api_err :: "kerr \<Rightarrow> err" where
  "api_err e = (case e of KNotFound s \<Rightarrow> OtherErr s | KError s \<Rightarrow> OtherErr s)"

record NetworkPolicy =
  np_Name :: string
  np_Namespace :: string
  np_Labels :: "string gomap"
  np_PodSelector :: "string gomap"
  np_Ports :: "(string \<times> int32) list"

datatype act =
    KGetService string string
  | KListServices "string option"
  | KPatchService K8sService K8sService
  | KPatchServiceStatus K8sService K8sService
  | KGetIngress string string
  | KListIngresses "string option"
  | KPatchIngress K8sIngress K8sIngress
  | KPatchIngressStatus K8sIngress K8sIngress
  | KGetSecret string string
  | KPutPolicy NetworkPolicy
  | KDeletePolicy string string
  | KEvent string string
  | Cmp call

record kapi =
  k_GetService :: "string \<Rightarrow> string \<Rightarrow> act list \<Rightarrow> kerr + K8sService"
  k_ListServices :: "string option \<Rightarrow> act list \<Rightarrow> kerr + K8sService list"
  k_PatchService :: "K8sService \<Rightarrow> K8sService \<Rightarrow> act list \<Rightarrow> kerr + K8sService"
  k_PatchServiceStatus :: "K8sService \<Rightarrow> K8sService \<Rightarrow> act list \<Rightarrow> kerr + K8sService"
  k_GetIngress :: "string \<Rightarrow> string \<Rightarrow> act list \<Rightarrow> kerr + K8sIngress"
  k_ListIngresses :: "string option \<Rightarrow> act list \<Rightarrow> kerr + K8sIngress list"
  k_PatchIngress :: "K8sIngress \<Rightarrow> K8sIngress \<Rightarrow> act list \<Rightarrow> kerr + K8sIngress"
  k_PatchIngressStatus :: "K8sIngress \<Rightarrow> K8sIngress \<Rightarrow> act list \<Rightarrow> kerr + K8sIngress"
  k_GetSecret :: "string \<Rightarrow> string \<Rightarrow> act list \<Rightarrow> kerr + K8sSecret"
  k_PutPolicy :: "NetworkPolicy \<Rightarrow> act list \<Rightarrow> kerr + unit"
  k_DeletePolicy :: "string \<Rightarrow> string \<Rightarrow> act list \<Rightarrow> kerr + unit"
  k_cache :: "act list \<Rightarrow> kube"
  k_range :: "act list \<Rightarrow> string list \<Rightarrow> string list"

type_synonym 'a ctl = "(act, 'a) eff"

text \<open>A call whose answer is looked at, and one whose error ends the computation.\<close>

definition kask :: "act \<Rightarrow> (act list \<Rightarrow> kerr + 'a) \<Rightarrow> (kerr + 'a) ctl" where
  "kask c r = (\<lambda>l. (Inr (r l), l @ [c]))"

definition kcall :: "act \<Rightarrow> (act list \<Rightarrow> kerr + 'a) \<Rightarrow> 'a ctl" where
  "kcall c r = invoke c (\<lambda>l. case r l of Inl e \<Rightarrow> Inl (api_err e) | Inr x \<Rightarrow> Inr x)"

definition kevent :: "string \<Rightarrow> string \<Rightarrow> unit ctl" where
  "kevent kind reason = invoke (KEvent kind reason) (\<lambda>l. Inr ())"

definition patch_service :: "kapi \<Rightarrow> K8sService \<Rightarrow> K8sService \<Rightarrow> K8sService ctl" where
  "patch_service K base new = kcall (KPatchService base new) (k_PatchService K base new)"

definition patch_ingress :: "kapi \<Rightarrow> K8sIngress \<Rightarrow> K8sIngress \<Rightarrow> K8sIngress ctl" where
  "patch_ingress K base new = kcall (KPatchIngress base new) (k_PatchIngress K base new)"

definition status_service :: "kapi \<Rightarrow> K8sService \<Rightarrow> K8sService \<Rightarrow> K8sService ctl" where
  "status_service K base new = kcall (KPatchServiceStatus base new) (k_PatchServiceStatus K base new)"

definition status_ingress :: "kapi \<Rightarrow> K8sIngress \<Rightarrow> K8sIngress \<Rightarrow> K8sIngress ctl" where
  "status_ingress K base new = kcall (KPatchIngressStatus base new) (k_PatchIngressStatus K base new)"

text \<open>The answer of the cache of Nodes and EndpointSlices at this moment.\<close>

definition read_cache :: "kapi \<Rightarrow> (kube \<Rightarrow> string + 'a) \<Rightarrow> 'a ctl" where
  "read_cache K f = (\<lambda>l. (case f (k_cache K l) of Inl e \<Rightarrow> Inl (OtherErr e) | Inr x \<Rightarrow> Inr x, l))"

subsection \<open>Provider passes inside a controller\<close>

fun cmp_call :: "act \<Rightarrow> call option" where
  "cmp_call (Cmp c) = Some c"
| "cmp_call _ = None"

definition cmp_history :: "act list \<Rightarrow> history" where
  "cmp_history l = List.map_filter cmp_call l"

text \<open>Run a computation of the deployer on the provider calls logged so far.\<close>

definition run_cmp :: "(act list \<Rightarrow> 'a io) \<Rightarrow> 'a ctl" where
  "run_cmp m = (\<lambda>l. case m l (cmp_history l) of
     (r, h) \<Rightarrow> (r, l @ map Cmp (drop (length (cmp_history l)) h)))"

lemma cmp_history_append [simp]: "cmp_history (l @ l') = cmp_history l @ cmp_history l'"
  by (simp add: cmp_history_def List.map_filter_def)

lemma cmp_history_Cmp [simp]: "cmp_history (map Cmp cs) = cs"
  by (induction cs) (simp_all add: cmp_history_def List.map_filter_def)

subsection \<open>\<open>pkg/finalizers\<close>\<close>

text \<open>Both functions work on any object: \<open>fins\<close> reads its finalizers, \<open>put\<close> replaces them.\<close>

definition finalizers_Ensure :: "('o \<Rightarrow> 'o \<Rightarrow> 'o ctl) \<Rightarrow> ('o \<Rightarrow> string list) \<Rightarrow> (string list \<Rightarrow> 'o \<Rightarrow> 'o) \<Rightarrow> 'o \<Rightarrow> string \<Rightarrow>
    ('o \<times> bool) ctl" where
  "finalizers_Ensure patch fins put obj name =
     (if name \<in> set (fins obj) then io_return (obj, False)
      else io_bind (patch obj (put (fins obj @ [name]) obj)) (\<lambda>obj. io_return (obj, True)))"

definition finalizers_Remove :: "('o \<Rightarrow> 'o \<Rightarrow> 'o ctl) \<Rightarrow> ('o \<Rightarrow> string list) \<Rightarrow> (string list \<Rightarrow> 'o \<Rightarrow> 'o) \<Rightarrow> 'o \<Rightarrow> string \<Rightarrow>
    ('o \<times> bool) ctl" where
  "finalizers_Remove patch fins put obj name =
     (if name \<notin> set (fins obj) then io_return (obj, False)
      else io_bind (patch obj (put (removeAll name (fins obj)) obj)) (\<lambda>obj. io_return (obj, True)))"

abbreviation put_svc_finalizers :: "string list \<Rightarrow> K8sService \<Rightarrow> K8sService" where
  "put_svc_finalizers fs s \<equiv> s\<lparr>svc_Finalizers := fs\<rparr>"

abbreviation put_ing_finalizers :: "string list \<Rightarrow> K8sIngress \<Rightarrow> K8sIngress" where
  "put_ing_finalizers fs i \<equiv> i\<lparr>ing_Finalizers := fs\<rparr>"

subsection \<open>\<open>net.ParseIP\<close>\<close>

text \<open>Whether \<open>net.ParseIP\<close> accepts a text.  An IPv4 field has one to three digits, no leading zero
  and a value below 256.\<close>

definition v4_field :: "string \<Rightarrow> bool" where
  "v4_field s \<longleftrightarrow> s \<noteq> [] \<and> list_all is_digit s \<and> length s \<le> 3 \<and> (length s > 1 \<longrightarrow> hd s \<noteq> CHR ''0'') \<and> digits_val s \<le> 255"

definition v4_ok :: "string \<Rightarrow> bool" where
  "v4_ok s \<longleftrightarrow> (let fs = split_on (CHR ''.'') s in length fs = 4 \<and> list_all v4_field fs)"

definition is_hex_digit :: "char \<Rightarrow> bool" where
  "is_hex_digit c \<longleftrightarrow> is_digit c \<or> (let n = (of_char c :: nat) in 97 \<le> n \<and> n \<le> 102 \<or> 65 \<le> n \<and> n \<le> 70)"

text \<open>The loop over the 16-bit groups of an IPv6 address: \<open>left\<close> groups may still follow; \<open>dots\<close> says
  that \<open>::\<close> was seen.  A last group may be an IPv4 address, which takes two groups.\<close>

fun v6_groups :: "nat \<Rightarrow> bool \<Rightarrow> string \<Rightarrow> bool" where
  "v6_groups 0 dots s = (s = [] \<and> \<not> dots)"
| "v6_groups (Suc left) dots s =
     (let ds = takeWhile is_hex_digit s; r = dropWhile is_hex_digit s
      in ds \<noteq> [] \<and> length ds \<le> 4 \<and>
         (if r = [] then dots \<noteq> (left = 0)
          else if hd r = CHR ''.'' then (dots \<or> left = 1) \<and> 1 \<le> left \<and> dots \<noteq> (left = 1) \<and> v4_ok s
          else if hd r \<noteq> CHR '':'' \<or> tl r = [] then False
          else if hd (tl r) = CHR '':'' then \<not> dots \<and> (if tl (tl r) = [] then left \<noteq> 0 else v6_groups left True (tl (tl r)))
          else v6_groups left dots (tl r)))"

definition v6_ok :: "string \<Rightarrow> bool" where
  "v6_ok s \<longleftrightarrow>
     (if has_prefix s ''::'' then drop 2 s = [] \<or> v6_groups 8 True (drop 2 s) else v6_groups 8 False s)"

definition ParseIP :: "string \<Rightarrow> bool" where
  "ParseIP s =
     (case find (\<lambda>c. c \<in> {CHR ''.'', CHR '':'', CHR ''%''}) s of
        Some c \<Rightarrow> if c = CHR ''.'' then v4_ok s else if c = CHR '':'' then CHR ''%'' \<notin> set s \<and> v6_ok s else False
      | None \<Rightarrow> False)"

subsection \<open>\<open>pkg/status\<close>\<close>

text \<open>Both functions publish an address as the only load-balancer ingress of an object.\<close>

definition publish_vip :: "('o \<Rightarrow> 'o \<Rightarrow> 'o ctl) \<Rightarrow> ('o \<Rightarrow> string list) \<Rightarrow> (string list \<Rightarrow> 'o \<Rightarrow> 'o) \<Rightarrow> 'o \<Rightarrow> string \<Rightarrow> unit ctl" where
  "publish_vip patch ips put obj vip =
     (let vip = trim_space vip; current = (case ips obj of [] \<Rightarrow> [] | ip # _ \<Rightarrow> trim_space ip)
      in if vip = [] then io_return ()
         else if equal_fold (trim_space vip) ''pending'' \<or> equal_fold (trim_space vip) ''unknown''
         then io_fail (Errorf ''refusing to publish placeholder CMP VIP %q'' [vip])
         else if \<not> ParseIP vip then io_fail (Errorf ''refusing to publish non-IP CMP VIP %q'' [vip])
         else if current = vip then io_return ()
         else io_bind (patch obj (put [vip] obj)) (\<lambda>_. io_return ()))"

definition EnsureServiceVIP :: "kapi \<Rightarrow> K8sService \<Rightarrow> string \<Rightarrow> unit ctl" where
  "EnsureServiceVIP K svc vip = publish_vip (status_service K) svc_IngressIPs (\<lambda>ips s. s\<lparr>svc_IngressIPs := ips\<rparr>) svc vip"

definition EnsureIngressVIP :: "kapi \<Rightarrow> K8sIngress \<Rightarrow> string \<Rightarrow> unit ctl" where
  "EnsureIngressVIP K ing vip = publish_vip (status_ingress K) ing_IngressIPs (\<lambda>ips s. s\<lparr>ing_IngressIPs := ips\<rparr>) ing vip"

subsection \<open>\<open>pkg/networkpolicy\<close>\<close>

definition policy_name :: "K8sService option \<Rightarrow> string" where
  "policy_name svc = (case svc of None \<Rightarrow> ''f5-lb-allow'' | Some s \<Rightarrow> ''f5-lb-allow-'' @ svc_Name s)"

definition policy_ports :: "SvcPort list \<Rightarrow> (string \<times> int32) list" where
  "policy_ports ps = map (\<lambda>p. (if sp_Protocol p = [] then ''TCP'' else sp_Protocol p, sp_Port p)) ps"

definition policy_for :: "K8sService \<Rightarrow> NetworkPolicy" where
  "policy_for s =
     \<lparr>np_Name = policy_name (Some s), np_Namespace = svc_Namespace s,
      np_Labels = [(''app.kubernetes.io/managed-by'', ''svc-lb-bridge''), (''f5.extensions.gardener.cloud'', ''network-policy'')],
      np_PodSelector = svc_Selector s, np_Ports = policy_ports (svc_Ports s)\<rparr>"

definition policy_Ensure :: "kapi \<Rightarrow> K8sService option \<Rightarrow> unit ctl" where
  "policy_Ensure K svc =
     (case svc of
        None \<Rightarrow> io_return ()
      | Some s \<Rightarrow> if svc_Selector s = [] then io_return ()
          else kcall (KPutPolicy (policy_for s)) (k_PutPolicy K (policy_for s)))"

definition policy_Delete :: "kapi \<Rightarrow> K8sService option \<Rightarrow> unit ctl" where
  "policy_Delete K svc =
     (case svc of
        None \<Rightarrow> io_return ()
      | Some s \<Rightarrow>
          io_bind (kask (KDeletePolicy (svc_Namespace s) (policy_name (Some s))) (k_DeletePolicy K (svc_Namespace s) (policy_name (Some s))))
            (\<lambda>r. case r of Inl (KError e) \<Rightarrow> io_fail (OtherErr e) | _ \<Rightarrow> io_return ()))"

end
