(* ===== verification/JsonText.thy ===== *)
theory JsonText
  imports Json
begin

text \<open>
  Reading JSON text, as \<open>encoding/json\<close> does: a recursive-descent parser whose recursion is bounded
  by the length of the text, and the proof that it reads back every document \<open>json.Marshal\<close> writes.
  Numbers are integer literals, as in \<open>Json\<close>: a text with a fraction or an exponent is not read.
\<close>

subsection \<open>Tokens\<close>

definition json_space :: "char \<Rightarrow> bool" where
  "json_space c \<longleftrightarrow> c = CHR '' '' \<or> c = CHR 0x09 \<or> c = CHR 0x0A \<or> c = CHR 0x0D"

definition skip_ws :: "string \<Rightarrow> string" where
  "skip_ws s = dropWhile json_space s"

definition expect :: "char \<Rightarrow> string \<Rightarrow> string option" where
  "expect c s = (case skip_ws s of [] \<Rightarrow> None | d # r \<Rightarrow> if d = c then Some r else None)"

definition hex_val :: "char \<Rightarrow> nat option" where
  "hex_val c = (let n = of_char c in
     if 48 \<le> n \<and> n \<le> 57 then Some (n - 48) else if 97 \<le> n \<and> n \<le> 102 then Some (n - 87)
     else if 65 \<le> n \<and> n \<le> 70 then Some (n - 55) else None)"

text \<open>Four hexadecimal digits and the text after them.\<close>

definition hex4 :: "string \<Rightarrow> (nat \<times> string) option" where
  "hex4 s = (case s of
     a # b # c # d # r \<Rightarrow>
       (case (hex_val a, hex_val b, hex_val c, hex_val d) of
          (Some w, Some x, Some y, Some z) \<Rightarrow> Some (4096 * w + 256 * x + 16 * y + z, r)
        | _ \<Rightarrow> None)
   | _ \<Rightarrow> None)"

definition utf8 :: "nat \<Rightarrow> string" where
  "utf8 n =
     (if n < 128 then [char_of n]
      else if n < 2048 then [char_of (192 + n div 64), char_of (128 + n mod 64)]
      else if n < 65536 then [char_of (224 + n div 4096), char_of (128 + n div 64 mod 64), char_of (128 + n mod 64)]
      else [char_of (240 + n div 262144), char_of (128 + n div 4096 mod 64), char_of (128 + n div 64 mod 64),
            char_of (128 + n mod 64)])"

text \<open>The escape \<open>\u\<close>: a pair of surrogates is one character, a single one is replaced.\<close>

definition lex_unicode :: "string \<Rightarrow> (string \<times> string) option" where
  "lex_unicode s =
     Option.bind (hex4 s) (\<lambda>(n, r).
       if n < 55296 \<or> 57344 \<le> n then Some (utf8 n, r)
       else case r of
           [] \<Rightarrow> Some (utf8 65533, r)
         | c # r1 \<Rightarrow>
             (if n < 56320 \<and> c = CHR 0x5C \<and> r1 \<noteq> [] \<and> hd r1 = CHR ''u''
              then (case hex4 (tl r1) of
                      Some (m, r2) \<Rightarrow>
                        if 56320 \<le> m \<and> m < 57344 then Some (utf8 (65536 + (n - 55296) * 1024 + (m - 56320)), r2)
                        else Some (utf8 65533, r)
                    | None \<Rightarrow> Some (utf8 65533, r))
              else Some (utf8 65533, r)))"

definition lex_escape :: "string \<Rightarrow> (string \<times> string) option" where
  "lex_escape s = (case s of
     [] \<Rightarrow> None
   | e # r \<Rightarrow>
       if e = CHR 0x22 \<or> e = CHR 0x5C \<or> e = CHR ''/'' then Some ([e], r)
       else if e = CHR ''b'' then Some ([CHR 0x08], r) else if e = CHR ''f'' then Some ([CHR 0x0C], r)
       else if e = CHR ''n'' then Some ([CHR 0x0A], r) else if e = CHR ''r'' then Some ([CHR 0x0D], r)
       else if e = CHR ''t'' then Some ([CHR 0x09], r) else if e = CHR ''u'' then lex_unicode r else None)"

text \<open>The rest of a string literal after its opening quote; \<open>n\<close> bounds the recursion.\<close>

fun lex_string :: "nat \<Rightarrow> string \<Rightarrow> (string \<times> string) option" where
  "lex_string 0 s = None"
| "lex_string (Suc n) s = (case s of
     [] \<Rightarrow> None
   | c # r \<Rightarrow>
       if c = CHR 0x22 then Some ([], r)
       else if c = CHR 0x5C
       then Option.bind (lex_escape r) (\<lambda>(cs, r'). map_option (\<lambda>(t, r''). (cs @ t, r'')) (lex_string n r'))
       else if (of_char c :: nat) < 32 then None
       else map_option (\<lambda>(t, r''). (c # t, r'')) (lex_string n r))"

definition lex_number :: "string \<Rightarrow> (json \<times> string) option" where
  "lex_number s =
     (let neg = (s \<noteq> [] \<and> hd s = CHR ''-''); body = (if neg then tl s else s);
          ds = takeWhile is_digit body; r = dropWhile is_digit body
      in if ds = [] \<or> (length ds > 1 \<and> hd ds = CHR ''0'') \<or> (r \<noteq> [] \<and> hd r \<in> {CHR ''.'', CHR ''e'', CHR ''E''}) then None
         else Some (JNum (if neg then - int (digits_val ds) else int (digits_val ds)), r))"

definition lex_literal :: "string \<Rightarrow> (json \<times> string) option" where
  "lex_literal s =
     (if has_prefix s ''null'' then Some (JNull, drop 4 s)
      else if has_prefix s ''true'' then Some (JBool True, drop 4 s)
      else if has_prefix s ''false'' then Some (JBool False, drop 5 s)
      else lex_number s)"

subsection \<open>Documents\<close>

fun json_value :: "nat \<Rightarrow> string \<Rightarrow> (json \<times> string) option"
  and json_items :: "nat \<Rightarrow> string \<Rightarrow> (json list \<times> string) option"
  and json_entries :: "nat \<Rightarrow> string \<Rightarrow> ((string \<times> json) list \<times> string) option" where
  "json_value 0 s = None"
| "json_value (Suc n) s = (case skip_ws s of
     [] \<Rightarrow> None
   | c # r \<Rightarrow>
       if c = CHR ''{''
       then (case expect (CHR ''}'') r of
               Some r' \<Rightarrow> Some (JObj [], r')
             | None \<Rightarrow> map_option (\<lambda>(es, r'). (JObj es, r')) (json_entries n r))
       else if c = CHR ''[''
       then (case expect (CHR '']'') r of
               Some r' \<Rightarrow> Some (JArr [], r')
             | None \<Rightarrow> map_option (\<lambda>(vs, r'). (JArr vs, r')) (json_items n r))
       else if c = CHR 0x22 then map_option (\<lambda>(t, r'). (JStr t, r')) (lex_string (Suc (length r)) r)
       else lex_literal (c # r))"
| "json_items 0 s = None"
| "json_items (Suc n) s =
     Option.bind (json_value n s) (\<lambda>(v, r). case expect (CHR '','') r of
         Some r' \<Rightarrow> map_option (\<lambda>(vs, r''). (v # vs, r'')) (json_items n r')
       | None \<Rightarrow> map_option (\<lambda>r'. ([v], r')) (expect (CHR '']'') r))"
| "json_entries 0 s = None"
| "json_entries (Suc n) s =
     Option.bind (expect (CHR 0x22) s) (\<lambda>r0. Option.bind (lex_string (Suc (length r0)) r0) (\<lambda>(k, r1).
       Option.bind (expect (CHR '':'') r1) (\<lambda>r2. Option.bind (json_value n r2) (\<lambda>(v, r). case expect (CHR '','') r of
         Some r' \<Rightarrow> map_option (\<lambda>(es, r''). ((k, v) # es, r'')) (json_entries n r')
       | None \<Rightarrow> map_option (\<lambda>r'. ([(k, v)], r')) (expect (CHR ''}'') r)))))"

definition json_parse :: "string \<Rightarrow> json option" where
  "json_parse s = Option.bind (json_value (Suc (length s)) s) (\<lambda>(v, r). if skip_ws r = [] then Some v else None)"

subsection \<open>What \<open>json.Marshal\<close> wrote is read back\<close>

lemma skip_ws_Cons: "\<not> json_space c \<Longrightarrow> skip_ws (c # r) = c # r"
  by (simp add: skip_ws_def)

lemma expect_Cons: "\<not> json_space d \<Longrightarrow> expect c (d # r) = (if d = c then Some r else None)"
  by (simp add: expect_def skip_ws_Cons)

lemma hex_val_hex_char: "n < 16 \<Longrightarrow> hex_val (hex_char n) = Some n"
  by (auto simp: hex_val_def hex_char_def of_char_of Let_def)

lemma json_char_length: "json_char c \<noteq> []"
  by (simp add: json_char_def Let_def)

text \<open>A control character's escape is its code in four digits.\<close>

lemma lex_unicode_low:
  assumes "n < 128"
  shows "lex_unicode (CHR ''0'' # CHR ''0'' # hex_char (n div 16) # hex_char (n mod 16) # r) = Some ([char_of n], r)"
proof -
  have "hex_val (CHR ''0'') = Some 0" by (simp add: hex_val_def)
  moreover have "hex_val (hex_char (n div 16)) = Some (n div 16)" "hex_val (hex_char (n mod 16)) = Some (n mod 16)"
    using assms by (intro hex_val_hex_char; linarith)+
  moreover have "16 * (n div 16) + n mod 16 = n" by simp
  ultimately show ?thesis using assms by (simp add: lex_unicode_def hex4_def utf8_def)
qed

lemma lex_string_char:
  "lex_string (Suc n) (json_char c @ r) = map_option (\<lambda>(t, r'). (c # t, r')) (lex_string n r)"
proof -
  have eq: "(of_char c :: nat) = 8 \<Longrightarrow> c = CHR 0x08" "(of_char c :: nat) = 9 \<Longrightarrow> c = CHR 0x09"
    "(of_char c :: nat) = 10 \<Longrightarrow> c = CHR 0x0A" "(of_char c :: nat) = 12 \<Longrightarrow> c = CHR 0x0C"
    "(of_char c :: nat) = 13 \<Longrightarrow> c = CHR 0x0D"
    by (simp_all add: char_eq_nat)
  have hi: "(of_char c :: nat) < 128" if "(of_char c :: nat) < 32 \<or> c \<in> {CHR ''<'', CHR ''>'', CHR ''&''}"
    using that by auto
  show ?thesis
    unfolding json_char_def Let_def
    using lex_unicode_low [OF hi, of r]
    by (auto simp: lex_escape_def dest: eq)
qed

lemma lex_string_json: "length s \<le> n \<Longrightarrow> lex_string (Suc n) (concat (map json_char s) @ CHR 0x22 # r) = Some (s, r)"
proof (induction s arbitrary: n)
  case (Cons c s)
  then obtain m where m: "n = Suc m" "length s \<le> m" by (cases n) auto
  show ?case by (simp only: m list.map concat.simps append_assoc lex_string_char Cons.IH [OF m(2)]) simp
qed simp

lemma json_chars_length: "length s \<le> length (concat (map json_char s))"
proof (induction s)
  case (Cons c s)
  obtain d ds where "json_char c = d # ds" using json_char_length by (cases "json_char c") auto
  with Cons show ?case by simp
qed simp

lemma lex_string_whole: "lex_string (Suc (length (concat (map json_char s) @ CHR 0x22 # r))) (concat (map json_char s) @ CHR 0x22 # r) = Some (s, r)"
  by (rule lex_string_json) (use json_chars_length [of s] in simp)

text \<open>A value ends where no digit, fraction or exponent continues it.\<close>

definition ends_value :: "string \<Rightarrow> bool" where
  "ends_value r \<longleftrightarrow> r = [] \<or> (\<not> is_digit (hd r) \<and> hd r \<notin> {CHR ''.'', CHR ''e'', CHR ''E''})"

lemma takeWhile_digits: "ends_value r \<Longrightarrow> takeWhile is_digit (show_nat n @ r) = show_nat n \<and> dropWhile is_digit (show_nat n @ r) = r"
proof -
  have "list_all is_digit (show_nat n)" by (rule show_nat_digits)
  then have "takeWhile is_digit (show_nat n @ r) = show_nat n @ takeWhile is_digit r \<and> dropWhile is_digit (show_nat n @ r) = dropWhile is_digit r"
    by (simp add: list_all_iff)
  moreover assume "ends_value r"
  ultimately show ?thesis by (cases r) (auto simp: ends_value_def)
qed

lemma hd_show_nat: "0 < n \<Longrightarrow> hd (show_nat n) \<noteq> CHR ''0''"
proof (induction n rule: show_nat.induct)
  case (1 n)
  show ?case
  proof (cases "n < 10")
    case True
    with 1 have "(of_char (digit n) :: nat) \<noteq> 48" by (simp add: of_char_digit)
    with True show ?thesis by (auto simp: show_nat.simps [of n])
  next
    case False
    with 1 show ?thesis by (simp add: show_nat.simps [of n] hd_append)
  qed
qed

lemma show_nat_no_zero: "\<not> (length (show_nat n) > 1 \<and> hd (show_nat n) = CHR ''0'')"
  using hd_show_nat [of n] by (cases "n = 0") (auto simp: show_nat.simps [of 0])

lemma lex_number_show: "ends_value r \<Longrightarrow> lex_number (show_int i @ r) = Some (JNum i, r)"
proof -
  assume r: "ends_value r"
  note parts = takeWhile_digits [OF r]
  have fin: "\<not> (r \<noteq> [] \<and> hd r \<in> {CHR ''.'', CHR ''e'', CHR ''E''})"
    using r by (auto simp: ends_value_def)
  show ?thesis
  proof (cases "i < 0")
    case True
    then show ?thesis
      using parts [of "nat (- i)"] show_nat_no_zero [of "nat (- i)"] fin
      by (simp add: show_int_def lex_number_def Let_def del: dropWhile_eq_Nil_conv takeWhile_eq_Nil_iff)
  next
    case False
    obtain c cs where c: "show_nat (nat i) = c # cs" by (cases "show_nat (nat i)") auto
    then have "c \<noteq> CHR ''-''" using show_nat_hd digit_not_sign by blast
    moreover have "digits_val (c # cs) = nat i" by (metis c digits_val_show_nat)
    ultimately show ?thesis
      using False parts [of "nat i"] show_nat_no_zero [of "nat i"] fin
      by (simp add: show_int_def lex_number_def Let_def c del: dropWhile_eq_Nil_conv takeWhile_eq_Nil_iff)
  qed
qed

lemma lex_literal_show: "ends_value r \<Longrightarrow> lex_literal (show_int i @ r) = Some (JNum i, r)"
proof -
  assume r: "ends_value r"
  obtain c cs where c: "show_int i = c # cs" by (cases "show_int i") auto
  then have "is_digit c \<or> c = CHR ''-''" using show_int_chars [of c i] by simp
  then have "c \<noteq> CHR ''n'' \<and> c \<noteq> CHR ''t'' \<and> c \<noteq> CHR ''f''" by (auto simp: is_digit_def)
  with lex_number_show [OF r, of i] show ?thesis by (simp add: lex_literal_def has_prefix_def c)
qed

text \<open>The first character of a document is not white space and closes nothing.\<close>

definition opens_value :: "char \<Rightarrow> bool" where
  "opens_value c \<longleftrightarrow> \<not> json_space c \<and> c \<noteq> CHR '']'' \<and> c \<noteq> CHR ''}'' \<and> c \<noteq> CHR '',''"

lemma json_text_opens: "\<exists>c cs. json_text j = c # cs \<and> opens_value c"
proof (cases j)
  case (JNum i)
  obtain c cs where c: "show_int i = c # cs" by (cases "show_int i") auto
  then have "is_digit c \<or> c = CHR ''-''" using show_int_chars [of c i] by simp
  then have "opens_value c" by (auto simp: opens_value_def json_space_def is_digit_def)
  with JNum c show ?thesis by simp
qed (auto simp: opens_value_def json_space_def json_string_def)

lemma expect_json_text: "d \<in> {CHR '']'', CHR ''}'', CHR '',''} \<Longrightarrow> expect d (json_text j @ r) = None"
  using json_text_opens [of j] by (auto simp: opens_value_def expect_Cons)

lemma json_value_scalar:
  assumes "\<not> json_space c" "c \<noteq> CHR ''{''" "c \<noteq> CHR ''[''" "c \<noteq> CHR 0x22"
  shows "json_value (Suc n) (c # r) = lex_literal (c # r)"
  using assms by (simp add: skip_ws_Cons)

lemma json_value_num: "ends_value r \<Longrightarrow> json_value (Suc n) (show_int i @ r) = Some (JNum i, r)"
proof -
  assume r: "ends_value r"
  obtain c cs where c: "show_int i = c # cs" by (cases "show_int i") auto
  then have "is_digit c \<or> c = CHR ''-''" using show_int_chars [of c i] by simp
  then have "json_value (Suc n) (c # cs @ r) = lex_literal (c # cs @ r)"
    by (intro json_value_scalar) (auto simp: json_space_def is_digit_def)
  with lex_literal_show [OF r, of i] show ?thesis by (simp add: c)
qed

lemma json_value_string: "json_value (Suc n) (json_string s @ r) = Some (JStr s, r)"
  using lex_string_whole [of s r] by (simp add: json_string_def skip_ws_Cons json_space_def del: lex_string.simps)

lemma json_key: "expect (CHR 0x22) (json_string k @ r) = Some (concat (map json_char k) @ CHR 0x22 # r)"
  by (simp add: json_string_def expect_Cons json_space_def)

text \<open>The bound of the recursion: the length of the text is always enough.\<close>

definition reads_back :: "json \<Rightarrow> bool" where
  "reads_back j \<longleftrightarrow> (\<forall>n r. length (json_text j) \<le> n \<longrightarrow> ends_value r \<longrightarrow> json_value n (json_text j @ r) = Some (j, r))"

lemma ends_value_sep: "ends_value (CHR '','' # r)" "ends_value (CHR '']'' # r)" "ends_value (CHR ''}'' # r)" "ends_value []"
  by (simp_all add: ends_value_def is_digit_def)

lemma expect_sep:
  "expect (CHR '','') (CHR '','' # r) = Some r" "expect (CHR '','') (CHR '']'' # r) = None"
  "expect (CHR '','') (CHR ''}'' # r) = None" "expect (CHR '']'') (CHR '']'' # r) = Some r"
  "expect (CHR ''}'') (CHR ''}'' # r) = Some r" "expect (CHR '':'') (CHR '':'' # r) = Some r"
  by (simp_all add: expect_Cons json_space_def)

lemma json_items_read:
  assumes "vs \<noteq> []" and "\<And>v. v \<in> set vs \<Longrightarrow> reads_back v" and "length (join '','' (map json_text vs)) < n"
  shows "json_items n (join '','' (map json_text vs) @ CHR '']'' # r) = Some (vs, r)"
  using assms
proof (induction vs arbitrary: n)
  case (Cons v vs)
  then obtain m where m: "n = Suc m" by (cases n) auto
  have len: "length (json_text v) \<le> m"
    using Cons.prems(3) m by (cases vs) auto
  have v: "ends_value t \<Longrightarrow> json_value m (json_text v @ t) = Some (v, t)" for t
    using Cons.prems(2) [of v] len by (simp add: reads_back_def)
  show ?case
  proof (cases vs)
    case Nil
    then show ?thesis using v by (simp add: m ends_value_sep expect_sep)
  next
    case (Cons w ws)
    then have "json_items m (join '','' (map json_text vs) @ CHR '']'' # r) = Some (vs, r)"
      using Cons.prems m by (intro Cons.IH) auto
    with v Cons show ?thesis by (simp add: m ends_value_sep expect_sep)
  qed
qed simp

definition entry_text :: "string \<times> json \<Rightarrow> string" where
  "entry_text e = json_string (fst e) @ '':'' @ json_text (snd e)"

lemma json_entries_read:
  assumes "es \<noteq> []" and "\<And>e. e \<in> set es \<Longrightarrow> reads_back (snd e)" and "length (join '','' (map entry_text es)) < n"
  shows "json_entries n (join '','' (map entry_text es) @ CHR ''}'' # r) = Some (es, r)"
  using assms
proof (induction es arbitrary: n)
  case (Cons e es)
  obtain k v where e: "e = (k, v)" by (cases e)
  obtain m where m: "n = Suc m" using Cons.prems(3) by (cases n) auto
  have len: "length (json_text v) \<le> m"
    using Cons.prems(3) m by (cases es) (auto simp: e entry_text_def)
  have v: "ends_value t \<Longrightarrow> json_value m (json_text v @ t) = Some (v, t)" for t
    using Cons.prems(2) [of e] len by (simp add: reads_back_def e)
  have step: "json_entries n (entry_text e @ t) = (case expect (CHR '','') t of
       Some r' \<Rightarrow> map_option (\<lambda>(es, r''). ((k, v) # es, r'')) (json_entries m r')
     | None \<Rightarrow> map_option (\<lambda>r'. ([(k, v)], r')) (expect (CHR ''}'') t))" if "ends_value t" for t
    using v [OF that] json_chars_length [of k]
    by (simp add: m e entry_text_def json_key lex_string_json expect_sep del: lex_string.simps)
  show ?case
  proof (cases es)
    case Nil
    then show ?thesis using step [of "CHR ''}'' # r"] by (simp add: e ends_value_sep expect_sep)
  next
    case (Cons w ws)
    then have "json_entries m (join '','' (map entry_text es) @ CHR ''}'' # r) = Some (es, r)"
      using Cons.prems m by (intro Cons.IH) auto
    with step [of "CHR '','' # join '','' (map entry_text es) @ CHR ''}'' # r"] Cons show ?thesis
      by (simp add: e ends_value_sep expect_sep)
  qed
qed simp

lemma json_reads_back: "reads_back j"
proof (induction j rule: json_text.induct)
  case 1
  show ?case unfolding reads_back_def by (auto simp: lex_literal_def has_prefix_def skip_ws_Cons json_space_def dest!: Suc_le_D)
next
  case (2 b)
  show ?case unfolding reads_back_def
    by (cases b) (auto simp: lex_literal_def has_prefix_def skip_ws_Cons json_space_def dest!: Suc_le_D)
next
  case (3 i)
  show ?case unfolding reads_back_def
  proof (intro allI impI)
    fix n r assume "length (json_text (JNum i)) \<le> n" and r: "ends_value r"
    then obtain m where "n = Suc m" by (cases n) auto
    with r show "json_value n (json_text (JNum i) @ r) = Some (JNum i, r)" by (simp add: json_value_num del: json_value.simps)
  qed
next
  case (4 s)
  show ?case unfolding reads_back_def
  proof (intro allI impI)
    fix n r assume "length (json_text (JStr s)) \<le> n"
    then obtain m where "n = Suc m" by (cases n) (auto simp: json_string_def)
    then show "json_value n (json_text (JStr s) @ r) = Some (JStr s, r)" by (simp add: json_value_string del: json_value.simps)
  qed
next
  case (5 vs)
  show ?case
  proof (cases vs)
    case Nil
    then show ?thesis unfolding reads_back_def by (auto simp: skip_ws_Cons json_space_def expect_Cons dest!: Suc_le_D)
  next
    case (Cons w ws)
    then obtain t where t: "join '','' (map json_text vs) = json_text w @ t" by (cases ws) auto
    show ?thesis unfolding reads_back_def
    proof (intro allI impI)
      fix n r assume len: "length (json_text (JArr vs)) \<le> n"
      then obtain m where m: "n = Suc m" by (cases n) auto
      have "json_items m (join '','' (map json_text vs) @ CHR '']'' # r) = Some (vs, r)"
        using Cons 5 len m by (intro json_items_read) auto
      moreover have "expect (CHR '']'') (join '','' (map json_text vs) @ CHR '']'' # r) = None"
        by (simp add: t expect_json_text)
      ultimately show "json_value n (json_text (JArr vs) @ r) = Some (JArr vs, r)"
        by (simp add: m skip_ws_Cons json_space_def)
    qed
  qed
next
  case (6 es)
  have obj: "json_text (JObj es) = ''{'' @ join '','' (map entry_text es) @ ''}''"
    by (simp add: entry_text_def [abs_def])
  show ?case
  proof (cases es)
    case Nil
    then show ?thesis unfolding reads_back_def by (auto simp: skip_ws_Cons json_space_def expect_Cons dest!: Suc_le_D)
  next
    case (Cons w ws)
    then obtain t where t: "join '','' (map entry_text es) = CHR 0x22 # t"
      by (cases ws) (auto simp: entry_text_def json_string_def)
    show ?thesis unfolding reads_back_def
    proof (intro allI impI)
      fix n r assume len: "length (json_text (JObj es)) \<le> n"
      then obtain m where m: "n = Suc m" unfolding obj by (cases n) auto
      have "json_entries m (join '','' (map entry_text es) @ CHR ''}'' # r) = Some (es, r)"
        using Cons 6 len m unfolding obj by (intro json_entries_read) auto
      moreover have "expect (CHR ''}'') (join '','' (map entry_text es) @ CHR ''}'' # r) = None"
        by (simp add: t expect_Cons json_space_def)
      ultimately show "json_value n (json_text (JObj es) @ r) = Some (JObj es, r)"
        unfolding obj by (simp add: m skip_ws_Cons json_space_def)
    qed
  qed
qed

theorem json_parse_text: "json_parse (json_text j) = Some j"
  using json_reads_back [of j] unfolding reads_back_def json_parse_def
  by (auto simp: ends_value_sep skip_ws_def dest!: spec [where x = "Suc (length (json_text j))"] spec [where x = "[]"])
end
