(* ===== verification/Persist.thy ===== *)
theory Persist
  imports JsonText Model
begin

text \<open>
  The observed state kept in annotations (\<open>cmd/svc-lb-bridge/main.go\<close>): the provider graph and the
  state of each Service port as JSON text.  The graph structs carry no JSON tags, so that a field is
  written under its Go name; a map is written with its keys in order.  Reading a graph that was
  written gives back its entries.
\<close>

definition annObservedPorts :: string where "annObservedPorts = ''f5.extensions.gardener.cloud/observed-ports''"
definition annObservedGraph :: string where "annObservedGraph = ''f5.extensions.gardener.cloud/observed-graph''"

subsection \<open>The graph as a document\<close>

definition ownership_json :: "Ownership \<Rightarrow> json" where
  "ownership_json o1 = JObj
     [(''ManagedBy'', JStr (os_ManagedBy o1)), (''ClusterUID'', JStr (os_ClusterUID o1)),
      (''SourceKind'', JStr (os_SourceKind o1)), (''SourceNamespace'', JStr (os_SourceNamespace o1)),
      (''SourceName'', JStr (os_SourceName o1)), (''SourceUID'', JStr (os_SourceUID o1)),
      (''ResourceRole'', JStr (os_ResourceRole o1)), (''SharedGroup'', JStr (os_SharedGroup o1))]"

definition resource_json :: "ObservedResource \<Rightarrow> json" where
  "resource_json r = JObj
     [(''LogicalID'', JStr (LogicalID r)), (''ExternalID'', JStr (ExternalID r)), (''Name'', JStr (or_Name r)),
      (''Address'', JStr (or_Address r)), (''DesiredHash'', JStr (DesiredHash r)),
      (''Ownership'', ownership_json (or_Ownership r))]"

definition bucket_json :: "ObservedResource gomap \<Rightarrow> json" where
  "bucket_json m = JObj (map (\<lambda>(k, r). (k, resource_json r)) (sort_key fst m))"

definition graph_json :: "ObservedGraph \<Rightarrow> json" where
  "graph_json g = JObj
     [(''LBServices'', bucket_json (g_LBServices g)), (''VIPs'', bucket_json (g_VIPs g)),
      (''VirtualServers'', bucket_json (g_VirtualServers g)), (''Pools'', bucket_json (g_Pools g)),
      (''Members'', bucket_json (g_Members g)), (''Monitors'', bucket_json (g_Monitors g)),
      (''RoutingRules'', bucket_json (g_RoutingRules g)), (''Certificates'', bucket_json (g_Certificates g))]"

definition writeObservedGraph :: "ObservedGraph \<Rightarrow> string gomap \<Rightarrow> string gomap" where
  "writeObservedGraph g annotations = gm_set annObservedGraph (json_text (graph_json g)) annotations"

subsection \<open>Reading it\<close>

text \<open>Decoders continue from the value a field has; \<open>null\<close> leaves a struct alone.\<close>

definition d_ownership :: "Ownership \<Rightarrow> json \<Rightarrow> Ownership option" where
  "d_ownership old v = Option.bind (json_struct (Some v)) (\<lambda>es.
     Option.bind (read_field d_string (os_ManagedBy old) ''ManagedBy'' es) (\<lambda>mb.
     Option.bind (read_field d_string (os_ClusterUID old) ''ClusterUID'' es) (\<lambda>cu.
     Option.bind (read_field d_string (os_SourceKind old) ''SourceKind'' es) (\<lambda>sk.
     Option.bind (read_field d_string (os_SourceNamespace old) ''SourceNamespace'' es) (\<lambda>sns.
     Option.bind (read_field d_string (os_SourceName old) ''SourceName'' es) (\<lambda>sn.
     Option.bind (read_field d_string (os_SourceUID old) ''SourceUID'' es) (\<lambda>su.
     Option.bind (read_field d_string (os_ResourceRole old) ''ResourceRole'' es) (\<lambda>rr.
     Option.bind (read_field d_string (os_SharedGroup old) ''SharedGroup'' es) (\<lambda>sg.
       Some \<lparr>os_ManagedBy = mb, os_ClusterUID = cu, os_SourceKind = sk, os_SourceNamespace = sns, os_SourceName = sn,
          os_SourceUID = su, os_ResourceRole = rr, os_SharedGroup = sg\<rparr>)))))))))"

definition d_resource :: "json \<Rightarrow> ObservedResource option" where
  "d_resource v = Option.bind (json_struct (Some v)) (\<lambda>es.
     Option.bind (f_string ''LogicalID'' es) (\<lambda>li.
     Option.bind (f_string ''ExternalID'' es) (\<lambda>ei.
     Option.bind (f_string ''Name'' es) (\<lambda>na.
     Option.bind (f_string ''Address'' es) (\<lambda>ad.
     Option.bind (f_string ''DesiredHash'' es) (\<lambda>dh.
     Option.bind (read_field d_ownership zero_ownership ''Ownership'' es) (\<lambda>own.
       Some \<lparr>LogicalID = li, ExternalID = ei, or_Name = na, or_Address = ad, DesiredHash = dh, or_Ownership = own\<rparr>)))))))"

text \<open>A bucket is nil (\<open>None\<close>) or a map, to which each entry adds a freshly decoded element.\<close>

definition d_entry :: "string \<times> json \<Rightarrow> ObservedResource gomap option \<Rightarrow> ObservedResource gomap option" where
  "d_entry e m = Option.bind m (\<lambda>m. map_option (\<lambda>r. gm_set (fst e) r m) (d_resource (snd e)))"

definition d_bucket :: "ObservedResource gomap option \<Rightarrow> json \<Rightarrow> ObservedResource gomap option option" where
  "d_bucket old v =
     (case v of
        JNull \<Rightarrow> Some None
      | JObj es \<Rightarrow> map_option Some (fold d_entry es (Some (case old of None \<Rightarrow> [] | Some m \<Rightarrow> m)))
      | _ \<Rightarrow> None)"

definition some_bucket :: "ObservedResource gomap option \<Rightarrow> ObservedResource gomap" where
  "some_bucket b = (case b of None \<Rightarrow> [] | Some m \<Rightarrow> m)"

abbreviation f_bucket where "f_bucket \<equiv> read_field d_bucket None"

text \<open>The decoded graph with whether its \<open>LBServices\<close> are nil.\<close>

definition d_graph :: "json \<Rightarrow> (ObservedGraph \<times> bool) option" where
  "d_graph v = Option.bind (json_struct (Some v)) (\<lambda>es.
     Option.bind (f_bucket ''LBServices'' es) (\<lambda>lb.
     Option.bind (f_bucket ''VIPs'' es) (\<lambda>vip.
     Option.bind (f_bucket ''VirtualServers'' es) (\<lambda>vs.
     Option.bind (f_bucket ''Pools'' es) (\<lambda>po.
     Option.bind (f_bucket ''Members'' es) (\<lambda>me.
     Option.bind (f_bucket ''Monitors'' es) (\<lambda>mo.
     Option.bind (f_bucket ''RoutingRules'' es) (\<lambda>ru.
     Option.bind (f_bucket ''Certificates'' es) (\<lambda>ce.
       Some (\<lparr>g_LBServices = some_bucket lb, g_VIPs = some_bucket vip, g_VirtualServers = some_bucket vs,
          g_Pools = some_bucket po, g_Members = some_bucket me, g_Monitors = some_bucket mo,
          g_RoutingRules = some_bucket ru, g_Certificates = some_bucket ce\<rparr>, lb = None))))))))))"

definition readObservedGraph :: "string gomap \<Rightarrow> ObservedGraph option" where
  "readObservedGraph annotations =
     (if ann_get annotations annObservedGraph = [] then None
      else case Option.bind (json_parse (gm_index [] annotations annObservedGraph)) d_graph of
          Some (graph, False) \<Rightarrow> Some graph
        | _ \<Rightarrow> None)"

subsection \<open>The state of each Service port\<close>

record servicePortObserved =
  po_VirtualServerID :: string
  po_VirtualServerName :: string
  po_BackendHash :: string

definition servicePortKey :: "ServicePort \<Rightarrow> string" where
  "servicePortKey port = trim_space (svp_Name port) @ ''/'' @ show_i32 (svp_FrontendPort port) @ ''/'' @
     to_lower (trim_space (svp_Protocol port))"

definition port_json :: "servicePortObserved \<Rightarrow> json" where
  "port_json p = JObj
     ([(''virtualServerID'', JStr (po_VirtualServerID p))] @
      (if po_VirtualServerName p = [] then [] else [(''virtualServerName'', JStr (po_VirtualServerName p))]) @
      [(''backendHash'', JStr (po_BackendHash p))])"

definition writeServicePortObserved :: "servicePortObserved gomap \<Rightarrow> string gomap \<Rightarrow> string gomap" where
  "writeServicePortObserved observed annotations =
     gm_set annObservedPorts (json_text (JObj (map (\<lambda>(k, p). (k, port_json p)) (sort_key fst observed)))) annotations"

definition d_port :: "json \<Rightarrow> servicePortObserved option" where
  "d_port v = Option.bind (json_struct (Some v)) (\<lambda>es.
     Option.bind (f_string ''virtualServerID'' es) (\<lambda>i.
     Option.bind (f_string ''virtualServerName'' es) (\<lambda>n.
     Option.bind (f_string ''backendHash'' es) (\<lambda>h.
       Some \<lparr>po_VirtualServerID = i, po_VirtualServerName = n, po_BackendHash = h\<rparr>))))"

definition d_port_entry :: "string \<times> json \<Rightarrow> servicePortObserved gomap option \<Rightarrow> servicePortObserved gomap option" where
  "d_port_entry e m = Option.bind m (\<lambda>m. map_option (\<lambda>p. gm_set (fst e) p m) (d_port (snd e)))"

definition readServicePortObserved :: "string gomap \<Rightarrow> servicePortObserved gomap" where
  "readServicePortObserved annotations =
     (if ann_get annotations annObservedPorts = [] then []
      else case json_parse (gm_index [] annotations annObservedPorts) of
          Some (JObj es) \<Rightarrow> (case fold d_port_entry es (Some []) of Some m \<Rightarrow> m | None \<Rightarrow> [])
        | _ \<Rightarrow> [])"

subsection \<open>What was written is read back\<close>

text \<open>The keys of the structs, in lower case.\<close>

lemma graph_keys:
  "map to_lower [''LBServices'', ''VIPs'', ''VirtualServers'', ''Pools'', ''Members'', ''Monitors'', ''RoutingRules'', ''Certificates''] =
   [''lbservices'', ''vips'', ''virtualservers'', ''pools'', ''members'', ''monitors'', ''routingrules'', ''certificates'']"
  by code_simp

lemma resource_keys:
  "map to_lower [''LogicalID'', ''ExternalID'', ''Name'', ''Address'', ''DesiredHash'', ''Ownership''] =
   [''logicalid'', ''externalid'', ''name'', ''address'', ''desiredhash'', ''ownership'']"
  by code_simp

lemma ownership_keys:
  "map to_lower [''ManagedBy'', ''ClusterUID'', ''SourceKind'', ''SourceNamespace'', ''SourceName'', ''SourceUID'', ''ResourceRole'', ''SharedGroup''] =
   [''managedby'', ''clusteruid'', ''sourcekind'', ''sourcenamespace'', ''sourcename'', ''sourceuid'', ''resourcerole'', ''sharedgroup'']"
  by code_simp

lemma port_keys:
  "map to_lower [''virtualServerID'', ''virtualServerName'', ''backendHash''] = [''virtualserverid'', ''virtualservername'', ''backendhash'']"
  by code_simp

lemma d_ownership_json: "d_ownership old (ownership_json o1) = Some o1"
  using ownership_keys by (simp add: d_ownership_def ownership_json_def json_struct_def read_field_def equal_fold_def)

lemma d_resource_json: "d_resource (resource_json r) = Some r"
  using resource_keys by (simp add: d_resource_def resource_json_def json_struct_def read_field_def equal_fold_def d_ownership_json)

lemma d_port_json: "d_port (port_json p) = Some p"
  using port_keys by (simp add: d_port_def port_json_def json_struct_def read_field_def equal_fold_def)

text \<open>Adding entries with new keys one after the other appends them.\<close>

lemma gm_set_new: "k \<notin> fst ` set m \<Longrightarrow> gm_set k v m = m @ [(k, v)]"
  by (induction m) auto

lemma fold_entries:
  assumes "\<And>e m. step e (Some m) = map_option (\<lambda>r. gm_set (fst e) r m) (dec (snd e))"
    and "\<And>r. dec (enc r) = Some r" and "distinct (map fst (m @ es))"
  shows "fold step (map (\<lambda>(k, r). (k, enc r)) es) (Some m) = Some (m @ es)"
  using assms(3)
proof (induction es arbitrary: m)
  case (Cons e es)
  then have "gm_set (fst e) (snd e) m = m @ [e]" by (simp add: gm_set_new)
  with Cons show ?case by (cases e) (simp add: assms(1,2))
qed simp

lemma distinct_sort_keys: "gm_wf m \<Longrightarrow> distinct (map fst (sort_key fst m))"
  unfolding gm_wf_def by (metis distinct_map distinct_sort inj_on_cong set_sort)

lemma d_bucket_json: "gm_wf m \<Longrightarrow> d_bucket None (bucket_json m) = Some (Some (sort_key fst m))"
  using fold_entries [of d_entry d_resource resource_json "[]" "sort_key fst m"]
  by (simp add: d_bucket_def bucket_json_def d_entry_def d_resource_json distinct_sort_keys)

text \<open>The graph with the entries of every bucket in the order of their keys.\<close>

definition sort_graph :: "ObservedGraph \<Rightarrow> ObservedGraph" where
  "sort_graph g =
     \<lparr>g_LBServices = sort_key fst (g_LBServices g), g_VIPs = sort_key fst (g_VIPs g),
      g_VirtualServers = sort_key fst (g_VirtualServers g), g_Pools = sort_key fst (g_Pools g),
      g_Members = sort_key fst (g_Members g), g_Monitors = sort_key fst (g_Monitors g),
      g_RoutingRules = sort_key fst (g_RoutingRules g), g_Certificates = sort_key fst (g_Certificates g)\<rparr>"

lemma d_graph_json: "graph_wf g \<Longrightarrow> d_graph (graph_json g) = Some (sort_graph g, False)"
  using graph_keys
  by (simp add: d_graph_def graph_json_def json_struct_def read_field_def equal_fold_def d_bucket_json graph_wf_def
      sort_graph_def some_bucket_def)

lemma graph_text_not_blank: "trim_space (json_text (graph_json g)) \<noteq> []"
proof -
  have "CHR ''{'' \<in> set (json_text (graph_json g))" by (simp add: graph_json_def)
  then show ?thesis by (auto simp: trim_space_eq_Nil is_space_def)
qed

lemma read_written_graph: "graph_wf g \<Longrightarrow> readObservedGraph (writeObservedGraph g ann) = Some (sort_graph g)"
  by (simp add: readObservedGraph_def writeObservedGraph_def ann_get_def gm_index_def graph_text_not_blank json_parse_text
      d_graph_json del: json_text.simps)


lemma read_written_ports:
  assumes "gm_wf m"
  shows "readServicePortObserved (writeServicePortObserved m ann) = sort_key fst m"
proof -
  let ?doc = "JObj (map (\<lambda>(k, p). (k, port_json p)) (sort_key fst m))"
  have "CHR ''{'' \<in> set (json_text ?doc)" by simp
  then have "trim_space (json_text ?doc) \<noteq> []" by (auto simp: trim_space_eq_Nil is_space_def)
  moreover have "fold d_port_entry (map (\<lambda>(k, p). (k, port_json p)) (sort_key fst m)) (Some []) = Some (sort_key fst m)"
    using fold_entries [of d_port_entry d_port port_json "[]" "sort_key fst m"] assms
    by (simp add: d_port_entry_def d_port_json distinct_sort_keys)
  ultimately show ?thesis
    by (simp add: readServicePortObserved_def writeServicePortObserved_def ann_get_def gm_index_def json_parse_text del: json_text.simps)
qed

subsection \<open>Same entries\<close>

definition same_entries :: "ObservedGraph \<Rightarrow> ObservedGraph \<Rightarrow> bool" where
  "same_entries g g' \<longleftrightarrow>
     map_of (g_LBServices g) = map_of (g_LBServices g') \<and> map_of (g_VIPs g) = map_of (g_VIPs g') \<and>
     map_of (g_VirtualServers g) = map_of (g_VirtualServers g') \<and> map_of (g_Pools g) = map_of (g_Pools g') \<and>
     map_of (g_Members g) = map_of (g_Members g') \<and> map_of (g_Monitors g) = map_of (g_Monitors g') \<and>
     map_of (g_RoutingRules g) = map_of (g_RoutingRules g') \<and> map_of (g_Certificates g) = map_of (g_Certificates g')"

lemma map_of_sort_key: "gm_wf m \<Longrightarrow> map_of (sort_key fst m) = map_of m"
  by (intro map_of_inject_set [THEN iffD2]) (simp_all add: distinct_sort_keys gm_wf_def)

lemma gm_wf_sort_key: "gm_wf m \<Longrightarrow> gm_wf (sort_key fst m)"
  using distinct_sort_keys [of m] by (simp add: gm_wf_def)

lemma same_entries_sort: "graph_wf g \<Longrightarrow> same_entries (sort_graph g) g"
  by (simp add: same_entries_def sort_graph_def graph_wf_def map_of_sort_key)

lemma graph_wf_sort: "graph_wf g \<Longrightarrow> graph_wf (sort_graph g)"
  by (simp add: sort_graph_def graph_wf_def gm_wf_sort_key)

text \<open>Whatever an annotation holds, a graph read from it has every key once.\<close>

lemma fold_d_entry_wf: "fold d_entry es (Some m) = Some m' \<Longrightarrow> gm_wf m \<Longrightarrow> gm_wf m'"
proof (induction es arbitrary: m)
  case (Cons e es)
  have none: "fold d_entry es None = None" for es
    by (induction es) (simp_all add: d_entry_def)
  from Cons show ?case
    by (cases "d_resource (snd e)") (auto simp: d_entry_def [of e] none)
qed simp

lemma d_bucket_wf: "d_bucket old v = Some b \<Longrightarrow> gm_wf (some_bucket old) \<Longrightarrow> gm_wf (some_bucket b)"
  by (auto simp: d_bucket_def some_bucket_def dest!: fold_d_entry_wf split: json.splits option.splits)

lemma fold_invariant_option:
  assumes "fold (\<lambda>(k, v) acc. if c k then Option.bind acc (\<lambda>a. d a v) else acc) es (Some z) = Some b"
    and "P z" and "\<And>a v b. d a v = Some b \<Longrightarrow> P a \<Longrightarrow> P b"
  shows "P b"
  using assms(1,2)
proof (induction es arbitrary: z)
  case (Cons e es)
  have none: "fold (\<lambda>(k, v) acc. if c k then Option.bind acc (\<lambda>a. d a v) else acc) es None = None" for es
    by (induction es) auto
  from Cons show ?case
    by (cases e; cases "d z (snd e)") (auto simp: none split: if_splits dest: assms(3))
qed simp

lemma f_bucket_wf: "f_bucket key es = Some b \<Longrightarrow> gm_wf (some_bucket b)"
  unfolding read_field_def
  by (erule fold_invariant_option) (auto simp: some_bucket_def intro: d_bucket_wf [unfolded some_bucket_def])

lemma readObservedGraph_wf: "readObservedGraph ann = Some g \<Longrightarrow> graph_wf g"
  by (auto simp: readObservedGraph_def d_graph_def bind_eq_Some_conv graph_wf_def dest!: f_bucket_wf
      split: if_splits option.splits bool.splits prod.splits)

lemma ports_keep_graph: "readObservedGraph (writeServicePortObserved ports ann) = readObservedGraph ann"
  by (simp add: readObservedGraph_def writeServicePortObserved_def ann_get_def gm_index_def annObservedGraph_def annObservedPorts_def)

lemma graph_keeps_ports: "readServicePortObserved (writeObservedGraph g ann) = readServicePortObserved ann"
  by (simp add: readServicePortObserved_def writeObservedGraph_def ann_get_def gm_index_def annObservedGraph_def annObservedPorts_def)

text \<open>
  C27.  Writing an observed graph and the port states into the annotations and reading them back gives a
  graph with the same entries in every bucket, whatever characters its (valid UTF-8) identifiers hold,
  and the same port states.
\<close>

theorem graph_roundtrip:
  assumes "graph_wf g" and "gm_wf ports"
  shows "(\<exists>g'. readObservedGraph (writeServicePortObserved ports (writeObservedGraph g ann)) = Some g' \<and> same_entries g' g \<and> graph_wf g') \<and>
    map_of (readServicePortObserved (writeServicePortObserved ports (writeObservedGraph g ann))) = map_of ports"
  using assms read_written_graph [OF assms(1)] read_written_ports [OF assms(2)]
  by (simp add: ports_keep_graph same_entries_sort graph_wf_sort map_of_sort_key)

definition demo_graph :: ObservedGraph where
  "demo_graph = NewObservedGraph\<lparr>g_VirtualServers := [(''b'', zero_observed\<lparr>ExternalID := ''vs\"2''\<rparr>), (''a'', zero_observed)]\<rparr>"

theorem graph_roundtrip_witness:
  "(\<exists>g'. readObservedGraph (writeServicePortObserved [] (writeObservedGraph demo_graph [])) = Some g' \<and> same_entries g' demo_graph \<and> graph_wf g') \<and>
    map_of (readServicePortObserved (writeServicePortObserved [] (writeObservedGraph demo_graph []))) = map_of []"
  by (rule graph_roundtrip) code_simp+

end
