(* ===== verification/ServiceController.thy ===== *)
theory ServiceController
  imports Kube Persist ServiceStack StackPass Cleanup RawAdapter
begin

text \<open>
  The controller of Services, \<open>cmd/svc-lb-bridge/main.go\<close>.  \<open>A\<close> is the CMP provider, \<open>K\<close> the
  Kubernetes API; log lines and metrics are left out, events keep their type and reason.
\<close>

definition defaultLBClass :: string where "defaultLBClass = ''f5.extensions.gardener.cloud/bigip''"
definition finalizerName :: string where "finalizerName = ''f5.extensions.gardener.cloud/svc-lb-bridge''"
definition annLBServiceID :: string where "annLBServiceID = ''f5.extensions.gardener.cloud/lb-service-id''"
definition annVIPPortID :: string where "annVIPPortID = ''f5.extensions.gardener.cloud/vip-port-id''"
definition annVirtualServerID :: string where "annVirtualServerID = ''f5.extensions.gardener.cloud/virtual-server-id''"
definition annLBServiceIDMode :: string where "annLBServiceIDMode = ''f5.extensions.gardener.cloud/lb-service-id-mode''"
definition annVIPPortIDMode :: string where "annVIPPortIDMode = ''f5.extensions.gardener.cloud/vip-port-id-mode''"
definition annVIPAddress :: string where "annVIPAddress = ''f5.extensions.gardener.cloud/vip-address''"
definition annBackendHash :: string where "annBackendHash = ''f5.extensions.gardener.cloud/backend-hash''"
definition annObservedGeneration :: string where "annObservedGeneration = ''f5.extensions.gardener.cloud/observed-generation''"
definition annManagedLBRepairID :: string where "annManagedLBRepairID = ''f5.extensions.gardener.cloud/managed-lb-repair-id''"
definition annManagedLBRepairs :: string where "annManagedLBRepairs = ''f5.extensions.gardener.cloud/managed-lb-repair-attempts''"
definition maxManagedLBRepairAttempts :: int where "maxManagedLBRepairAttempts = 3"

lemmas service_ann_defs = annLBServiceID_def annVIPPortID_def annVirtualServerID_def annLBServiceIDMode_def annVIPPortIDMode_def
  annVIPAddress_def annBackendHash_def annObservedGeneration_def annManagedLBRepairID_def annManagedLBRepairs_def
  annObservedPorts_def annObservedGraph_def

subsection \<open>The reconciler and its configuration\<close>

record serviceReconciler =
  rc_loadBalancerClass :: string
  rc_defaultVPCID :: string
  rc_defaultVPCName :: string
  rc_defaultNetworkID :: string
  rc_defaultFlavorID :: int32
  rc_defaultRegion :: string
  rc_shootNamespace :: string

definition envOrDefault :: "(string \<Rightarrow> string) \<Rightarrow> string \<Rightarrow> string \<Rightarrow> string" where
  "envOrDefault getenv key def = (let v = trim_space (getenv key) in if v = [] then def else v)"

text \<open>The required variables in the order in which they are checked.\<close>

definition required_env :: "string list" where
  "required_env = [''CMP_ENDPOINT'', ''CMP_CE_AUTH'', ''CMP_ORGANISATION_NAME'', ''CMP_PROJECT_ID'', ''CMP_REGION'',
     ''SHOOT_NAMESPACE'', ''CMP_API_KEY_ID'', ''CMP_API_SECRET'', ''CMP_VPC_ID'', ''CMP_VPC_NAME'', ''CMP_NETWORK_ID'',
     ''CMP_LB_FLAVOR_ID'']"

definition newReconciler :: "(string \<Rightarrow> string) \<Rightarrow> err + hclient \<times> serviceReconciler" where
  "newReconciler getenv =
     (let env = (\<lambda>k. trim_space (getenv k)) in
      case find (\<lambda>k. env k = []) required_env of
        Some k \<Rightarrow> Inl (Errorf ''%s must be set'' [k])
      | None \<Rightarrow>
          (case atoi (env ''CMP_LB_FLAVOR_ID'') of
             None \<Rightarrow> Inl (Errorf ''CMP_LB_FLAVOR_ID must be a valid positive integer: %w'' [])
           | Some n \<Rightarrow>
               if \<not> (- (2 ^ 31) \<le> n \<and> n < 2 ^ 31) then Inl (Errorf ''CMP_LB_FLAVOR_ID must be a valid positive integer: %w'' [])
               else if n \<le> 0 then Inl (Errorf ''CMP_LB_FLAVOR_ID must be greater than zero'' [])
               else res_bind (res_wrap ''creating CMP client: %w'' []
                      (NewClientWithCeAuthCredentials getenv (env ''CMP_ENDPOINT'') (env ''CMP_ORGANISATION_NAME'')
                         (env ''CMP_PROJECT_ID'') (env ''CMP_REGION'') (env ''CMP_CE_AUTH'') (env ''CMP_API_KEY_ID'') (env ''CMP_API_SECRET'')))
                    (\<lambda>c. Inr (c,
                       \<lparr>rc_loadBalancerClass = envOrDefault getenv ''F5_SVC_LB_LOADBALANCER_CLASS'' defaultLBClass,
                        rc_defaultVPCID = env ''CMP_VPC_ID'', rc_defaultVPCName = env ''CMP_VPC_NAME'',
                        rc_defaultNetworkID = env ''CMP_NETWORK_ID'', rc_defaultFlavorID = to_int32 n,
                        rc_defaultRegion = env ''CMP_REGION'', rc_shootNamespace = env ''SHOOT_NAMESPACE''\<rparr>))))"

text \<open>The deployer of \<open>NewFromRaw\<close> on the CMP client, which has every capability.\<close>

definition NewFromRaw :: "string \<Rightarrow> deployer" where
  "NewFromRaw vpcID = \<lparr>dp_vpcID = vpcID, dp_networks = True, dp_pools = True, dp_monitors = True, dp_routingRules = True,
     dp_certificates = True\<rparr>"

definition deterministicLBName :: "string \<Rightarrow> string" where
  "deterministicLBName identity = ''app-'' @ take 12 (sha256_hex identity)"

definition deterministicVSName :: "string \<Rightarrow> string" where
  "deterministicVSName identity = ''app-vs-'' @ take 12 (sha256_hex identity)"

definition desiredLBServiceName :: "serviceReconciler \<Rightarrow> K8sService \<Rightarrow> string" where
  "desiredLBServiceName r svc = deterministicLBName (rc_shootNamespace r @ ''/'' @ svc_Namespace svc @ ''/'' @ svc_Name svc)"

definition desiredVirtualServerName :: "serviceReconciler \<Rightarrow> K8sService \<Rightarrow> int32 \<Rightarrow> string" where
  "desiredVirtualServerName r svc frontendPort =
     deterministicVSName (rc_shootNamespace r @ ''/'' @ svc_Namespace svc @ ''/'' @ svc_Name svc @ ''/'' @ show_i32 frontendPort)"

definition sanitizeKey :: "string \<Rightarrow> string" where
  "sanitizeKey s =
     (let s = trim_space s in
      if s = [] then ''x''
      else map (\<lambda>c. let n = (of_char c :: nat) in
             if 97 \<le> n \<and> n \<le> 122 \<or> 65 \<le> n \<and> n \<le> 90 \<or> is_digit c \<or> c = CHR ''_'' \<or> c = CHR ''-'' then c else CHR ''_'') s)"

subsection \<open>Who owns, who shares\<close>

definition resourceOwnedByService :: "ObservedResource \<Rightarrow> K8sService \<Rightarrow> bool" where
  "resourceOwnedByService resource svc =
     (let own = or_Ownership resource in
      if os_SourceKind own \<noteq> ''Service'' \<or> os_SourceNamespace own \<noteq> svc_Namespace svc \<or> os_SourceName own \<noteq> svc_Name svc
      then False
      else if os_SourceUID own \<noteq> [] \<and> os_SourceUID own \<noteq> svc_UID svc then False else True)"

definition strictProvidedResourcePolicies :: "K8sService option \<Rightarrow> ObservedState \<Rightarrow> bool \<times> bool" where
  "strictProvidedResourcePolicies svc observed =
     (case svc of
        None \<Rightarrow> (False, False)
      | Some s \<Rightarrow>
          (let lbMode = to_lower (ann_get (svc_Annotations s) annLBServiceIDMode);
               vipMode = to_lower (ann_get (svc_Annotations s) annVIPPortIDMode);
               hasLBID = ann_get (svc_Annotations s) annLBServiceID \<noteq> [];
               hasVIPID = ann_get (svc_Annotations s) annVIPPortID \<noteq> [];
               ownedLB = list_ex (\<lambda>lb. resourceOwnedByService lb s) (gm_values (g_LBServices (Graph observed)));
               ownedVIP = list_ex (\<lambda>vip. resourceOwnedByService vip s) (gm_values (g_VIPs (Graph observed)))
           in if lbMode = ''provided'' \<and> vipMode = ''provided'' then (True, True)
              else if lbMode = ''provided'' \<and> vipMode \<noteq> ''provided'' then (True, False)
              else if vipMode = ''provided'' \<and> lbMode \<noteq> ''provided'' then (False, True)
              else if \<not> hasLBID \<and> \<not> hasVIPID then (False, False)
              else (hasLBID \<and> \<not> ownedLB, hasVIPID \<and> \<not> ownedVIP)))"

text \<open>The state of the parents that a sibling of the same group records; the loops over maps take the
  first hit in the order of the runtime.\<close>

definition parent_state :: "(string list \<Rightarrow> string list) \<Rightarrow> string \<Rightarrow> ObservedGraph \<Rightarrow> ObservedResource \<Rightarrow> ObservedState option" where
  "parent_state ord grp graph parent =
     (if ExternalID parent = [] \<or> os_SharedGroup (or_Ownership parent) \<noteq> grp then None
      else case find (\<lambda>(key, vip). os_SharedGroup (or_Ownership vip) = grp \<and> ExternalID vip \<noteq> []) (go_range ord (g_VIPs graph)) of
          None \<Rightarrow> None
        | Some (key, vip) \<Rightarrow>
            Some (zero_state\<lparr>LBServiceID := ExternalID parent, VIPPortID := ExternalID vip, VIPAddress := or_Address vip,
              Graph := NewObservedGraph\<lparr>g_LBServices := [(LogicalID parent, parent)], g_VIPs := [(key, vip)]\<rparr>\<rparr>))"

fun first_some :: "('a \<Rightarrow> 'b option) \<Rightarrow> 'a list \<Rightarrow> 'b option" where
  "first_some f [] = None"
| "first_some f (x # xs) = (case f x of Some y \<Rightarrow> Some y | None \<Rightarrow> first_some f xs)"

definition sibling_state :: "(string list \<Rightarrow> string list) \<Rightarrow> K8sService \<Rightarrow> K8sService \<Rightarrow> ObservedState option" where
  "sibling_state ord self candidate =
     (if svc_Name candidate = svc_Name self \<or> VIPGroup (Some candidate) \<noteq> VIPGroup (Some self) then None
      else case readObservedGraph (svc_Annotations candidate) of
          None \<Rightarrow> None
        | Some graph \<Rightarrow> first_some (\<lambda>(key, parent). parent_state ord (VIPGroup (Some self)) graph parent) (go_range ord (g_LBServices graph)))"

definition list_services :: "kapi \<Rightarrow> string option \<Rightarrow> (kerr + K8sService list) ctl" where
  "list_services K ns = kask (KListServices ns) (k_ListServices K ns)"

definition sharedParentObservedState :: "kapi \<Rightarrow> K8sService \<Rightarrow> ObservedState option ctl" where
  "sharedParentObservedState K self =
     io_bind (list_services K (Some (svc_Namespace self)))
       (\<lambda>r. case r of
          Inl e \<Rightarrow> io_return None
        | Inr items \<Rightarrow> (\<lambda>l. io_return (first_some (sibling_state (k_range K l) self) items) l))"

definition claims_lb :: "string \<Rightarrow> K8sService \<Rightarrow> bool" where
  "claims_lb lbID s =
     (case readObservedGraph (svc_Annotations s) of
        Some graph \<Rightarrow> list_ex (\<lambda>parent. ExternalID parent = lbID \<and> resourceOwnedByService parent s) (gm_values (g_LBServices graph))
      | None \<Rightarrow> gm_index [] (svc_Annotations s) annLBServiceID = lbID)"

definition isLBServiceShared :: "kapi \<Rightarrow> K8sService \<Rightarrow> string \<Rightarrow> bool ctl" where
  "isLBServiceShared K self lbID =
     (if trim_space lbID = [] then io_return False
      else io_bind (list_services K (Some (svc_Namespace self)))
        (\<lambda>r. case r of
           Inl e \<Rightarrow> io_return False
         | Inr items \<Rightarrow> io_return (list_ex (\<lambda>s.
             \<not> (svc_Name s = svc_Name self \<and> svc_Namespace s = svc_Namespace self) \<and> finalizerName \<in> set (svc_Finalizers s) \<and>
             claims_lb lbID s) items)))"

definition isVIPShared :: "kapi \<Rightarrow> K8sService \<Rightarrow> string \<Rightarrow> string \<Rightarrow> bool ctl" where
  "isVIPShared K self lbID vipID =
     (if trim_space lbID = [] \<or> trim_space vipID = [] then io_return False
      else io_bind (list_services K (Some (svc_Namespace self)))
        (\<lambda>r. case r of
           Inl e \<Rightarrow> io_return False
         | Inr items \<Rightarrow> io_return (list_ex (\<lambda>s.
             svc_Name s \<noteq> svc_Name self \<and> finalizerName \<in> set (svc_Finalizers s) \<and>
             ann_get (svc_Annotations s) annLBServiceID = lbID \<and> ann_get (svc_Annotations s) annVIPPortID = vipID) items)))"


subsection \<open>Cleanup\<close>

definition recorded_state :: "K8sService \<Rightarrow> ObservedState" where
  "recorded_state svc =
     zero_state\<lparr>LBServiceID := ann_get (svc_Annotations svc) annLBServiceID, VIPPortID := ann_get (svc_Annotations svc) annVIPPortID,
       VIPAddress := ann_get (svc_Annotations svc) annVIPAddress,
       Graph := (case readObservedGraph (svc_Annotations svc) of Some graph \<Rightarrow> graph | None \<Rightarrow> NewObservedGraph)\<rparr>"

definition provided_mode :: "K8sService \<Rightarrow> string \<Rightarrow> bool" where
  "provided_mode svc ann = equal_fold (ann_get (svc_Annotations svc) ann) ''provided''"

definition release_state :: "K8sService \<Rightarrow> ObservedState" where
  "release_state svc = EnsureGraph ((recorded_state svc)\<lparr>VirtualServerID := ann_get (svc_Annotations svc) annVirtualServerID\<rparr>)"

definition cleanup_request :: "K8sService \<Rightarrow> bool \<Rightarrow> bool \<Rightarrow> CleanupRequest" where
  "cleanup_request svc lbShared vipShared =
     \<lparr>cu_Current = release_state svc,
      cu_DeleteVIP = (\<not> vipShared \<and> \<not> provided_mode svc annVIPPortIDMode),
      cu_DeleteLBService = (\<not> lbShared \<and> \<not> provided_mode svc annLBServiceIDMode),
      cu_AggregateVirtualServers = True\<rparr>"

definition cleanupCMPResources :: "cmp \<Rightarrow> kapi \<Rightarrow> serviceReconciler \<Rightarrow> K8sService \<Rightarrow> unit ctl" where
  "cleanupCMPResources A K r svc =
     (let lb = ann_get (svc_Annotations svc) annLBServiceID; vip = ann_get (svc_Annotations svc) annVIPPortID in
      io_bind (isLBServiceShared K svc lb)
        (\<lambda>lbShared. io_bind (isVIPShared K svc lb vip)
          (\<lambda>vipShared. io_bind (run_cmp (\<lambda>l. CleanupStack A (NewFromRaw (rc_defaultVPCID r)) (cleanup_request svc lbShared vipShared)))
            (\<lambda>_. io_return ()))))"

text \<open>A failing deletion of the NetworkPolicy is only logged.\<close>

definition cleanupNetworkPolicy :: "kapi \<Rightarrow> K8sService \<Rightarrow> unit ctl" where
  "cleanupNetworkPolicy K svc = io_try (policy_Delete K (Some svc)) (\<lambda>_. io_return ())"

record Result =
  Requeue :: bool
  RequeueAfter :: int

definition no_requeue :: Result where
  "no_requeue = \<lparr>Requeue = False, RequeueAfter = 0\<rparr>"

definition seconds :: "int \<Rightarrow> int" where
  "seconds n = n * 1000000000"

definition requeue_after :: "int \<Rightarrow> Result" where
  "requeue_after d = \<lparr>Requeue = False, RequeueAfter = d\<rparr>"

text \<open>Delete what the Service has at CMP, then release the object.  Only the deletion path announces it.\<close>

definition release_service :: "cmp \<Rightarrow> kapi \<Rightarrow> serviceReconciler \<Rightarrow> bool \<Rightarrow> K8sService \<Rightarrow> Result ctl" where
  "release_service A K r announce svc =
     (if finalizerName \<notin> set (svc_Finalizers svc) then io_return no_requeue
      else io_bind (if announce then kevent ''Normal'' ''DeletingLoadBalancer'' else io_return ())
        (\<lambda>_. io_try (cleanupCMPResources A K r svc)
          (\<lambda>res. case res of
             Inl e \<Rightarrow> io_bind (if announce then kevent ''Warning'' ''DeleteFailed'' else io_return ())
                        (\<lambda>_. io_fail (Wrapf ''CMP cleanup failed; retrying: %w'' [] e))
           | Inr _ \<Rightarrow>
               io_bind (if announce then kevent ''Normal'' ''DeletedLoadBalancer'' else io_return ())
                 (\<lambda>_. io_bind (cleanupNetworkPolicy K svc)
                   (\<lambda>_. io_bind (finalizers_Remove (patch_service K) svc_Finalizers put_svc_finalizers svc finalizerName)
                     (\<lambda>_. io_return no_requeue))))))"

subsection \<open>The checkpoint of a pass\<close>

text \<open>The annotations \<open>persistLBCheckpoint\<close> writes; a state without LB service is not written.\<close>

definition checkpoint_annotations :: "ObservedState \<Rightarrow> bool \<Rightarrow> string gomap \<Rightarrow> string gomap" where
  "checkpoint_annotations observed strict ann =
     (let ann = gm_set annLBServiceID (trim_space (LBServiceID observed)) ann;
          ann = (if ann_get ann annLBServiceIDMode = []
                 then gm_set annLBServiceIDMode (if strict then ''provided'' else ''managed'') ann else ann)
      in writeObservedGraph (Graph observed) ann)"

definition checkpointed :: "ObservedState \<Rightarrow> bool \<Rightarrow> K8sService \<Rightarrow> K8sService" where
  "checkpointed observed strict svc = svc\<lparr>svc_Annotations := checkpoint_annotations observed strict (svc_Annotations svc)\<rparr>"

definition persistLBCheckpoint :: "kapi \<Rightarrow> K8sService \<Rightarrow> bool \<Rightarrow> ObservedState \<Rightarrow> act list \<Rightarrow> kerr + K8sService" where
  "persistLBCheckpoint K svc strict observed l =
     (if trim_space (LBServiceID observed) = [] then Inr svc
      else k_PatchService K svc (checkpointed observed strict svc) l)"

text \<open>The provider a pass of this Service sees: its hook is the checkpoint.\<close>

definition with_checkpoint :: "cmp \<Rightarrow> kapi \<Rightarrow> K8sService \<Rightarrow> bool \<Rightarrow> act list \<Rightarrow> cmp" where
  "with_checkpoint A K svc strict l =
     A\<lparr>r_LBReady := (\<lambda>observed h.
        case persistLBCheckpoint K svc strict observed (l @ map Cmp (drop (length (cmp_history l)) h)) of
          Inl e \<Rightarrow> Inl (api_err e) | Inr _ \<Rightarrow> Inr ())\<rparr>"

fun hook_state :: "act \<Rightarrow> ObservedState option" where
  "hook_state (Cmp (LBReady s)) = Some s"
| "hook_state _ = None"

text \<open>The local object after the pass whose acts are \<open>acts\<close>: the answer to the checkpoint's patch, or,
  when that failed, the object as it was changed before sending.\<close>

fun after_pass :: "kapi \<Rightarrow> bool \<Rightarrow> act list \<Rightarrow> act list \<Rightarrow> K8sService \<Rightarrow> K8sService" where
  "after_pass K strict l [] svc = svc"
| "after_pass K strict l (a # acts) svc =
     after_pass K strict (l @ [a]) acts
       (case hook_state a of
          None \<Rightarrow> svc
        | Some observed \<Rightarrow>
            (case persistLBCheckpoint K svc strict observed l of
               Inr obj \<Rightarrow> obj
             | Inl _ \<Rightarrow> checkpointed observed strict svc))"

definition ensure_request :: "K8sService \<Rightarrow> LBConfig \<Rightarrow> LoadBalancerStack \<Rightarrow> ObservedState \<Rightarrow> bool \<times> bool \<Rightarrow> StackEnsureRequest" where
  "ensure_request svc cfg stack shared strict =
     \<lparr>sr_Stack = Some stack, sr_Current = shared, sr_StrictLBServiceID = fst strict, sr_StrictVIPPortID = snd strict,
      sr_RecoverVirtualServersByName = True, sr_LBReadyHook = True,
      sr_NetworkIDExplicit = (trim_space (NetworkID cfg) \<noteq> []), sr_AggregateVirtualServer = True\<rparr>"

text \<open>The pass, its result as a value, with the local object after it.\<close>

definition service_pass :: "cmp \<Rightarrow> kapi \<Rightarrow> serviceReconciler \<Rightarrow> K8sService \<Rightarrow> StackEnsureRequest \<Rightarrow>
    ((err + ObservedState \<times> bool) \<times> K8sService) ctl" where
  "service_pass A K r svc req =
     (\<lambda>l. case run_cmp (\<lambda>l. EnsureStack (with_checkpoint A K svc (sr_StrictLBServiceID req) l) (NewFromRaw (rc_defaultVPCID r)) req) l of
        (res, l') \<Rightarrow> (Inr (res, after_pass K (sr_StrictLBServiceID req) l (drop (length l) l') svc), l'))"

subsection \<open>Errors of a pass\<close>

definition managedLBRepairState :: "string gomap \<Rightarrow> string \<times> int" where
  "managedLBRepairState ann =
     (let repairID = ann_get ann annManagedLBRepairID; raw = ann_get ann annManagedLBRepairs
      in if raw = [] then (repairID, 0)
         else case atoi raw of
             None \<Rightarrow> (repairID, 0)
           | Some n \<Rightarrow> if n < 0 then (repairID, 0) else (repairID, n))"

definition bump_annotations :: "string \<Rightarrow> int \<Rightarrow> string gomap \<Rightarrow> string gomap" where
  "bump_annotations lbID attempts ann =
     gm_set annManagedLBRepairs (show_int attempts) (gm_set annManagedLBRepairID (trim_space lbID) ann)"

definition bumpManagedLBRepairState :: "kapi \<Rightarrow> K8sService \<Rightarrow> string \<Rightarrow> int \<Rightarrow> unit ctl" where
  "bumpManagedLBRepairState K svc lbID attempts =
     io_bind (patch_service K svc (svc\<lparr>svc_Annotations := bump_annotations lbID attempts (svc_Annotations svc)\<rparr>))
       (\<lambda>_. io_return ())"

definition terminal_lb :: "kapi \<Rightarrow> K8sService \<Rightarrow> bool \<Rightarrow> string \<Rightarrow> Result ctl" where
  "terminal_lb K svc strictLB failedID =
     (if strictLB then io_bind (kevent ''Warning'' ''ProvidedLBTerminalFailed'') (\<lambda>_. io_return no_requeue)
      else case managedLBRepairState (svc_Annotations svc) of (repairID, repairAttempts) \<Rightarrow>
        let repairAttempts = (if failedID \<noteq> [] \<and> repairID \<noteq> failedID then 0 else repairAttempts)
        in if maxManagedLBRepairAttempts \<le> repairAttempts
           then io_bind (kevent ''Warning'' ''ManagedLBTerminalFailed'') (\<lambda>_. io_return no_requeue)
           else io_bind (bumpManagedLBRepairState K svc failedID (repairAttempts + 1))
                  (\<lambda>_. io_bind (kevent ''Warning'' ''ManagedLBRepairRetry'')
                    (\<lambda>_. io_return (requeue_after (seconds 45)))))"

definition terminal_lb_id :: "err \<Rightarrow> string option" where
  "terminal_lb_id e =
     (case IsTerminalProvisioning e of
        Some (ty, rid, st, dt) \<Rightarrow> if ty = ''LBService'' then Some (trim_space rid) else None
      | None \<Rightarrow> None)"

definition pass_failed :: "kapi \<Rightarrow> K8sService \<Rightarrow> bool \<Rightarrow> err \<Rightarrow> Result ctl" where
  "pass_failed K svc strictLB e =
     (case terminal_lb_id e of
        Some failedID \<Rightarrow> terminal_lb K svc strictLB failedID
      | None \<Rightarrow>
          (case IsRateLimited e of
             Some d \<Rightarrow>
               let retryAfter = (if d \<le> 0 then seconds 120 else d)
               in io_bind (kevent ''Warning'' ''RateLimited'') (\<lambda>_. io_return (requeue_after retryAfter))
           | None \<Rightarrow>
               (case IsProvisioningPending e of
                  Some _ \<Rightarrow> io_bind (kevent ''Normal'' ''ProvisioningPending'') (\<lambda>_. io_return (requeue_after (seconds 15)))
                | None \<Rightarrow> io_bind (kevent ''Warning'' ''SyncLoadBalancerFailed'') (\<lambda>_. io_return (requeue_after (seconds 120))))))"

subsection \<open>A successful pass\<close>

definition vs_of_port :: "serviceReconciler \<Rightarrow> K8sService \<Rightarrow> ObservedState \<Rightarrow> ServicePort \<Rightarrow> ObservedResource" where
  "vs_of_port r svc shared port =
     gm_index zero_observed (g_VirtualServers (Graph shared)) (desiredVirtualServerName r svc (svp_FrontendPort port))"

definition port_observed :: "serviceReconciler \<Rightarrow> K8sService \<Rightarrow> ObservedState \<Rightarrow> ServicePort list \<Rightarrow> servicePortObserved gomap" where
  "port_observed r svc shared ports =
     fold (\<lambda>port m. gm_set (servicePortKey port)
        \<lparr>po_VirtualServerID = ExternalID (vs_of_port r svc shared port), po_VirtualServerName = or_Name (vs_of_port r svc shared port),
         po_BackendHash = DesiredBackendHash (svp_FrontendPort port) (svp_NodePort port) (svp_Backends port)\<rparr> m) ports []"

definition zero_port_observed :: servicePortObserved where
  "zero_port_observed = \<lparr>po_VirtualServerID = [], po_VirtualServerName = [], po_BackendHash = []\<rparr>"

definition last_vs_id :: "ObservedState \<Rightarrow> servicePortObserved gomap \<Rightarrow> ServicePort list \<Rightarrow> string" where
  "last_vs_id shared observed ports =
     (if ports \<noteq> [] \<and> VirtualServerID shared = []
      then po_VirtualServerID (gm_index zero_port_observed observed (servicePortKey (last ports)))
      else VirtualServerID shared)"

definition set_mode :: "string \<Rightarrow> bool \<Rightarrow> string \<Rightarrow> string gomap \<Rightarrow> string gomap" where
  "set_mode key strict ident ann =
     (if ann_get ann key \<noteq> [] then ann
      else if strict then gm_set key ''provided'' ann
      else if trim_space ident \<noteq> [] then gm_set key ''managed'' ann else ann)"

definition success_annotations :: "serviceReconciler \<Rightarrow> K8sService \<Rightarrow> LoadBalancerStack \<Rightarrow> bool \<times> bool \<Rightarrow> ObservedState \<Rightarrow>
    string gomap \<Rightarrow> string gomap" where
  "success_annotations r svc stack strict shared ann =
     (let observed = port_observed r svc shared (st_Ports stack);
          ann = gm_del annManagedLBRepairs (gm_del annManagedLBRepairID ann);
          ann = gm_set annVIPPortID (VIPPortID shared) (gm_set annLBServiceID (LBServiceID shared) ann);
          ann = gm_set annVirtualServerID (last_vs_id shared observed (st_Ports stack)) ann;
          ann = set_mode annLBServiceIDMode (fst strict) (LBServiceID shared) ann;
          ann = set_mode annVIPPortIDMode (snd strict) (VIPPortID shared) ann;
          ann = (if VIPAddress shared \<noteq> [] then gm_set annVIPAddress (VIPAddress shared) ann else ann);
          ann = gm_set annBackendHash
            (po_BackendHash (gm_index zero_port_observed observed (servicePortKey (hd (st_Ports stack))))) ann;
          ann = writeObservedGraph (Graph shared) (writeServicePortObserved observed ann)
      in gm_set annObservedGeneration (show_int (svc_Generation svc)) ann)"

definition pass_succeeded :: "kapi \<Rightarrow> serviceReconciler \<Rightarrow> K8sService \<Rightarrow> LoadBalancerStack \<Rightarrow> bool \<times> bool \<Rightarrow> ObservedState \<Rightarrow> Result ctl" where
  "pass_succeeded K r svc stack strict shared =
     (let vip = VIPAddress shared in
      io_bind (if vip \<noteq> [] then kevent ''Normal'' ''AllocatedVIP'' else io_return ())
        (\<lambda>_. io_bind (patch_service K svc (svc\<lparr>svc_Annotations := success_annotations r svc stack strict shared (svc_Annotations svc)\<rparr>))
          (\<lambda>svc. io_bind (kevent ''Normal'' ''EnsuredLoadBalancer'')
            (\<lambda>_. io_try (policy_Ensure K (Some svc))
              (\<lambda>_. if vip = [] then io_return (requeue_after (seconds 10))
                   else io_bind (EnsureServiceVIP K svc vip) (\<lambda>_. io_return no_requeue))))))"

subsection \<open>\<open>Reconcile\<close>\<close>

text \<open>The backends per frontend port: a later Service port of the same number replaces an earlier one.\<close>

definition port_backends :: "kapi \<Rightarrow> K8sService \<Rightarrow> (int32 \<times> Node list) list ctl" where
  "port_backends K svc =
     io_fold (\<lambda>m p. io_bind (read_cache K (\<lambda>k. ListReadyNodeBackendsForPort k (Some svc) p))
                (\<lambda>nodes. io_return ((sp_Port p, nodes) # m))) (svc_Ports svc) []"

definition backends_of :: "(int32 \<times> Node list) list \<Rightarrow> SvcPort \<Rightarrow> Node list" where
  "backends_of m p = (case map_of m (sp_Port p) of Some nodes \<Rightarrow> nodes | None \<Rightarrow> [])"

text \<open>The stack with the names and the placement of this cluster.\<close>

definition placed_stack :: "serviceReconciler \<Rightarrow> K8sService \<Rightarrow> LBConfig \<Rightarrow> LoadBalancerStack \<Rightarrow> LoadBalancerStack" where
  "placed_stack r svc cfg stack =
     stack\<lparr>st_LBService := (st_LBService stack)\<lparr>ml_Name := desiredLBServiceName r svc, ml_VPCID := rc_defaultVPCID r,
          ml_VPCName := rc_defaultVPCName r, ml_Region := rc_defaultRegion r,
          ml_NetworkID := (if trim_space (NetworkID cfg) \<noteq> [] then trim_space (NetworkID cfg) else rc_defaultNetworkID r),
          ml_FlavorID := (if 0 < sint (FlavorID cfg) then FlavorID cfg else rc_defaultFlavorID r)\<rparr>,
        st_VirtualServers := map (\<lambda>vs. vs\<lparr>vs_Name := desiredVirtualServerName r svc (vs_FrontendPort vs)\<rparr>) (st_VirtualServers stack)\<rparr>"

definition current_state :: "kapi \<Rightarrow> K8sService \<Rightarrow> ObservedState ctl" where
  "current_state K svc =
     (let shared = recorded_state svc in
      if LBServiceID shared = [] \<and> VIPGroup (Some svc) \<noteq> []
      then io_bind (sharedParentObservedState K svc)
        (\<lambda>parent. io_return (case parent of
            None \<Rightarrow> shared
          | Some p \<Rightarrow> shared\<lparr>LBServiceID := LBServiceID p, VIPPortID := VIPPortID p, VIPAddress := VIPAddress p, Graph := Graph p\<rparr>))
      else io_return shared)"

definition converge_rest :: "cmp \<Rightarrow> kapi \<Rightarrow> serviceReconciler \<Rightarrow> LBConfig \<Rightarrow> LoadBalancerStack \<Rightarrow> K8sService \<Rightarrow> Result ctl" where
  "converge_rest A K r cfg stack svc =
     io_bind (current_state K svc)
       (\<lambda>shared. let strict = strictProvidedResourcePolicies (Some svc) shared in
         io_bind (service_pass A K r svc (ensure_request svc cfg stack shared strict))
           (\<lambda>(res, svc). case res of
              Inl e \<Rightarrow> pass_failed K svc (fst strict) e
            | Inr (observed, changed) \<Rightarrow> pass_succeeded K r svc stack strict observed))"

definition converge_service :: "cmp \<Rightarrow> kapi \<Rightarrow> serviceReconciler \<Rightarrow> K8sService \<Rightarrow> LBConfig \<Rightarrow> LoadBalancerStack \<Rightarrow> Result ctl" where
  "converge_service A K r svc cfg stack =
     io_bind (finalizers_Ensure (patch_service K) svc_Finalizers put_svc_finalizers svc finalizerName)
       (\<lambda>(svc, _). converge_rest A K r cfg stack svc)"

definition build_reason :: "err \<Rightarrow> string" where
  "build_reason e =
     (case e of
        Errorf f args \<Rightarrow>
          if list_ex (\<lambda>t. str_contains t ''BackendNodePortRequired'') (f # args) then ''BackendNodePortRequired''
          else ''InvalidLoadBalancerService''
      | _ \<Rightarrow> ''InvalidLoadBalancerService'')"

definition reconcile_live :: "cmp \<Rightarrow> kapi \<Rightarrow> serviceReconciler \<Rightarrow> K8sService \<Rightarrow> Result ctl" where
  "reconcile_live A K r svc =
     (if ann_get (svc_Annotations svc) annVIPPortID \<noteq> [] \<and> ann_get (svc_Annotations svc) annLBServiceID = []
      then io_bind (kevent ''Warning'' ''InvalidProvidedResources'') (\<lambda>_. io_return no_requeue)
      else let cfg = ParseService (Some svc) in
        io_bind (port_backends K svc)
          (\<lambda>m. case BuildLoadBalancerStackWithPortBackends (Some svc) cfg (backends_of m) of
             Inl e \<Rightarrow> io_bind (kevent ''Warning'' (build_reason e)) (\<lambda>_. io_return no_requeue)
           | Inr stack \<Rightarrow>
               if trim_space (VPCID cfg) \<noteq> [] \<and> trim_space (VPCID cfg) \<noteq> trim_space (rc_defaultVPCID r)
               then io_bind (kevent ''Warning'' ''InvalidLoadBalancerPlacement'') (\<lambda>_. io_return no_requeue)
               else converge_service A K r svc cfg (placed_stack r svc cfg stack)))"

definition class_matches :: "serviceReconciler \<Rightarrow> K8sService \<Rightarrow> bool" where
  "class_matches r svc =
     (trim_space (rc_loadBalancerClass r) = [] \<or>
      (case svc_LoadBalancerClass svc of None \<Rightarrow> False | Some c \<Rightarrow> trim_space c = rc_loadBalancerClass r))"

definition svc_Reconcile :: "cmp \<Rightarrow> kapi \<Rightarrow> serviceReconciler \<Rightarrow> string \<Rightarrow> string \<Rightarrow> Result ctl" where
  "svc_Reconcile A K r ns name =
     io_bind (kask (KGetService ns name) (k_GetService K ns name))
       (\<lambda>found. case found of
          Inl (KNotFound e) \<Rightarrow> io_return no_requeue
        | Inl (KError e) \<Rightarrow> io_fail (OtherErr e)
        | Inr svc \<Rightarrow>
            if svc_Deleting svc then release_service A K r True svc
            else if svc_Type svc \<noteq> ''LoadBalancer'' then release_service A K r False svc
            else if \<not> class_matches r svc then release_service A K r False svc
            else reconcile_live A K r svc)"

subsection \<open>Which Services to reconcile\<close>

definition listManagedServiceRequests :: "kapi \<Rightarrow> (string \<times> string) list ctl" where
  "listManagedServiceRequests K =
     io_bind (list_services K None)
       (\<lambda>r. case r of
          Inl e \<Rightarrow> io_return []
        | Inr items \<Rightarrow> io_return (map (\<lambda>s. (svc_Namespace s, svc_Name s)) (filter (\<lambda>s. finalizerName \<in> set (svc_Finalizers s)) items)))"

text \<open>The Service an EndpointSlice event belongs to.\<close>

definition slice_requests :: "string \<Rightarrow> string gomap \<Rightarrow> (string \<times> string) list" where
  "slice_requests ns labels =
     (let svcName = gm_index [] labels ''kubernetes.io/service-name'' in if svcName = [] then [] else [(ns, svcName)])"
end
