(* ===== verification/IngressController.thy ===== *)
theory IngressController
  imports ServiceController IngressGroup ControlPlane
begin

text \<open>
  The controller of Ingresses, \<open>cmd/svc-lb-bridge/ingress_controller.go\<close>.  \<open>A\<close> is the CMP provider,
  \<open>K\<close> the Kubernetes API.  The backend resolver of one build reads Services, Nodes and EndpointSlices
  from the informer cache; it sees the cache as it is when the build starts, and these reads are not
  acts.  Log lines and metrics are left out.
\<close>

definition ingressClassName :: string where "ingressClassName = ''f5''"
definition ingressFinalizerName :: string where "ingressFinalizerName = ''f5.extensions.gardener.cloud/ingress-lb''"
definition annIngressLBServiceID :: string where "annIngressLBServiceID = ''f5.extensions.gardener.cloud/ingress-lb-service-id''"
definition annIngressVIPPortID :: string where "annIngressVIPPortID = ''f5.extensions.gardener.cloud/ingress-vip-port-id''"
definition annIngressVSID :: string where "annIngressVSID = ''f5.extensions.gardener.cloud/ingress-virtual-server-id''"
definition annIngressVIPAddress :: string where "annIngressVIPAddress = ''f5.extensions.gardener.cloud/ingress-vip-address''"

text \<open>The reconciler; the X.509 library comes with it.\<close>

record ingressReconciler =
  ig_cmp :: bool
  ig_vpcID :: string
  ig_x509 :: x509

subsection \<open>Which Ingresses, which group\<close>

definition isOwnedIngress :: "K8sIngress \<Rightarrow> bool" where
  "isOwnedIngress i =
     (case ing_ClassName i of
        Some c \<Rightarrow> c = ingressClassName
      | None \<Rightarrow> (case map_of (ing_Annotations i) ''kubernetes.io/ingress.class'' of Some a \<Rightarrow> a = ingressClassName | None \<Rightarrow> False))"

definition isOwnedIngressObject :: "K8sIngress option \<Rightarrow> bool" where
  "isOwnedIngressObject i = (case i of None \<Rightarrow> False | Some i \<Rightarrow> isOwnedIngress i)"

definition list_ingresses :: "kapi \<Rightarrow> string option \<Rightarrow> K8sIngress list ctl" where
  "list_ingresses K ns = kcall (KListIngresses ns) (k_ListIngresses K ns)"

definition remainingGroupMembers :: "kapi \<Rightarrow> K8sIngress \<Rightarrow> K8sIngress list ctl" where
  "remainingGroupMembers K departing =
     io_bind (list_ingresses K (Some (ing_Namespace departing)))
       (\<lambda>items. let grp = GroupName departing in
          if grp = [] then io_return []
          else io_return (filter (\<lambda>c. ing_Name c \<noteq> ing_Name departing \<and> \<not> ing_Deleting c \<and> isOwnedIngress c \<and>
                 GroupName c = grp) items))"

definition observedIngressGroup :: "(string list \<Rightarrow> string list) \<Rightarrow> K8sIngress \<Rightarrow> string" where
  "observedIngressGroup ord i =
     (case readObservedGraph (ing_Annotations i) of
        None \<Rightarrow> []
      | Some graph \<Rightarrow>
          (case find (\<lambda>(key, lb). os_SourceKind (or_Ownership lb) = ''IngressGroup'') (go_range ord (g_LBServices graph)) of
             None \<Rightarrow> []
           | Some (key, lb) \<Rightarrow> os_SharedGroup (or_Ownership lb)))"

definition ingressGroupMembers :: "K8sIngress list \<Rightarrow> string \<Rightarrow> string \<Rightarrow> string \<Rightarrow> (K8sIngress \<Rightarrow> bool) \<Rightarrow> K8sIngress list" where
  "ingressGroupMembers items namespace grp exclude owned =
     filter (\<lambda>i. ing_Namespace i = namespace \<and> ing_Name i \<noteq> exclude \<and> \<not> ing_Deleting i \<and> GroupName i = grp \<and> owned i) items"

fun canonicalIngress :: "K8sIngress list \<Rightarrow> K8sIngress option" where
  "canonicalIngress [] = None"
| "canonicalIngress (m # members) =
     Some (fold (\<lambda>member canonical. if ing_full_name member < ing_full_name canonical then member else canonical) members m)"

text \<open>\<open>parseIngressConfig\<close> of the canonical member; the annotations of a nil object are a nil dereference.\<close>

definition parseIngressConfig :: "K8sIngress option \<Rightarrow> err + LBConfig" where
  "parseIngressConfig i =
     (case i of
        None \<Rightarrow> Inl (OtherErr ''panic: nil pointer dereference'')
      | Some i \<Rightarrow> Inr (ParseObject (Some (ing_Annotations i))))"

subsection \<open>Backends\<close>

text \<open>Services are read from the cache as it is after the acts \<open>l\<close>.\<close>

definition getServiceAndNodePort :: "kapi \<Rightarrow> act list \<Rightarrow> string \<Rightarrow> IngressServiceBackend \<Rightarrow> err + K8sService option \<times> int32" where
  "getServiceAndNodePort K l namespace backend =
     (let pn = isb_PortName backend; num = isb_PortNumber backend in
      case k_GetService K namespace (isb_Name backend) l of
        Inl (KNotFound e) \<Rightarrow> Inr (None, 0)
      | Inl (KError e) \<Rightarrow> Inl (OtherErr e)
      | Inr svc \<Rightarrow>
          (case find (\<lambda>p. pn \<noteq> [] \<and> sp_Name p = pn \<or> num \<noteq> 0 \<and> sp_Port p = num) (svc_Ports svc) of
             Some p \<Rightarrow> Inr (Some svc, sp_NodePort p)
           | None \<Rightarrow> Inl (Errorf ''service %s/%s has no port matching ingress backend port name=%q number=%d''
               [namespace, isb_Name backend, pn, show_i32 num])))"

fun first_node_port :: "(IngressServiceBackend \<Rightarrow> err + K8sService option \<times> int32) \<Rightarrow> IngressServiceBackend list \<Rightarrow>
    err + (K8sService option \<times> int32) option" where
  "first_node_port look [] = Inr None"
| "first_node_port look (b # bs) =
     (case look b of
        Inl e \<Rightarrow> Inl e
      | Inr (svc, np) \<Rightarrow> if 0 < sint np then Inr (Some (svc, np)) else first_node_port look bs)"

definition resolveBackendServiceAndNodePort :: "kapi \<Rightarrow> act list \<Rightarrow> K8sIngress \<Rightarrow> err + K8sService option \<times> int32" where
  "resolveBackendServiceAndNodePort K l i =
     (let look = getServiceAndNodePort K l (ing_Namespace i);
          backends = List.map_filter (\<lambda>p. ib_Service (ip_Backend p))
            (concat (map (\<lambda>r. case ir_HTTP r of None \<Rightarrow> [] | Some ps \<Rightarrow> ps) (ing_Rules i)))
      in case first_node_port look backends of
           Inl e \<Rightarrow> Inl e
         | Inr (Some found) \<Rightarrow> Inr found
         | Inr None \<Rightarrow> (case Option.bind (ing_DefaultBackend i) ib_Service of None \<Rightarrow> Inr (None, 0) | Some b \<Rightarrow> look b))"

definition resolveGroupBackend :: "kapi \<Rightarrow> act list \<Rightarrow> string \<Rightarrow> IngressServiceBackend \<Rightarrow> err + BackendSet" where
  "resolveGroupBackend K l namespace backend =
     (case getServiceAndNodePort K l namespace backend of
        Inl e \<Rightarrow> Inl e
      | Inr (None, nodePort) \<Rightarrow> Inl (Errorf ''backend service %s/%s was not found'' [namespace, isb_Name backend])
      | Inr (Some svc, nodePort) \<Rightarrow>
          if nodePort = 0 then Inl (Errorf ''BackendNodePortRequired: backend service %s/%s'' [namespace, isb_Name backend])
          else (case ListReadyNodeBackends (k_cache K l) (Some svc) of
                  Inl e \<Rightarrow> Inl (OtherErr e)
                | Inr nodes \<Rightarrow> Inr \<lparr>bs_NodePort = nodePort, bs_Nodes = nodes\<rparr>))"

definition group_options :: "kapi \<Rightarrow> act list \<Rightarrow> GroupStackBuildOptions" where
  "group_options K l =
     \<lparr>go_ClusterUID = [], go_HTTPFrontendPort = 0, go_HTTPSFrontendPort = 0, go_BackendResolver = Some (resolveGroupBackend K l)\<rparr>"

text \<open>The desired stack of a group, built from what the cache holds now.\<close>

definition build_group :: "kapi \<Rightarrow> K8sIngress list \<Rightarrow> LBConfig \<Rightarrow> LoadBalancerStack ctl" where
  "build_group K members cfg =
     (\<lambda>l. io_of_result (BuildGroupLoadBalancerStack (map Some members) cfg (group_options K l)) l)"

subsection \<open>What the annotations of a member hold\<close>

definition ingress_state :: "K8sIngress \<Rightarrow> ObservedState" where
  "ingress_state i =
     zero_state\<lparr>LBServiceID := ann_get (ing_Annotations i) annIngressLBServiceID,
       VIPPortID := ann_get (ing_Annotations i) annIngressVIPPortID,
       VirtualServerID := ann_get (ing_Annotations i) annIngressVSID,
       VIPAddress := ann_get (ing_Annotations i) annIngressVIPAddress,
       Graph := (case readObservedGraph (ing_Annotations i) of Some graph \<Rightarrow> graph | None \<Rightarrow> NewObservedGraph)\<rparr>"

definition member_annotations :: "CMPResourceIDs \<Rightarrow> string \<Rightarrow> ObservedGraph \<Rightarrow> string gomap \<Rightarrow> string gomap" where
  "member_annotations ids vip graph ann =
     writeObservedGraph graph
       (gm_set annIngressVIPAddress vip (gm_set annIngressVSID (ci_VirtualServerID ids)
         (gm_set annIngressVIPPortID (ci_VIPPortID ids) (gm_set annIngressLBServiceID (ci_LBServiceID ids) ann))))"

definition persist_member :: "kapi \<Rightarrow> CMPResourceIDs \<Rightarrow> string \<Rightarrow> ObservedGraph \<Rightarrow> K8sIngress \<Rightarrow> unit ctl" where
  "persist_member K ids vip graph member =
     io_bind (patch_ingress K member (member\<lparr>ing_Annotations := member_annotations ids vip graph (ing_Annotations member)\<rparr>))
       (\<lambda>member. EnsureIngressVIP K member vip)"

definition persistGroupObserved :: "kapi \<Rightarrow> K8sIngress list \<Rightarrow> CMPResourceIDs \<Rightarrow> string \<Rightarrow> ObservedGraph \<Rightarrow> unit ctl" where
  "persistGroupObserved K members ids vip graph = io_fold (\<lambda>_. persist_member K ids vip graph) members ()"

subsection \<open>Certificates\<close>

definition hasCertificateCapability :: "ingressReconciler \<Rightarrow> bool" where
  "hasCertificateCapability r = ig_cmp r"

definition with_material :: "TLSMaterial \<Rightarrow> M_Certificate \<Rightarrow> M_Certificate" where
  "with_material m cert =
     cert\<lparr>cert_Fingerprint := tm_Fingerprint m, cert_Certificate := tm_Certificate m, cert_PrivateKey := tm_PrivateKey m,
          cert_CA := tm_CA m\<rparr>"

definition read_material :: "kapi \<Rightarrow> x509 \<Rightarrow> string \<Rightarrow> string \<Rightarrow> TLSMaterial ctl" where
  "read_material K x namespace secretName =
     io_bind (io_wrap ''reading TLS Secret %s/%s: %w'' [namespace, secretName]
         (kcall (KGetSecret namespace secretName) (k_GetSecret K namespace secretName)))
       (\<lambda>secret. io_of_result (ReadTLSSecret x (Some secret)))"

text \<open>The loop with its cache of the Secrets read so far.\<close>

definition populate_step :: "kapi \<Rightarrow> x509 \<Rightarrow> string \<Rightarrow> TLSMaterial gomap \<times> M_Certificate list \<Rightarrow> M_Certificate \<Rightarrow>
    (TLSMaterial gomap \<times> M_Certificate list) ctl" where
  "populate_step K x namespace st cert =
     (let secretName = trim_space (cert_SecretName cert) in
      case st of (cache, done) \<Rightarrow>
        if secretName = [] then io_fail (Errorf ''certificate %q has no Secret reference'' [cert_Name cert])
        else (case map_of cache secretName of
                Some m \<Rightarrow> io_return (cache, done @ [with_material m cert])
              | None \<Rightarrow> io_bind (read_material K x namespace secretName)
                  (\<lambda>m. io_return (gm_set secretName m cache, done @ [with_material m cert]))))"

definition populateTLSCertificates :: "kapi \<Rightarrow> x509 \<Rightarrow> string \<Rightarrow> LoadBalancerStack \<Rightarrow> LoadBalancerStack ctl" where
  "populateTLSCertificates K x namespace stack =
     io_bind (io_fold (populate_step K x namespace) (st_Certificates stack) ([], []))
       (\<lambda>(cache, certs). io_return (stack\<lparr>st_Certificates := certs\<rparr>))"

subsection \<open>CMP\<close>

definition ing_ensure_request :: "K8sIngress \<Rightarrow> LoadBalancerStack \<Rightarrow> StackEnsureRequest" where
  "ing_ensure_request i stack =
     \<lparr>sr_Stack = Some stack, sr_Current = ingress_state i, sr_StrictLBServiceID = False, sr_StrictVIPPortID = False,
      sr_RecoverVirtualServersByName = False, sr_LBReadyHook = False, sr_NetworkIDExplicit = False,
      sr_AggregateVirtualServer = False\<rparr>"

definition ing_ids :: "LoadBalancerStack \<Rightarrow> ObservedState \<Rightarrow> CMPResourceIDs" where
  "ing_ids stack observed =
     (let vs = gm_index zero_observed (g_VirtualServers (Graph observed)) (vs_Name (hd (st_VirtualServers stack)))
      in \<lparr>ci_LBServiceID = LBServiceID observed, ci_VIPPortID = VIPPortID observed, ci_VirtualServerID = ExternalID vs,
          ci_VirtualServerName = or_Name vs\<rparr>)"

definition ing_ensureCMPResources :: "cmp \<Rightarrow> ingressReconciler \<Rightarrow> K8sIngress \<Rightarrow> LoadBalancerStack \<Rightarrow>
    (CMPResourceIDs \<times> string \<times> ObservedGraph) ctl" where
  "ing_ensureCMPResources A r i stack =
     (if st_VirtualServers stack = [] then io_fail (Errorf ''ingress load-balancer stack is empty'' [])
      else io_bind (run_cmp (\<lambda>l. EnsureStack A (NewFromRaw (ig_vpcID r)) (ing_ensure_request i stack)))
        (\<lambda>(observed, changed). io_return (ing_ids stack observed, VIPAddress observed, Graph observed)))"

text \<open>Whether another Ingress with the finalizer refers to the LB service.\<close>

definition ing_claims_lb :: "K8sIngress \<Rightarrow> string \<Rightarrow> K8sIngress \<Rightarrow> bool" where
  "ing_claims_lb self lbID i =
     (case readObservedGraph (ing_Annotations i) of
        Some graph \<Rightarrow> list_ex (\<lambda>parent. ExternalID parent = lbID \<and>
          (os_SourceKind (or_Ownership parent) = ''IngressGroup'' \<and> os_SharedGroup (or_Ownership parent) = GroupName self \<or>
           os_SourceKind (or_Ownership parent) = ''Ingress'' \<and> os_SourceNamespace (or_Ownership parent) = ing_Namespace i \<and>
           os_SourceName (or_Ownership parent) = ing_Name i \<and>
           (os_SourceUID (or_Ownership parent) = [] \<or> os_SourceUID (or_Ownership parent) = ing_UID i))) (gm_values (g_LBServices graph))
      | None \<Rightarrow> gm_index [] (ing_Annotations i) annIngressLBServiceID = lbID)"

definition ing_isLBServiceShared :: "kapi \<Rightarrow> K8sIngress \<Rightarrow> string \<Rightarrow> bool ctl" where
  "ing_isLBServiceShared K self lbID =
     (if trim_space lbID = [] then io_return False
      else io_bind (kask (KListIngresses (Some (ing_Namespace self))) (k_ListIngresses K (Some (ing_Namespace self))))
        (\<lambda>r. case r of
           Inl e \<Rightarrow> io_return False
         | Inr items \<Rightarrow> io_return (list_ex (\<lambda>i.
             \<not> (ing_Name i = ing_Name self \<and> ing_Namespace i = ing_Namespace self) \<and>
             ingressFinalizerName \<in> set (ing_Finalizers i) \<and> ing_claims_lb self lbID i) items)))"

definition ing_release_state :: "K8sIngress \<Rightarrow> ObservedState" where
  "ing_release_state i = EnsureGraph ((ingress_state i)\<lparr>VIPAddress := []\<rparr>)"

definition ing_cleanup_request :: "K8sIngress \<Rightarrow> bool \<Rightarrow> CleanupRequest" where
  "ing_cleanup_request i shared =
     \<lparr>cu_Current = ing_release_state i, cu_DeleteVIP = (\<not> shared), cu_DeleteLBService = (\<not> shared),
      cu_AggregateVirtualServers = False\<rparr>"

definition ing_cleanupCMPResources :: "cmp \<Rightarrow> kapi \<Rightarrow> ingressReconciler \<Rightarrow> K8sIngress \<Rightarrow> unit ctl" where
  "ing_cleanupCMPResources A K r i =
     io_bind (ing_isLBServiceShared K i (ann_get (ing_Annotations i) annIngressLBServiceID))
       (\<lambda>shared. io_bind (run_cmp (\<lambda>l. CleanupStack A (NewFromRaw (ig_vpcID r)) (ing_cleanup_request i shared)))
         (\<lambda>_. io_return ()))"

subsection \<open>\<open>Reconcile\<close>\<close>

text \<open>Converge the stack of a group on the resources that \<open>i\<close> records, and mirror the result to its
  members; \<open>wb\<close> and \<open>we\<close> say how the two errors are wrapped.\<close>

definition converge_members :: "cmp \<Rightarrow> kapi \<Rightarrow> ingressReconciler \<Rightarrow> string option \<times> string option \<Rightarrow> K8sIngress \<Rightarrow>
    K8sIngress list \<Rightarrow> unit ctl" where
  "converge_members A K r wraps i members =
     (let wrap_build = (case fst wraps of None \<Rightarrow> (\<lambda>m. m) | Some f \<Rightarrow> io_wrap f []);
          wrap_ensure = (case snd wraps of None \<Rightarrow> (\<lambda>m. m) | Some f \<Rightarrow> io_wrap f [])
      in io_bind (io_of_result (parseIngressConfig (canonicalIngress members)))
           (\<lambda>cfg. io_bind (wrap_build (build_group K members cfg))
             (\<lambda>stack. io_bind (wrap_ensure (ing_ensureCMPResources A r i stack))
               (\<lambda>(ids, vip, graph). persistGroupObserved K members ids vip graph))))"

definition ing_remove_finalizer :: "kapi \<Rightarrow> K8sIngress \<Rightarrow> Result ctl" where
  "ing_remove_finalizer K i =
     io_bind (finalizers_Remove (patch_ingress K) ing_Finalizers put_ing_finalizers i ingressFinalizerName)
       (\<lambda>_. io_return no_requeue)"

definition ing_departing :: "cmp \<Rightarrow> kapi \<Rightarrow> ingressReconciler \<Rightarrow> K8sIngress \<Rightarrow> Result ctl" where
  "ing_departing A K r i =
     (if ingressFinalizerName \<notin> set (ing_Finalizers i) then io_return no_requeue
      else io_bind (remainingGroupMembers K i)
        (\<lambda>remaining.
           if remaining \<noteq> []
           then io_bind (converge_members A K r
                  (Some ''building remaining ingress group: %w'', Some ''reconciling remaining ingress group: %w'') i remaining)
                  (\<lambda>_. ing_remove_finalizer K i)
           else io_bind (kevent ''Normal'' ''DeletingLoadBalancer'')
             (\<lambda>_. io_try (ing_cleanupCMPResources A K r i)
               (\<lambda>res. case res of
                  Inl e \<Rightarrow> io_bind (kevent ''Warning'' ''DeleteFailed'')
                             (\<lambda>_. io_fail (Wrapf ''CMP cleanup failed; retrying: %w'' [] e))
                | Inr _ \<Rightarrow> io_bind (kevent ''Normal'' ''DeletedLoadBalancer'') (\<lambda>_. ing_remove_finalizer K i)))))"

text \<open>An Ingress that changed its group: converge the old group, then forget its resources.\<close>

definition forget_observed :: "K8sIngress \<Rightarrow> K8sIngress" where
  "forget_observed i =
     i\<lparr>ing_Annotations := gm_del annIngressVIPAddress (gm_del annIngressVSID (gm_del annIngressVIPPortID
         (gm_del annIngressLBServiceID (gm_del annObservedGraph (ing_Annotations i)))))\<rparr>"

definition ing_regrouped :: "cmp \<Rightarrow> kapi \<Rightarrow> ingressReconciler \<Rightarrow> string \<Rightarrow> K8sIngress \<Rightarrow> K8sIngress list \<Rightarrow> Result ctl" where
  "ing_regrouped A K r oldGroup i items =
     (let remaining = ingressGroupMembers items (ing_Namespace i) oldGroup (ing_Name i) isOwnedIngress in
      io_bind (if remaining \<noteq> [] then converge_members A K r (None, None) i remaining else io_return ())
        (\<lambda>_. io_bind (patch_ingress K i (forget_observed i))
          (\<lambda>_. io_return \<lparr>Requeue = True, RequeueAfter = 0\<rparr>)))"

definition ing_ensure_failed :: "err \<Rightarrow> Result ctl" where
  "ing_ensure_failed e =
     (case IsRateLimited e of
        Some d \<Rightarrow> io_bind (kevent ''Warning'' ''RateLimited'') (\<lambda>_. io_return (requeue_after d))
      | None \<Rightarrow> io_bind (kevent ''Warning'' ''SyncLoadBalancerFailed'') (\<lambda>_. io_fail e))"

text \<open>From the validated stack on.\<close>

definition ing_provision :: "cmp \<Rightarrow> kapi \<Rightarrow> ingressReconciler \<Rightarrow> K8sIngress \<Rightarrow> K8sIngress list \<Rightarrow> LoadBalancerStack \<Rightarrow> Result ctl" where
  "ing_provision A K r i members stack =
     io_bind (finalizers_Ensure (patch_ingress K) ing_Finalizers put_ing_finalizers i ingressFinalizerName)
       (\<lambda>(i, _). io_try (ing_ensureCMPResources A r i stack)
         (\<lambda>res. case res of
            Inl e \<Rightarrow> ing_ensure_failed e
          | Inr (ids, vip, graph) \<Rightarrow>
              io_bind (persistGroupObserved K members ids vip graph)
                (\<lambda>_. io_bind (kevent ''Normal'' ''EnsuredLoadBalancer'') (\<lambda>_. io_return no_requeue))))"

definition with_event :: "string \<Rightarrow> 'a ctl \<Rightarrow> ('a \<Rightarrow> 'b ctl) \<Rightarrow> 'b ctl" where
  "with_event reason m f =
     io_try m (\<lambda>res. case res of
        Inl e \<Rightarrow> io_bind (kevent ''Warning'' reason) (\<lambda>_. io_fail e)
      | Inr x \<Rightarrow> f x)"

definition group_members_of :: "K8sIngress \<Rightarrow> K8sIngress list \<Rightarrow> err + K8sIngress list" where
  "group_members_of i items =
     (case ResolveGroup (Some i) items of
        Inl e \<Rightarrow> Inl e
      | Inr (members, identity) \<Rightarrow> Inr (filter (\<lambda>m. isOwnedIngress m \<and> \<not> ing_Deleting m) members))"

definition ing_converge :: "cmp \<Rightarrow> kapi \<Rightarrow> ingressReconciler \<Rightarrow> K8sIngress \<Rightarrow> K8sIngress list \<Rightarrow> Result ctl" where
  "ing_converge A K r i items =
     io_bind (io_of_result (group_members_of i items))
       (\<lambda>members. io_bind (io_of_result (parseIngressConfig (canonicalIngress members)))
         (\<lambda>cfg. with_event ''BuildLoadBalancerModelFailed'' (build_group K members cfg)
           (\<lambda>stack.
              if st_Certificates stack \<noteq> [] \<and> \<not> hasCertificateCapability r
              then io_bind (kevent ''Warning'' ''TLSNotSupported'')
                     (\<lambda>_. io_fail (Errorf ''TLS certificate reconciliation is not configured'' []))
              else with_event ''InvalidCertificate'' (populateTLSCertificates K (ig_x509 r) (ing_Namespace i) stack)
                     (ing_provision A K r i members))))"

definition ing_live :: "cmp \<Rightarrow> kapi \<Rightarrow> ingressReconciler \<Rightarrow> K8sIngress \<Rightarrow> Result ctl" where
  "ing_live A K r i =
     io_bind (list_ingresses K (Some (ing_Namespace i)))
       (\<lambda>items l. let oldGroup = observedIngressGroup (k_range K l) i in
          (if oldGroup \<noteq> [] \<and> oldGroup \<noteq> GroupName i then ing_regrouped A K r oldGroup i items
           else ing_converge A K r i items) l)"

definition ing_read :: "cmp \<Rightarrow> kapi \<Rightarrow> ingressReconciler \<Rightarrow> K8sIngress \<Rightarrow> Result ctl" where
  "ing_read A K r i =
     (if \<not> isOwnedIngress i then io_return no_requeue
      else if ing_Deleting i then ing_departing A K r i
      else ing_live A K r i)"

definition ing_Reconcile :: "cmp \<Rightarrow> kapi \<Rightarrow> ingressReconciler \<Rightarrow> string \<Rightarrow> string \<Rightarrow> Result ctl" where
  "ing_Reconcile A K r ns name =
     io_bind (kask (KGetIngress ns name) (k_GetIngress K ns name))
       (\<lambda>found. case found of
          Inl (KNotFound e) \<Rightarrow> io_return no_requeue
        | Inl (KError e) \<Rightarrow> io_fail (OtherErr e)
        | Inr i \<Rightarrow> ing_read A K r i)"

subsection \<open>Which Ingresses to reconcile\<close>

definition listManagedIngressRequests :: "kapi \<Rightarrow> (string \<times> string) list ctl" where
  "listManagedIngressRequests K =
     io_bind (kask (KListIngresses None) (k_ListIngresses K None))
       (\<lambda>r. case r of
          Inl e \<Rightarrow> io_return []
        | Inr items \<Rightarrow> io_return (map (\<lambda>i. (ing_Namespace i, ing_Name i))
            (filter (\<lambda>i. gm_index [] (ing_Annotations i) annIngressLBServiceID \<noteq> []) items)))"

definition ingressReferencesTLSSecret :: "K8sIngress option \<Rightarrow> string \<Rightarrow> bool" where
  "ingressReferencesTLSSecret i secretName =
     (case i of
        None \<Rightarrow> False
      | Some i \<Rightarrow> trim_space secretName \<noteq> [] \<and> list_ex (\<lambda>t. trim_space (it_SecretName t) = trim_space secretName) (ing_TLS i))"

text \<open>The members of the group of one Ingress that uses the Secret, as requests.\<close>

definition same_group :: "K8sIngress \<Rightarrow> K8sIngress \<Rightarrow> bool" where
  "same_group i candidate \<longleftrightarrow>
     \<not> ing_Deleting candidate \<and> isOwnedIngress candidate \<and>
     (if GroupName i \<noteq> [] then GroupName candidate = GroupName i
      else ing_Namespace candidate = ing_Namespace i \<and> ing_Name candidate = ing_Name i)"

definition secret_requests :: "string \<Rightarrow> K8sIngress list \<Rightarrow> (string \<times> string) list" where
  "secret_requests secretName items =
     rev (fold (\<lambda>i reqs.
            if ing_Deleting i \<or> \<not> isOwnedIngress i \<or> \<not> ingressReferencesTLSSecret (Some i) secretName then reqs
            else fold (\<lambda>c reqs. List.insert (ing_Namespace c, ing_Name c) reqs) (filter (same_group i) items) reqs) items [])"

definition listManagedIngressRequestsForSecret :: "kapi \<Rightarrow> string \<Rightarrow> string \<Rightarrow> (string \<times> string) list ctl" where
  "listManagedIngressRequestsForSecret K namespace secretName =
     (if trim_space namespace = [] \<or> trim_space secretName = [] then io_return []
      else io_bind (kask (KListIngresses (Some namespace)) (k_ListIngresses K (Some namespace)))
        (\<lambda>r. case r of Inl e \<Rightarrow> io_return [] | Inr items \<Rightarrow> io_return (secret_requests secretName items)))"

end
