(* ===== verification/ServiceGuarantees.thy ===== *)
theory ServiceGuarantees
  imports ServiceController
begin

text \<open>
  What the controller of Services guarantees: the finalizer is in place before the first provider
  call and stays until CMP showed the resources gone, shared and supplied resources survive the
  deletion of a Service, a failed pass is retried, repairs are bounded, and a pass resumes from what
  the last one stored.
\<close>

subsection \<open>Acts of controller computations\<close>

lemma emits_kask [intro!, emit_intros]: "P c \<Longrightarrow> emits P (kask c r)"
  by (simp add: emits_def kask_def)

lemma emits_kcall [intro!, emit_intros]: "P c \<Longrightarrow> emits P (kcall c r)"
  unfolding kcall_def by (rule emits_invoke)

lemma emits_kevent [intro!, emit_intros]: "P (KEvent k s) \<Longrightarrow> emits P (kevent k s)"
  unfolding kevent_def by (rule emits_invoke)

lemma emits_read_cache [intro!, emit_intros]: "emits P (read_cache K f)"
  by (simp add: emits_def read_cache_def)

lemma emits_run_cmp:
  assumes "\<And>l. emits Q (m l)" and "\<And>c. Q c \<Longrightarrow> P (Cmp c)"
  shows "emits P (run_cmp m)"
  unfolding emits_def
proof
  fix l
  from assms(1) [of l] obtain cs where "snd (m l (cmp_history l)) = cmp_history l @ cs" "list_all Q cs"
    unfolding emits_def by blast
  then show "\<exists>acts. snd (run_cmp m l) = l @ acts \<and> list_all P acts"
    using assms(2) by (intro exI [of _ "map Cmp cs"]) (auto simp: run_cmp_def list_all_iff split: prod.splits)
qed

lemma emits_at_log: "(\<And>l. emits P (m l)) \<Longrightarrow> emits P (\<lambda>l. m l l)"
  unfolding emits_def by blast

text \<open>The acts of a sequence of computations.\<close>

lemma calls_of_bind:
  assumes "emits P m" and "\<And>x. emits P (f x)"
  shows "calls_of (io_bind m f) h =
    calls_of m h @ (case result_of m h of Inl e \<Rightarrow> [] | Inr x \<Rightarrow> calls_of (f x) (h @ calls_of m h))"
proof -
  obtain cs where cs: "snd (m h) = h @ cs" using assms(1) unfolding emits_def by blast
  show ?thesis
  proof (cases "fst (m h)")
    case (Inr x)
    obtain ds where "snd (f x (h @ cs)) = (h @ cs) @ ds" using assms(2) unfolding emits_def by blast
    with cs Inr show ?thesis by (simp add: calls_of_def result_of_def run_bind)
  qed (simp add: cs calls_of_def result_of_def run_bind)
qed

lemma calls_of_try:
  assumes "emits P m" and "\<And>x. emits P (f x)"
  shows "calls_of (io_try m f) h = calls_of m h @ calls_of (f (result_of m h)) (h @ calls_of m h)"
proof -
  obtain cs where cs: "snd (m h) = h @ cs" using assms(1) unfolding emits_def by blast
  obtain ds where "snd (f (fst (m h)) (h @ cs)) = (h @ cs) @ ds" using assms(2) unfolding emits_def by blast
  with cs show ?thesis by (simp add: calls_of_def result_of_def run_try)
qed

lemma calls_of_simps [simp]:
  "calls_of (io_return x) h = []" "calls_of (io_fail e) h = []" "calls_of (invoke c r) h = [c]"
  "calls_of (kask c q) h = [c]" "calls_of (kcall c q) h = [c]" "calls_of (kevent k s) h = [KEvent k s]"
  "calls_of (read_cache K g) h = []"
  by (simp_all add: calls_of_def io_simps kask_def kcall_def kevent_def read_cache_def)

lemma result_of_simps [simp]:
  "result_of (io_return x) h = Inr x" "result_of (io_fail e) h = Inl e" "result_of (kask c q) h = Inr (q h)"
  "result_of (kevent k s) h = Inr ()"
  "result_of (kcall c q) h = (case q h of Inl e \<Rightarrow> Inl (api_err e) | Inr x \<Rightarrow> Inr x)"
  by (simp_all add: result_of_def io_simps kask_def kcall_def kevent_def)

lemma CleanupStack_extends: "emits (\<lambda>_. True) (CleanupStack A d req)"
  by (auto simp: CleanupStack_def cleanup_parents_def Let_def intro!: cleanup_children_emits emits_for_each cleanup_emits split: sum.splits)

subsection \<open>Acts of the parts of \<open>Reconcile\<close>\<close>

fun cmp_act :: "act \<Rightarrow> bool" where
  "cmp_act (Cmp c) = True"
| "cmp_act _ = False"

definition quiet :: "'a ctl \<Rightarrow> bool" where
  "quiet m \<longleftrightarrow> emits (\<lambda>a. \<not> cmp_act a) m"

lemma quiet_list_services: "emits (\<lambda>a. a = KListServices ns) (list_services K ns)"
  unfolding list_services_def by auto

lemma isLBServiceShared_emits: "emits (\<lambda>a. a = KListServices (Some (svc_Namespace s))) (isLBServiceShared K s lb)"
  unfolding isLBServiceShared_def list_services_def by (auto split: sum.splits)

lemma isVIPShared_emits: "emits (\<lambda>a. a = KListServices (Some (svc_Namespace s))) (isVIPShared K s lb vip)"
  unfolding isVIPShared_def list_services_def by (auto split: sum.splits)

lemma current_state_emits: "emits (\<lambda>a. a = KListServices (Some (svc_Namespace s))) (current_state K s)"
  unfolding current_state_def sharedParentObservedState_def list_services_def Let_def
  by (auto split: sum.splits intro: emits_at_log [OF emits_return])

lemma port_backends_emits: "emits P (port_backends K s)"
  unfolding port_backends_def by (auto intro!: emits_fold)

lemma cleanupNetworkPolicy_emits: "emits (\<lambda>a. \<exists>ns n. a = KDeletePolicy ns n) (cleanupNetworkPolicy K s)"
  unfolding cleanupNetworkPolicy_def policy_Delete_def by (auto split: option.splits sum.splits kerr.splits)

lemma cleanupCMPResources_extends: "emits (\<lambda>_. True) (cleanupCMPResources A K r s)"
  unfolding cleanupCMPResources_def Let_def
  by (auto intro!: isLBServiceShared_emits [THEN any_call] isVIPShared_emits [THEN any_call] emits_run_cmp [OF CleanupStack_extends])

lemma release_service_extends: "emits (\<lambda>_. True) (release_service A K r b s)"
  unfolding release_service_def finalizers_Remove_def patch_service_def
  by (auto split: sum.splits intro!: cleanupCMPResources_extends cleanupNetworkPolicy_emits [THEN any_call])

lemma service_pass_extends: "emits (\<lambda>_. True) (service_pass A K r s req)"
proof -
  have "emits (\<lambda>_. True) (run_cmp (\<lambda>l. EnsureStack (with_checkpoint A K s (sr_StrictLBServiceID req) l) (NewFromRaw (rc_defaultVPCID r)) req))"
    by (rule emits_run_cmp [OF EnsureStack_extends]) simp
  then show ?thesis unfolding emits_def service_pass_def by (auto split: prod.splits) (metis snd_conv)
qed

lemma pass_failed_extends: "emits (\<lambda>_. True) (pass_failed K s b e)"
  unfolding pass_failed_def terminal_lb_def bumpManagedLBRepairState_def patch_service_def Let_def
  by (auto split: option.splits prod.splits)

lemma pass_succeeded_extends: "emits (\<lambda>_. True) (pass_succeeded K r s stack strict shared)"
  unfolding pass_succeeded_def patch_service_def policy_Ensure_def EnsureServiceVIP_def publish_vip_def status_service_def Let_def
  by (auto split: option.splits prod.splits)

lemma converge_rest_extends: "emits (\<lambda>_. True) (converge_rest A K r cfg stack s)"
  unfolding converge_rest_def Let_def
  by (auto split: sum.splits prod.splits
      intro!: current_state_emits [THEN any_call] service_pass_extends pass_failed_extends pass_succeeded_extends)

lemma finalizers_extend:
  "emits (\<lambda>_. True) (finalizers_Ensure (patch_service K) fins put s name)"
  "emits (\<lambda>_. True) (finalizers_Remove (patch_service K) fins put s name)"
  unfolding finalizers_Ensure_def finalizers_Remove_def patch_service_def by auto

lemma converge_service_extends: "emits (\<lambda>_. True) (converge_service A K r s cfg stack)"
  unfolding converge_service_def by (auto split: prod.splits intro!: converge_rest_extends finalizers_extend)

lemma reconcile_live_extends: "emits (\<lambda>_. True) (reconcile_live A K r s)"
  unfolding reconcile_live_def Let_def
  by (auto split: sum.splits intro!: port_backends_emits converge_service_extends)

text \<open>\<open>Reconcile\<close> reads the object and goes on with what it read.\<close>

definition reconcile_read :: "cmp \<Rightarrow> kapi \<Rightarrow> serviceReconciler \<Rightarrow> K8sService \<Rightarrow> Result ctl" where
  "reconcile_read A K r svc =
     (if svc_Deleting svc then release_service A K r True svc
      else if svc_Type svc \<noteq> ''LoadBalancer'' then release_service A K r False svc
      else if \<not> class_matches r svc then release_service A K r False svc
      else reconcile_live A K r svc)"

lemma reconcile_read_extends: "emits (\<lambda>_. True) (reconcile_read A K r s)"
  unfolding reconcile_read_def by (auto intro: release_service_extends reconcile_live_extends)

lemma calls_of_Reconcile:
  "calls_of (svc_Reconcile A K r ns name) l =
    KGetService ns name # (case k_GetService K ns name l of Inl e \<Rightarrow> []
      | Inr svc \<Rightarrow> calls_of (reconcile_read A K r svc) (l @ [KGetService ns name]))"
proof -
  have "svc_Reconcile A K r ns name = io_bind (kask (KGetService ns name) (k_GetService K ns name))
     (\<lambda>found. case found of Inl (KNotFound e) \<Rightarrow> io_return no_requeue | Inl (KError e) \<Rightarrow> io_fail (OtherErr e)
        | Inr svc \<Rightarrow> reconcile_read A K r svc)"
    unfolding svc_Reconcile_def reconcile_read_def ..
  then show ?thesis
    by (simp only:, subst calls_of_bind [where P = "\<lambda>_. True"])
      (auto split: sum.splits kerr.splits intro!: reconcile_read_extends)
qed

subsection \<open>The finalizer comes first\<close>

lemma finalizer_added:
  assumes "finalizerName \<notin> set (svc_Finalizers s)"
  defines "new \<equiv> put_svc_finalizers (svc_Finalizers s @ [finalizerName]) s"
  shows "calls_of (finalizers_Ensure (patch_service K) svc_Finalizers put_svc_finalizers s finalizerName) l = [KPatchService s new]"
    and "result_of (finalizers_Ensure (patch_service K) svc_Finalizers put_svc_finalizers s finalizerName) l =
      (case k_PatchService K s new l of Inl e \<Rightarrow> Inl (api_err e) | Inr obj \<Rightarrow> Inr (obj, True))"
  using assms
  by (auto simp: finalizers_Ensure_def patch_service_def calls_of_def result_of_def kcall_def io_simps split: sum.splits)

definition finalizer_patch :: "K8sService \<Rightarrow> act" where
  "finalizer_patch s = KPatchService s (put_svc_finalizers (svc_Finalizers s @ [finalizerName]) s)"

text \<open>What happens when the Service has no finalizer yet: either no provider call, or the patch that
  adds it, answered with success, and then the rest.\<close>

definition finalizer_first :: "kapi \<Rightarrow> K8sService \<Rightarrow> act list \<Rightarrow> act list \<Rightarrow> bool" where
  "finalizer_first K s l acts \<longleftrightarrow>
     list_all (\<lambda>a. \<not> cmp_act a) acts \<or>
     (\<exists>obj rest. acts = finalizer_patch s # rest \<and>
        k_PatchService K s (put_svc_finalizers (svc_Finalizers s @ [finalizerName]) s) l = Inr obj)"

lemma converge_finalizer_first:
  assumes "finalizerName \<notin> set (svc_Finalizers s)"
  shows "finalizer_first K s l (calls_of (converge_service A K r s cfg stack) l)"
proof -
  have "calls_of (converge_service A K r s cfg stack) l =
      finalizer_patch s # (case k_PatchService K s (put_svc_finalizers (svc_Finalizers s @ [finalizerName]) s) l of
        Inl e \<Rightarrow> [] | Inr obj \<Rightarrow> calls_of (converge_rest A K r cfg stack obj) (l @ [finalizer_patch s]))"
    unfolding converge_service_def
    by (subst calls_of_bind [where P = "\<lambda>_. True"])
      (auto simp: finalizer_added [OF assms] finalizer_patch_def
        split: sum.splits prod.splits intro!: converge_rest_extends finalizers_extend)
  then show ?thesis by (auto simp: finalizer_first_def finalizer_patch_def split: sum.splits)
qed

lemma port_backends_silent: "calls_of (port_backends K s) l = []"
  using emits_at [OF port_backends_emits [where P = "\<lambda>_. False"]] by (metis list.set_intros(1) neq_Nil_conv)

lemma reconcile_live_finalizer_first:
  assumes "finalizerName \<notin> set (svc_Finalizers s)"
  shows "finalizer_first K s l (calls_of (reconcile_live A K r s) l)"
proof -
  let ?cont = "\<lambda>m. case BuildLoadBalancerStackWithPortBackends (Some s) (ParseService (Some s)) (backends_of m) of
             Inl e \<Rightarrow> io_bind (kevent ''Warning'' (build_reason e)) (\<lambda>_. io_return no_requeue)
           | Inr stack \<Rightarrow>
               if trim_space (VPCID (ParseService (Some s))) \<noteq> [] \<and> trim_space (VPCID (ParseService (Some s))) \<noteq> trim_space (rc_defaultVPCID r)
               then io_bind (kevent ''Warning'' ''InvalidLoadBalancerPlacement'') (\<lambda>_. io_return no_requeue)
               else converge_service A K r s (ParseService (Some s)) (placed_stack r s (ParseService (Some s)) stack)"
  have ev: "finalizer_first K s l (calls_of (io_bind (kevent k t) (\<lambda>_. io_return no_requeue)) l)" for k t l
    by (subst calls_of_bind [where P = "\<lambda>_. True"]) (auto simp: finalizer_first_def)
  have "finalizer_first K s l (calls_of (?cont m) l)" for m
    using assms by (auto split: sum.splits intro: ev converge_finalizer_first)
  moreover have "calls_of (io_bind (port_backends K s) ?cont) l =
      (case result_of (port_backends K s) l of Inl e \<Rightarrow> [] | Inr m \<Rightarrow> calls_of (?cont m) l)"
    by (subst calls_of_bind [where P = "\<lambda>_. True"])
      (auto simp: port_backends_silent port_backends_emits split: sum.splits intro!: converge_service_extends)
  ultimately have "finalizer_first K s l (calls_of (io_bind (port_backends K s) ?cont) l)"
    by (cases "result_of (port_backends K s) l") (simp_all add: finalizer_first_def)
  then show ?thesis
    unfolding reconcile_live_def Let_def by (simp add: ev)
qed

text \<open>
  C9.  Before \<open>Reconcile\<close> talks to CMP about a Service, the finalizer is on the object: either it was
  there when the object was read, or the first act after reading is the patch that adds it, and the
  API server accepted that patch.
\<close>

theorem finalizer_before_cmp:
  assumes "Cmp c \<in> set (calls_of (svc_Reconcile A K r ns name) l)"
  shows "\<exists>svc. k_GetService K ns name l = Inr svc \<and>
    (finalizerName \<in> set (svc_Finalizers svc) \<or>
     (\<exists>obj rest. calls_of (svc_Reconcile A K r ns name) l = [KGetService ns name, finalizer_patch svc] @ rest \<and>
        k_PatchService K svc (put_svc_finalizers (svc_Finalizers svc @ [finalizerName]) svc) (l @ [KGetService ns name]) = Inr obj))"
proof -
  from assms obtain svc where svc: "k_GetService K ns name l = Inr svc"
    and acts: "calls_of (svc_Reconcile A K r ns name) l = KGetService ns name # calls_of (reconcile_read A K r svc) (l @ [KGetService ns name])"
    by (cases "k_GetService K ns name l") (auto simp: calls_of_Reconcile)
  have "finalizer_first K svc (l @ [KGetService ns name]) (calls_of (reconcile_read A K r svc) (l @ [KGetService ns name]))"
    if "finalizerName \<notin> set (svc_Finalizers svc)"
    using that reconcile_live_finalizer_first [OF that]
    by (auto simp: reconcile_read_def release_service_def finalizer_first_def)
  with assms svc acts show ?thesis
    by (fastforce simp: finalizer_first_def list_all_iff)
qed


subsection \<open>Deleting a Service\<close>

text \<open>The acts of a cleanup: the listings that decide what is shared, then the provider pass.\<close>

definition asked_shared :: "kapi \<Rightarrow> K8sService \<Rightarrow> string \<Rightarrow> act list \<Rightarrow> bool \<Rightarrow> bool" where
  "asked_shared K s lb l b \<longleftrightarrow>
     (trim_space lb \<noteq> [] \<longrightarrow> (\<forall>items. k_ListServices K (Some (svc_Namespace s)) l = Inr items \<longrightarrow>
        b = list_ex (\<lambda>o1. \<not> (svc_Name o1 = svc_Name s \<and> svc_Namespace o1 = svc_Namespace s) \<and>
             finalizerName \<in> set (svc_Finalizers o1) \<and> claims_lb lb o1) items))"

lemma isLBServiceShared_result: "\<exists>b. result_of (isLBServiceShared K s lb) l = Inr b \<and> asked_shared K s lb l b"
  by (cases "k_ListServices K (Some (svc_Namespace s)) l")
    (auto simp: isLBServiceShared_def asked_shared_def list_services_def result_of_def io_simps kask_def)

lemma isLBServiceShared_calls:
  "trim_space lb \<noteq> [] \<Longrightarrow> calls_of (isLBServiceShared K s lb) l = [KListServices (Some (svc_Namespace s))]"
  by (cases "k_ListServices K (Some (svc_Namespace s)) l")
    (simp_all add: isLBServiceShared_def list_services_def calls_of_def io_simps kask_def)

lemma isVIPShared_result: "\<exists>b. result_of (isVIPShared K s lb vip) l = Inr b"
  by (cases "k_ListServices K (Some (svc_Namespace s)) l")
    (auto simp: isVIPShared_def list_services_def result_of_def io_simps kask_def)

lemma calls_of_run_cmp: "emits (\<lambda>_. True) (m l) \<Longrightarrow> calls_of (run_cmp m) l = map Cmp (calls_of (m l) (cmp_history l))"
  unfolding emits_def calls_of_def run_cmp_def by (auto split: prod.splits)

lemma result_of_run_cmp: "result_of (run_cmp m) l = result_of (m l) (cmp_history l)"
  by (simp add: result_of_def run_cmp_def split: prod.splits)

lemma cleanup_acts:
  obtains ls lbS vipS where
    "calls_of (cleanupCMPResources A K r s) l = ls @ map Cmp (calls_of (CleanupStack A (NewFromRaw (rc_defaultVPCID r)) (cleanup_request s lbS vipS)) (cmp_history (l @ ls)))"
    and "list_all (\<lambda>a. a = KListServices (Some (svc_Namespace s))) ls"
    and "ann_get (svc_Annotations s) annLBServiceID \<noteq> [] \<longrightarrow> ls \<noteq> []"
    and "asked_shared K s (ann_get (svc_Annotations s) annLBServiceID) l lbS"
    and "result_of (cleanupCMPResources A K r s) l =
      (case result_of (CleanupStack A (NewFromRaw (rc_defaultVPCID r)) (cleanup_request s lbS vipS)) (cmp_history (l @ ls)) of
         Inl e \<Rightarrow> Inl e | Inr _ \<Rightarrow> Inr ())"
proof -
  let ?lb = "ann_get (svc_Annotations s) annLBServiceID" and ?vip = "ann_get (svc_Annotations s) annVIPPortID"
  let ?d = "NewFromRaw (rc_defaultVPCID r)"
  obtain lbS where lbS: "result_of (isLBServiceShared K s ?lb) l = Inr lbS" "asked_shared K s ?lb l lbS"
    using isLBServiceShared_result by blast
  define l1 where "l1 = calls_of (isLBServiceShared K s ?lb) l"
  obtain vipS where vipS: "result_of (isVIPShared K s ?lb ?vip) (l @ l1) = Inr vipS"
    using isVIPShared_result by blast
  define l2 where "l2 = calls_of (isVIPShared K s ?lb ?vip) (l @ l1)"
  note ext = isLBServiceShared_emits [THEN any_call] isVIPShared_emits [THEN any_call] emits_run_cmp [OF CleanupStack_extends]
  let ?clean = "run_cmp (\<lambda>l. CleanupStack A ?d (cleanup_request s lbS vipS))"
  have s1: "isLBServiceShared K s ?lb l = (Inr lbS, l @ l1)"
    using lbS(1) effect_snd [OF isLBServiceShared_emits [unfolded emits_effect], of K s ?lb l]
    by (simp add: l1_def result_of_def prod_eq_iff)
  have s2: "isVIPShared K s ?lb ?vip (l @ l1) = (Inr vipS, (l @ l1) @ l2)"
    using vipS effect_snd [OF isVIPShared_emits [unfolded emits_effect], of K s ?lb ?vip "l @ l1"]
    by (simp add: l2_def result_of_def prod_eq_iff)
  have s3: "snd (?clean ((l @ l1) @ l2)) = ((l @ l1) @ l2) @ calls_of ?clean ((l @ l1) @ l2)"
    by (rule effect_snd [OF ext(3) [unfolded emits_effect]]) simp
  have calls: "calls_of (cleanupCMPResources A K r s) l = l1 @ l2 @ calls_of ?clean ((l @ l1) @ l2)"
    using s3 unfolding cleanupCMPResources_def Let_def calls_of_def [of "io_bind f g" l for f g]
    by (simp add: run_bind s1 s2 run_return split: sum.splits)
  have "list_all (\<lambda>a. a = KListServices (Some (svc_Namespace s))) (l1 @ l2)"
    using emits_at [OF isLBServiceShared_emits] emits_at [OF isVIPShared_emits]
    by (auto simp: l1_def l2_def list_all_iff)
  moreover have "result_of (cleanupCMPResources A K r s) l =
      (case result_of ?clean ((l @ l1) @ l2) of Inl e \<Rightarrow> Inl e | Inr _ \<Rightarrow> Inr ())"
    unfolding cleanupCMPResources_def Let_def
    by (simp add: result_of_def run_bind s1 s2 run_return split: sum.splits)
  moreover have "?lb \<noteq> [] \<longrightarrow> l1 @ l2 \<noteq> []"
    using isLBServiceShared_calls [of ?lb K s l] by (simp add: l1_def ann_get_def)
  ultimately show ?thesis
    using that [of "l1 @ l2" lbS vipS] calls lbS(2)
    by (simp add: calls_of_run_cmp CleanupStack_extends result_of_run_cmp)
qed

definition is_event :: "act \<Rightarrow> bool" where
  "is_event a \<longleftrightarrow> (\<exists>k r. a = KEvent k r)"

lemma release_acts:
  assumes "finalizerName \<in> set (svc_Finalizers s)"
  obtains e1 post where
    "calls_of (release_service A K r b s) l = e1 @ calls_of (cleanupCMPResources A K r s) (l @ e1) @ post"
    and "list_all is_event e1"
    and "result_of (cleanupCMPResources A K r s) (l @ e1) = Inr () \<and>
           list_all (\<lambda>a. is_event a \<or> (\<exists>ns n. a = KDeletePolicy ns n) \<or>
             a = KPatchService s (put_svc_finalizers (removeAll finalizerName (svc_Finalizers s)) s)) post \<or>
         list_all is_event post"
proof -
  let ?ev = "\<lambda>k t. if b then kevent k t else io_return ()"
  let ?tail = "\<lambda>res. case res of
      Inl e \<Rightarrow> io_bind (?ev ''Warning'' ''DeleteFailed'') (\<lambda>_. io_fail (Wrapf ''CMP cleanup failed; retrying: %w'' [] e))
    | Inr _ \<Rightarrow> io_bind (?ev ''Normal'' ''DeletedLoadBalancer'')
        (\<lambda>_. io_bind (cleanupNetworkPolicy K s)
          (\<lambda>_. io_bind (finalizers_Remove (patch_service K) svc_Finalizers put_svc_finalizers s finalizerName)
            (\<lambda>_. io_return no_requeue)))"
  define e1 where "e1 = calls_of (?ev ''Normal'' ''DeletingLoadBalancer'') l"
  define l1 where "l1 = l @ e1"
  define res where "res = result_of (cleanupCMPResources A K r s) l1"
  define post where "post = calls_of (?tail res) (l1 @ calls_of (cleanupCMPResources A K r s) l1)"
  have events: "emits is_event (?ev k t)" for k t by (auto simp: is_event_def)
  have tail: "emits (\<lambda>_. True) (?tail x)" for x
    by (auto split: sum.splits intro!: finalizers_extend cleanupNetworkPolicy_emits [THEN any_call])
  have "calls_of (release_service A K r b s) l = e1 @ calls_of (cleanupCMPResources A K r s) l1 @ post"
  proof -
    have "release_service A K r b s = io_bind (?ev ''Normal'' ''DeletingLoadBalancer'') (\<lambda>_. io_try (cleanupCMPResources A K r s) ?tail)"
      using assms by (simp add: release_service_def)
    moreover have "result_of (?ev ''Normal'' ''DeletingLoadBalancer'') l = Inr ()" by simp
    ultimately show ?thesis
      by (simp only:, subst calls_of_bind [where P = "\<lambda>_. True"])
        (auto simp: e1_def l1_def post_def res_def calls_of_try [OF cleanupCMPResources_extends tail] simp del: if_split
          intro!: events [THEN any_call] tail cleanupCMPResources_extends finalizers_extend cleanupNetworkPolicy_emits [THEN any_call])
  qed
  moreover have "list_all is_event e1"
    using emits_at [OF events] unfolding e1_def by (auto simp: list_all_iff)
  moreover have "res = Inr () \<and>
           list_all (\<lambda>a. is_event a \<or> (\<exists>ns n. a = KDeletePolicy ns n) \<or>
             a = KPatchService s (put_svc_finalizers (removeAll finalizerName (svc_Finalizers s)) s)) post \<or>
         list_all is_event post"
  proof (cases res)
    case (Inl e)
    have "emits is_event (?tail (Inl e))" by (auto simp: is_event_def)
    then show ?thesis using Inl emits_at unfolding post_def by (fastforce simp: list_all_iff)
  next
    case (Inr u)
    have "emits (\<lambda>a. is_event a \<or> (\<exists>ns n. a = KDeletePolicy ns n) \<or>
        a = KPatchService s (put_svc_finalizers (removeAll finalizerName (svc_Finalizers s)) s)) (?tail (Inr u))"
      unfolding finalizers_Remove_def patch_service_def
      by (auto simp: is_event_def intro!: emits_mono [OF cleanupNetworkPolicy_emits])
    then show ?thesis using Inr emits_at unfolding post_def by (fastforce simp: list_all_iff)
  qed
  ultimately show ?thesis using that [of e1 post] by (simp add: l1_def res_def)
qed

definition ineligible :: "serviceReconciler \<Rightarrow> K8sService \<Rightarrow> bool" where
  "ineligible r s \<longleftrightarrow> svc_Deleting s \<or> svc_Type s \<noteq> ''LoadBalancer'' \<or> \<not> class_matches r s"

lemma reconcile_read_cases:
  "reconcile_read A K r s = (if ineligible r s then release_service A K r (svc_Deleting s) s else reconcile_live A K r s)"
  by (simp add: reconcile_read_def ineligible_def)

text \<open>A live Service keeps its finalizer.\<close>

fun keeps_finalizer :: "act \<Rightarrow> bool" where
  "keeps_finalizer (KPatchService base new) = (finalizerName \<in> set (svc_Finalizers base) \<longrightarrow> finalizerName \<in> set (svc_Finalizers new))"
| "keeps_finalizer a = True"

lemma keeps_others: "emits (\<lambda>a. a = KListServices ns) m \<Longrightarrow> emits keeps_finalizer m"
  by (erule emits_mono) simp

lemma service_pass_cmp: "emits cmp_act (service_pass A K r s req)"
proof -
  have "emits cmp_act (run_cmp (\<lambda>l. EnsureStack (with_checkpoint A K s (sr_StrictLBServiceID req) l) (NewFromRaw (rc_defaultVPCID r)) req))"
    by (rule emits_run_cmp [OF EnsureStack_extends]) simp
  then show ?thesis unfolding emits_def service_pass_def by (auto split: prod.splits) (metis snd_conv)
qed

lemma pass_outcome_keeps:
  "emits keeps_finalizer (pass_failed K s b e)" "emits keeps_finalizer (pass_succeeded K r s stack strict shared)"
  unfolding pass_failed_def terminal_lb_def bumpManagedLBRepairState_def pass_succeeded_def patch_service_def policy_Ensure_def
    EnsureServiceVIP_def publish_vip_def status_service_def Let_def
  by (auto split: option.splits prod.splits)

lemma reconcile_live_keeps: "emits keeps_finalizer (reconcile_live A K r s)"
proof -
  have pass: "emits keeps_finalizer (service_pass A K r s req)" for s req
    using service_pass_cmp by (rule emits_mono) (auto elim: cmp_act.elims)
  have "emits keeps_finalizer (converge_rest A K r cfg stack s)" for cfg stack s
    unfolding converge_rest_def Let_def
    by (auto split: sum.splits prod.splits intro!: keeps_others [OF current_state_emits] pass pass_outcome_keeps)
  then show ?thesis
    unfolding reconcile_live_def converge_service_def finalizers_Ensure_def patch_service_def Let_def
    by (auto split: sum.splits prod.splits intro!: port_backends_emits)
qed

text \<open>The run of the cleanup inside a \<open>Reconcile\<close> that releases the object.\<close>

lemma release_run:
  assumes "finalizerName \<in> set (svc_Finalizers s)"
    and "KPatchService base new \<in> set (calls_of (release_service A K r b s) l)"
  shows "base = s \<and> (\<exists>lbS vipS h res h'.
     CleanupStack A (NewFromRaw (rc_defaultVPCID r)) (cleanup_request s lbS vipS) h = (Inr res, h') \<and>
     prefix (cmp_history l) h \<and> prefix h' (cmp_history (l @ calls_of (release_service A K r b s) l)))"
proof -
  obtain e1 post where acts: "calls_of (release_service A K r b s) l = e1 @ calls_of (cleanupCMPResources A K r s) (l @ e1) @ post"
    and e1: "list_all is_event e1"
    and post: "result_of (cleanupCMPResources A K r s) (l @ e1) = Inr () \<and>
           list_all (\<lambda>a. is_event a \<or> (\<exists>ns n. a = KDeletePolicy ns n) \<or>
             a = KPatchService s (put_svc_finalizers (removeAll finalizerName (svc_Finalizers s)) s)) post \<or>
         list_all is_event post"
    using release_acts [OF assms(1)] by blast
  obtain ls lbS vipS where
    clean: "calls_of (cleanupCMPResources A K r s) (l @ e1) = ls @ map Cmp (calls_of (CleanupStack A (NewFromRaw (rc_defaultVPCID r)) (cleanup_request s lbS vipS)) (cmp_history ((l @ e1) @ ls)))"
    and ls: "list_all (\<lambda>a. a = KListServices (Some (svc_Namespace s))) ls"
    and res: "result_of (cleanupCMPResources A K r s) (l @ e1) =
      (case result_of (CleanupStack A (NewFromRaw (rc_defaultVPCID r)) (cleanup_request s lbS vipS)) (cmp_history ((l @ e1) @ ls)) of
         Inl e \<Rightarrow> Inl e | Inr _ \<Rightarrow> Inr ())"
    using cleanup_acts by blast
  let ?m = "CleanupStack A (NewFromRaw (rc_defaultVPCID r)) (cleanup_request s lbS vipS)" and ?h = "cmp_history ((l @ e1) @ ls)"
  have "KPatchService base new \<in> set post"
    using assms(2) e1 ls by (auto simp: acts clean list_all_iff is_event_def)
  with post have "base = s" "result_of (cleanupCMPResources A K r s) (l @ e1) = Inr ()"
    by (auto simp: list_all_iff is_event_def)
  moreover from this(2) res obtain x where x: "result_of ?m ?h = Inr x" by (auto split: sum.splits)
  then have "?m ?h = (Inr x, ?h @ calls_of ?m ?h)"
    using effect_snd [OF CleanupStack_extends [unfolded emits_effect], of A "NewFromRaw (rc_defaultVPCID r)" "cleanup_request s lbS vipS" ?h]
    by (simp add: result_of_def prod_eq_iff)
  ultimately show ?thesis
    by (intro conjI exI [of _ lbS] exI [of _ vipS] exI [of _ ?h] exI [of _ x] exI [of _ "?h @ calls_of ?m ?h"])
      (auto simp: acts clean prefix_def)
qed

text \<open>
  C3.  \<open>Reconcile\<close> takes the finalizer off a Service only after the deletion at CMP was confirmed in the
  same run: for every virtual server the Service recorded, CMP was told to delete it and answered the
  next read with \<open>404\<close>.
\<close>

theorem finalizer_kept_until_deleted:
  assumes "KPatchService base new \<in> set (calls_of (svc_Reconcile A K r ns name) l)"
    and "finalizerName \<in> set (svc_Finalizers base)" and "finalizerName \<notin> set (svc_Finalizers new)"
    and "cleanupLBServiceID (release_state base) = Inr lb" and "lb \<noteq> []"
    and "vs \<in> set (sortedResources (g_VirtualServers (Graph (release_state base))))"
  shows "k_GetService K ns name l = Inr base \<and>
    seen_absent (r_GetVirtualServer A lb (ExternalID vs)) (DeleteVirtualServer lb (ExternalID vs)) (GetVirtualServer lb (ExternalID vs))
      (cmp_history l) (cmp_history (l @ calls_of (svc_Reconcile A K r ns name) l))"
proof -
  let ?l = "l @ [KGetService ns name]"
  from assms(1) obtain svc where svc: "k_GetService K ns name l = Inr svc"
    and acts: "calls_of (svc_Reconcile A K r ns name) l = KGetService ns name # calls_of (reconcile_read A K r svc) ?l"
    by (cases "k_GetService K ns name l") (auto simp: calls_of_Reconcile)
  with assms(1) have patch: "KPatchService base new \<in> set (calls_of (reconcile_read A K r svc) ?l)" by simp
  have rel: "ineligible r svc"
    using patch emits_at [OF reconcile_live_keeps] assms(2,3) by (fastforce simp: reconcile_read_cases)
  with patch have patch': "KPatchService base new \<in> set (calls_of (release_service A K r (svc_Deleting svc) svc) ?l)"
    by (simp add: reconcile_read_cases)
  then have fin: "finalizerName \<in> set (svc_Finalizers svc)" by (auto simp: release_service_def split: if_splits)
  from release_run [OF fin patch'] obtain lbS vipS h res h' where base: "base = svc"
    and run: "CleanupStack A (NewFromRaw (rc_defaultVPCID r)) (cleanup_request svc lbS vipS) h = (Inr res, h')"
    and pre: "prefix (cmp_history ?l) h" "prefix h' (cmp_history (?l @ calls_of (release_service A K r (svc_Deleting svc) svc) ?l))" by blast
  have idem: "EnsureGraph (cu_Current (cleanup_request svc lbS vipS)) = release_state svc"
    by (simp add: cleanup_request_def release_state_def EnsureGraph_idem)
  have "seen_absent (r_GetVirtualServer A lb (ExternalID vs)) (DeleteVirtualServer lb (ExternalID vs)) (GetVirtualServer lb (ExternalID vs)) h h'"
    using CleanupStack_confirmed [OF run, of lb] assms(4-6) base unfolding idem by blast
  moreover have "prefix h' (cmp_history (l @ calls_of (svc_Reconcile A K r ns name) l))"
    using pre(2) rel by (simp add: acts reconcile_read_cases)
  moreover have "prefix (cmp_history l) h" using pre(1) by (rule prefix_order.trans [rotated]) simp
  ultimately show ?thesis using svc base by (blast intro: seen_absent_mono)
qed


subsection \<open>A Service that is deleted, as an example\<close>

definition demo_reconciler :: serviceReconciler where
  "demo_reconciler = \<lparr>rc_loadBalancerClass = defaultLBClass, rc_defaultVPCID = ''vpc-1'', rc_defaultVPCName = ''vpc'',
     rc_defaultNetworkID = ''net-1'', rc_defaultFlavorID = 1, rc_defaultRegion = ''north'', rc_shootNamespace = ''shoot''\<rparr>"

definition leaving_service :: K8sService where
  "leaving_service = (sample_service [(annLBServiceID, ''lb-1''), (annVirtualServerID, ''vs-1'')])
     \<lparr>svc_Deleting := True, svc_Finalizers := [finalizerName]\<rparr>"

definition demo_kapi :: "K8sService \<Rightarrow> kapi" where
  "demo_kapi svc =
     \<lparr>k_GetService = (\<lambda>ns n l. Inr svc), k_ListServices = (\<lambda>ns l. Inr [svc]), k_PatchService = (\<lambda>b n l. Inr n),
      k_PatchServiceStatus = (\<lambda>b n l. Inr n), k_GetIngress = (\<lambda>ns n l. Inl (KNotFound n)), k_ListIngresses = (\<lambda>ns l. Inr []),
      k_PatchIngress = (\<lambda>b n l. Inr n), k_PatchIngressStatus = (\<lambda>b n l. Inr n), k_GetSecret = (\<lambda>ns n l. Inl (KNotFound n)),
      k_PutPolicy = (\<lambda>p l. Inr ()), k_DeletePolicy = (\<lambda>ns n l. Inr ()),
      k_cache = (\<lambda>l. \<lparr>list_slices = (\<lambda>s. Some []), list_nodes = Inr []\<rparr>), k_range = (\<lambda>l ks. ks)\<rparr>"

lemma leaving_run:
  "calls_of (svc_Reconcile empty_cmp (demo_kapi leaving_service) demo_reconciler ''ns'' ''web'') [] =
     [KGetService ''ns'' ''web'', KEvent ''Normal'' ''DeletingLoadBalancer'', KListServices (Some (svc_Namespace leaving_service)),
      Cmp (DeleteVirtualServer ''lb-1'' ''vs-1''), Cmp (GetVirtualServer ''lb-1'' ''vs-1''), Cmp (DeleteLBService ''lb-1''),
      Cmp (GetLBService ''lb-1''), KEvent ''Normal'' ''DeletedLoadBalancer'',
      KDeletePolicy (svc_Namespace leaving_service) (policy_name (Some leaving_service)),
      KPatchService leaving_service (put_svc_finalizers [] leaving_service)]"
  by code_simp

theorem finalizer_before_cmp_witness:
  "\<exists>svc. k_GetService (demo_kapi leaving_service) ''ns'' ''web'' [] = Inr svc \<and>
    (finalizerName \<in> set (svc_Finalizers svc) \<or>
     (\<exists>obj rest. calls_of (svc_Reconcile empty_cmp (demo_kapi leaving_service) demo_reconciler ''ns'' ''web'') [] =
          [KGetService ''ns'' ''web'', finalizer_patch svc] @ rest \<and>
        k_PatchService (demo_kapi leaving_service) svc (put_svc_finalizers (svc_Finalizers svc @ [finalizerName]) svc)
          ([] @ [KGetService ''ns'' ''web'']) = Inr obj))"
  by (rule finalizer_before_cmp [where c = "DeleteLBService ''lb-1''"]) (simp add: leaving_run)

lemma leaving_facts:
  "finalizerName \<in> set (svc_Finalizers leaving_service)"
  "finalizerName \<notin> set (svc_Finalizers (put_svc_finalizers [] leaving_service))"
  "cleanupLBServiceID (release_state leaving_service) = Inr ''lb-1''"
  "map ExternalID (sortedResources (g_VirtualServers (Graph (release_state leaving_service)))) = [''vs-1'']"
  "k_GetService (demo_kapi leaving_service) ''ns'' ''web'' [] = Inr leaving_service"
  "ineligible demo_reconciler leaving_service"
  "ann_get (svc_Annotations leaving_service) annLBServiceID = ''lb-1''"
  by code_simp+

theorem finalizer_kept_until_deleted_witness:
  "seen_absent (r_GetVirtualServer empty_cmp ''lb-1'' ''vs-1'') (DeleteVirtualServer ''lb-1'' ''vs-1'') (GetVirtualServer ''lb-1'' ''vs-1'')
     (cmp_history [])
     (cmp_history ([] @ calls_of (svc_Reconcile empty_cmp (demo_kapi leaving_service) demo_reconciler ''ns'' ''web'') []))"
proof -
  obtain vs where vs: "sortedResources (g_VirtualServers (Graph (release_state leaving_service))) = [vs]" "ExternalID vs = ''vs-1''"
    using leaving_facts(4) by (auto simp: map_eq_Cons_conv)
  have "KPatchService leaving_service (put_svc_finalizers [] leaving_service)
      \<in> set (calls_of (svc_Reconcile empty_cmp (demo_kapi leaving_service) demo_reconciler ''ns'' ''web'') [])"
    by (simp add: leaving_run)
  from finalizer_kept_until_deleted [OF this leaving_facts(1-3), of vs] vs show ?thesis by simp
qed



subsection \<open>After a failed pass\<close>

text \<open>How often the repair of an LB service was tried, as the next failure counts it.\<close>

definition attempts_for :: "string \<Rightarrow> K8sService \<Rightarrow> int" where
  "attempts_for failedID s =
     (case managedLBRepairState (svc_Annotations s) of
        (repairID, n) \<Rightarrow> if failedID \<noteq> [] \<and> repairID \<noteq> failedID then 0 else n)"

lemma terminal_lb_result:
  "result_of (terminal_lb K s strict i) l = Inr res \<Longrightarrow>
     (res = no_requeue \<and> (strict \<or> maxManagedLBRepairAttempts \<le> attempts_for i s)) \<or>
     (res = requeue_after (seconds 45) \<and> \<not> strict \<and> attempts_for i s < maxManagedLBRepairAttempts)"
  unfolding terminal_lb_def attempts_for_def bumpManagedLBRepairState_def patch_service_def Let_def
  by (auto simp: result_of_def run_bind run_return kevent_def kcall_def run_invoke split: prod.splits if_splits sum.splits)

text \<open>
  C19.  A failed pass is never forgotten: the object is queued again after a positive time, unless the
  LB service itself is in a terminal state and either was supplied by the customer or its three
  repairs are used up.
\<close>

theorem failed_pass_retried:
  assumes "result_of (pass_failed K s strict e) l = Inr res"
  shows "0 < RequeueAfter res \<or>
    (\<exists>i. terminal_lb_id e = Some i \<and> (strict \<or> 3 \<le> attempts_for i s))"
proof (cases "terminal_lb_id e")
  case None
  with assms show ?thesis
    by (auto simp: pass_failed_def result_of_def run_bind run_return kevent_def run_invoke requeue_after_def seconds_def Let_def
        split: option.splits if_splits)
next
  case (Some i)
  with assms have "result_of (terminal_lb K s strict i) l = Inr res" by (simp add: pass_failed_def)
  with terminal_lb_result Some show ?thesis
    by (fastforce simp: requeue_after_def seconds_def maxManagedLBRepairAttempts_def)
qed

theorem failed_pass_retried_witness:
  "\<exists>res. result_of (pass_failed (demo_kapi leaving_service) leaving_service False (OtherErr ''boom'')) [] = Inr res \<and> 0 < RequeueAfter res"
proof -
  have run: "result_of (pass_failed (demo_kapi leaving_service) leaving_service False (OtherErr ''boom'')) [] = Inr (requeue_after (seconds 120))"
    and other: "terminal_lb_id (OtherErr ''boom'') = None"
    by code_simp+
  from failed_pass_retried [OF run] run other show ?thesis by auto
qed

lemma repair_state_bumped: "0 \<le> n \<Longrightarrow> n \<le> 3 \<Longrightarrow> managedLBRepairState (bump_annotations i n ann) = (trim_space i, n)"
  by (simp add: Let_def managedLBRepairState_def bump_annotations_def ann_get_def gm_index_def annManagedLBRepairID_def annManagedLBRepairs_def
      trim_space_show_int atoi_show_int show_int_not_Nil)

lemma attempts_nonneg: "0 \<le> attempts_for i s"
  by (auto simp: attempts_for_def managedLBRepairState_def Let_def split: prod.splits option.splits if_splits)

lemma terminal_lb_patch:
  assumes "KPatchService s s' \<in> set (calls_of (terminal_lb K s strict i) l)"
  shows "attempts_for i s < 3 \<and> svc_Annotations s' = bump_annotations i (attempts_for i s + 1) (svc_Annotations s)"
  using assms unfolding terminal_lb_def attempts_for_def bumpManagedLBRepairState_def patch_service_def Let_def
  by (auto simp: calls_of_def run_bind run_return kevent_def kcall_def run_invoke maxManagedLBRepairAttempts_def
      split: prod.splits if_splits sum.splits)

text \<open>
  C20.  The repairs of one LB service are bounded: in any sequence of passes that fail with the same
  terminal LB service, each starting from the object the one before wrote, at most three write a
  repair attempt.
\<close>

theorem repairs_bounded:
  assumes "trim_space i = i"
    and "\<forall>k < n. KPatchService (s k) (s (Suc k)) \<in> set (calls_of (terminal_lb (K k) (s k) (strict k) i) (l k))"
  shows "n \<le> 3"
proof -
  have count: "int k \<le> attempts_for i (s k)" if "k \<le> n" for k
    using that
  proof (induction k)
    case (Suc k)
    then have patch: "KPatchService (s k) (s (Suc k)) \<in> set (calls_of (terminal_lb (K k) (s k) (strict k) i) (l k))"
      using assms(2) by simp
    have "attempts_for i (s (Suc k)) = attempts_for i (s k) + 1"
      using terminal_lb_patch [OF patch] attempts_nonneg [of i "s k"]
      by (simp add: attempts_for_def [of i "s (Suc k)"] repair_state_bumped assms(1))
    with Suc show ?case by simp
  qed (simp add: attempts_nonneg)
  have "attempts_for i (s k) < 3" if "k < n" for k
    using that assms(2) terminal_lb_patch by blast
  with count [of 3] show ?thesis by (cases "3 < n") fastforce+
qed

definition failing_service :: "nat \<Rightarrow> K8sService" where
  "failing_service k = leaving_service\<lparr>svc_Annotations :=
     (if k = 0 then [] else bump_annotations ''lb-1'' (int k) [])\<rparr>"

lemma failing_service_patch:
  "KPatchService (failing_service 0) (failing_service 1)
     \<in> set (calls_of (terminal_lb (demo_kapi leaving_service) (failing_service 0) False ''lb-1'') [])"
  "trim_space ''lb-1'' = ''lb-1''"
  by code_simp+

theorem repairs_bounded_witness:
  "attempts_for ''lb-1'' (failing_service 1) = 1 \<and> 1 \<le> (3::nat)"
proof -
  have "\<forall>k < 1. KPatchService (failing_service k) (failing_service (Suc k))
      \<in> set (calls_of (terminal_lb (demo_kapi leaving_service) (failing_service k) False ''lb-1'') [])"
    using failing_service_patch(1) by simp
  from repairs_bounded [OF failing_service_patch(2) this] have "1 \<le> (3::nat)" .
  moreover have "attempts_for ''lb-1'' (failing_service 1) = 1" by code_simp
  ultimately show ?thesis by blast
qed

subsection \<open>What the next pass starts from\<close>

abbreviation service_keys :: "string list" where
  "service_keys \<equiv> [annLBServiceID, annVIPPortID, annVirtualServerID, annLBServiceIDMode, annVIPPortIDMode, annVIPAddress,
     annBackendHash, annObservedGeneration, annManagedLBRepairID, annManagedLBRepairs, annObservedPorts, annObservedGraph]"

lemma service_keys_distinct: "distinct service_keys"
  by (simp add: service_ann_defs)

lemmas service_keys_differ [simp] = service_keys_distinct [simplified]
  service_keys_distinct [folded distinct_rev [of service_keys], simplified]

lemma mode_texts [simp]: "trim_space ''provided'' = ''provided''" "trim_space ''managed'' = ''managed''"
  by code_simp+

lemma ann_get_set: "ann_get (gm_set k v m) k' = (if k' = k then trim_space v else ann_get m k')"
  by (simp add: ann_get_def gm_index_def)

lemma ann_get_del: "ann_get (gm_del k m) k' = (if k' = k then [] else ann_get m k')"
  by (simp add: ann_get_def gm_index_def map_of_gm_del)

lemma ann_get_mode: "ann_get (set_mode key strict i ann) k =
    (if k = key \<and> ann_get ann key = [] \<and> strict then ''provided''
     else if k = key \<and> ann_get ann key = [] \<and> trim_space i \<noteq> [] then ''managed'' else ann_get ann k)"
  by (simp add: set_mode_def ann_get_set)

lemma ann_get_graph: "k \<noteq> annObservedGraph \<Longrightarrow> ann_get (writeObservedGraph g ann) k = ann_get ann k"
  by (simp add: writeObservedGraph_def ann_get_set)

lemma ann_get_ports: "k \<noteq> annObservedPorts \<Longrightarrow> ann_get (writeServicePortObserved p ann) k = ann_get ann k"
  by (simp add: writeServicePortObserved_def ann_get_set)

lemma success_annotations_get:
  "ann_get (success_annotations r svc stack strict shared ann) annLBServiceID = trim_space (LBServiceID shared)"
  "ann_get (success_annotations r svc stack strict shared ann) annVIPPortID = trim_space (VIPPortID shared)"
  "ann_get (success_annotations r svc stack strict shared ann) annVIPAddress =
     (if VIPAddress shared = [] then ann_get ann annVIPAddress else trim_space (VIPAddress shared))"
  "ann_get (success_annotations r svc stack strict shared ann) annLBServiceIDMode =
     ann_get (set_mode annLBServiceIDMode (fst strict) (LBServiceID shared) ann) annLBServiceIDMode"
  "ann_get (success_annotations r svc stack strict shared ann) annVIPPortIDMode =
     ann_get (set_mode annVIPPortIDMode (snd strict) (VIPPortID shared) ann) annVIPPortIDMode"
  by (simp_all add: success_annotations_def Let_def ann_get_set ann_get_graph ann_get_ports ann_get_mode ann_get_del)

lemma success_annotations_graph:
  assumes "graph_wf (Graph shared)"
  shows "readObservedGraph (success_annotations r svc stack strict shared ann) = Some (sort_graph (Graph shared))"
proof -
  have other: "k \<noteq> annObservedGraph \<Longrightarrow> readObservedGraph (gm_set k v ann') = readObservedGraph ann'" for k v ann'
    by (simp add: readObservedGraph_def ann_get_set gm_index_def)
  show ?thesis
    using read_written_graph [OF assms] by (simp add: success_annotations_def Let_def other)
qed

text \<open>
  C21.  A pass resumes where the last one ended: from the annotations a successful pass writes, the
  controller reads back the LB service, the VIP with its address and a graph with the same entries.
\<close>

theorem service_resumes:
  assumes "graph_wf (Graph shared)"
    and "trim_space (LBServiceID shared) = LBServiceID shared" "trim_space (VIPPortID shared) = VIPPortID shared"
    and "trim_space (VIPAddress shared) = VIPAddress shared" "VIPAddress shared \<noteq> []"
  shows "(let s = recorded_state (svc\<lparr>svc_Annotations := success_annotations r svc stack strict shared ann\<rparr>)
    in LBServiceID s = LBServiceID shared \<and> VIPPortID s = VIPPortID shared \<and> VIPAddress s = VIPAddress shared \<and>
       same_entries (Graph s) (Graph shared))"
  using assms
  by (simp add: Let_def recorded_state_def success_annotations_get success_annotations_graph same_entries_sort)

definition demo_shared :: ObservedState where
  "demo_shared = zero_state\<lparr>LBServiceID := ''lb-1'', VIPPortID := ''vip-1'', VIPAddress := ''10.0.0.9'', Graph := demo_graph\<rparr>"

theorem service_resumes_witness:
  "\<forall>stack. LBServiceID (recorded_state (leaving_service\<lparr>svc_Annotations :=
     success_annotations demo_reconciler leaving_service stack (False, False) demo_shared []\<rparr>)) = ''lb-1''"
proof
  fix stack
  have facts: "graph_wf (Graph demo_shared)" "trim_space (LBServiceID demo_shared) = LBServiceID demo_shared"
    "trim_space (VIPPortID demo_shared) = VIPPortID demo_shared" "trim_space (VIPAddress demo_shared) = VIPAddress demo_shared"
    "VIPAddress demo_shared \<noteq> []"
    by code_simp+
  from service_resumes [OF facts, where svc = leaving_service and r = demo_reconciler and stack = stack and strict = "(False, False)" and ann = "[]"]
  show "LBServiceID (recorded_state (leaving_service\<lparr>svc_Annotations :=
     success_annotations demo_reconciler leaving_service stack (False, False) demo_shared []\<rparr>)) = ''lb-1''"
    by (simp add: Let_def demo_shared_def)
qed

subsection \<open>A supplied VIP\<close>

lemma checkpoint_get:
  "k \<noteq> annObservedGraph \<Longrightarrow> ann_get (checkpoint_annotations observed strict ann) k =
     (if k = annLBServiceID then trim_space (LBServiceID observed)
      else if k = annLBServiceIDMode \<and> ann_get ann annLBServiceIDMode = [] then (if strict then ''provided'' else ''managed'')
      else ann_get ann k)"
  by (simp add: checkpoint_annotations_def Let_def ann_get_set ann_get_graph)

text \<open>
  C18.  A VIP that the customer supplied is taken for a managed one when the first pass ends after its LB
  checkpoint (a listener that is still provisioning is enough): the checkpoint records only the mode
  of the LB service, so the next pass is not strict about the VIP, marks it as managed when it
  succeeds, and the deletion of the Service then asks for the deletion of the customer's VIP.  A pass
  that succeeds at once keeps it.
\<close>

theorem supplied_vip_lost:
  assumes "ann_get (svc_Annotations s) annVIPPortID \<noteq> []"
    and "ann_get (svc_Annotations s) annLBServiceIDMode = []" and "ann_get (svc_Annotations s) annVIPPortIDMode = []"
    and "strictProvidedResourcePolicies (Some s) (recorded_state s) = (True, True)"
    and "trim_space (VIPPortID shared) \<noteq> []"
  shows "let interrupted = checkpointed observed True s;
      later = strictProvidedResourcePolicies (Some interrupted) (recorded_state interrupted);
      succeeded = \<lambda>strict. interrupted\<lparr>svc_Annotations :=
        success_annotations r interrupted stack strict shared (svc_Annotations interrupted)\<rparr>
    in later = (True, False) \<and> cu_DeleteVIP (cleanup_request (succeeded later) lbS False) \<and>
       \<not> cu_DeleteVIP (cleanup_request (succeeded (True, True)) lbS False)"
proof -
  let ?s = "checkpointed observed True s"
  have modes: "ann_get (svc_Annotations ?s) annVIPPortIDMode = []" "ann_get (svc_Annotations ?s) annLBServiceIDMode = ''provided''"
    using assms(2,3) by (simp_all add: checkpointed_def checkpoint_get)
  have "to_lower ''provided'' = ''provided''" "to_lower [] = []" by code_simp+
  with modes have "strictProvidedResourcePolicies (Some ?s) (recorded_state ?s) = (True, False)"
    by (simp add: strictProvidedResourcePolicies_def Let_def)
  moreover have "\<not> equal_fold ''managed'' ''provided''" "equal_fold ''provided'' ''provided''" by code_simp+
  ultimately show ?thesis
    using modes assms(5) by (simp add: Let_def cleanup_request_def provided_mode_def success_annotations_get ann_get_mode)
qed

definition supplied_service :: K8sService where
  "supplied_service = sample_service [(annLBServiceID, ''lb-1''), (annVIPPortID, ''vip-1'')]"

theorem supplied_vip_lost_witness:
  "strictProvidedResourcePolicies (Some (checkpointed demo_shared True supplied_service))
     (recorded_state (checkpointed demo_shared True supplied_service)) = (True, False)"
proof -
  have facts: "ann_get (svc_Annotations supplied_service) annVIPPortID \<noteq> []"
    "ann_get (svc_Annotations supplied_service) annLBServiceIDMode = []" "ann_get (svc_Annotations supplied_service) annVIPPortIDMode = []"
    "strictProvidedResourcePolicies (Some supplied_service) (recorded_state supplied_service) = (True, True)"
    "trim_space (VIPPortID demo_shared) \<noteq> []"
    by code_simp+
  from supplied_vip_lost [OF facts, of demo_shared] show ?thesis unfolding Let_def by blast
qed

subsection \<open>Only addresses are published\<close>

fun publishes_address :: "act \<Rightarrow> bool" where
  "publishes_address (KPatchServiceStatus base new) = (\<exists>vip. new = base\<lparr>svc_IngressIPs := [vip]\<rparr> \<and> ParseIP vip \<and> trim_space vip = vip)"
| "publishes_address (KPatchIngressStatus base new) = (\<exists>vip. new = base\<lparr>ing_IngressIPs := [vip]\<rparr> \<and> ParseIP vip \<and> trim_space vip = vip)"
| "publishes_address a = True"

lemma publish_vip_emits:
  assumes "\<And>base vip. ParseIP vip \<Longrightarrow> trim_space vip = vip \<Longrightarrow> emits publishes_address (patch base (put [vip] base))"
  shows "emits publishes_address (publish_vip patch ips put obj vip)"
  unfolding publish_vip_def Let_def using assms by auto

lemma cmp_publishes: "cmp_act a \<Longrightarrow> publishes_address a"
  by (cases a) auto

lemma EnsureServiceVIP_publishes: "emits publishes_address (EnsureServiceVIP K s vip)"
  unfolding EnsureServiceVIP_def by (rule publish_vip_emits) (auto simp: status_service_def)

lemma release_service_publishes: "emits publishes_address (release_service A K r b s)"
proof -
  have "emits publishes_address (cleanupCMPResources A K r s)"
    unfolding cleanupCMPResources_def Let_def
    by (intro emits_bind emits_mono [OF isLBServiceShared_emits] emits_mono [OF isVIPShared_emits] emits_run_cmp [OF CleanupStack_extends]) auto
  moreover have "emits publishes_address (cleanupNetworkPolicy K s)"
    by (rule emits_mono [OF cleanupNetworkPolicy_emits]) auto
  ultimately show ?thesis
    unfolding release_service_def finalizers_Remove_def patch_service_def by (auto split: sum.splits)
qed

lemma reconcile_live_publishes: "emits publishes_address (reconcile_live A K r s)"
proof -
  have fail: "emits publishes_address (pass_failed K s b e)" for s b e
    unfolding pass_failed_def terminal_lb_def bumpManagedLBRepairState_def patch_service_def Let_def
    by (auto split: option.splits prod.splits)
  have ok: "emits publishes_address (pass_succeeded K r s stack strict shared)" for s stack strict shared
    unfolding pass_succeeded_def patch_service_def policy_Ensure_def Let_def
    by (auto split: option.splits prod.splits intro!: EnsureServiceVIP_publishes)
  have pass: "emits publishes_address (service_pass A K r s req)" for s req
    by (rule emits_mono [OF service_pass_cmp]) (rule cmp_publishes)
  have "emits publishes_address (current_state K s)" for s
    by (rule emits_mono [OF current_state_emits]) simp
  then have "emits publishes_address (converge_rest A K r cfg stack s)" for cfg stack s
    unfolding converge_rest_def Let_def by (auto split: sum.splits prod.splits intro!: pass fail ok)
  then show ?thesis
    unfolding reconcile_live_def converge_service_def finalizers_Ensure_def patch_service_def Let_def
    by (auto split: sum.splits prod.splits intro!: port_backends_emits)
qed

lemma svc_Reconcile_publishes: "list_all publishes_address (calls_of (svc_Reconcile A K r ns name) l)"
proof -
  have "emits publishes_address (reconcile_read A K r s)" for s
    unfolding reconcile_read_def by (auto intro: release_service_publishes reconcile_live_publishes)
  then show ?thesis
    using emits_at by (fastforce simp: calls_of_Reconcile list_all_iff split: sum.splits)
qed

end
