(* ===== verification/IngressGuarantees.thy ===== *)
theory IngressGuarantees
  imports IngressController ServiceGuarantees
begin

text \<open>
  What the controller of Ingresses guarantees, and where it does not keep its promise: the finalizer
  stays until the resources are gone or handed to the rest of the group, every member of a group is a
  restart point, only addresses are published; a group that loses its last member leaks its resources.
\<close>

subsection \<open>Acts of the parts of \<open>Reconcile\<close>\<close>

lemma act_of_bind:
  assumes "x \<in> set (calls_of (io_bind m f) h)" and "emits (\<lambda>_. True) m" and "\<And>y. emits (\<lambda>_. True) (f y)"
  shows "x \<in> set (calls_of m h) \<or> (\<exists>y. result_of m h = Inr y \<and> x \<in> set (calls_of (f y) (h @ calls_of m h)))"
  using assms by (auto simp: calls_of_bind [OF assms(2,3)] split: sum.splits)

lemma act_of_try:
  assumes "x \<in> set (calls_of (io_try m f) h)" and "emits (\<lambda>_. True) m" and "\<And>y. emits (\<lambda>_. True) (f y)"
  shows "x \<in> set (calls_of m h) \<or> x \<in> set (calls_of (f (result_of m h)) (h @ calls_of m h))"
  using assms by (auto simp: calls_of_try [OF assms(2,3)])

lemma build_group_emits: "emits P (build_group K members cfg)"
  unfolding build_group_def by (auto simp: emits_def io_of_result_def io_return_def io_fail_def split: sum.splits)

lemma ing_ensure_emits: "emits cmp_act (ing_ensureCMPResources A r i stack)"
  unfolding ing_ensureCMPResources_def by (auto intro!: emits_run_cmp [OF EnsureStack_extends])

text \<open>What the mirror to the members does: patches of their annotations, and of their status.\<close>

fun mirror_act :: "act \<Rightarrow> bool" where
  "mirror_act (KPatchIngress base new) = (\<exists>ann. new = base\<lparr>ing_Annotations := ann\<rparr>)"
| "mirror_act (KPatchIngressStatus base new) = publishes_address (KPatchIngressStatus base new)"
| "mirror_act _ = False"

lemma publish_ingress_emits: "emits mirror_act (EnsureIngressVIP K i vip)"
proof -
  have "\<exists>v. i\<lparr>ing_IngressIPs := [trim_space vip]\<rparr> = i\<lparr>ing_IngressIPs := [v]\<rparr> \<and> ParseIP v \<and> trim_space v = v"
    if "ParseIP (trim_space vip)"
    using that by (intro exI [of _ "trim_space vip"]) simp
  then show ?thesis unfolding EnsureIngressVIP_def publish_vip_def status_ingress_def Let_def by auto
qed

lemma persist_member_emits: "emits mirror_act (persist_member K ids vip graph m)"
  unfolding persist_member_def patch_ingress_def by (auto intro!: publish_ingress_emits)

lemma persistGroupObserved_emits: "emits mirror_act (persistGroupObserved K members ids vip graph)"
  unfolding persistGroupObserved_def by (auto intro!: emits_fold persist_member_emits)

definition group_act :: "act \<Rightarrow> bool" where
  "group_act a \<longleftrightarrow> cmp_act a \<or> mirror_act a"

lemma converge_members_emits: "emits group_act (converge_members A K r wraps i members)"
  unfolding converge_members_def Let_def
  by (auto split: option.splits intro!: build_group_emits emits_mono [OF ing_ensure_emits] emits_mono [OF persistGroupObserved_emits]
      simp: group_act_def)

lemma remainingGroupMembers_emits: "emits (\<lambda>a. a = KListIngresses (Some (ing_Namespace i))) (remainingGroupMembers K i)"
  unfolding remainingGroupMembers_def list_ingresses_def Let_def by auto

lemma ing_isLBServiceShared_emits: "emits (\<lambda>a. a = KListIngresses (Some (ing_Namespace s))) (ing_isLBServiceShared K s lb)"
  unfolding ing_isLBServiceShared_def by (auto split: sum.splits)

lemma ing_cleanup_emits: "emits (\<lambda>a. cmp_act a \<or> a = KListIngresses (Some (ing_Namespace i))) (ing_cleanupCMPResources A K r i)"
  unfolding ing_cleanupCMPResources_def
  by (auto intro!: emits_mono [OF ing_isLBServiceShared_emits] emits_run_cmp [OF CleanupStack_extends])

lemma populate_emits: "emits (\<lambda>a. \<exists>n. a = KGetSecret ns n) (populateTLSCertificates K x ns stack)"
proof -
  have "emits (\<lambda>a. \<exists>n. a = KGetSecret ns n) (populate_step K x ns st c)" for st c
    unfolding populate_step_def read_material_def Let_def by (auto split: prod.splits option.splits)
  then show ?thesis unfolding populateTLSCertificates_def by (auto intro!: emits_fold split: prod.splits)
qed

lemma ing_provision_emits:
  "emits (\<lambda>a. group_act a \<or> is_event a \<or> (\<exists>fs. a = KPatchIngress i (put_ing_finalizers (ing_Finalizers i @ fs) i)))
     (ing_provision A K r i members stack)"
  unfolding ing_provision_def finalizers_Ensure_def patch_ingress_def ing_ensure_failed_def is_event_def
  by (auto split: sum.splits option.splits prod.splits intro!: emits_mono [OF ing_ensure_emits] emits_mono [OF persistGroupObserved_emits]
      simp: group_act_def)

text \<open>The acts of a live Ingress never take its finalizer.\<close>

fun keeps_ing_finalizer :: "act \<Rightarrow> bool" where
  "keeps_ing_finalizer (KPatchIngress base new) =
     (ingressFinalizerName \<in> set (ing_Finalizers base) \<longrightarrow> ingressFinalizerName \<in> set (ing_Finalizers new))"
| "keeps_ing_finalizer a = True"

lemma group_act_keeps: "group_act a \<Longrightarrow> keeps_ing_finalizer a"
  by (cases a) (auto simp: group_act_def)

lemma with_event_emits: "emits P m \<Longrightarrow> (\<And>x. emits P (f x)) \<Longrightarrow> P (KEvent ''Warning'' reason) \<Longrightarrow> emits P (with_event reason m f)"
  unfolding with_event_def by (auto split: sum.splits)

lemma ing_provision_keeps: "emits keeps_ing_finalizer (ing_provision A K r i members stack)"
  using ing_provision_emits by (rule emits_mono) (auto simp: is_event_def intro: group_act_keeps)

lemma populate_keeps: "emits keeps_ing_finalizer (populateTLSCertificates K x ns stack)"
  using populate_emits by (rule emits_mono) auto

lemma ing_converge_keeps: "emits keeps_ing_finalizer (ing_converge A K r i items)"
  unfolding ing_converge_def
  by (intro emits_bind emits_of_result with_event_emits build_group_emits emits_if emits_kevent emits_fail populate_keeps
      ing_provision_keeps) simp_all

lemma converge_members_keeps: "emits keeps_ing_finalizer (converge_members A K r wraps i members)"
  using converge_members_emits by (rule emits_mono) (rule group_act_keeps)

lemma ing_regrouped_keeps: "emits keeps_ing_finalizer (ing_regrouped A K r old i items)"
  unfolding ing_regrouped_def patch_ingress_def Let_def
  by (intro emits_bind emits_if converge_members_keeps emits_return emits_kcall) (simp add: forget_observed_def)

lemma ing_live_keeps: "emits keeps_ing_finalizer (ing_live A K r i)"
proof -
  have "emits keeps_ing_finalizer (\<lambda>l. (if c l then ing_regrouped A K r (o1 l) i items else ing_converge A K r i items) l)" for c o1 items
    using ing_regrouped_keeps ing_converge_keeps unfolding emits_def by presburger
  then show ?thesis
    unfolding ing_live_def list_ingresses_def Let_def by (intro emits_bind emits_kcall) simp_all
qed


subsection \<open>The finalizer of an Ingress\<close>

text \<open>The patch that takes the finalizer.\<close>

definition ing_release :: "K8sIngress \<Rightarrow> act" where
  "ing_release i = KPatchIngress i (put_ing_finalizers (removeAll ingressFinalizerName (ing_Finalizers i)) i)"

lemma ing_remove_finalizer_emits: "emits (\<lambda>a. a = ing_release i) (ing_remove_finalizer K i)"
  unfolding ing_remove_finalizer_def finalizers_Remove_def patch_ingress_def ing_release_def by auto

lemma group_act_patch:
  "group_act (KPatchIngress base new) \<Longrightarrow> ingressFinalizerName \<in> set (ing_Finalizers base) \<Longrightarrow> ingressFinalizerName \<in> set (ing_Finalizers new)"
  by (auto simp: group_act_def)

lemma ing_Reconcile_calls:
  "calls_of (ing_Reconcile A K r ns name) l =
    KGetIngress ns name # (case k_GetIngress K ns name l of Inl e \<Rightarrow> []
      | Inr i \<Rightarrow> calls_of (ing_read A K r i) (l @ [KGetIngress ns name]))"
proof -
  have dep: "emits (\<lambda>_. True) (ing_departing A K r i)" for i
    unfolding ing_departing_def
    by (intro emits_if emits_bind emits_try remainingGroupMembers_emits [THEN any_call] converge_members_emits [THEN any_call]
        ing_remove_finalizer_emits [THEN any_call] ing_cleanup_emits [THEN any_call] emits_return emits_kevent)
      (auto split: sum.splits intro: ing_remove_finalizer_emits [THEN any_call])
  have "emits (\<lambda>_. True) (ing_read A K r i)" for i
    unfolding ing_read_def by (auto intro: dep ing_live_keeps [THEN any_call])
  then show ?thesis
    unfolding ing_Reconcile_def
    by (subst calls_of_bind [where P = "\<lambda>_. True"]) (auto split: sum.splits kerr.splits)
qed

definition ing_patched :: "K8sIngress \<Rightarrow> CMPResourceIDs \<Rightarrow> string \<Rightarrow> ObservedGraph \<Rightarrow> act" where
  "ing_patched m ids vip graph = KPatchIngress m (m\<lparr>ing_Annotations := member_annotations ids vip graph (ing_Annotations m)\<rparr>)"

lemma run_split: "emits P m \<Longrightarrow> m l = (r, l') \<Longrightarrow> l' = l @ calls_of m l \<and> result_of m l = r"
  unfolding emits_def calls_of_def result_of_def by (metis append_eq_conv_conj fst_conv snd_conv)

lemma persist_member_run:
  assumes "persist_member K ids vip graph m l = (Inr (), l')"
  shows "\<exists>rest. l' = l @ ing_patched m ids vip graph # rest"
proof -
  let ?new = "m\<lparr>ing_Annotations := member_annotations ids vip graph (ing_Annotations m)\<rparr>"
  from assms obtain obj where "EnsureIngressVIP K obj vip (l @ [KPatchIngress m ?new]) = (Inr (), l')"
    unfolding persist_member_def patch_ingress_def kcall_def by (elim bind_InrE invokeE) (auto split: sum.splits)
  from run_split [OF publish_ingress_emits this] show ?thesis by (auto simp: ing_patched_def)
qed

lemma persistGroupObserved_run:
  "persistGroupObserved K members ids vip graph l = (Inr (), l') \<Longrightarrow>
     \<exists>acts. l' = l @ acts \<and> (\<forall>m \<in> set members. ing_patched m ids vip graph \<in> set acts)"
  unfolding persistGroupObserved_def
proof (induction members arbitrary: l)
  case (Cons m members)
  from Cons.prems obtain u l1 where first: "persist_member K ids vip graph m l = (Inr u, l1)"
    and rest: "io_fold (\<lambda>_. persist_member K ids vip graph) members () l1 = (Inr (), l')"
    by (auto elim!: bind_InrE)
  from Cons.IH [OF rest] obtain acts where "l' = l1 @ acts" "\<forall>m \<in> set members. ing_patched m ids vip graph \<in> set acts" by blast
  with persist_member_run [of K ids vip graph m l l1] first show ?case by auto
qed (simp add: run_return)

lemma run_cmp_run:
  assumes "run_cmp m l = (Inr x, l')" and "emits (\<lambda>_. True) (m l)"
  shows "m l (cmp_history l) = (Inr x, cmp_history l') \<and> (\<exists>cs. l' = l @ map Cmp cs)"
proof -
  obtain cs where "snd (m l (cmp_history l)) = cmp_history l @ cs" using assms(2) unfolding emits_def by blast
  with assms(1) show ?thesis by (auto simp: run_cmp_def prod_eq_iff split: prod.splits)
qed

text \<open>What it means that the group took over: its desired stack was reached at CMP on the resources
  the departing Ingress recorded, and every remaining member records the result.\<close>

definition handed_over :: "cmp \<Rightarrow> kapi \<Rightarrow> ingressReconciler \<Rightarrow> K8sIngress \<Rightarrow> K8sIngress list \<Rightarrow> act list \<Rightarrow> act list \<Rightarrow> bool" where
  "handed_over A K r i members l l' \<longleftrightarrow>
     (\<exists>cfg l0 stack observed changed h1 h2.
        BuildGroupLoadBalancerStack (map Some members) cfg (group_options K l0) = Inr stack \<and>
        EnsureStack A (NewFromRaw (ig_vpcID r)) (ing_ensure_request i stack) h1 = (Inr (observed, changed), h2) \<and>
        prefix (cmp_history l) h1 \<and> prefix h2 (cmp_history l') \<and>
        (\<forall>m \<in> set members. \<exists>rest. prefix (l @ rest @ [ing_patched m (ing_ids stack observed) (VIPAddress observed) (Graph observed)]) l'))"

lemma prefix_to_act: "a \<in> set acts \<Longrightarrow> \<exists>rest. prefix (l @ rest @ [a]) (l @ acts)"
  by (metis split_list append_Cons append_Nil append_assoc prefixI same_prefix_prefix)

lemma converge_members_run:
  assumes "converge_members A K r wraps i members l = (Inr (), l')"
  shows "handed_over A K r i members l l'"
proof -
  have wrapped: "(case w of None \<Rightarrow> (\<lambda>m. m) | Some f \<Rightarrow> io_wrap f []) m h = (Inr x, h') \<Longrightarrow> m h = (Inr x, h')"
    for w and m :: "(CMPResourceIDs \<times> string \<times> ObservedGraph) ctl" and h x h'
    by (cases w) (auto elim: wrap_InrE)
  have wrapped': "(case w of None \<Rightarrow> (\<lambda>m. m) | Some f \<Rightarrow> io_wrap f []) m h = (Inr x, h') \<Longrightarrow> m h = (Inr x, h')"
    for w and m :: "LoadBalancerStack ctl" and h x h'
    by (cases w) (auto elim: wrap_InrE)
  from assms obtain cfg stack l1 ids vip graph l2 where build: "build_group K members cfg l = (Inr stack, l1)"
    and ens: "ing_ensureCMPResources A r i stack l1 = (Inr (ids, vip, graph), l2)"
    and per: "persistGroupObserved K members ids vip graph l2 = (Inr (), l')"
    unfolding converge_members_def Let_def
    by (auto elim!: bind_InrE simp: run_of_result split: sum.splits dest!: wrapped wrapped')
  have stack: "BuildGroupLoadBalancerStack (map Some members) cfg (group_options K l) = Inr stack" "l1 = l"
    using build by (auto simp: build_group_def run_of_result split: sum.splits)
  from ens obtain observed changed where run: "run_cmp (\<lambda>l. EnsureStack A (NewFromRaw (ig_vpcID r)) (ing_ensure_request i stack)) l = (Inr (observed, changed), l2)"
    and out: "ids = ing_ids stack observed" "vip = VIPAddress observed" "graph = Graph observed"
    unfolding ing_ensureCMPResources_def stack(2) by (auto elim!: bind_InrE if_InrE simp: run_return run_fail split: prod.splits)
  from run_cmp_run [OF run EnsureStack_extends] obtain cs where
    ensure: "EnsureStack A (NewFromRaw (ig_vpcID r)) (ing_ensure_request i stack) (cmp_history l) = (Inr (observed, changed), cmp_history l2)"
    and l2: "l2 = l @ map Cmp cs" by blast
  from persistGroupObserved_run [OF per] obtain acts where acts: "l' = l2 @ acts"
    "\<forall>m \<in> set members. ing_patched m ids vip graph \<in> set acts" by blast
  have "\<exists>rest. prefix (l @ rest @ [ing_patched m ids vip graph]) l'" if "m \<in> set members" for m
    using prefix_to_act [of "ing_patched m ids vip graph" "map Cmp cs @ acts" l] that acts l2 by simp
  with stack ensure out acts show ?thesis
    unfolding handed_over_def by (intro exI conjI) (auto simp: prefix_def)
qed

lemma remainingGroupMembers_result:
  assumes "result_of (remainingGroupMembers K i) l = Inr members" and "m \<in> set members"
  shows "\<not> ing_Deleting m \<and> isOwnedIngress m \<and> ing_Name m \<noteq> ing_Name i \<and> GroupName m = GroupName i \<and> GroupName i \<noteq> []"
  using assms unfolding remainingGroupMembers_def list_ingresses_def Let_def
  by (cases "k_ListIngresses K (Some (ing_Namespace i)) l") (auto simp: result_of_def run_bind kcall_def run_invoke run_return split: if_splits)

lemma result_run: "emits P m \<Longrightarrow> result_of m l = Inr x \<Longrightarrow> m l = (Inr x, l @ calls_of m l)"
  by (metis prod.collapse run_split result_of_def)

lemma departing_extends:
  "emits (\<lambda>_. True) (case res of
      Inl e \<Rightarrow> io_bind (kevent ''Warning'' ''DeleteFailed'') (\<lambda>_. io_fail (Wrapf ''CMP cleanup failed; retrying: %w'' [] e))
    | Inr _ \<Rightarrow> io_bind (kevent ''Normal'' ''DeletedLoadBalancer'') (\<lambda>_. ing_remove_finalizer K i))"
  by (auto split: sum.splits intro: ing_remove_finalizer_emits [THEN any_call])

text \<open>The cleanup that succeeded, as a run of \<open>CleanupStack\<close>.\<close>

lemma ing_cleanup_run:
  assumes "result_of (ing_cleanupCMPResources A K r i) l = Inr ()"
  shows "\<exists>shared h res h'. CleanupStack A (NewFromRaw (ig_vpcID r)) (ing_cleanup_request i shared) h = (Inr res, h') \<and>
    prefix (cmp_history l) h \<and> h' = cmp_history (l @ calls_of (ing_cleanupCMPResources A K r i) l)"
proof -
  let ?lb = "ann_get (ing_Annotations i) annIngressLBServiceID"
  from result_run [OF ing_cleanup_emits assms] obtain shared l1 res
    where s: "ing_isLBServiceShared K i ?lb l = (Inr shared, l1)"
      and c: "run_cmp (\<lambda>l. CleanupStack A (NewFromRaw (ig_vpcID r)) (ing_cleanup_request i shared)) l1
        = (Inr res, l @ calls_of (ing_cleanupCMPResources A K r i) l)"
    unfolding ing_cleanupCMPResources_def by (auto elim!: bind_InrE simp: run_return)
  from run_cmp_run [OF c CleanupStack_extends] run_split [OF ing_isLBServiceShared_emits s] show ?thesis
    by (intro exI [of _ shared] exI [of _ "cmp_history l1"]) auto
qed

lemma departing_patch:
  assumes "KPatchIngress base new \<in> set (calls_of (ing_departing A K r i) l)"
    and "ingressFinalizerName \<in> set (ing_Finalizers base)" and "ingressFinalizerName \<notin> set (ing_Finalizers new)"
  shows "base = i \<and>
    ((\<exists>l1. prefix l l1 \<and> prefix l1 (l @ calls_of (ing_departing A K r i) l) \<and>
        (\<exists>shared h res. CleanupStack A (NewFromRaw (ig_vpcID r)) (ing_cleanup_request i shared) h = (Inr res, cmp_history l1) \<and> prefix (cmp_history l) h)) \<or>
     (\<exists>members l0 l1. members \<noteq> [] \<and>
        (\<forall>m \<in> set members. \<not> ing_Deleting m \<and> isOwnedIngress m \<and> ing_Name m \<noteq> ing_Name i \<and> GroupName m = GroupName i) \<and>
        prefix l l0 \<and> prefix l1 (l @ calls_of (ing_departing A K r i) l) \<and> handed_over A K r i members l0 l1))"
proof -
  let ?p = "KPatchIngress base new"
  let ?tail = "\<lambda>res. case res of
      Inl e \<Rightarrow> io_bind (kevent ''Warning'' ''DeleteFailed'') (\<lambda>_. io_fail (Wrapf ''CMP cleanup failed; retrying: %w'' [] e))
    | Inr _ \<Rightarrow> io_bind (kevent ''Normal'' ''DeletedLoadBalancer'') (\<lambda>_. ing_remove_finalizer K i)"
  let ?conv = "converge_members A K r (Some ''building remaining ingress group: %w'', Some ''reconciling remaining ingress group: %w'') i"
  let ?body = "\<lambda>remaining. if remaining \<noteq> [] then io_bind (?conv remaining) (\<lambda>_. ing_remove_finalizer K i)
    else io_bind (kevent ''Normal'' ''DeletingLoadBalancer'') (\<lambda>_. io_try (ing_cleanupCMPResources A K r i) ?tail)"
  note ext = remainingGroupMembers_emits [THEN any_call] converge_members_emits [THEN any_call] ing_cleanup_emits [THEN any_call]
    ing_remove_finalizer_emits [THEN any_call] departing_extends
  have body_ext: "emits (\<lambda>_. True) (?body m)" for m
    by (intro emits_if emits_bind emits_try ext emits_kevent) simp_all
  have dep: "ing_departing A K r i = (if ingressFinalizerName \<notin> set (ing_Finalizers i) then io_return no_requeue
      else io_bind (remainingGroupMembers K i) ?body)"
    unfolding ing_departing_def ..
  define l0 where "l0 = l @ calls_of (remainingGroupMembers K i) l"
  from assms(1) have fin: "ingressFinalizerName \<in> set (ing_Finalizers i)" by (auto simp: dep split: if_splits)
  then have calls: "calls_of (ing_departing A K r i) l = calls_of (io_bind (remainingGroupMembers K i) ?body) l" by (simp add: dep)
  have "?p \<notin> set (calls_of (remainingGroupMembers K i) l)"
    using emits_at [OF remainingGroupMembers_emits] by fastforce
  then obtain remaining where rem: "result_of (remainingGroupMembers K i) l = Inr remaining"
    and p: "?p \<in> set (calls_of (?body remaining) l0)"
    using act_of_bind [OF assms(1) [unfolded calls] ext(1) body_ext] unfolding l0_def by blast
  have all: "l @ calls_of (ing_departing A K r i) l = l0 @ calls_of (?body remaining) l0"
    unfolding calls l0_def by (subst calls_of_bind [OF ext(1) body_ext]) (simp add: rem)
  show ?thesis
  proof (cases "remaining = []")
    case False
    define l1 where "l1 = l0 @ calls_of (?conv remaining) l0"
    have "?p \<notin> set (calls_of (?conv remaining) l0)"
      using emits_at [OF converge_members_emits] group_act_patch assms(2,3) by blast
    then have res: "result_of (?conv remaining) l0 = Inr ()" and last: "?p \<in> set (calls_of (ing_remove_finalizer K i) l1)"
      using act_of_bind [OF _ ext(2) ext(4), of ?p A K r _ i remaining "\<lambda>_. K" "\<lambda>_. i" l0] p False unfolding l1_def by auto
    have "base = i" using last emits_at [OF ing_remove_finalizer_emits] by (fastforce simp: ing_release_def)
    moreover have "handed_over A K r i remaining l0 l1"
      using result_run [OF converge_members_emits res] converge_members_run unfolding l1_def by blast
    moreover have "prefix l1 (l @ calls_of (ing_departing A K r i) l)"
      unfolding all l1_def using False by (simp add: calls_of_bind [OF ext(2) ext(4)])
    ultimately show ?thesis
      using False remainingGroupMembers_result [OF rem] by (intro conjI disjI2 exI [of _ remaining] exI [of _ l0] exI [of _ l1]) (auto simp: l0_def)
  next
    case True
    define l1 where "l1 = l0 @ [KEvent ''Normal'' ''DeletingLoadBalancer'']"
    define l2 where "l2 = l1 @ calls_of (ing_cleanupCMPResources A K r i) l1"
    have split: "calls_of (?body remaining) l0 = KEvent ''Normal'' ''DeletingLoadBalancer'' # calls_of (ing_cleanupCMPResources A K r i) l1 @
        calls_of (?tail (result_of (ing_cleanupCMPResources A K r i) l1)) l2"
      using True
      by (simp add: calls_of_bind [where P = "\<lambda>_. True"] calls_of_try [OF ext(3) departing_extends] ext emits_try emits_kevent l1_def l2_def)
    have "?p \<notin> set (calls_of (ing_cleanupCMPResources A K r i) l1)"
      using emits_at [OF ing_cleanup_emits] by fastforce
    with p split have last: "?p \<in> set (calls_of (?tail (result_of (ing_cleanupCMPResources A K r i) l1)) l2)" by auto
    moreover have "emits (\<lambda>a. a \<noteq> ?p) (?tail (Inl e))" for e by auto
    ultimately have res: "result_of (ing_cleanupCMPResources A K r i) l1 = Inr ()"
      using emits_at by (cases "result_of (ing_cleanupCMPResources A K r i) l1") fastforce+
    with last have "?p \<in> set (calls_of (ing_remove_finalizer K i) (l2 @ [KEvent ''Normal'' ''DeletedLoadBalancer'']))"
      by (simp add: calls_of_bind [where P = "\<lambda>_. True"] ext emits_kevent)
    then have "base = i" using emits_at [OF ing_remove_finalizer_emits] by (fastforce simp: ing_release_def)
    moreover obtain shared h x where "CleanupStack A (NewFromRaw (ig_vpcID r)) (ing_cleanup_request i shared) h = (Inr x, cmp_history l2)"
      "prefix (cmp_history l1) h"
      using ing_cleanup_run [OF res] unfolding l2_def by blast
    moreover have "prefix (cmp_history l) (cmp_history l1)" by (simp add: l1_def l0_def)
    moreover have "prefix l l2" by (simp add: l2_def l1_def l0_def)
    moreover have "prefix l2 (l @ calls_of (ing_departing A K r i) l)"
      unfolding all split by (simp add: l2_def l1_def)
    ultimately show ?thesis by (intro conjI disjI1) (auto intro: prefix_order.trans)
  qed
qed

text \<open>
  C11.  \<open>Reconcile\<close> takes the finalizer off an Ingress only when it is being deleted and either its
  recorded resources were deleted in this run, every recorded virtual server told to go and then read
  as absent, or other members of its group remain, none of them being deleted, and in this run the
  stack built from exactly those members was reached at CMP and recorded on every one of them.
\<close>

theorem ing_finalizer_kept:
  assumes "KPatchIngress base new \<in> set (calls_of (ing_Reconcile A K r ns name) l)"
    and "ingressFinalizerName \<in> set (ing_Finalizers base)" and "ingressFinalizerName \<notin> set (ing_Finalizers new)"
  defines "l' \<equiv> l @ calls_of (ing_Reconcile A K r ns name) l"
  shows "k_GetIngress K ns name l = Inr base \<and> ing_Deleting base \<and>
    ((\<forall>lb vs. cleanupLBServiceID (ing_release_state base) = Inr lb \<longrightarrow> lb \<noteq> [] \<longrightarrow>
         vs \<in> set (sortedResources (g_VirtualServers (Graph (ing_release_state base)))) \<longrightarrow>
         seen_absent (r_GetVirtualServer A lb (ExternalID vs)) (DeleteVirtualServer lb (ExternalID vs)) (GetVirtualServer lb (ExternalID vs))
           (cmp_history l) (cmp_history l')) \<or>
     (\<exists>members l0 l1. members \<noteq> [] \<and>
        (\<forall>m \<in> set members. \<not> ing_Deleting m \<and> isOwnedIngress m \<and> ing_Name m \<noteq> ing_Name base \<and> GroupName m = GroupName base) \<and>
        prefix l l0 \<and> prefix l1 l' \<and> handed_over A K r base members l0 l1))"
proof -
  let ?l = "l @ [KGetIngress ns name]"
  from assms(1) obtain i where i: "k_GetIngress K ns name l = Inr i"
    and acts: "calls_of (ing_Reconcile A K r ns name) l = KGetIngress ns name # calls_of (ing_read A K r i) ?l"
    by (cases "k_GetIngress K ns name l") (auto simp: ing_Reconcile_calls)
  with assms(1) have "KPatchIngress base new \<in> set (calls_of (ing_read A K r i) ?l)" by simp
  moreover have "KPatchIngress base new \<notin> set (calls_of (ing_live A K r i) ?l)"
    using emits_at [OF ing_live_keeps] assms(2,3) by fastforce
  ultimately have del: "ing_Deleting i" "isOwnedIngress i" and p: "KPatchIngress base new \<in> set (calls_of (ing_departing A K r i) ?l)"
    by (auto simp: ing_read_def split: if_splits)
  have l': "l' = ?l @ calls_of (ing_departing A K r i) ?l"
    using del by (simp add: l'_def acts ing_read_def)
  have start: "prefix (cmp_history l) (cmp_history ?l)" "prefix l ?l" by simp_all
  have mono: "prefix l1 l2 \<Longrightarrow> prefix (cmp_history l1) (cmp_history l2)" for l1 l2 by (auto simp: prefix_def)
  from departing_patch [OF p assms(2,3)] show ?thesis
  proof (elim conjE disjE exE)
    fix l1 shared h res
    assume base: "base = i" and run: "CleanupStack A (NewFromRaw (ig_vpcID r)) (ing_cleanup_request i shared) h = (Inr res, cmp_history l1)"
      and pre: "prefix (cmp_history ?l) h" "prefix l1 (?l @ calls_of (ing_departing A K r i) ?l)"
    have idem: "EnsureGraph (cu_Current (ing_cleanup_request i shared)) = ing_release_state i"
      by (simp add: ing_cleanup_request_def ing_release_state_def EnsureGraph_idem)
    show ?thesis
      using base i del CleanupStack_confirmed [OF run] prefix_order.trans [OF start(1) pre(1)] mono [OF pre(2)]
      unfolding idem l' by (blast intro: seen_absent_mono)
  next
    fix members l0 l1
    assume "base = i" "members \<noteq> []" "prefix ?l l0" "prefix l1 (?l @ calls_of (ing_departing A K r i) ?l)"
      "\<forall>m\<in>set members. \<not> ing_Deleting m \<and> isOwnedIngress m \<and> ing_Name m \<noteq> ing_Name i \<and> GroupName m = GroupName i"
      "handed_over A K r i members l0 l1"
    then show ?thesis using i del l' prefix_order.trans [OF start(2)] by blast
  qed
qed


subsection \<open>A deleted Ingress, as an example\<close>

definition demo_ing_reconciler :: ingressReconciler where
  "demo_ing_reconciler = \<lparr>ig_cmp = True, ig_vpcID = ''vpc-1'', ig_x509 = \<lparr>x_keypair = (\<lambda>c k. Inr []), x_parse = (\<lambda>d. Inr ([], []))\<rparr>\<rparr>"

definition leaving_ingress :: K8sIngress where
  "leaving_ingress = (demo_ingress ''web'' [])\<lparr>ing_ClassName := Some ''f5'', ing_Deleting := True, ing_Finalizers := [ingressFinalizerName],
     ing_Annotations := [(annIngressLBServiceID, ''lb-1''), (annIngressVSID, ''vs-1'')]\<rparr>"

definition demo_ing_kapi :: "K8sIngress \<Rightarrow> kapi" where
  "demo_ing_kapi i = (demo_kapi leaving_service)
     \<lparr>k_GetIngress := (\<lambda>ns n l. Inr i), k_ListIngresses := (\<lambda>ns l. Inr [i])\<rparr>"

lemma leaving_ingress_run:
  "calls_of (ing_Reconcile empty_cmp (demo_ing_kapi leaving_ingress) demo_ing_reconciler ''ns'' ''web'') [] =
     [KGetIngress ''ns'' ''web'', KListIngresses (Some (ing_Namespace leaving_ingress)), KEvent ''Normal'' ''DeletingLoadBalancer'',
      KListIngresses (Some (ing_Namespace leaving_ingress)), Cmp (DeleteVirtualServer ''lb-1'' ''vs-1''), Cmp (GetVirtualServer ''lb-1'' ''vs-1''),
      Cmp (DeleteLBService ''lb-1''), Cmp (GetLBService ''lb-1''), KEvent ''Normal'' ''DeletedLoadBalancer'',
      ing_release leaving_ingress]"
  by code_simp

lemma leaving_ingress_facts:
  "ingressFinalizerName \<in> set (ing_Finalizers leaving_ingress)"
  "ingressFinalizerName \<notin> set (ing_Finalizers (put_ing_finalizers (removeAll ingressFinalizerName (ing_Finalizers leaving_ingress)) leaving_ingress))"
  by code_simp+

theorem ing_finalizer_kept_witness:
  "k_GetIngress (demo_ing_kapi leaving_ingress) ''ns'' ''web'' [] = Inr leaving_ingress \<and> ing_Deleting leaving_ingress"
proof -
  have "KPatchIngress leaving_ingress (put_ing_finalizers (removeAll ingressFinalizerName (ing_Finalizers leaving_ingress)) leaving_ingress)
      \<in> set (calls_of (ing_Reconcile empty_cmp (demo_ing_kapi leaving_ingress) demo_ing_reconciler ''ns'' ''web'') [])"
    by (simp add: leaving_ingress_run ing_release_def)
  from ing_finalizer_kept [OF this leaving_ingress_facts] show ?thesis by blast
qed

subsection \<open>Leaving a group\<close>

lemma forgotten_state: "ingress_state (forget_observed i) = zero_state\<lparr>Graph := NewObservedGraph\<rparr>"
  by (simp add: zero_state_def ingress_state_def forget_observed_def readObservedGraph_def ann_get_def gm_index_def map_of_gm_del
      annObservedGraph_def annIngressLBServiceID_def annIngressVIPPortID_def annIngressVSID_def annIngressVIPAddress_def)


text \<open>
  When the last member of an Ingress group moves to another group, the resources of the old group
  are lost: \<open>Reconcile\<close> deletes nothing at CMP, and its only change is a patch after which the Ingress
  records no LB service, no VIP, no virtual server and no graph.
\<close>

theorem regroup_leaks:
  assumes "k_GetIngress K ns name l = Inr i" and "isOwnedIngress i" and "\<not> ing_Deleting i"
    and "k_ListIngresses K (Some (ing_Namespace i)) (l @ [KGetIngress ns name]) = Inr items"
    and "oldGroup = observedIngressGroup (k_range K (l @ [KGetIngress ns name, KListIngresses (Some (ing_Namespace i))])) i"
    and "oldGroup \<noteq> []" and "oldGroup \<noteq> GroupName i"
    and "ingressGroupMembers items (ing_Namespace i) oldGroup (ing_Name i) isOwnedIngress = []"
  shows "calls_of (ing_Reconcile A K r ns name) l =
      [KGetIngress ns name, KListIngresses (Some (ing_Namespace i)), KPatchIngress i (forget_observed i)] \<and>
    ingress_state (forget_observed i) = zero_state\<lparr>Graph := NewObservedGraph\<rparr>"
proof -
  let ?l1 = "l @ [KGetIngress ns name]" and ?l2 = "l @ [KGetIngress ns name, KListIngresses (Some (ing_Namespace i))]"
  have "ing_live A K r i ?l1 = ing_regrouped A K r oldGroup i items ?l2"
    using assms(4-7) by (simp add: ing_live_def list_ingresses_def kcall_def run_bind run_invoke Let_def)
  moreover have "ing_regrouped A K r oldGroup i items ?l2 =
      io_bind (patch_ingress K i (forget_observed i)) (\<lambda>_. io_return \<lparr>Requeue = True, RequeueAfter = 0\<rparr>) ?l2"
    using assms(8) by (simp add: ing_regrouped_def run_bind run_return)
  ultimately have "calls_of (ing_live A K r i) ?l1 = [KListIngresses (Some (ing_Namespace i)), KPatchIngress i (forget_observed i)]"
    by (auto simp: calls_of_def run_bind run_return patch_ingress_def kcall_def run_invoke split: sum.splits)
  then show ?thesis
    using assms(1-3) by (simp add: ing_Reconcile_calls ing_read_def forgotten_state)
qed

definition demo_group_lb :: ObservedResource where
  "demo_group_lb = zero_observed\<lparr>LogicalID := ''lb'', ExternalID := ''lb-1'',
     or_Ownership := (or_Ownership zero_observed)\<lparr>os_SourceKind := ''IngressGroup'', os_SharedGroup := ''team-a''\<rparr>\<rparr>"

definition demo_old_graph :: ObservedGraph where
  "demo_old_graph = NewObservedGraph\<lparr>g_LBServices := [(''lb'', demo_group_lb)]\<rparr>"

definition moving_ingress :: K8sIngress where
  "moving_ingress = (demo_ingress ''web'' [])\<lparr>ing_Annotations :=
     writeObservedGraph demo_old_graph [(annVIPGroup, ''team-b''), (annIngressLBServiceID, ''lb-1'')]\<rparr>"

lemma moving_ingress_group: "observedIngressGroup (\<lambda>ks. ks) moving_ingress = ''team-a''"
proof -
  have "graph_wf demo_old_graph" by code_simp
  then have "readObservedGraph (ing_Annotations moving_ingress) = Some (sort_graph demo_old_graph)"
    unfolding moving_ingress_def by (simp add: read_written_graph)
  moreover have "go_range (\<lambda>ks. ks) (g_LBServices (sort_graph demo_old_graph)) = [(''lb'', demo_group_lb)]" by code_simp
  ultimately show ?thesis by (simp add: observedIngressGroup_def demo_group_lb_def)
qed

lemma moving_ingress_facts:
  "isOwnedIngress moving_ingress" "\<not> ing_Deleting moving_ingress" "ing_Namespace moving_ingress = ''ns''"
  "GroupName moving_ingress = ''team-b''" "LBServiceID (ingress_state moving_ingress) = ''lb-1''"
  by (simp_all add: moving_ingress_def demo_ingress_def isOwnedIngress_def ingressClassName_def GroupName_def ingress_state_def
      writeObservedGraph_def ann_get_def gm_index_def annVIPGroup_def annObservedGraph_def annIngressLBServiceID_def trim_space_def
      trim_by_def is_space_def)

theorem regroup_leaks_witness:
  "calls_of (ing_Reconcile empty_cmp (demo_ing_kapi moving_ingress) demo_ing_reconciler ''ns'' ''web'') [] =
     [KGetIngress ''ns'' ''web'', KListIngresses (Some ''ns''), KPatchIngress moving_ingress (forget_observed moving_ingress)] \<and>
   LBServiceID (ingress_state moving_ingress) = ''lb-1''"
proof -
  have api: "k_range (demo_ing_kapi moving_ingress) h = (\<lambda>ks. ks)" "k_GetIngress (demo_ing_kapi moving_ingress) n m h = Inr moving_ingress"
    "k_ListIngresses (demo_ing_kapi moving_ingress) o1 h = Inr [moving_ingress]" for h n m o1
    by (simp_all add: demo_ing_kapi_def demo_kapi_def)
  have alone: "ingressGroupMembers [moving_ingress] g ''team-a'' (ing_Name moving_ingress) isOwnedIngress = []" for g
    by (simp add: ingressGroupMembers_def)
  from regroup_leaks [OF api(2) moving_ingress_facts(1,2) api(3), where oldGroup = "''team-a''" and l = "[]" and ns = "''ns''" and name = "''web''"]
  show ?thesis by (simp add: api moving_ingress_group moving_ingress_facts alone)
qed

subsection \<open>Every member is a restart point\<close>

lemma member_annotations_index:
  "ann_get (member_annotations ids vip graph ann) annIngressLBServiceID = trim_space (ci_LBServiceID ids)"
  "ann_get (member_annotations ids vip graph ann) annIngressVIPPortID = trim_space (ci_VIPPortID ids)"
  "ann_get (member_annotations ids vip graph ann) annIngressVSID = trim_space (ci_VirtualServerID ids)"
  "ann_get (member_annotations ids vip graph ann) annIngressVIPAddress = trim_space vip"
  by (simp_all add: member_annotations_def writeObservedGraph_def ann_get_def gm_index_def annObservedGraph_def
      annIngressLBServiceID_def annIngressVIPPortID_def annIngressVSID_def annIngressVIPAddress_def)

lemma member_annotations_graph:
  "graph_wf graph \<Longrightarrow> readObservedGraph (member_annotations ids vip graph ann) = Some (sort_graph graph)"
  by (simp add: member_annotations_def read_written_graph)

definition recorded_on :: "LoadBalancerStack \<Rightarrow> ObservedState \<Rightarrow> K8sIngress \<Rightarrow> K8sIngress" where
  "recorded_on stack observed m =
     m\<lparr>ing_Annotations := member_annotations (ing_ids stack observed) (VIPAddress observed) (Graph observed) (ing_Annotations m)\<rparr>"

text \<open>
  C23.  Every member of a group is a restart point: once the result of a pass is written to a member,
  whatever the member held before, reading the member gives back the provider identifiers of the
  pass and a graph with the same entries, so a later pass starts from the same state whichever member
  triggers it.
\<close>

theorem member_restart_point:
  assumes "graph_wf (Graph observed)"
    and "trim_space (LBServiceID observed) = LBServiceID observed" "trim_space (VIPPortID observed) = VIPPortID observed"
  shows "ingress_state (recorded_on stack observed m1) = ingress_state (recorded_on stack observed m2) \<and>
    LBServiceID (ingress_state (recorded_on stack observed m1)) = LBServiceID observed \<and>
    VIPPortID (ingress_state (recorded_on stack observed m1)) = VIPPortID observed \<and>
    VIPAddress (ingress_state (recorded_on stack observed m1)) = trim_space (VIPAddress observed) \<and>
    same_entries (Graph (ingress_state (recorded_on stack observed m1))) (Graph observed)"
  using assms
  by (simp add: recorded_on_def ingress_state_def member_annotations_index member_annotations_graph same_entries_sort ing_ids_def Let_def)

definition demo_observed :: ObservedState where
  "demo_observed = zero_state\<lparr>LBServiceID := ''lb-1'', VIPPortID := ''vip-1'', VIPAddress := ''10.0.0.9'', Graph := demo_graph\<rparr>"

theorem member_restart_point_witness:
  "\<forall>stack. same_entries (Graph (ingress_state (recorded_on stack demo_observed moving_ingress))) demo_graph"
proof
  fix stack
  have facts: "graph_wf (Graph demo_observed)" "trim_space (LBServiceID demo_observed) = LBServiceID demo_observed"
    "trim_space (VIPPortID demo_observed) = VIPPortID demo_observed"
    by code_simp+
  have graph: "Graph demo_observed = demo_graph" by (simp add: demo_observed_def)
  show "same_entries (Graph (ingress_state (recorded_on stack demo_observed moving_ingress))) demo_graph"
    using member_restart_point [OF facts, of stack moving_ingress moving_ingress] unfolding graph by blast
qed


subsection \<open>Which groups the controller can serve\<close>

lemma pool_without_compute:
  assumes "pool_Members pool \<noteq> []" and "\<forall>m \<in> set (pool_Members pool). bm_ComputeID m = []"
  shows "es_pool A d lb vs vsID st pool h =
    (Inl (Errorf ''node %q has no CMP compute identity; expected spec.providerID=cmp://<uuid>'' [bm_NodeName (hd (pool_Members pool))]), h)"
proof -
  obtain m ms where "pool_Members pool = m # ms" using assms(1) by (cases "pool_Members pool") auto
  with assms(2) show ?thesis
    by (simp add: es_pool_def poolMemberSpecs_def resolveBackendPort_def io_bind_def io_try_def io_fail_def Let_def split: prod.split)
qed

text \<open>A pass that is not aggregate reaches every pool of every listener.\<close>

lemma EnsureStack_reaches_pools:
  assumes "EnsureStack A d req h = (Inr res, h')" and "sr_Stack req = Some stack" and "\<not> sr_AggregateVirtualServer req"
    and "vs \<in> set (st_VirtualServers stack)" and "pool \<in> set (poolsForVirtualServer stack vs)"
  shows "\<exists>lb vsID st0 h0 st1 h1. es_pool A d lb vs vsID st0 pool h0 = (Inr st1, h1)"
proof -
  from assms(1,2) obtain netID st h1 where "es_inside A d req stack netID st h1 = (Inr res, h')"
    unfolding EnsureStack_def by (auto elim!: bind_InrE simp: run_check run_fail split: option.splits)
  then obtain lb vipID st0 h2 st1 h3 where "io_fold (es_virtual_server A d req stack lb vipID netID) (st_VirtualServers stack) st0 h2 = (Inr st1, h3)"
    unfolding es_inside_def by (auto elim!: bind_InrE split: prod.splits)
  from io_fold_InrE [OF this assms(4)] obtain st2 h4 st3 h5 where
    "es_virtual_server A d req stack lb vipID netID st2 vs h4 = (Inr st3, h5)" by blast
  then obtain vsID st4 h6 st5 h7 where "io_fold (es_pool A d lb vs vsID) (poolsForVirtualServer stack vs) st4 h6 = (Inr st5, h7)"
    using assms(3) unfolding es_virtual_server_def by (cases st2) (auto elim!: bind_InrE split: prod.splits)
  from io_fold_InrE [OF this assms(5)] show ?thesis by blast
qed

lemma group_pass_pools_empty:
  assumes "BuildGroupLoadBalancerStack (map Some is) cfg opts = Inr stack"
    and "ing_ensureCMPResources A r i (stack\<lparr>st_Certificates := certs\<rparr>) l = (Inr out, l')"
    and "rule \<in> set (st_RoutingRules stack)" and "pool \<in> set (st_Pools stack)" and "pool_Name pool = rr_PoolName rule"
  shows "pool_Members pool = []"
proof (rule ccontr)
  let ?stack = "stack\<lparr>st_Certificates := certs\<rparr>"
  assume full: "pool_Members pool \<noteq> []"
  from assms(2) obtain res l1 where run: "run_cmp (\<lambda>l. EnsureStack A (NewFromRaw (ig_vpcID r)) (ing_ensure_request i ?stack)) l = (Inr res, l1)"
    and "st_VirtualServers stack \<noteq> []"
    unfolding ing_ensureCMPResources_def by (auto elim!: bind_InrE if_InrE simp: run_fail)
  from this(2) obtain vs where vs: "vs \<in> set (st_VirtualServers ?stack)" by (cases "st_VirtualServers stack") auto
  have pool: "pool \<in> set (poolsForVirtualServer ?stack vs)"
    using assms(3-5) by (auto simp: poolsForVirtualServer_def Let_def)
  have req: "sr_Stack (ing_ensure_request i ?stack) = Some ?stack" "\<not> sr_AggregateVirtualServer (ing_ensure_request i ?stack)"
    by (simp_all add: ing_ensure_request_def)
  from run_cmp_run [OF run EnsureStack_extends] have
    "EnsureStack A (NewFromRaw (ig_vpcID r)) (ing_ensure_request i ?stack) (cmp_history l) = (Inr res, cmp_history l1)" by blast
  from EnsureStack_reaches_pools [OF this req vs pool] obtain lb vsID st0 h0 st1 h1
    where "es_pool A (NewFromRaw (ig_vpcID r)) lb vs vsID st0 pool h0 = (Inr st1, h1)" by blast
  moreover have "\<forall>m \<in> set (pool_Members pool). bm_ComputeID m = []"
    using BuildGroup_members_no_compute [OF assms(1)] assms(4) by blast
  ultimately show False using pool_without_compute [OF full] by auto
qed

text \<open>Reports of success come from a live Ingress that was provisioned.\<close>

abbreviation ensured :: act where
  "ensured \<equiv> KEvent ''Normal'' ''EnsuredLoadBalancer''"

lemma group_act_not_event: "emits group_act m \<Longrightarrow> emits (\<lambda>a. a \<noteq> ensured) m"
  by (erule emits_mono) (auto simp: group_act_def)

lemma departing_not_ensured: "emits (\<lambda>a. a \<noteq> ensured) (ing_departing A K r i)"
proof -
  have tail: "emits (\<lambda>a. a \<noteq> ensured) (case res of
      Inl e \<Rightarrow> io_bind (kevent ''Warning'' ''DeleteFailed'') (\<lambda>_. io_fail (Wrapf ''CMP cleanup failed; retrying: %w'' [] e))
    | Inr _ \<Rightarrow> io_bind (kevent ''Normal'' ''DeletedLoadBalancer'') (\<lambda>_. ing_remove_finalizer K i))" for res :: "err + unit"
    by (auto split: sum.splits intro!: emits_mono [OF ing_remove_finalizer_emits] simp: ing_release_def)
  have rem: "emits (\<lambda>a. a \<noteq> ensured) (remainingGroupMembers K i)" "emits (\<lambda>a. a \<noteq> ensured) (ing_remove_finalizer K i)"
    "emits (\<lambda>a. a \<noteq> ensured) (ing_cleanupCMPResources A K r i)"
    by (rule emits_mono [OF remainingGroupMembers_emits], simp, rule emits_mono [OF ing_remove_finalizer_emits], simp add: ing_release_def,
        rule emits_mono [OF ing_cleanup_emits], auto)
  show ?thesis
    unfolding ing_departing_def
    by (intro emits_if emits_bind emits_try rem tail group_act_not_event converge_members_emits emits_return emits_kevent) simp_all
qed

lemma regrouped_not_ensured: "emits (\<lambda>a. a \<noteq> ensured) (ing_regrouped A K r old i items)"
  unfolding ing_regrouped_def patch_ingress_def Let_def
  by (intro emits_bind emits_if group_act_not_event converge_members_emits emits_return emits_kcall) simp

lemma populate_only_certificates:
  assumes "result_of (populateTLSCertificates K x ns stack) l = Inr stack'"
  obtains certs where "stack' = stack\<lparr>st_Certificates := certs\<rparr>"
  using assms result_run [OF populate_emits assms]
  unfolding populateTLSCertificates_def by (auto elim!: bind_InrE simp: run_return split: prod.splits)

lemma act_of_event:
  assumes "x \<in> set (calls_of (with_event reason m f) h)" and "emits (\<lambda>a. a \<noteq> x) m" and "\<And>y. emits (\<lambda>_. True) (f y)"
    and "x \<noteq> KEvent ''Warning'' reason"
  shows "\<exists>y. result_of m h = Inr y \<and> x \<in> set (calls_of (f y) (h @ calls_of m h))"
proof -
  let ?g = "\<lambda>res. case res of Inl e \<Rightarrow> io_bind (kevent ''Warning'' reason) (\<lambda>_. io_fail e) | Inr y \<Rightarrow> f y"
  have ext: "emits (\<lambda>_. True) (?g res)" for res using assms(3) by (auto split: sum.splits)
  have "x \<notin> set (calls_of m h)" using emits_at [OF assms(2)] by blast
  then have "x \<in> set (calls_of (?g (result_of m h)) (h @ calls_of m h))"
    using act_of_try [OF assms(1) [unfolded with_event_def] assms(2) [THEN any_call] ext] by blast
  moreover have "emits (\<lambda>a. a \<noteq> x) (?g (Inl e))" for e using assms(4) by auto
  ultimately show ?thesis using emits_at by (cases "result_of m h") fastforce+
qed

lemma provision_ensured:
  assumes "ensured \<in> set (calls_of (ing_provision A K r i members stack) l)"
  shows "\<exists>i' l0 out l1. ing_ensureCMPResources A r i' stack l0 = (Inr out, l1)"
proof -
  let ?fin = "finalizers_Ensure (patch_ingress K) ing_Finalizers put_ing_finalizers i ingressFinalizerName"
  let ?tail = "\<lambda>res. case res of Inl e \<Rightarrow> ing_ensure_failed e
    | Inr (ids, vip, graph) \<Rightarrow> io_bind (persistGroupObserved K members ids vip graph)
        (\<lambda>_. io_bind (kevent ''Normal'' ''EnsuredLoadBalancer'') (\<lambda>_. io_return no_requeue))"
  have fin: "emits (\<lambda>a. a \<noteq> ensured) ?fin" unfolding finalizers_Ensure_def patch_ingress_def by auto
  have failed: "emits (\<lambda>a. a \<noteq> ensured) (ing_ensure_failed e)" for e
    unfolding ing_ensure_failed_def by (auto split: option.splits)
  have tail: "emits (\<lambda>_. True) (?tail res)" for res
    by (auto split: sum.splits prod.splits intro!: failed [THEN any_call] persistGroupObserved_emits [THEN any_call])
  have body: "emits (\<lambda>_. True) ((\<lambda>(i, _). io_try (ing_ensureCMPResources A r i stack) ?tail) p)" for p :: "K8sIngress \<times> bool"
    by (cases p, simp only: prod.case) (rule emits_try, rule ing_ensure_emits [THEN any_call], rule tail)
  obtain i' b l1 where "ensured \<in> set (calls_of (io_try (ing_ensureCMPResources A r i' stack) ?tail) l1)"
    using act_of_bind [OF assms [unfolded ing_provision_def] fin [THEN any_call] body] emits_at [OF fin] by fastforce
  then have last: "ensured \<in> set (calls_of (?tail (result_of (ing_ensureCMPResources A r i' stack) l1))
        (l1 @ calls_of (ing_ensureCMPResources A r i' stack) l1))"
    using act_of_try [OF _ ing_ensure_emits [THEN any_call] tail] emits_at [OF ing_ensure_emits] by fastforce
  then obtain out where "result_of (ing_ensureCMPResources A r i' stack) l1 = Inr out"
    using emits_at [OF failed] by (cases "result_of (ing_ensureCMPResources A r i' stack) l1") fastforce+
  then show ?thesis using result_run [OF ing_ensure_emits] by blast
qed

lemma run_of_result_simps [simp]:
  "calls_of (io_of_result x) h = []" "result_of (io_of_result x) h = x"
  "calls_of (build_group K members cfg) h = []"
  "result_of (build_group K members cfg) h = BuildGroupLoadBalancerStack (map Some members) cfg (group_options K h)"
  by (auto simp: calls_of_def result_of_def io_of_result_def build_group_def io_simps split: sum.splits)

lemma provision_extends: "emits (\<lambda>_. True) (ing_provision A K r i members stack)"
  by (rule ing_provision_emits [THEN any_call])

lemma converge_ensured:
  assumes "ensured \<in> set (calls_of (ing_converge A K r i items) l)"
  shows "\<exists>members cfg stack certs i' l0 out l1. group_members_of i items = Inr members \<and>
    parseIngressConfig (canonicalIngress members) = Inr cfg \<and>
    BuildGroupLoadBalancerStack (map Some members) cfg (group_options K l) = Inr stack \<and>
    ing_ensureCMPResources A r i' (stack\<lparr>st_Certificates := certs\<rparr>) l0 = (Inr out, l1)"
proof -
  let ?pop = "populateTLSCertificates K (ig_x509 r) (ing_Namespace i)"
  let ?rest = "\<lambda>members stack. if st_Certificates stack \<noteq> [] \<and> \<not> hasCertificateCapability r
      then io_bind (kevent ''Warning'' ''TLSNotSupported'') (\<lambda>_. io_fail (Errorf ''TLS certificate reconciliation is not configured'' []))
      else with_event ''InvalidCertificate'' (?pop stack) (ing_provision A K r i members)"
  let ?b = "\<lambda>members cfg. with_event ''BuildLoadBalancerModelFailed'' (build_group K members cfg) (?rest members)"
  have rest: "emits (\<lambda>_. True) (?rest members stack)" for members stack
    by (intro emits_if emits_bind with_event_emits populate_emits [THEN any_call] provision_extends emits_kevent emits_fail) simp_all
  have b: "emits (\<lambda>_. True) (?b members cfg)" for members cfg
    by (intro with_event_emits build_group_emits rest) simp
  have b': "emits (\<lambda>_. True) (io_bind (io_of_result (parseIngressConfig (canonicalIngress members))) (?b members))" for members
    by (intro emits_bind emits_of_result b)
  from act_of_bind [OF assms [unfolded ing_converge_def] emits_of_result b'] obtain members where members: "group_members_of i items = Inr members"
    and parse: "ensured \<in> set (calls_of (io_bind (io_of_result (parseIngressConfig (canonicalIngress members))) (?b members)) l)" by auto
  from act_of_bind [OF parse emits_of_result b] obtain cfg where cfg: "parseIngressConfig (canonicalIngress members) = Inr cfg"
    and "ensured \<in> set (calls_of (?b members cfg) l)" by auto
  from act_of_event [OF this(2) build_group_emits rest] obtain stack where
    stack: "BuildGroupLoadBalancerStack (map Some members) cfg (group_options K l) = Inr stack"
    and "ensured \<in> set (calls_of (?rest members stack) l)" by auto
  moreover have "emits (\<lambda>a. a \<noteq> ensured) (io_bind (kevent ''Warning'' ''TLSNotSupported'')
      (\<lambda>_. io_fail (Errorf ''TLS certificate reconciliation is not configured'' []) :: Result ctl))" by auto
  ultimately have "ensured \<in> set (calls_of (with_event ''InvalidCertificate'' (?pop stack) (ing_provision A K r i members)) l)"
    using emits_at by (fastforce split: if_splits)
  moreover have "emits (\<lambda>a. a \<noteq> ensured) (?pop stack)" using populate_emits by (rule emits_mono) auto
  ultimately obtain stack' l2 where
    "result_of (?pop stack) l = Inr stack'" and prov: "ensured \<in> set (calls_of (ing_provision A K r i members stack') l2)"
    using act_of_event [OF _ _ provision_extends] by fastforce
  from populate_only_certificates [OF this(1)] obtain certs where "stack' = stack\<lparr>st_Certificates := certs\<rparr>" by blast
  with provision_ensured [OF prov] members cfg stack show ?thesis by blast
qed

lemma live_cases:
  assumes "a \<in> set (calls_of (ing_live A K r i) l)"
  shows "a = KListIngresses (Some (ing_Namespace i)) \<or>
    (\<exists>items old. k_ListIngresses K (Some (ing_Namespace i)) l = Inr items \<and>
       (a \<in> set (calls_of (ing_regrouped A K r old i items) (l @ [KListIngresses (Some (ing_Namespace i))])) \<or>
        a \<in> set (calls_of (ing_converge A K r i items) (l @ [KListIngresses (Some (ing_Namespace i))]))))"
proof -
  let ?f = "\<lambda>items h. let oldGroup = observedIngressGroup (k_range K h) i in
      (if oldGroup \<noteq> [] \<and> oldGroup \<noteq> GroupName i then ing_regrouped A K r oldGroup i items else ing_converge A K r i items) h"
  have at: "calls_of (?f items) h = calls_of (if observedIngressGroup (k_range K h) i \<noteq> [] \<and> observedIngressGroup (k_range K h) i \<noteq> GroupName i
      then ing_regrouped A K r (observedIngressGroup (k_range K h) i) i items else ing_converge A K r i items) h" for items h
    by (simp add: calls_of_def Let_def)
  have "emits (\<lambda>_. True) (?f items)" for items
    using ing_regrouped_keeps [THEN any_call] ing_converge_keeps [THEN any_call] unfolding emits_def Let_def by presburger
  from act_of_bind [OF assms [unfolded ing_live_def list_ingresses_def] emits_kcall [OF TrueI] this] show ?thesis
    unfolding at by (auto split: if_splits sum.splits)
qed

text \<open>
  C17.  The controller of Ingresses cannot serve a group that has a ready backend: if the stack it builds
  for the group has a pool with a member that some rule routes to, \<open>Reconcile\<close> never reports
  \<open>EnsuredLoadBalancer\<close>, whatever CMP answers.  (The pool members of an IngressGroup carry no compute
  identity, which the deployer requires.)
\<close>

theorem ingress_with_backend_fails:
  assumes "k_GetIngress K ns name l = Inr i"
    and "k_ListIngresses K (Some (ing_Namespace i)) (l @ [KGetIngress ns name]) = Inr items"
    and "group_members_of i items = Inr members" and "parseIngressConfig (canonicalIngress members) = Inr cfg"
    and "BuildGroupLoadBalancerStack (map Some members) cfg
           (group_options K (l @ [KGetIngress ns name, KListIngresses (Some (ing_Namespace i))])) = Inr stack"
    and "rule \<in> set (st_RoutingRules stack)" and "pool \<in> set (st_Pools stack)" and "pool_Name pool = rr_PoolName rule"
    and "pool_Members pool \<noteq> []"
  shows "ensured \<notin> set (calls_of (ing_Reconcile A K r ns name) l)"
proof
  let ?l = "l @ [KGetIngress ns name]"
  assume "ensured \<in> set (calls_of (ing_Reconcile A K r ns name) l)"
  with assms(1) have "ensured \<in> set (calls_of (ing_read A K r i) ?l)" by (simp add: ing_Reconcile_calls)
  then have "ensured \<in> set (calls_of (ing_live A K r i) ?l)"
    using emits_at [OF departing_not_ensured] by (fastforce simp: ing_read_def split: if_splits)
  from live_cases [OF this] have "ensured \<in> set (calls_of (ing_converge A K r i items) (?l @ [KListIngresses (Some (ing_Namespace i))]))"
    using emits_at [OF regrouped_not_ensured] assms(2) by fastforce
  from converge_ensured [OF this] assms(3-5) obtain certs i' l0 out l1 where
    "ing_ensureCMPResources A r i' (stack\<lparr>st_Certificates := certs\<rparr>) l0 = (Inr out, l1)" by auto
  with group_pass_pools_empty [OF assms(5)] assms(6-9) show False by blast
qed

definition demo_web :: K8sIngress where
  "demo_web = demo_one\<lparr>ing_Finalizers := [ingressFinalizerName]\<rparr>"

definition demo_backend_service :: K8sService where
  "demo_backend_service = (sample_service [])\<lparr>svc_Ports := [demo_port ''http'']\<rparr>"

definition demo_web_kapi :: kapi where
  "demo_web_kapi = (demo_ing_kapi demo_web)\<lparr>k_GetService := (\<lambda>ns n l. Inr demo_backend_service), k_cache := (\<lambda>l. demo_kube)\<rparr>"

lemma demo_web_stack:
  "case BuildGroupLoadBalancerStack (map Some [demo_web]) DefaultLBConfig (group_options demo_web_kapi l) of
     Inl e \<Rightarrow> False
   | Inr stack \<Rightarrow> (case (st_RoutingRules stack, st_Pools stack) of
        (rule # _, pool # _) \<Rightarrow> pool_Name pool = rr_PoolName rule \<and> pool_Members pool \<noteq> [] | _ \<Rightarrow> False)"
  by code_simp

lemma demo_web_facts:
  "group_members_of demo_web [demo_web] = Inr [demo_web]"
  "parseIngressConfig (canonicalIngress [demo_web]) = Inr DefaultLBConfig"
  by code_simp+

theorem ingress_with_backend_fails_witness:
  "ensured \<notin> set (calls_of (ing_Reconcile empty_cmp demo_web_kapi demo_ing_reconciler ''ns'' ''one'') [])"
proof -
  let ?l = "[] @ [KGetIngress ''ns'' ''one'', KListIngresses (Some (ing_Namespace demo_web))]"
  obtain stack rule pool where stack: "BuildGroupLoadBalancerStack (map Some [demo_web]) DefaultLBConfig (group_options demo_web_kapi ?l) = Inr stack"
    "rule \<in> set (st_RoutingRules stack)" "pool \<in> set (st_Pools stack)" "pool_Name pool = rr_PoolName rule" "pool_Members pool \<noteq> []"
    using demo_web_stack [of ?l] by (auto split: sum.splits list.splits) (metis list.set_intros(1))
  have api: "k_GetIngress demo_web_kapi n m h = Inr demo_web" "k_ListIngresses demo_web_kapi o1 h = Inr [demo_web]" for n m o1 h
    by (simp_all add: demo_web_kapi_def demo_ing_kapi_def)
  show ?thesis by (rule ingress_with_backend_fails [OF api demo_web_facts stack])
qed

subsection \<open>Only addresses are published\<close>

lemma group_publishes: "group_act a \<Longrightarrow> publishes_address a"
  by (cases a) (auto simp: group_act_def)

lemma ing_departing_publishes: "emits publishes_address (ing_departing A K r i)"
proof -
  have parts: "emits publishes_address (remainingGroupMembers K i)" "emits publishes_address (ing_remove_finalizer K i)"
    "emits publishes_address (ing_cleanupCMPResources A K r i)" "emits publishes_address (converge_members A K r w i ms)" for w ms
    by (rule emits_mono [OF remainingGroupMembers_emits], simp, rule emits_mono [OF ing_remove_finalizer_emits], simp add: ing_release_def,
        rule emits_mono [OF ing_cleanup_emits], auto simp: cmp_publishes intro: emits_mono [OF converge_members_emits] group_publishes)
  have tail: "emits publishes_address (case res of
      Inl e \<Rightarrow> io_bind (kevent ''Warning'' ''DeleteFailed'') (\<lambda>_. io_fail (Wrapf ''CMP cleanup failed; retrying: %w'' [] e))
    | Inr _ \<Rightarrow> io_bind (kevent ''Normal'' ''DeletedLoadBalancer'') (\<lambda>_. ing_remove_finalizer K i))" for res :: "err + unit"
    by (auto split: sum.splits intro: parts)
  show ?thesis
    unfolding ing_departing_def by (intro emits_if emits_bind emits_try parts tail emits_return emits_kevent) simp_all
qed

lemma ing_live_publishes:
  assumes "a \<in> set (calls_of (ing_live A K r i) l)"
  shows "publishes_address a"
proof -
  have prov: "emits publishes_address (ing_provision A K r i ms stack)" for ms stack
    by (rule emits_mono [OF ing_provision_emits]) (auto simp: is_event_def group_publishes)
  have "emits publishes_address (populateTLSCertificates K x ns stack)" for x ns stack
    by (rule emits_mono [OF populate_emits]) auto
  then have conv: "emits publishes_address (ing_converge A K r i items)" for items
    unfolding ing_converge_def
    by (intro emits_bind emits_of_result with_event_emits build_group_emits emits_if emits_kevent emits_fail prov) simp_all
  have "emits publishes_address (ing_regrouped A K r old i items)" for old items
    unfolding ing_regrouped_def patch_ingress_def Let_def
    by (intro emits_bind emits_if emits_mono [OF converge_members_emits] emits_return emits_kcall) (simp_all add: group_publishes)
  with live_cases [OF assms] conv show ?thesis using emits_at by fastforce
qed

text \<open>
  C26.  Neither controller publishes anything but an IP address: every status patch of a Service or an
  Ingress sets exactly one load-balancer ingress, an address that \<open>net.ParseIP\<close> accepts, whatever CMP
  reported (placeholders like \<open>pending\<close> included).
\<close>

theorem only_addresses_published:
  "list_all publishes_address (calls_of (svc_Reconcile A K r ns name) l) \<and>
   list_all publishes_address (calls_of (ing_Reconcile A K r' ns name) l)"
proof
  have "publishes_address a" if "a \<in> set (calls_of (ing_read A K r' i) l0)" for a i l0
    using that emits_at [OF ing_departing_publishes] ing_live_publishes by (fastforce simp: ing_read_def split: if_splits)
  then show "list_all publishes_address (calls_of (ing_Reconcile A K r' ns name) l)"
    by (auto simp: ing_Reconcile_calls list_all_iff split: sum.splits)
qed (rule svc_Reconcile_publishes)

end
