(* ===== verification/SeedController.thy ===== *)
theory SeedController
  imports ServiceController ControlPlane
begin

text \<open>
  The controller of Services on a Seed, \<open>cmd/seed-service-lb-controller/main.go\<close>.  It has constants and
  functions of the names of the Shoot's controller; here they carry the prefix \<open>seed_\<close> where they differ.
\<close>

definition seed_finalizerName :: string where "seed_finalizerName = ''f5.extensions.gardener.cloud/seed-service-lb''"

subsection \<open>Configuration\<close>

record seed_config =
  sc_CMPEndpoint :: string
  sc_OrganisationName :: string
  sc_ProjectID :: string
  sc_Region :: string
  sc_CeAuth :: string
  sc_LoadBalancerClass :: string
  sc_FlavorID :: int32
  sc_NetworkID :: string
  sc_VPCID :: string
  sc_VPCName :: string

text \<open>The verb \<open>%d\<close> of \<open>fmt.Sscanf\<close> reads an optional sign and the leading digits; the rest of the text is
  not looked at.\<close>

definition sscanf_d :: "string \<Rightarrow> int option" where
  "sscanf_d s =
     (let s = dropWhile is_space s;
          sign = (case s of c # _ \<Rightarrow> if c = CHR ''-'' \<or> c = CHR ''+'' then [c] else [] | [] \<Rightarrow> [])
      in atoi (sign @ takeWhile is_digit (drop (length sign) s)))"

definition seed_required_env :: "string list" where
  "seed_required_env = [''CMP_ENDPOINT'', ''CMP_CE_AUTH'', ''CMP_ORGANISATION_NAME'', ''CMP_PROJECT_ID'', ''CMP_REGION'']"

definition loadConfigFromEnv :: "(string \<Rightarrow> string) \<Rightarrow> err + seed_config" where
  "loadConfigFromEnv getenv =
     (let env = (\<lambda>k. trim_space (getenv k)) in
      case find (\<lambda>k. env k = []) seed_required_env of
        Some k \<Rightarrow> Inl (Errorf ''%s must be set'' [k])
      | None \<Rightarrow> Inr
          \<lparr>sc_CMPEndpoint = env ''CMP_ENDPOINT'', sc_OrganisationName = env ''CMP_ORGANISATION_NAME'',
           sc_ProjectID = env ''CMP_PROJECT_ID'', sc_Region = env ''CMP_REGION'', sc_CeAuth = env ''CMP_CE_AUTH'',
           sc_LoadBalancerClass = (if env ''F5_SEED_LB_LOADBALANCER_CLASS'' = [] then defaultLBClass else env ''F5_SEED_LB_LOADBALANCER_CLASS''),
           sc_FlavorID = (if env ''CMP_FLAVOR_ID'' = [] then 0
             else case sscanf_d (env ''CMP_FLAVOR_ID'') of None \<Rightarrow> 0 | Some f \<Rightarrow> to_int32 f),
           sc_NetworkID = env ''CMP_NETWORK_ID'', sc_VPCID = env ''CMP_VPC_ID'', sc_VPCName = env ''CMP_VPC_NAME''\<rparr>)"

text \<open>\<open>sd_partial\<close> is what \<open>encoding/json\<close> leaves of a graph whose document is JSON but does not fit the type.\<close>

record seedReconciler =
  sd_loadBalancerClass :: string
  sd_flavorID :: int32
  sd_networkID :: string
  sd_vpcID :: string
  sd_vpcName :: string
  sd_partial :: "json \<Rightarrow> ObservedGraph"

definition seed_newReconciler :: "(string \<Rightarrow> string) \<Rightarrow> (json \<Rightarrow> ObservedGraph) \<Rightarrow> err + hclient \<times> seedReconciler" where
  "seed_newReconciler getenv partial =
     res_bind (loadConfigFromEnv getenv)
       (\<lambda>cfg. res_bind (res_wrap ''creating CMP client: %w'' []
            (NewClientWithCeAuth getenv (sc_CMPEndpoint cfg) (sc_OrganisationName cfg) (sc_ProjectID cfg) (sc_Region cfg) (sc_CeAuth cfg)))
          (\<lambda>c. Inr (c, \<lparr>sd_loadBalancerClass = sc_LoadBalancerClass cfg, sd_flavorID = sc_FlavorID cfg,
             sd_networkID = sc_NetworkID cfg, sd_vpcID = sc_VPCID cfg, sd_vpcName = sc_VPCName cfg, sd_partial = partial\<rparr>)))"

subsection \<open>The observed state\<close>

text \<open>The error of \<open>json.Unmarshal\<close> is dropped.\<close>

definition seed_graph :: "seedReconciler \<Rightarrow> string gomap \<Rightarrow> ObservedGraph" where
  "seed_graph r ann =
     (if ann_get ann annObservedGraph = [] then NewObservedGraph
      else case json_parse (ann_get ann annObservedGraph) of
          None \<Rightarrow> NewObservedGraph
        | Some doc \<Rightarrow> (case d_graph doc of Some (graph, _) \<Rightarrow> graph | None \<Rightarrow> sd_partial r doc))"

definition seed_state :: "seedReconciler \<Rightarrow> K8sService \<Rightarrow> ObservedState" where
  "seed_state r svc =
     zero_state\<lparr>LBServiceID := ann_get (svc_Annotations svc) annLBServiceID, VIPPortID := ann_get (svc_Annotations svc) annVIPPortID,
       VirtualServerID := ann_get (svc_Annotations svc) annVirtualServerID, VIPAddress := ann_get (svc_Annotations svc) annVIPAddress,
       Graph := seed_graph r (svc_Annotations svc)\<rparr>"

subsection \<open>The desired stack: the first port of the Service\<close>

definition seed_base :: "K8sService \<Rightarrow> string" where
  "seed_base svc = svc_Namespace svc @ ''-'' @ svc_Name svc"

definition seed_lb_name :: "K8sService \<Rightarrow> string" where
  "seed_lb_name svc = sanitizeKey (''seed-'' @ seed_base svc)"

definition seed_vs_name :: "K8sService \<Rightarrow> int32 \<Rightarrow> string" where
  "seed_vs_name svc port = sanitizeKey (''seed-vs-'' @ seed_base svc @ ''-'' @ show_i32 port)"

definition seed_pool_name :: "K8sService \<Rightarrow> int32 \<Rightarrow> string" where
  "seed_pool_name svc port = sanitizeKey (''seed-pool-'' @ seed_base svc @ ''-'' @ show_i32 port)"

definition seed_member :: "int32 \<Rightarrow> Node \<Rightarrow> BackendMember" where
  "seed_member nodePort node =
     \<lparr>bm_NodeName = nd_NodeName node, bm_ProviderID = nd_ProviderID node, bm_ComputeID = nd_ComputeID node, bm_IP = nd_IP node,
      bm_Port = nodePort, bm_Weight = 1\<rparr>"

definition zero_config :: LBConfig where
  "zero_config =
     \<lparr>RoutingAlgorithm = [], HealthInterval = 0, HealthType = [], HealthPath = [], HealthPort = 0, HealthTimeout = 0,
      ProtocolOverride = [], SourceRanges = [], PersistenceType = [], DrainingTimeout = 0, VPCID = [], NetworkID = [], FlavorID = 0\<rparr>"

definition zero_owner :: Owner where
  "zero_owner = \<lparr>ow_Kind = [], ow_Namespace = [], ow_Name = [], ow_UID = []\<rparr>"

definition seed_stack :: "seedReconciler \<Rightarrow> K8sService \<Rightarrow> int32 \<Rightarrow> int32 \<Rightarrow> Node list \<Rightarrow> string \<Rightarrow> LBConfig \<Rightarrow> LoadBalancerStack" where
  "seed_stack r svc frontendPort nodePort nodes protocol cfg =
     (let monitor = Some \<lparr>mon_Name = [], mon_Type = HealthType cfg, mon_Path = HealthPath cfg, mon_Interval = HealthInterval cfg,
            mon_Port = 0, mon_Timeout = 0\<rparr>;
          vs = \<lparr>vs_Name = seed_vs_name svc frontendPort, vs_FrontendPort = frontendPort, vs_BackendNodePort = nodePort,
            vs_Protocol = protocol, vs_RoutingAlgorithm = RoutingAlgorithm cfg, vs_PersistenceType = PersistenceType cfg,
            vs_DrainingTimeout = DrainingTimeout cfg, vs_SourceRanges = SourceRanges cfg, vs_Monitor = monitor,
            vs_DefaultPoolName = seed_pool_name svc frontendPort, vs_Ownership = zero_ownership\<rparr>;
          pool = \<lparr>pool_Name = seed_pool_name svc frontendPort, pool_Service = [], pool_PortName = [], pool_Port = 0,
            pool_Members = map (seed_member nodePort) nodes, pool_Monitor = monitor, pool_Ownership = zero_ownership\<rparr>
      in \<lparr>st_Owner = zero_owner, st_Ownership = zero_ownership, st_Config = zero_config,
          st_LBService = \<lparr>ml_Name = seed_lb_name svc,
            ml_Description = ''Seed LB for '' @ svc_Namespace svc @ ''/'' @ svc_Name svc, ml_FlavorID = sd_flavorID r,
            ml_NetworkID = sd_networkID r, ml_VPCID = sd_vpcID r, ml_VPCName = sd_vpcName r, ml_Region = [],
            ml_Ownership = zero_ownership\<rparr>,
          st_VIP = \<lparr>mv_Name = ''seed-vip'', mv_Address = [], mv_Ownership = zero_ownership\<rparr>,
          st_VirtualServers = [vs], st_Pools = [pool], st_RoutingRules = [], st_Certificates = [], st_Ports = []\<rparr>)"

subsection \<open>CMP\<close>

definition seed_ensure_request :: "seedReconciler \<Rightarrow> K8sService \<Rightarrow> LoadBalancerStack \<Rightarrow> StackEnsureRequest" where
  "seed_ensure_request r svc stack =
     \<lparr>sr_Stack = Some stack, sr_Current = seed_state r svc, sr_StrictLBServiceID = False, sr_StrictVIPPortID = False,
      sr_RecoverVirtualServersByName = True, sr_LBReadyHook = False, sr_NetworkIDExplicit = False, sr_AggregateVirtualServer = True\<rparr>"

definition seed_ids :: "LoadBalancerStack \<Rightarrow> ObservedState \<Rightarrow> CMPResourceIDs" where
  "seed_ids stack observed =
     (let vs = gm_index zero_observed (g_VirtualServers (Graph observed)) (vs_Name (hd (st_VirtualServers stack)))
      in \<lparr>ci_LBServiceID = LBServiceID observed, ci_VIPPortID = VIPPortID observed, ci_VirtualServerID = ExternalID vs,
          ci_VirtualServerName = or_Name vs\<rparr>)"

definition seed_ensureCMPResources :: "cmp \<Rightarrow> seedReconciler \<Rightarrow> K8sService \<Rightarrow> int32 \<Rightarrow> int32 \<Rightarrow> Node list \<Rightarrow> string \<Rightarrow> LBConfig \<Rightarrow>
    (CMPResourceIDs \<times> string \<times> ObservedGraph) ctl" where
  "seed_ensureCMPResources A r svc frontendPort nodePort nodes protocol cfg =
     (let stack = seed_stack r svc frontendPort nodePort nodes protocol cfg in
      io_bind (run_cmp (\<lambda>l. EnsureStack A (NewFromRaw (sd_vpcID r)) (seed_ensure_request r svc stack)))
        (\<lambda>(observed, changed). io_return (seed_ids stack observed, VIPAddress observed, Graph observed)))"

definition seed_cleanup_request :: "seedReconciler \<Rightarrow> K8sService \<Rightarrow> CleanupRequest" where
  "seed_cleanup_request r svc =
     \<lparr>cu_Current = EnsureGraph ((seed_state r svc)\<lparr>VIPAddress := []\<rparr>), cu_DeleteVIP = True, cu_DeleteLBService = True,
      cu_AggregateVirtualServers = True\<rparr>"

definition seed_cleanupCMPResources :: "cmp \<Rightarrow> seedReconciler \<Rightarrow> K8sService \<Rightarrow> unit ctl" where
  "seed_cleanupCMPResources A r svc =
     io_bind (run_cmp (\<lambda>l. CleanupStack A (NewFromRaw (sd_vpcID r)) (seed_cleanup_request r svc))) (\<lambda>_. io_return ())"

subsection \<open>\<open>Reconcile\<close>\<close>

definition seed_release :: "cmp \<Rightarrow> kapi \<Rightarrow> seedReconciler \<Rightarrow> K8sService \<Rightarrow> Result ctl" where
  "seed_release A K r svc =
     (if seed_finalizerName \<notin> set (svc_Finalizers svc) then io_return no_requeue
      else io_bind (kevent ''Normal'' ''DeletingLoadBalancer'')
        (\<lambda>_. io_try (seed_cleanupCMPResources A r svc)
          (\<lambda>res. case res of
             Inl e \<Rightarrow> io_bind (kevent ''Warning'' ''DeleteFailed'') (\<lambda>_. io_fail (Wrapf ''CMP cleanup failed; retrying: %w'' [] e))
           | Inr _ \<Rightarrow> io_bind (kevent ''Normal'' ''DeletedLoadBalancer'')
               (\<lambda>_. io_bind (finalizers_Remove (patch_service K) svc_Finalizers put_svc_finalizers svc seed_finalizerName)
                 (\<lambda>_. io_return no_requeue)))))"

definition seed_annotations :: "CMPResourceIDs \<Rightarrow> string \<Rightarrow> ObservedGraph \<Rightarrow> string gomap \<Rightarrow> string gomap" where
  "seed_annotations ids vip graph ann =
     (let ann = gm_set annVirtualServerID (ci_VirtualServerID ids) (gm_set annVIPPortID (ci_VIPPortID ids)
            (gm_set annLBServiceID (ci_LBServiceID ids) ann));
          ann = (if vip \<noteq> [] then gm_set annVIPAddress vip ann else ann)
      in writeObservedGraph graph ann)"

definition seed_succeeded :: "kapi \<Rightarrow> K8sService \<Rightarrow> CMPResourceIDs \<Rightarrow> string \<Rightarrow> ObservedGraph \<Rightarrow> Result ctl" where
  "seed_succeeded K svc ids vip graph =
     io_bind (patch_service K svc (svc\<lparr>svc_Annotations := seed_annotations ids vip graph (svc_Annotations svc)\<rparr>))
       (\<lambda>svc. let vip = (if vip = [] then ''pending'' else vip) in
          io_bind (kevent ''Normal'' ''EnsuredLoadBalancer'')
            (\<lambda>_. io_bind (if vip \<noteq> ''pending'' then EnsureServiceVIP K svc vip else io_return ())
              (\<lambda>_. io_return no_requeue)))"

definition seed_failed :: "err \<Rightarrow> Result ctl" where
  "seed_failed e =
     (case IsRateLimited e of
        Some d \<Rightarrow> io_bind (kevent ''Warning'' ''RateLimited'') (\<lambda>_. io_return (requeue_after d))
      | None \<Rightarrow> io_bind (kevent ''Warning'' ''SyncLoadBalancerFailed'') (\<lambda>_. io_fail e))"

text \<open>Finalizer and provider pass for the first port of the built stack.\<close>

definition seed_provision :: "cmp \<Rightarrow> kapi \<Rightarrow> seedReconciler \<Rightarrow> K8sService \<Rightarrow> Node list \<Rightarrow> LoadBalancerStack \<Rightarrow> Result ctl" where
  "seed_provision A K r svc nodes stack =
     (let port = hd (st_Ports stack) in
      io_bind (finalizers_Ensure (patch_service K) svc_Finalizers put_svc_finalizers svc seed_finalizerName)
        (\<lambda>(svc, _). io_try (seed_ensureCMPResources A r svc (svp_FrontendPort port) (svp_NodePort port) nodes (svp_Protocol port) (st_Config stack))
          (\<lambda>res. case res of
             Inl e \<Rightarrow> seed_failed e
           | Inr (ids, vip, graph) \<Rightarrow> seed_succeeded K svc ids vip graph)))"

definition seed_live :: "cmp \<Rightarrow> kapi \<Rightarrow> seedReconciler \<Rightarrow> K8sService \<Rightarrow> Result ctl" where
  "seed_live A K r svc =
     io_bind (read_cache K ListNodeBackends)
       (\<lambda>nodes. if nodes = [] then io_return no_requeue
          else case BuildLoadBalancerStack (Some svc) (ParseService (Some svc)) nodes of
              Inl e \<Rightarrow> io_return no_requeue
            | Inr stack \<Rightarrow> seed_provision A K r svc nodes stack)"

definition seed_class_matches :: "seedReconciler \<Rightarrow> K8sService \<Rightarrow> bool" where
  "seed_class_matches r svc =
     (trim_space (sd_loadBalancerClass r) = [] \<or>
      (case svc_LoadBalancerClass svc of None \<Rightarrow> False | Some c \<Rightarrow> trim_space c = sd_loadBalancerClass r))"

definition seed_read :: "cmp \<Rightarrow> kapi \<Rightarrow> seedReconciler \<Rightarrow> K8sService \<Rightarrow> Result ctl" where
  "seed_read A K r svc =
     (if svc_Deleting svc then seed_release A K r svc
      else if svc_Type svc \<noteq> ''LoadBalancer'' then io_return no_requeue
      else if \<not> seed_class_matches r svc then io_return no_requeue
      else seed_live A K r svc)"

definition seed_Reconcile :: "cmp \<Rightarrow> kapi \<Rightarrow> seedReconciler \<Rightarrow> string \<Rightarrow> string \<Rightarrow> Result ctl" where
  "seed_Reconcile A K r ns name =
     io_bind (kask (KGetService ns name) (k_GetService K ns name))
       (\<lambda>found. case found of
          Inl (KNotFound e) \<Rightarrow> io_return no_requeue
        | Inl (KError e) \<Rightarrow> io_fail (OtherErr e)
        | Inr svc \<Rightarrow> seed_read A K r svc)"

definition seed_listManagedServiceRequests :: "kapi \<Rightarrow> (string \<times> string) list ctl" where
  "seed_listManagedServiceRequests K =
     io_bind (list_services K None)
       (\<lambda>r. case r of
          Inl e \<Rightarrow> io_return []
        | Inr items \<Rightarrow> io_return (map (\<lambda>s. (svc_Namespace s, svc_Name s)) (filter (\<lambda>s. seed_finalizerName \<in> set (svc_Finalizers s)) items)))"

end
