(* ===== verification/SeedGuarantees.thy ===== *)
theory SeedGuarantees
  imports SeedController IngressGuarantees
begin

text \<open>
  What the controller of Services on a Seed guarantees: the finalizer stays until CMP showed the LB
  service gone, a pass asks for another one only when CMP limited the rate, and two Services whose
  namespace and name join to the same text share their load balancer.
\<close>

subsection \<open>Acts of the parts of \<open>Reconcile\<close>\<close>

lemma seed_ensure_emits: "emits cmp_act (seed_ensureCMPResources A r svc fp np nodes pr cfg)"
  unfolding seed_ensureCMPResources_def Let_def by (auto intro!: emits_run_cmp [OF EnsureStack_extends])

lemma seed_cleanup_emits: "emits cmp_act (seed_cleanupCMPResources A r svc)"
  unfolding seed_cleanupCMPResources_def by (auto intro!: emits_run_cmp [OF CleanupStack_extends])

fun keeps_seed_finalizer :: "act \<Rightarrow> bool" where
  "keeps_seed_finalizer (KPatchService base new) =
     (seed_finalizerName \<in> set (svc_Finalizers base) \<longrightarrow> seed_finalizerName \<in> set (svc_Finalizers new))"
| "keeps_seed_finalizer a = True"

lemma cmp_keeps_seed: "cmp_act a \<Longrightarrow> keeps_seed_finalizer a"
  by (cases a) auto

lemma seed_failed_emits: "emits is_event (seed_failed e)"
  unfolding seed_failed_def by (auto simp: is_event_def split: option.splits)

lemma seed_failed_keeps: "emits keeps_seed_finalizer (seed_failed e)"
  by (rule emits_mono [OF seed_failed_emits]) (auto simp: is_event_def)

lemma seed_succeeded_keeps: "emits keeps_seed_finalizer (seed_succeeded K svc ids vip graph)"
  unfolding seed_succeeded_def EnsureServiceVIP_def publish_vip_def patch_service_def status_service_def Let_def by auto

lemma seed_live_keeps: "emits keeps_seed_finalizer (seed_live A K r svc)"
  unfolding seed_live_def seed_provision_def finalizers_Ensure_def patch_service_def Let_def
  by (auto split: sum.splits prod.splits
      intro!: emits_mono [OF seed_ensure_emits cmp_keeps_seed] seed_failed_keeps seed_succeeded_keeps)

lemma seed_release_extends: "emits (\<lambda>_. True) (seed_release A K r svc)"
  unfolding seed_release_def finalizers_Remove_def patch_service_def
  by (auto split: sum.splits intro!: seed_cleanup_emits [THEN any_call])

lemma seed_read_extends: "emits (\<lambda>_. True) (seed_read A K r svc)"
  unfolding seed_read_def by (auto intro: seed_release_extends seed_live_keeps [THEN any_call])

lemma seed_Reconcile_calls:
  "calls_of (seed_Reconcile A K r ns name) l =
     KGetService ns name # (case k_GetService K ns name l of Inl e \<Rightarrow> []
       | Inr svc \<Rightarrow> calls_of (seed_read A K r svc) (l @ [KGetService ns name]))"
  unfolding seed_Reconcile_def
  by (subst calls_of_bind [where P = "\<lambda>_. True"]) (auto split: sum.splits kerr.splits intro!: seed_read_extends)

lemma seed_Reconcile_result:
  "result_of (seed_Reconcile A K r ns name) l =
     (case k_GetService K ns name l of Inl (KNotFound e) \<Rightarrow> Inr no_requeue | Inl (KError e) \<Rightarrow> Inl (OtherErr e)
       | Inr svc \<Rightarrow> result_of (seed_read A K r svc) (l @ [KGetService ns name]))"
  by (simp add: seed_Reconcile_def result_of_def run_bind kask_def run_invoke run_return run_fail split: sum.splits kerr.splits)

subsection \<open>The finalizer\<close>

lemma seed_release_run:
  assumes "KPatchService base new \<in> set (calls_of (seed_release A K r svc) l)"
  shows "base = svc \<and> seed_finalizerName \<in> set (svc_Finalizers svc) \<and>
    (\<exists>h res h'. CleanupStack A (NewFromRaw (sd_vpcID r)) (seed_cleanup_request r svc) h = (Inr res, h') \<and>
       prefix (cmp_history l) h \<and> prefix h' (cmp_history (l @ calls_of (seed_release A K r svc) l)))"
proof -
  let ?ev = "KEvent ''Normal'' ''DeletingLoadBalancer''"
  let ?clean = "seed_cleanupCMPResources A r svc"
  let ?tail = "\<lambda>res. case res of
      Inl e \<Rightarrow> io_bind (kevent ''Warning'' ''DeleteFailed'') (\<lambda>_. io_fail (Wrapf ''CMP cleanup failed; retrying: %w'' [] e))
    | Inr u \<Rightarrow> io_bind (kevent ''Normal'' ''DeletedLoadBalancer'')
        (\<lambda>_. io_bind (finalizers_Remove (patch_service K) svc_Finalizers put_svc_finalizers svc seed_finalizerName)
          (\<lambda>_. io_return no_requeue))"
  have fin: "seed_finalizerName \<in> set (svc_Finalizers svc)"
    using assms by (auto simp: seed_release_def split: if_splits)
  have removes: "emits (\<lambda>a. is_event a \<or> a = KPatchService svc (put_svc_finalizers (removeAll seed_finalizerName (svc_Finalizers svc)) svc)) (?tail res)" for res
    unfolding finalizers_Remove_def patch_service_def by (auto simp: is_event_def split: sum.splits)
  have failed: "emits is_event (?tail (Inl e))" for e by (auto simp: is_event_def)
  have acts: "calls_of (seed_release A K r svc) l =
      ?ev # calls_of ?clean (l @ [?ev]) @ calls_of (?tail (result_of ?clean (l @ [?ev]))) ((l @ [?ev]) @ calls_of ?clean (l @ [?ev]))"
    unfolding seed_release_def using fin
    by (simp, subst calls_of_bind [where P = "\<lambda>_. True"])
      (auto intro!: seed_cleanup_emits [THEN any_call] removes [THEN any_call] emits_try
        simp: calls_of_try [OF seed_cleanup_emits [THEN any_call] removes [THEN any_call]])
  have notin: "KPatchService base new \<notin> set (calls_of ?clean (l @ [?ev]))" using emits_at [OF seed_cleanup_emits] by fastforce
  with assms have patch: "KPatchService base new \<in> set (calls_of (?tail (result_of ?clean (l @ [?ev]))) ((l @ [?ev]) @ calls_of ?clean (l @ [?ev])))"
    by (simp add: acts)
  have "result_of ?clean (l @ [?ev]) \<noteq> Inl e" for e
  proof
    assume "result_of ?clean (l @ [?ev]) = Inl e"
    from emits_at [OF failed patch [unfolded this]] show False by (simp add: is_event_def)
  qed
  then obtain u where ok: "result_of ?clean (l @ [?ev]) = Inr u" by (cases "result_of ?clean (l @ [?ev])") auto
  obtain l2 where run: "?clean (l @ [?ev]) = (Inr u, l2)" and l2: "l2 = (l @ [?ev]) @ calls_of ?clean (l @ [?ev])"
    using result_run [OF seed_cleanup_emits ok] run_split [OF seed_cleanup_emits] by blast
  from run obtain x where "run_cmp (\<lambda>l. CleanupStack A (NewFromRaw (sd_vpcID r)) (seed_cleanup_request r svc)) (l @ [?ev]) = (Inr x, l2)"
    unfolding seed_cleanupCMPResources_def by (auto elim!: bind_InrE return_InrE)
  from run_cmp_run [OF this CleanupStack_extends] have
    "CleanupStack A (NewFromRaw (sd_vpcID r)) (seed_cleanup_request r svc) (cmp_history (l @ [?ev])) = (Inr x, cmp_history l2)" by blast
  moreover have "prefix (cmp_history l2) (cmp_history (l @ calls_of (seed_release A K r svc) l))"
    by (simp add: acts l2 prefix_def cmp_history_def List.map_filter_def)
  moreover have "base = svc" using patch emits_at [OF removes] by (fastforce simp: is_event_def)
  ultimately show ?thesis using fin by (auto simp: prefix_def)
qed

text \<open>
  C12.  The finalizer of a Service on a Seed is taken only in a run that read it as being deleted and in
  which CMP, told to delete the recorded LB service, answered the next read of it with \<open>404\<close>.
\<close>

theorem seed_finalizer_kept:
  assumes "KPatchService base new \<in> set (calls_of (seed_Reconcile A K r ns name) l)"
    and "seed_finalizerName \<in> set (svc_Finalizers base)" and "seed_finalizerName \<notin> set (svc_Finalizers new)"
    and "cleanupLBServiceID (EnsureGraph (cu_Current (seed_cleanup_request r base))) = Inr lb" and "lb \<noteq> []"
  shows "k_GetService K ns name l = Inr base \<and> svc_Deleting base \<and>
    seen_absent (r_GetLBService A lb) (DeleteLBService lb) (GetLBService lb)
      (cmp_history l) (cmp_history (l @ calls_of (seed_Reconcile A K r ns name) l))"
proof -
  let ?l = "l @ [KGetService ns name]"
  from assms(1) obtain svc where svc: "k_GetService K ns name l = Inr svc"
    and acts: "calls_of (seed_Reconcile A K r ns name) l = KGetService ns name # calls_of (seed_read A K r svc) ?l"
    by (cases "k_GetService K ns name l") (auto simp: seed_Reconcile_calls)
  with assms(1) have patch: "KPatchService base new \<in> set (calls_of (seed_read A K r svc) ?l)" by simp
  have del: "svc_Deleting svc"
    using patch emits_at [OF seed_live_keeps] assms(2,3) by (fastforce simp: seed_read_def split: if_splits)
  then have read: "seed_read A K r svc = seed_release A K r svc" by (simp add: seed_read_def)
  from seed_release_run [OF patch [unfolded read]] obtain h res h' where base: "base = svc"
    and run: "CleanupStack A (NewFromRaw (sd_vpcID r)) (seed_cleanup_request r svc) h = (Inr res, h')"
    and pre: "prefix (cmp_history ?l) h" "prefix h' (cmp_history (?l @ calls_of (seed_release A K r svc) ?l))" by blast
  have "seen_absent (r_GetLBService A lb) (DeleteLBService lb) (GetLBService lb) h h'"
    using CleanupStack_confirmed [OF run _ assms(5)] assms(4) base by (auto simp: seed_cleanup_request_def)
  moreover have "prefix h' (cmp_history (l @ calls_of (seed_Reconcile A K r ns name) l))" using pre(2) by (simp add: acts read)
  moreover have "prefix (cmp_history l) h" using pre(1) by (rule prefix_order.trans [rotated]) simp
  ultimately show ?thesis using svc base del by (blast intro: seen_absent_mono)
qed

subsection \<open>Which passes ask for another one\<close>

lemma seed_failed_run: "seed_failed e l = (Inr res, l') \<Longrightarrow> \<exists>l0. l' = l0 @ [KEvent ''Warning'' ''RateLimited'']"
  unfolding seed_failed_def kevent_def by (auto elim!: bind_InrE invokeE return_InrE fail_InrE split: option.splits)

lemma seed_succeeded_run: "seed_succeeded K svc ids vip graph l = (Inr res, l') \<Longrightarrow> res = no_requeue"
  unfolding seed_succeeded_def Let_def by (auto elim!: bind_InrE return_InrE)

lemma seed_read_final:
  assumes "seed_read A K r svc l = (Inr res, l')" and "res \<noteq> no_requeue"
  shows "\<exists>l0. l' = l0 @ [KEvent ''Warning'' ''RateLimited'']"
proof -
  have prov: "\<exists>l0. l' = l0 @ [KEvent ''Warning'' ''RateLimited'']"
    if "seed_provision A K r svc nodes stack h = (Inr res, l')" for nodes stack h
    using that assms(2) unfolding seed_provision_def Let_def
    by (auto elim!: bind_InrE tryE split: sum.splits dest: seed_failed_run seed_succeeded_run)
  have "\<exists>l0. l' = l0 @ [KEvent ''Warning'' ''RateLimited'']" if "seed_live A K r svc h = (Inr res, l')" for h
    using that assms(2) unfolding seed_live_def
    by (auto elim!: bind_InrE return_InrE split: if_splits sum.splits intro: prov)
  moreover have "seed_release A K r svc l \<noteq> (Inr res, l')"
    using assms(2) unfolding seed_release_def
    by (auto elim!: bind_InrE tryE return_InrE fail_InrE split: if_splits sum.splits)
  ultimately show ?thesis
    using assms unfolding seed_read_def by (auto elim!: return_InrE split: if_splits)
qed

text \<open>
  A pass over a Service on a Seed that ends without an error asks for another pass only when CMP
  limited the rate, and then the last thing it did is to say so.  So a Service without backends, one
  whose stack cannot be built, and one whose VIP CMP has not reported are left alone until they change.
\<close>

theorem seed_pass_final:
  assumes "result_of (seed_Reconcile A K r ns name) l = Inr res" and "res \<noteq> no_requeue"
  shows "last (calls_of (seed_Reconcile A K r ns name) l) = KEvent ''Warning'' ''RateLimited''"
proof -
  let ?l = "l @ [KGetService ns name]"
  from assms obtain svc where svc: "k_GetService K ns name l = Inr svc"
    and read: "result_of (seed_read A K r svc) ?l = Inr res"
    by (auto simp: seed_Reconcile_result split: sum.splits kerr.splits)
  obtain l' where run: "seed_read A K r svc ?l = (Inr res, l')" and l': "l' = ?l @ calls_of (seed_read A K r svc) ?l"
    using result_run [OF seed_read_extends read] run_split [OF seed_read_extends] by blast
  from seed_read_final [OF run assms(2)] obtain l0 where "l' = l0 @ [KEvent ''Warning'' ''RateLimited'']" by blast
  then have "last ([KGetService ns name] @ calls_of (seed_read A K r svc) ?l) = KEvent ''Warning'' ''RateLimited''"
    using l' by (metis (no_types, lifting) append_assoc last_appendR last_snoc append_is_Nil_conv not_Cons_self2)
  then show ?thesis using svc by (simp add: seed_Reconcile_calls)
qed

subsection \<open>Names\<close>

text \<open>
  Two Services on a Seed whose namespace and name join to the same text (\<open>a-b/c\<close> and \<open>a/b-c\<close>) have
  the same names at CMP; the first pass of one of them, finding the LB service of the other by that
  name, creates none and works on the other's.
\<close>

theorem seed_names_collide:
  assumes "seed_base s = seed_base t"
    and "lb_findByName A (ml_Name (st_LBService (seed_stack r t fp np nodes pr cfg))) h = (Inr i, h1)" and "i \<noteq> []"
  shows "map vs_Name (st_VirtualServers (seed_stack r s fp np nodes pr cfg)) = map vs_Name (st_VirtualServers (seed_stack r t fp np nodes pr cfg)) \<and>
    (let pass = LBServiceManager_Ensure A v (lb_request (seed_stack r s fp np nodes pr cfg) net observed) [] False
     in mutations (calls_of pass h) = [] \<and> (\<forall>j changed. result_of pass h = Inr (j, changed) \<longrightarrow> j = i))"
proof -
  define req where "req = lb_request (seed_stack r s fp np nodes pr cfg) net observed"
  have name: "er_LBName req = ml_Name (st_LBService (seed_stack r t fp np nodes pr cfg))"
    using assms(1) by (simp add: req_def lb_request_def seed_stack_def seed_lb_name_def Let_def)
  let ?look = "io_wrap ''looking up deterministic LBService %q before create: %w'' [er_LBName req] (lb_findByName A (er_LBName req))"
  have look: "emits (\<lambda>c. \<not> is_mutation c) ?look" by (intro emits_wrap lb_findByName_reads)
  have found: "?look h = (Inr i, h1)" using assms(2) unfolding name by (simp add: io_wrap_def run_try run_return)
  have h1: "h1 = h @ calls_of ?look h" using run_split [OF look found] by blast
  have pass: "LBServiceManager_Ensure A v req [] False h = ensureCreatedReady A i req h1"
    using assms(3) found by (simp add: LBServiceManager_Ensure_def lb_find_or_create_def run_bind)
  have "mutations (calls_of (LBServiceManager_Ensure A v req [] False) h) = []"
    using emits_at [OF look, of _ h] emits_at [OF ensureCreatedReady_reads, of _ A i req h1]
      run_split [OF ensureCreatedReady_reads, of A i req h1] h1
    by (cases "ensureCreatedReady A i req h1") (auto simp: calls_of_def [of "LBServiceManager_Ensure A v req [] False"] pass mutations_def filter_empty_conv)
  moreover have "j = i" if "result_of (LBServiceManager_Ensure A v req [] False) h = Inr (j, changed)" for j changed
    using that ensureCreatedReady_success [of A i req h1] by (auto simp: result_of_def pass prod_eq_iff)
  moreover have "map vs_Name (st_VirtualServers (seed_stack r s fp np nodes pr cfg)) = map vs_Name (st_VirtualServers (seed_stack r t fp np nodes pr cfg))"
    using assms(1) by (simp add: seed_stack_def seed_vs_name_def Let_def)
  ultimately show ?thesis unfolding req_def [symmetric] Let_def by blast
qed

subsection \<open>Examples\<close>

definition demo_seed :: seedReconciler where
  "demo_seed = \<lparr>sd_loadBalancerClass = defaultLBClass, sd_flavorID = 1, sd_networkID = ''net-1'', sd_vpcID = ''vpc-1'',
     sd_vpcName = ''vpc'', sd_partial = (\<lambda>doc. NewObservedGraph)\<rparr>"

definition leaving_seed_service :: K8sService where
  "leaving_seed_service = (sample_service [(annLBServiceID, ''lb-1''), (annVirtualServerID, ''vs-1'')])
     \<lparr>svc_Deleting := True, svc_Finalizers := [seed_finalizerName]\<rparr>"

lemma leaving_seed_facts:
  "KPatchService leaving_seed_service (put_svc_finalizers [] leaving_seed_service)
     \<in> set (calls_of (seed_Reconcile empty_cmp (demo_kapi leaving_seed_service) demo_seed ''ns'' ''web'') [])"
  "seed_finalizerName \<in> set (svc_Finalizers leaving_seed_service)"
  "seed_finalizerName \<notin> set (svc_Finalizers (put_svc_finalizers [] leaving_seed_service))"
  "cleanupLBServiceID (EnsureGraph (cu_Current (seed_cleanup_request demo_seed leaving_seed_service))) = Inr ''lb-1''"
  by code_simp+

theorem seed_finalizer_kept_witness:
  "svc_Deleting leaving_seed_service \<and>
   seen_absent (r_GetLBService empty_cmp ''lb-1'') (DeleteLBService ''lb-1'') (GetLBService ''lb-1'') (cmp_history [])
     (cmp_history ([] @ calls_of (seed_Reconcile empty_cmp (demo_kapi leaving_seed_service) demo_seed ''ns'' ''web'') []))"
  using seed_finalizer_kept [OF leaving_seed_facts] by simp

text \<open>A Service with a backend, at a CMP that answers every request with the demand to wait.\<close>

definition busy_cmp :: cmp where
  "busy_cmp = empty_cmp\<lparr>r_ListLBServices := (\<lambda>o1 h. Inl (RateLimitedErr 5 []))\<rparr>"

definition seed_web :: K8sService where
  "seed_web = (sample_service [])\<lparr>svc_Ports := [demo_port ''http''], svc_Finalizers := [seed_finalizerName]\<rparr>"

definition seed_kapi :: kapi where
  "seed_kapi = (demo_kapi seed_web)\<lparr>k_cache := (\<lambda>l. demo_kube)\<rparr>"

definition seed_nodes :: "Node list" where
  "seed_nodes = [to_node (demo_node ''n1'') 1, to_node (demo_node ''n2'') 1]"

lemma busy_pass:
  "result_of (seed_ensureCMPResources busy_cmp demo_seed seed_web 80 30080 seed_nodes (svc_protocol DefaultLBConfig (demo_port ''http''))
     DefaultLBConfig) [KGetService ''ns'' ''web''] =
     Inl (Wrapf ''looking up deterministic LBService %q before create: %w'' [''seed-shop-web''] (RateLimitedErr 5 []))"
  by code_simp

lemma busy_facts:
  "ParseService (Some seed_web) = DefaultLBConfig" "ListNodeBackends demo_kube = Inr seed_nodes"
  "svc_Ports seed_web = [demo_port ''http'']" "seed_finalizerName \<in> set (svc_Finalizers seed_web)"
  "\<not> svc_Deleting seed_web" "svc_Type seed_web = ''LoadBalancer''" "seed_class_matches demo_seed seed_web"
  by code_simp+

lemma busy_run: "result_of (seed_Reconcile busy_cmp seed_kapi demo_seed ''ns'' ''web'') [] = Inr (requeue_after 5)"
proof -
  let ?st = "(svc_stack_init seed_web DefaultLBConfig)\<lparr>st_VirtualServers := [svc_virtual_server seed_web DefaultLBConfig (demo_port ''http'')],
     st_Pools := [svc_pool seed_web DefaultLBConfig (demo_port ''http'') seed_nodes],
     st_Ports := [svc_port_entry DefaultLBConfig (demo_port ''http'') seed_nodes]\<rparr>"
  have stack: "BuildLoadBalancerStack (Some seed_web) DefaultLBConfig seed_nodes = Inr ?st"
    by (simp add: BuildLoadBalancerStack_def BuildLoadBalancerStackWithPortBackends_def busy_facts svc_stack_init_def Let_def demo_port_def)
  have api: "k_GetService seed_kapi ns name h = Inr seed_web" "k_cache seed_kapi h = demo_kube" for ns name h
    by (simp_all add: seed_kapi_def demo_kapi_def)
  have parts: "svp_FrontendPort (svc_port_entry c (demo_port n) b) = 80" "svp_NodePort (svc_port_entry c (demo_port n) b) = 30080"
      "svp_Protocol (svc_port_entry c (demo_port n) b) = svc_protocol c (demo_port n)" for c n b
    by (simp_all add: svc_port_entry_def demo_port_def)
  obtain h where pass: "seed_ensureCMPResources busy_cmp demo_seed seed_web 80 30080 seed_nodes (svc_protocol DefaultLBConfig (demo_port ''http''))
      DefaultLBConfig [KGetService ''ns'' ''web''] =
      (Inl (Wrapf ''looking up deterministic LBService %q before create: %w'' [''seed-shop-web''] (RateLimitedErr 5 [])), h)"
    using busy_pass by (metis fst_conv prod.exhaust_sel result_of_def)
  have "result_of (seed_provision busy_cmp seed_kapi demo_seed seed_web seed_nodes ?st) [KGetService ''ns'' ''web''] = Inr (requeue_after 5)"
    by (simp add: seed_provision_def finalizers_Ensure_def busy_facts result_of_def run_bind run_return run_try parts pass
        svc_stack_init_def Let_def seed_failed_def kevent_def run_invoke)
  moreover have "seed_nodes \<noteq> []" by (simp add: seed_nodes_def)
  ultimately show ?thesis
    by (simp add: seed_Reconcile_result api seed_read_def busy_facts seed_live_def read_cache_def stack)
       (simp add: result_of_def run_bind busy_facts api stack)
qed

theorem seed_pass_final_witness:
  "last (calls_of (seed_Reconcile busy_cmp seed_kapi demo_seed ''ns'' ''web'') []) = KEvent ''Warning'' ''RateLimited''"
  by (rule seed_pass_final [OF busy_run]) code_simp

text \<open>The Services \<open>a-b/c\<close> and \<open>a/b-c\<close>.\<close>

definition service_named :: "string \<Rightarrow> string \<Rightarrow> K8sService" where
  "service_named ns name = (sample_service [])\<lparr>svc_Namespace := ns, svc_Name := name\<rparr>"

definition lb_of_other :: LBService where
  "lb_of_other = demo_lb\<lparr>lb_ID := ''lb-7'', lb_Name := seed_lb_name (service_named ''a'' ''b-c'')\<rparr>"

definition cmp_of_other :: cmp where
  "cmp_of_other = empty_cmp\<lparr>r_ListLBServices := (\<lambda>o1 h. Inr [lb_of_other])\<rparr>"

lemma other_found:
  "seed_base (service_named ''a-b'' ''c'') = seed_base (service_named ''a'' ''b-c'')"
  "\<exists>h1. lb_findByName cmp_of_other (ml_Name (st_LBService (seed_stack demo_seed (service_named ''a'' ''b-c'') 80 30080 [] ''TCP'' zero_config))) [] = (Inr ''lb-7'', h1)"
  by code_simp (intro exI, code_simp)

theorem seed_names_collide_witness:
  "mutations (calls_of (LBServiceManager_Ensure cmp_of_other [] (lb_request (seed_stack demo_seed (service_named ''a-b'' ''c'') 80 30080 [] ''TCP'' zero_config)
     [] zero_state) [] False) []) = []"
proof -
  obtain h1 where "lb_findByName cmp_of_other (ml_Name (st_LBService (seed_stack demo_seed (service_named ''a'' ''b-c'') 80 30080 [] ''TCP'' zero_config))) [] = (Inr ''lb-7'', h1)"
    using other_found(2) by blast
  from seed_names_collide [OF other_found(1) this] show ?thesis by (simp add: Let_def)
qed

end
