(* ===== verification/ErrorText.thy ===== *)
theory ErrorText
  imports Errors
begin

text \<open>
  The texts of errors (\<open>Error()\<close>) and the parts of \<open>fmt\<close> and \<open>time\<close> they use.  The arguments of a
  format are rendered already, so \<open>%s\<close>, \<open>%d\<close>, \<open>%v\<close> and \<open>%w\<close> insert them and \<open>%q\<close> quotes them.
\<close>

subsection \<open>\<open>strconv.Quote\<close> and \<open>fmt.Sprintf\<close>\<close>

text \<open>Bytes above 127 stay as they are, as in a text of printable characters.\<close>

definition quote_char :: "char \<Rightarrow> string" where
  "quote_char c =
     (let n = (of_char c :: nat); bs = CHR 0x5C in
      if c = CHR 0x22 \<or> c = bs then [bs, c]
      else if n = 7 then [bs, CHR ''a''] else if n = 8 then [bs, CHR ''b''] else if n = 12 then [bs, CHR ''f'']
      else if n = 10 then [bs, CHR ''n''] else if n = 13 then [bs, CHR ''r''] else if n = 9 then [bs, CHR ''t'']
      else if n = 11 then [bs, CHR ''v'']
      else if n < 32 \<or> n = 127
      then (let hex = (\<lambda>k. if k < 10 then char_of (48 + k) else char_of (87 + k)) in [bs, CHR ''x'', hex (n div 16), hex (n mod 16)])
      else [c])"

definition go_quote :: "string \<Rightarrow> string" where
  "go_quote s = [CHR 0x22] @ concat (map quote_char s) @ [CHR 0x22]"

fun format_text :: "string \<Rightarrow> string list \<Rightarrow> string" where
  "format_text [] args = []"
| "format_text [c] args = (if c = CHR ''%'' then ''%!(NOVERB)'' else [c])"
| "format_text (c # v # cs) args =
     (if c \<noteq> CHR ''%'' then c # format_text (v # cs) args
      else if v = CHR ''%'' then CHR ''%'' # format_text cs args
      else case args of
          [] \<Rightarrow> ''%!'' @ [v] @ ''(MISSING)'' @ format_text cs []
        | a # rest \<Rightarrow> (if v = CHR ''q'' then go_quote a else a) @ format_text cs rest)"

subsection \<open>\<open>time.Duration.String\<close>\<close>

text \<open>A fraction of \<open>k\<close> digits without its trailing zeros.\<close>

definition fraction_text :: "nat \<Rightarrow> int \<Rightarrow> string" where
  "fraction_text k v =
     (let ds = show_nat (nat v); padded = replicate (k - length ds) (CHR ''0'') @ ds;
          kept = rev (dropWhile (\<lambda>c. c = CHR ''0'') (rev padded))
      in if kept = [] then [] else CHR ''.'' # kept)"

definition duration_text :: "int \<Rightarrow> string" where
  "duration_text d =
     (let u = \<bar>d\<bar>; sign = (if d < 0 then ''-'' else []); secs = u div 10 ^ 9; mins = secs div 60; hours = mins div 60;
          unit = (\<lambda>k name. show_int (u div 10 ^ k) @ fraction_text k (u mod 10 ^ k) @ name) in
      if u = 0 then ''0s''
      else sign @
        (if u < 10 ^ 3 then show_int u @ ''ns''
         else if u < 10 ^ 6 then unit 3 [CHR 0xC2, CHR 0xB5, CHR ''s'']
         else if u < 10 ^ 9 then unit 6 ''ms''
         else (if 0 < hours then show_int hours @ ''h'' else []) @
              (if 0 < mins then show_int (mins mod 60) @ ''m'' else []) @
              show_int (secs mod 60) @ fraction_text 9 (u mod 10 ^ 9) @ ''s''))"

subsection \<open>\<open>Error()\<close>\<close>

definition http_error_text :: "HTTPStatusError \<Rightarrow> string" where
  "http_error_text h =
     format_text ''%s %s: unexpected status %d (%s) reqID=%q wwwAuth=%q body=%s''
       [he_Method h, he_URL h, show_int (he_StatusCode h), he_Status h, he_RequestID h, he_WWWAuthenticate h, he_BodySnippet h]"

fun error_text :: "err \<Rightarrow> string" where
  "error_text (Errorf f args) = format_text f args"
| "error_text (Wrapf f args e) = format_text f (args @ [error_text e])"
| "error_text (HTTPErr h) = http_error_text h"
| "error_text (RateLimitedErr d message) = format_text ''CMP rate limit exceeded; retry after %s: %s'' [duration_text d, message]"
| "error_text (ProvisioningPending ty rid st dt) = provisioning_text (ProvisioningPending ty rid st dt)"
| "error_text (TerminalProvisioning ty rid st dt) = provisioning_text (TerminalProvisioning ty rid st dt)"
| "error_text (Permanent e) = error_text e"
| "error_text (OtherErr s) = s"

end
