(* ===== verification/Lifecycle.thy ===== *)
theory Lifecycle
  imports ErrorText Kube JsonText ControlPlane
begin

text \<open>
  The objects of the extension controller (\<open>pkg/apis/f5/v1alpha1\<close>, the Extension and what it deploys
  into a Shoot) and the functions of \<open>pkg/controller/lifecycle\<close> that only compute: the watch predicate,
  the desired specification, ownership, frontend port, credentials, arguments and the provider status.
\<close>

subsection \<open>Objects\<close>

record CISConfig =
  cis_Image :: string
  cis_BridgeImage :: string
  cis_BigIPURL :: string
  cis_Partition :: string
  cis_ExtraArgs :: "string list"

record F5Spec =
  fs_CcpApiEndpoint :: string
  fs_TenantOrPartition :: string
  fs_CredentialsReferenceName :: string
  fs_ControlPlaneVIP :: string
  fs_ControlPlaneReady :: "bool option"
  fs_EnablePerShootControlPlaneVIP :: bool
  fs_EnableApplicationLB :: bool
  fs_CIS :: "CISConfig option"
  fs_FlavorID :: int32
  fs_NetworkID :: string
  fs_VPCID :: string
  fs_VPCName :: string
  fs_Region :: string
  fs_RoutingAlgorithm :: string
  fs_MonitorInterval :: int32

record Condition =
  cn_Type :: string
  cn_Status :: string
  cn_Reason :: string
  cn_Message :: string
  cn_LastTransitionTime :: int

record F5Status =
  fo_VIP :: string
  fo_VirtualServerName :: string
  fo_LBServiceID :: string
  fo_VIPPortID :: string
  fo_VirtualServerID :: string
  fo_Conditions :: "Condition list"

record OwnerReference =
  ref_APIVersion :: string
  ref_Kind :: string
  ref_Name :: string
  ref_UID :: string
  ref_Controller :: "bool option"

record F5Config =
  fc_Namespace :: string
  fc_Name :: string
  fc_OwnerReferences :: "OwnerReference list"
  fc_Spec :: F5Spec
  fc_Status :: F5Status

datatype OperationType = OpReconcile | OpMigrate | OpOtherType string

datatype OperationState = OpSucceeded | OpFailed | OpError | OpProcessing | OpPending | OpOtherState string

record LastOperation =
  op_Type :: OperationType
  op_State :: OperationState
  op_Progress :: int
  op_Description :: string
  op_LastUpdateTime :: int

record Extension =
  ex_Namespace :: string
  ex_Name :: string
  ex_UID :: string
  ex_APIVersion :: string
  ex_Kind :: string
  ex_Type :: string
  ex_Generation :: int
  ex_Annotations :: "string gomap"
  ex_Finalizers :: "string list"
  ex_DeletionTimestamp :: "int option"
  ex_ProviderConfig :: "string option"
  ex_ProviderStatus :: "string option"
  ex_ObservedGeneration :: int
  ex_LastError :: "string option"
  ex_LastOperation :: "LastOperation option"

record CredentialsSecret =
  cs_Namespace :: string
  cs_Name :: string
  cs_Data :: "string gomap"
  cs_StringData :: "string gomap"

subsection \<open>\<open>extension_controller.go\<close>\<close>

definition ext_finalizerName :: string where "ext_finalizerName = ''extensions.gardener.cloud/f5''"
definition gardenerOperationAnnotationKey :: string where "gardenerOperationAnnotationKey = ''gardener.cloud/operation''"
definition gardenerTimestampAnnotationKey :: string where "gardenerTimestampAnnotationKey = ''gardener.cloud/timestamp''"

text \<open>The annotations afterwards, and whether the operation was there.\<close>

definition clearGardenerOperationAnnotation :: "string gomap \<Rightarrow> string gomap \<times> bool" where
  "clearGardenerOperationAnnotation ann =
     (if \<not> gm_has ann gardenerOperationAnnotationKey then (ann, False)
      else (gm_del gardenerOperationAnnotationKey ann, True))"

definition isSupportedExtensionType :: "string \<Rightarrow> bool" where
  "isSupportedExtensionType t \<longleftrightarrow> t = ''f5'' \<or> t = ''f5-loadbalancer''"

definition annotationValue :: "Extension option \<Rightarrow> string \<Rightarrow> string" where
  "annotationValue ex key = (case ex of None \<Rightarrow> [] | Some x \<Rightarrow> gm_index [] (ex_Annotations x) key)"

definition operationAnnotation :: "Extension option \<Rightarrow> string" where
  "operationAnnotation ex = annotationValue ex gardenerOperationAnnotationKey"

text \<open>An event of the watch; \<open>None\<close> is an object of another type.\<close>

datatype watch_event = CreateEvent | DeleteEvent | GenericEvent | UpdateEvent "Extension option" "Extension option"

fun extensionReconcilePredicate :: "watch_event \<Rightarrow> bool" where
  "extensionReconcilePredicate (UpdateEvent (Some oldEx) (Some newEx)) =
     (ex_Generation oldEx \<noteq> ex_Generation newEx \<or>
      ex_Finalizers oldEx \<noteq> ex_Finalizers newEx \<or>
      ex_DeletionTimestamp oldEx \<noteq> ex_DeletionTimestamp newEx \<or>
      (operationAnnotation (Some oldEx) \<noteq> operationAnnotation (Some newEx) \<and> operationAnnotation (Some newEx) \<noteq> []) \<or>
      annotationValue (Some oldEx) gardenerTimestampAnnotationKey \<noteq> annotationValue (Some newEx) gardenerTimestampAnnotationKey)"
| "extensionReconcilePredicate (UpdateEvent _ _) = False"
| "extensionReconcilePredicate _ = True"

subsection \<open>The desired specification\<close>

definition zero_f5spec :: F5Spec where
  "zero_f5spec = \<lparr>fs_CcpApiEndpoint = [], fs_TenantOrPartition = [], fs_CredentialsReferenceName = [], fs_ControlPlaneVIP = [],
     fs_ControlPlaneReady = None, fs_EnablePerShootControlPlaneVIP = False, fs_EnableApplicationLB = False, fs_CIS = None,
     fs_FlavorID = 0, fs_NetworkID = [], fs_VPCID = [], fs_VPCName = [], fs_Region = [], fs_RoutingAlgorithm = [],
     fs_MonitorInterval = 0\<rparr>"

definition zero_cis :: CISConfig where
  "zero_cis = \<lparr>cis_Image = [], cis_BridgeImage = [], cis_BigIPURL = [], cis_Partition = [], cis_ExtraArgs = []\<rparr>"

fun d_bool_pointer :: "bool option \<Rightarrow> json \<Rightarrow> bool option option" where
  "d_bool_pointer old JNull = Some None"
| "d_bool_pointer old (JBool b) = Some (Some b)"
| "d_bool_pointer old v = None"

definition d_cis_fields :: "CISConfig \<Rightarrow> (string \<times> json) list \<Rightarrow> CISConfig option" where
  "d_cis_fields old es =
     Option.bind (read_field d_string (cis_Image old) ''image'' es) (\<lambda>im.
     Option.bind (read_field d_string (cis_BridgeImage old) ''bridgeImage'' es) (\<lambda>br.
     Option.bind (read_field d_string (cis_BigIPURL old) ''bigipUrl'' es) (\<lambda>ur.
     Option.bind (read_field d_string (cis_Partition old) ''partition'' es) (\<lambda>pa.
     Option.bind (read_field d_strings (cis_ExtraArgs old) ''extraArgs'' es) (\<lambda>ea.
       Some \<lparr>cis_Image = im, cis_BridgeImage = br, cis_BigIPURL = ur, cis_Partition = pa, cis_ExtraArgs = ea\<rparr>)))))"

fun d_cis :: "CISConfig option \<Rightarrow> json \<Rightarrow> CISConfig option option" where
  "d_cis old JNull = Some None"
| "d_cis old (JObj es) = map_option Some (d_cis_fields (case old of None \<Rightarrow> zero_cis | Some c \<Rightarrow> c) es)"
| "d_cis old v = None"

definition d_f5spec :: "F5Spec \<Rightarrow> json \<Rightarrow> F5Spec option" where
  "d_f5spec old v = Option.bind (json_struct (Some v)) (\<lambda>es.
     Option.bind (read_field d_string (fs_CcpApiEndpoint old) ''ccpApiEndpoint'' es) (\<lambda>ccp.
     Option.bind (read_field d_string (fs_TenantOrPartition old) ''tenantOrPartition'' es) (\<lambda>ten.
     Option.bind (read_field d_string (fs_CredentialsReferenceName old) ''credentialsReferenceName'' es) (\<lambda>cred.
     Option.bind (read_field d_string (fs_ControlPlaneVIP old) ''controlPlaneVIP'' es) (\<lambda>vip.
     Option.bind (read_field d_bool_pointer (fs_ControlPlaneReady old) ''controlPlaneReady'' es) (\<lambda>ready.
     Option.bind (read_field d_bool (fs_EnablePerShootControlPlaneVIP old) ''enablePerShootControlPlaneVIP'' es) (\<lambda>per.
     Option.bind (read_field d_bool (fs_EnableApplicationLB old) ''enableApplicationLB'' es) (\<lambda>app.
     Option.bind (read_field d_cis (fs_CIS old) ''cis'' es) (\<lambda>cis.
     Option.bind (read_field d_int32 (fs_FlavorID old) ''flavorId'' es) (\<lambda>fl.
     Option.bind (read_field d_string (fs_NetworkID old) ''networkId'' es) (\<lambda>net.
     Option.bind (read_field d_string (fs_VPCID old) ''vpcId'' es) (\<lambda>vpc.
     Option.bind (read_field d_string (fs_VPCName old) ''vpcName'' es) (\<lambda>vpcn.
     Option.bind (read_field d_string (fs_Region old) ''region'' es) (\<lambda>reg.
     Option.bind (read_field d_string (fs_RoutingAlgorithm old) ''routingAlgorithm'' es) (\<lambda>alg.
     Option.bind (read_field d_int32 (fs_MonitorInterval old) ''monitorInterval'' es) (\<lambda>mon.
       Some \<lparr>fs_CcpApiEndpoint = ccp, fs_TenantOrPartition = ten, fs_CredentialsReferenceName = cred, fs_ControlPlaneVIP = vip,
         fs_ControlPlaneReady = ready, fs_EnablePerShootControlPlaneVIP = per, fs_EnableApplicationLB = app, fs_CIS = cis,
         fs_FlavorID = fl, fs_NetworkID = net, fs_VPCID = vpc, fs_VPCName = vpcn, fs_Region = reg, fs_RoutingAlgorithm = alg,
         fs_MonitorInterval = mon\<rparr>))))))))))))))))"

definition hasProviderConfig :: "Extension \<Rightarrow> bool" where
  "hasProviderConfig ex \<longleftrightarrow> (case ex_ProviderConfig ex of None \<Rightarrow> False | Some raw \<Rightarrow> raw \<noteq> [])"

definition desiredSpecFromProviderConfig :: "Extension \<Rightarrow> err + F5Spec" where
  "desiredSpecFromProviderConfig ex =
     (if \<not> hasProviderConfig ex then Inr zero_f5spec
      else case json_parse (the (ex_ProviderConfig ex)) of
          None \<Rightarrow> Inl (Permanent (Wrapf ''decoding Extension.spec.providerConfig failed: %w'' [] (OtherErr ''json'')))
        | Some doc \<Rightarrow>
            (case json_map doc of
               None \<Rightarrow> Inl (Permanent (Wrapf ''decoding Extension.spec.providerConfig failed: %w'' [] (OtherErr ''json'')))
             | Some obj \<Rightarrow>
                 if gm_has obj ''spec''
                 then (case Option.bind (json_struct (Some doc)) (read_field d_f5spec zero_f5spec ''spec'') of
                         None \<Rightarrow> Inl (Permanent (Wrapf ''decoding Extension.spec.providerConfig as wrapper with spec failed: %w'' [] (OtherErr ''json'')))
                       | Some spec \<Rightarrow> Inr spec)
                 else (case d_f5spec zero_f5spec doc of
                         None \<Rightarrow> Inl (Permanent (Wrapf ''decoding Extension.spec.providerConfig as F5LoadBalancerConfigSpec failed: %w'' [] (OtherErr ''json'')))
                       | Some spec \<Rightarrow> Inr spec)))"

subsection \<open>Ownership\<close>

definition is_controller :: "OwnerReference \<Rightarrow> bool" where
  "is_controller ref \<longleftrightarrow> ref_Controller ref = Some True"

definition isControlledByExtension :: "F5Config \<Rightarrow> Extension \<Rightarrow> bool" where
  "isControlledByExtension cfg ex \<longleftrightarrow>
     list_ex (\<lambda>ref. is_controller ref \<and> (ref_UID ref = ex_UID ex \<or> ref_Kind ref = ex_Kind ex \<and> ref_Name ref = ex_Name ex))
       (fc_OwnerReferences cfg)"

definition extension_ref :: "Extension \<Rightarrow> OwnerReference" where
  "extension_ref ex =
     \<lparr>ref_APIVersion = ex_APIVersion ex, ref_Kind = ex_Kind ex, ref_Name = ex_Name ex, ref_UID = ex_UID ex, ref_Controller = Some True\<rparr>"

fun put_ref :: "OwnerReference \<Rightarrow> OwnerReference list \<Rightarrow> OwnerReference list" where
  "put_ref ref [] = [ref]"
| "put_ref ref (r # rs) =
     (if ref_Kind r = ref_Kind ref \<and> ref_Name r = ref_Name ref \<and> is_controller r then ref # rs else r # put_ref ref rs)"

definition ensureExtensionOwnerReference :: "Extension \<Rightarrow> F5Config \<Rightarrow> F5Config" where
  "ensureExtensionOwnerReference ex cfg = cfg\<lparr>fc_OwnerReferences := put_ref (extension_ref ex) (fc_OwnerReferences cfg)\<rparr>"

subsection \<open>Ports and credentials\<close>

definition chooseFrontendPort :: "Backend list \<Rightarrow> int32" where
  "chooseFrontendPort backends =
     (case find (\<lambda>b. be_Port b = 443 \<or> be_Port b = 6443) backends of
        Some b \<Rightarrow> be_Port b
      | None \<Rightarrow> (case backends of b # _ \<Rightarrow> be_Port b | [] \<Rightarrow> 443))"

text \<open>A subset of Endpoints: addresses and ports.\<close>

type_synonym endpoint_subset = "string list \<times> int32 list"

definition endpoint_backends :: "endpoint_subset list \<Rightarrow> Backend list" where
  "endpoint_backends subsets =
     concat (map (\<lambda>(addrs, ports). concat (map (\<lambda>a. map (\<lambda>p. \<lparr>be_IP = a, be_Port = p\<rparr>) ports) addrs)) subsets)"

fun find_secret_key :: "CredentialsSecret \<Rightarrow> string list \<Rightarrow> string option" where
  "find_secret_key secret [] = None"
| "find_secret_key secret (k # ks) =
     (if gm_index [] (cs_Data secret) k \<noteq> [] then Some (gm_index [] (cs_Data secret) k)
      else if gm_index [] (cs_StringData secret) k \<noteq> [] then Some (gm_index [] (cs_StringData secret) k)
      else find_secret_key secret ks)"

definition readSecretKey :: "CredentialsSecret \<Rightarrow> string list \<Rightarrow> err + string" where
  "readSecretKey secret keys =
     (case find_secret_key secret keys of
        Some v \<Rightarrow> Inr v
      | None \<Rightarrow> Inl (Errorf ''secret %s/%s is missing required key(s): %v''
          [cs_Namespace secret, cs_Name secret, ''['' @ join '' '' keys @ '']'']))"

definition key_api_id :: "string list" where "key_api_id = [''api-key-id'', ''api_key_id'', ''apiKeyId'', ''CMP_API_KEY_ID'']"
definition key_api_secret :: "string list" where "key_api_secret = [''api-secret'', ''api_secret'', ''apiSecret'', ''CMP_API_SECRET'']"
definition key_ce_auth :: "string list" where "key_ce_auth = [''Ce-Auth'', ''ce-auth'', ''ceAuth'', ''ce_auth'']"
definition key_project :: "string list" where "key_project = [''project-id'', ''projectId'', ''project_id'']"
definition key_organisation :: "string list" where
  "key_organisation = [''organisation-name'', ''organisationName'', ''organisation_name'']"

definition defaultCeAuthTokenValidity :: int where "defaultCeAuthTokenValidity = 299 * 10 ^ 9"

definition refreshCeAuthIfNeeded :: "int \<Rightarrow> CredentialsSecret \<Rightarrow> err + string \<Rightarrow> err + string" where
  "refreshCeAuthIfNeeded now secret existing =
     (case (readSecretKey secret key_api_id, readSecretKey secret key_api_secret) of
        (Inr apiKeyID, Inr apiSecret) \<Rightarrow> Inr (GenerateCeAuthToken now apiKeyID apiSecret defaultCeAuthTokenValidity)
      | _ \<Rightarrow> existing)"

definition organisation_of :: "CredentialsSecret \<Rightarrow> F5Spec \<Rightarrow> string" where
  "organisation_of secret spec =
     (case readSecretKey secret key_organisation of Inr org \<Rightarrow> if org \<noteq> [] then org else fs_TenantOrPartition spec
      | Inl e \<Rightarrow> fs_TenantOrPartition spec)"

subsection \<open>Arguments of CIS\<close>

definition ensureArgWithPrefix :: "string list \<Rightarrow> string \<Rightarrow> string \<Rightarrow> string list" where
  "ensureArgWithPrefix args pre value =
     (if list_ex (\<lambda>a. a = value \<or> has_prefix a (pre @ ''='') \<or> a = pre) args then args else args @ [value])"

definition buildCISArgs :: "string \<Rightarrow> string \<Rightarrow> string list \<Rightarrow> string list" where
  "buildCISArgs bigipURL part extra =
     [''--bigip-username=$(BIGIP_USERNAME)'', ''--bigip-password=$(BIGIP_PASSWORD)'', ''--bigip-url='' @ bigipURL,
      ''--bigip-partition='' @ part, ''--namespace=all'', ''--pool-member-type=nodeport''] @
     ensureArgWithPrefix extra ''--agent'' ''--agent=cccl''"

definition cisExtraArgs :: "string list \<Rightarrow> bool \<Rightarrow> string list" where
  "cisExtraArgs extra bridgeEnabled =
     (if \<not> bridgeEnabled then extra
      else ensureArgWithPrefix (ensureArgWithPrefix extra ''--manage-ingress'' ''--manage-ingress=true'') ''--ingress-class'' ''--ingress-class=f5'')"

subsection \<open>The provider status\<close>

record extensionProviderStatus =
  eps_ControlPlaneVIP :: string
  eps_ControlPlanePort :: int32
  eps_BigIPManagementIP :: string
  eps_LBServiceID :: string
  eps_VIPPortID :: string
  eps_VirtualServerID :: string
  eps_VirtualServerName :: string

definition text_entry :: "string \<Rightarrow> string \<Rightarrow> (string \<times> json) list" where
  "text_entry k v = (if v = [] then [] else [(k, JStr v)])"

definition provider_status_json :: "extensionProviderStatus \<Rightarrow> json" where
  "provider_status_json ps = JObj
     (text_entry ''controlPlaneVip'' (eps_ControlPlaneVIP ps) @
      (if eps_ControlPlanePort ps = 0 then [] else [(''controlPlanePort'', JNum (sint (eps_ControlPlanePort ps)))]) @
      text_entry ''bigIpManagementIp'' (eps_BigIPManagementIP ps) @ text_entry ''lbServiceId'' (eps_LBServiceID ps) @
      text_entry ''vipPortId'' (eps_VIPPortID ps) @ text_entry ''virtualServerId'' (eps_VirtualServerID ps) @
      text_entry ''virtualServerName'' (eps_VirtualServerName ps))"

definition write_provider_status :: "extensionProviderStatus \<Rightarrow> string" where
  "write_provider_status ps = json_text (provider_status_json ps)"

definition d_provider_status :: "json \<Rightarrow> extensionProviderStatus option" where
  "d_provider_status v = Option.bind (json_struct (Some v)) (\<lambda>es.
     Option.bind (f_string ''controlPlaneVip'' es) (\<lambda>vip.
     Option.bind (f_int32 ''controlPlanePort'' es) (\<lambda>port.
     Option.bind (f_string ''bigIpManagementIp'' es) (\<lambda>mgmt.
     Option.bind (f_string ''lbServiceId'' es) (\<lambda>lb.
     Option.bind (f_string ''vipPortId'' es) (\<lambda>vp.
     Option.bind (f_string ''virtualServerId'' es) (\<lambda>vs.
     Option.bind (f_string ''virtualServerName'' es) (\<lambda>vsn.
       Some \<lparr>eps_ControlPlaneVIP = vip, eps_ControlPlanePort = port, eps_BigIPManagementIP = mgmt, eps_LBServiceID = lb,
         eps_VIPPortID = vp, eps_VirtualServerID = vs, eps_VirtualServerName = vsn\<rparr>))))))))"

definition read_provider_status :: "string \<Rightarrow> extensionProviderStatus option" where
  "read_provider_status raw = Option.bind (json_parse raw) d_provider_status"

definition progressForState :: "OperationState \<Rightarrow> int" where
  "progressForState state =
     (case state of OpSucceeded \<Rightarrow> 100 | OpFailed \<Rightarrow> 100 | OpError \<Rightarrow> 80 | OpProcessing \<Rightarrow> 50 | OpPending \<Rightarrow> 10 | OpOtherState s \<Rightarrow> 1)"

text \<open>\<open>parse\<close> is \<open>time.Parse\<close> with the layout RFC3339Nano.\<close>

definition request_acknowledged :: "(string \<Rightarrow> int option) \<Rightarrow> Extension \<Rightarrow> LastOperation \<Rightarrow> bool" where
  "request_acknowledged parse ex lastOp \<longleftrightarrow>
     (let at = annotationValue (Some ex) gardenerTimestampAnnotationKey in
      at = [] \<or> (case parse at of None \<Rightarrow> True | Some t \<Rightarrow> \<not> op_LastUpdateTime lastOp < t))"

definition extensionOutputIsCurrent :: "(string \<Rightarrow> int option) \<Rightarrow> Extension \<Rightarrow> string \<Rightarrow> OperationState \<Rightarrow> string \<Rightarrow> bool" where
  "extensionOutputIsCurrent parse ex providerStatus state description \<longleftrightarrow>
     ex_ObservedGeneration ex = ex_Generation ex \<and> ex_LastError ex = None \<and> ex_ProviderStatus ex = Some providerStatus \<and>
     (case ex_LastOperation ex of
        None \<Rightarrow> False
      | Some lastOp \<Rightarrow>
          request_acknowledged parse ex lastOp \<and> op_Type lastOp = OpReconcile \<and> op_State lastOp = state \<and>
          op_Progress lastOp = progressForState state \<and> op_Description lastOp = description)"

end
