(* ===== verification/Actuator.thy ===== *)
theory Actuator
  imports Lifecycle
begin

text \<open>
  The actuator of the extension, \<open>pkg/controller/lifecycle/controller.go\<close>, and the controller around
  it, \<open>extension_controller.go\<close>.  Outside the program are the API servers of the Seed and of the Shoot,
  the network, the clock and the helpers of the Gardener and apimachinery libraries: the record \<open>lapi\<close>
  holds the answer of each after the acts logged so far.  An update or a patch answers with the object
  as the server stores it, which replaces the caller's copy; a failed one leaves that copy alone.
\<close>

subsection \<open>Acts and answers\<close>

text \<open>A rule of a ClusterRole: API groups, resources, verbs.\<close>

type_synonym policy_rule = "string list \<times> string list \<times> string list"

record Deployment =
  de_Namespace :: string
  de_Name :: string
  de_Labels :: "string gomap"
  de_Replicas :: int
  de_ServiceAccountName :: string
  de_ContainerName :: string
  de_Image :: string
  de_ImagePullPolicy :: string
  de_Command :: "string list"
  de_Env :: "(string \<times> string) list"

datatype shoot_object =
    ShNamespace string
  | ShServiceAccount string string
  | ShClusterRole string "policy_rule list"
  | ShClusterRoleBinding string string "(string \<times> string \<times> string) list"
  | ShDeployment Deployment

datatype shoot_op =
    ShootClient string
  | ShootListNamespaces
  | ShootGetNamespace string
  | ShootCreateOrUpdate shoot_object
  | ShootDelete string string string

datatype lact =
    LGetExtension string string
  | LUpdateExtension Extension
  | LPatchExtension Extension Extension
  | LPatchExtensionStatus Extension Extension
  | LGetConfig string string
  | LListConfigs string
  | LCreateConfig F5Config
  | LPatchConfig F5Config F5Config
  | LUpdateConfigStatus F5Config
  | LPatchConfigStatus F5Config F5Config
  | LGetReference string string
  | LGetService string string
  | LGetEndpoints string string
  | LShoot shoot_op
  | LHttp request
  | LEvent string string

record lapi =
  l_GetExtension :: "string \<Rightarrow> string \<Rightarrow> lact list \<Rightarrow> kerr + Extension"
  l_UpdateExtension :: "Extension \<Rightarrow> lact list \<Rightarrow> kerr + Extension"
  l_PatchExtension :: "Extension \<Rightarrow> Extension \<Rightarrow> lact list \<Rightarrow> kerr + Extension"
  l_PatchExtensionStatus :: "Extension \<Rightarrow> Extension \<Rightarrow> lact list \<Rightarrow> kerr + Extension"
  l_GetConfig :: "string \<Rightarrow> string \<Rightarrow> lact list \<Rightarrow> kerr + F5Config"
  l_ListConfigs :: "string \<Rightarrow> lact list \<Rightarrow> kerr + F5Config list"
  l_CreateConfig :: "F5Config \<Rightarrow> lact list \<Rightarrow> kerr + F5Config"
  l_PatchConfig :: "F5Config \<Rightarrow> F5Config \<Rightarrow> lact list \<Rightarrow> kerr + F5Config"
  l_UpdateConfigStatus :: "F5Config \<Rightarrow> lact list \<Rightarrow> kerr + F5Config"
  l_PatchConfigStatus :: "F5Config \<Rightarrow> F5Config \<Rightarrow> lact list \<Rightarrow> kerr + F5Config"
  l_GetObjectByReference :: "string \<Rightarrow> string \<Rightarrow> lact list \<Rightarrow> kerr + CredentialsSecret"
  l_GetService :: "string \<Rightarrow> string \<Rightarrow> lact list \<Rightarrow> kerr + unit"
  l_GetEndpoints :: "string \<Rightarrow> string \<Rightarrow> lact list \<Rightarrow> kerr + endpoint_subset list"
  l_Shoot :: "shoot_op \<Rightarrow> lact list \<Rightarrow> kerr + unit"
  l_http :: henv
  l_getenv :: "string \<Rightarrow> string"
  l_now :: "lact list \<Rightarrow> int"
  l_parseTime :: "string \<Rightarrow> int option"
  l_hostname :: "string \<Rightarrow> string option"
  l_SetStatusCondition :: "Condition \<Rightarrow> Condition list \<Rightarrow> Condition list"
  l_FindStatusCondition :: "Condition list \<Rightarrow> string \<Rightarrow> Condition option"

type_synonym 'a lct = "(lact, 'a) eff"

definition lask :: "lact \<Rightarrow> (lact list \<Rightarrow> 'a) \<Rightarrow> 'a lct" where
  "lask c r = (\<lambda>l. (Inr (r l), l @ [c]))"

definition lcall :: "lact \<Rightarrow> (lact list \<Rightarrow> kerr + 'a) \<Rightarrow> 'a lct" where
  "lcall c r = invoke c (\<lambda>l. case r l of Inl e \<Rightarrow> Inl (api_err e) | Inr x \<Rightarrow> Inr x)"

definition levent :: "string \<Rightarrow> string \<Rightarrow> unit lct" where
  "levent kind reason = invoke (LEvent kind reason) (\<lambda>l. Inr ())"

text \<open>\<open>_ = m\<close>: the error is dropped.\<close>

definition io_ignore :: "('c, 'a) eff \<Rightarrow> ('c, unit) eff" where
  "io_ignore m = io_try m (\<lambda>r. io_return ())"

definition shoot :: "lapi \<Rightarrow> shoot_op \<Rightarrow> unit lct" where
  "shoot X op = lcall (LShoot op) (l_Shoot X op)"

text \<open>The clock is read when \<open>f\<close> starts.\<close>

definition with_now :: "lapi \<Rightarrow> (int \<Rightarrow> 'a lct) \<Rightarrow> 'a lct" where
  "with_now X f = (\<lambda>l. f (l_now X l) l)"

text \<open>A computation of the CMP client, whose requests join the log; the client's own state is
  handed on.\<close>

fun http_request :: "lact \<Rightarrow> request option" where
  "http_request (LHttp r) = Some r"
| "http_request _ = None"

definition http_log :: "lact list \<Rightarrow> request list" where
  "http_log l = List.map_filter http_request l"

definition run_http :: "hclient \<Rightarrow> 'a hio \<Rightarrow> ('a \<times> hclient) lct" where
  "run_http c m = (\<lambda>l. case m \<lparr>hs_client = c, hs_log = http_log l\<rparr> of
     (r, s) \<Rightarrow> (case r of Inl e \<Rightarrow> Inl e | Inr x \<Rightarrow> Inr (x, hs_client s),
                l @ map LHttp (drop (length (http_log l)) (hs_log s))))"

subsection \<open>Errors that are not retried\<close>

text \<open>\<open>errors.As(err, &perr)\<close>: the error inside the outermost \<open>permanentError\<close> of the chain.\<close>

fun as_permanent :: "err \<Rightarrow> err option" where
  "as_permanent (Permanent e) = Some e"
| "as_permanent (Wrapf f args e) = as_permanent e"
| "as_permanent e = None"

subsection \<open>Conditions\<close>

definition put_condition :: "lapi \<Rightarrow> string \<Rightarrow> string \<Rightarrow> string \<Rightarrow> string \<Rightarrow> int \<Rightarrow> F5Config \<Rightarrow> F5Config" where
  "put_condition X ty st reason message now cfg =
     cfg\<lparr>fc_Status := (fc_Status cfg)\<lparr>fo_Conditions := l_SetStatusCondition X
       \<lparr>cn_Type = ty, cn_Status = st, cn_Reason = reason, cn_Message = message, cn_LastTransitionTime = now\<rparr>
       (fo_Conditions (fc_Status cfg))\<rparr>\<rparr>"

definition mark :: "lapi \<Rightarrow> string \<Rightarrow> string \<Rightarrow> string \<Rightarrow> string \<Rightarrow> F5Config \<Rightarrow> F5Config lct" where
  "mark X ty st reason message cfg = with_now X (\<lambda>now. io_return (put_condition X ty st reason message now cfg))"

definition cpReady :: string where "cpReady = ''ControlPlaneLoadBalancerReady''"
definition appReady :: string where "appReady = ''ApplicationLoadBalancerReady''"

definition isConditionTrue :: "lapi \<Rightarrow> F5Config \<Rightarrow> string \<Rightarrow> bool" where
  "isConditionTrue X cfg ty \<longleftrightarrow>
     (case l_FindStatusCondition X (fo_Conditions (fc_Status cfg)) ty of None \<Rightarrow> False | Some c \<Rightarrow> cn_Status c = ''True'')"

definition update_status :: "lapi \<Rightarrow> F5Config \<Rightarrow> F5Config lct" where
  "update_status X cfg = lcall (LUpdateConfigStatus cfg) (l_UpdateConfigStatus X cfg)"

text \<open>\<open>_ = a.client.Status().Update(ctx, cfg)\<close>.\<close>

definition try_update_status :: "lapi \<Rightarrow> F5Config \<Rightarrow> F5Config lct" where
  "try_update_status X cfg = io_try (update_status X cfg) (\<lambda>r. io_return (case r of Inl e \<Rightarrow> cfg | Inr c \<Rightarrow> c))"

subsection \<open>Backends of the API server\<close>

definition discoverKubeAPIServerBackends :: "lapi \<Rightarrow> Extension \<Rightarrow> Backend list lct" where
  "discoverKubeAPIServerBackends X ex =
     (let ns = ex_Namespace ex; name = ''kube-apiserver'' in
      io_bind (io_wrap ''getting kube-apiserver Service %s/%s: %w'' [ns, name] (lcall (LGetService ns name) (l_GetService X ns name)))
        (\<lambda>_. io_bind (io_wrap ''getting kube-apiserver Endpoints %s/%s: %w'' [ns, name] (lcall (LGetEndpoints ns name) (l_GetEndpoints X ns name)))
          (\<lambda>subsets. if endpoint_backends subsets = []
             then io_fail (Errorf ''no kube-apiserver endpoints found for %s/%s'' [ns, name])
             else io_return (endpoint_backends subsets))))"

definition frontend_port :: "lapi \<Rightarrow> Extension \<Rightarrow> int32 lct" where
  "frontend_port X ex =
     io_try (discoverKubeAPIServerBackends X ex) (\<lambda>r. io_return (case r of Inl e \<Rightarrow> 443 | Inr backends \<Rightarrow> chooseFrontendPort backends))"

subsection \<open>The output in the status of the Extension\<close>

definition management_host :: "lapi \<Rightarrow> F5Spec \<Rightarrow> string" where
  "management_host X spec =
     (case fs_CIS spec of None \<Rightarrow> []
      | Some cis \<Rightarrow> (case l_hostname X (cis_BigIPURL cis) of
          Some host \<Rightarrow> if host \<noteq> [] then host else cis_BigIPURL cis
        | None \<Rightarrow> cis_BigIPURL cis))"

definition output_status :: "lapi \<Rightarrow> F5Config \<Rightarrow> int32 \<Rightarrow> extensionProviderStatus" where
  "output_status X cfg port =
     \<lparr>eps_ControlPlaneVIP = (if fo_VIP (fc_Status cfg) = [] then fs_ControlPlaneVIP (fc_Spec cfg) else fo_VIP (fc_Status cfg)),
      eps_ControlPlanePort = port, eps_BigIPManagementIP = management_host X (fc_Spec cfg),
      eps_LBServiceID = [], eps_VIPPortID = [], eps_VirtualServerID = [], eps_VirtualServerName = []\<rparr>"

definition with_output :: "string \<Rightarrow> OperationState \<Rightarrow> string \<Rightarrow> int \<Rightarrow> Extension \<Rightarrow> Extension" where
  "with_output raw state description now ex =
     ex\<lparr>ex_ProviderStatus := Some raw, ex_ObservedGeneration := ex_Generation ex, ex_LastError := None,
        ex_LastOperation := Some \<lparr>op_Type = OpReconcile, op_State = state, op_Progress = progressForState state,
          op_Description = description, op_LastUpdateTime = now\<rparr>\<rparr>"

definition patch_extension_status :: "lapi \<Rightarrow> Extension \<Rightarrow> (int \<Rightarrow> Extension) \<Rightarrow> Extension lct" where
  "patch_extension_status X ex f =
     with_now X (\<lambda>now. lcall (LPatchExtensionStatus ex (f now)) (l_PatchExtensionStatus X ex (f now)))"

definition updateExtensionOutput :: "lapi \<Rightarrow> Extension \<Rightarrow> F5Config \<Rightarrow> OperationState \<Rightarrow> string \<Rightarrow> unit lct" where
  "updateExtensionOutput X ex cfg state description =
     io_bind (frontend_port X ex)
       (\<lambda>port. let raw = write_provider_status (output_status X cfg port) in
          if extensionOutputIsCurrent (l_parseTime X) ex raw state description then io_return ()
          else io_bind (patch_extension_status X ex (\<lambda>now. with_output raw state description now ex)) (\<lambda>_. io_return ()))"

subsection \<open>The F5LoadBalancerConfig\<close>

definition new_config :: "Extension \<Rightarrow> F5Spec \<Rightarrow> F5Config" where
  "new_config ex spec =
     \<lparr>fc_Namespace = ex_Namespace ex, fc_Name = ex_Name ex, fc_OwnerReferences = [], fc_Spec = spec,
      fc_Status = \<lparr>fo_VIP = [], fo_VirtualServerName = [], fo_LBServiceID = [], fo_VIPPortID = [], fo_VirtualServerID = [], fo_Conditions = []\<rparr>\<rparr>"

definition config_key :: "Extension \<Rightarrow> string" where
  "config_key ex = ex_Namespace ex @ ''/'' @ ex_Name ex"

definition sync_config :: "lapi \<Rightarrow> Extension \<Rightarrow> F5Spec \<Rightarrow> F5Config \<Rightarrow> F5Config lct" where
  "sync_config X ex spec cfg =
     (if hasProviderConfig ex \<and> isControlledByExtension cfg ex \<and> fc_Spec cfg \<noteq> spec
      then let new = ensureExtensionOwnerReference ex (cfg\<lparr>fc_Spec := spec\<rparr>) in
           io_wrap ''patching F5LoadBalancerConfig %s spec: %w'' [config_key ex] (lcall (LPatchConfig cfg new) (l_PatchConfig X cfg new))
      else io_return cfg)"

definition ensureF5LoadBalancerConfig :: "lapi \<Rightarrow> Extension \<Rightarrow> F5Config lct" where
  "ensureF5LoadBalancerConfig X ex =
     io_bind (io_of_result (desiredSpecFromProviderConfig ex))
       (\<lambda>spec. io_bind (lask (LGetConfig (ex_Namespace ex) (ex_Name ex)) (l_GetConfig X (ex_Namespace ex) (ex_Name ex)))
          (\<lambda>found. case found of
             Inr cfg \<Rightarrow> sync_config X ex spec cfg
           | Inl (KError e) \<Rightarrow> io_fail (Wrapf ''getting F5LoadBalancerConfig %s: %w'' [config_key ex] (OtherErr e))
           | Inl (KNotFound e) \<Rightarrow>
               let new = ensureExtensionOwnerReference ex (new_config ex spec) in
               io_wrap ''creating F5LoadBalancerConfig %s: %w'' [config_key ex] (lcall (LCreateConfig new) (l_CreateConfig X new))))"

subsection \<open>Credentials\<close>

definition getReferencedCredentialsSecret :: "lapi \<Rightarrow> Extension \<Rightarrow> F5Spec \<Rightarrow> CredentialsSecret lct" where
  "getReferencedCredentialsSecret X ex spec =
     (let name = trim_space (fs_CredentialsReferenceName spec); ns = ex_Namespace ex in
      if name = [] then io_fail (Permanent (Errorf ''spec.credentialsReferenceName must not be empty'' []))
      else io_wrap ''resolving referenced credentials secret %q in shoot namespace %s: %w'' [name, ns]
             (lcall (LGetReference ns name) (l_GetObjectByReference X ns name)))"

definition fresh_ce_auth :: "int \<Rightarrow> CredentialsSecret \<Rightarrow> err + string" where
  "fresh_ce_auth now secret = refreshCeAuthIfNeeded now secret (readSecretKey secret key_ce_auth)"

text \<open>The client for token or basic authentication; \<open>None\<close> when the Secret allows neither.\<close>

definition cmp_client :: "lapi \<Rightarrow> F5Spec \<Rightarrow> CredentialsSecret \<Rightarrow> err + string \<Rightarrow> (err + hclient) option" where
  "cmp_client X spec secret ceAuth =
     (let endpoint = fs_CcpApiEndpoint spec; org = organisation_of secret spec in
      case (ceAuth, readSecretKey secret key_project) of
        (Inr token, Inr projectID) \<Rightarrow> Some (NewClientWithCeAuth (l_getenv X) endpoint org projectID (trim_space (fs_Region spec)) token)
      | _ \<Rightarrow> (case (readSecretKey secret [''username'', ''F5_USERNAME''], readSecretKey secret [''password'', ''F5_PASSWORD'']) of
           (Inr username, Inr password) \<Rightarrow> Some (NewClientWithBasicAuth (l_getenv X) endpoint org username password)
         | _ \<Rightarrow> None))"

definition missing_basic :: "CredentialsSecret \<Rightarrow> err" where
  "missing_basic secret =
     (case readSecretKey secret [''username'', ''F5_USERNAME''] of Inl e \<Rightarrow> e
      | Inr _ \<Rightarrow> (case readSecretKey secret [''password'', ''F5_PASSWORD''] of Inl e \<Rightarrow> e | Inr _ \<Rightarrow> OtherErr []))"

subsection \<open>The control-plane load balancer\<close>

text \<open>The configuration with the condition set to false, and the error of the pass.\<close>

definition cp_false :: "lapi \<Rightarrow> string \<Rightarrow> string \<Rightarrow> err \<Rightarrow> F5Config \<Rightarrow> (F5Config \<times> err option) lct" where
  "cp_false X reason message e cfg =
     io_bind (mark X cpReady ''False'' reason message cfg) (\<lambda>cfg. io_return (cfg, Some e))"

definition provision_guard :: "F5Spec \<Rightarrow> (string \<times> string \<times> string) option" where
  "provision_guard spec =
     map_option snd (find fst
       [(fs_ControlPlaneVIP spec = [], ''NotConfigured'', ''spec.controlPlaneVIP is empty'', ''spec.controlPlaneVIP must not be empty''),
        (fs_CcpApiEndpoint spec = [], ''NotConfigured'', ''spec.ccpApiEndpoint is empty (CMP/CCP provisioning disabled)'',
           ''spec.ccpApiEndpoint must not be empty''),
        (fs_TenantOrPartition spec = [], ''ConfigError'', ''spec.tenantOrPartition is empty'', ''spec.tenantOrPartition must not be empty''),
        (trim_space (fs_CredentialsReferenceName spec) = [], ''ConfigError'',
           ''spec.credentialsReferenceName must be set when spec.ccpApiEndpoint is set'',
           ''spec.credentialsReferenceName must be set when spec.ccpApiEndpoint is set'')])"

text \<open>What a probe's status code forbids.\<close>

definition probe_verdict :: "ProbeResult \<Rightarrow> (string \<times> err) option" where
  "probe_verdict p =
     (if pr_StatusCode p = 401 \<or> pr_StatusCode p = 403
      then Some (''Unauthorized'', Permanent (Errorf ''CMP/CCP credentials rejected: %s'' [pr_Status p]))
      else if 500 \<le> pr_StatusCode p then Some (''CMPUnavailable'', Errorf ''CMP/CCP probe returned %s'' [pr_Status p])
      else None)"

definition lbaas_config :: "F5Spec \<Rightarrow> CMPLBaaSConfig" where
  "lbaas_config spec =
     \<lparr>cc_FlavorID = fs_FlavorID spec, cc_NetworkID = fs_NetworkID spec, cc_VPCID = fs_VPCID spec, cc_VPCName = fs_VPCName spec,
      cc_RoutingAlgorithm = fs_RoutingAlgorithm spec, cc_MonitorInterval = fs_MonitorInterval spec\<rparr>"

definition record_control_plane :: "CMPResourceIDs \<Rightarrow> F5Config \<Rightarrow> F5Config" where
  "record_control_plane ids cfg =
     (let st = fc_Status cfg; name = (if ci_VirtualServerName ids \<noteq> [] then ci_VirtualServerName ids else fo_VirtualServerName st) in
      cfg\<lparr>fc_Status := st\<lparr>fo_VIP := fs_ControlPlaneVIP (fc_Spec cfg), fo_LBServiceID := ci_LBServiceID ids, fo_VIPPortID := ci_VIPPortID ids,
        fo_VirtualServerID := ci_VirtualServerID ids, fo_VirtualServerName := (if name = [] then cp_vs_name else name)\<rparr>\<rparr>)"

definition provision_with :: "lapi \<Rightarrow> F5Config \<Rightarrow> hclient \<Rightarrow> int32 \<Rightarrow> Backend list \<Rightarrow> (F5Config \<times> err option) lct" where
  "provision_with X cfg c vipPort backends =
     io_try (run_http c (Probe (l_http X)))
       (\<lambda>r. case r of
          Inl e \<Rightarrow> cp_false X ''CMPUnreachable'' (error_text e) e cfg
        | Inr (probe, c) \<Rightarrow>
            (case probe_verdict probe of
               Some (reason, e) \<Rightarrow> cp_false X reason
                 (format_text ''CMP/CCP probe returned %s (reqID=%s)'' [pr_Status probe, pr_RequestID probe]) e cfg
             | None \<Rightarrow>
                 io_try (run_http c (hio_bind (SetCMPLBaaSConfig (lbaas_config (fc_Spec cfg)))
                     (\<lambda>_. EnsureControlPlaneVirtualServer (l_http X) (fs_ControlPlaneVIP (fc_Spec cfg)) vipPort backends)))
                   (\<lambda>r. case r of
                      Inl e \<Rightarrow> cp_false X ''ProvisionFailed'' (error_text e) e cfg
                    | Inr (ids, c) \<Rightarrow>
                        io_bind (mark X cpReady ''True'' ''Provisioned'' ''Control-plane VIP/VS provisioned via CMP/CCP API''
                                   (record_control_plane ids cfg))
                          (\<lambda>cfg. io_return (cfg, None)))))"

text \<open>The token is made before the backends are discovered.\<close>

definition provision_secret :: "lapi \<Rightarrow> Extension \<Rightarrow> F5Config \<Rightarrow> CredentialsSecret \<Rightarrow> (F5Config \<times> err option) lct" where
  "provision_secret X ex cfg secret =
     with_now X (\<lambda>now. io_try (discoverKubeAPIServerBackends X ex)
       (\<lambda>r. case r of
          Inl e \<Rightarrow> cp_false X ''DiscoveryFailed'' (error_text e) e cfg
        | Inr backends \<Rightarrow>
            (case cmp_client X (fc_Spec cfg) secret (fresh_ce_auth now secret) of
               None \<Rightarrow> let missing = error_text (missing_basic secret) in
                 cp_false X ''ConfigError'' (format_text
                   ''credentials secret must contain either Ce-Auth + project-id (CMP token auth) or username/password (basic auth): %v'' [missing])
                   (Permanent (Errorf ''invalid credentials secret: %v'' [missing])) cfg
             | Some (Inl e) \<Rightarrow> cp_false X ''ConfigError'' (error_text e) (Permanent e) cfg
             | Some (Inr c) \<Rightarrow> provision_with X cfg c (chooseFrontendPort backends) backends)))"

definition provisionControlPlaneViaCMP :: "lapi \<Rightarrow> Extension \<Rightarrow> F5Config \<Rightarrow> (F5Config \<times> err option) lct" where
  "provisionControlPlaneViaCMP X ex cfg =
     (case provision_guard (fc_Spec cfg) of
        Some (reason, message, e) \<Rightarrow> cp_false X reason message (Permanent (Errorf e [])) cfg
      | None \<Rightarrow>
          io_try (getReferencedCredentialsSecret X ex (fc_Spec cfg))
            (\<lambda>r. case r of
               Inl e \<Rightarrow> cp_false X ''ConfigError'' (format_text ''resolving referenced credentials secret failed: %v'' [error_text e]) e cfg
             | Inr secret \<Rightarrow> provision_secret X ex cfg secret))"

definition reconcileControlPlaneStatusSharedSeedIngress :: "lapi \<Rightarrow> F5Config \<Rightarrow> F5Config lct" where
  "reconcileControlPlaneStatusSharedSeedIngress X cfg =
     mark X cpReady ''True'' ''SharedSeedIngressVIP''
       ''Per-shoot control-plane VIP disabled (enablePerShootControlPlaneVIP=false); shared Seed Ingress VIP is used'' cfg"

definition with_spec_vip :: "F5Config \<Rightarrow> F5Config" where
  "with_spec_vip cfg =
     (let st = fc_Status cfg in
      cfg\<lparr>fc_Status := st\<lparr>fo_VIP := fs_ControlPlaneVIP (fc_Spec cfg),
        fo_VirtualServerName := (if fo_VirtualServerName st = [] then cp_vs_name else fo_VirtualServerName st)\<rparr>\<rparr>)"

definition reconcileControlPlaneStatus :: "lapi \<Rightarrow> F5Config \<Rightarrow> F5Config lct" where
  "reconcileControlPlaneStatus X cfg =
     (if fs_ControlPlaneVIP (fc_Spec cfg) = []
      then mark X cpReady ''False'' ''NotConfigured'' ''spec.controlPlaneVIP is empty'' cfg
      else case fs_ControlPlaneReady (fc_Spec cfg) of
          Some False \<Rightarrow> mark X cpReady ''False'' ''NotReady''
            ''spec.controlPlaneReady=false (waiting for CMP/out-of-band control-plane VIP/VS to be ready)'' cfg
        | Some True \<Rightarrow> mark X cpReady ''True'' ''ExternalProvisioned''
            ''Control-plane VIP/VS marked ready via spec.controlPlaneReady=true (CMP/out-of-band)'' (with_spec_vip cfg)
        | None \<Rightarrow> mark X cpReady ''True'' ''Configured''
            ''Control-plane VIP configured (dev stub; CMP automation not wired yet)'' (with_spec_vip cfg))"

text \<open>The choice between the shared VIP of the Seed, CMP, and a VIP provided by others.\<close>

definition control_plane :: "lapi \<Rightarrow> Extension \<Rightarrow> F5Config \<Rightarrow> (F5Config \<times> err option) lct" where
  "control_plane X ex cfg =
     (if \<not> fs_EnablePerShootControlPlaneVIP (fc_Spec cfg)
      then io_bind (reconcileControlPlaneStatusSharedSeedIngress X cfg) (\<lambda>cfg. io_return (cfg, None))
      else if fs_ControlPlaneReady (fc_Spec cfg) = None \<and> fs_CcpApiEndpoint (fc_Spec cfg) \<noteq> []
      then provisionControlPlaneViaCMP X ex cfg
      else io_bind (reconcileControlPlaneStatus X cfg) (\<lambda>cfg. io_return (cfg, None)))"

subsection \<open>The bridge in the Shoot\<close>

definition cisNamespace :: string where "cisNamespace = ''f5-cis-system''"
definition cisName :: string where "cisName = ''f5-cis''"
definition cisSecretName :: string where "cisSecretName = ''f5-cis-credentials''"
definition bridgeName :: string where "bridgeName = ''f5-svc-lb-bridge''"

definition getShootClient :: "lapi \<Rightarrow> string \<Rightarrow> unit lct" where
  "getShootClient X ns =
     io_bind (io_wrap ''creating shoot client: %w'' [] (shoot X (ShootClient ns)))
       (\<lambda>_. io_bind (io_wrap ''listing Shoot namespaces: %w'' [] (shoot X ShootListNamespaces))
         (\<lambda>_. io_wrap ''reading Shoot kube-system namespace: %w'' [] (shoot X (ShootGetNamespace ''kube-system''))))"

definition cis_guard :: "F5Spec \<Rightarrow> string option" where
  "cis_guard spec =
     (let guards =
        [(fs_CIS spec = None, ''spec.cis must be set when enableApplicationLB=true''),
         (case fs_CIS spec of None \<Rightarrow> False | Some cis \<Rightarrow> trim_space (cis_BridgeImage cis) = [],
            ''spec.cis.bridgeImage must be set when enableApplicationLB=true (CMP-only mode)''),
         (fs_CcpApiEndpoint spec = [], ''spec.ccpApiEndpoint must not be empty when enableApplicationLB=true''),
         (fs_TenantOrPartition spec = [], ''spec.tenantOrPartition must not be empty when enableApplicationLB=true''),
         (trim_space (fs_CredentialsReferenceName spec) = [], ''spec.credentialsReferenceName must be set when enableApplicationLB=true''),
         (trim_space (fs_VPCID spec) = [], ''spec.vpcId must not be empty when enableApplicationLB=true''),
         (trim_space (fs_VPCName spec) = [], ''spec.vpcName must not be empty when enableApplicationLB=true''),
         (trim_space (fs_NetworkID spec) = [], ''spec.networkId must not be empty when enableApplicationLB=true''),
         (sint (fs_FlavorID spec) \<le> 0, ''spec.flavorId must be greater than zero when enableApplicationLB=true'')]
      in map_option snd (find fst guards))"

definition bridge_rules :: "policy_rule list" where
  "bridge_rules =
     [([''''], [''services''], [''get'', ''list'', ''watch'', ''patch'', ''update'']),
      ([''''], [''nodes'', ''endpoints''], [''get'', ''list'', ''watch'']),
      ([''''], [''secrets''], [''get'', ''list'', ''watch'']),
      ([''''], [''services/status''], [''update'', ''patch'']),
      ([''''], [''events''], [''create'', ''patch'']),
      ([''discovery.k8s.io''], [''endpointslices''], [''get'', ''list'', ''watch'']),
      ([''networking.k8s.io''], [''ingresses''], [''get'', ''list'', ''watch'']),
      ([''networking.k8s.io''], [''ingresses/status''], [''update'', ''patch'']),
      ([''networking.k8s.io''], [''networkpolicies''], [''get'', ''list'', ''create'', ''update'', ''patch'', ''delete''])]"

text \<open>What the bridge is given: token, project, API key and its secret.\<close>

record bridge_credentials =
  bc_ceAuth :: string
  bc_projectID :: string
  bc_apiKeyID :: string
  bc_apiSecret :: string
  bc_orgName :: string

definition bridge_env :: "Extension \<Rightarrow> F5Spec \<Rightarrow> bridge_credentials \<Rightarrow> (string \<times> string) list" where
  "bridge_env ex spec b =
     [(''CMP_ENDPOINT'', trim_right_slash (fs_CcpApiEndpoint spec)),
      (''CMP_CE_AUTH'', bc_ceAuth b), (''CMP_API_KEY_ID'', bc_apiKeyID b), (''CMP_API_SECRET'', bc_apiSecret b),
      (''CMP_ORGANISATION_NAME'', bc_orgName b), (''CMP_PROJECT_ID'', bc_projectID b),
      (''CMP_VPC_ID'', trim_space (fs_VPCID spec)), (''CMP_VPC_NAME'', trim_space (fs_VPCName spec)),
      (''CMP_NETWORK_ID'', trim_space (fs_NetworkID spec)), (''CMP_LB_FLAVOR_ID'', show_i32 (fs_FlavorID spec)),
      (''CMP_REGION'', trim_space (fs_Region spec)), (''SHOOT_NAMESPACE'', ex_Namespace ex),
      (''F5_SVC_LB_LOADBALANCER_CLASS'', ''f5.extensions.gardener.cloud/bigip''), (''F5_INSECURE_SKIP_TLS_VERIFY'', ''true'')]"

definition bridge_deployment :: "Extension \<Rightarrow> F5Spec \<Rightarrow> bridge_credentials \<Rightarrow> Deployment" where
  "bridge_deployment ex spec b =
     \<lparr>de_Namespace = cisNamespace, de_Name = bridgeName, de_Labels = [(''app'', bridgeName)], de_Replicas = 1,
      de_ServiceAccountName = cisName, de_ContainerName = ''bridge'',
      de_Image = (case fs_CIS spec of None \<Rightarrow> [] | Some cis \<Rightarrow> cis_BridgeImage cis), de_ImagePullPolicy = ''IfNotPresent'',
      de_Command = [''/svc-lb-bridge''], de_Env = bridge_env ex spec b\<rparr>"

text \<open>The objects of the Shoot, in the order in which they are ensured, with the text of the error.\<close>

definition shoot_objects :: "Extension \<Rightarrow> F5Spec \<Rightarrow> bridge_credentials \<Rightarrow> (shoot_object \<times> string \<times> string list) list" where
  "shoot_objects ex spec b =
     [(ShNamespace cisNamespace, ''ensuring shoot namespace %s: %w'', [cisNamespace]),
      (ShServiceAccount cisNamespace cisName, ''ensuring serviceaccount %s/%s: %w'', [cisNamespace, cisName]),
      (ShClusterRole cisName bridge_rules, ''ensuring clusterrole %s: %w'', [cisName]),
      (ShClusterRoleBinding cisName cisName [(''ServiceAccount'', cisNamespace, cisName)], ''ensuring clusterrolebinding %s: %w'', [cisName]),
      (ShDeployment (bridge_deployment ex spec b), ''ensuring svc-lb-bridge deployment %s/%s: %w'', [cisNamespace, bridgeName])]"

definition permanently :: "err + 'a \<Rightarrow> 'a lct" where
  "permanently r = (case r of Inl e \<Rightarrow> io_fail (Permanent e) | Inr x \<Rightarrow> io_return x)"

definition bridge_credentials_of :: "lapi \<Rightarrow> F5Spec \<Rightarrow> CredentialsSecret \<Rightarrow> bridge_credentials lct" where
  "bridge_credentials_of X spec secret =
     io_bind (with_now X (\<lambda>now. permanently (fresh_ce_auth now secret)))
       (\<lambda>ceAuth. io_bind (permanently (readSecretKey secret key_project))
         (\<lambda>projectID. io_bind (permanently (readSecretKey secret key_api_id))
           (\<lambda>apiKeyID. io_bind (permanently (readSecretKey secret key_api_secret))
             (\<lambda>apiSecret. io_return \<lparr>bc_ceAuth = ceAuth, bc_projectID = projectID, bc_apiKeyID = apiKeyID, bc_apiSecret = apiSecret,
                bc_orgName = organisation_of secret spec\<rparr>))))"

definition reconcileCISInShoot :: "lapi \<Rightarrow> Extension \<Rightarrow> F5Config \<Rightarrow> unit lct" where
  "reconcileCISInShoot X ex cfg =
     (let spec = fc_Spec cfg in
      case cis_guard spec of
        Some message \<Rightarrow> io_fail (Permanent (Errorf message []))
      | None \<Rightarrow>
          io_bind (getShootClient X (ex_Namespace ex))
            (\<lambda>_. io_bind (getReferencedCredentialsSecret X ex spec)
              (\<lambda>secret. io_bind (bridge_credentials_of X spec secret)
                (\<lambda>b. io_fold (\<lambda>_ (obj, f, args). io_wrap f args (shoot X (ShootCreateOrUpdate obj))) (shoot_objects ex spec b) ()))))"

definition shoot_leftovers :: "(string \<times> string \<times> string) list" where
  "shoot_leftovers =
     [(''Deployment'', cisNamespace, bridgeName), (''Secret'', cisNamespace, cisSecretName), (''ServiceAccount'', cisNamespace, cisName),
      (''ClusterRoleBinding'', [], cisName), (''ClusterRole'', [], cisName)]"

definition cleanupCISInShoot :: "lapi \<Rightarrow> Extension \<Rightarrow> unit lct" where
  "cleanupCISInShoot X ex =
     io_try (getShootClient X (ex_Namespace ex))
       (\<lambda>r. case r of
          Inl e \<Rightarrow> io_return ()
        | Inr _ \<Rightarrow> io_fold (\<lambda>_ (kind, ns, name). io_ignore (shoot X (ShootDelete kind ns name))) shoot_leftovers ())"

subsection \<open>\<open>Reconcile\<close>\<close>

definition app_false :: "lapi \<Rightarrow> string \<Rightarrow> string \<Rightarrow> F5Config \<Rightarrow> F5Config lct" where
  "app_false X reason message cfg = io_bind (mark X appReady ''False'' reason message cfg) (try_update_status X)"

definition put_output :: "lapi \<Rightarrow> Extension \<Rightarrow> F5Config \<Rightarrow> OperationState \<Rightarrow> string \<Rightarrow> unit lct" where
  "put_output X ex cfg state description = io_ignore (updateExtensionOutput X ex cfg state description)"

text \<open>The end of a pass with an error: a permanent one is reported as failed and not retried.\<close>

definition report_error :: "lapi \<Rightarrow> Extension \<Rightarrow> F5Config \<Rightarrow> err \<Rightarrow> unit lct" where
  "report_error X ex cfg e =
     (case as_permanent e of
        Some p \<Rightarrow> put_output X ex cfg OpFailed (error_text p)
      | None \<Rightarrow> io_bind (put_output X ex cfg OpError (error_text e)) (\<lambda>_. io_fail e))"

definition control_plane_failed :: "lapi \<Rightarrow> Extension \<Rightarrow> F5Config \<Rightarrow> err \<Rightarrow> unit lct" where
  "control_plane_failed X ex cfg e =
     io_bind (if fs_EnableApplicationLB (fc_Spec cfg)
              then mark X appReady ''False'' ''Blocked''
                ''control-plane LB provisioning failed; application LB is blocked until control-plane LB is Ready'' cfg
              else io_return cfg)
       (\<lambda>cfg. io_bind (try_update_status X cfg) (\<lambda>cfg. report_error X ex cfg e))"

definition not_ready_text :: string where
  "not_ready_text = ''control-plane LB is not ready/configured; not deploying CIS (if CMP provisions VIP/VS out-of-band, set spec.controlPlaneReady=true once ready)''"

definition finish :: "lapi \<Rightarrow> Extension \<Rightarrow> string \<Rightarrow> F5Config \<Rightarrow> unit lct" where
  "finish X ex description cfg =
     io_bind (io_wrap ''updating F5LoadBalancerConfig status %s: %w'' [config_key ex] (update_status X cfg))
       (\<lambda>cfg. put_output X ex cfg OpSucceeded description)"

definition application_plane :: "lapi \<Rightarrow> Extension \<Rightarrow> F5Config \<Rightarrow> unit lct" where
  "application_plane X ex cfg =
     (if \<not> isConditionTrue X cfg cpReady
      then io_bind (app_false X ''Blocked'' not_ready_text cfg) (\<lambda>cfg. put_output X ex cfg OpProcessing not_ready_text)
      else io_try (reconcileCISInShoot X ex cfg)
        (\<lambda>r. case r of
           Inl e \<Rightarrow>
             (case as_permanent e of
                Some p \<Rightarrow> io_bind (app_false X ''ConfigError'' (error_text p) cfg) (\<lambda>cfg. report_error X ex cfg e)
              | None \<Rightarrow> io_bind (app_false X ''ReconcileFailed'' (error_text e) cfg) (\<lambda>cfg. report_error X ex cfg e))
         | Inr _ \<Rightarrow> io_bind (mark X appReady ''True'' ''Reconciled'' ''svc-lb-bridge reconciled in Shoot (CMP LBaaS)'' cfg)
             (finish X ex ''reconciled'')))"

text \<open>\<open>cleanupCISInShoot\<close> never fails, but its caller handles an error.\<close>

definition application_off :: "lapi \<Rightarrow> Extension \<Rightarrow> F5Config \<Rightarrow> unit lct" where
  "application_off X ex cfg =
     io_try (cleanupCISInShoot X ex)
       (\<lambda>r. case r of
          Inl e \<Rightarrow> io_bind (app_false X ''CleanupFailed'' (error_text e) cfg)
            (\<lambda>cfg. io_bind (put_output X ex cfg OpError (error_text e)) (\<lambda>_. io_fail e))
        | Inr _ \<Rightarrow> io_bind (mark X appReady ''False'' ''Disabled'' ''Application LB disabled; CIS removed from Shoot'' cfg)
            (finish X ex ''application LB disabled''))"

definition actuator_Reconcile :: "lapi \<Rightarrow> Extension \<Rightarrow> unit lct" where
  "actuator_Reconcile X ex =
     io_bind (ensureF5LoadBalancerConfig X ex)
       (\<lambda>cfg. io_bind (control_plane X ex cfg)
          (\<lambda>(cfg, failure). case failure of
             Some e \<Rightarrow> control_plane_failed X ex cfg e
           | None \<Rightarrow> if fs_EnableApplicationLB (fc_Spec cfg) then application_plane X ex cfg else application_off X ex cfg))"

subsection \<open>\<open>Delete\<close>\<close>

definition recorded_ids :: "F5Status \<Rightarrow> CMPResourceIDs" where
  "recorded_ids st =
     \<lparr>ci_LBServiceID = fo_LBServiceID st, ci_VIPPortID = fo_VIPPortID st, ci_VirtualServerID = fo_VirtualServerID st,
      ci_VirtualServerName = fo_VirtualServerName st\<rparr>"

definition cleanupControlPlaneViaCMP :: "lapi \<Rightarrow> Extension \<Rightarrow> F5Config \<Rightarrow> unit lct" where
  "cleanupControlPlaneViaCMP X ex cfg =
     (let spec = fc_Spec cfg in
      if \<not> fs_EnablePerShootControlPlaneVIP spec \<or> fs_CcpApiEndpoint spec = [] \<or> fs_TenantOrPartition spec = [] \<or>
         trim_space (fs_CredentialsReferenceName spec) = []
      then io_return ()
      else io_bind (io_wrap ''resolving referenced credentials secret during cleanup: %w'' [] (getReferencedCredentialsSecret X ex spec))
        (\<lambda>secret. with_now X (\<lambda>now. case cmp_client X spec secret (fresh_ce_auth now secret) of
             None \<Rightarrow> io_return ()
           | Some (Inl e) \<Rightarrow> io_fail e
           | Some (Inr c) \<Rightarrow>
               io_bind (run_http c (DeleteControlPlaneVirtualServer (l_http X) (Some (recorded_ids (fc_Status cfg))))) (\<lambda>_. io_return ()))))"

definition actuator_Delete :: "lapi \<Rightarrow> Extension \<Rightarrow> unit lct" where
  "actuator_Delete X ex =
     io_bind (lask (LGetConfig (ex_Namespace ex) (ex_Name ex)) (l_GetConfig X (ex_Namespace ex) (ex_Name ex)))
       (\<lambda>found. case found of
          Inl e \<Rightarrow> io_return ()
        | Inr cfg \<Rightarrow> io_bind (io_ignore (cleanupControlPlaneViaCMP X ex cfg)) (\<lambda>_. cleanupCISInShoot X ex))"

definition actuator_ForceDelete :: "lapi \<Rightarrow> Extension \<Rightarrow> unit lct" where
  "actuator_ForceDelete X ex = actuator_Delete X ex"

subsection \<open>\<open>Restore\<close> and \<open>Migrate\<close>\<close>

definition overwritten :: "string \<Rightarrow> string \<Rightarrow> string" where
  "overwritten new old = (if new \<noteq> [] then new else old)"

definition rehydrated :: "extensionProviderStatus \<Rightarrow> F5Status \<Rightarrow> F5Status" where
  "rehydrated ps st =
     st\<lparr>fo_VIP := overwritten (eps_ControlPlaneVIP ps) (fo_VIP st), fo_LBServiceID := overwritten (eps_LBServiceID ps) (fo_LBServiceID st),
        fo_VIPPortID := overwritten (eps_VIPPortID ps) (fo_VIPPortID st),
        fo_VirtualServerID := overwritten (eps_VirtualServerID ps) (fo_VirtualServerID st),
        fo_VirtualServerName := overwritten (eps_VirtualServerName ps) (fo_VirtualServerName st)\<rparr>"

definition patch_config_status :: "lapi \<Rightarrow> F5Config \<Rightarrow> F5Config \<Rightarrow> F5Config lct" where
  "patch_config_status X base new = lcall (LPatchConfigStatus base new) (l_PatchConfigStatus X base new)"

definition rehydrate :: "lapi \<Rightarrow> Extension \<Rightarrow> F5Config \<Rightarrow> F5Config lct" where
  "rehydrate X ex cfg =
     (case ex_ProviderStatus ex of
        None \<Rightarrow> io_return cfg
      | Some raw \<Rightarrow>
          if raw = [] then io_return cfg
          else case read_provider_status raw of
              None \<Rightarrow> io_return cfg
            | Some ps \<Rightarrow>
                io_wrap ''restoring F5LoadBalancerConfig CMP IDs from migrated providerStatus: %w'' []
                  (patch_config_status X cfg (cfg\<lparr>fc_Status := rehydrated ps (fc_Status cfg)\<rparr>)))"

definition mark_restored :: "lapi \<Rightarrow> F5Config \<Rightarrow> F5Config lct" where
  "mark_restored X cfg =
     (if fo_VIP (fc_Status cfg) \<noteq> [] \<or> fs_ControlPlaneReady (fc_Spec cfg) = Some True
      then mark X cpReady ''True'' ''Restored''
        (''Restored from Shoot migration; VIP '' @ fo_VIP (fc_Status cfg) @ '' is active on CMP'') cfg
      else if \<not> fs_EnablePerShootControlPlaneVIP (fc_Spec cfg)
      then mark X cpReady ''True'' ''SharedSeedIngressVIP''
        ''Control-plane uses shared Seed Ingress VIP (Mechanism A); restored on new Seed'' cfg
      else io_return cfg)"

definition actuator_Restore :: "lapi \<Rightarrow> Extension \<Rightarrow> unit lct" where
  "actuator_Restore X ex =
     io_bind (ensureF5LoadBalancerConfig X ex)
       (\<lambda>cfg. io_bind (rehydrate X ex cfg)
         (\<lambda>cfg. io_bind (mark_restored X cfg)
           (\<lambda>new. io_bind (io_wrap ''updating F5LoadBalancerConfig conditions after restore: %w'' [] (patch_config_status X cfg new))
             (\<lambda>cfg. io_bind
                (if fs_EnableApplicationLB (fc_Spec cfg)
                 then io_wrap ''restoring svc-lb-bridge in Shoot after migration: %w'' [] (reconcileCISInShoot X ex cfg)
                 else io_return ())
                (\<lambda>_. put_output X ex cfg OpSucceeded ''restored on new Seed'')))))"

definition migrated_status :: "F5Status \<Rightarrow> int32 \<Rightarrow> extensionProviderStatus" where
  "migrated_status st port =
     \<lparr>eps_ControlPlaneVIP = fo_VIP st, eps_ControlPlanePort = port, eps_BigIPManagementIP = [], eps_LBServiceID = fo_LBServiceID st,
      eps_VIPPortID = fo_VIPPortID st, eps_VirtualServerID = fo_VirtualServerID st, eps_VirtualServerName = fo_VirtualServerName st\<rparr>"

definition with_migrated :: "string \<Rightarrow> int \<Rightarrow> Extension \<Rightarrow> Extension" where
  "with_migrated raw now ex =
     ex\<lparr>ex_ProviderStatus := Some raw,
        ex_LastOperation := Some \<lparr>op_Type = OpMigrate, op_State = OpSucceeded, op_Progress = 100,
          op_Description = ''CMP resource IDs persisted for Seed migration'', op_LastUpdateTime = now\<rparr>\<rparr>"

definition actuator_Migrate :: "lapi \<Rightarrow> Extension \<Rightarrow> unit lct" where
  "actuator_Migrate X ex =
     io_bind (lask (LGetConfig (ex_Namespace ex) (ex_Name ex)) (l_GetConfig X (ex_Namespace ex) (ex_Name ex)))
       (\<lambda>found. case found of
          Inl (KNotFound e) \<Rightarrow> io_return ()
        | Inl (KError e) \<Rightarrow> io_fail (Wrapf ''getting F5LoadBalancerConfig for migration: %w'' [] (OtherErr e))
        | Inr cfg \<Rightarrow>
            io_bind (frontend_port X ex)
              (\<lambda>port. let raw = write_provider_status (migrated_status (fc_Status cfg) port) in
                 io_bind (io_wrap ''patching Extension status for migration: %w'' []
                            (patch_extension_status X ex (\<lambda>now. with_migrated raw now ex)))
                   (\<lambda>ex. io_ignore (cleanupCISInShoot X ex))))"

definition updateF5Status :: "lapi \<Rightarrow> Extension \<Rightarrow> string \<Rightarrow> string \<Rightarrow> unit lct" where
  "updateF5Status X ex vip vsName =
     io_bind (io_wrap ''getting F5LoadBalancerConfig %s: %w'' [config_key ex]
                (lcall (LGetConfig (ex_Namespace ex) (ex_Name ex)) (l_GetConfig X (ex_Namespace ex) (ex_Name ex))))
       (\<lambda>cfg. io_bind (io_wrap ''updating F5LoadBalancerConfig status %s: %w'' [config_key ex]
                 (update_status X (cfg\<lparr>fc_Status := (fc_Status cfg)\<lparr>fo_VIP := vip, fo_VirtualServerName := vsName\<rparr>\<rparr>)))
         (\<lambda>_. io_return ()))"

subsection \<open>The controller\<close>

text \<open>The patch that clears the operation, if there is one.\<close>

definition clear_operation :: "lapi \<Rightarrow> Extension \<Rightarrow> unit lct" where
  "clear_operation X latest =
     (case clearGardenerOperationAnnotation (ex_Annotations latest) of
        (ann, False) \<Rightarrow> io_return ()
      | (ann, True) \<Rightarrow>
          let new = latest\<lparr>ex_Annotations := ann\<rparr> in
          io_bind (lcall (LPatchExtension latest new) (l_PatchExtension X latest new)) (\<lambda>_. io_return ()))"

definition get_extension :: "lapi \<Rightarrow> string \<Rightarrow> string \<Rightarrow> Extension lct" where
  "get_extension X ns name = lcall (LGetExtension ns name) (l_GetExtension X ns name)"

definition update_extension :: "lapi \<Rightarrow> Extension \<Rightarrow> Extension lct" where
  "update_extension X ex = lcall (LUpdateExtension ex) (l_UpdateExtension X ex)"

definition ext_live :: "lapi \<Rightarrow> string \<Rightarrow> string \<Rightarrow> Extension \<Rightarrow> unit lct" where
  "ext_live X ns name ex =
     (if ext_finalizerName \<notin> set (ex_Finalizers ex)
      then io_bind (update_extension X (ex\<lparr>ex_Finalizers := ex_Finalizers ex @ [ext_finalizerName]\<rparr>)) (\<lambda>_. io_return ())
      else io_try (actuator_Reconcile X ex)
        (\<lambda>r. case r of
           Inl e \<Rightarrow> io_bind (levent ''Warning'' ''ReconcileFailed'') (\<lambda>_. io_fail e)
         | Inr _ \<Rightarrow> io_bind (levent ''Normal'' ''Reconciled'')
             (\<lambda>_. io_bind (get_extension X ns name) (clear_operation X))))"

definition ext_deleting :: "lapi \<Rightarrow> string \<Rightarrow> string \<Rightarrow> Extension \<Rightarrow> unit lct" where
  "ext_deleting X ns name ex =
     (if ext_finalizerName \<notin> set (ex_Finalizers ex) then io_return ()
      else io_try (actuator_Delete X ex)
        (\<lambda>r. case r of
           Inl e \<Rightarrow> io_bind (levent ''Warning'' ''DeleteFailed'') (\<lambda>_. io_fail e)
         | Inr _ \<Rightarrow> io_bind (levent ''Normal'' ''Deleted'')
             (\<lambda>_. io_bind (io_try (get_extension X ns name)
                            (\<lambda>r. case r of Inl e \<Rightarrow> io_return () | Inr latest \<Rightarrow> io_ignore (clear_operation X latest)))
               (\<lambda>_. io_bind (update_extension X (ex\<lparr>ex_Finalizers := removeAll ext_finalizerName (ex_Finalizers ex)\<rparr>))
                 (\<lambda>_. io_return ())))))"

definition ext_Reconcile :: "lapi \<Rightarrow> string \<Rightarrow> string \<Rightarrow> unit lct" where
  "ext_Reconcile X ns name =
     io_bind (lask (LGetExtension ns name) (l_GetExtension X ns name))
       (\<lambda>found. case found of
          Inl (KNotFound e) \<Rightarrow> io_return ()
        | Inl (KError e) \<Rightarrow> io_fail (OtherErr e)
        | Inr ex \<Rightarrow>
            if \<not> isSupportedExtensionType (ex_Type ex) then io_return ()
            else if ex_DeletionTimestamp ex = None then ext_live X ns name ex else ext_deleting X ns name ex)"

text \<open>The Extensions whose configuration refers to a Secret that changed.\<close>

definition secret_request :: "lapi \<Rightarrow> string \<Rightarrow> string \<Rightarrow> (string \<times> string) list \<Rightarrow> F5Config \<Rightarrow> (string \<times> string) list lct" where
  "secret_request X ns name requests cfg =
     (let ref = trim_space (fs_CredentialsReferenceName (fc_Spec cfg)) in
      if ref = [] then io_return requests
      else io_bind (lask (LGetReference (fc_Namespace cfg) ref) (l_GetObjectByReference X (fc_Namespace cfg) ref))
        (\<lambda>found. io_return (case found of
           Inl e \<Rightarrow> requests
         | Inr secret \<Rightarrow> if cs_Namespace secret = ns \<and> cs_Name secret = name then requests @ [(fc_Namespace cfg, fc_Name cfg)] else requests)))"

definition mapSecretToExtensions :: "lapi \<Rightarrow> string \<Rightarrow> string \<Rightarrow> (string \<times> string) list lct" where
  "mapSecretToExtensions X ns name =
     io_bind (lask (LListConfigs ns) (l_ListConfigs X ns))
       (\<lambda>found. case found of
          Inl e \<Rightarrow> io_return []
        | Inr cfgs \<Rightarrow> io_fold (secret_request X ns name) cfgs [])"

end
