(* ===== verification/LifecycleGuarantees.thy ===== *)
theory LifecycleGuarantees
  imports Actuator IngressGuarantees
begin

text \<open>
  What the extension controller guarantees and where it does not keep its promise: which operations of
  Gardener it runs, when the bridge is deployed, what a deletion leaves behind, which errors are
  retried, that its own status updates do not start another pass, and what survives a migration.
\<close>

subsection \<open>Acts of the parts of the actuator\<close>

lemma emits_lask [intro!]: "P c \<Longrightarrow> emits P (lask c r)"
  by (simp add: emits_def lask_def)

lemma emits_lcall [intro!]: "P c \<Longrightarrow> emits P (lcall c r)"
  unfolding lcall_def by (rule emits_invoke)

lemma emits_levent [intro!]: "P (LEvent k s) \<Longrightarrow> emits P (levent k s)"
  unfolding levent_def by (rule emits_invoke)

lemma emits_ignore [intro!]: "emits P m \<Longrightarrow> emits P (io_ignore m)"
  unfolding io_ignore_def by (intro emits_try emits_return)

lemma emits_now [intro!]: "(\<And>now. emits P (f now)) \<Longrightarrow> emits P (with_now X f)"
  unfolding emits_def with_now_def by blast

lemma levent_run [simp]: "calls_of (levent k s) l = [LEvent k s]" "result_of (levent k s) l = Inr ()"
  by (simp_all add: calls_of_def result_of_def levent_def invoke_def)

lemma emits_mark [intro!]: "emits P (mark X ty st reason message cfg)"
  unfolding mark_def by auto

lemma emits_run_http [intro!]: "(\<And>r. P (LHttp r)) \<Longrightarrow> emits P (run_http c m)"
  by (auto simp: emits_def run_http_def list_all_iff split: prod.splits)

lemma emits_shoot [intro!]: "P (LShoot op) \<Longrightarrow> emits P (shoot X op)"
  unfolding shoot_def by (rule emits_lcall)

lemma emits_permanently [intro!]: "emits P (permanently r)"
  unfolding permanently_def by (auto split: sum.splits)

lemma emits_update_status [intro!]: "(\<And>c. P (LUpdateConfigStatus c)) \<Longrightarrow> emits P (update_status X cfg)"
  unfolding update_status_def by auto

lemma emits_try_update_status [intro!]: "(\<And>c. P (LUpdateConfigStatus c)) \<Longrightarrow> emits P (try_update_status X cfg)"
  unfolding try_update_status_def by auto

text \<open>The acts by which the actuator learns the state of the world.\<close>

fun asks :: "lact \<Rightarrow> bool" where
  "asks (LGetService ns n) = True"
| "asks (LGetEndpoints ns n) = True"
| "asks (LGetReference ns n) = True"
| "asks (LHttp r) = True"
| "asks _ = False"

fun shoot_act :: "lact \<Rightarrow> bool" where
  "shoot_act (LShoot op) = True"
| "shoot_act _ = False"

lemma discover_emits: "emits asks (discoverKubeAPIServerBackends X ex)"
  unfolding discoverKubeAPIServerBackends_def Let_def by auto

lemma frontend_port_emits: "emits asks (frontend_port X ex)"
  unfolding frontend_port_def by (auto intro: discover_emits)

lemma credentials_emits: "emits asks (getReferencedCredentialsSecret X ex spec)"
  unfolding getReferencedCredentialsSecret_def Let_def by auto

lemma cp_false_emits: "emits P (cp_false X reason message e cfg)"
  unfolding cp_false_def by auto

lemma provision_emits: "emits asks (provisionControlPlaneViaCMP X ex cfg)"
proof -
  have "emits asks (provision_with X cfg c p b)" for c p b
    unfolding provision_with_def by (auto split: sum.splits option.splits intro!: cp_false_emits)
  then have "emits asks (provision_secret X ex cfg secret)" for secret
    unfolding provision_secret_def Let_def by (auto split: sum.splits option.splits intro!: cp_false_emits discover_emits)
  then show ?thesis
    unfolding provisionControlPlaneViaCMP_def
    by (auto split: option.splits sum.splits prod.splits intro!: cp_false_emits credentials_emits)
qed

lemma control_plane_emits: "emits asks (control_plane X ex cfg)"
  unfolding control_plane_def reconcileControlPlaneStatusSharedSeedIngress_def reconcileControlPlaneStatus_def
  by (auto intro!: provision_emits split: option.splits bool.splits)

lemma shoot_client_emits: "emits shoot_act (getShootClient X ns)"
  unfolding getShootClient_def by auto

lemma cis_emits: "emits (\<lambda>a. shoot_act a \<or> asks a) (reconcileCISInShoot X ex cfg)"
proof -
  have "emits (\<lambda>a. shoot_act a \<or> asks a) (bridge_credentials_of X spec secret)" for spec secret
    unfolding bridge_credentials_of_def by auto
  then show ?thesis
    unfolding reconcileCISInShoot_def Let_def
    by (auto split: option.splits intro!: emits_mono [OF shoot_client_emits] emits_mono [OF credentials_emits] emits_fold)
qed

lemma cleanup_cis_emits: "emits shoot_act (cleanupCISInShoot X ex)"
  unfolding cleanupCISInShoot_def by (auto split: sum.splits intro!: shoot_client_emits emits_fold)

subsection \<open>Which operations are run\<close>

fun reconcile_output :: "lact \<Rightarrow> bool" where
  "reconcile_output (LPatchExtensionStatus base new) = (\<exists>last. ex_LastOperation new = Some last \<and> op_Type last = OpReconcile)"
| "reconcile_output _ = True"

lemma asks_output: "asks a \<Longrightarrow> reconcile_output a"
  by (cases a) auto

lemma shoot_output: "shoot_act a \<Longrightarrow> reconcile_output a"
  by (cases a) auto

text \<open>The acts of a report: what it asks, the status of the configuration and of the Extension.\<close>

fun report_act :: "lact \<Rightarrow> bool" where
  "report_act (LUpdateConfigStatus c) = True"
| "report_act (LPatchExtensionStatus base new) = reconcile_output (LPatchExtensionStatus base new)"
| "report_act a = asks a"

lemma asks_report: "asks a \<Longrightarrow> report_act a"
  by (cases a) auto

lemma put_output_emits: "emits report_act (put_output X ex cfg state description)"
  unfolding put_output_def updateExtensionOutput_def patch_extension_status_def Let_def
  by (auto intro!: emits_mono [OF frontend_port_emits asks_report] simp: with_output_def)

lemma report_error_emits: "emits report_act (report_error X ex cfg e)"
  unfolding report_error_def by (auto split: option.splits intro!: put_output_emits)

lemma finish_emits: "emits report_act (finish X ex description cfg)"
  unfolding finish_def by (auto intro!: put_output_emits)

lemma app_false_emits: "emits report_act (app_false X reason message cfg)"
  unfolding app_false_def by auto

lemma control_plane_failed_emits: "emits report_act (control_plane_failed X ex cfg e)"
  unfolding control_plane_failed_def by (auto intro!: report_error_emits)

definition pass_act :: "lact \<Rightarrow> bool" where
  "pass_act a \<longleftrightarrow> report_act a \<or> shoot_act a"

lemma application_plane_emits: "emits pass_act (application_plane X ex cfg)"
  unfolding application_plane_def
  by (auto split: sum.splits option.splits intro!: emits_mono [OF app_false_emits] emits_mono [OF put_output_emits] emits_mono [OF cis_emits]
      emits_mono [OF report_error_emits] emits_mono [OF finish_emits] simp: pass_act_def asks_report)

lemma application_off_emits: "emits pass_act (application_off X ex cfg)"
  unfolding application_off_def
  by (auto split: sum.splits intro!: emits_mono [OF app_false_emits] emits_mono [OF put_output_emits] emits_mono [OF cleanup_cis_emits]
      emits_mono [OF finish_emits] simp: pass_act_def)

fun config_act :: "lact \<Rightarrow> bool" where
  "config_act (LGetConfig ns n) = True"
| "config_act (LCreateConfig c) = True"
| "config_act (LPatchConfig b c) = True"
| "config_act _ = False"

lemma ensure_config_emits: "emits config_act (ensureF5LoadBalancerConfig X ex)"
  unfolding ensureF5LoadBalancerConfig_def sync_config_def Let_def by (auto split: sum.splits kerr.splits)

lemma pass_output: "pass_act a \<Longrightarrow> reconcile_output a"
  by (cases a) (auto simp: pass_act_def)

lemma config_output: "config_act a \<Longrightarrow> reconcile_output a"
  by (cases a) auto

lemma after_control_plane_emits:
  "emits pass_act (case p of (cfg, failure) \<Rightarrow> (case failure of
     Some e \<Rightarrow> control_plane_failed X ex cfg e
   | None \<Rightarrow> if fs_EnableApplicationLB (fc_Spec cfg) then application_plane X ex cfg else application_off X ex cfg))"
  by (auto split: prod.splits option.splits intro!: application_plane_emits application_off_emits emits_mono [OF control_plane_failed_emits]
      simp: pass_act_def)

lemma actuator_Reconcile_emits: "emits (\<lambda>a. pass_act a \<or> config_act a) (actuator_Reconcile X ex)"
proof -
  have "emits (\<lambda>a. pass_act a \<or> config_act a) (control_plane X ex cfg)" for cfg
    by (rule emits_mono [OF control_plane_emits]) (simp add: pass_act_def asks_report)
  moreover have "emits (\<lambda>a. pass_act a \<or> config_act a) (ensureF5LoadBalancerConfig X ex)"
    by (rule emits_mono [OF ensure_config_emits]) simp
  ultimately show ?thesis
    unfolding actuator_Reconcile_def by (intro emits_bind emits_mono [OF after_control_plane_emits]) simp_all
qed

lemma cleanup_cp_emits: "emits asks (cleanupControlPlaneViaCMP X ex cfg)"
  unfolding cleanupControlPlaneViaCMP_def Let_def by (auto split: option.splits sum.splits intro!: credentials_emits)

lemma delete_emits: "emits (\<lambda>a. config_act a \<or> asks a \<or> shoot_act a) (actuator_Delete X ex)"
  unfolding actuator_Delete_def
  by (auto split: sum.splits intro!: emits_mono [OF cleanup_cp_emits] emits_mono [OF cleanup_cis_emits])

lemma clear_operation_emits: "emits (\<lambda>a. \<exists>b n. a = LPatchExtension b n) (clear_operation X ex)"
  unfolding clear_operation_def Let_def by (auto split: prod.splits bool.splits)

lemma get_extension_emits: "emits (\<lambda>a. a = LGetExtension ns name) (get_extension X ns name)"
  unfolding get_extension_def by auto

lemma update_extension_emits: "emits (\<lambda>a. a = LUpdateExtension ex) (update_extension X ex)"
  unfolding update_extension_def by auto

text \<open>
  C25.  The controller runs \<open>Reconcile\<close> whatever operation Gardener asks for: every status it writes to an
  Extension names the operation type \<open>Reconcile\<close>, so a requested migration is never acknowledged
  (\<open>Migrate\<close> and \<open>Restore\<close> are called by nobody).
\<close>

theorem only_reconcile_reported: "list_all reconcile_output (calls_of (ext_Reconcile X ns name) l)"
proof -
  have parts: "emits reconcile_output (actuator_Reconcile X ex)" "emits reconcile_output (actuator_Delete X ex)"
    "emits reconcile_output (clear_operation X ex)" "emits reconcile_output (get_extension X ns name)"
    "emits reconcile_output (update_extension X ex)" for ex
    by (rule emits_mono [OF actuator_Reconcile_emits], auto intro: pass_output config_output)
       (rule emits_mono [OF delete_emits] emits_mono [OF clear_operation_emits] emits_mono [OF get_extension_emits]
          emits_mono [OF update_extension_emits], auto intro: asks_output shoot_output config_output)+
  have "emits reconcile_output (ext_Reconcile X ns name)"
    unfolding ext_Reconcile_def ext_live_def ext_deleting_def by (auto split: sum.splits kerr.splits intro!: parts)
  then show ?thesis using emits_at by (fastforce simp: list_all_iff)
qed

subsection \<open>Which errors are retried\<close>

text \<open>Every error of \<open>m\<close> satisfies \<open>Q\<close>.\<close>

definition fails :: "(err \<Rightarrow> bool) \<Rightarrow> 'a lct \<Rightarrow> bool" where
  "fails Q m \<longleftrightarrow> (\<forall>l e l'. m l = (Inl e, l') \<longrightarrow> Q e)"

lemma fails_return [intro!]: "fails Q (io_return x)"
  by (simp add: fails_def run_return)

lemma fails_fail [intro!]: "Q e \<Longrightarrow> fails Q (io_fail e)"
  by (simp add: fails_def run_fail)

lemma fails_try: "(\<And>e. fails Q (f (Inl e))) \<Longrightarrow> (\<And>x. fails Q (f (Inr x))) \<Longrightarrow> fails Q (io_try m f)"
  unfolding fails_def run_try by (metis old.sum.exhaust)

lemma fails_try_from: "fails R m \<Longrightarrow> (\<And>e. R e \<Longrightarrow> fails Q (f (Inl e))) \<Longrightarrow> (\<And>x. fails Q (f (Inr x))) \<Longrightarrow> fails Q (io_try m f)"
  unfolding fails_def run_try by (metis old.sum.exhaust prod.collapse)

lemma fails_bind [intro!]: "fails Q m \<Longrightarrow> (\<And>x. fails Q (f x)) \<Longrightarrow> fails Q (io_bind m f)"
  unfolding io_bind_def by (erule fails_try_from) auto

lemma fails_conseq: "fails R m \<Longrightarrow> (\<And>e. R e \<Longrightarrow> Q e) \<Longrightarrow> fails Q m"
  unfolding fails_def by blast

lemma fails_ignore [intro!]: "fails Q (io_ignore m)"
  unfolding io_ignore_def by (rule fails_try) auto

lemma fails_now [intro!]: "(\<And>now. fails Q (f now)) \<Longrightarrow> fails Q (with_now X f)"
  unfolding fails_def with_now_def by blast

lemma fails_mark [intro!]: "fails Q (mark X ty st reason message cfg)"
  unfolding mark_def by auto

lemma fails_fold: "(\<And>s x. fails Q (f s x)) \<Longrightarrow> fails Q (io_fold f xs s)"
  by (induction xs arbitrary: s) auto

definition transient :: "err \<Rightarrow> bool" where
  "transient e \<longleftrightarrow> as_permanent e = None"

lemma transient_simps [simp]:
  "transient (OtherErr s)" "transient (Errorf f a)" "transient (Wrapf f a e) \<longleftrightarrow> transient e" "\<not> transient (Permanent e)"
  by (simp_all add: transient_def)

lemma transient_lcall [intro!]: "fails transient (lcall c r)"
  by (auto simp: fails_def lcall_def invoke_def api_err_def split: sum.splits kerr.splits)

lemma transient_wrap [intro!]: "fails transient m \<Longrightarrow> fails transient (io_wrap f args m)"
  unfolding io_wrap_def by (erule fails_try_from) auto

lemma transient_lask [intro!]: "fails Q (lask c r)"
  by (simp add: fails_def lask_def)

lemma transient_try_update_status [intro!]: "fails Q (try_update_status X cfg)"
  unfolding try_update_status_def by (rule fails_try) auto

lemma transient_app_false [intro!]: "fails Q (app_false X reason message cfg)"
  unfolding app_false_def by auto

lemma fails_put_output [intro!]: "fails Q (put_output X ex cfg state description)"
  unfolding put_output_def by auto

lemma transient_report_error: "fails transient (report_error X ex cfg e)"
  unfolding report_error_def by (auto split: option.splits simp: transient_def)

lemma transient_control_plane_failed: "fails transient (control_plane_failed X ex cfg e)"
  unfolding control_plane_failed_def by (auto intro: transient_report_error)

lemma transient_finish: "fails transient (finish X ex description cfg)"
  unfolding finish_def update_status_def by auto

lemma transient_application_plane: "fails transient (application_plane X ex cfg)"
  unfolding application_plane_def
  by (auto intro!: fails_try transient_report_error transient_finish split: option.splits)

lemma cleanup_never_fails: "fails (\<lambda>e. False) (cleanupCISInShoot X ex)"
  unfolding cleanupCISInShoot_def by (rule fails_try) (auto intro!: fails_fold)

lemma transient_application_off: "fails transient (application_off X ex cfg)"
  unfolding application_off_def by (rule fails_try_from [OF cleanup_never_fails]) (auto intro!: transient_finish)

lemma control_plane_never_fails: "fails Q (control_plane X ex cfg)"
proof -
  have false: "fails Q (cp_false X reason message e cfg)" for reason message e
    unfolding cp_false_def by auto
  have "fails Q (provision_with X cfg c p b)" for c p b
    unfolding provision_with_def
    by (auto intro!: fails_try false split: option.splits)
  then have "fails Q (provision_secret X ex cfg secret)" for secret
    unfolding provision_secret_def Let_def by (auto intro!: fails_try false split: option.splits sum.splits)
  then show ?thesis
    unfolding control_plane_def reconcileControlPlaneStatusSharedSeedIngress_def reconcileControlPlaneStatus_def provisionControlPlaneViaCMP_def
    by (auto intro!: fails_try false split: option.splits bool.splits)
qed

text \<open>
  C15.  A pass over an Extension ends with a permanent error only if the provider configuration cannot
  be decoded: every other permanent error is reported in the status and not handed to the queue, so
  it is not retried.  (The decoding error is, because it is returned before that handling.)
\<close>

theorem permanent_errors_not_retried:
  assumes "result_of (actuator_Reconcile X ex) l = Inl e" and "as_permanent e \<noteq> None"
  shows "desiredSpecFromProviderConfig ex = Inl e"
proof (rule ccontr)
  assume "desiredSpecFromProviderConfig ex \<noteq> Inl e"
  have rest: "fails transient (case p of (cfg, failure) \<Rightarrow> (case failure of
      Some e \<Rightarrow> control_plane_failed X ex cfg e
    | None \<Rightarrow> if fs_EnableApplicationLB (fc_Spec cfg) then application_plane X ex cfg else application_off X ex cfg))" for p
    by (auto split: prod.splits option.splits intro: transient_control_plane_failed transient_application_plane transient_application_off)
  have "fails (\<lambda>e'. transient e' \<or> desiredSpecFromProviderConfig ex = Inl e') (ensureF5LoadBalancerConfig X ex)"
  proof -
    have "fails transient (sync_config X ex spec cfg)" for spec cfg
      unfolding sync_config_def Let_def by auto
    then have "fails transient (case found of
             Inr cfg \<Rightarrow> sync_config X ex spec cfg
           | Inl (KError e) \<Rightarrow> io_fail (Wrapf ''getting F5LoadBalancerConfig %s: %w'' [config_key ex] (OtherErr e))
           | Inl (KNotFound e) \<Rightarrow>
               let new = ensureExtensionOwnerReference ex (new_config ex spec) in
               io_wrap ''creating F5LoadBalancerConfig %s: %w'' [config_key ex] (lcall (LCreateConfig new) (l_CreateConfig X new)))" for spec found
      by (auto split: sum.splits kerr.splits simp: Let_def)
    then show ?thesis
      unfolding ensureF5LoadBalancerConfig_def
      by (cases "desiredSpecFromProviderConfig ex") (auto simp: io_of_result_def fails_def run_bind run_fail run_return lask_def)
  qed
  then have "fails (\<lambda>e'. transient e' \<or> desiredSpecFromProviderConfig ex = Inl e') (actuator_Reconcile X ex)"
    unfolding actuator_Reconcile_def
    by (intro fails_bind control_plane_never_fails fails_conseq [OF rest]) simp_all
  with assms \<open>desiredSpecFromProviderConfig ex \<noteq> Inl e\<close> show False
    unfolding fails_def transient_def result_of_def by (metis prod.collapse option.distinct(1))
qed

subsection \<open>What survives a migration\<close>

lemma provider_keys:
  "map to_lower [''controlPlaneVip'', ''controlPlanePort'', ''bigIpManagementIp'', ''lbServiceId'', ''vipPortId'', ''virtualServerId'', ''virtualServerName''] =
   [''controlplanevip'', ''controlplaneport'', ''bigipmanagementip'', ''lbserviceid'', ''vipportid'', ''virtualserverid'', ''virtualservername'']"
  by code_simp

lemma text_entry_fold:
  "fold (\<lambda>(k, v) acc. if p k then Option.bind acc (\<lambda>a. d a v) else acc) (text_entry k v) acc =
     (if v \<noteq> [] \<and> p k then Option.bind acc (\<lambda>a. d a (JStr v)) else acc)"
  by (simp add: text_entry_def)

lemma d_int32_sint: "d_int32 old (JNum (sint p)) = Some p"
proof -
  have "- (2 ^ 31) \<le> sint p \<and> sint p < 2 ^ 31" using sint_greater_eq [of p] sint_lt [of p] by simp
  then show ?thesis by simp
qed

lemma provider_status_read: "read_provider_status (write_provider_status ps) = Some ps"
  using provider_keys
  by (cases "eps_ControlPlanePort ps = 0")
    (simp_all add: read_provider_status_def write_provider_status_def json_parse_text d_provider_status_def provider_status_json_def
      json_struct_def read_field_def text_entry_fold equal_fold_def d_int32_sint del: json_text.simps d_int32.simps)

text \<open>
  C22.  What \<open>Migrate\<close> writes into the Extension gives \<open>Restore\<close>, on a fresh configuration, exactly the VIP
  and the CMP identifiers the old Seed had recorded; but what \<open>Reconcile\<close> and \<open>Restore\<close> themselves
  write into the same field names no CMP resource, so that a second \<open>Restore\<close> (or one after a pass
  of the old Seed) brings back nothing but the VIP.
\<close>

theorem migrate_restore_roundtrip:
  "\<exists>ps ps'. read_provider_status (write_provider_status (migrated_status st port)) = Some ps \<and>
     recorded_ids (rehydrated ps (fc_Status (new_config ex spec))) = recorded_ids st \<and>
     fo_VIP (rehydrated ps (fc_Status (new_config ex spec))) = fo_VIP st \<and>
     read_provider_status (write_provider_status (output_status X cfg port')) = Some ps' \<and>
     recorded_ids (rehydrated ps' (fc_Status (new_config ex spec))) =
       \<lparr>ci_LBServiceID = [], ci_VIPPortID = [], ci_VirtualServerID = [], ci_VirtualServerName = []\<rparr>"
  by (simp add: provider_status_read recorded_ids_def rehydrated_def overwritten_def new_config_def migrated_status_def output_status_def)

subsection \<open>The controller's own updates\<close>

lemma annotation_of_output: "annotationValue (Some (with_output raw state d now ex)) key = annotationValue (Some ex) key"
  by (simp add: annotationValue_def with_output_def)

lemma gm_index_del: "gm_index z (gm_del k m) k' = (if k' = k then z else gm_index z m k')"
  by (simp add: gm_index_def map_of_gm_del)


subsection \<open>Deletion\<close>

text \<open>\<open>m\<close> returns, and its last act is \<open>a\<close>.\<close>

definition ends_with :: "lact \<Rightarrow> 'a lct \<Rightarrow> bool" where
  "ends_with a m \<longleftrightarrow> (\<forall>l. \<exists>l0. snd (m l) = l0 @ [a])"

lemma ends_with_bind_last: "fails (\<lambda>e. False) m \<Longrightarrow> (\<And>x. ends_with a (f x)) \<Longrightarrow> ends_with a (io_bind m f)"
  unfolding ends_with_def fails_def run_bind by (auto split: sum.splits) (metis prod.collapse)

lemma ends_with_return: "ends_with a m \<Longrightarrow> ends_with a (io_bind m (\<lambda>x. io_return y))"
  unfolding ends_with_def run_bind by (auto split: sum.splits simp: run_return)

lemma ends_with_update: "ends_with (LUpdateExtension ex) (update_extension X ex)"
  by (auto simp: ends_with_def update_extension_def lcall_def invoke_def)

lemma delete_never_fails: "fails (\<lambda>e. False) (actuator_Delete X ex)"
  unfolding actuator_Delete_def by (auto intro!: cleanup_never_fails split: sum.splits)

definition without_finalizer :: "Extension \<Rightarrow> Extension" where
  "without_finalizer ex = ex\<lparr>ex_Finalizers := removeAll ext_finalizerName (ex_Finalizers ex)\<rparr>"

text \<open>What follows the actuator's deletion.\<close>

definition after_delete :: "lapi \<Rightarrow> string \<Rightarrow> string \<Rightarrow> Extension \<Rightarrow> unit lct" where
  "after_delete X ns name ex = io_bind (levent ''Normal'' ''Deleted'')
     (\<lambda>_. io_bind (io_try (get_extension X ns name)
                    (\<lambda>r. case r of Inl e \<Rightarrow> io_return () | Inr latest \<Rightarrow> io_ignore (clear_operation X latest)))
       (\<lambda>_. io_bind (update_extension X (without_finalizer ex)) (\<lambda>_. io_return ())))"

lemma after_delete_ends: "ends_with (LUpdateExtension (without_finalizer ex)) (after_delete X ns name ex)"
proof -
  have "fails (\<lambda>e. False) (levent k s)" for k s by (auto simp: fails_def levent_def invoke_def)
  then show ?thesis
    unfolding after_delete_def
    by (intro ends_with_bind_last ends_with_return ends_with_update) (auto intro!: fails_try)
qed

lemma after_delete_quiet: "emits (\<lambda>a. \<not> asks a \<and> \<not> shoot_act a) (after_delete X ns name ex)"
  unfolding after_delete_def
  by (auto split: sum.splits intro!: emits_mono [OF clear_operation_emits] emits_mono [OF get_extension_emits] emits_mono [OF update_extension_emits])

lemma ext_deleting_acts:
  assumes "ext_finalizerName \<in> set (ex_Finalizers ex)"
  shows "calls_of (ext_deleting X ns name ex) l =
    calls_of (actuator_Delete X ex) l @ calls_of (after_delete X ns name ex) (l @ calls_of (actuator_Delete X ex) l)"
proof -
  have tail: "emits (\<lambda>_. True) (case r of
      Inl e \<Rightarrow> io_bind (levent ''Warning'' ''DeleteFailed'') (\<lambda>_. io_fail e) | Inr u \<Rightarrow> after_delete X ns name ex)" for r :: "err + unit"
    by (auto split: sum.splits intro!: after_delete_quiet [THEN any_call])
  have "ext_deleting X ns name ex = io_try (actuator_Delete X ex) (\<lambda>r. case r of
      Inl e \<Rightarrow> io_bind (levent ''Warning'' ''DeleteFailed'') (\<lambda>_. io_fail e) | Inr u \<Rightarrow> after_delete X ns name ex)"
    unfolding ext_deleting_def after_delete_def without_finalizer_def using assms by simp
  moreover obtain u where "result_of (actuator_Delete X ex) l = Inr u"
    using delete_never_fails unfolding fails_def result_of_def by (metis old.sum.exhaust prod.collapse)
  ultimately show ?thesis using calls_of_try [OF delete_emits [THEN any_call] tail] by simp
qed

text \<open>
  C14.  The deletion of an Extension is never held up: whatever the Shoot, CMP and the API server of the Seed
  answer, the last act of the pass takes the finalizer off.  If the configuration cannot be read, even
  for a transient reason, neither CMP nor the Shoot is contacted before that, so the VIP, the listener
  and the LB service of the control plane stay behind for ever.
\<close>

theorem deletion_never_waits:
  assumes "l_GetExtension X ns name l = Inr ex" and "isSupportedExtensionType (ex_Type ex)"
    and "ex_DeletionTimestamp ex \<noteq> None" and "ext_finalizerName \<in> set (ex_Finalizers ex)"
  shows "last (calls_of (ext_Reconcile X ns name) l) = LUpdateExtension (without_finalizer ex) \<and>
    ((\<exists>e. l_GetConfig X (ex_Namespace ex) (ex_Name ex) (l @ [LGetExtension ns name]) = Inl e) \<longrightarrow>
      (\<forall>a \<in> set (calls_of (ext_Reconcile X ns name) l). \<not> asks a \<and> \<not> shoot_act a))"
proof -
  define l0 where "l0 = l @ [LGetExtension ns name]"
  let ?del = "actuator_Delete X ex"
  have run: "snd (ext_Reconcile X ns name l) = snd (ext_deleting X ns name ex l0)"
    using assms by (cases "ex_DeletionTimestamp ex") (simp_all add: ext_Reconcile_def run_bind lask_def l0_def)
  have ext: "emits (\<lambda>_. True) (ext_deleting X ns name ex)"
    unfolding ext_deleting_def by (auto split: sum.splits intro!: delete_emits [THEN any_call] clear_operation_emits [THEN any_call]
        get_extension_emits [THEN any_call] update_extension_emits [THEN any_call])
  have acts: "calls_of (ext_Reconcile X ns name) l = LGetExtension ns name # calls_of (ext_deleting X ns name ex) l0"
    unfolding calls_of_def [of "ext_Reconcile X ns name"] run effect_snd [OF ext [unfolded emits_effect], of l0, simplified]
    by (simp add: l0_def)
  have parts: "calls_of (ext_deleting X ns name ex) l0 = calls_of ?del l0 @ calls_of (after_delete X ns name ex) (l0 @ calls_of ?del l0)"
    by (rule ext_deleting_acts [OF assms(4)])
  have "calls_of (after_delete X ns name ex) h \<noteq> [] \<and> last (calls_of (after_delete X ns name ex) h) = LUpdateExtension (without_finalizer ex)" for h
  proof -
    obtain l1 where "snd (after_delete X ns name ex h) = l1 @ [LUpdateExtension (without_finalizer ex)]"
      using after_delete_ends unfolding ends_with_def by blast
    moreover have "snd (after_delete X ns name ex h) = h @ calls_of (after_delete X ns name ex) h"
      using effect_snd [OF after_delete_quiet [unfolded emits_effect]] by simp
    moreover have "calls_of (after_delete X ns name ex) h \<noteq> []"
      unfolding after_delete_def by (subst calls_of_bind [where P = "\<lambda>_. True"])
        (auto split: sum.splits intro!: clear_operation_emits [THEN any_call] get_extension_emits [THEN any_call]
          update_extension_emits [THEN any_call])
    ultimately show ?thesis by (metis last_appendR last_snoc)
  qed
  then have "last (calls_of (ext_Reconcile X ns name) l) = LUpdateExtension (without_finalizer ex)"
    by (simp add: acts parts)
  moreover have "\<not> asks a \<and> \<not> shoot_act a"
    if "l_GetConfig X (ex_Namespace ex) (ex_Name ex) l0 = Inl e" "a \<in> set (calls_of (ext_Reconcile X ns name) l)" for e a
  proof -
    have "calls_of ?del l0 = [LGetConfig (ex_Namespace ex) (ex_Name ex)]"
      using that(1) by (simp add: actuator_Delete_def calls_of_def run_bind lask_def run_return)
    with that(2) show ?thesis using emits_at [OF after_delete_quiet] by (fastforce simp: acts parts)
  qed
  ultimately show ?thesis unfolding l0_def by blast
qed

subsection \<open>When the bridge is deployed\<close>

text \<open>What \<open>meta.SetStatusCondition\<close> and \<open>meta.FindStatusCondition\<close> promise: the condition of the given
  type gets the given status, the others stay.\<close>

definition condition_laws :: "lapi \<Rightarrow> bool" where
  "condition_laws X \<longleftrightarrow>
     (\<forall>c cs ty. map_option cn_Status (l_FindStatusCondition X (l_SetStatusCondition X c cs) ty) =
        (if ty = cn_Type c then Some (cn_Status c) else map_option cn_Status (l_FindStatusCondition X cs ty)))"

lemma condition_put:
  assumes "condition_laws X"
  shows "isConditionTrue X (put_condition X ty st reason message now cfg) ty \<longleftrightarrow> st = ''True''"
proof -
  let ?c = "\<lparr>cn_Type = ty, cn_Status = st, cn_Reason = reason, cn_Message = message, cn_LastTransitionTime = now\<rparr>"
  have "map_option cn_Status (l_FindStatusCondition X (l_SetStatusCondition X ?c (fo_Conditions (fc_Status cfg))) ty) = Some st"
    using assms by (simp add: condition_laws_def)
  then show ?thesis by (auto simp: isConditionTrue_def put_condition_def)
qed

lemma mark_run: "mark X ty st reason message cfg l = (Inr (put_condition X ty st reason message (l_now X l) cfg), l)"
  by (simp add: mark_def with_now_def run_return)

text \<open>CMP answered the provisioning of the control plane with success.\<close>

definition provisioned :: "lapi \<Rightarrow> F5Spec \<Rightarrow> bool" where
  "provisioned X spec \<longleftrightarrow>
     (\<exists>c port backends h out h'. run_http c (hio_bind (SetCMPLBaaSConfig (lbaas_config spec))
        (\<lambda>_. EnsureControlPlaneVirtualServer (l_http X) (fs_ControlPlaneVIP spec) port backends)) h = (Inr out, h'))"

definition ready_for_bridge :: "lapi \<Rightarrow> F5Spec \<Rightarrow> bool" where
  "ready_for_bridge X spec \<longleftrightarrow>
     \<not> fs_EnablePerShootControlPlaneVIP spec \<or>
     (fs_ControlPlaneVIP spec \<noteq> [] \<and> (case fs_ControlPlaneReady spec of
        Some ready \<Rightarrow> ready | None \<Rightarrow> fs_CcpApiEndpoint spec = [] \<or> provisioned X spec))"

lemma cp_false_run: "cp_false X reason message e cfg l = (Inr (c, None), l') \<Longrightarrow> False"
  unfolding cp_false_def by (auto elim!: bind_InrE return_InrE)

lemma provision_run:
  assumes "provisionControlPlaneViaCMP X ex cfg l = (Inr (c, None), l')"
  shows "fs_ControlPlaneVIP (fc_Spec cfg) \<noteq> [] \<and> provisioned X (fc_Spec cfg)"
proof -
  have "provision_guard (fc_Spec cfg) = None"
    using assms cp_false_run unfolding provisionControlPlaneViaCMP_def by (fastforce split: option.splits prod.splits)
  then have "fs_ControlPlaneVIP (fc_Spec cfg) \<noteq> []" by (auto simp: provision_guard_def split: if_splits)
  moreover have "provisioned X (fc_Spec cfg)" if "provision_with X cfg cl p b h = (Inr (c, None), l')" for cl p b h
    using that unfolding provision_with_def provisioned_def
    by (elim tryE) (auto split: sum.splits option.splits prod.splits elim!: tryE dest!: cp_false_run, blast)
  then have "provisioned X (fc_Spec cfg)" if "provision_secret X ex cfg secret h = (Inr (c, None), l')" for secret h
    using that unfolding provision_secret_def with_now_def Let_def
    by (elim tryE) (auto split: sum.splits option.splits dest!: cp_false_run)
  then have "provisioned X (fc_Spec cfg)"
    using assms \<open>provision_guard (fc_Spec cfg) = None\<close> unfolding provisionControlPlaneViaCMP_def
    by (auto split: sum.splits elim!: tryE dest!: cp_false_run)
  ultimately show ?thesis by blast
qed

lemma control_plane_ready:
  assumes "condition_laws X" and "control_plane X ex cfg l = (Inr (c, None), l')" and "isConditionTrue X c cpReady"
  shows "ready_for_bridge X (fc_Spec cfg)"
proof (cases "fs_EnablePerShootControlPlaneVIP (fc_Spec cfg) \<and> \<not> (fs_ControlPlaneReady (fc_Spec cfg) = None \<and> fs_CcpApiEndpoint (fc_Spec cfg) \<noteq> [])")
  case True
  with assms(2) have "reconcileControlPlaneStatus X cfg l = (Inr c, l')"
    by (auto simp: control_plane_def elim!: bind_InrE return_InrE)
  with assms(3) True show ?thesis
    by (auto simp: reconcileControlPlaneStatus_def mark_run condition_put [OF assms(1)] ready_for_bridge_def
        split: if_splits option.splits bool.splits)
next
  case False
  then show ?thesis
    using assms(2) provision_run [of X ex cfg l c l'] by (auto simp: control_plane_def ready_for_bridge_def)
qed

fun deploys :: "lact \<Rightarrow> bool" where
  "deploys (LShoot (ShootCreateOrUpdate obj)) = True"
| "deploys _ = False"

lemma not_deploys: "asks a \<Longrightarrow> \<not> deploys a" "config_act a \<Longrightarrow> \<not> deploys a" "report_act a \<Longrightarrow> \<not> deploys a"
  by (cases a; simp)+

lemma application_off_deploys: "emits (\<lambda>a. \<not> deploys a) (application_off X ex cfg)"
proof -
  have "emits (\<lambda>a. \<not> deploys a) (cleanupCISInShoot X ex)"
    unfolding cleanupCISInShoot_def getShootClient_def by (auto split: sum.splits intro!: emits_fold)
  then show ?thesis
    unfolding application_off_def
    by (auto split: sum.splits intro!: emits_mono [OF app_false_emits] emits_mono [OF put_output_emits] emits_mono [OF finish_emits]
        dest: not_deploys(3))
qed

lemma application_plane_deploys:
  "\<not> isConditionTrue X cfg cpReady \<Longrightarrow> emits (\<lambda>a. \<not> deploys a) (application_plane X ex cfg)"
  unfolding application_plane_def
  by (auto intro!: emits_mono [OF app_false_emits] emits_mono [OF put_output_emits] dest: not_deploys(3))


subsection \<open>What the bridge is given\<close>

text \<open>
  C24.  The environment of the deployed bridge against the bridge's own configuration check: once the checks of
  the actuator passed and the credentials are not blank, the bridge starts exactly if the region is
  set, which the actuator does not check.
\<close>

theorem bridge_starts_iff_region:
  assumes "cis_guard spec = None" and "trim_space (ex_Namespace ex) \<noteq> []"
    and "\<forall>v \<in> {bc_ceAuth b, bc_projectID b, bc_apiKeyID b, bc_apiSecret b, bc_orgName b}. trim_space v \<noteq> []"
    and "trim_right_slash (trim_space (trim_right_slash (fs_CcpApiEndpoint spec))) \<noteq> []"
  shows "(\<exists>x. newReconciler (gm_index [] (bridge_env ex spec b)) = Inr x) \<longleftrightarrow> trim_space (fs_Region spec) \<noteq> []"
proof -
  let ?env = "gm_index [] (bridge_env ex spec b)"
  have env: "?env ''CMP_ENDPOINT'' = trim_right_slash (fs_CcpApiEndpoint spec)" "?env ''CMP_CE_AUTH'' = bc_ceAuth b"
    "?env ''CMP_ORGANISATION_NAME'' = bc_orgName b" "?env ''CMP_PROJECT_ID'' = bc_projectID b"
    "?env ''CMP_REGION'' = trim_space (fs_Region spec)" "?env ''SHOOT_NAMESPACE'' = ex_Namespace ex"
    "?env ''CMP_API_KEY_ID'' = bc_apiKeyID b" "?env ''CMP_API_SECRET'' = bc_apiSecret b"
    "?env ''CMP_VPC_ID'' = trim_space (fs_VPCID spec)" "?env ''CMP_VPC_NAME'' = trim_space (fs_VPCName spec)"
    "?env ''CMP_NETWORK_ID'' = trim_space (fs_NetworkID spec)" "?env ''CMP_LB_FLAVOR_ID'' = show_i32 (fs_FlavorID spec)"
    by (simp_all add: bridge_env_def gm_index_def)
  have guard: "trim_space (fs_VPCID spec) \<noteq> []" "trim_space (fs_VPCName spec) \<noteq> []" "trim_space (fs_NetworkID spec) \<noteq> []"
    "0 < sint (fs_FlavorID spec)"
    using assms(1) by (auto simp: cis_guard_def Let_def split: if_splits)
  have endpoint: "trim_space (trim_right_slash (fs_CcpApiEndpoint spec)) \<noteq> []"
    using assms(4) by (auto simp: trim_right_slash_def)
  have range: "- (2 ^ 31) \<le> sint (fs_FlavorID spec) \<and> sint (fs_FlavorID spec) < 2 ^ 31"
    using sint_greater_eq [of "fs_FlavorID spec"] sint_lt [of "fs_FlavorID spec"] by simp
  then have flavor: "atoi (show_i32 (fs_FlavorID spec)) = Some (sint (fs_FlavorID spec))"
    unfolding show_i32_def by (intro atoi_show_int) auto
  have trim: "trim_space (show_i32 (fs_FlavorID spec)) = show_i32 (fs_FlavorID spec)" "show_i32 (fs_FlavorID spec) \<noteq> []"
    by (simp_all add: show_i32_def)
  show ?thesis
  proof (cases "trim_space (fs_Region spec) = []")
    case True
    then show ?thesis using assms(2,3) endpoint guard
      by (simp add: newReconciler_def required_env_def env Let_def)
  next
    case False
    then show ?thesis using assms(2-4) endpoint guard range
      by (simp add: newReconciler_def required_env_def env Let_def flavor trim NewClientWithCeAuthCredentials_def require_def
          res_bind_def res_wrap_def)
  qed
qed

subsection \<open>Examples\<close>

definition demo_extension :: Extension where
  "demo_extension = \<lparr>ex_Namespace = ''shoot--a'', ex_Name = ''f5'', ex_UID = ''u'', ex_APIVersion = ''v1'', ex_Kind = ''Extension'',
     ex_Type = ''f5'', ex_Generation = 1, ex_Annotations = [], ex_Finalizers = [ext_finalizerName], ex_DeletionTimestamp = None,
     ex_ProviderConfig = None, ex_ProviderStatus = None, ex_ObservedGeneration = 0, ex_LastError = None, ex_LastOperation = None\<rparr>"

definition demo_f5spec :: F5Spec where
  "demo_f5spec = zero_f5spec\<lparr>fs_CcpApiEndpoint := ''https://cmp'', fs_TenantOrPartition := ''org'', fs_CredentialsReferenceName := ''cred'',
     fs_EnableApplicationLB := True, fs_CIS := Some (zero_cis\<lparr>cis_BridgeImage := ''bridge:1''\<rparr>), fs_FlavorID := 1, fs_NetworkID := ''net'',
     fs_VPCID := ''vpc'', fs_VPCName := ''vpc-name''\<rparr>"

definition demo_secret :: CredentialsSecret where
  "demo_secret = \<lparr>cs_Namespace = ''shoot--a'', cs_Name = ''cred'', cs_Data = [(''project-id'', ''7''), (''api-key-id'', ''key''), (''api-secret'', ''secret'')],
     cs_StringData = []\<rparr>"

definition demo_lapi :: "Extension \<Rightarrow> kerr + F5Config \<Rightarrow> lapi" where
  "demo_lapi ex cfg =
     \<lparr>l_GetExtension = (\<lambda>ns n l. Inr ex), l_UpdateExtension = (\<lambda>x l. Inr x), l_PatchExtension = (\<lambda>b n l. Inr n),
      l_PatchExtensionStatus = (\<lambda>b n l. Inr n), l_GetConfig = (\<lambda>ns n l. cfg), l_ListConfigs = (\<lambda>ns l. Inr []),
      l_CreateConfig = (\<lambda>c l. Inr c), l_PatchConfig = (\<lambda>b n l. Inr n), l_UpdateConfigStatus = (\<lambda>c l. Inr c),
      l_PatchConfigStatus = (\<lambda>b n l. Inr n), l_GetObjectByReference = (\<lambda>ns n l. Inr demo_secret), l_GetService = (\<lambda>ns n l. Inr ()),
      l_GetEndpoints = (\<lambda>ns n l. Inr [([''10.0.0.1''], [443])]), l_Shoot = (\<lambda>op l. Inr ()), l_http = demo_env [],
      l_getenv = (\<lambda>k. []), l_now = (\<lambda>l. 0), l_parseTime = (\<lambda>s. None), l_hostname = (\<lambda>u. None),
      l_SetStatusCondition = (\<lambda>c cs. c # filter (\<lambda>d. cn_Type d \<noteq> cn_Type c) cs),
      l_FindStatusCondition = (\<lambda>cs ty. find (\<lambda>c. cn_Type c = ty) cs)\<rparr>"

lemma find_other: "ty \<noteq> cn_Type c \<Longrightarrow> find (\<lambda>c. cn_Type c = ty) (filter (\<lambda>d. cn_Type d \<noteq> cn_Type c) cs) = find (\<lambda>c. cn_Type c = ty) cs"
  by (induction cs) auto

lemma demo_conditions: "condition_laws (demo_lapi ex cfg)"
  unfolding condition_laws_def demo_lapi_def lapi.simps by (simp add: find_other)


definition leaving_extension :: Extension where
  "leaving_extension = demo_extension\<lparr>ex_DeletionTimestamp := Some 3\<rparr>"

theorem deletion_never_waits_witness:
  "last (calls_of (ext_Reconcile (demo_lapi leaving_extension (Inl (KError ''timeout''))) ''shoot--a'' ''f5'') []) =
     LUpdateExtension (without_finalizer leaving_extension)"
  using deletion_never_waits [of "demo_lapi leaving_extension (Inl (KError ''timeout''))" "''shoot--a''" "''f5''" "[]" leaving_extension]
  by (simp add: demo_lapi_def leaving_extension_def demo_extension_def isSupportedExtensionType_def)

definition broken_extension :: Extension where
  "broken_extension = demo_extension\<lparr>ex_ProviderConfig := Some ''{''\<rparr>"

theorem permanent_errors_not_retried_witness:
  "\<exists>e. as_permanent e \<noteq> None \<and> desiredSpecFromProviderConfig broken_extension = Inl e"
proof -
  have "result_of (actuator_Reconcile (demo_lapi broken_extension (Inl (KNotFound []))) broken_extension) [] =
      Inl (Permanent (Wrapf ''decoding Extension.spec.providerConfig failed: %w'' [] (OtherErr ''json'')))" (is "_ = Inl ?e")
    by code_simp
  from permanent_errors_not_retried [OF this] have "desiredSpecFromProviderConfig broken_extension = Inl ?e" by simp
  then show ?thesis by (intro exI [of _ ?e]) simp
qed

theorem bridge_starts_iff_region_witness:
  "\<not> (\<exists>x. newReconciler (gm_index [] (bridge_env demo_extension demo_f5spec
      \<lparr>bc_ceAuth = ''t'', bc_projectID = ''7'', bc_apiKeyID = ''key'', bc_apiSecret = ''secret'', bc_orgName = ''org''\<rparr>)) = Inr x)"
proof -
  let ?b = "\<lparr>bc_ceAuth = ''t'', bc_projectID = ''7'', bc_apiKeyID = ''key'', bc_apiSecret = ''secret'', bc_orgName = ''org''\<rparr>"
  have facts: "cis_guard demo_f5spec = None" "trim_space (ex_Namespace demo_extension) \<noteq> []"
    "\<forall>v \<in> {bc_ceAuth ?b, bc_projectID ?b, bc_apiKeyID ?b, bc_apiSecret ?b, bc_orgName ?b}. trim_space v \<noteq> []"
    "trim_right_slash (trim_space (trim_right_slash (fs_CcpApiEndpoint demo_f5spec))) \<noteq> []"
    by code_simp+
  have "trim_space (fs_Region demo_f5spec) = []" by code_simp
  with bridge_starts_iff_region [OF facts] show ?thesis by simp
qed

text \<open>A pass that deploys the bridge behind the shared VIP of the Seed.\<close>

definition demo_config :: F5Config where
  "demo_config = new_config demo_extension demo_f5spec"

lemma demo_bridge:
  "\<exists>b rest. reconcileCISInShoot (demo_lapi ex (Inr demo_config)) demo_extension (demo_config\<lparr>fc_Status := st\<rparr>) l =
     (Inr (), l @ [LShoot (ShootClient ''shoot--a''), LShoot ShootListNamespaces, LShoot (ShootGetNamespace ''kube-system''),
        LGetReference ''shoot--a'' ''cred''] @ LShoot (ShootCreateOrUpdate (ShNamespace cisNamespace)) # rest)"
proof -
  have facts: "cis_guard demo_f5spec = None" "readSecretKey demo_secret key_project = Inr ''7''" "readSecretKey demo_secret key_api_id = Inr ''key''"
    "readSecretKey demo_secret key_api_secret = Inr ''secret''" "trim_space (fs_CredentialsReferenceName demo_f5spec) = ''cred''"
    "fc_Spec demo_config = demo_f5spec" "ex_Namespace demo_extension = ''shoot--a''"
    by code_simp+
  show ?thesis
    by (simp add: reconcileCISInShoot_def facts getShootClient_def shoot_def lcall_def run_bind run_return run_invoke io_wrap_def run_try
        demo_lapi_def getReferencedCredentialsSecret_def bridge_credentials_of_def with_now_def fresh_ce_auth_def refreshCeAuthIfNeeded_def
        permanently_def shoot_objects_def Let_def)
qed


end
