(* ===== verification/DeepCopy.thy ===== *)
theory DeepCopy
  imports Lifecycle
begin

text \<open>
  The hand-written deep copies of \<open>pkg/apis/f5/v1alpha1/types.go\<close>.  The other theories treat a copied
  object as a value; here the pointers and slices of an object are addresses in a heap, and the
  copies are shown to have the value of the original and to share no cell with it.
\<close>

subsection \<open>Objects in a heap\<close>

type_synonym addr = nat

text \<open>The fields that hold no pointer are kept as a value; a nil pointer or slice is \<open>None\<close>.  The metadata
  and the conditions are copied by their library, so they are values.\<close>

record cis_obj =
  gc_Plain :: CISConfig
  gc_ExtraArgs :: "addr option"

record spec_obj =
  gs_Plain :: F5Spec
  gs_ControlPlaneReady :: "addr option"
  gs_CIS :: "addr option"

record status_obj =
  gt_Plain :: F5Status
  gt_Conditions :: "addr option"

record config_obj =
  gf_Namespace :: string
  gf_Name :: string
  gf_OwnerReferences :: "OwnerReference list"
  gf_Spec :: spec_obj
  gf_Status :: status_obj

record heap =
  hp_next :: addr
  hp_bool :: "addr \<Rightarrow> bool"
  hp_cis :: "addr \<Rightarrow> cis_obj"
  hp_strings :: "addr \<Rightarrow> string list"
  hp_conditions :: "addr \<Rightarrow> Condition list"
  hp_configs :: "addr \<Rightarrow> config_obj list"

type_synonym 'a alloc = "heap \<Rightarrow> 'a \<times> heap"

definition new_bool :: "bool \<Rightarrow> addr alloc" where
  "new_bool b h = (hp_next h, h\<lparr>hp_bool := (hp_bool h)(hp_next h := b), hp_next := Suc (hp_next h)\<rparr>)"

definition new_cis :: "cis_obj \<Rightarrow> addr alloc" where
  "new_cis c h = (hp_next h, h\<lparr>hp_cis := (hp_cis h)(hp_next h := c), hp_next := Suc (hp_next h)\<rparr>)"

definition new_strings :: "string list \<Rightarrow> addr alloc" where
  "new_strings xs h = (hp_next h, h\<lparr>hp_strings := (hp_strings h)(hp_next h := xs), hp_next := Suc (hp_next h)\<rparr>)"

definition new_conditions :: "Condition list \<Rightarrow> addr alloc" where
  "new_conditions xs h = (hp_next h, h\<lparr>hp_conditions := (hp_conditions h)(hp_next h := xs), hp_next := Suc (hp_next h)\<rparr>)"

definition new_configs :: "config_obj list \<Rightarrow> addr alloc" where
  "new_configs xs h = (hp_next h, h\<lparr>hp_configs := (hp_configs h)(hp_next h := xs), hp_next := Suc (hp_next h)\<rparr>)"

text \<open>\<open>if p != nil { q = f(p) }\<close>.\<close>

definition copy_pointer :: "(addr \<Rightarrow> addr alloc) \<Rightarrow> addr option \<Rightarrow> addr option alloc" where
  "copy_pointer f p h = (case p of None \<Rightarrow> (None, h) | Some a \<Rightarrow> (case f a h of (b, h') \<Rightarrow> (Some b, h')))"

subsection \<open>The copies\<close>

definition CISConfig_DeepCopyInto :: "heap \<Rightarrow> cis_obj \<Rightarrow> cis_obj \<times> heap" where
  "CISConfig_DeepCopyInto h c =
     (case copy_pointer (\<lambda>a h. new_strings (hp_strings h a) h) (gc_ExtraArgs c) h of (p, h) \<Rightarrow> (c\<lparr>gc_ExtraArgs := p\<rparr>, h))"

definition F5LoadBalancerConfigSpec_DeepCopyInto :: "heap \<Rightarrow> spec_obj \<Rightarrow> spec_obj \<times> heap" where
  "F5LoadBalancerConfigSpec_DeepCopyInto h s =
     (case copy_pointer (\<lambda>a h. new_bool (hp_bool h a) h) (gs_ControlPlaneReady s) h of
        (ready, h) \<Rightarrow>
          (case copy_pointer (\<lambda>a h. case CISConfig_DeepCopyInto h (hp_cis h a) of (c, h) \<Rightarrow> new_cis c h) (gs_CIS s) h of
             (cis, h) \<Rightarrow> (s\<lparr>gs_ControlPlaneReady := ready, gs_CIS := cis\<rparr>, h)))"

definition F5LoadBalancerConfigStatus_DeepCopyInto :: "heap \<Rightarrow> status_obj \<Rightarrow> status_obj \<times> heap" where
  "F5LoadBalancerConfigStatus_DeepCopyInto h s =
     (case copy_pointer (\<lambda>a h. new_conditions (hp_conditions h a) h) (gt_Conditions s) h of (p, h) \<Rightarrow> (s\<lparr>gt_Conditions := p\<rparr>, h))"

definition F5LoadBalancerConfig_DeepCopyInto :: "heap \<Rightarrow> config_obj \<Rightarrow> config_obj \<times> heap" where
  "F5LoadBalancerConfig_DeepCopyInto h c =
     (case F5LoadBalancerConfigSpec_DeepCopyInto h (gf_Spec c) of
        (s, h) \<Rightarrow> (case F5LoadBalancerConfigStatus_DeepCopyInto h (gf_Status c) of
           (t, h) \<Rightarrow> (c\<lparr>gf_Spec := s, gf_Status := t\<rparr>, h)))"

definition F5LoadBalancerConfig_DeepCopyObject :: "heap \<Rightarrow> config_obj option \<Rightarrow> config_obj option \<times> heap" where
  "F5LoadBalancerConfig_DeepCopyObject h c =
     (case c of None \<Rightarrow> (None, h) | Some c \<Rightarrow> (case F5LoadBalancerConfig_DeepCopyInto h c of (d, h) \<Rightarrow> (Some d, h)))"

fun copy_configs :: "heap \<Rightarrow> config_obj list \<Rightarrow> config_obj list \<times> heap" where
  "copy_configs h [] = ([], h)"
| "copy_configs h (c # cs) =
     (case F5LoadBalancerConfig_DeepCopyInto h c of (d, h) \<Rightarrow> (case copy_configs h cs of (ds, h) \<Rightarrow> (d # ds, h)))"

text \<open>A list is its pointer to the items.\<close>

definition F5LoadBalancerConfigList_DeepCopyInto :: "heap \<Rightarrow> addr option \<Rightarrow> addr option \<times> heap" where
  "F5LoadBalancerConfigList_DeepCopyInto h items =
     copy_pointer (\<lambda>a h. case copy_configs h (hp_configs h a) of (ds, h) \<Rightarrow> new_configs ds h) items h"

subsection \<open>Values and reachable cells\<close>

definition cis_value :: "heap \<Rightarrow> cis_obj \<Rightarrow> CISConfig" where
  "cis_value h c = (gc_Plain c)\<lparr>cis_ExtraArgs := (case gc_ExtraArgs c of None \<Rightarrow> [] | Some a \<Rightarrow> hp_strings h a)\<rparr>"

definition spec_value :: "heap \<Rightarrow> spec_obj \<Rightarrow> F5Spec" where
  "spec_value h s = (gs_Plain s)\<lparr>fs_ControlPlaneReady := map_option (hp_bool h) (gs_ControlPlaneReady s),
     fs_CIS := map_option (\<lambda>a. cis_value h (hp_cis h a)) (gs_CIS s)\<rparr>"

definition status_value :: "heap \<Rightarrow> status_obj \<Rightarrow> F5Status" where
  "status_value h s = (gt_Plain s)\<lparr>fo_Conditions := (case gt_Conditions s of None \<Rightarrow> [] | Some a \<Rightarrow> hp_conditions h a)\<rparr>"

definition config_value :: "heap \<Rightarrow> config_obj \<Rightarrow> F5Config" where
  "config_value h c = \<lparr>fc_Namespace = gf_Namespace c, fc_Name = gf_Name c, fc_OwnerReferences = gf_OwnerReferences c,
     fc_Spec = spec_value h (gf_Spec c), fc_Status = status_value h (gf_Status c)\<rparr>"

definition list_value :: "heap \<Rightarrow> addr option \<Rightarrow> F5Config list" where
  "list_value h items = (case items of None \<Rightarrow> [] | Some a \<Rightarrow> map (config_value h) (hp_configs h a))"

definition cis_cells :: "heap \<Rightarrow> cis_obj \<Rightarrow> addr set" where
  "cis_cells h c = set_option (gc_ExtraArgs c)"

definition spec_cells :: "heap \<Rightarrow> spec_obj \<Rightarrow> addr set" where
  "spec_cells h s = set_option (gs_ControlPlaneReady s) \<union> (\<Union>a \<in> set_option (gs_CIS s). insert a (cis_cells h (hp_cis h a)))"

definition status_cells :: "heap \<Rightarrow> status_obj \<Rightarrow> addr set" where
  "status_cells h s = set_option (gt_Conditions s)"

definition config_cells :: "heap \<Rightarrow> config_obj \<Rightarrow> addr set" where
  "config_cells h c = spec_cells h (gf_Spec c) \<union> status_cells h (gf_Status c)"

definition list_cells :: "heap \<Rightarrow> addr option \<Rightarrow> addr set" where
  "list_cells h items = (\<Union>a \<in> set_option items. insert a (\<Union>c \<in> set (hp_configs h a). config_cells h c))"

text \<open>Two heaps agree on a cell; a heap grows.\<close>

definition same_at :: "heap \<Rightarrow> heap \<Rightarrow> addr \<Rightarrow> bool" where
  "same_at h h' a \<longleftrightarrow> hp_bool h' a = hp_bool h a \<and> hp_cis h' a = hp_cis h a \<and> hp_strings h' a = hp_strings h a \<and>
     hp_conditions h' a = hp_conditions h a \<and> hp_configs h' a = hp_configs h a"

definition extends :: "heap \<Rightarrow> heap \<Rightarrow> bool" where
  "extends h h' \<longleftrightarrow> hp_next h \<le> hp_next h' \<and> (\<forall>a < hp_next h. same_at h h' a)"

lemma extends_refl [intro, simp]: "extends h h"
  by (simp add: extends_def same_at_def)

lemma extends_trans: "extends h h' \<Longrightarrow> extends h' h'' \<Longrightarrow> extends h h''"
  by (auto simp: extends_def same_at_def)

subsection \<open>The contract of a copy\<close>

locale deep_copy =
  fixes copy :: "heap \<Rightarrow> 'o \<Rightarrow> 'o \<times> heap" and val :: "heap \<Rightarrow> 'o \<Rightarrow> 'v" and cells :: "heap \<Rightarrow> 'o \<Rightarrow> addr set"
  assumes val_local: "(\<And>a. a \<in> cells h x \<Longrightarrow> same_at h h' a) \<Longrightarrow> val h' x = val h x"
    and cells_local: "(\<And>a. a \<in> cells h x \<Longrightarrow> same_at h h' a) \<Longrightarrow> cells h' x = cells h x"
    and copy_extends: "copy h x = (y, h') \<Longrightarrow> extends h h'"
    and copy_value: "copy h x = (y, h') \<Longrightarrow> cells h x \<subseteq> {..<hp_next h} \<Longrightarrow> val h' y = val h x"
    and copy_fresh: "copy h x = (y, h') \<Longrightarrow> cells h x \<subseteq> {..<hp_next h} \<Longrightarrow> cells h' y \<subseteq> {hp_next h..<hp_next h'}"
begin

lemma kept:
  assumes "extends h h'" and "cells h x \<subseteq> {..<hp_next h}"
  shows "val h' x = val h x" "cells h' x = cells h x"
  using assms by (auto intro!: val_local cells_local simp: extends_def)

lemma unshared:
  assumes "copy h x = (y, h')" and "cells h x \<subseteq> {..<hp_next h}"
  shows "cells h' x \<inter> cells h' y = {}"
  using kept(2) [OF copy_extends [OF assms(1)] assms(2)] copy_fresh [OF assms] assms(2) by fastforce

text \<open>Whatever is written to the cells of one of the two, the other keeps its value.\<close>

lemma independent:
  assumes "copy h x = (y, h')" and "cells h x \<subseteq> {..<hp_next h}"
  shows "(\<And>a. a \<notin> cells h' y \<Longrightarrow> same_at h' h'' a) \<Longrightarrow> val h'' x = val h x"
    and "(\<And>a. a \<notin> cells h' x \<Longrightarrow> same_at h' h'' a) \<Longrightarrow> val h'' y = val h x"
proof -
  note ext = kept [OF copy_extends [OF assms(1)] assms(2)] and un = unshared [OF assms]
  show "val h'' x = val h x" if "\<And>a. a \<notin> cells h' y \<Longrightarrow> same_at h' h'' a"
    using val_local [of h' x h''] that un ext(1) by auto
  show "val h'' y = val h x" if "\<And>a. a \<notin> cells h' x \<Longrightarrow> same_at h' h'' a"
    using val_local [of h' y h''] that un copy_value [OF assms] by auto
qed

end

subsection \<open>The copies keep it\<close>

lemma new_extends:
  "new_bool b h = (a, h') \<Longrightarrow> extends h h'" "new_cis c h = (a, h') \<Longrightarrow> extends h h'" "new_strings xs h = (a, h') \<Longrightarrow> extends h h'"
  "new_conditions cs h = (a, h') \<Longrightarrow> extends h h'" "new_configs ds h = (a, h') \<Longrightarrow> extends h h'"
  by (auto simp: new_bool_def new_cis_def new_strings_def new_conditions_def new_configs_def extends_def same_at_def)

lemmas new_defs = new_bool_def new_cis_def new_strings_def new_conditions_def new_configs_def

interpretation cis_copy: deep_copy CISConfig_DeepCopyInto cis_value cis_cells
  by unfold_locales
    (auto simp: CISConfig_DeepCopyInto_def copy_pointer_def cis_value_def cis_cells_def new_defs extends_def same_at_def split: option.splits)

interpretation status_copy: deep_copy F5LoadBalancerConfigStatus_DeepCopyInto status_value status_cells
  by unfold_locales
    (auto simp: F5LoadBalancerConfigStatus_DeepCopyInto_def copy_pointer_def status_value_def status_cells_def new_defs extends_def same_at_def
      split: option.splits)

lemma spec_local:
  assumes "\<And>a. a \<in> spec_cells h s \<Longrightarrow> same_at h h' a"
  shows "spec_value h' s = spec_value h s" "spec_cells h' s = spec_cells h s"
proof -
  have at: "hp_cis h' a = hp_cis h a" "\<And>b. b \<in> cis_cells h (hp_cis h a) \<Longrightarrow> same_at h h' b" if "gs_CIS s = Some a" for a
    using assms that by (auto simp: spec_cells_def same_at_def)
  then have cis: "cis_value h' (hp_cis h' a) = cis_value h (hp_cis h a)" "cis_cells h' (hp_cis h' a) = cis_cells h (hp_cis h a)"
    if "gs_CIS s = Some a" for a
    using that cis_copy.val_local [of h "hp_cis h a" h'] cis_copy.cells_local [of h "hp_cis h a" h'] by auto
  have "hp_bool h' a = hp_bool h a" if "gs_ControlPlaneReady s = Some a" for a
    using assms that by (auto simp: spec_cells_def same_at_def)
  then show "spec_value h' s = spec_value h s" using cis(1) by (cases "gs_CIS s"; cases "gs_ControlPlaneReady s") (auto simp: spec_value_def)
  show "spec_cells h' s = spec_cells h s" using cis(2) by (cases "gs_CIS s") (auto simp: spec_cells_def)
qed

text \<open>The two steps of the copy of a specification.\<close>

lemma copy_ready:
  assumes "copy_pointer (\<lambda>a h. new_bool (hp_bool h a) h) p h = (q, h')"
  shows "extends h h' \<and> map_option (hp_bool h') q = map_option (hp_bool h) p \<and> set_option q \<subseteq> {hp_next h..<hp_next h'}"
  using assms by (auto simp: copy_pointer_def new_bool_def extends_def same_at_def split: option.splits)

lemma copy_cis:
  assumes "copy_pointer (\<lambda>a h. case CISConfig_DeepCopyInto h (hp_cis h a) of (c, h) \<Rightarrow> new_cis c h) p h = (q, h')"
    and "\<And>a. p = Some a \<Longrightarrow> cis_cells h (hp_cis h a) \<subseteq> {..<hp_next h}"
  shows "extends h h' \<and> map_option (\<lambda>a. cis_value h' (hp_cis h' a)) q = map_option (\<lambda>a. cis_value h (hp_cis h a)) p \<and>
    (\<Union>a \<in> set_option q. insert a (cis_cells h' (hp_cis h' a))) \<subseteq> {hp_next h..<hp_next h'}"
proof (cases p)
  case None
  then show ?thesis using assms(1) by (auto simp: copy_pointer_def)
next
  case (Some a)
  obtain c h1 where c: "CISConfig_DeepCopyInto h (hp_cis h a) = (c, h1)" by fastforce
  have q: "q = Some (hp_next h1)" "h' = h1\<lparr>hp_cis := (hp_cis h1)(hp_next h1 := c), hp_next := Suc (hp_next h1)\<rparr>"
    using assms(1) Some c by (auto simp: copy_pointer_def new_cis_def)
  have ext: "extends h1 h'" "hp_cis h' (hp_next h1) = c" unfolding q(2) by (auto simp: extends_def same_at_def)
  note sub = assms(2) [OF Some]
  note one = cis_copy.copy_extends [OF c] cis_copy.copy_value [OF c sub] cis_copy.copy_fresh [OF c sub]
  have cells: "cis_cells h1 c \<subseteq> {..<hp_next h1}" using one(3) by auto
  have "hp_next h \<le> hp_next h1" using one(1) by (simp add: extends_def)
  then show ?thesis
    using Some q(1) ext one cis_copy.kept [OF ext(1) cells] extends_trans [OF one(1) ext(1)] by (auto simp: q(2) less_Suc_eq)
qed

interpretation spec_copy: deep_copy F5LoadBalancerConfigSpec_DeepCopyInto spec_value spec_cells
proof
  fix h h' s t
  assume copy: "F5LoadBalancerConfigSpec_DeepCopyInto h s = (t, h')"
  obtain ready h1 where ready: "copy_pointer (\<lambda>a h. new_bool (hp_bool h a) h) (gs_ControlPlaneReady s) h = (ready, h1)" by fastforce
  obtain cis h2 where cis: "copy_pointer (\<lambda>a h. case CISConfig_DeepCopyInto h (hp_cis h a) of (c, h) \<Rightarrow> new_cis c h) (gs_CIS s) h1 = (cis, h2)"
    by fastforce
  have t: "t = s\<lparr>gs_ControlPlaneReady := ready, gs_CIS := cis\<rparr>" "h' = h2"
    using copy ready cis by (auto simp: F5LoadBalancerConfigSpec_DeepCopyInto_def)
  note one = copy_ready [OF ready]
  have grow: "extends h1 h2"
    using cis cis_copy.copy_extends by (fastforce simp: copy_pointer_def new_cis_def split: option.splits prod.splits intro: extends_trans new_extends(2))
  then show "extends h h'" using one extends_trans t(2) by blast
  assume inside: "spec_cells h s \<subseteq> {..<hp_next h}"
  then have kept: "spec_value h1 s = spec_value h s" "spec_cells h1 s = spec_cells h s"
    using one by (auto intro!: spec_local simp: extends_def)
  have "spec_cells h1 s \<subseteq> {..<hp_next h1}" using kept(2) inside one by (force simp: extends_def)
  then have "cis_cells h1 (hp_cis h1 a) \<subseteq> {..<hp_next h1}" if "gs_CIS s = Some a" for a
    using that by (auto simp: spec_cells_def)
  note two = copy_cis [OF cis this]
  have "map_option (hp_bool h2) ready = map_option (hp_bool h1) ready"
    using one grow by (cases ready) (auto simp: extends_def same_at_def)
  moreover have "fs_CIS (spec_value h1 s) = fs_CIS (spec_value h s)" using kept(1) by simp
  ultimately show "spec_value h' t = spec_value h s"
    using one two unfolding t by (simp add: spec_value_def)
  show "spec_cells h' t \<subseteq> {hp_next h..<hp_next h'}"
    using one two unfolding t by (auto simp: spec_cells_def extends_def)
qed (use spec_local in auto)

interpretation config_copy: deep_copy F5LoadBalancerConfig_DeepCopyInto config_value config_cells
proof
  fix h h' c d
  assume copy: "F5LoadBalancerConfig_DeepCopyInto h c = (d, h')"
  obtain s h1 where s: "F5LoadBalancerConfigSpec_DeepCopyInto h (gf_Spec c) = (s, h1)" by fastforce
  obtain t h2 where t: "F5LoadBalancerConfigStatus_DeepCopyInto h1 (gf_Status c) = (t, h2)" by fastforce
  have d: "d = c\<lparr>gf_Spec := s, gf_Status := t\<rparr>" "h' = h2" using copy s t by (auto simp: F5LoadBalancerConfig_DeepCopyInto_def)
  note ext = spec_copy.copy_extends [OF s] status_copy.copy_extends [OF t]
  show "extends h h'" using extends_trans [OF ext] d(2) by simp
  assume inside: "config_cells h c \<subseteq> {..<hp_next h}"
  then have cells: "spec_cells h (gf_Spec c) \<subseteq> {..<hp_next h}" "status_cells h (gf_Status c) \<subseteq> {..<hp_next h}"
    by (auto simp: config_cells_def)
  have st: "status_value h1 (gf_Status c) = status_value h (gf_Status c)" "status_cells h1 (gf_Status c) \<subseteq> {..<hp_next h1}"
    using status_copy.kept [OF ext(1) cells(2)] cells(2) ext(1) by (auto simp: extends_def)
  have fresh: "spec_cells h1 s \<subseteq> {hp_next h..<hp_next h1}" using spec_copy.copy_fresh [OF s cells(1)] .
  then have "spec_cells h1 s \<subseteq> {..<hp_next h1}" by force
  then have sp: "spec_value h2 s = spec_value h1 s" "spec_cells h2 s = spec_cells h1 s"
    using spec_copy.kept [OF ext(2)] by auto
  show "config_value h' d = config_value h c"
    using sp st spec_copy.copy_value [OF s cells(1)] status_copy.copy_value [OF t st(2)] unfolding d by (simp add: config_value_def)
  show "config_cells h' d \<subseteq> {hp_next h..<hp_next h'}"
    using sp fresh status_copy.copy_fresh [OF t st(2)] ext unfolding d by (fastforce simp: config_cells_def extends_def)
next
  fix h c h'
  assume "\<And>a. a \<in> config_cells h c \<Longrightarrow> same_at h h' a"
  then show "config_value h' c = config_value h c" "config_cells h' c = config_cells h c"
    using spec_copy.val_local [of h "gf_Spec c" h'] spec_copy.cells_local [of h "gf_Spec c" h']
      status_copy.val_local [of h "gf_Status c" h'] status_copy.cells_local [of h "gf_Status c" h']
    by (simp_all add: config_cells_def config_value_def)
qed

lemma copy_configs_ok:
  assumes "copy_configs h cs = (ds, h')" and "(\<Union>c \<in> set cs. config_cells h c) \<subseteq> {..<hp_next h}"
  shows "extends h h' \<and> map (config_value h') ds = map (config_value h) cs \<and>
    (\<Union>d \<in> set ds. config_cells h' d) \<subseteq> {hp_next h..<hp_next h'}"
  using assms
proof (induction cs arbitrary: h ds h')
  case (Cons c cs)
  obtain d h1 where d: "F5LoadBalancerConfig_DeepCopyInto h c = (d, h1)" by fastforce
  obtain es h2 where es: "copy_configs h1 cs = (es, h2)" by fastforce
  have res: "ds = d # es" "h' = h2" using Cons.prems(1) d es by auto
  have c: "config_cells h c \<subseteq> {..<hp_next h}" using Cons.prems(2) by simp
  note one = config_copy.copy_extends [OF d] config_copy.copy_value [OF d c] config_copy.copy_fresh [OF d c]
  have same: "config_value h1 e = config_value h e" "config_cells h1 e = config_cells h e" if "e \<in> set cs" for e
    using config_copy.kept [OF one(1), of e] Cons.prems(2) that by auto
  have le: "hp_next h \<le> hp_next h1" using one(1) by (simp add: extends_def)
  have "(\<Union>e \<in> set cs. config_cells h1 e) \<subseteq> {..<hp_next h1}" using same(2) Cons.prems(2) le by fastforce
  from Cons.IH [OF es this] have two: "extends h1 h2" "map (config_value h2) es = map (config_value h1) cs"
    "(\<Union>e \<in> set es. config_cells h2 e) \<subseteq> {hp_next h1..<hp_next h2}" by simp_all
  have "config_cells h1 d \<subseteq> {..<hp_next h1}" using one(3) by (auto simp: subset_iff)
  note d2 = config_copy.kept [OF two(1) this]
  have le2: "hp_next h1 \<le> hp_next h2" using two(1) by (simp add: extends_def)
  have "config_cells h2 d \<subseteq> {hp_next h..<hp_next h2}" unfolding d2(2) using subset_trans [OF one(3)] le2 by simp
  moreover have "(\<Union>e \<in> set es. config_cells h2 e) \<subseteq> {hp_next h..<hp_next h2}" using subset_trans [OF two(3)] le by simp
  moreover have "map (config_value h2) es = map (config_value h) cs" unfolding two(2) using same(1) by simp
  ultimately show ?case using one(2) d2(1) extends_trans [OF one(1) two(1)] unfolding res by simp
qed simp

interpretation list_copy: deep_copy F5LoadBalancerConfigList_DeepCopyInto list_value list_cells
proof
  fix h items p h'
  assume copy: "F5LoadBalancerConfigList_DeepCopyInto h items = (p, h')"
  have grows: "extends h h1" if "copy_configs h cs = (ds, h1)" for h cs ds h1
    using that
  proof (induction cs arbitrary: h ds h1)
    case (Cons c cs)
    then show ?case using config_copy.copy_extends by (fastforce split: prod.splits intro: extends_trans)
  qed simp
  show "extends h h'"
    using copy grows by (fastforce simp: F5LoadBalancerConfigList_DeepCopyInto_def copy_pointer_def split: option.splits prod.splits
        intro: extends_trans new_extends(5))
  assume inside: "list_cells h items \<subseteq> {..<hp_next h}"
  show "list_value h' p = list_value h items" "list_cells h' p \<subseteq> {hp_next h..<hp_next h'}"
  proof (atomize(full), cases items)
    case None
    then show "list_value h' p = list_value h items \<and> list_cells h' p \<subseteq> {hp_next h..<hp_next h'}"
      using copy by (simp add: F5LoadBalancerConfigList_DeepCopyInto_def copy_pointer_def list_value_def list_cells_def)
  next
    case (Some a)
    obtain ds h1 where ds: "copy_configs h (hp_configs h a) = (ds, h1)" by fastforce
    have p: "p = Some (hp_next h1)" "h' = h1\<lparr>hp_configs := (hp_configs h1)(hp_next h1 := ds), hp_next := Suc (hp_next h1)\<rparr>"
      using copy Some ds by (auto simp: F5LoadBalancerConfigList_DeepCopyInto_def copy_pointer_def new_configs_def)
    have "(\<Union>c \<in> set (hp_configs h a). config_cells h c) \<subseteq> {..<hp_next h}" using inside Some by (auto simp: list_cells_def)
    note one = copy_configs_ok [OF ds this]
    have ext: "extends h1 h'" "hp_configs h' (hp_next h1) = ds" "hp_next h' = Suc (hp_next h1)"
      unfolding p(2) by (auto simp: extends_def same_at_def)
    have "config_cells h1 d \<subseteq> {..<hp_next h1}" if "d \<in> set ds" for d using one that by force
    then have same: "config_value h' d = config_value h1 d" "config_cells h' d = config_cells h1 d" if "d \<in> set ds" for d
      using config_copy.kept [OF ext(1)] that by auto
    have "hp_next h \<le> hp_next h1" using one by (simp add: extends_def)
    moreover have "(\<Union>d \<in> set ds. config_cells h' d) \<subseteq> {hp_next h..<hp_next h1}" using one same(2) by auto
    ultimately have "list_cells h' p \<subseteq> {hp_next h..<hp_next h'}" using p(1) ext by (auto simp: list_cells_def less_SucI)
    moreover have "map (config_value h') ds = map (config_value h1) ds" using same(1) by simp
    then have "list_value h' p = list_value h items" using Some p(1) ext(2) one by (simp add: list_value_def)
    ultimately show "list_value h' p = list_value h items \<and> list_cells h' p \<subseteq> {hp_next h..<hp_next h'}" by blast
  qed
next
  fix h items h'
  assume same: "\<And>a. a \<in> list_cells h items \<Longrightarrow> same_at h h' a"
  have "hp_configs h' a = hp_configs h a" if "items = Some a" for a using same that by (auto simp: list_cells_def same_at_def)
  moreover have "config_value h' c = config_value h c" "config_cells h' c = config_cells h c"
    if "items = Some a" "c \<in> set (hp_configs h a)" for a c
    using config_copy.val_local [of h c h'] config_copy.cells_local [of h c h'] same that by (auto simp: list_cells_def)
  ultimately show "list_value h' items = list_value h items" "list_cells h' items = list_cells h items"
    by (cases items; auto simp: list_value_def list_cells_def)+
qed

subsection \<open>What the copies promise\<close>

text \<open>
  C28.  The deep copy of a configuration has the value of the original and shares no cell with it:
  whatever is later written to the cells of one of the two, the other keeps its value.  So a copy can
  serve as the base of a patch while the original is changed.
\<close>

theorem deep_copy_independent:
  assumes "F5LoadBalancerConfig_DeepCopyObject h (Some c) = (Some d, h')" and "config_cells h c \<subseteq> {..<hp_next h}"
  shows "config_value h' d = config_value h c \<and> config_cells h' c \<inter> config_cells h' d = {} \<and>
    (\<forall>h''. (\<forall>a. a \<notin> config_cells h' c \<longrightarrow> same_at h' h'' a) \<longrightarrow> config_value h'' d = config_value h c) \<and>
    (\<forall>h''. (\<forall>a. a \<notin> config_cells h' d \<longrightarrow> same_at h' h'' a) \<longrightarrow> config_value h'' c = config_value h c)"
proof -
  have copy: "F5LoadBalancerConfig_DeepCopyInto h c = (d, h')"
    using assms(1) by (auto simp: F5LoadBalancerConfig_DeepCopyObject_def split: prod.splits)
  show ?thesis
    using config_copy.copy_value [OF copy assms(2)] config_copy.unshared [OF copy assms(2)] config_copy.independent [OF copy assms(2)]
    by blast
qed

definition demo_heap :: heap where
  "demo_heap = \<lparr>hp_next = 4, hp_bool = (\<lambda>a. a = 0), hp_cis = (\<lambda>a. \<lparr>gc_Plain = zero_cis, gc_ExtraArgs = Some 2\<rparr>),
     hp_strings = (\<lambda>a. [''--agent=as3'']), hp_conditions = (\<lambda>a. []), hp_configs = (\<lambda>a. [])\<rparr>"

definition demo_config_obj :: config_obj where
  "demo_config_obj = \<lparr>gf_Namespace = ''shoot--a'', gf_Name = ''f5'', gf_OwnerReferences = [],
     gf_Spec = \<lparr>gs_Plain = zero_f5spec, gs_ControlPlaneReady = Some 0, gs_CIS = Some 1\<rparr>,
     gf_Status = \<lparr>gt_Plain = \<lparr>fo_VIP = [], fo_VirtualServerName = [], fo_LBServiceID = [], fo_VIPPortID = [], fo_VirtualServerID = [],
       fo_Conditions = []\<rparr>, gt_Conditions = Some 3\<rparr>\<rparr>"

theorem deep_copy_independent_witness:
  "\<exists>d h'. F5LoadBalancerConfig_DeepCopyObject demo_heap (Some demo_config_obj) = (Some d, h') \<and>
     config_value h' d = config_value demo_heap demo_config_obj \<and>
     config_value (h'\<lparr>hp_bool := (hp_bool h')(0 := False)\<rparr>) d = config_value demo_heap demo_config_obj"
proof -
  obtain d h' where copy: "F5LoadBalancerConfig_DeepCopyObject demo_heap (Some demo_config_obj) = (Some d, h')"
    by (cases "F5LoadBalancerConfig_DeepCopyInto demo_heap demo_config_obj") (simp add: F5LoadBalancerConfig_DeepCopyObject_def)
  have cells: "config_cells demo_heap demo_config_obj \<subseteq> {..<hp_next demo_heap}"
    by (simp add: config_cells_def spec_cells_def status_cells_def cis_cells_def demo_config_obj_def demo_heap_def)
  have zero: "0 \<in> config_cells h' demo_config_obj"
    by (simp add: config_cells_def spec_cells_def demo_config_obj_def)
  note all = deep_copy_independent [OF copy cells]
  have "\<forall>a. a \<notin> config_cells h' demo_config_obj \<longrightarrow> same_at h' (h'\<lparr>hp_bool := (hp_bool h')(0 := False)\<rparr>) a"
    using zero by (auto simp: same_at_def)
  with all copy show ?thesis by blast
qed

text \<open>The same for a list of configurations.\<close>

lemma deep_copy_list_independent:
  assumes "F5LoadBalancerConfigList_DeepCopyInto h items = (p, h')" and "list_cells h items \<subseteq> {..<hp_next h}"
  shows "list_value h' p = list_value h items \<and> list_cells h' items \<inter> list_cells h' p = {}"
  using list_copy.copy_value [OF assms] list_copy.unshared [OF assms] by blast

end
