(* ===== verification/GoFlags.thy ===== *)
theory GoFlags
  imports ErrorText "HOL-Library.AList"
begin

text \<open>
  The parts of Go's \<open>flag\<close> and \<open>strconv\<close> packages that \<open>cmd/cmpctl\<close> uses: the integers of
  \<open>strconv.ParseInt\<close> with base 0, booleans, and the loop of \<open>FlagSet.Parse\<close>.  A flag set is the map of
  the defined flags with their current values.
\<close>

subsection \<open>\<open>strconv\<close>\<close>

definition ParseBool :: "string \<Rightarrow> bool option" where
  "ParseBool s =
     (if s \<in> {''1'', ''t'', ''T'', ''TRUE'', ''true'', ''True''} then Some True
      else if s \<in> {''0'', ''f'', ''F'', ''FALSE'', ''false'', ''False''} then Some False
      else None)"

datatype num_error = ErrSyntax | ErrRange

definition digit_value :: "char \<Rightarrow> nat option" where
  "digit_value c =
     (let n = of_char (lower_char c) :: nat in
      if is_digit c then Some (n - 48) else if 97 \<le> n \<and> n \<le> 122 then Some (n - 87) else None)"

text \<open>The digits in a base, underscores left out; the first digit that is wrong or too much decides.\<close>

fun parse_base :: "nat \<Rightarrow> nat \<Rightarrow> string \<Rightarrow> num_error + nat" where
  "parse_base b n [] = Inr n"
| "parse_base b n (c # cs) =
     (if c = CHR ''_'' then parse_base b n cs
      else case digit_value c of
          None \<Rightarrow> Inl ErrSyntax
        | Some d \<Rightarrow> if b \<le> d then Inl ErrSyntax else if 2 ^ 64 \<le> n * b + d then Inl ErrRange else parse_base b (n * b + d) cs)"

definition base_prefix :: "string \<Rightarrow> nat \<times> string" where
  "base_prefix s =
     (if s = [] \<or> hd s \<noteq> CHR ''0'' then (10, s)
      else if length s < 3 then (8, tl s)
      else let p = lower_char (s ! 1) in
        if p = CHR ''b'' then (2, drop 2 s) else if p = CHR ''o'' then (8, drop 2 s) else if p = CHR ''x'' then (16, drop 2 s) else (8, tl s))"

text \<open>\<open>underscoreOK\<close>: underscores only between digits, or after the base prefix; \<open>saw\<close> is what came
  before: a digit \<open>0\<close>, an underscore, the start or something else.\<close>

fun underscores_ok :: "bool \<Rightarrow> char \<Rightarrow> string \<Rightarrow> bool" where
  "underscores_ok hex saw [] \<longleftrightarrow> saw \<noteq> CHR ''_''"
| "underscores_ok hex saw (c # cs) \<longleftrightarrow>
     (if is_digit c \<or> hex \<and> (let n = of_char (lower_char c) :: nat in 97 \<le> n \<and> n \<le> 102) then underscores_ok hex (CHR ''0'') cs
      else if c = CHR ''_'' then saw = CHR ''0'' \<and> underscores_ok hex (CHR ''_'') cs
      else saw \<noteq> CHR ''_'' \<and> underscores_ok hex (CHR ''!'') cs)"

definition underscoreOK :: "string \<Rightarrow> bool" where
  "underscoreOK s \<longleftrightarrow>
     (if 2 \<le> length s \<and> hd s = CHR ''0'' \<and> lower_char (s ! 1) \<in> {CHR ''b'', CHR ''o'', CHR ''x''}
      then underscores_ok (lower_char (s ! 1) = CHR ''x'') (CHR ''0'') (drop 2 s)
      else underscores_ok False (CHR ''^'') s)"

definition ParseUint :: "string \<Rightarrow> num_error + nat" where
  "ParseUint s =
     (if s = [] then Inl ErrSyntax
      else case base_prefix s of (b, ds) \<Rightarrow>
        (case parse_base b 0 ds of
           Inl e \<Rightarrow> Inl e
         | Inr n \<Rightarrow> if CHR ''_'' \<in> set ds \<and> \<not> underscoreOK s then Inl ErrSyntax else Inr n))"

definition ParseInt :: "string \<Rightarrow> num_error + int" where
  "ParseInt s =
     (let neg = (s \<noteq> [] \<and> hd s = CHR ''-''); digits = (if s \<noteq> [] \<and> hd s \<in> {CHR ''-'', CHR ''+''} then tl s else s) in
      case ParseUint digits of
        Inl e \<Rightarrow> Inl e
      | Inr n \<Rightarrow> if neg then (if 2 ^ 63 < n then Inl ErrRange else Inr (- int n))
                else (if 2 ^ 63 \<le> n then Inl ErrRange else Inr (int n)))"

subsection \<open>\<open>flag\<close>\<close>

datatype flag_value = FString string | FBool bool | FInt int | FDuration int | FMulti "string list"

fun bool_flag :: "flag_value \<Rightarrow> bool" where
  "bool_flag (FBool b) = True"
| "bool_flag _ = False"

type_synonym flag_set = "flag_value gomap"

definition num_error_text :: "num_error \<Rightarrow> string" where
  "num_error_text e = (case e of ErrSyntax \<Rightarrow> ''parse error'' | ErrRange \<Rightarrow> ''value out of range'')"

text \<open>\<open>Value.Set\<close>; \<open>dur\<close> is \<open>time.ParseDuration\<close>.\<close>

fun set_value :: "(string \<Rightarrow> int option) \<Rightarrow> flag_value \<Rightarrow> string \<Rightarrow> string + flag_value" where
  "set_value dur (FString _) v = Inr (FString v)"
| "set_value dur (FBool _) v = (case ParseBool v of None \<Rightarrow> Inl ''parse error'' | Some b \<Rightarrow> Inr (FBool b))"
| "set_value dur (FInt _) v = (case ParseInt v of Inl e \<Rightarrow> Inl (num_error_text e) | Inr i \<Rightarrow> Inr (FInt i))"
| "set_value dur (FDuration _) v = (case dur v of None \<Rightarrow> Inl ''parse error'' | Some d \<Rightarrow> Inr (FDuration d))"
| "set_value dur (FMulti xs) v = Inr (FMulti (xs @ [v]))"

datatype flag_word = Positional | Terminator | Malformed | Named string "string option"

definition read_word :: "string \<Rightarrow> flag_word" where
  "read_word s =
     (if length s < 2 \<or> hd s \<noteq> CHR ''-'' then Positional
      else if s = ''--'' then Terminator
      else let name = (if s ! 1 = CHR ''-'' then drop 2 s else drop 1 s) in
        if name = [] \<or> hd name = CHR ''-'' \<or> hd name = CHR ''='' then Malformed
        else case cut (CHR ''='') name of (n, v, found) \<Rightarrow> Named n (if found then Some v else None))"

definition undefined_flag :: "string \<Rightarrow> string" where
  "undefined_flag n = (if n = ''help'' \<or> n = ''h'' then ''flag: help requested'' else ''flag provided but not defined: -'' @ n)"

definition set_flag :: "(string \<Rightarrow> int option) \<Rightarrow> string \<Rightarrow> flag_value \<Rightarrow> string \<Rightarrow> flag_set \<Rightarrow> string + flag_set" where
  "set_flag dur n old v fs =
     (case set_value dur old v of
        Inr new \<Rightarrow> Inr (gm_set n new fs)
      | Inl e \<Rightarrow> Inl ((if bool_flag old then ''invalid boolean value '' @ go_quote v @ '' for -'' else ''invalid value '' @ go_quote v @ '' for flag -'') @
          n @ '': '' @ e))"

text \<open>\<open>FlagSet.Parse\<close>: the error, or the set at the end; the positional arguments that stop the loop are
  not looked at by the program.\<close>

fun flag_parse :: "(string \<Rightarrow> int option) \<Rightarrow> flag_set \<Rightarrow> string list \<Rightarrow> string + flag_set" where
  "flag_parse dur fs [] = Inr fs"
| "flag_parse dur fs (s # rest) =
     (case read_word s of
        Positional \<Rightarrow> Inr fs
      | Terminator \<Rightarrow> Inr fs
      | Malformed \<Rightarrow> Inl (''bad flag syntax: '' @ s)
      | Named n v \<Rightarrow>
          (case map_of fs n of
             None \<Rightarrow> Inl (undefined_flag n)
           | Some old \<Rightarrow>
               if bool_flag old
               then (case set_flag dur n old (case v of None \<Rightarrow> ''true'' | Some x \<Rightarrow> x) fs of
                       Inl e \<Rightarrow> Inl e | Inr fs \<Rightarrow> flag_parse dur fs rest)
               else (case v of
                  Some x \<Rightarrow> (case set_flag dur n old x fs of Inl e \<Rightarrow> Inl e | Inr fs \<Rightarrow> flag_parse dur fs rest)
                | None \<Rightarrow>
                    (case rest of
                       [] \<Rightarrow> Inl (''flag needs an argument: -'' @ n)
                     | x # rest \<Rightarrow> (case set_flag dur n old x fs of Inl e \<Rightarrow> Inl e | Inr fs \<Rightarrow> flag_parse dur fs rest)))))"

declare flag_parse.simps(2) [simp del]

subsection \<open>Reading back\<close>

definition flag_name :: "string \<Rightarrow> bool" where
  "flag_name n \<longleftrightarrow> n \<noteq> [] \<and> hd n \<noteq> CHR ''-'' \<and> CHR ''='' \<notin> set n"

lemma read_word_flag: "flag_name n \<Longrightarrow> read_word (''--'' @ n) = Named n None"
  by (cases n) (auto simp: flag_name_def read_word_def cut_none)

text \<open>A flag with a value in the next argument.\<close>

lemma flag_parse_value:
  assumes "flag_name n" and "map_of fs n = Some old" and "\<not> bool_flag old" and "set_value dur old x = Inr new"
  shows "flag_parse dur fs ((''--'' @ n) # x # rest) = flag_parse dur (gm_set n new fs) rest"
proof -
  have "set_flag dur n old x fs = Inr (gm_set n new fs)" using assms(4) by (simp add: set_flag_def)
  then show ?thesis using assms(2,3) unfolding flag_parse.simps(2) read_word_flag [OF assms(1)] by simp
qed

lemma ParseBool_examples: "ParseBool ''TRUE'' = Some True" "ParseBool ''no'' = None"
  by (simp_all add: ParseBool_def)

lemma ParseInt_examples:
  "ParseInt ''0x1F'' = Inr 31" "ParseInt ''-0b11'' = Inr (- 3)" "ParseInt ''010'' = Inr 8" "ParseInt ''1_000'' = Inr 1000"
  "ParseInt ''1__0'' = Inl ErrSyntax" "ParseInt ''9223372036854775808'' = Inl ErrRange" "ParseInt ''08'' = Inl ErrSyntax"
  by (simp_all add: ParseInt_def ParseUint_def base_prefix_def digit_value_def is_digit_def lower_char_def Let_def underscoreOK_def)

end
