(* ===== verification/LbaasClient.thy ===== *)
theory LbaasClient
  imports HttpClient Effects JsonText
begin

text \<open>
  The thin client of \<open>pkg/cmp/lbaas/client.go\<close>.  It shares the environment \<open>henv\<close> with the client of
  \<open>pkg/f5\<close>, but neither the request slot nor the retry: one operation sends one request, whose answer
  is never a redirect that was followed.  Answers are kept as JSON.
\<close>

subsection \<open>Client and options\<close>

record LbaasClient =
  lc_endpoint :: string
  lc_orgName :: string
  lc_projectID :: string
  lc_region :: string
  lc_externalProject :: string
  lc_projectName :: string
  lc_username :: string
  lc_ceAuthToken :: string
  lc_ceAuthID :: string
  lc_ceAuthSecret :: string
  lc_ceAuthExpiry :: int

record LbaasOptions =
  lo_OrganisationName :: string
  lo_ProjectID :: string
  lo_Region :: string
  lo_ExternalProject :: string
  lo_ProjectName :: string
  lo_Username :: string
  lo_CeAuthToken :: string
  lo_CeAuthAPIID :: string
  lo_CeAuthSecret :: string
  lo_CeAuthExpiry :: int

definition lbc_New :: "string \<Rightarrow> LbaasOptions \<Rightarrow> err + LbaasClient" where
  "lbc_New endpoint opts =
     (let endpoint = trim_right_slash (trim_space endpoint) in
      if endpoint = [] then Inl (Errorf ''endpoint must not be empty'' [])
      else Inr \<lparr>lc_endpoint = endpoint, lc_orgName = trim_space (lo_OrganisationName opts), lc_projectID = trim_space (lo_ProjectID opts),
        lc_region = trim_space (lo_Region opts), lc_externalProject = trim_space (lo_ExternalProject opts),
        lc_projectName = trim_space (lo_ProjectName opts), lc_username = trim_space (lo_Username opts),
        lc_ceAuthToken = trim_space (lo_CeAuthToken opts), lc_ceAuthID = trim_space (lo_CeAuthAPIID opts),
        lc_ceAuthSecret = trim_space (lo_CeAuthSecret opts),
        lc_ceAuthExpiry = (if lo_CeAuthExpiry opts = 0 then 299 * 10 ^ 9 else lo_CeAuthExpiry opts)\<rparr>)"

record LbaasListOptions =
  li_Offset :: int
  li_Limit :: int
  li_Search :: string
  li_Field :: string
  li_Order :: string

definition set_sorting :: "string \<Rightarrow> string \<Rightarrow> url_values \<Rightarrow> url_values" where
  "set_sorting field order q =
     q_set_if (trim_space order \<noteq> []) ''order'' (trim_space order)
       (q_set_if (trim_space field \<noteq> []) ''field'' (trim_space field) q)"

definition question_mark :: "url_values \<Rightarrow> string" where
  "question_mark q = (if q_encode q = [] then [] else CHR ''?'' # q_encode q)"

definition toQueryAll :: "LbaasListOptions \<Rightarrow> string" where
  "toQueryAll opts =
     CHR ''?'' # q_encode (set_sorting (li_Field opts) (li_Order opts)
       (q_set ''search'' (li_Search opts)
         (q_set ''limit'' (show_int (if li_Limit opts \<le> 0 then 10 else li_Limit opts))
           (q_set ''offset'' (show_int (li_Offset opts)) []))))"

definition toQueryNonEmpty :: "LbaasListOptions \<Rightarrow> string" where
  "toQueryNonEmpty opts =
     question_mark (set_sorting (li_Field opts) (li_Order opts)
       (q_set_if (trim_space (li_Search opts) \<noteq> []) ''search'' (trim_space (li_Search opts))
         (q_set_if (0 < li_Limit opts) ''limit'' (show_int (li_Limit opts))
           (q_set_if (0 < li_Offset opts) ''offset'' (show_int (li_Offset opts)) []))))"

definition lbc_lbPath :: "LbaasClient \<Rightarrow> string \<Rightarrow> string" where
  "lbc_lbPath c subPath =
     (if lc_orgName c \<noteq> [] \<and> lc_projectID c \<noteq> []
      then ''/api/v2.1/load-balancers/domain/'' @ PathEscape (lc_orgName c) @ ''/project/'' @ PathEscape (lc_projectID c) @
           ''/load-balancers'' @ subPath
      else ''/api/v2.1/load-balancers'' @ subPath)"

subsection \<open>One request\<close>

text \<open>The token expires at \<open>now().Add(expiry).Unix()\<close>.\<close>

definition generateCeAuth :: "int \<Rightarrow> LbaasClient \<Rightarrow> string" where
  "generateCeAuth now c =
     (let msg = lc_ceAuthID c @ ''.'' @ show_int ((now + lc_ceAuthExpiry c) div 10 ^ 9)
      in msg @ ''.'' @ hmac_sha256_hex (lc_ceAuthSecret c) msg)"

definition lbc_token :: "int \<Rightarrow> LbaasClient \<Rightarrow> string" where
  "lbc_token now c =
     (if lc_ceAuthToken c \<noteq> [] then lc_ceAuthToken c
      else if lc_ceAuthID c \<noteq> [] \<and> lc_ceAuthSecret c \<noteq> [] then generateCeAuth now c else [])"

definition lbc_headers :: "int \<Rightarrow> LbaasClient \<Rightarrow> string \<Rightarrow> string list gomap" where
  "lbc_headers now c contentType =
     fold (\<lambda>(k, v). hdr_set_if (v \<noteq> []) k v)
       [(''Content-Type'', if trim_space contentType = [] then [] else contentType), (''Ce-Auth'', lbc_token now c),
        (''organisation-name'', lc_orgName c), (''organization-name'', lc_orgName c), (''project-id'', lc_projectID c),
        (''ce-region'', lc_region c), (''external-project'', lc_externalProject c), (''project-name'', lc_projectName c),
        (''username'', lc_username c)]
       (hdr_set ''Accept'' ''application/json'' [])"

definition lbc_request :: "int \<Rightarrow> LbaasClient \<Rightarrow> string \<Rightarrow> string \<Rightarrow> string \<Rightarrow> string \<Rightarrow> request" where
  "lbc_request now c meth path body contentType =
     \<lparr>rq_Method = meth, rq_URL = lc_endpoint c @ ''/'' @ dropWhile (\<lambda>x. x = CHR ''/'') path, rq_Header = lbc_headers now c contentType,
      rq_BasicAuth = None, rq_Body = body\<rparr>"

text \<open>The first mebibyte of an answer; a blank body is no error.\<close>

definition unmarshal_body :: "string \<Rightarrow> http_body" where
  "unmarshal_body text =
     (case json_parse text of
        Some v \<Rightarrow> JsonBody v
      | None \<Rightarrow> if trim_space text = [] then EmptyBody else BadBody ''invalid JSON'')"

definition lbc_answer :: "(http_body \<Rightarrow> string + 'a) \<Rightarrow> request \<Rightarrow> string + response \<Rightarrow> err + 'a" where
  "lbc_answer result req answer =
     (case answer of
        Inl e \<Rightarrow> Inl (Wrapf ''%s %s failed: %w'' [rq_Method req, rq_URL req] (OtherErr e))
      | Inr resp \<Rightarrow>
          let text = take 1048576 (rp_Text resp) in
          if rp_StatusCode resp < 200 \<or> 300 \<le> rp_StatusCode resp
          then Inl (Errorf ''%s %s: status %d: %s'' [rq_Method req, rq_URL req, show_int (rp_StatusCode resp), trim_space text])
          else case result (unmarshal_body text) of
              Inl e \<Rightarrow> Inl (Wrapf ''decoding response: %w'' [] (OtherErr e))
            | Inr x \<Rightarrow> Inr x)"

type_synonym 'a lbc = "(request, 'a) eff"

definition lbc_do :: "henv \<Rightarrow> LbaasClient \<Rightarrow> string \<Rightarrow> string \<Rightarrow> string \<Rightarrow> string \<Rightarrow> (http_body \<Rightarrow> string + 'a) \<Rightarrow> 'a lbc" where
  "lbc_do E c meth path body contentType result = (\<lambda>h.
     let req = lbc_request (e_now E h) c meth path body contentType in
     case e_bad_url E meth (rq_URL req) of
       Some e \<Rightarrow> io_fail (Wrapf ''creating request: %w'' [] (OtherErr e)) h
     | None \<Rightarrow> invoke req (\<lambda>h. lbc_answer result req (e_do E h req)) h)"

definition lbc_doForm :: "henv \<Rightarrow> LbaasClient \<Rightarrow> string \<Rightarrow> string \<Rightarrow> url_values option \<Rightarrow> (http_body \<Rightarrow> string + 'a) \<Rightarrow> 'a lbc" where
  "lbc_doForm E c meth path form result =
     lbc_do E c meth path (case form of None \<Rightarrow> [] | Some f \<Rightarrow> q_encode f) ''application/x-www-form-urlencoded'' result"

subsection \<open>Operations\<close>

text \<open>An operation on one object: a blank identifier is refused.\<close>

definition lbc_with_id :: "string \<Rightarrow> string \<Rightarrow> (string \<Rightarrow> 'a lbc) \<Rightarrow> 'a lbc" where
  "lbc_with_id message i m = (if trim_space i = [] then io_fail (Errorf message []) else m (trim_space i))"

definition lbc_ListLoadBalancers :: "henv \<Rightarrow> LbaasClient \<Rightarrow> LbaasListOptions \<Rightarrow> json list lbc" where
  "lbc_ListLoadBalancers E c opts = lbc_do E c ''GET'' (lbc_lbPath c (''/'' @ toQueryNonEmpty opts)) [] [] raws_result"

definition lbc_ListLBServices :: "henv \<Rightarrow> LbaasClient \<Rightarrow> LbaasListOptions \<Rightarrow> json list lbc" where
  "lbc_ListLBServices E c opts = lbc_do E c ''GET'' (lbc_lbPath c (''/lb_service/'' @ toQueryAll opts)) [] [] raws_result"

definition lbc_CreateLBService :: "henv \<Rightarrow> LbaasClient \<Rightarrow> url_values option \<Rightarrow> raw lbc" where
  "lbc_CreateLBService E c form = lbc_doForm E c ''POST'' (lbc_lbPath c ''/lb_service/'') form raw_result"

definition lbc_GetLBServiceVIPs :: "henv \<Rightarrow> LbaasClient \<Rightarrow> string \<Rightarrow> raw lbc" where
  "lbc_GetLBServiceVIPs E c lb =
     lbc_with_id ''lbServiceID must not be empty'' lb
       (\<lambda>lb. lbc_do E c ''GET'' (lbc_lbPath c (''/lb_service/'' @ lb @ ''/vip'')) [] [] raw_result)"

text \<open>The form is ignored.\<close>

definition lbc_CreateLBServiceVIP :: "henv \<Rightarrow> LbaasClient \<Rightarrow> string \<Rightarrow> url_values option \<Rightarrow> raw lbc" where
  "lbc_CreateLBServiceVIP E c lb form =
     lbc_with_id ''lbServiceID must not be empty'' lb
       (\<lambda>lb. lbc_do E c ''POST'' (lbc_lbPath c (''/lb_service/'' @ lb @ ''/vip'')) [] [] raw_result)"

definition lbc_ListVirtualServers :: "henv \<Rightarrow> LbaasClient \<Rightarrow> string \<Rightarrow> json list lbc" where
  "lbc_ListVirtualServers E c lb =
     lbc_with_id ''lbID must not be empty'' lb
       (\<lambda>lb. lbc_do E c ''GET'' (lbc_lbPath c (''/'' @ lb @ ''/virtual-servers'')) [] [] raws_result)"

definition lbc_CreateVirtualServer :: "henv \<Rightarrow> LbaasClient \<Rightarrow> string \<Rightarrow> url_values option \<Rightarrow> raw lbc" where
  "lbc_CreateVirtualServer E c lb query =
     lbc_with_id ''lbID must not be empty'' lb
       (\<lambda>lb. lbc_do E c ''POST'' (lbc_lbPath c (''/'' @ lb @ ''/virtual-servers'' @ (case query of None \<Rightarrow> [] | Some q \<Rightarrow> question_mark q)))
          [] [] raw_result)"

subsection \<open>Paths, queries and tokens agree with those of the other clients\<close>

lemma lbc_lbPath_agrees:
  assumes "lc_orgName c = hc_organisationName hc" "lc_projectID c = hc_projectID hc" "lc_orgName c \<noteq> []" "lc_projectID c \<noteq> []"
  shows "lbc_lbPath c p = lbPath hc p"
  using assms by (simp add: lbc_lbPath_def lbPath_def api_path_def)

lemma generateCeAuth_agrees:
  assumes "0 < lc_ceAuthExpiry c" and "lc_ceAuthExpiry c mod 10 ^ 9 = 0"
  shows "generateCeAuth now c = GenerateCeAuthToken now (lc_ceAuthID c) (lc_ceAuthSecret c) (lc_ceAuthExpiry c)"
proof -
  from assms(2) obtain k where k: "lc_ceAuthExpiry c = 10 ^ 9 * k" by (auto simp: mod_eq_0_iff_dvd)
  have "(now + lc_ceAuthExpiry c) div 10 ^ 9 = now div 10 ^ 9 + lc_ceAuthExpiry c div 10 ^ 9"
    unfolding k by (simp add: div_mult_self2)
  then show ?thesis using assms(1) by (simp add: generateCeAuth_def GenerateCeAuthToken_def Let_def)
qed

lemma query_order: "''field'' < (''limit'' :: string)" "''limit'' < (''offset'' :: string)" "''offset'' < (''order'' :: string)" "''order'' < (''search'' :: string)"
  by code_simp+

definition when_set :: "string \<Rightarrow> string \<Rightarrow> (string \<times> string) list" where
  "when_set k v = (if v = [] then [] else [(k, v)])"

text \<open>What a server reads from the query of a list call.\<close>

lemma ParseQuery_toQueryAll:
  "ParseQuery (tl (toQueryAll opts)) =
     when_set ''field'' (trim_space (li_Field opts)) @
     [(''limit'', show_int (if li_Limit opts \<le> 0 then 10 else li_Limit opts)), (''offset'', show_int (li_Offset opts))] @
     when_set ''order'' (trim_space (li_Order opts)) @ [(''search'', li_Search opts)]"
  using query_order
  by (simp add: toQueryAll_def ParseQuery_q_encode query_pairs_def set_sorting_def q_set_if_def q_set_def when_set_def)

lemma ParseQuery_toQueryNonEmpty:
  "ParseQuery (tl (toQueryNonEmpty opts)) =
     when_set ''field'' (trim_space (li_Field opts)) @
     (if 0 < li_Limit opts then [(''limit'', show_int (li_Limit opts))] else []) @
     (if 0 < li_Offset opts then [(''offset'', show_int (li_Offset opts))] else []) @
     when_set ''order'' (trim_space (li_Order opts)) @ when_set ''search'' (trim_space (li_Search opts))"
proof -
  have tl: "tl (question_mark q) = q_encode q" for q by (simp add: question_mark_def)
  show ?thesis using query_order
    by (simp add: toQueryNonEmpty_def tl ParseQuery_q_encode query_pairs_def set_sorting_def q_set_if_def q_set_def when_set_def)
qed

end
