(* ===== verification/Cmpctl.thy ===== *)
theory Cmpctl
  imports GoFlags LbaasClient
begin

text \<open>
  The command line client \<open>cmd/cmpctl/main.go\<close>.  A run is a function of its arguments and of the world
  \<open>cenv\<close> (network and clock, standard input, \<open>time.ParseDuration\<close>); its outcome is the exit code, the two
  output streams and the requests it sent.  The TLS and timeout settings of the transport are part of
  the world.
\<close>

record cenv =
  ce_http :: henv
  ce_stdin :: "string + string"
  ce_parseDuration :: "string \<Rightarrow> int option"

record outcome =
  oc_Code :: int
  oc_Stdout :: string
  oc_Stderr :: string
  oc_Sent :: "request list"

definition line :: "string \<Rightarrow> string" where
  "line s = s @ [CHR 0x0A]"

text \<open>\<open>fmt.Fprintln(os.Stderr, err); return 2\<close>.\<close>

definition usage_error :: "string \<Rightarrow> outcome" where
  "usage_error s = \<lparr>oc_Code = 2, oc_Stdout = [], oc_Stderr = line s, oc_Sent = []\<rparr>"

subsection \<open>The common flags\<close>

record commonFlags =
  cm_endpoint :: string
  cm_path :: string
  cm_insecure :: bool
  cm_timeout :: int
  cm_ceAuth :: string
  cm_orgName :: string
  cm_projectID :: string
  cm_username :: string
  cm_password :: string
  cm_headers :: "string list"

definition common_formals :: flag_set where
  "common_formals =
     [(''endpoint'', FString []), (''path'', FString []), (''insecure-skip-tls-verify'', FBool False), (''timeout'', FDuration (15 * 10 ^ 9)),
      (''ce-auth'', FString []), (''organisation-name'', FString []), (''project-id'', FString []), (''username'', FString []),
      (''password'', FString []), (''header'', FMulti [])]"

definition fl_string :: "flag_set \<Rightarrow> string \<Rightarrow> string" where
  "fl_string fs n = (case map_of fs n of Some (FString s) \<Rightarrow> s | _ \<Rightarrow> [])"

definition fl_int :: "flag_set \<Rightarrow> string \<Rightarrow> int" where
  "fl_int fs n = (case map_of fs n of Some (FInt i) \<Rightarrow> i | _ \<Rightarrow> 0)"

definition fl_multi :: "flag_set \<Rightarrow> string \<Rightarrow> string list" where
  "fl_multi fs n = (case map_of fs n of Some (FMulti xs) \<Rightarrow> xs | _ \<Rightarrow> [])"

definition commons :: "flag_set \<Rightarrow> commonFlags" where
  "commons fs =
     \<lparr>cm_endpoint = fl_string fs ''endpoint'', cm_path = fl_string fs ''path'',
      cm_insecure = (map_of fs ''insecure-skip-tls-verify'' = Some (FBool True)),
      cm_timeout = (case map_of fs ''timeout'' of Some (FDuration d) \<Rightarrow> d | _ \<Rightarrow> 0),
      cm_ceAuth = fl_string fs ''ce-auth'', cm_orgName = fl_string fs ''organisation-name'', cm_projectID = fl_string fs ''project-id'',
      cm_username = fl_string fs ''username'', cm_password = fl_string fs ''password'', cm_headers = fl_multi fs ''header''\<rparr>"

definition missing_flags :: "(string \<times> string) list \<Rightarrow> string list" where
  "missing_flags vs = map snd (filter (\<lambda>(v, n). v = []) vs)"

definition cli_validate :: "commonFlags \<Rightarrow> err option" where
  "cli_validate f =
     (let ceAuthMode = (cm_ceAuth f \<noteq> []); basicMode = (cm_username f \<noteq> [] \<or> cm_password f \<noteq> []) in
      if trim_space (cm_endpoint f) = [] then Some (Errorf ''--endpoint is required'' [])
      else if trim_space (cm_path f) = [] then Some (Errorf ''--path is required'' [])
      else if ceAuthMode \<and> basicMode then Some (Errorf ''choose only one auth mode: Ce-Auth or basic auth'' [])
      else if ceAuthMode
      then (case missing_flags [(cm_ceAuth f, ''--ce-auth''), (cm_orgName f, ''--organisation-name''), (cm_projectID f, ''--project-id'')] of
              [] \<Rightarrow> None | m # ms \<Rightarrow> Some (Errorf ''Ce-Auth auth selected but missing: %s'' [join '', '' (m # ms)]))
      else if basicMode
      then (case missing_flags [(cm_username f, ''--username''), (cm_password f, ''--password'')] of
              [] \<Rightarrow> None | m # ms \<Rightarrow> Some (Errorf ''basic auth selected but missing: %s'' [join '', '' (m # ms)]))
      else if cm_orgName f \<noteq> [] \<or> cm_projectID f \<noteq> []
      then Some (Errorf ''--organisation-name/--project-id provided without an auth token (use --ce-auth)'' [])
      else Some (Errorf ''provide auth via Ce-Auth (--ce-auth/--organisation-name/--project-id) or basic auth (--username/--password)'' []))"

subsection \<open>One request\<close>

text \<open>\<open>Header.Set\<close>: a key that is no token stays as it is.\<close>

definition token_char :: "char \<Rightarrow> bool" where
  "token_char c \<longleftrightarrow> is_digit c \<or> (let n = (of_char c :: nat) in 65 \<le> n \<and> n \<le> 90 \<or> 97 \<le> n \<and> n \<le> 122) \<or>
     c \<in> set ''!#$%&*+-.^_`|~'' \<or> c = CHR 0x27"

definition header_key :: "string \<Rightarrow> string" where
  "header_key k = (if list_all token_char k then canonical_key k else k)"

text \<open>Basic authentication is the header Authorization, which such a header replaces.\<close>

definition put_header :: "string \<Rightarrow> string \<Rightarrow> request \<Rightarrow> request" where
  "put_header k v req =
     req\<lparr>rq_Header := gm_set (header_key k) [v] (rq_Header req),
         rq_BasicAuth := (if header_key k = ''Authorization'' then None else rq_BasicAuth req)\<rparr>"

definition applyAuthHeaders :: "commonFlags \<Rightarrow> request \<Rightarrow> request" where
  "applyAuthHeaders f req =
     (if cm_ceAuth f \<noteq> []
      then req\<lparr>rq_Header := hdr_set ''project-id'' (cm_projectID f) (hdr_set ''organization-name'' (cm_orgName f)
             (hdr_set ''organisation-name'' (cm_orgName f) (hdr_set ''Ce-Auth'' (cm_ceAuth f) (rq_Header req))))\<rparr>
      else if cm_username f \<noteq> [] \<and> cm_password f \<noteq> [] then req\<lparr>rq_BasicAuth := Some (cm_username f, cm_password f)\<rparr>
      else req)"

definition apply_header :: "request \<Rightarrow> string \<Rightarrow> err + request" where
  "apply_header req h =
     (case cut (CHR '':'') h of (k, v, found) \<Rightarrow>
        if \<not> found then Inl (Errorf ''invalid --header %q (want 'Key: Value')'' [h])
        else if trim_space k = [] then Inl (Errorf ''invalid --header %q (empty key)'' [h])
        else Inr (put_header (trim_space k) (trim_space v) req))"

definition applyExtraHeaders :: "commonFlags \<Rightarrow> request \<Rightarrow> err + request" where
  "applyExtraHeaders f req = res_fold apply_header (cm_headers f) req"

definition cli_url :: "commonFlags \<Rightarrow> string" where
  "cli_url f = trim_right_slash (cm_endpoint f) @ ''/'' @ dropWhile (\<lambda>x. x = CHR ''/'') (cm_path f)"

definition cli_request :: "commonFlags \<Rightarrow> string \<Rightarrow> string option \<Rightarrow> err + request" where
  "cli_request f meth body =
     applyExtraHeaders f (applyAuthHeaders f
       \<lparr>rq_Method = (if meth = [] then ''GET'' else meth), rq_URL = cli_url f,
        rq_Header = hdr_set_if (body \<noteq> None) ''Content-Type'' ''application/json'' (hdr_set ''Accept'' ''application/json'' []),
        rq_BasicAuth = None, rq_Body = (case body of None \<Rightarrow> [] | Some b \<Rightarrow> b)\<rparr>)"

definition is_success :: "response \<Rightarrow> bool" where
  "is_success resp \<longleftrightarrow> 200 \<le> rp_StatusCode resp \<and> rp_StatusCode resp < 300"

definition printed :: "response \<Rightarrow> string" where
  "printed resp =
     line (''http_status='' @ show_int (rp_StatusCode resp) @ '' '' @ rp_Status resp) @
     (if rp_Text resp = [] then [] else if last (rp_Text resp) = CHR 0x0A then rp_Text resp else line (rp_Text resp))"

text \<open>The status code or an error, what was printed and what was sent.\<close>

definition cli_do :: "cenv \<Rightarrow> commonFlags \<Rightarrow> string \<Rightarrow> string option \<Rightarrow> (err + int) \<times> string \<times> request list" where
  "cli_do E f meth body =
     (case e_bad_url (ce_http E) meth (cli_url f) of
        Some e \<Rightarrow> (Inl (Wrapf ''creating request: %w'' [] (OtherErr e)), [], [])
      | None \<Rightarrow>
          (case cli_request f meth body of
             Inl e \<Rightarrow> (Inl e, [], [])
           | Inr req \<Rightarrow>
               (case e_do (ce_http E) [] req of
                  Inl e \<Rightarrow> (Inl (Wrapf ''%s %s failed: %w'' [meth, cli_url f] (OtherErr e)), [], [req])
                | Inr resp \<Rightarrow>
                    (if is_success resp then Inr (rp_StatusCode resp) else Inl (Errorf ''non-2xx status'' []), printed resp, [req]))))"

text \<open>What every subcommand makes of it.\<close>

definition cli_send :: "cenv \<Rightarrow> commonFlags \<Rightarrow> string \<Rightarrow> string option \<Rightarrow> outcome" where
  "cli_send E f meth body =
     (case cli_do E f meth body of (r, out, sent) \<Rightarrow>
        (case r of
           Inl e \<Rightarrow> \<lparr>oc_Code = 1, oc_Stdout = out, oc_Stderr = line (error_text e), oc_Sent = sent\<rparr>
         | Inr status \<Rightarrow> \<lparr>oc_Code = (if status < 200 \<or> 300 \<le> status then 1 else 0), oc_Stdout = out, oc_Stderr = [], oc_Sent = sent\<rparr>))"

subsection \<open>Parts of the subcommands\<close>

definition with_flags :: "cenv \<Rightarrow> flag_set \<Rightarrow> string list \<Rightarrow> (flag_set \<Rightarrow> outcome) \<Rightarrow> outcome" where
  "with_flags E formals args f =
     (case flag_parse (ce_parseDuration E) formals args of Inl e \<Rightarrow> usage_error e | Inr fs \<Rightarrow> f fs)"

definition require_flag :: "string \<Rightarrow> string \<Rightarrow> outcome \<Rightarrow> outcome" where
  "require_flag v message k = (if trim_space v = [] then usage_error message else k)"

definition domain_path :: "commonFlags \<Rightarrow> string \<Rightarrow> string" where
  "domain_path f rest =
     ''/api/v2.1/load-balancers/domain/'' @ PathEscape (cm_orgName f) @ ''/project/'' @ PathEscape (cm_projectID f) @
     ''/load-balancers'' @ rest"

definition default_path :: "string \<Rightarrow> commonFlags \<Rightarrow> commonFlags" where
  "default_path rest f = (if trim_space (cm_path f) = [] then f\<lparr>cm_path := domain_path f rest\<rparr> else f)"

definition validated :: "commonFlags \<Rightarrow> (commonFlags \<Rightarrow> outcome) \<Rightarrow> outcome" where
  "validated f k = (case cli_validate f of Some e \<Rightarrow> usage_error (error_text e) | None \<Rightarrow> k f)"

text \<open>A GET or a POST without a body to the path below the load balancers of the project.\<close>

definition send_to :: "cenv \<Rightarrow> string \<Rightarrow> string \<Rightarrow> commonFlags \<Rightarrow> outcome" where
  "send_to E meth rest f = validated (default_path rest f) (\<lambda>f. cli_send E f meth None)"

definition send_form :: "cenv \<Rightarrow> url_values \<Rightarrow> commonFlags \<Rightarrow> outcome" where
  "send_form E form f =
     cli_send E (f\<lparr>cm_headers := cm_headers f @ [''Content-Type: application/x-www-form-urlencoded'']\<rparr>) ''POST'' (Some (q_encode form))"

definition list_formals :: "int \<Rightarrow> flag_set" where
  "list_formals limit =
     [(''offset'', FInt 0), (''limit'', FInt limit), (''search'', FString []), (''field'', FString []), (''order'', FString [])]"

definition list_options :: "flag_set \<Rightarrow> LbaasListOptions" where
  "list_options fs =
     \<lparr>li_Offset = fl_int fs ''offset'', li_Limit = fl_int fs ''limit'', li_Search = fl_string fs ''search'',
      li_Field = fl_string fs ''field'', li_Order = fl_string fs ''order''\<rparr>"

definition cli_toQueryNonEmpty :: "LbaasListOptions \<Rightarrow> string" where
  "cli_toQueryNonEmpty f =
     question_mark (set_sorting (li_Field f) (li_Order f)
       (q_set_if (trim_space (li_Search f) \<noteq> []) ''search'' (trim_space (li_Search f))
         (q_set_if (0 < li_Limit f) ''limit'' (show_int (li_Limit f))
           (q_set_if (0 < li_Offset f) ''offset'' (show_int (li_Offset f)) []))))"

definition toQuery :: "LbaasListOptions \<Rightarrow> string" where
  "toQuery f =
     question_mark (set_sorting (li_Field f) (li_Order f)
       (q_set ''search'' (li_Search f) (q_set ''limit'' (show_int (li_Limit f)) (q_set ''offset'' (show_int (li_Offset f)) []))))"

subsection \<open>The subcommands\<close>

definition runCeAuth :: "cenv \<Rightarrow> string list \<Rightarrow> outcome" where
  "runCeAuth E args = with_flags E [(''api-id'', FString []), (''secret'', FString []), (''expiry-seconds'', FInt 299)] args
     (\<lambda>fs. let apiID = trim_space (fl_string fs ''api-id''); secret = fl_string fs ''secret''; expiry = fl_int fs ''expiry-seconds'' in
        if apiID = [] then usage_error ''--api-id is required''
        else if secret = [] then usage_error ''--secret is required''
        else if expiry \<le> 0 then usage_error ''--expiry-seconds must be > 0''
        else let msg = apiID @ ''.'' @ show_int ((e_now (ce_http E) [] + seconds_duration expiry) div 10 ^ 9) in
          \<lparr>oc_Code = 0, oc_Stdout = line (msg @ ''.'' @ hmac_sha256_hex secret msg), oc_Stderr = [], oc_Sent = []\<rparr>)"

definition runLoadBalancerList :: "cenv \<Rightarrow> string list \<Rightarrow> outcome" where
  "runLoadBalancerList E args = with_flags E (common_formals @ list_formals 0) args
     (\<lambda>fs. send_to E ''GET'' (''/'' @ cli_toQueryNonEmpty (list_options fs)) (commons fs))"

definition runLoadBalancerCreate :: "cenv \<Rightarrow> string list \<Rightarrow> outcome" where
  "runLoadBalancerCreate E args = with_flags E (common_formals @ [(''name'', FString []), (''description'', FString [])]) args
     (\<lambda>fs. require_flag (fl_string fs ''name'') ''--name is required''
        (validated (default_path ''/'' (commons fs))
          (send_form E (q_set ''description'' (fl_string fs ''description'') (q_set ''name'' (fl_string fs ''name'') [])))))"

definition runLBServiceList :: "cenv \<Rightarrow> string list \<Rightarrow> outcome" where
  "runLBServiceList E args = with_flags E (common_formals @ list_formals 10) args
     (\<lambda>fs. send_to E ''GET'' (''/lb_service/'' @ toQuery (list_options fs)) (commons fs))"

text \<open>A subcommand on one object, named by a required flag.\<close>

definition run_on :: "cenv \<Rightarrow> string \<Rightarrow> flag_set \<Rightarrow> string \<Rightarrow> (string \<Rightarrow> string) \<Rightarrow> string list \<Rightarrow> outcome" where
  "run_on E n extra meth path args = with_flags E (common_formals @ (n, FString []) # extra) args
     (\<lambda>fs. require_flag (fl_string fs n) (''--'' @ n @ '' is required'') (send_to E meth (path (trim_space (fl_string fs n))) (commons fs)))"

definition runLBServiceVIPList :: "cenv \<Rightarrow> string list \<Rightarrow> outcome" where
  "runLBServiceVIPList E = run_on E ''lbsvc-id'' [] ''GET'' (\<lambda>lb. ''/lb_service/'' @ lb @ ''/vip'')"

definition runVirtualServerList :: "cenv \<Rightarrow> string list \<Rightarrow> outcome" where
  "runVirtualServerList E = run_on E ''lb-id'' [] ''GET'' (\<lambda>lb. ''/'' @ lb @ ''/virtual-servers'')"

definition runLBServiceVIPCreate :: "cenv \<Rightarrow> string list \<Rightarrow> outcome" where
  "runLBServiceVIPCreate E =
     run_on E ''lbsvc-id'' [(''vip'', FString []), (''port'', FString [])] ''POST'' (\<lambda>lb. ''/lb_service/'' @ lb @ ''/vip'')"

definition runLBServiceGet :: "cenv \<Rightarrow> string list \<Rightarrow> outcome" where
  "runLBServiceGet E = run_on E ''id'' [] ''GET'' (\<lambda>i. ''/lb_service/'' @ i @ ''/'')"

text \<open>The parameters of \<open>--param key=value\<close>, or the text of the error.\<close>

definition add_param :: "string + url_values \<Rightarrow> string \<Rightarrow> string + url_values" where
  "add_param q kv =
     (case q of Inl e \<Rightarrow> Inl e
      | Inr q \<Rightarrow> (case cut (CHR ''='') kv of (k, v, found) \<Rightarrow>
          if \<not> found then Inl (format_text ''invalid --param %q (want key=value)'' [kv])
          else if trim_space k = [] then Inl (format_text ''invalid --param %q (empty key)'' [kv])
          else Inr (q_add (trim_space k) (trim_space v) q)))"

definition append_query :: "url_values \<Rightarrow> string \<Rightarrow> string" where
  "append_query q path =
     (if q_encode q = [] then path
      else if CHR ''?'' \<in> set path then path @ ''&'' @ q_encode q else path @ ''?'' @ q_encode q)"

definition runVirtualServerCreate :: "cenv \<Rightarrow> string list \<Rightarrow> outcome" where
  "runVirtualServerCreate E args = with_flags E (common_formals @ [(''lb-id'', FString []), (''param'', FMulti [])]) args
     (\<lambda>fs. require_flag (fl_string fs ''lb-id'') ''--lb-id is required''
        (if fl_multi fs ''param'' = [] then usage_error ''provide at least one --param key=value''
         else validated (default_path (''/'' @ trim_space (fl_string fs ''lb-id'') @ ''/virtual-servers'') (commons fs))
           (\<lambda>f. case foldl add_param (Inr []) (fl_multi fs ''param'') of
              Inl e \<Rightarrow> usage_error e
            | Inr q \<Rightarrow> cli_send E (f\<lparr>cm_path := append_query q (cm_path f)\<rparr>) ''POST'' None)))"

definition runLBServiceCreate :: "cenv \<Rightarrow> string list \<Rightarrow> outcome" where
  "runLBServiceCreate E args = with_flags E (common_formals @
       [(''name'', FString []), (''description'', FString []), (''flavor-id'', FString []), (''vpc-id'', FString []),
        (''network-id'', FString []), (''vpc-name'', FString [])]) args
     (\<lambda>fs. validated (default_path ''/lb_service/'' (commons fs))
        (\<lambda>f. let v = fl_string fs; missing = missing_flags [(v ''name'', ''--name''), (v ''flavor-id'', ''--flavor-id''), (v ''vpc-id'', ''--vpc-id''),
                 (v ''network-id'', ''--network-id''), (v ''vpc-name'', ''--vpc-name'')] in
           if missing \<noteq> [] then usage_error (''missing required flags: '' @ join '', '' missing)
           else send_form E (q_set ''vpc_name'' (v ''vpc-name'') (q_set ''network_id'' (v ''network-id'') (q_set ''vpc_id'' (v ''vpc-id'')
             (q_set ''description'' (v ''description'') (q_set ''flavor_id'' (v ''flavor-id'') (q_set ''name'' (v ''name'') [])))))) f))"

definition runHealth :: "cenv \<Rightarrow> string list \<Rightarrow> outcome" where
  "runHealth E args = with_flags E common_formals args (\<lambda>fs. validated (commons fs) (\<lambda>f. cli_send E f ''GET'' None))"

definition runRequest :: "cenv \<Rightarrow> string list \<Rightarrow> outcome" where
  "runRequest E args = with_flags E (common_formals @ [(''method'', FString ''GET''), (''body'', FString [])]) args
     (\<lambda>fs. validated (commons fs) (\<lambda>f.
        let meth = to_upper (trim_space (fl_string fs ''method'')); body = fl_string fs ''body'' in
        if body = [] then cli_send E f meth None
        else if body \<noteq> ''-'' then cli_send E f meth (Some body)
        else (case ce_stdin E of
            Inl e \<Rightarrow> \<lparr>oc_Code = 1, oc_Stdout = [], oc_Stderr = line (''reading stdin: '' @ e), oc_Sent = []\<rparr>
          | Inr b \<Rightarrow> cli_send E f meth (Some b))))"

subsection \<open>\<open>main\<close>\<close>

definition usage_text :: string where
  "usage_text =
     (let sq = [CHR 0x27]; dq = [CHR 0x22]; bs = [CHR 0x5C]; tab = (\<lambda>s. CHR 0x09 # s); tabs2 = (\<lambda>s. CHR 0x09 # CHR 0x09 # s)
      in join [CHR 0x0A]
     [''cmpctl: tiny CMP/CCP HTTP debug client'',
      [],
      ''Usage:'',
      tab (''# Generate a Ce-Auth token from API id + secret (prints token to stdout)''),
      tab (''cmpctl ce-auth --api-id <uuid> --secret <secret> --expiry-seconds 299''),
      [],
      tab (''# List load balancers (if your CMP exposes this endpoint)''),
      tab (''cmpctl lb-list --endpoint https://cmp.example '' @ bs),
      tabs2 (''--ce-auth TOKEN --organisation-name TENANT --project-id PROJECT '' @ bs),
      tabs2 (''--field id --order desc''),
      [],
      tab (''# Create load balancer (if your CMP exposes this endpoint)''),
      tab (''cmpctl lb-create --endpoint https://cmp.example '' @ bs),
      tabs2 (''--ce-auth TOKEN --organisation-name TENANT --project-id PROJECT '' @ bs),
      tabs2 (''--name smoke-lb --description '' @ dq @ ''smoke test'' @ dq),
      [],
      ''  cmpctl health --endpoint https://cmp.example --path /ccp/lbaas/v1/health '' @ bs,
      ''    --ce-auth TOKEN --organisation-name TENANT --project-id PROJECT'',
      [],
      ''  cmpctl request --endpoint https://cmp.example --method GET --path /ccp/lbaas/v1/virtualservers '' @ bs,
      ''    --ce-auth TOKEN --organisation-name TENANT --project-id PROJECT'',
      [],
      tab (''# LBService create (form-encoded; some CMP deployments still expect this)''),
      tab (''cmpctl lbsvc-create --endpoint https://cmp.example '' @ bs),
      tabs2 (''--ce-auth TOKEN --organisation-name TENANT --project-id PROJECT '' @ bs),
      tabs2 (''--header '' @ sq @ ''ce-region: dev'' @ sq @ '' --header '' @ sq @ ''external-project: qa-first-cell'' @ sq @ '' --header '' @ sq @ ''project-name: qa-first-cell'' @ sq @ '' '' @ bs),
      tabs2 (''--name lb-$(date +%Y%m%d%H%M%S) --flavor-id 25 --vpc-id <uuid> --network-id <uuid> --vpc-name <name>''),
      [],
      tab (''# List LB services''),
      tab (''cmpctl lbsvc-list --endpoint https://cmp.example '' @ bs),
      tabs2 (''--ce-auth TOKEN --organisation-name TENANT --project-id PROJECT '' @ bs),
      tabs2 (''--header '' @ sq @ ''ce-region: dev'' @ sq @ '' --header '' @ sq @ ''external-project: qa-first-cell'' @ sq @ '' --header '' @ sq @ ''project-name: qa-first-cell'' @ sq @ '' '' @ bs),
      tabs2 (''--offset 0 --limit 10 --search '' @ sq @ sq @ '' --field created --order desc''),
      [],
      tab (''# List VIPs for a LB service''),
      tab (''cmpctl lbsvc-vip --endpoint https://cmp.example '' @ bs),
      tabs2 (''--ce-auth TOKEN --organisation-name TENANT --project-id PROJECT '' @ bs),
      tabs2 (''--header '' @ sq @ ''ce-region: dev'' @ sq @ '' --header '' @ sq @ ''external-project: qa-first-cell'' @ sq @ '' --header '' @ sq @ ''project-name: qa-first-cell'' @ sq @ '' '' @ bs),
      tabs2 (''--lbsvc-id <lb-service-uuid-or-id>''),
      [],
      tab (''# Create VIP for a LB service (swagger-mode: query params)''),
      tab (''cmpctl vip-create --endpoint https://cmp.example '' @ bs),
      tabs2 (''--ce-auth TOKEN --organisation-name TENANT --project-id PROJECT '' @ bs),
      tabs2 (''--lbsvc-id <lb-service-uuid-or-id> --vip 10.0.0.10 --port 6443''),
      [],
      tab (''# List Virtual Servers under a LB''),
      tab (''cmpctl vs-list --endpoint https://cmp.example '' @ bs),
      tabs2 (''--ce-auth TOKEN --organisation-name TENANT --project-id PROJECT '' @ bs),
      tabs2 (''--header '' @ sq @ ''ce-region: dev'' @ sq @ '' --header '' @ sq @ ''external-project: qa-first-cell'' @ sq @ '' --header '' @ sq @ ''project-name: qa-first-cell'' @ sq @ '' '' @ bs),
      tabs2 (''--lb-id <lb-uuid-or-id>''),
      [],
      tab (''# Create Virtual Server (swagger-mode: query params)''),
      tab (''# Provide parameters via repeated --param key=value flags.''),
      tab (''cmpctl vs-create --endpoint https://cmp.example '' @ bs),
      tabs2 (''--ce-auth TOKEN --organisation-name TENANT --project-id PROJECT '' @ bs),
      tabs2 (''--header '' @ sq @ ''ce-region: dev'' @ sq @ '' --header '' @ sq @ ''external-project: qa-first-cell'' @ sq @ '' --header '' @ sq @ ''project-name: qa-first-cell'' @ sq @ '' '' @ bs),
      tabs2 (''--lb-id <lb-uuid-or-id> '' @ bs),
      tabs2 (''--param name=my-vs --param description=test --param protocol=tcp''),
      [],
      tab (''cmpctl lbsvc-get --endpoint https://cmp.example --ce-auth TOKEN --organisation-name TENANT --project-id PROJECT --id <lbsvc-id>''),
      [],
      ''Auth:'',
      tab (''Provide either Ce-Auth auth (recommended), OR basic auth.''),
      [],
      ''Exit codes:'',
      ''  0: success (2xx)'',
      ''  1: request failed (non-2xx or transport error)'',
      ''  2: usage error'',
      []])"

definition subcommands :: "(string \<times> (cenv \<Rightarrow> string list \<Rightarrow> outcome)) list" where
  "subcommands =
     [(''ce-auth'', runCeAuth), (''lb-list'', runLoadBalancerList), (''lb-create'', runLoadBalancerCreate), (''health'', runHealth),
      (''request'', runRequest), (''lbsvc-create'', runLBServiceCreate), (''lbsvc-list'', runLBServiceList), (''lbsvc-get'', runLBServiceGet),
      (''lbsvc-vip'', runLBServiceVIPList), (''vip-create'', runLBServiceVIPCreate), (''vs-list'', runVirtualServerList),
      (''vs-create'', runVirtualServerCreate)]"

text \<open>\<open>argv\<close> is \<open>os.Args\<close>, the program's name first.\<close>

definition cmpctl_main :: "cenv \<Rightarrow> string list \<Rightarrow> outcome" where
  "cmpctl_main E argv =
     (case argv of
        name # cmd # args \<Rightarrow>
          (case map_of subcommands cmd of
             Some run \<Rightarrow> run E args
           | None \<Rightarrow>
               if cmd \<in> {''-h'', ''--help'', ''help''} then \<lparr>oc_Code = 0, oc_Stdout = [], oc_Stderr = usage_text, oc_Sent = []\<rparr>
               else \<lparr>oc_Code = 2, oc_Stdout = [], oc_Stderr = line (line (''unknown subcommand '' @ go_quote cmd)) @ usage_text, oc_Sent = []\<rparr>)
      | _ \<Rightarrow> \<lparr>oc_Code = 2, oc_Stdout = [], oc_Stderr = usage_text, oc_Sent = []\<rparr>)"

end
