(* ===== verification/CliGuarantees.thy ===== *)
theory CliGuarantees
  imports Cmpctl
begin

text \<open>
  What the command line client guarantees: its exit codes tell what happened to the one request it may
  send, and it speaks to CMP as the clients in the program do.
\<close>

subsection \<open>Exit codes\<close>

text \<open>An outcome as the documentation of the exit codes has it.\<close>

definition honest :: "cenv \<Rightarrow> outcome \<Rightarrow> bool" where
  "honest E o1 \<longleftrightarrow> oc_Code o1 \<in> {0, 1, 2} \<and> length (oc_Sent o1) \<le> 1 \<and> (oc_Code o1 = 2 \<longrightarrow> oc_Sent o1 = []) \<and>
     (\<forall>req \<in> set (oc_Sent o1). oc_Code o1 = 0 \<longleftrightarrow> (\<exists>resp. e_do (ce_http E) [] req = Inr resp \<and> is_success resp))"

named_theorems honest_intros

lemma honest_usage [honest_intros]: "honest E (usage_error s)"
  by (simp add: honest_def usage_error_def)

lemma honest_unsent: "oc_Sent o1 = [] \<Longrightarrow> oc_Code o1 \<in> {0, 1, 2} \<Longrightarrow> honest E o1"
  by (simp add: honest_def)

lemma honest_send [honest_intros]: "honest E (cli_send E f meth body)"
  by (auto simp: honest_def cli_send_def cli_do_def is_success_def split: option.splits sum.splits if_splits)

lemma honest_flags [honest_intros]: "(\<And>fs. honest E (f fs)) \<Longrightarrow> honest E (with_flags E formals args f)"
  by (auto simp: with_flags_def honest_usage split: sum.splits)

lemma honest_require [honest_intros]: "honest E k \<Longrightarrow> honest E (require_flag v message k)"
  by (simp add: require_flag_def honest_usage)

lemma honest_validated [honest_intros]: "(\<And>f. honest E (k f)) \<Longrightarrow> honest E (validated f k)"
  by (auto simp: validated_def honest_usage split: option.splits)

lemma honest_send_to [honest_intros]: "honest E (send_to E meth rest f)"
  unfolding send_to_def by (intro honest_intros)

lemma honest_form [honest_intros]: "honest E (send_form E form f)"
  unfolding send_form_def by (intro honest_intros)

lemma honest_run_on: "honest E (run_on E n extra meth path args)"
  unfolding run_on_def by (intro honest_intros)

lemma honest_subcommands: "(cmd, run) \<in> set subcommands \<Longrightarrow> honest E (run E args)"
proof -
  have "honest E (runCeAuth E args)"
    unfolding runCeAuth_def Let_def by (intro honest_intros) (auto intro: honest_usage honest_unsent)
  moreover have "honest E (runLoadBalancerList E args)" "honest E (runLoadBalancerCreate E args)" "honest E (runHealth E args)"
    "honest E (runLBServiceList E args)"
    unfolding runLoadBalancerList_def runLoadBalancerCreate_def runHealth_def runLBServiceList_def by (intro honest_intros)+
  moreover have "honest E (runLBServiceCreate E args)"
    unfolding runLBServiceCreate_def Let_def by (intro honest_intros) (auto intro: honest_intros)
  moreover have "honest E (runRequest E args)"
    unfolding runRequest_def Let_def
    by (intro honest_intros) (auto split: sum.splits intro: honest_send honest_unsent)
  moreover have "honest E (runVirtualServerCreate E args)"
    unfolding runVirtualServerCreate_def by (intro honest_intros) (auto split: sum.splits intro!: honest_intros)
  ultimately show "(cmd, run) \<in> set subcommands \<Longrightarrow> honest E (run E args)"
    by (auto simp: subcommands_def runLBServiceGet_def runLBServiceVIPList_def runLBServiceVIPCreate_def runVirtualServerList_def
        intro: honest_run_on)
qed


subsection \<open>Flags and values\<close>

definition cli_args :: "(string \<times> string) list \<Rightarrow> string list" where
  "cli_args kvs = concat (map (\<lambda>(n, v). [''--'' @ n, v]) kvs)"

fun set_all :: "(string \<Rightarrow> int option) \<Rightarrow> flag_set \<Rightarrow> (string \<times> string) list \<Rightarrow> flag_set option" where
  "set_all dur fs [] = Some fs"
| "set_all dur fs ((n, x) # kvs) =
     (case map_of fs n of
        None \<Rightarrow> None
      | Some old \<Rightarrow> if bool_flag old \<or> \<not> flag_name n then None
          else case set_value dur old x of Inl e \<Rightarrow> None | Inr new \<Rightarrow> set_all dur (gm_set n new fs) kvs)"

lemma flag_parse_all: "set_all dur fs kvs = Some fs' \<Longrightarrow> flag_parse dur fs (cli_args kvs) = Inr fs'"
proof (induction dur fs kvs rule: set_all.induct)
  case (2 dur fs n x kvs)
  then obtain old new where "map_of fs n = Some old" "\<not> bool_flag old" "flag_name n" "set_value dur old x = Inr new"
    "set_all dur (gm_set n new fs) kvs = Some fs'"
    by (auto split: option.splits if_splits sum.splits)
  with 2 have "flag_parse dur (gm_set n new fs) (cli_args kvs) = Inr fs'" by simp
  moreover have "cli_args ((n, x) # kvs) = (''--'' @ n) # x # cli_args kvs" by (simp add: cli_args_def)
  ultimately show ?case
    using flag_parse_value [OF \<open>flag_name n\<close> \<open>map_of fs n = Some old\<close> \<open>\<not> bool_flag old\<close> \<open>set_value dur old x = Inr new\<close>] by simp
qed (simp add: cli_args_def)

lemma parse_base_digits:
  "list_all is_digit s \<Longrightarrow> foldl (\<lambda>a c. 10 * a + (of_char c - 48)) n s < 2 ^ 64 \<Longrightarrow>
   parse_base 10 n s = Inr (foldl (\<lambda>a c. 10 * a + (of_char c - 48)) n s)"
proof (induction s arbitrary: n)
  case (Cons c s)
  let ?d = "of_char c - 48 :: nat" and ?f = "\<lambda>a c. 10 * a + (of_char c - 48 :: nat)"
  have digit: "is_digit c" using Cons.prems by simp
  then have c: "c \<noteq> CHR ''_''" "digit_value c = Some ?d" "?d < 10"
    by (auto simp: digit_value_def Let_def is_digit_def lower_char_def)
  have grows: "m \<le> foldl ?f m s" for m by (induction s arbitrary: m) (simp, fastforce intro: order_trans [rotated])
  have "10 * n + ?d < 2 ^ 64" using grows [of "10 * n + ?d"] Cons.prems(2) by simp
  then have "parse_base 10 n (c # s) = parse_base 10 (10 * n + ?d) s" using c by (simp add: algebra_simps)
  then show ?case using Cons.IH [of "10 * n + ?d"] Cons.prems by simp
qed simp

lemma ParseUint_show_nat: "n < 2 ^ 64 \<Longrightarrow> ParseUint (show_nat n) = Inr n"
proof (cases "n = 0")
  case True
  have "(char_of (48 :: nat) :: char) = CHR ''0''" by code_simp
  then show ?thesis using True by (simp add: ParseUint_def base_prefix_def show_nat.simps digit_def)
next
  case False
  assume n: "n < 2 ^ 64"
  have "CHR ''_'' \<notin> set (show_nat n)" using show_nat_digits [of n] by (auto simp: list_all_iff is_digit_def)
  moreover have "base_prefix (show_nat n) = (10, show_nat n)" using False hd_show_nat by (simp add: base_prefix_def)
  moreover have "parse_base 10 0 (show_nat n) = Inr n"
    using parse_base_digits [OF show_nat_digits, where n = 0] n digits_val_show_nat [of n] by (simp add: digits_val_def)
  ultimately show ?thesis by (simp add: ParseUint_def)
qed

lemma ParseInt_show_int: "- (2 ^ 63) \<le> i \<Longrightarrow> i < 2 ^ 63 \<Longrightarrow> ParseInt (show_int i) = Inr i"
proof -
  assume range: "- (2 ^ 63) \<le> i" "i < 2 ^ 63"
  show ?thesis
  proof (cases "i < 0")
    case True
    then show ?thesis using range ParseUint_show_nat [of "nat (- i)"] by (simp add: ParseInt_def show_int_def)
  next
    case False
    have "hd (show_nat (nat i)) \<notin> {CHR ''-'', CHR ''+''}"
      using show_nat_digits [of "nat i"] show_nat_not_Nil [of "nat i"] by (cases "show_nat (nat i)") (auto simp: is_digit_def)
    then show ?thesis using False range ParseUint_show_nat [of "nat i"] by (simp add: ParseInt_def show_int_def)
  qed
qed

subsection \<open>The clients agree\<close>

definition list_args :: "string \<Rightarrow> LbaasOptions \<Rightarrow> LbaasListOptions \<Rightarrow> string list" where
  "list_args endpoint opts l = cli_args
     [(''endpoint'', endpoint), (''ce-auth'', lo_CeAuthToken opts), (''organisation-name'', lo_OrganisationName opts),
      (''project-id'', lo_ProjectID opts), (''offset'', show_int (li_Offset l)), (''limit'', show_int (li_Limit l)),
      (''search'', li_Search l), (''field'', li_Field l), (''order'', li_Order l)]"

lemma list_flags:
  assumes "- (2 ^ 63) \<le> li_Offset l" "li_Offset l < 2 ^ 63" "0 < li_Limit l" "li_Limit l < 2 ^ 63"
  shows "\<exists>fs. flag_parse dur (common_formals @ list_formals n) (list_args endpoint opts l) = Inr fs \<and> list_options fs = l \<and>
     commons fs = \<lparr>cm_endpoint = endpoint, cm_path = [], cm_insecure = False, cm_timeout = 15 * 10 ^ 9, cm_ceAuth = lo_CeAuthToken opts,
       cm_orgName = lo_OrganisationName opts, cm_projectID = lo_ProjectID opts, cm_username = [], cm_password = [], cm_headers = []\<rparr>"
proof -
  have ints: "ParseInt (show_int (li_Offset l)) = Inr (li_Offset l)" "ParseInt (show_int (li_Limit l)) = Inr (li_Limit l)"
    using assms by (simp_all add: ParseInt_show_int)
  let ?kvs = "[(''endpoint'', endpoint), (''ce-auth'', lo_CeAuthToken opts), (''organisation-name'', lo_OrganisationName opts),
      (''project-id'', lo_ProjectID opts), (''offset'', show_int (li_Offset l)), (''limit'', show_int (li_Limit l)),
      (''search'', li_Search l), (''field'', li_Field l), (''order'', li_Order l)]"
  obtain fs where fs: "set_all dur (common_formals @ list_formals n) ?kvs = Some fs"
    "map_of fs ''endpoint'' = Some (FString endpoint)" "map_of fs ''path'' = Some (FString [])"
    "map_of fs ''insecure-skip-tls-verify'' = Some (FBool False)" "map_of fs ''timeout'' = Some (FDuration (15 * 10 ^ 9))"
    "map_of fs ''ce-auth'' = Some (FString (lo_CeAuthToken opts))" "map_of fs ''organisation-name'' = Some (FString (lo_OrganisationName opts))"
    "map_of fs ''project-id'' = Some (FString (lo_ProjectID opts))" "map_of fs ''username'' = Some (FString [])"
    "map_of fs ''password'' = Some (FString [])" "map_of fs ''header'' = Some (FMulti [])"
    "map_of fs ''offset'' = Some (FInt (li_Offset l))" "map_of fs ''limit'' = Some (FInt (li_Limit l))"
    "map_of fs ''search'' = Some (FString (li_Search l))" "map_of fs ''field'' = Some (FString (li_Field l))"
    "map_of fs ''order'' = Some (FString (li_Order l))"
    by (simp add: common_formals_def list_formals_def ints flag_name_def)
  have "flag_parse dur (common_formals @ list_formals n) (list_args endpoint opts l) = Inr fs"
    unfolding list_args_def by (rule flag_parse_all [OF fs(1)])
  then show ?thesis using fs(2-) by (simp add: commons_def list_options_def fl_string_def fl_int_def fl_multi_def)
qed

lemma toQuery_agrees:
  assumes "0 < li_Limit l"
  shows "toQuery l = toQueryAll l"
proof -
  have "q_encode q \<noteq> []" if "query_pairs q \<noteq> []" for q
  proof
    assume "q_encode q = []"
    then have "query_pairs q = ParseQuery []" using ParseQuery_q_encode [of q] by simp
    with that show False by (simp add: ParseQuery_def)
  qed
  moreover have "query_pairs (set_sorting f t (q_set ''search'' v q)) \<noteq> []" for f t v q
  proof -
    have mem: "map_of (set_sorting f t (q_set ''search'' v q)) ''search'' = Some [v]"
      by (simp add: set_sorting_def q_set_if_def q_set_def)
    from map_of_SomeD [OF this] show ?thesis by (force simp: query_pairs_def)
  qed
  ultimately show ?thesis using assms by (simp add: toQuery_def toQueryAll_def question_mark_def)
qed

lemma toQueryNonEmpty_agrees: "cli_toQueryNonEmpty l = toQueryNonEmpty l"
  by (simp add: cli_toQueryNonEmpty_def toQueryNonEmpty_def)

text \<open>A GET of both clients, below the load balancers of the project.\<close>

lemma send_to_like_client:
  assumes "lbc_New endpoint opts = Inr c" and "trim_space endpoint = endpoint"
    and "lo_CeAuthToken opts \<noteq> []" "lo_OrganisationName opts \<noteq> []" "lo_ProjectID opts \<noteq> []"
    and "trim_space (lo_CeAuthToken opts) = lo_CeAuthToken opts" "trim_space (lo_OrganisationName opts) = lo_OrganisationName opts"
      "trim_space (lo_ProjectID opts) = lo_ProjectID opts"
    and "lo_Region opts = []" "lo_ExternalProject opts = []" "lo_ProjectName opts = []" "lo_Username opts = []"
    and "commons fs = \<lparr>cm_endpoint = endpoint, cm_path = [], cm_insecure = False, cm_timeout = 15 * 10 ^ 9, cm_ceAuth = lo_CeAuthToken opts,
       cm_orgName = lo_OrganisationName opts, cm_projectID = lo_ProjectID opts, cm_username = [], cm_password = [], cm_headers = []\<rparr>"
  shows "oc_Sent (send_to E ''GET'' rest (commons fs)) = snd (lbc_do (ce_http E) c ''GET'' (lbc_lbPath c rest) [] [] result [])"
proof -
  have endpoint: "endpoint \<noteq> []" using assms(1) by (auto simp: lbc_New_def trim_right_slash_def)
  let ?f = "default_path rest (commons fs)"
  have c: "lc_endpoint c = trim_right_slash endpoint" "lc_orgName c = lo_OrganisationName opts" "lc_projectID c = lo_ProjectID opts"
    "lc_region c = []" "lc_externalProject c = []" "lc_projectName c = []" "lc_username c = []" "lc_ceAuthToken c = lo_CeAuthToken opts"
    using assms(1-12) by (auto simp: lbc_New_def Let_def split: if_splits)
  have path: "domain_path (commons fs) rest = lbc_lbPath c rest"
    using assms(4,5,13) c by (simp add: domain_path_def lbc_lbPath_def)
  have f: "?f = (commons fs)\<lparr>cm_path := lbc_lbPath c rest\<rparr>" using path assms(13) by (simp add: default_path_def)
  have "\<exists>x\<in>set (lbc_lbPath c rest). \<not> is_space x"
    by (auto simp: lbc_lbPath_def is_space_def)
  then have valid: "cli_validate ?f = None"
    using assms endpoint unfolding f by (simp add: cli_validate_def missing_flags_def trim_space_eq_Nil [of "lbc_lbPath c rest"])
  have url: "cli_url ?f = rq_URL (lbc_request now c ''GET'' (lbc_lbPath c rest) [] [])" for now
    using assms(13) c unfolding f by (simp add: cli_url_def lbc_request_def)
  have req: "cli_request ?f ''GET'' None = Inr (lbc_request now c ''GET'' (lbc_lbPath c rest) [] [])" for now
    using assms(3-5,13) url [of now] c unfolding f
    by (simp add: cli_request_def applyExtraHeaders_def applyAuthHeaders_def lbc_request_def lbc_headers_def lbc_token_def hdr_set_if_def)
  show ?thesis
    unfolding send_to_def validated_def valid lbc_do_def Let_def cli_send_def cli_do_def url [of "e_now (ce_http E) []"] req [of "e_now (ce_http E) []"]
    by (auto simp: io_fail_def invoke_def lbc_request_def split: option.splits sum.splits prod.splits)
qed


text \<open>The two lists of a client for the project \<open>3\<close>.\<close>

definition demo_cenv :: cenv where
  "demo_cenv = \<lparr>ce_http = demo_env [], ce_stdin = Inr [], ce_parseDuration = (\<lambda>s. None)\<rparr>"

definition demo_options :: LbaasOptions where
  "demo_options = \<lparr>lo_OrganisationName = ''qa'', lo_ProjectID = ''3'', lo_Region = [], lo_ExternalProject = [], lo_ProjectName = [],
     lo_Username = [], lo_CeAuthToken = ''id.exp.sig'', lo_CeAuthAPIID = [], lo_CeAuthSecret = [], lo_CeAuthExpiry = 0\<rparr>"

definition demo_list :: LbaasListOptions where
  "demo_list = \<lparr>li_Offset = 0, li_Limit = 10, li_Search = [], li_Field = ''created'', li_Order = ''desc''\<rparr>"


text \<open>A health check that CMP answers, and a subcommand that does not exist.\<close>

definition demo_health :: "string list" where
  "demo_health = ''cmpctl'' # ''health'' # cli_args [(''endpoint'', ''https://cmp''), (''path'', ''/api/v2.1/health''),
     (''ce-auth'', ''id.exp.sig''), (''organisation-name'', ''qa''), (''project-id'', ''3'')]"


subsection \<open>Tokens\<close>

text \<open>
  C34.  The three implementations of the Ce-Auth token agree: the one of the HTTP client, the one of the
  thin client, and the subcommand \<open>ce-auth\<close>, whose output it is, for every validity of whole seconds
  that a Go duration can hold.
\<close>

theorem ce_auth_tokens_agree:
  assumes "trim_space i = i" and "i \<noteq> []" and "secret \<noteq> []" and "0 < n" and "n \<le> 9223372036"
  shows "oc_Stdout (cmpctl_main E (name # ''ce-auth'' # cli_args [(''api-id'', i), (''secret'', secret), (''expiry-seconds'', show_int n)])) =
      line (GenerateCeAuthToken (e_now (ce_http E) []) i secret (n * 10 ^ 9)) \<and>
    generateCeAuth now (c\<lparr>lc_ceAuthID := i, lc_ceAuthSecret := secret, lc_ceAuthExpiry := n * 10 ^ 9\<rparr>) =
      GenerateCeAuthToken now i secret (n * 10 ^ 9)"
proof
  let ?fs = "[(''api-id'', FString []), (''secret'', FString []), (''expiry-seconds'', FInt 299)] :: flag_set"
  let ?fs' = "[(''api-id'', FString i), (''secret'', FString secret), (''expiry-seconds'', FInt n)]"
  have "set_all (ce_parseDuration E) ?fs [(''api-id'', i), (''secret'', secret), (''expiry-seconds'', show_int n)] = Some ?fs'"
    using assms(4,5) by (simp add: ParseInt_show_int flag_name_def)
  note flags = flag_parse_all [OF this]
  have run: "cmpctl_main E (name # ''ce-auth'' # args) = runCeAuth E args" for args
    by (simp add: cmpctl_main_def subcommands_def)
  have time: "(now + n * 10 ^ 9) div 10 ^ 9 = now div 10 ^ 9 + n" for now :: int by simp
  show "oc_Stdout (cmpctl_main E (name # ''ce-auth'' # cli_args [(''api-id'', i), (''secret'', secret), (''expiry-seconds'', show_int n)])) =
      line (GenerateCeAuthToken (e_now (ce_http E) []) i secret (n * 10 ^ 9))"
    unfolding run runCeAuth_def with_flags_def flags using assms
    by (simp add: fl_string_def fl_int_def seconds_duration_exact GenerateCeAuthToken_def Let_def time [simplified] add.commute [of n])
  show "generateCeAuth now (c\<lparr>lc_ceAuthID := i, lc_ceAuthSecret := secret, lc_ceAuthExpiry := n * 10 ^ 9\<rparr>) =
      GenerateCeAuthToken now i secret (n * 10 ^ 9)"
    using assms(4) by (subst generateCeAuth_agrees) simp_all
qed

definition demo_lbc :: LbaasClient where
  "demo_lbc = \<lparr>lc_endpoint = ''https://cmp'', lc_orgName = ''qa'', lc_projectID = ''3'', lc_region = [], lc_externalProject = [],
     lc_projectName = [], lc_username = [], lc_ceAuthToken = [], lc_ceAuthID = ''key'', lc_ceAuthSecret = ''secret'', lc_ceAuthExpiry = 0\<rparr>"

theorem ce_auth_tokens_agree_witness:
  "generateCeAuth 5 (demo_lbc\<lparr>lc_ceAuthID := ''key'', lc_ceAuthSecret := ''s'', lc_ceAuthExpiry := 299 * 10 ^ 9\<rparr>) =
     GenerateCeAuthToken 5 ''key'' ''s'' (299 * 10 ^ 9) \<and>
   oc_Stdout (cmpctl_main demo_cenv (''cmpctl'' # ''ce-auth'' # cli_args [(''api-id'', ''key''), (''secret'', ''s''), (''expiry-seconds'', show_int 299)])) =
     line (GenerateCeAuthToken (e_now (ce_http demo_cenv) []) ''key'' ''s'' (299 * 10 ^ 9))"
  using ce_auth_tokens_agree [of "''key''" "''s''" 299 demo_cenv "''cmpctl''" 5 demo_lbc]
  by (simp add: trim_space_no_space is_space_def)

text \<open>A validity that no duration can hold wraps around: the token has expired before it is printed.\<close>

lemma ce_auth_expiry_wraps: "seconds_duration 9223372037 < 0"
  by (simp add: seconds_duration_def)

subsection \<open>Where the subcommands go wrong\<close>

text \<open>With basic authentication the tenancy flags are not required, but the default path uses them.\<close>

lemma basic_auth_default_path:
  assumes "cm_orgName f = []" "cm_projectID f = []" "trim_space (cm_path f) = []"
  shows "cm_path (default_path rest f) = ''/api/v2.1/load-balancers/domain//project//load-balancers'' @ rest"
  using assms by (simp add: default_path_def domain_path_def PathEscape_def)

text \<open>A header without a colon is a mistake in the usage, but ends with exit code 1.\<close>

lemma bad_header_exit:
  assumes "e_bad_url (ce_http E) meth (cli_url f) = None" and "cm_headers f = [h]" and "CHR '':'' \<notin> set h"
  shows "oc_Code (cli_send E f meth body) = 1 \<and> oc_Sent (cli_send E f meth body) = []"
  using assms by (simp add: cli_send_def cli_do_def cli_request_def applyExtraHeaders_def apply_header_def cut_none)

end
