(* ===== verification/Startup.thy ===== *)
theory Startup
  imports ServiceController SeedController
begin

text \<open>
  The start of the three processes: \<open>main\<close> and \<open>run\<close> of \<open>cmd/svc-lb-bridge\<close>, of
  \<open>cmd/seed-service-lb-controller\<close> and of \<open>cmd/gardener-extension-f5\<close>, with \<open>AddToManager\<close> of the extension
  controller.  The steps of the set-up are acts, each of which the world \<open>senv\<close> lets succeed or fail;
  what the watches enqueue is defined with the controllers.
\<close>

subsection \<open>Acts\<close>

record manager_options =
  mo_LeaderElection :: bool
  mo_LeaderElectionID :: string
  mo_HealthProbeBindAddress :: string
  mo_Webhook :: "(int \<times> string) option"

text \<open>What a controller is for, whether a predicate filters these events, what else it watches and how
  many reconciles may run at once (if that is set).\<close>

record controller_spec =
  co_For :: string
  co_Filtered :: bool
  co_Watches :: "string list"
  co_MaxConcurrentReconciles :: "int option"

datatype setup_act =
    AddToScheme string
  | GetConfigOrDie
  | NewManager manager_options
  | AddHealthzCheck
  | AddReadyzCheck
  | CompleteController controller_spec
  | RegisterConversion string
  | StartManager

record senv =
  se_step :: "setup_act \<Rightarrow> setup_act list \<Rightarrow> string option"
  se_getenv :: "string \<Rightarrow> string"
  se_stat :: "string \<Rightarrow> string \<Rightarrow> bool"

type_synonym 'a starting = "(setup_act, 'a) eff"

definition setup_step :: "senv \<Rightarrow> setup_act \<Rightarrow> unit starting" where
  "setup_step S a = invoke a (\<lambda>h. case se_step S a h of None \<Rightarrow> Inr () | Some e \<Rightarrow> Inl (OtherErr e))"

text \<open>Steps with the format that wraps their error (none for a helper that ends the process itself).\<close>

fun setup_steps :: "senv \<Rightarrow> (setup_act \<times> string option) list \<Rightarrow> unit starting" where
  "setup_steps S [] = io_return ()"
| "setup_steps S ((a, f) # steps) =
     io_bind (case f of None \<Rightarrow> setup_step S a | Some f \<Rightarrow> io_wrap f [] (setup_step S a)) (\<lambda>_. setup_steps S steps)"

definition plain_manager :: manager_options where
  "plain_manager = \<lparr>mo_LeaderElection = False, mo_LeaderElectionID = [], mo_HealthProbeBindAddress = [], mo_Webhook = None\<rparr>"

definition manager_steps :: "manager_options \<Rightarrow> (setup_act \<times> string option) list" where
  "manager_steps opts =
     [(GetConfigOrDie, None), (NewManager opts, Some ''creating manager: %w''), (AddHealthzCheck, Some ''adding healthz check: %w''),
      (AddReadyzCheck, Some ''adding readyz check: %w'')]"

text \<open>\<open>main\<close>: the exit code.\<close>

definition exit_code :: "unit starting \<Rightarrow> setup_act list \<Rightarrow> int" where
  "exit_code m h = (case fst (m h) of Inl e \<Rightarrow> 1 | Inr _ \<Rightarrow> 0)"

subsection \<open>\<open>cmd/svc-lb-bridge\<close>\<close>

definition service_controller_spec :: controller_spec where
  "service_controller_spec = \<lparr>co_For = ''Service'', co_Filtered = False, co_Watches = [''Node'', ''EndpointSlice''], co_MaxConcurrentReconciles = Some 1\<rparr>"

definition ingress_controller_spec :: controller_spec where
  "ingress_controller_spec = \<lparr>co_For = ''Ingress'', co_Filtered = False, co_Watches = [''Node'', ''Secret''], co_MaxConcurrentReconciles = Some 1\<rparr>"

definition bridge_run :: "senv \<Rightarrow> unit starting" where
  "bridge_run S =
     io_bind (setup_steps S ((AddToScheme ''core'', Some ''adding core scheme: %w'') # manager_steps plain_manager))
       (\<lambda>_. io_bind (io_of_result (newReconciler (se_getenv S)))
         (\<lambda>_. setup_steps S
           [(CompleteController service_controller_spec, Some ''creating service controller: %w''),
            (CompleteController ingress_controller_spec, Some ''creating ingress controller: %w''),
            (StartManager, Some ''starting manager: %w'')]))"

subsection \<open>\<open>cmd/seed-service-lb-controller\<close>\<close>

definition seed_manager :: manager_options where
  "seed_manager = \<lparr>mo_LeaderElection = True, mo_LeaderElectionID = ''seed-service-lb-controller-leader'',
     mo_HealthProbeBindAddress = '':8082'', mo_Webhook = None\<rparr>"

definition seed_controller_spec :: controller_spec where
  "seed_controller_spec = \<lparr>co_For = ''Service'', co_Filtered = False, co_Watches = [''Node''], co_MaxConcurrentReconciles = None\<rparr>"

definition seed_run :: "senv \<Rightarrow> (json \<Rightarrow> ObservedGraph) \<Rightarrow> unit starting" where
  "seed_run S partial =
     io_bind (setup_steps S ((AddToScheme ''core'', Some ''adding core scheme: %w'') # manager_steps seed_manager))
       (\<lambda>_. io_bind (io_of_result (seed_newReconciler (se_getenv S) partial))
         (\<lambda>_. setup_steps S
           [(CompleteController seed_controller_spec, Some ''creating controller: %w''), (StartManager, Some ''starting manager: %w'')]))"

subsection \<open>\<open>cmd/gardener-extension-f5\<close>\<close>

definition webhookCertDir :: "(string \<Rightarrow> string) \<Rightarrow> string" where
  "webhookCertDir getenv =
     (if getenv ''WEBHOOK_CERT_DIR'' \<noteq> [] then getenv ''WEBHOOK_CERT_DIR'' else ''/tmp/k8s-webhook-server/serving-certs'')"

text \<open>\<open>se_stat S dir file\<close>: the file \<open>filepath.Join(dir, file)\<close> can be read.\<close>

definition certExists :: "senv \<Rightarrow> string \<Rightarrow> bool" where
  "certExists S dir \<longleftrightarrow> se_stat S dir ''tls.crt'' \<and> se_stat S dir ''tls.key''"

definition extension_manager :: "senv \<Rightarrow> manager_options" where
  "extension_manager S =
     (let dir = webhookCertDir (se_getenv S) in
      \<lparr>mo_LeaderElection = True, mo_LeaderElectionID = ''gardener-extension-f5-leader'', mo_HealthProbeBindAddress = '':8081'',
       mo_Webhook = (if certExists S dir then Some (9443, dir) else None)\<rparr>)"

definition extension_controller_spec :: controller_spec where
  "extension_controller_spec = \<lparr>co_For = ''Extension'', co_Filtered = True, co_Watches = [''Secret''], co_MaxConcurrentReconciles = None\<rparr>"

text \<open>The registration of the conversion handler cannot fail.\<close>

definition extension_run :: "senv \<Rightarrow> unit starting" where
  "extension_run S =
     setup_steps S
       ([(AddToScheme ''core'', Some ''adding client-go scheme: %w''), (AddToScheme ''extensions'', Some ''adding gardener extensions scheme: %w''),
         (AddToScheme ''f5'', Some ''adding f5 scheme: %w'')] @ manager_steps (extension_manager S) @
        [(CompleteController extension_controller_spec, Some ''adding lifecycle controller: %w'')] @
        (if certExists S (webhookCertDir (se_getenv S)) then [(RegisterConversion ''/convert'', None)] else []) @
        [(StartManager, Some ''starting manager: %w'')])"

subsection \<open>The order of the set-up\<close>

text \<open>The acts of a list of steps: all up to the first that fails.\<close>

lemma setup_step_calls: "calls_of (setup_step S a) h = [a]"
  by (simp add: calls_of_def setup_step_def invoke_def)

lemma setup_steps_run:
  "\<exists>n. snd (setup_steps S steps h) = h @ take n (map fst steps) \<and>
     (fst (setup_steps S steps h) = Inr () \<longrightarrow> length steps \<le> n)"
proof (induction steps arbitrary: h)
  case Nil
  show ?case by (simp add: run_return)
next
  case (Cons step steps)
  obtain a f where step: "step = (a, f)" by (cases step)
  let ?m = "case f of None \<Rightarrow> setup_step S a | Some f \<Rightarrow> io_wrap f [] (setup_step S a)"
  have snd: "snd (?m h) = h @ [a]" and err: "fst (?m h) = Inr () \<or> (\<exists>e. fst (?m h) = Inl e)"
    by (auto simp: setup_step_def run_invoke run_wrap split: option.splits sum.splits)
  show ?case
  proof (cases "fst (?m h) = Inr ()")
    case True
    from Cons.IH [of "h @ [a]"] obtain n where
      n: "snd (setup_steps S steps (h @ [a])) = (h @ [a]) @ take n (map fst steps)"
        "fst (setup_steps S steps (h @ [a])) = Inr () \<longrightarrow> length steps \<le> n" by blast
    with True snd show ?thesis unfolding step by (intro exI [of _ "Suc n"]) (simp add: run_bind)
  next
    case False
    with err snd show ?thesis unfolding step by (intro exI [of _ 1]) (auto simp: run_bind)
  qed
qed

declare setup_steps.simps(2) [simp del]

lemma steps_cases:
  assumes "setup_steps S steps h = (r, h')"
  shows "(r = Inr () \<and> h' = h @ map fst steps) \<or> (\<exists>e n. r = Inl e \<and> h' = h @ take n (map fst steps))"
proof -
  from setup_steps_run [of S steps h] assms obtain n where n: "h' = h @ take n (map fst steps)" "r = Inr () \<longrightarrow> length steps \<le> n"
    by auto
  then show ?thesis by (cases r) auto
qed

text \<open>
  The bridge starts its manager only with a configuration that \<open>newReconciler\<close> accepts and after both
  controllers are set up; with a refused configuration no controller is set up and the process ends
  with exit code 1.
\<close>

theorem bridge_starts_configured:
  "(StartManager \<in> set (snd (bridge_run S [])) \<longrightarrow>
      (\<exists>x. newReconciler (se_getenv S) = Inr x) \<and>
      snd (bridge_run S []) =
        [AddToScheme ''core'', GetConfigOrDie, NewManager plain_manager, AddHealthzCheck, AddReadyzCheck,
         CompleteController service_controller_spec, CompleteController ingress_controller_spec, StartManager]) \<and>
   ((\<exists>e. newReconciler (se_getenv S) = Inl e) \<longrightarrow>
      exit_code (bridge_run S) [] = 1 \<and> (\<forall>spec. CompleteController spec \<notin> set (snd (bridge_run S []))))"
proof -
  let ?first = "(AddToScheme ''core'', Some ''adding core scheme: %w'') # manager_steps plain_manager"
  let ?second = "[(CompleteController service_controller_spec, Some ''creating service controller: %w''),
            (CompleteController ingress_controller_spec, Some ''creating ingress controller: %w''),
            (StartManager, Some ''starting manager: %w'')]"
  obtain r h where first: "setup_steps S ?first [] = (r, h)" by fastforce
  have acts: "map fst ?first = [AddToScheme ''core'', GetConfigOrDie, NewManager plain_manager, AddHealthzCheck, AddReadyzCheck]"
    by (simp add: manager_steps_def)
  have quiet: "a \<notin> set (take n (map fst ?first))" if "a \<notin> set (map fst ?first)" for a n
    using that by (meson in_set_takeD)
  from steps_cases [OF first] show ?thesis
  proof
    assume ok: "r = Inr () \<and> h = [] @ map fst ?first"
    show ?thesis
    proof (cases "newReconciler (se_getenv S)")
      case (Inl e)
      then show ?thesis using ok first
        by (auto simp: bridge_run_def run_bind run_of_result exit_code_def manager_steps_def)
    next
      case (Inr x)
      obtain r' h' where second: "setup_steps S ?second h = (r', h')" by fastforce
      have run: "snd (bridge_run S []) = h'" using ok first Inr second by (simp add: bridge_run_def run_bind run_of_result)
      from steps_cases [OF second] show ?thesis
      proof
        assume "r' = Inr () \<and> h' = h @ map fst ?second"
        then show ?thesis using run ok Inr by (simp add: manager_steps_def)
      next
        assume "\<exists>e n. r' = Inl e \<and> h' = h @ take n (map fst ?second)"
        then obtain n where n: "h' = h @ take n (map fst ?second)" by blast
        show ?thesis
        proof (cases "n < 3")
          case True
          then have "StartManager \<notin> set (take n (map fst ?second))" by (auto simp: less_Suc_eq numeral_3_eq_3)
          then show ?thesis using run ok Inr n by (auto simp: manager_steps_def)
        next
          case False
          then show ?thesis using run ok Inr n by (auto simp: manager_steps_def)
        qed
      qed
    qed
  next
    assume "\<exists>e n. r = Inl e \<and> h = [] @ take n (map fst ?first)"
    then obtain e n where fail: "r = Inl e" "h = take n (map fst ?first)" by auto
    have "StartManager \<notin> set h" "CompleteController spec \<notin> set h" for spec
      unfolding fail(2) by (rule quiet, simp add: manager_steps_def)+
    then show ?thesis using first fail(1) by (simp add: bridge_run_def run_bind exit_code_def)
  qed
qed

end
