(* ===== verification/Spec2Isabelle.thy ===== *)
theory Spec2Isabelle
  imports StackPass ServiceStack IngressGroup Production ControlPlane RequestSlots IngressGuarantees SeedGuarantees LifecycleGuarantees
    DeepCopy CliGuarantees Startup
begin

text \<open>
  The Gardener extension for F5 load balancers provisions load balancers of a cloud platform (CMP) for
  Kubernetes Services and Ingresses and for the API servers of control planes.  This development
  models its Go code under src/pkg and src/cmd and proves what its parts promise.

  \<^bold>\<open>Parts and how they interact.\<close>  A controller reads a Service or an Ingress, builds the desired
  stack (src/pkg/service/builder.go, src/pkg/ingress) with the backends that src/pkg/backend/nodes.go
  finds, and hands it to the deployer (src/pkg/deploy/lbaas/deployer.go), which brings CMP to that state
  through one manager per kind of resource and reports the provider identifiers it reached; cleanup.go
  deletes what an observed graph records.  The managers see CMP through interfaces (types.go and the
  manager files) that raw_adapter.go implements over the HTTP client (src/pkg/f5/client.go).

  \<^bold>\<open>Theories and code.\<close>
  \<^item> Prelude, GoStrings, Results, Sha256, Json: Go maps with their iteration order as a parameter,
    the functions of the strings and strconv packages the code uses, results with errors, SHA-256, and
    JSON decoding and URL encoding as encoding/json and net/url do them.
  \<^item> Errors: the typed errors of types.go and client.go and their predicates.
  \<^item> Effects, CmpClient: a computation \<open>io\<close> maps the history of provider calls to a result and a longer
    history; \<open>cmp\<close> is the provider of the managers, one response function per operation.
  \<^item> Model (pkg/model), Annotations (pkg/annotations), Backend (pkg/backend), Naming and ServiceStack
    (pkg/service), Ingress and IngressGroup (pkg/ingress): the desired side.
  \<^item> LbServiceManager, VipManager, VirtualServerManager, PoolManager, MemberManager, MonitorManager,
    RoutingRules, Certificates: one theory per manager file of pkg/deploy/lbaas.  Reconciler is the
    contract the reconciling managers share, as a locale, interpreted on them; Scope is the calculus of
    which calls a computation makes.
  \<^item> Hashes, Deployer, Obsolete, StackPass, Cleanup: deployer.go and cleanup.go, the whole pass
    composed as the code composes it.
  \<^item> Http, RequestSlots, HttpClient, ControlPlane: client.go.  Http is the request engine over an
    environment \<open>henv\<close> that answers requests, RequestSlots the semaphore as a step relation,
    HttpClient the operations, ControlPlane the control-plane flow.
  \<^item> RawAdapter: the parsers and operations of raw_adapter.go; Production: the provider \<open>cmp\<close> that the
    adapter and the HTTP client form together, on which the manager theorems can be read.
  \<^item> JsonText (a JSON reader as encoding/json has it) and Persist (cmd/svc-lb-bridge/main.go): the
    observed graph as an annotation.
  \<^item> Kube: the Kubernetes API as answers \<open>kapi\<close> to the acts of a controller, with pkg/finalizers,
    pkg/status and pkg/networkpolicy.
  \<^item> ServiceController and IngressController (cmd/svc-lb-bridge): the controllers of Services and of
    Ingresses; SeedController (cmd/seed-service-lb-controller): the controller of the Services of a Seed;
    ServiceGuarantees, IngressGuarantees, SeedGuarantees: their properties.
  \<^item> ErrorText: the texts of errors, which the status of an Extension carries.
  \<^item> Lifecycle (pkg/apis/f5/v1alpha1 and the computations of pkg/controller/lifecycle) and Actuator
    (controller.go and extension_controller.go): the extension controller, which provisions the API
    server's load balancer, deploys the bridge of cmd/svc-lb-bridge into the Shoot and reports to
    Gardener; LifecycleGuarantees: its properties.  Its world is the record \<open>lapi\<close>, whose acts \<open>lact\<close> are
    calls to the API servers of the Seed and of the Shoot, HTTP requests to CMP and events.
  \<^item> DeepCopy (types.go of pkg/apis/f5/v1alpha1): the deep copies over a heap of cells.  It justifies that
    the other theories treat copied objects as values.
  \<^item> Startup: main and run of the three processes as sequences of set-up acts.
  \<^item> LbaasClient (pkg/cmp/lbaas), GoFlags (the flag package) and Cmpctl (cmd/cmpctl): the thin client and
    the command line client; CliGuarantees: exit codes, and that the clients agree with each other.

  Functions keep the names of the code, with a prefix where two files use one name (\<open>svc_\<close>, \<open>ing_\<close>, \<open>vs_\<close>,
  \<open>es_\<close> for the phases of EnsureStack, \<open>ra_\<close> for the raw adapter, \<open>http_\<close> for the HTTP operations,
  \<open>lbc_\<close> for the thin client, \<open>cli_\<close> for the command line client);
  record fields keep theirs with the prefix of the record.

  \<^bold>\<open>What the lemmas show.\<close>  For every manager: which calls it may make in which order, what a
  successful pass has confirmed, that it touches only what it owns, and that errors end it.  For the
  builders: when they succeed, what the built stack looks like, and that it fits the deployer.  For the
  HTTP client: how often a request is sent, how answers become results, that paging ends and is
  complete.  The theorems of Production compose the managers with the adapter and a CMP that answers by
  its published schema (docs of the repository).

  \<^bold>\<open>Conventions and bounds.\<close>  Strings are lists of ASCII characters.  The provider and the HTTP
  environment are arbitrary functions of the history of calls, so a theorem holds against every
  behaviour of CMP, changes by others between two calls included; the Kubernetes API likewise.  A
  controller logs acts: API calls, events (type and reason) and provider calls, where the patch of the
  LB checkpoint is the act \<open>Cmp (LBReady s)\<close> of the pass that triggers it.  Values that Go returns next to a
  non-nil error are dropped where no caller reads them.  Go's int is \<open>int\<close> with the wrap-around written
  out where a conversion can overflow; ports and weights are 32-bit words.  The iteration order of a
  Go map is an oracle argument.  sort.Slice is modelled as a stable sort.  JSON numbers are integers.
  Paging of VIPs is bounded as in the code (1000 pages of 100), so it needs no fuel; the recursion over
  nested fixed-IP text has the length of the text as fuel, which no nesting can exceed.

  \<^bold>\<open>Not modelled.\<close>  Logging, metrics, contexts and their cancellation, TLS set-up of the HTTP client and
  the token bucket of the rate limiter; X.509 parsing (a parameter of ReadTLSSecret); aliasing of Go
  maps between the request and the observed graph; the registration of metrics and of API types;
  GetObjectByReference, NewClientForShoot, CreateOrUpdate and the condition helpers of the Gardener,
  controller-runtime and apimachinery libraries (parameters of \<open>lapi\<close>).
\<close>

section \<open>Properties that span components\<close>

subsection \<open>The stack of a Service fits the deployer\<close>

text \<open>
  C31.  Every stack built from a Service meets the preconditions of an aggregate pass, and for each
  of its listeners the pass finds the default pool and takes exactly that pool's members as the
  listener's backends.
\<close>

theorem service_stack_deployable:
  assumes "BuildLoadBalancerStackWithPortBackends (Some s) cfg backends = Inr stack"
    and "vs \<in> set (st_VirtualServers stack)" and "sr_AggregateVirtualServer req"
  shows "es_preconditions d req stack = None \<and>
    (\<exists>pool \<in> set (st_Pools stack). es_aggregate_pool req stack vs = Inr (Some pool) \<and>
       pool_Name pool = vs_DefaultPoolName vs \<and> stackBackends stack vs = pool_Members pool)"
proof -
  note fields = built_stack_fields [OF assms(1)]
  from assms(2) fields(1) obtain p where p: "p \<in> set (svc_Ports s)" "vs = svc_virtual_server s cfg p" by auto
  then have "svc_pool s cfg p (backends p) \<in> set (st_Pools stack)" "pool_Name (svc_pool s cfg p (backends p)) = vs_DefaultPoolName vs"
    unfolding fields(2) by (auto simp: svc_pool_def svc_virtual_server_def)
  then have "find (\<lambda>pool. pool_Name pool = vs_DefaultPoolName vs) (st_Pools stack) \<noteq> None"
    by (auto simp: find_None_iff)
  then obtain pool where pool: "find (\<lambda>pool. pool_Name pool = vs_DefaultPoolName vs) (st_Pools stack) = Some pool" by blast
  with find_Some_set [OF this] assms(3) show ?thesis
    using p(1) fields by (auto simp: es_preconditions_def es_aggregate_pool_def stackBackends_def)
qed

theorem service_stack_deployable_witness:
  "\<exists>stack req vs. sr_AggregateVirtualServer req \<and> vs \<in> set (st_VirtualServers stack) \<and> es_preconditions full_deployer req stack = None \<and>
     (\<exists>pool \<in> set (st_Pools stack). es_aggregate_pool req stack vs = Inr (Some pool) \<and> stackBackends stack vs = pool_Members pool)"
proof -
  let ?b = "\<lambda>_. [to_node (demo_node ''n1'') 0]"
  have "\<exists>st. BuildLoadBalancerStackWithPortBackends (Some demo_service) DefaultLBConfig ?b = Inr st"
    unfolding BuildLoadBalancerStack_succeeds_iff_ports by (simp add: demo_service_def sample_service_def port_ok_def demo_port_def)
  then obtain stack where stack: "BuildLoadBalancerStackWithPortBackends (Some demo_service) DefaultLBConfig ?b = Inr stack" ..
  from built_stack_fields(1) [OF stack] have vs: "hd (st_VirtualServers stack) \<in> set (st_VirtualServers stack)"
    by (simp add: demo_service_def sample_service_def)
  let ?req = "\<lparr>sr_Stack = Some stack, sr_Current = zero_state, sr_StrictLBServiceID = False, sr_StrictVIPPortID = False,
    sr_RecoverVirtualServersByName = False, sr_LBReadyHook = False, sr_NetworkIDExplicit = False, sr_AggregateVirtualServer = True\<rparr>"
  have req: "sr_AggregateVirtualServer ?req" by simp
  from service_stack_deployable [OF stack vs req, of full_deployer] vs req show ?thesis by blast
qed

subsection \<open>The stack of an IngressGroup does not\<close>

text \<open>
  The pools of an IngressGroup stack can never be reconciled once they have members: the
  builder drops the compute identity of the nodes, so the deployer rejects every such pool before
  it makes a single call for it.
\<close>

theorem group_pool_rejected:
  assumes "BuildGroupLoadBalancerStack (map Some is) cfg opts = Inr stack"
    and "pool \<in> set (st_Pools stack)" and "pool_Members pool \<noteq> []"
  shows "es_pool A d lb vs vsID st pool h =
    (Inl (Errorf ''node %q has no CMP compute identity; expected spec.providerID=cmp://<uuid>'' [bm_NodeName (hd (pool_Members pool))]), h)"
  using pool_without_compute [OF assms(3)] BuildGroup_members_no_compute [OF assms(1)] assms(2) by blast

theorem group_pool_rejected_witness:
  "\<exists>stack pool. BuildGroupLoadBalancerStack (map Some [demo_one]) DefaultLBConfig demo_group_opts = Inr stack \<and>
     pool \<in> set (st_Pools stack) \<and>
     (\<forall>vs st. \<exists>e. es_pool empty_cmp full_deployer ''lb'' vs ''1'' st pool [] = (Inl e, []))"
proof -
  have "case BuildGroupLoadBalancerStack (map Some [demo_one]) DefaultLBConfig demo_group_opts of
      Inl e \<Rightarrow> False | Inr stack \<Rightarrow> st_Pools stack \<noteq> [] \<and> pool_Members (hd (st_Pools stack)) \<noteq> []"
    by code_simp
  then obtain stack where stack: "BuildGroupLoadBalancerStack (map Some [demo_one]) DefaultLBConfig demo_group_opts = Inr stack"
    "hd (st_Pools stack) \<in> set (st_Pools stack)" "pool_Members (hd (st_Pools stack)) \<noteq> []"
    by (auto split: sum.splits)
  from group_pool_rejected [OF stack] stack(1,2) show ?thesis by blast
qed

end
